(* ===== verification/Prelude.thy ===== *)
theory Prelude
  imports Complex_Main "HOL-Library.State_Monad"
begin

text \<open>
  Shared vocabulary of the development: the state-with-errors style in which every handler is
  written, the frame predicate \<open>keeps\<close> and the triple \<open>valid\<close> with their rules, Python's
  \<open>str\<close>/\<open>int\<close> on decimal integers, list slices, and a few facts about \<open>find\<close> and keyed
  update that the table library rests on.
\<close>

named_theorems frame \<open>an action leaves a part of the world as it was\<close>
named_theorems vcg \<open>rules that decompose a triple\<close>
named_theorems run \<open>what one primitive action returns and does\<close>

section \<open>Actions on a world, with raised exceptions as values\<close>

text \<open>
  A handler is an action \<open>('w, 'e + 'a) state\<close>: it reads and writes the world and ends with
  \<open>Inl e\<close> (the exception \<open>e\<close> propagates) or \<open>Inr x\<close> (it returns \<open>x\<close>). An action that
  cannot raise has a plain result type. Python's "call something that may raise, go on with the
  result" is \<open>on_ok\<close>.
\<close>

definition gets :: "('w \<Rightarrow> 'a) \<Rightarrow> ('w, 'a) state" where
  "gets f = State (\<lambda>w. (f w, w))"

definition modify :: "('w \<Rightarrow> 'w) \<Rightarrow> ('w, unit) state" where
  "modify g = State (\<lambda>w. ((), g w))"

definition raise :: "'e \<Rightarrow> ('w, 'e + 'a) state" where
  "raise e = State_Monad.return (Inl e)"

definition ok :: "'a \<Rightarrow> ('w, 'e + 'a) state" where
  "ok x = State_Monad.return (Inr x)"

definition on_ok :: "'e + 'a \<Rightarrow> ('a \<Rightarrow> ('w, 'e + 'b) state) \<Rightarrow> ('w, 'e + 'b) state" where
  "on_ok r f = (case r of Inl e \<Rightarrow> raise e | Inr x \<Rightarrow> f x)"

text \<open>\<open>except_do\<close> is \<open>try: m except Exception: h; raise\<close>.\<close>

definition except_do :: "('w, unit) state \<Rightarrow> ('w, 'e + 'a) state \<Rightarrow> ('w, 'e + 'a) state" where
  "except_do h m =
     State (\<lambda>w. case run_state m w of
        (Inl e, w') \<Rightarrow> (Inl e, snd (run_state h w'))
      | (Inr x, w') \<Rightarrow> (Inr x, w'))"

text \<open>A \<open>for\<close> loop whose body raises nothing, and one whose body may raise.\<close>

fun for_each :: "('a \<Rightarrow> ('w, unit) state) \<Rightarrow> 'a list \<Rightarrow> ('w, unit) state" where
  "for_each f [] = State_Monad.return ()"
| "for_each f (x # xs) = do { f x; for_each f xs }"

fun for_each_ok :: "('a \<Rightarrow> ('w, 'e + unit) state) \<Rightarrow> 'a list \<Rightarrow> ('w, 'e + unit) state" where
  "for_each_ok f [] = ok ()"
| "for_each_ok f (x # xs) = do { r \<leftarrow> f x; on_ok r (\<lambda>_. for_each_ok f xs) }"

lemma run_gets [simp]: "run_state (gets f) w = (f w, w)"
  by (simp add: gets_def)

lemma run_modify [simp]: "run_state (modify g) w = ((), g w)"
  by (simp add: modify_def)

lemma run_raise [simp]: "run_state (raise e) w = (Inl e, w)"
  by (simp add: raise_def)

lemma run_ok [simp]: "run_state (ok x) w = (Inr x, w)"
  by (simp add: ok_def)

lemma on_ok_simps [simp]: "on_ok (Inl e) f = raise e" "on_ok (Inr x) f = f x"
  by (simp_all add: on_ok_def)

lemma run_except_do:
  "run_state (except_do h m) w =
     (case run_state m w of
        (Inl e, w') \<Rightarrow> (Inl e, snd (run_state h w'))
      | (Inr x, w') \<Rightarrow> (Inr x, w'))"
  by (simp add: except_do_def)

lemma run_on_ok:
  "run_state (on_ok r f) w = (case r of Inl e \<Rightarrow> (Inl e, w) | Inr x \<Rightarrow> run_state (f x) w)"
  by (cases r) simp_all

section \<open>Frames\<close>

text \<open>\<open>keeps f m\<close>: whatever \<open>m\<close> does, the part \<open>f\<close> of the world is the same afterwards.\<close>

definition keeps :: "('w \<Rightarrow> 'x) \<Rightarrow> ('w, 'a) state \<Rightarrow> bool" where
  "keeps f m \<longleftrightarrow> (\<forall>w. f (snd (run_state m w)) = f w)"

lemma keepsD: "keeps f m \<Longrightarrow> run_state m w = (x, w') \<Longrightarrow> f w' = f w"
  by (metis keeps_def snd_conv)

lemma keepsI: "(\<And>w. f (snd (run_state m w)) = f w) \<Longrightarrow> keeps f m"
  by (simp add: keeps_def)

lemma keeps_return [frame]: "keeps f (State_Monad.return x)"
  by (simp add: keeps_def)

lemma keeps_gets [frame]: "keeps f (gets g)"
  by (simp add: keeps_def)

lemma keeps_raise [frame]: "keeps f (raise e)"
  by (simp add: keeps_def)

lemma keeps_ok [frame]: "keeps f (ok x)"
  by (simp add: keeps_def)

lemma keeps_modify [frame]: "(\<And>w. f (g w) = f w) \<Longrightarrow> keeps f (modify g)"
  by (simp add: keeps_def)

lemma keeps_bind [frame]:
  "keeps f m \<Longrightarrow> (\<And>x. keeps f (k x)) \<Longrightarrow> keeps f (State_Monad.bind m k)"
  by (simp add: keeps_def split_beta)

lemma keeps_on_ok [frame]: "(\<And>x. r = Inr x \<Longrightarrow> keeps f (k x)) \<Longrightarrow> keeps f (on_ok r k)"
  by (cases r) (simp_all add: keeps_raise)

lemma keeps_if [frame]:
  "(b \<Longrightarrow> keeps f m) \<Longrightarrow> (\<not> b \<Longrightarrow> keeps f n) \<Longrightarrow> keeps f (if b then m else n)"
  by simp

lemma keeps_Let [frame]: "(\<And>x. keeps f (m x)) \<Longrightarrow> keeps f (Let t m)"
  by simp

lemma keeps_case_option [frame]:
  "keeps f m \<Longrightarrow> (\<And>x. keeps f (n x)) \<Longrightarrow> keeps f (case r of None \<Rightarrow> m | Some x \<Rightarrow> n x)"
  by (cases r) simp_all

lemma keeps_case_sum [frame]:
  "(\<And>e. keeps f (m e)) \<Longrightarrow> (\<And>x. keeps f (n x)) \<Longrightarrow> keeps f (case r of Inl e \<Rightarrow> m e | Inr x \<Rightarrow> n x)"
  by (cases r) simp_all

lemma keeps_case_prod [frame]:
  "(\<And>a b. keeps f (m a b)) \<Longrightarrow> keeps f (case p of (a, b) \<Rightarrow> m a b)"
  by (cases p) simp

lemma keeps_case_list [frame]:
  "keeps f m \<Longrightarrow> (\<And>x xs. keeps f (n x xs)) \<Longrightarrow> keeps f (case l of [] \<Rightarrow> m | x # xs \<Rightarrow> n x xs)"
  by (cases l) simp_all

lemma keeps_except_do [frame]: "keeps f h \<Longrightarrow> keeps f m \<Longrightarrow> keeps f (except_do h m)"
  unfolding keeps_def run_except_do by (auto split: prod.splits sum.splits) (metis snd_conv)+

lemma keeps_for_each [frame]: "(\<And>x. keeps f (g x)) \<Longrightarrow> keeps f (for_each g xs)"
  by (induction xs) (auto intro!: frame)

lemma keeps_for_each_ok [frame]: "(\<And>x. keeps f (g x)) \<Longrightarrow> keeps f (for_each_ok g xs)"
  by (induction xs) (auto intro!: frame)

section \<open>Triples\<close>

text \<open>\<open>valid P m Q\<close>: started where \<open>P\<close> holds, \<open>m\<close> ends with a result and a world in \<open>Q\<close>.\<close>

definition valid :: "('w \<Rightarrow> bool) \<Rightarrow> ('w, 'a) state \<Rightarrow> ('a \<Rightarrow> 'w \<Rightarrow> bool) \<Rightarrow> bool" where
  "valid P m Q \<longleftrightarrow> (\<forall>w. P w \<longrightarrow> (case run_state m w of (x, w') \<Rightarrow> Q x w'))"

lemma validD: "valid P m Q \<Longrightarrow> P w \<Longrightarrow> run_state m w = (x, w') \<Longrightarrow> Q x w'"
  by (auto simp: valid_def split_beta)

lemma validI: "(\<And>w x w'. P w \<Longrightarrow> run_state m w = (x, w') \<Longrightarrow> Q x w') \<Longrightarrow> valid P m Q"
  by (auto simp: valid_def split_beta)

lemma valid_pre: "valid P' m Q \<Longrightarrow> (\<And>w. P w \<Longrightarrow> P' w) \<Longrightarrow> valid P m Q"
  by (auto simp: valid_def)

lemma valid_post: "valid P m Q' \<Longrightarrow> (\<And>x w. Q' x w \<Longrightarrow> Q x w) \<Longrightarrow> valid P m Q"
  by (auto simp: valid_def split_beta)

lemma valid_return [vcg]: "valid (Q x) (State_Monad.return x) Q"
  by (simp add: valid_def)

lemma valid_gets [vcg]: "valid (\<lambda>w. Q (f w) w) (gets f) Q"
  by (simp add: valid_def)

lemma valid_modify [vcg]: "valid (\<lambda>w. Q () (g w)) (modify g) Q"
  by (simp add: valid_def)

lemma valid_raise [vcg]: "valid (Q (Inl e)) (raise e) Q"
  by (simp add: valid_def)

lemma valid_ok [vcg]: "valid (Q (Inr x)) (ok x) Q"
  by (simp add: valid_def)

lemma valid_bind [vcg]:
  "(\<And>x. valid (R x) (k x) Q) \<Longrightarrow> valid P m R \<Longrightarrow> valid P (State_Monad.bind m k) Q"
  by (simp add: valid_def split_beta)

lemma valid_keeps: "keeps f m \<Longrightarrow> valid (\<lambda>w. P (f w)) m (\<lambda>_ w. P (f w))"
  by (simp add: valid_def keeps_def split_beta)

section \<open>Lists: slices and keyed update\<close>

text \<open>\<open>.offset(offset).limit(limit)\<close> of a query.\<close>

definition paginate :: "int \<Rightarrow> int \<Rightarrow> 'a list \<Rightarrow> 'a list" where
  "paginate offset limit xs = take (nat limit) (drop (nat offset) xs)"

lemma set_paginate_subset: "set (paginate offset limit xs) \<subseteq> set xs"
  by (auto simp: paginate_def dest!: in_set_takeD in_set_dropD)

lemma length_paginate: "length (paginate offset limit xs) \<le> nat limit"
  by (simp add: paginate_def)

text \<open>The \<open>deque(maxlen=n)\<close>: the last \<open>n\<close> elements survive.\<close>

definition keep_last :: "nat \<Rightarrow> 'a list \<Rightarrow> 'a list" where
  "keep_last n xs = drop (length xs - n) xs"

lemma length_keep_last [simp]: "length (keep_last n xs) = min n (length xs)"
  by (simp add: keep_last_def)

lemma find_key_mem: "find (\<lambda>r. key r = k) xs = Some r \<Longrightarrow> r \<in> set xs \<and> key r = k"
  by (auto simp: find_Some_iff)

lemma find_key_unique:
  "distinct (map key xs) \<Longrightarrow> r \<in> set xs \<Longrightarrow> find (\<lambda>x. key x = key r) xs = Some r"
  by (induction xs) auto

lemma find_key_None: "find (\<lambda>r. key r = k) xs = None \<longleftrightarrow> k \<notin> key ` set xs"
  by (auto simp: find_None_iff)

lemma find_append: "find P (xs @ ys) = (case find P xs of None \<Rightarrow> find P ys | Some x \<Rightarrow> Some x)"
  by (induction xs) auto

lemma find_map_update:
  "find (\<lambda>x. key x = k) (map (\<lambda>x. if key x = key r then r else x) xs) =
     (if k = key r then (if key r \<in> key ` set xs then Some r else None) else find (\<lambda>x. key x = k) xs)"
  by (induction xs) auto

lemma find_map_replaced:
  "find P xs = Some x \<Longrightarrow> key x = key r \<Longrightarrow> P r \<Longrightarrow>
     find P (map (\<lambda>y. if key y = key r then r else y) xs) = Some r"
  by (induction xs) (auto split: if_splits)

lemma key_map_update [simp]:
  "map key (map (\<lambda>x. if key x = key r then r else x) xs) = map key xs"
  by (induction xs) auto

section \<open>Python's \<open>str\<close> and \<open>int\<close> on decimal integers\<close>

definition digit_char :: "nat \<Rightarrow> char" where
  "digit_char d = char_of (48 + d)"

fun str_nat :: "nat \<Rightarrow> string" where
  "str_nat n = (if n < 10 then [digit_char n] else str_nat (n div 10) @ [digit_char (n mod 10)])"

declare str_nat.simps [simp del]

definition str_int :: "int \<Rightarrow> string" where
  "str_int i = (if i < 0 then CHR ''-'' # str_nat (nat (- i)) else str_nat (nat i))"

definition digit_val :: "char \<Rightarrow> nat option" where
  "digit_val c = (let n = of_char c :: nat in if 48 \<le> n \<and> n \<le> 57 then Some (n - 48) else None)"

fun parse_digits :: "nat \<Rightarrow> string \<Rightarrow> nat option" where
  "parse_digits acc [] = Some acc"
| "parse_digits acc (c # cs) =
     (case digit_val c of None \<Rightarrow> None | Some d \<Rightarrow> parse_digits (10 * acc + d) cs)"

text \<open>\<open>int(s)\<close> on a sign and ASCII digits; \<open>None\<close> is \<open>ValueError\<close>.\<close>

definition parse_int :: "string \<Rightarrow> int option" where
  "parse_int s =
     (case s of
        [] \<Rightarrow> None
      | c # cs \<Rightarrow>
          if c = CHR ''-'' then (if cs = [] then None else map_option (\<lambda>n. - int n) (parse_digits 0 cs))
          else map_option int (parse_digits 0 s))"

lemma digit_val_digit_char: "d < 10 \<Longrightarrow> digit_val (digit_char d) = Some d"
  by (simp add: digit_val_def digit_char_def of_char_of Let_def)

lemma digit_char_not_minus: "d < 10 \<Longrightarrow> digit_char d \<noteq> CHR ''-''"
proof
  assume d: "d < 10" and eq: "digit_char d = CHR ''-''"
  have "digit_val (CHR ''-'') = None" by code_simp
  with eq digit_val_digit_char [OF d] show False by simp
qed

lemma parse_digits_append:
  "parse_digits acc (xs @ ys) =
     (case parse_digits acc xs of None \<Rightarrow> None | Some n \<Rightarrow> parse_digits n ys)"
  by (induction xs arbitrary: acc) (auto split: option.splits)

lemma str_nat_nonempty: "str_nat n \<noteq> []"
  by (subst str_nat.simps) simp

lemma parse_digits_str_nat: "parse_digits 0 (str_nat n) = Some n"
proof (induction n rule: str_nat.induct)
  case (1 n)
  show ?case
  proof (cases "n < 10")
    case True
    then show ?thesis by (subst str_nat.simps) (simp add: digit_val_digit_char)
  next
    case False
    with 1 have "parse_digits 0 (str_nat (n div 10)) = Some (n div 10)" by simp
    with False show ?thesis
      by (subst str_nat.simps) (simp add: parse_digits_append digit_val_digit_char)
  qed
qed

lemma hd_str_nat: "hd (str_nat n) \<noteq> CHR ''-''"
proof (induction n rule: str_nat.induct)
  case (1 n)
  show ?case
  proof (cases "n < 10")
    case True
    then show ?thesis by (subst str_nat.simps) (simp add: digit_char_not_minus)
  next
    case False
    with 1 have "hd (str_nat (n div 10)) \<noteq> CHR ''-''" by simp
    with False show ?thesis
      by (subst str_nat.simps) (simp add: str_nat_nonempty)
  qed
qed

lemma parse_int_str_int: "parse_int (str_int i) = Some i"
proof (cases "i < 0")
  case True
  then show ?thesis
    by (simp add: parse_int_def str_int_def str_nat_nonempty parse_digits_str_nat)
next
  case False
  obtain c cs where s: "str_nat (nat i) = c # cs"
    using str_nat_nonempty by (cases "str_nat (nat i)") auto
  with hd_str_nat [of "nat i"] have "c \<noteq> CHR ''-''" by simp
  with False s parse_digits_str_nat [of "nat i"] show ?thesis
    by (simp add: parse_int_def str_int_def)
qed

lemma str_int_inject [simp]: "str_int i = str_int j \<longleftrightarrow> i = j"
  by (metis option.inject parse_int_str_int)

end
