(* ===== verification/Table.thy ===== *)
theory Table
  imports Prelude
begin

text \<open>
  A database table: its rows in insertion order and the next primary key. The operations are the
  ones the repositories under src/app/repositories use through the ORM session: look a row up by
  key, insert with a fresh key, write a row back, delete by predicate. The locale
  \<open>keyed_store\<close> is the interface every repository offers to the services; it is interpreted for
  each table of the database in the theory \<open>Database\<close>.
\<close>

record 'r table =
  rows :: "'r list"
  next_id :: int

definition empty_table :: "'r table" where
  "empty_table = \<lparr>rows = [], next_id = 1\<rparr>"

definition table_get :: "('r \<Rightarrow> int) \<Rightarrow> int \<Rightarrow> 'r table \<Rightarrow> 'r option" where
  "table_get key k t = find (\<lambda>r. key r = k) (rows t)"

definition table_put :: "('r \<Rightarrow> int) \<Rightarrow> 'r \<Rightarrow> 'r table \<Rightarrow> 'r table" where
  "table_put key r t = t\<lparr>rows := map (\<lambda>x. if key x = key r then r else x) (rows t)\<rparr>"

definition table_add :: "'r \<Rightarrow> 'r table \<Rightarrow> 'r table" where
  "table_add r t = t\<lparr>rows := rows t @ [r], next_id := next_id t + 1\<rparr>"

definition table_delete :: "('r \<Rightarrow> bool) \<Rightarrow> 'r table \<Rightarrow> 'r table" where
  "table_delete P t = t\<lparr>rows := filter (\<lambda>r. \<not> P r) (rows t)\<rparr>"

text \<open>Primary keys are distinct, positive and below the next one.\<close>

definition table_ok :: "('r \<Rightarrow> int) \<Rightarrow> 'r table \<Rightarrow> bool" where
  "table_ok key t \<longleftrightarrow>
     distinct (map key (rows t)) \<and> (\<forall>r \<in> set (rows t). 0 < key r \<and> key r < next_id t) \<and> 0 < next_id t"

lemma table_ok_empty [simp]: "table_ok key empty_table"
  by (simp add: table_ok_def empty_table_def)

lemma table_ok_put: "table_ok key t \<Longrightarrow> table_ok key (table_put key r t)"
  unfolding table_ok_def table_put_def by (auto simp del: map_map)

lemma table_ok_add: "table_ok key t \<Longrightarrow> key r = next_id t \<Longrightarrow> table_ok key (table_add r t)"
  by (force simp: table_ok_def table_add_def)

lemma table_ok_delete: "table_ok key t \<Longrightarrow> table_ok key (table_delete P t)"
  by (auto simp: table_ok_def table_delete_def distinct_map_filter)

lemma table_get_fresh: "table_ok key t \<Longrightarrow> table_get key (next_id t) t = None"
  by (force simp: table_ok_def table_get_def find_None_iff)

lemma rows_put: "rows (table_put key r t) = map (\<lambda>x. if key x = key r then r else x) (rows t)"
  by (simp add: table_put_def)

lemma rows_add [simp]: "rows (table_add r t) = rows t @ [r]"
  by (simp add: table_add_def)

lemma next_id_add [simp]: "next_id (table_add r t) = next_id t + 1"
  by (simp add: table_add_def)

lemma next_id_put [simp]: "next_id (table_put key r t) = next_id t"
  by (simp add: table_put_def)

lemma table_get_mem: "table_get key k t = Some r \<Longrightarrow> r \<in> set (rows t) \<and> key r = k"
  by (auto simp: table_get_def dest: find_key_mem)

lemma table_get_unique: "table_ok key t \<Longrightarrow> r \<in> set (rows t) \<Longrightarrow> table_get key (key r) t = Some r"
  by (auto simp: table_get_def table_ok_def intro: find_key_unique)

lemma table_put_mem:
  "x \<in> set (rows (table_put key r t)) \<longleftrightarrow>
     (x \<in> set (rows t) \<and> key x \<noteq> key r) \<or> (x = r \<and> key r \<in> key ` set (rows t))"
  by (force simp: rows_put image_iff)

section \<open>The interface a repository offers\<close>

locale keyed_store =
  fixes key :: "'r \<Rightarrow> int"
    and get :: "int \<Rightarrow> 'd \<Rightarrow> 'r option"
    and put :: "'r \<Rightarrow> 'd \<Rightarrow> 'd"
    and add :: "'r \<Rightarrow> 'd \<Rightarrow> 'd"
    and all :: "'d \<Rightarrow> 'r list"
  assumes get_all: "get i d = find (\<lambda>r. key r = i) (all d)"
    and all_put: "all (put r d) = map (\<lambda>x. if key x = key r then r else x) (all d)"
    and all_add: "all (add r d) = all d @ [r]"
begin

lemma get_key: "get i d = Some r \<Longrightarrow> key r = i"
  by (simp add: get_all find_Some_iff) blast

lemma get_mem: "get i d = Some r \<Longrightarrow> r \<in> set (all d)"
  using find_key_mem by (fastforce simp: get_all)

lemma get_put_same:
  assumes "get i d = Some r0" and "key r = i"
  shows "get i (put r d) = Some r"
proof -
  have "key r \<in> key ` set (all d)"
    using get_mem [OF assms(1)] get_key [OF assms(1)] assms(2) by force
  with assms(2) show ?thesis unfolding get_all all_put find_map_update by simp
qed

lemma get_put_other: "i \<noteq> key r \<Longrightarrow> get i (put r d) = get i d"
  by (simp add: get_all all_put find_map_update)

lemma get_put: "get (key r) d = Some r0 \<Longrightarrow> get i (put r d) = (if i = key r then Some r else get i d)"
  by (simp add: get_put_same get_put_other)

lemma get_add_new: "get (key r) d = None \<Longrightarrow> get (key r) (add r d) = Some r"
  by (simp add: get_all all_add find_append)

lemma get_add_other: "i \<noteq> key r \<Longrightarrow> get i (add r d) = get i d"
  by (simp add: get_all all_add find_append split: option.splits)

lemma get_add_old: "get i d = Some r0 \<Longrightarrow> get i (add r d) = Some r0"
  by (simp add: get_all all_add find_append)

lemma get_unique: "distinct (map key (all d)) \<Longrightarrow> r \<in> set (all d) \<Longrightarrow> get (key r) d = Some r"
  by (simp add: get_all find_key_unique)

lemma put_get_same: "distinct (map key (all d)) \<Longrightarrow> get (key r) d = Some r \<Longrightarrow> all (put r d) = all d"
  unfolding get_all all_put
  by (rule map_idI) (metis find_key_unique option.inject)

lemma map_key_put: "map key (all (put r d)) = map key (all d)"
  unfolding all_put by (rule key_map_update)

lemma put_cases:
  "x \<in> set (all (put r d)) \<Longrightarrow> (x \<in> set (all d) \<and> key x \<noteq> key r) \<or> x = r"
  by (auto simp: all_put)

end

end
