(* ===== verification/Model.thy ===== *)
theory Model
  imports Table
begin

text \<open>
  The tables of src/app/models: every enum as a datatype with the source's members and every
  mapped class as a record with the source's columns, in order (relationships are lookups through
  the foreign keys, so they are not columns). A field carries the prefix of its table, because
  Isabelle's selectors share one name space: \<open>b_\<close> bookings, \<open>r_\<close> rides, \<open>p_\<close> payments,
  \<open>u_\<close> users, and so on. A datetime column is an instant, in microseconds since the epoch (UTC); a
  \<open>Decimal\<close> column is a rational; a \<open>Float\<close> column is a real; \<open>None\<close> is \<open>None\<close>.
\<close>

type_synonym instant = int

definition seconds :: "int \<Rightarrow> int" where "seconds n = n * 1000000"
definition minutes :: "int \<Rightarrow> int" where "minutes n = seconds (n * 60)"
definition hours :: "int \<Rightarrow> int" where "hours n = minutes (n * 60)"
definition days :: "int \<Rightarrow> int" where "days n = hours (n * 24)"

lemmas time_units = seconds_def minutes_def hours_def days_def

text \<open>Python's truth value of an optional string: \<open>None\<close> and the empty string are false.\<close>

definition truthy :: "string option \<Rightarrow> bool" where
  "truthy s = (case s of None \<Rightarrow> False | Some t \<Rightarrow> t \<noteq> [])"

lemma truthy_simps [simp]: "\<not> truthy None" "truthy (Some t) \<longleftrightarrow> t \<noteq> []"
  by (simp_all add: truthy_def)

lemma truthyE: "truthy s \<Longrightarrow> (\<And>t. s = Some t \<Longrightarrow> t \<noteq> [] \<Longrightarrow> P) \<Longrightarrow> P"
  by (cases s) auto

definition or_else :: "string option \<Rightarrow> string option \<Rightarrow> string option" where
  "or_else a b = (if truthy a then a else b)"

text \<open>
  A Python value as the services put it into a dictionary that is dumped to JSON (audit metadata,
  webhook payloads, published events) or read it out of one (the answers of the payment gateway). \<open>metadata_json\<close>
  and \<open>payload_json\<close> keep the dictionary that is dumped.
\<close>

datatype py =
  PyNone | PyBool bool | PyInt int | PyStr string | PyDecimal rat | PyFloat real
| PyDatetime instant | PyList "py list" | PyDict "(string \<times> py) list"

section \<open>Users\<close>

datatype user_role = Driver | Passenger

datatype driver_verification_status =
  VNot_required | VPending | VVerified | VRejected

record user =
  u_id :: int
  u_full_name :: string
  u_email :: string
  u_phone_number :: "string option"
  u_hashed_password :: string
  u_role :: user_role
  u_bio :: "string option"
  u_rating :: real
  u_email_verified :: bool
  u_email_verified_at :: "instant option"
  u_driver_verification_status :: driver_verification_status
  u_vehicle_make :: "string option"
  u_vehicle_model :: "string option"
  u_vehicle_color :: "string option"
  u_vehicle_plate_number :: "string option"
  u_driver_license_number :: "string option"
  u_driver_verification_rejection_reason :: "string option"
  u_driver_profile_submitted_at :: "instant option"
  u_driver_profile_reviewed_at :: "instant option"
  u_failed_login_attempts :: int
  u_locked_until :: "instant option"
  u_created_at :: instant

section \<open>Rides and their locations\<close>

datatype ride_status = RScheduled | RFull | RCompleted | RCancelled

record ride =
  r_id :: int
  r_driver_id :: int
  r_origin :: string
  r_destination :: string
  r_origin_latitude :: "real option"
  r_origin_longitude :: "real option"
  r_destination_latitude :: "real option"
  r_destination_longitude :: "real option"
  r_departure_time :: instant
  r_available_seats :: int
  r_price_per_seat :: rat
  r_vehicle_details :: "string option"
  r_notes :: "string option"
  r_status :: ride_status
  r_is_active :: bool
  r_created_at :: instant

record ride_location =
  l_id :: int
  l_ride_id :: int
  l_driver_id :: int
  l_latitude :: real
  l_longitude :: real
  l_heading :: "real option"
  l_speed_kmph :: "real option"
  l_created_at :: instant

section \<open>Bookings\<close>

datatype booking_status =
  BPending | BAccepted | BRejected | BCancelled_by_passenger | BCancelled_by_driver | BCompleted

record booking =
  b_id :: int
  b_ride_id :: int
  b_passenger_id :: int
  b_status :: booking_status
  b_notes :: "string option"
  b_boarding_otp_hash :: "string option"
  b_boarding_otp_expires_at :: "instant option"
  b_boarded_at :: "instant option"
  b_share_token_hash :: "string option"
  b_share_token_created_at :: "instant option"
  b_share_token_revoked_at :: "instant option"
  b_created_at :: instant

section \<open>Payments and their webhook events\<close>

datatype payment_status = PPending | PAuthorized | PCaptured | PCancelled | PRefunded | PFailed

datatype payment_provider = Mock | Razorpay

record payment =
  p_id :: int
  p_booking_id :: int
  p_payer_id :: int
  p_amount :: rat
  p_amount_minor :: int
  p_currency :: string
  p_status :: payment_status
  p_provider :: payment_provider
  p_provider_order_id :: string
  p_provider_payment_id :: "string option"
  p_failure_reason :: "string option"
  p_created_at :: instant
  p_updated_at :: instant

record payment_event =
  e_id :: int
  e_payment_id :: "int option"
  e_provider :: payment_provider
  e_provider_event_id :: string
  e_event_type :: string
  e_payload_json :: "(string \<times> py) list"
  e_processed_at :: "instant option"
  e_created_at :: instant

section \<open>Dispatch: presence, requests, dismissals\<close>

datatype ride_request_status = QOpen | QMatched | QCancelled | QExpired

record driver_availability =
  v_id :: int
  v_driver_id :: int
  v_latitude :: real
  v_longitude :: real
  v_heading :: "real option"
  v_is_online :: bool
  v_updated_at :: instant

record ride_request =
  q_id :: int
  q_passenger_id :: int
  q_origin :: string
  q_destination :: string
  q_origin_latitude :: real
  q_origin_longitude :: real
  q_destination_latitude :: real
  q_destination_longitude :: real
  q_requested_departure_time :: instant
  q_notes :: "string option"
  q_status :: ride_request_status
  q_matched_driver_id :: "int option"
  q_matched_ride_id :: "int option"
  q_matched_booking_id :: "int option"
  q_created_at :: instant

record driver_request_dismissal =
  d_id :: int
  d_driver_id :: int
  d_request_id :: int
  d_dismissed_at :: instant

section \<open>Notifications, messages, reviews, incidents, audit log\<close>

datatype notification_type =
  NBooking_requested | NBooking_accepted | NBooking_rejected | NBooking_cancelled
| NBooking_completed | NRide_cancelled | NDispatch_matched | NDispatch_cancelled
| NDispatch_expired | NDriver_verification_approved | NDriver_verification_rejected
| NIncident_updated

record notification =
  n_id :: int
  n_recipient_id :: int
  n_type :: notification_type
  n_title :: string
  n_body :: string
  n_is_read :: bool
  n_read_at :: "instant option"
  n_created_at :: instant

record message =
  m_id :: int
  m_booking_id :: int
  m_sender_id :: int
  m_content :: string
  m_message_type :: string
  m_created_at :: instant
  m_seen_at :: "instant option"

record review =
  w_id :: int
  w_reviewer_id :: int
  w_reviewee_id :: int
  w_booking_id :: int
  w_rating :: int
  w_comment :: "string option"
  w_created_at :: instant

datatype incident_status = IOpen | IReviewing | IResolved | IDismissed

datatype incident_severity = SLow | SMedium | SHigh | SEmergency

record incident_report =
  i_id :: int
  i_reporter_id :: int
  i_ride_id :: "int option"
  i_booking_id :: "int option"
  i_ride_request_id :: "int option"
  i_title :: string
  i_description :: string
  i_severity :: incident_severity
  i_status :: incident_status
  i_support_notes :: "string option"
  i_resolved_at :: "instant option"
  i_created_at :: instant
  i_updated_at :: instant

record audit_log =
  a_id :: int
  a_actor_user_id :: "int option"
  a_action :: string
  a_entity_type :: "string option"
  a_entity_id :: "string option"
  a_severity :: string
  a_request_id :: "string option"
  a_metadata_json :: "(string \<times> py) list option"
  a_created_at :: instant

section \<open>The \<open>.value\<close> of an enum member\<close>

fun booking_status_value :: "booking_status \<Rightarrow> string" where
  "booking_status_value BPending = ''pending''"
| "booking_status_value BAccepted = ''accepted''"
| "booking_status_value BRejected = ''rejected''"
| "booking_status_value BCancelled_by_passenger = ''cancelled_by_passenger''"
| "booking_status_value BCancelled_by_driver = ''cancelled_by_driver''"
| "booking_status_value BCompleted = ''completed''"

fun payment_status_value :: "payment_status \<Rightarrow> string" where
  "payment_status_value PPending = ''pending''"
| "payment_status_value PAuthorized = ''authorized''"
| "payment_status_value PCaptured = ''captured''"
| "payment_status_value PCancelled = ''cancelled''"
| "payment_status_value PRefunded = ''refunded''"
| "payment_status_value PFailed = ''failed''"

fun notification_type_value :: "notification_type \<Rightarrow> string" where
  "notification_type_value NBooking_requested = ''booking_requested''"
| "notification_type_value NBooking_accepted = ''booking_accepted''"
| "notification_type_value NBooking_rejected = ''booking_rejected''"
| "notification_type_value NBooking_cancelled = ''booking_cancelled''"
| "notification_type_value NBooking_completed = ''booking_completed''"
| "notification_type_value NRide_cancelled = ''ride_cancelled''"
| "notification_type_value NDispatch_matched = ''dispatch_matched''"
| "notification_type_value NDispatch_cancelled = ''dispatch_cancelled''"
| "notification_type_value NDispatch_expired = ''dispatch_expired''"
| "notification_type_value NDriver_verification_approved = ''driver_verification_approved''"
| "notification_type_value NDriver_verification_rejected = ''driver_verification_rejected''"
| "notification_type_value NIncident_updated = ''incident_updated''"

end
