(* ===== verification/Database.thy ===== *)
theory Database
  imports Model
begin

text \<open>
  The database as one record of tables, the row operations of each table, and the integrity
  constraints that src/app/models declares on them. Every table's operations interpret
  \<open>keyed_store\<close>, so the services' proofs use the same few laws for each of them.
\<close>

record database =
  users_t :: "user table"
  rides_t :: "ride table"
  ride_locations_t :: "ride_location table"
  bookings_t :: "booking table"
  payments_t :: "payment table"
  payment_events_t :: "payment_event table"
  availability_t :: "driver_availability table"
  ride_requests_t :: "ride_request table"
  dismissals_t :: "driver_request_dismissal table"
  notifications_t :: "notification table"
  messages_t :: "message table"
  reviews_t :: "review table"
  incidents_t :: "incident_report table"
  audit_logs_t :: "audit_log table"

definition empty_database :: database where
  "empty_database = \<lparr>users_t = empty_table,
     rides_t = empty_table,
     ride_locations_t = empty_table,
     bookings_t = empty_table,
     payments_t = empty_table,
     payment_events_t = empty_table,
     availability_t = empty_table,
     ride_requests_t = empty_table,
     dismissals_t = empty_table,
     notifications_t = empty_table,
     messages_t = empty_table,
     reviews_t = empty_table,
     incidents_t = empty_table,
     audit_logs_t = empty_table\<rparr>"

section \<open>Row operations\<close>

definition get_user :: "int \<Rightarrow> database \<Rightarrow> user option" where
  "get_user i d = table_get u_id i (users_t d)"

definition put_user :: "user \<Rightarrow> database \<Rightarrow> database" where
  "put_user x d = d\<lparr>users_t := table_put u_id x (users_t d)\<rparr>"

definition add_user :: "user \<Rightarrow> database \<Rightarrow> database" where
  "add_user x d = d\<lparr>users_t := table_add x (users_t d)\<rparr>"

interpretation user_store: keyed_store u_id get_user put_user add_user "\<lambda>d. rows (users_t d)"
  by unfold_locales (simp_all add: get_user_def put_user_def add_user_def table_get_def rows_put)

definition get_ride :: "int \<Rightarrow> database \<Rightarrow> ride option" where
  "get_ride i d = table_get r_id i (rides_t d)"

definition put_ride :: "ride \<Rightarrow> database \<Rightarrow> database" where
  "put_ride x d = d\<lparr>rides_t := table_put r_id x (rides_t d)\<rparr>"

definition add_ride :: "ride \<Rightarrow> database \<Rightarrow> database" where
  "add_ride x d = d\<lparr>rides_t := table_add x (rides_t d)\<rparr>"

interpretation ride_store: keyed_store r_id get_ride put_ride add_ride "\<lambda>d. rows (rides_t d)"
  by unfold_locales (simp_all add: get_ride_def put_ride_def add_ride_def table_get_def rows_put)

definition get_location :: "int \<Rightarrow> database \<Rightarrow> ride_location option" where
  "get_location i d = table_get l_id i (ride_locations_t d)"

definition put_location :: "ride_location \<Rightarrow> database \<Rightarrow> database" where
  "put_location x d = d\<lparr>ride_locations_t := table_put l_id x (ride_locations_t d)\<rparr>"

definition add_location :: "ride_location \<Rightarrow> database \<Rightarrow> database" where
  "add_location x d = d\<lparr>ride_locations_t := table_add x (ride_locations_t d)\<rparr>"

interpretation location_store: keyed_store l_id get_location put_location add_location "\<lambda>d. rows (ride_locations_t d)"
  by unfold_locales (simp_all add: get_location_def put_location_def add_location_def table_get_def rows_put)

definition get_booking :: "int \<Rightarrow> database \<Rightarrow> booking option" where
  "get_booking i d = table_get b_id i (bookings_t d)"

definition put_booking :: "booking \<Rightarrow> database \<Rightarrow> database" where
  "put_booking x d = d\<lparr>bookings_t := table_put b_id x (bookings_t d)\<rparr>"

definition add_booking :: "booking \<Rightarrow> database \<Rightarrow> database" where
  "add_booking x d = d\<lparr>bookings_t := table_add x (bookings_t d)\<rparr>"

interpretation booking_store: keyed_store b_id get_booking put_booking add_booking "\<lambda>d. rows (bookings_t d)"
  by unfold_locales (simp_all add: get_booking_def put_booking_def add_booking_def table_get_def rows_put)

definition get_payment :: "int \<Rightarrow> database \<Rightarrow> payment option" where
  "get_payment i d = table_get p_id i (payments_t d)"

definition put_payment :: "payment \<Rightarrow> database \<Rightarrow> database" where
  "put_payment x d = d\<lparr>payments_t := table_put p_id x (payments_t d)\<rparr>"

definition add_payment :: "payment \<Rightarrow> database \<Rightarrow> database" where
  "add_payment x d = d\<lparr>payments_t := table_add x (payments_t d)\<rparr>"

interpretation payment_store: keyed_store p_id get_payment put_payment add_payment "\<lambda>d. rows (payments_t d)"
  by unfold_locales (simp_all add: get_payment_def put_payment_def add_payment_def table_get_def rows_put)

definition get_payment_event :: "int \<Rightarrow> database \<Rightarrow> payment_event option" where
  "get_payment_event i d = table_get e_id i (payment_events_t d)"

definition put_payment_event :: "payment_event \<Rightarrow> database \<Rightarrow> database" where
  "put_payment_event x d = d\<lparr>payment_events_t := table_put e_id x (payment_events_t d)\<rparr>"

definition add_payment_event :: "payment_event \<Rightarrow> database \<Rightarrow> database" where
  "add_payment_event x d = d\<lparr>payment_events_t := table_add x (payment_events_t d)\<rparr>"

interpretation payment_event_store: keyed_store e_id get_payment_event put_payment_event add_payment_event "\<lambda>d. rows (payment_events_t d)"
  by unfold_locales (simp_all add: get_payment_event_def put_payment_event_def add_payment_event_def table_get_def rows_put)

definition get_availability :: "int \<Rightarrow> database \<Rightarrow> driver_availability option" where
  "get_availability i d = table_get v_id i (availability_t d)"

definition put_availability :: "driver_availability \<Rightarrow> database \<Rightarrow> database" where
  "put_availability x d = d\<lparr>availability_t := table_put v_id x (availability_t d)\<rparr>"

definition add_availability :: "driver_availability \<Rightarrow> database \<Rightarrow> database" where
  "add_availability x d = d\<lparr>availability_t := table_add x (availability_t d)\<rparr>"

interpretation availability_store: keyed_store v_id get_availability put_availability add_availability "\<lambda>d. rows (availability_t d)"
  by unfold_locales (simp_all add: get_availability_def put_availability_def add_availability_def table_get_def rows_put)

definition get_request :: "int \<Rightarrow> database \<Rightarrow> ride_request option" where
  "get_request i d = table_get q_id i (ride_requests_t d)"

definition put_request :: "ride_request \<Rightarrow> database \<Rightarrow> database" where
  "put_request x d = d\<lparr>ride_requests_t := table_put q_id x (ride_requests_t d)\<rparr>"

definition add_request :: "ride_request \<Rightarrow> database \<Rightarrow> database" where
  "add_request x d = d\<lparr>ride_requests_t := table_add x (ride_requests_t d)\<rparr>"

interpretation request_store: keyed_store q_id get_request put_request add_request "\<lambda>d. rows (ride_requests_t d)"
  by unfold_locales (simp_all add: get_request_def put_request_def add_request_def table_get_def rows_put)

definition get_dismissal :: "int \<Rightarrow> database \<Rightarrow> driver_request_dismissal option" where
  "get_dismissal i d = table_get d_id i (dismissals_t d)"

definition put_dismissal :: "driver_request_dismissal \<Rightarrow> database \<Rightarrow> database" where
  "put_dismissal x d = d\<lparr>dismissals_t := table_put d_id x (dismissals_t d)\<rparr>"

definition add_dismissal :: "driver_request_dismissal \<Rightarrow> database \<Rightarrow> database" where
  "add_dismissal x d = d\<lparr>dismissals_t := table_add x (dismissals_t d)\<rparr>"

interpretation dismissal_store: keyed_store d_id get_dismissal put_dismissal add_dismissal "\<lambda>d. rows (dismissals_t d)"
  by unfold_locales (simp_all add: get_dismissal_def put_dismissal_def add_dismissal_def table_get_def rows_put)

definition get_notification :: "int \<Rightarrow> database \<Rightarrow> notification option" where
  "get_notification i d = table_get n_id i (notifications_t d)"

definition put_notification :: "notification \<Rightarrow> database \<Rightarrow> database" where
  "put_notification x d = d\<lparr>notifications_t := table_put n_id x (notifications_t d)\<rparr>"

definition add_notification :: "notification \<Rightarrow> database \<Rightarrow> database" where
  "add_notification x d = d\<lparr>notifications_t := table_add x (notifications_t d)\<rparr>"

interpretation notification_store: keyed_store n_id get_notification put_notification add_notification "\<lambda>d. rows (notifications_t d)"
  by unfold_locales (simp_all add: get_notification_def put_notification_def add_notification_def table_get_def rows_put)

definition get_message :: "int \<Rightarrow> database \<Rightarrow> message option" where
  "get_message i d = table_get m_id i (messages_t d)"

definition put_message :: "message \<Rightarrow> database \<Rightarrow> database" where
  "put_message x d = d\<lparr>messages_t := table_put m_id x (messages_t d)\<rparr>"

definition add_message :: "message \<Rightarrow> database \<Rightarrow> database" where
  "add_message x d = d\<lparr>messages_t := table_add x (messages_t d)\<rparr>"

interpretation message_store: keyed_store m_id get_message put_message add_message "\<lambda>d. rows (messages_t d)"
  by unfold_locales (simp_all add: get_message_def put_message_def add_message_def table_get_def rows_put)

definition get_review :: "int \<Rightarrow> database \<Rightarrow> review option" where
  "get_review i d = table_get w_id i (reviews_t d)"

definition put_review :: "review \<Rightarrow> database \<Rightarrow> database" where
  "put_review x d = d\<lparr>reviews_t := table_put w_id x (reviews_t d)\<rparr>"

definition add_review :: "review \<Rightarrow> database \<Rightarrow> database" where
  "add_review x d = d\<lparr>reviews_t := table_add x (reviews_t d)\<rparr>"

interpretation review_store: keyed_store w_id get_review put_review add_review "\<lambda>d. rows (reviews_t d)"
  by unfold_locales (simp_all add: get_review_def put_review_def add_review_def table_get_def rows_put)

definition get_incident :: "int \<Rightarrow> database \<Rightarrow> incident_report option" where
  "get_incident i d = table_get i_id i (incidents_t d)"

definition put_incident :: "incident_report \<Rightarrow> database \<Rightarrow> database" where
  "put_incident x d = d\<lparr>incidents_t := table_put i_id x (incidents_t d)\<rparr>"

definition add_incident :: "incident_report \<Rightarrow> database \<Rightarrow> database" where
  "add_incident x d = d\<lparr>incidents_t := table_add x (incidents_t d)\<rparr>"

interpretation incident_store: keyed_store i_id get_incident put_incident add_incident "\<lambda>d. rows (incidents_t d)"
  by unfold_locales (simp_all add: get_incident_def put_incident_def add_incident_def table_get_def rows_put)

definition get_audit :: "int \<Rightarrow> database \<Rightarrow> audit_log option" where
  "get_audit i d = table_get a_id i (audit_logs_t d)"

definition put_audit :: "audit_log \<Rightarrow> database \<Rightarrow> database" where
  "put_audit x d = d\<lparr>audit_logs_t := table_put a_id x (audit_logs_t d)\<rparr>"

definition add_audit :: "audit_log \<Rightarrow> database \<Rightarrow> database" where
  "add_audit x d = d\<lparr>audit_logs_t := table_add x (audit_logs_t d)\<rparr>"

interpretation audit_store: keyed_store a_id get_audit put_audit add_audit "\<lambda>d. rows (audit_logs_t d)"
  by unfold_locales (simp_all add: get_audit_def put_audit_def add_audit_def table_get_def rows_put)

lemmas put_defs =
  put_user_def
  put_ride_def
  put_location_def
  put_booking_def
  put_payment_def
  put_payment_event_def
  put_availability_def
  put_request_def
  put_dismissal_def
  put_notification_def
  put_message_def
  put_review_def
  put_incident_def
  put_audit_def

lemmas add_defs =
  add_user_def
  add_ride_def
  add_location_def
  add_booking_def
  add_payment_def
  add_payment_event_def
  add_availability_def
  add_request_def
  add_dismissal_def
  add_notification_def
  add_message_def
  add_review_def
  add_incident_def
  add_audit_def

lemmas get_defs =
  get_user_def
  get_ride_def
  get_location_def
  get_booking_def
  get_payment_def
  get_payment_event_def
  get_availability_def
  get_request_def
  get_dismissal_def
  get_notification_def
  get_message_def
  get_review_def
  get_incident_def
  get_audit_def

text \<open>Every table has distinct keys below its next key.\<close>

definition keys_ok :: "database \<Rightarrow> bool" where
  "keys_ok d \<longleftrightarrow>
     table_ok u_id (users_t d) \<and> table_ok r_id (rides_t d) \<and>
      table_ok l_id (ride_locations_t d) \<and> table_ok b_id (bookings_t d) \<and>
      table_ok p_id (payments_t d) \<and> table_ok e_id (payment_events_t d) \<and>
      table_ok v_id (availability_t d) \<and> table_ok q_id (ride_requests_t d) \<and>
      table_ok d_id (dismissals_t d) \<and> table_ok n_id (notifications_t d) \<and>
      table_ok m_id (messages_t d) \<and> table_ok w_id (reviews_t d) \<and>
      table_ok i_id (incidents_t d) \<and> table_ok a_id (audit_logs_t d)"

lemma keys_ok_empty: "keys_ok empty_database"
  by (simp add: keys_ok_def empty_database_def)

lemma keys_ok_put_user [intro]: "keys_ok d \<Longrightarrow> keys_ok (put_user x d)"
  by (simp add: keys_ok_def put_user_def table_ok_put)

lemma keys_ok_add_user [intro]:
  "keys_ok d \<Longrightarrow> u_id x = next_id (users_t d) \<Longrightarrow> keys_ok (add_user x d)"
  by (simp add: keys_ok_def add_user_def table_ok_add)

lemma keys_ok_put_ride [intro]: "keys_ok d \<Longrightarrow> keys_ok (put_ride x d)"
  by (simp add: keys_ok_def put_ride_def table_ok_put)

lemma keys_ok_add_ride [intro]:
  "keys_ok d \<Longrightarrow> r_id x = next_id (rides_t d) \<Longrightarrow> keys_ok (add_ride x d)"
  by (simp add: keys_ok_def add_ride_def table_ok_add)

lemma keys_ok_put_location [intro]: "keys_ok d \<Longrightarrow> keys_ok (put_location x d)"
  by (simp add: keys_ok_def put_location_def table_ok_put)

lemma keys_ok_add_location [intro]:
  "keys_ok d \<Longrightarrow> l_id x = next_id (ride_locations_t d) \<Longrightarrow> keys_ok (add_location x d)"
  by (simp add: keys_ok_def add_location_def table_ok_add)

lemma keys_ok_put_booking [intro]: "keys_ok d \<Longrightarrow> keys_ok (put_booking x d)"
  by (simp add: keys_ok_def put_booking_def table_ok_put)

lemma keys_ok_add_booking [intro]:
  "keys_ok d \<Longrightarrow> b_id x = next_id (bookings_t d) \<Longrightarrow> keys_ok (add_booking x d)"
  by (simp add: keys_ok_def add_booking_def table_ok_add)

lemma keys_ok_put_payment [intro]: "keys_ok d \<Longrightarrow> keys_ok (put_payment x d)"
  by (simp add: keys_ok_def put_payment_def table_ok_put)

lemma keys_ok_add_payment [intro]:
  "keys_ok d \<Longrightarrow> p_id x = next_id (payments_t d) \<Longrightarrow> keys_ok (add_payment x d)"
  by (simp add: keys_ok_def add_payment_def table_ok_add)

lemma keys_ok_put_payment_event [intro]: "keys_ok d \<Longrightarrow> keys_ok (put_payment_event x d)"
  by (simp add: keys_ok_def put_payment_event_def table_ok_put)

lemma keys_ok_add_payment_event [intro]:
  "keys_ok d \<Longrightarrow> e_id x = next_id (payment_events_t d) \<Longrightarrow> keys_ok (add_payment_event x d)"
  by (simp add: keys_ok_def add_payment_event_def table_ok_add)

lemma keys_ok_put_availability [intro]: "keys_ok d \<Longrightarrow> keys_ok (put_availability x d)"
  by (simp add: keys_ok_def put_availability_def table_ok_put)

lemma keys_ok_add_availability [intro]:
  "keys_ok d \<Longrightarrow> v_id x = next_id (availability_t d) \<Longrightarrow> keys_ok (add_availability x d)"
  by (simp add: keys_ok_def add_availability_def table_ok_add)

lemma keys_ok_put_request [intro]: "keys_ok d \<Longrightarrow> keys_ok (put_request x d)"
  by (simp add: keys_ok_def put_request_def table_ok_put)

lemma keys_ok_add_request [intro]:
  "keys_ok d \<Longrightarrow> q_id x = next_id (ride_requests_t d) \<Longrightarrow> keys_ok (add_request x d)"
  by (simp add: keys_ok_def add_request_def table_ok_add)

lemma keys_ok_put_dismissal [intro]: "keys_ok d \<Longrightarrow> keys_ok (put_dismissal x d)"
  by (simp add: keys_ok_def put_dismissal_def table_ok_put)

lemma keys_ok_add_dismissal [intro]:
  "keys_ok d \<Longrightarrow> d_id x = next_id (dismissals_t d) \<Longrightarrow> keys_ok (add_dismissal x d)"
  by (simp add: keys_ok_def add_dismissal_def table_ok_add)

lemma keys_ok_put_notification [intro]: "keys_ok d \<Longrightarrow> keys_ok (put_notification x d)"
  by (simp add: keys_ok_def put_notification_def table_ok_put)

lemma keys_ok_add_notification [intro]:
  "keys_ok d \<Longrightarrow> n_id x = next_id (notifications_t d) \<Longrightarrow> keys_ok (add_notification x d)"
  by (simp add: keys_ok_def add_notification_def table_ok_add)

lemma keys_ok_put_message [intro]: "keys_ok d \<Longrightarrow> keys_ok (put_message x d)"
  by (simp add: keys_ok_def put_message_def table_ok_put)

lemma keys_ok_add_message [intro]:
  "keys_ok d \<Longrightarrow> m_id x = next_id (messages_t d) \<Longrightarrow> keys_ok (add_message x d)"
  by (simp add: keys_ok_def add_message_def table_ok_add)

lemma keys_ok_put_review [intro]: "keys_ok d \<Longrightarrow> keys_ok (put_review x d)"
  by (simp add: keys_ok_def put_review_def table_ok_put)

lemma keys_ok_add_review [intro]:
  "keys_ok d \<Longrightarrow> w_id x = next_id (reviews_t d) \<Longrightarrow> keys_ok (add_review x d)"
  by (simp add: keys_ok_def add_review_def table_ok_add)

lemma keys_ok_put_incident [intro]: "keys_ok d \<Longrightarrow> keys_ok (put_incident x d)"
  by (simp add: keys_ok_def put_incident_def table_ok_put)

lemma keys_ok_add_incident [intro]:
  "keys_ok d \<Longrightarrow> i_id x = next_id (incidents_t d) \<Longrightarrow> keys_ok (add_incident x d)"
  by (simp add: keys_ok_def add_incident_def table_ok_add)

lemma keys_ok_put_audit [intro]: "keys_ok d \<Longrightarrow> keys_ok (put_audit x d)"
  by (simp add: keys_ok_def put_audit_def table_ok_put)

lemma keys_ok_add_audit [intro]:
  "keys_ok d \<Longrightarrow> a_id x = next_id (audit_logs_t d) \<Longrightarrow> keys_ok (add_audit x d)"
  by (simp add: keys_ok_def add_audit_def table_ok_add)

section \<open>Integrity constraints\<close>

text \<open>
  What \<open>__table_args__\<close> and the column options of each class ask of a row being written, given the
  other rows. The check runs when the session flushes; a row that fails it makes the flush raise.
\<close>

definition others :: "('r \<Rightarrow> int) \<Rightarrow> 'r \<Rightarrow> 'r list \<Rightarrow> 'r list" where
  "others key r rs = filter (\<lambda>x. key x \<noteq> key r) rs"

definition user_constraints :: "user list \<Rightarrow> user \<Rightarrow> bool" where
  "user_constraints us u \<longleftrightarrow> list_all (\<lambda>x. u_email x \<noteq> u_email u) (others u_id u us)"

definition ride_constraints :: "ride \<Rightarrow> bool" where
  "ride_constraints r \<longleftrightarrow>
     0 \<le> r_available_seats r \<and> 0 \<le> r_price_per_seat r \<and> r_origin r \<noteq> r_destination r"

definition location_constraints :: "ride_location \<Rightarrow> bool" where
  "location_constraints l \<longleftrightarrow>
     - 90 \<le> l_latitude l \<and> l_latitude l \<le> 90 \<and> - 180 \<le> l_longitude l \<and> l_longitude l \<le> 180"

definition booking_constraints :: "booking list \<Rightarrow> booking \<Rightarrow> bool" where
  "booking_constraints bs b \<longleftrightarrow>
     0 < b_passenger_id b \<and>
     list_all (\<lambda>x. (b_ride_id x, b_passenger_id x) \<noteq> (b_ride_id b, b_passenger_id b)) (others b_id b bs) \<and>
     (b_share_token_hash b = None \<or>
        list_all (\<lambda>x. b_share_token_hash x \<noteq> b_share_token_hash b) (others b_id b bs))"

definition payment_constraints :: "payment list \<Rightarrow> payment \<Rightarrow> bool" where
  "payment_constraints ps p \<longleftrightarrow>
     list_all (\<lambda>x. p_booking_id x \<noteq> p_booking_id p) (others p_id p ps) \<and>
     list_all (\<lambda>x. p_provider_order_id x \<noteq> p_provider_order_id p) (others p_id p ps) \<and>
     (p_provider_payment_id p = None \<or>
        list_all (\<lambda>x. p_provider_payment_id x \<noteq> p_provider_payment_id p) (others p_id p ps))"

definition payment_event_constraints :: "payment_event list \<Rightarrow> payment_event \<Rightarrow> bool" where
  "payment_event_constraints es e \<longleftrightarrow>
     list_all (\<lambda>x. e_provider_event_id x \<noteq> e_provider_event_id e) (others e_id e es)"

definition availability_constraints :: "driver_availability list \<Rightarrow> driver_availability \<Rightarrow> bool" where
  "availability_constraints vs v \<longleftrightarrow> list_all (\<lambda>x. v_driver_id x \<noteq> v_driver_id v) (others v_id v vs)"

definition dismissal_constraints ::
  "driver_request_dismissal list \<Rightarrow> driver_request_dismissal \<Rightarrow> bool" where
  "dismissal_constraints ds d \<longleftrightarrow>
     list_all (\<lambda>x. (d_driver_id x, d_request_id x) \<noteq> (d_driver_id d, d_request_id d)) (others d_id d ds)"

definition review_constraints :: "review list \<Rightarrow> review \<Rightarrow> bool" where
  "review_constraints ws r \<longleftrightarrow>
     1 \<le> w_rating r \<and> w_rating r \<le> 5 \<and> w_reviewer_id r \<noteq> w_reviewee_id r \<and>
     list_all (\<lambda>x. (w_booking_id x, w_reviewer_id x) \<noteq> (w_booking_id r, w_reviewer_id r)) (others w_id r ws)"

end
