(* ===== verification/Pystring.thy ===== *)
theory Pystring
  imports Prelude
begin

text \<open>
  The string methods the source uses, on ASCII text: \<open>lower\<close>, \<open>upper\<close>, \<open>strip\<close>,
  \<open>startswith\<close>, \<open>endswith\<close>, \<open>removeprefix\<close>, the tests of \<open>str\<close> a validator asks for, and the
  \<open>ILIKE\<close> of a query, whose pattern characters are not escaped by the callers.
\<close>

definition char_code :: "char \<Rightarrow> nat" where
  "char_code c = of_char c"

definition is_upper :: "char \<Rightarrow> bool" where
  "is_upper c \<longleftrightarrow> 65 \<le> char_code c \<and> char_code c \<le> 90"

definition is_lower :: "char \<Rightarrow> bool" where
  "is_lower c \<longleftrightarrow> 97 \<le> char_code c \<and> char_code c \<le> 122"

definition is_digit :: "char \<Rightarrow> bool" where
  "is_digit c \<longleftrightarrow> 48 \<le> char_code c \<and> char_code c \<le> 57"

definition is_space :: "char \<Rightarrow> bool" where
  "is_space c \<longleftrightarrow> char_code c = 32 \<or> (9 \<le> char_code c \<and> char_code c \<le> 13) \<or>
     (28 \<le> char_code c \<and> char_code c \<le> 31)"

definition lower_char :: "char \<Rightarrow> char" where
  "lower_char c = (if is_upper c then char_of (char_code c + 32) else c)"

definition upper_char :: "char \<Rightarrow> char" where
  "upper_char c = (if is_lower c then char_of (char_code c - 32) else c)"

definition lower_str :: "string \<Rightarrow> string" where
  "lower_str s = map lower_char s"

definition upper_str :: "string \<Rightarrow> string" where
  "upper_str s = map upper_char s"

definition strip_str :: "string \<Rightarrow> string" where
  "strip_str s = rev (dropWhile is_space (rev (dropWhile is_space s)))"

fun starts_with :: "string \<Rightarrow> string \<Rightarrow> bool" where
  "starts_with s [] \<longleftrightarrow> True"
| "starts_with [] (p # ps) \<longleftrightarrow> False"
| "starts_with (c # cs) (p # ps) \<longleftrightarrow> c = p \<and> starts_with cs ps"

definition ends_with :: "string \<Rightarrow> string \<Rightarrow> bool" where
  "ends_with s p \<longleftrightarrow> starts_with (rev s) (rev p)"

definition remove_prefix :: "string \<Rightarrow> string \<Rightarrow> string" where
  "remove_prefix s p = (if starts_with s p then drop (length p) s else s)"

fun contains_str :: "string \<Rightarrow> string \<Rightarrow> bool" where
  "contains_str [] p \<longleftrightarrow> p = []"
| "contains_str (c # cs) p \<longleftrightarrow> starts_with (c # cs) p \<or> contains_str cs p"

text \<open>SQL \<open>LIKE\<close>: \<open>%\<close> stands for any text and \<open>_\<close> for one character; a backslash escapes.\<close>

fun sql_like :: "string \<Rightarrow> string \<Rightarrow> bool" where
  "sql_like [] s \<longleftrightarrow> s = []"
| "sql_like (p # ps) [] \<longleftrightarrow> p = CHR ''%'' \<and> sql_like ps []"
| "sql_like (p # ps) (c # cs) \<longleftrightarrow>
     (if p = CHR ''%'' then sql_like ps (c # cs) \<or> sql_like (p # ps) cs
      else if p = CHR ''_'' then sql_like ps cs
      else if p = CHR 0x5C then
        (case ps of [] \<Rightarrow> False | q # qs \<Rightarrow> c = q \<and> sql_like qs cs)
      else c = p \<and> sql_like ps cs)"

definition ilike :: "string \<Rightarrow> string \<Rightarrow> bool" where
  "ilike s pattern \<longleftrightarrow> sql_like (lower_str pattern) (lower_str s)"

text \<open>\<open>column.ilike(f"%{text}%")\<close>\<close>

definition ilike_contains :: "string \<Rightarrow> string \<Rightarrow> bool" where
  "ilike_contains s t \<longleftrightarrow> ilike s ([CHR ''%''] @ t @ [CHR ''%''])"

lemma starts_with_append [simp]: "starts_with (p @ s) p"
  by (induction p) auto

lemma starts_with_iff: "starts_with s p \<longleftrightarrow> (\<exists>t. s = p @ t)"
  by (induction s p rule: starts_with.induct) auto

lemma ends_with_append [simp]: "ends_with (s @ p) p"
  by (simp add: ends_with_def)

lemma remove_prefix_append [simp]: "remove_prefix (p @ s) p = s"
  by (simp add: remove_prefix_def)

lemma sql_like_percent: "sql_like [CHR ''%''] s"
  by (induction s) auto

lemma sql_like_skip: "sql_like (CHR ''%'' # ps) s \<Longrightarrow> sql_like (CHR ''%'' # ps) (t @ s)"
  by (induction t) auto

text \<open>A pattern without special characters matches exactly where the text occurs.\<close>

definition plain_pattern :: "string \<Rightarrow> bool" where
  "plain_pattern p \<longleftrightarrow> CHR ''%'' \<notin> set p \<and> CHR ''_'' \<notin> set p \<and> CHR 0x5C \<notin> set p"

lemma sql_like_prefix:
  "plain_pattern p \<Longrightarrow> sql_like (p @ [CHR ''%'']) s \<longleftrightarrow> starts_with s p"
proof (induction p arbitrary: s)
  case Nil
  then show ?case by (simp add: sql_like_percent)
next
  case (Cons q p)
  then have "plain_pattern p" "q \<noteq> CHR ''%''" "q \<noteq> CHR ''_''" "q \<noteq> CHR 0x5C"
    by (auto simp: plain_pattern_def)
  with Cons.IH show ?case by (cases s) auto
qed

lemma sql_like_contains:
  "plain_pattern p \<Longrightarrow> sql_like (CHR ''%'' # p @ [CHR ''%'']) s \<longleftrightarrow> contains_str s p"
proof (induction s)
  case Nil
  then show ?case
    using sql_like_prefix [of p "[]"] by (cases p) (auto simp: plain_pattern_def)
next
  case (Cons c s)
  then show ?case using sql_like_prefix [of p "c # s"] by simp
qed

lemma contains_str_self: "contains_str (s @ p @ t) p"
proof (induction s)
  case Nil
  have "starts_with (p @ t) p" by simp
  then show ?case by (cases "p @ t") (auto simp del: starts_with_append)
next
  case (Cons c s)
  then show ?case by simp
qed

end
