(* ===== verification/Config.thy ===== *)
theory Config
  imports Pystring
begin

text \<open>
  The settings of src/app/core/config.py that the modelled code reads, with their defaults, and the
  two validators that refuse an unsafe configuration before the application starts. A validator
  returns the message of the \<open>ValueError\<close> it raises, or \<open>None\<close>.
\<close>

section \<open>Settings\<close>

record core_settings =
  PROJECT_NAME :: string
  APP_VERSION :: string
  BUILD_SHA :: "string option"
  BUILD_TIMESTAMP :: "string option"
  TOKEN_ISSUER :: string
  APP_ENV :: string
  DEBUG :: bool
  API_V1_STR :: string
  SECRET_KEY :: string
  JWT_ALGORITHM :: string
  ACCESS_TOKEN_EXPIRE_MINUTES :: int
  REFRESH_TOKEN_EXPIRE_DAYS :: int
  RESET_TOKEN_EXPIRE_MINUTES :: int
  EMAIL_VERIFICATION_TOKEN_EXPIRE_MINUTES :: int
  REQUIRE_EMAIL_VERIFICATION :: bool

record feature_settings =
  LOGIN_RATE_LIMIT_MAX_REQUESTS :: int
  LOGIN_RATE_LIMIT_WINDOW_SECONDS :: int
  FORGOT_PASSWORD_RATE_LIMIT_MAX_REQUESTS :: int
  FORGOT_PASSWORD_RATE_LIMIT_WINDOW_SECONDS :: int
  RESET_PASSWORD_RATE_LIMIT_MAX_REQUESTS :: int
  RESET_PASSWORD_RATE_LIMIT_WINDOW_SECONDS :: int
  RESEND_VERIFICATION_RATE_LIMIT_MAX_REQUESTS :: int
  RESEND_VERIFICATION_RATE_LIMIT_WINDOW_SECONDS :: int
  CHAT_MESSAGE_RATE_LIMIT_MAX_REQUESTS :: int
  CHAT_MESSAGE_RATE_LIMIT_WINDOW_SECONDS :: int
  RIDE_WRITE_RATE_LIMIT_MAX_REQUESTS :: int
  RIDE_WRITE_RATE_LIMIT_WINDOW_SECONDS :: int
  BOOKING_WRITE_RATE_LIMIT_MAX_REQUESTS :: int
  BOOKING_WRITE_RATE_LIMIT_WINDOW_SECONDS :: int
  BOARDING_OTP_EXPIRE_MINUTES :: int
  LOCATION_UPDATE_RATE_LIMIT_MAX_REQUESTS :: int
  LOCATION_UPDATE_RATE_LIMIT_WINDOW_SECONDS :: int
  LOCATION_STALE_AFTER_SECONDS :: int
  LOCATION_TRACKING_START_BEFORE_MINUTES :: int
  LOCATION_TRACKING_END_AFTER_MINUTES :: int
  LOCATION_MAX_REPORTED_SPEED_KMPH :: real
  LOCATION_ROUTE_BUFFER_KM :: real
  LOCATION_RETENTION_DAYS :: int
  DISPATCH_PRESENCE_STALE_AFTER_SECONDS :: int
  DISPATCH_NEARBY_RADIUS_KM :: real
  DISPATCH_BASE_FARE :: real
  DISPATCH_PER_KM_RATE :: real
  DISPATCH_DISMISSAL_RETENTION_DAYS :: int
  DISPATCH_PRESENCE_RETENTION_HOURS :: int
  REVIEW_CREATE_RATE_LIMIT_MAX_REQUESTS :: int
  REVIEW_CREATE_RATE_LIMIT_WINDOW_SECONDS :: int
  AUTH_MAX_FAILED_LOGIN_ATTEMPTS :: int
  AUTH_LOCKOUT_WINDOW_MINUTES :: int
  IDEMPOTENCY_KEY_TTL_SECONDS :: int
  JOB_WORKER_ENABLED :: bool
  JOB_WORKER_MAX_RETRIES :: int
  JOB_WORKER_RETRY_DELAY_SECONDS :: real
  DISPATCH_NOTIFICATION_MAX_RETRIES :: int
  JOBS_SYNCHRONOUS :: bool
  PAYMENT_PROVIDER :: string
  PAYMENT_PROVIDER_TIMEOUT_SECONDS :: real
  RAZORPAY_KEY_ID :: "string option"
  RAZORPAY_KEY_SECRET :: "string option"
  RAZORPAY_WEBHOOK_SECRET :: "string option"

definition default_core_settings :: core_settings where
  "default_core_settings = \<lparr>
     PROJECT_NAME = ''MooveSaathi'', APP_VERSION = ''0.1.0'', BUILD_SHA = None, BUILD_TIMESTAMP = None,
     TOKEN_ISSUER = ''moovesaathi-backend'', APP_ENV = ''development'', DEBUG = False,
     API_V1_STR = ''/api/v1'', SECRET_KEY = ''change-this-super-secret-key-12345'',
     JWT_ALGORITHM = ''HS256'', ACCESS_TOKEN_EXPIRE_MINUTES = 1440, REFRESH_TOKEN_EXPIRE_DAYS = 30,
     RESET_TOKEN_EXPIRE_MINUTES = 30, EMAIL_VERIFICATION_TOKEN_EXPIRE_MINUTES = 1440,
     REQUIRE_EMAIL_VERIFICATION = False\<rparr>"

definition default_feature_settings :: feature_settings where
  "default_feature_settings = \<lparr>
     LOGIN_RATE_LIMIT_MAX_REQUESTS = 5, LOGIN_RATE_LIMIT_WINDOW_SECONDS = 60,
     FORGOT_PASSWORD_RATE_LIMIT_MAX_REQUESTS = 3, FORGOT_PASSWORD_RATE_LIMIT_WINDOW_SECONDS = 900,
     RESET_PASSWORD_RATE_LIMIT_MAX_REQUESTS = 5, RESET_PASSWORD_RATE_LIMIT_WINDOW_SECONDS = 900,
     RESEND_VERIFICATION_RATE_LIMIT_MAX_REQUESTS = 3, RESEND_VERIFICATION_RATE_LIMIT_WINDOW_SECONDS = 900,
     CHAT_MESSAGE_RATE_LIMIT_MAX_REQUESTS = 20, CHAT_MESSAGE_RATE_LIMIT_WINDOW_SECONDS = 60,
     RIDE_WRITE_RATE_LIMIT_MAX_REQUESTS = 20, RIDE_WRITE_RATE_LIMIT_WINDOW_SECONDS = 60,
     BOOKING_WRITE_RATE_LIMIT_MAX_REQUESTS = 20, BOOKING_WRITE_RATE_LIMIT_WINDOW_SECONDS = 60,
     BOARDING_OTP_EXPIRE_MINUTES = 30,
     LOCATION_UPDATE_RATE_LIMIT_MAX_REQUESTS = 60, LOCATION_UPDATE_RATE_LIMIT_WINDOW_SECONDS = 60,
     LOCATION_STALE_AFTER_SECONDS = 300, LOCATION_TRACKING_START_BEFORE_MINUTES = 120,
     LOCATION_TRACKING_END_AFTER_MINUTES = 720, LOCATION_MAX_REPORTED_SPEED_KMPH = 180,
     LOCATION_ROUTE_BUFFER_KM = 50, LOCATION_RETENTION_DAYS = 30,
     DISPATCH_PRESENCE_STALE_AFTER_SECONDS = 90, DISPATCH_NEARBY_RADIUS_KM = 25,
     DISPATCH_BASE_FARE = 50, DISPATCH_PER_KM_RATE = 15, DISPATCH_DISMISSAL_RETENTION_DAYS = 7,
     DISPATCH_PRESENCE_RETENTION_HOURS = 24,
     REVIEW_CREATE_RATE_LIMIT_MAX_REQUESTS = 10, REVIEW_CREATE_RATE_LIMIT_WINDOW_SECONDS = 3600,
     AUTH_MAX_FAILED_LOGIN_ATTEMPTS = 5, AUTH_LOCKOUT_WINDOW_MINUTES = 15,
     IDEMPOTENCY_KEY_TTL_SECONDS = 86400,
     JOB_WORKER_ENABLED = True, JOB_WORKER_MAX_RETRIES = 3, JOB_WORKER_RETRY_DELAY_SECONDS = 1 / 5,
     DISPATCH_NOTIFICATION_MAX_RETRIES = 4, JOBS_SYNCHRONOUS = False,
     PAYMENT_PROVIDER = ''mock'', PAYMENT_PROVIDER_TIMEOUT_SECONDS = 10,
     RAZORPAY_KEY_ID = None, RAZORPAY_KEY_SECRET = None, RAZORPAY_WEBHOOK_SECRET = None\<rparr>"

record delivery_settings =
  AI_PROVIDER :: string
  AI_API_KEY :: "string option"
  DATABASE_URL :: string
  REDIS_URL :: string
  EMAILS_ENABLED :: bool
  EMAIL_FROM :: string
  SMTP_HOST :: "string option"
  SMTP_USE_TLS :: bool
  SMTP_USE_SSL :: bool
  FRONTEND_URL :: string
  AUTO_CREATE_TABLES :: bool
  ERROR_REPORTING_ENABLED :: bool
  ERROR_REPORTING_DSN :: "string option"
  SUPPORT_API_ENABLED :: bool
  SUPPORT_API_KEY :: "string option"
  BACKEND_CORS_ORIGINS :: "string list"
  BACKEND_CORS_ORIGIN_REGEX :: "string option"

record ai_settings =
  AI_MODEL :: string
  AI_BASE_URL :: string
  AI_PROVIDER_TIMEOUT_SECONDS :: real
  AI_TEMPERATURE :: real
  AI_FALLBACK_TO_MOCK :: bool
  AI_RATE_LIMIT_MAX_REQUESTS :: int
  AI_RATE_LIMIT_WINDOW_SECONDS :: int

definition default_ai_settings :: ai_settings where
  "default_ai_settings = \<lparr>
     AI_MODEL = ''gpt-4.1-mini'', AI_BASE_URL = ''https://api.openai.com/v1'', AI_PROVIDER_TIMEOUT_SECONDS = 15,
     AI_TEMPERATURE = 1 / 5, AI_FALLBACK_TO_MOCK = True, AI_RATE_LIMIT_MAX_REQUESTS = 10,
     AI_RATE_LIMIT_WINDOW_SECONDS = 60\<rparr>"

text \<open>The default of the CORS expression, with its backslashes.\<close>

definition cors_origin_regex :: string where
  "cors_origin_regex =
     (let b = [CHR 0x5C]
      in ''^http://(localhost|127'' @ b @ ''.0'' @ b @ ''.0'' @ b @ ''.1|10'' @ b @ ''.'' @ b @ ''d+'' @ b @ ''.'' @
         b @ ''d+'' @ b @ ''.'' @ b @ ''d+|192'' @ b @ ''.168'' @ b @ ''.'' @ b @ ''d+'' @ b @ ''.'' @ b @ ''d+|172'' @ b @
         ''.(1[6-9]|2'' @ b @ ''d|3[01])'' @ b @ ''.'' @ b @ ''d+'' @ b @ ''.'' @ b @ ''d+):'' @ b @ ''d{1,5}$'')"

definition default_delivery_settings :: delivery_settings where
  "default_delivery_settings = \<lparr>
     AI_PROVIDER = ''mock'', AI_API_KEY = None,
     DATABASE_URL = ''postgresql+psycopg://postgres:postgres@db:5432/moovesaathi'',
     REDIS_URL = ''redis://redis:6379/0'', EMAILS_ENABLED = False,
     EMAIL_FROM = ''no-reply@moovesaathi.local'', SMTP_HOST = None, SMTP_USE_TLS = True,
     SMTP_USE_SSL = False, FRONTEND_URL = ''http://localhost:5173'', AUTO_CREATE_TABLES = True,
     ERROR_REPORTING_ENABLED = False, ERROR_REPORTING_DSN = None, SUPPORT_API_ENABLED = False,
     SUPPORT_API_KEY = None,
     BACKEND_CORS_ORIGINS = [''http://localhost:5173'', ''http://127.0.0.1:5173'',
       ''http://localhost:4173'', ''http://127.0.0.1:4173''],
     BACKEND_CORS_ORIGIN_REGEX = Some cors_origin_regex\<rparr>"

section \<open>Validation\<close>

definition is_production :: "core_settings \<Rightarrow> bool" where
  "is_production c \<longleftrightarrow> APP_ENV c = ''production''"

definition should_create_tables :: "core_settings \<Rightarrow> delivery_settings \<Rightarrow> bool" where
  "should_create_tables c d \<longleftrightarrow> AUTO_CREATE_TABLES d \<and> \<not> is_production c"

definition insecure_defaults :: "string list" where
  "insecure_defaults = [''change-this-super-secret-key-12345'',
     ''replace-with-a-strong-32-plus-character-secret'']"

definition validate_secret_key :: "core_settings \<Rightarrow> string option" where
  "validate_secret_key c =
     (if is_production c \<and> SECRET_KEY c \<in> set insecure_defaults
      then Some ''SECRET_KEY must be overridden in production'' else None)"

text \<open>The truth value of an optional setting.\<close>

definition given :: "string option \<Rightarrow> bool" where
  "given s \<longleftrightarrow> (case s of None \<Rightarrow> False | Some t \<Rightarrow> t \<noteq> [])"

definition validate_runtime_settings ::
  "core_settings \<Rightarrow> feature_settings \<Rightarrow> delivery_settings \<Rightarrow> string option" where
  "validate_runtime_settings c f d =
     (if is_production c \<and> list_ex (\<lambda>origin. contains_str origin ''localhost'' \<or>
           contains_str origin ''127.0.0.1'') (BACKEND_CORS_ORIGINS d)
      then Some ''BACKEND_CORS_ORIGINS must be explicitly configured for production''
      else if is_production c \<and> given (BACKEND_CORS_ORIGIN_REGEX d)
      then Some ''BACKEND_CORS_ORIGIN_REGEX must be disabled or explicitly production-safe''
      else if is_production c \<and> starts_with (DATABASE_URL d) ''sqlite''
      then Some ''DATABASE_URL must point to a production database''
      else if is_production c \<and> (starts_with (REDIS_URL d) ''redis://redis:'' \<or>
           starts_with (REDIS_URL d) ''redis://localhost'')
      then Some ''REDIS_URL must point to a production Redis instance''
      else if is_production c \<and> AUTO_CREATE_TABLES d
      then Some ''AUTO_CREATE_TABLES must be disabled in production''
      else if EMAILS_ENABLED d \<and> \<not> given (SMTP_HOST d)
      then Some ''SMTP_HOST must be configured when EMAILS_ENABLED is true''
      else if EMAILS_ENABLED d \<and> SMTP_USE_TLS d \<and> SMTP_USE_SSL d
      then Some ''SMTP_USE_TLS and SMTP_USE_SSL cannot both be enabled''
      else if ERROR_REPORTING_ENABLED d \<and> \<not> given (ERROR_REPORTING_DSN d)
      then Some ''ERROR_REPORTING_DSN must be configured when error reporting is enabled''
      else if SUPPORT_API_ENABLED d \<and> \<not> given (SUPPORT_API_KEY d)
      then Some ''SUPPORT_API_KEY must be configured when support API is enabled''
      else if PAYMENT_PROVIDER f = ''razorpay'' \<and>
           \<not> (given (RAZORPAY_KEY_ID f) \<and> given (RAZORPAY_KEY_SECRET f) \<and> given (RAZORPAY_WEBHOOK_SECRET f))
      then Some ''Razorpay credentials and webhook secret must be configured''
      else if is_production c \<and> PAYMENT_PROVIDER f = ''mock''
      then Some ''PAYMENT_PROVIDER must use a real provider in production''
      else if AI_PROVIDER d = ''openai'' \<and> \<not> given (AI_API_KEY d)
      then Some ''AI_API_KEY must be configured when AI_PROVIDER is openai''
      else if is_production c \<and> AI_PROVIDER d = ''mock''
      then Some ''AI_PROVIDER must use a real provider in production''
      else None)"

text \<open>The settings the application can run with.\<close>

definition settings_ok :: "core_settings \<Rightarrow> feature_settings \<Rightarrow> delivery_settings \<Rightarrow> bool" where
  "settings_ok c f d \<longleftrightarrow>
     validate_secret_key c = None \<and> validate_runtime_settings c f d = None \<and>
     APP_ENV c \<in> {''development'', ''test'', ''production''} \<and> 32 \<le> length (SECRET_KEY c) \<and>
     PAYMENT_PROVIDER f \<in> {''mock'', ''razorpay''} \<and> AI_PROVIDER d \<in> {''mock'', ''openai''}"

lemma settings_ok_production:
  "settings_ok c f d \<Longrightarrow> is_production c \<Longrightarrow>
     PAYMENT_PROVIDER f = ''razorpay'' \<and> given (RAZORPAY_WEBHOOK_SECRET f) \<and>
     SECRET_KEY c \<notin> set insecure_defaults"
  by (simp add: settings_ok_def validate_runtime_settings_def validate_secret_key_def split: if_splits)

end
