(* ===== verification/World.thy ===== *)
theory World
  imports Database Config "HOL-Library.AList"
begin

text \<open>
  Everything a request can see or change: the exceptions
  the services raise, the database as the open session sees it and as it is committed, the job
  queue, the counters of src/app/core/metrics.py, and the record of what was sent to the two
  services outside the repository (the payment gateway over HTTP and the Redis channel). The
  answers of those two are functions in the environment, of everything sent before: they may
  answer anything at any time.
\<close>

section \<open>Exceptions, HTTP calls, published messages\<close>

datatype exc =
  HTTPException int string
| PaymentProviderError string "int option"
| RuntimeError string
| KeyError string
| IndexError string
| AttributeError string
| TypeError string
| ValueError string
| IntegrityError string
| AIProviderError string
| ValidationError string

text \<open>One request to the payment gateway, and what \<open>httpx.request\<close> makes of it.\<close>

datatype http_call = HttpCall (http_method: string) (http_path: string) (http_json: "py option")

datatype http_reply = HttpJson py | HttpNotJson | HttpStatusError int | HttpRequestError

datatype redis_reply = RedisOk | RedisFails | RedisOtherError

datatype email = Email (to_email: string) (subject: string) (text_body: string)

datatype published = Published (channel: string) (payload: py)

section \<open>Jobs and counters\<close>

text \<open>
  The closure a job carries is one of those the services build; the constructor's arguments are the
  values the closure captures.
\<close>

datatype job_handler =
  Create_notification int notification_type string string
| Retry_capture int
| Retry_refund int
| Reconcile int
| Send_reminder "user option" "ride option"
| Send_email string string string
| Send_verification string string string
| Expire_requests int
| Cleanup_dismissals int
| Cleanup_presence int
| Cleanup_locations int
| Cleanup_audit_logs int
| Cleanup_sessions int
| Database_heartbeat

record job =
  j_name :: string
  j_handler :: job_handler
  j_job_id :: int
  j_attempts :: int
  j_max_retries :: int

record job_event =
  ev_job_id :: int
  ev_name :: string
  ev_status :: string
  ev_attempts :: int
  ev_max_retries :: int
  ev_error :: "string option"
  ev_timestamp :: instant

record job_queue =
  jq_jobs :: "job list"
  jq_next_job_id :: int
  jq_recent_events :: "job_event list"
  jq_success_total :: int
  jq_retry_total :: int
  jq_failed_total :: int
  jq_last_error :: "string option"
  jq_last_failed_job :: "string option"
  jq_last_successful_job :: "string option"

definition empty_queue :: job_queue where
  "empty_queue = \<lparr>jq_jobs = [], jq_next_job_id = 1, jq_recent_events = [],
     jq_success_total = 0, jq_retry_total = 0, jq_failed_total = 0, jq_last_error = None,
     jq_last_failed_job = None, jq_last_successful_job = None\<rparr>"

record metrics =
  job_total :: "string \<times> string \<Rightarrow> int"
  exception_total :: "string \<Rightarrow> int"
  dispatch_total :: "string \<times> string \<Rightarrow> int"
  auth_total :: "string \<times> string \<Rightarrow> int"
  payment_total :: "string \<times> string \<Rightarrow> int"

definition empty_metrics :: metrics where
  "empty_metrics = \<lparr>job_total = (\<lambda>_. 0), exception_total = (\<lambda>_. 0), dispatch_total = (\<lambda>_. 0),
     auth_total = (\<lambda>_. 0), payment_total = (\<lambda>_. 0)\<rparr>"

section \<open>The world and its environment\<close>

text \<open>The token store of src/app/services/token_store.py without Redis (its fallback dictionaries).\<close>

record session_record =
  s_jti :: string
  s_user_id :: int
  s_issued_at :: instant
  s_expires_at :: instant
  s_user_agent :: "string option"
  s_ip_address :: "string option"

record token_store =
  ts_tokens :: "(string \<times> instant) list"
  ts_sessions :: "(string \<times> session_record) list"
  ts_user_sessions :: "(int \<times> string list) list"

definition empty_token_store :: token_store where
  "empty_token_store = \<lparr>ts_tokens = [], ts_sessions = [], ts_user_sessions = []\<rparr>"

text \<open>The dictionary of the rate limiter, and the recorded responses of idempotent requests.\<close>

record limit_record =
  lr_count :: int
  lr_expires_at :: instant

type_synonym limiter = "(string \<times> limit_record) list"

record idempotency_record =
  id_request_hash :: string
  id_status_code :: int
  id_body :: py

type_synonym idem_store = "(string \<times> idempotency_record) list"

text \<open>The claims of a JSON web token.\<close>

type_synonym claims = "(string \<times> py) list"

record world =
  clock :: instant
  db :: database
  durable :: database
  jobs :: job_queue
  counters :: metrics
  http_log :: "http_call list"
  publish_log :: "published list"
  outbox :: "email list"
  tokens :: token_store
  limits :: limiter
  idem :: idem_store

text \<open>
  How pydantic reads a value from outside as an integer, a float, a truth value, a decimal number or an
  instant, where it can.
\<close>

record coercions =
  as_int :: "py \<Rightarrow> int option"
  as_float :: "py \<Rightarrow> real option"
  as_bool :: "py \<Rightarrow> bool option"
  as_decimal :: "py \<Rightarrow> rat option"
  as_datetime :: "py \<Rightarrow> instant option"

record env =
  core :: core_settings
  feat :: feature_settings
  delivery :: delivery_settings
  hmac_sha256 :: "string \<Rightarrow> string \<Rightarrow> string"
  py_repr :: "py \<Rightarrow> string"
  json_loads :: "string \<Rightarrow> py option"
  jwt_encode :: "string \<Rightarrow> string \<Rightarrow> claims \<Rightarrow> string"
  jwt_decode :: "instant \<Rightarrow> string \<Rightarrow> string \<Rightarrow> string \<Rightarrow> string \<Rightarrow> claims option"
  pwd_hash :: "string \<Rightarrow> string \<Rightarrow> string"
  pwd_verify :: "string \<Rightarrow> string \<Rightarrow> bool"
  http_answer :: "http_call list \<Rightarrow> http_call \<Rightarrow> http_reply"
  redis_answer :: "published list \<Rightarrow> published \<Rightarrow> redis_reply"
  smtp_answer :: "email list \<Rightarrow> email \<Rightarrow> bool"
  sha256 :: "string \<Rightarrow> string"
  jsonable :: "py \<Rightarrow> py"
  ai :: ai_settings
  coerce :: coercions
  json_dumps :: "py \<Rightarrow> string"

type_synonym 'a act = "(world, 'a) state"
type_synonym 'a svc = "(world, exc + 'a) state"

definition initial_world :: "instant \<Rightarrow> world" where
  "initial_world t = \<lparr>clock = t, db = empty_database, durable = empty_database, jobs = empty_queue,
     counters = empty_metrics, http_log = [], publish_log = [], outbox = [],
     tokens = empty_token_store, limits = [], idem = []\<rparr>"

section \<open>The session\<close>

definition write_db :: "(database \<Rightarrow> database) \<Rightarrow> unit act" where
  "write_db f = modify (\<lambda>w. w\<lparr>db := f (db w)\<rparr>)"

definition commit :: "unit act" where
  "commit = modify (\<lambda>w. w\<lparr>durable := db w\<rparr>)"

definition rollback :: "unit act" where
  "rollback = modify (\<lambda>w. w\<lparr>db := durable w\<rparr>)"

text \<open>\<open>try: m except Exception: db.rollback(); raise\<close>\<close>

definition or_rollback :: "'a svc \<Rightarrow> 'a svc" where
  "or_rollback m = except_do rollback m"

text \<open>\<open>try: m except Exception as exc: h exc\<close>\<close>

definition handle :: "'a svc \<Rightarrow> (exc \<Rightarrow> 'a svc) \<Rightarrow> 'a svc" where
  "handle m h = do { r \<leftarrow> m; case r of Inl x \<Rightarrow> h x | Inr y \<Rightarrow> ok y }"

text \<open>
  One request: it opens a session on the committed data and closes it at the end, which drops what
  was not committed (\<open>get_db\<close>).
\<close>

definition in_session :: "'a act \<Rightarrow> 'a act" where
  "in_session m = do { rollback; r \<leftarrow> m; rollback; State_Monad.return r }"

text \<open>
  An attribute of a relationship that may be \<open>None\<close>, and the integrity check of a flush.
\<close>

definition deref :: "'r option \<Rightarrow> ('r \<Rightarrow> 'a svc) \<Rightarrow> 'a svc" where
  "deref r k = (case r of None \<Rightarrow> raise (AttributeError ''NoneType'') | Some x \<Rightarrow> k x)"

definition flush :: "string \<Rightarrow> bool \<Rightarrow> 'a svc \<Rightarrow> 'a svc" where
  "flush table admitted k = (if admitted then k else raise (IntegrityError table))"

lemma deref_simps [simp]: "deref None k = raise (AttributeError ''NoneType'')" "deref (Some x) k = k x"
  by (simp_all add: deref_def)

lemma keeps_deref [frame]: "(\<And>x. keeps f (k x)) \<Longrightarrow> keeps f (deref r k)"
  by (cases r) (simp_all add: keeps_raise)

lemma keeps_flush [frame]: "keeps f k \<Longrightarrow> keeps f (flush t b k)"
  by (simp add: flush_def keeps_raise)

lemma run_write_db [simp]: "run_state (write_db f) w = ((), w\<lparr>db := f (db w)\<rparr>)"
  by (simp add: write_db_def)

lemma run_commit [simp]: "run_state commit w = ((), w\<lparr>durable := db w\<rparr>)"
  by (simp add: commit_def)

lemma run_rollback [simp]: "run_state rollback w = ((), w\<lparr>db := durable w\<rparr>)"
  by (simp add: rollback_def)

lemma run_or_rollback:
  "run_state (or_rollback m) w =
     (case run_state m w of
        (Inl e, w') \<Rightarrow> (Inl e, w'\<lparr>db := durable w'\<rparr>)
      | (Inr x, w') \<Rightarrow> (Inr x, w'))"
  by (simp add: or_rollback_def run_except_do split: prod.splits sum.splits)

lemma or_rollback_Inr:
  "run_state (or_rollback m) w = (Inr x, w') \<longleftrightarrow> run_state m w = (Inr x, w')"
  by (auto simp: run_or_rollback split: prod.splits sum.splits)

lemma or_rollback_Inl:
  "run_state (or_rollback m) w = (Inl e, w') \<longleftrightarrow>
     (\<exists>v. run_state m w = (Inl e, v) \<and> w' = v\<lparr>db := durable v\<rparr>)"
  by (auto simp: run_or_rollback split: prod.splits sum.splits)

lemma keeps_handle [frame]:
  "keeps F m \<Longrightarrow> (\<And>x. keeps F (h x)) \<Longrightarrow> keeps F (handle m h)"
  unfolding handle_def by (intro frame)

lemma keeps_write_db [frame]: "(\<And>w. F (w\<lparr>db := f (db w)\<rparr>) = F w) \<Longrightarrow> keeps F (write_db f)"
  by (simp add: keeps_def)

lemma keeps_commit [frame]: "(\<And>w. F (w\<lparr>durable := db w\<rparr>) = F w) \<Longrightarrow> keeps F commit"
  by (simp add: keeps_def)

lemma keeps_rollback [frame]: "(\<And>w. F (w\<lparr>db := durable w\<rparr>) = F w) \<Longrightarrow> keeps F rollback"
  by (simp add: keeps_def)

lemma keeps_or_rollback [frame]: "keeps F rollback \<Longrightarrow> keeps F m \<Longrightarrow> keeps F (or_rollback m)"
  unfolding or_rollback_def by (rule keeps_except_do)

section \<open>Counters\<close>

definition record_job_metric :: "string \<Rightarrow> string \<Rightarrow> unit act" where
  "record_job_metric name status = modify (\<lambda>w. w\<lparr>counters :=
     (counters w)\<lparr>job_total := (job_total (counters w))
       ((name, status) := job_total (counters w) (name, status) + 1)\<rparr>\<rparr>)"

definition record_exception :: "string \<Rightarrow> unit act" where
  "record_exception code = modify (\<lambda>w. w\<lparr>counters :=
     (counters w)\<lparr>exception_total := (exception_total (counters w))
       (code := exception_total (counters w) code + 1)\<rparr>\<rparr>)"

definition record_dispatch :: "string \<Rightarrow> string \<Rightarrow> int \<Rightarrow> unit act" where
  "record_dispatch event outcome n = modify (\<lambda>w. w\<lparr>counters :=
     (counters w)\<lparr>dispatch_total := (dispatch_total (counters w))
       ((event, outcome) := dispatch_total (counters w) (event, outcome) + n)\<rparr>\<rparr>)"

definition record_auth :: "string \<Rightarrow> string \<Rightarrow> unit act" where
  "record_auth event outcome = modify (\<lambda>w. w\<lparr>counters :=
     (counters w)\<lparr>auth_total := (auth_total (counters w))
       ((event, outcome) := auth_total (counters w) (event, outcome) + 1)\<rparr>\<rparr>)"

definition record_payment :: "string \<Rightarrow> string \<Rightarrow> unit act" where
  "record_payment event outcome = modify (\<lambda>w. w\<lparr>counters :=
     (counters w)\<lparr>payment_total := (payment_total (counters w))
       ((event, outcome) := payment_total (counters w) (event, outcome) + 1)\<rparr>\<rparr>)"

lemmas counter_defs = record_job_metric_def record_exception_def record_dispatch_def
  record_auth_def record_payment_def

lemma keeps_counters [frame]:
  assumes "\<And>w m. F (w\<lparr>counters := m\<rparr>) = F w"
  shows "keeps F (record_job_metric a b)" "keeps F (record_exception a)"
    "keeps F (record_dispatch a b n)" "keeps F (record_auth a b)" "keeps F (record_payment a b)"
  using assms by (auto simp: counter_defs intro!: frame)

text \<open>A counter action, as a transition of the world: only \<open>counters\<close> changes.\<close>

lemma run_counters:
  "fst (run_state (record_payment a b) w) = ()"
  "\<exists>m. run_state (record_payment a b) w = ((), w\<lparr>counters := m\<rparr>)"
  "\<exists>m. run_state (record_dispatch a b n) w = ((), w\<lparr>counters := m\<rparr>)"
  "\<exists>m. run_state (record_job_metric a b) w = ((), w\<lparr>counters := m\<rparr>)"
  by (auto simp: counter_defs)

end
