(* ===== verification/Repositories.thy ===== *)
theory Repositories
  imports World Pystring
begin

text \<open>
  The repositories of src/app/repositories: \<open>create\<close> and \<open>save\<close> (\<open>add\<close>, \<open>flush\<close>, \<open>refresh\<close>) as
  actions that may raise \<open>IntegrityError\<close>, and every query as a function of the database. A query
  that orders by a column leaves rows with equal keys in insertion order.
\<close>

definition order_desc :: "('r \<Rightarrow> int) \<Rightarrow> 'r list \<Rightarrow> 'r list" where
  "order_desc f xs = sort_key (\<lambda>r. - f r) xs"

definition order_asc :: "('r \<Rightarrow> int) \<Rightarrow> 'r list \<Rightarrow> 'r list" where
  "order_asc f xs = sort_key f xs"

text \<open>\<open>if x: stmt = stmt.where(column == x)\<close>: a filter that is off for \<open>None\<close> (and for id 0).\<close>

definition where_eq :: "'x option \<Rightarrow> 'x \<Rightarrow> bool" where
  "where_eq f x \<longleftrightarrow> (case f of None \<Rightarrow> True | Some y \<Rightarrow> x = y)"

definition where_id :: "int option \<Rightarrow> int \<Rightarrow> bool" where
  "where_id f x \<longleftrightarrow> (case f of None \<Rightarrow> True | Some y \<Rightarrow> y = 0 \<or> x = y)"

definition where_ilike :: "string option \<Rightarrow> string \<Rightarrow> bool" where
  "where_ilike f s \<longleftrightarrow> (case f of None \<Rightarrow> True | Some t \<Rightarrow> t = [] \<or> ilike_contains s t)"

lemma set_order_desc [simp]: "set (order_desc f xs) = set xs"
  by (simp add: order_desc_def)

lemma set_order_asc [simp]: "set (order_asc f xs) = set xs"
  by (simp add: order_asc_def)

lemma where_eq_simps [simp]: "where_eq None x" "where_eq (Some y) x \<longleftrightarrow> x = y"
  by (simp_all add: where_eq_def)

lemma set_paginate: "x \<in> set (paginate offset limit xs) \<Longrightarrow> x \<in> set xs"
  using set_paginate_subset by fast

section \<open>Users (repositories/user.py)\<close>

definition user_by_email :: "string \<Rightarrow> database \<Rightarrow> user option" where
  "user_by_email email d = find (\<lambda>u. u_email u = email) (rows (users_t d))"

definition search_users :: "string option \<Rightarrow> database \<Rightarrow> user list" where
  "search_users email d =
     take 50 (order_asc u_id (filter (\<lambda>u. where_ilike email (u_email u)) (rows (users_t d))))"

text \<open>\<open>ORDER BY submitted_at ASC NULLS FIRST, created_at ASC\<close>, as one stable sort after another.\<close>

definition list_driver_verifications ::
  "driver_verification_status option \<Rightarrow> string option \<Rightarrow> string option \<Rightarrow> int \<Rightarrow> int \<Rightarrow> database \<Rightarrow> user list" where
  "list_driver_verifications st email plate limit offset d =
     (let us = filter (\<lambda>u. u_role u = Driver \<and> where_eq st (u_driver_verification_status u) \<and>
                  where_ilike email (u_email u) \<and>
                  (\<not> truthy plate \<or> (case u_vehicle_plate_number u of None \<Rightarrow> False
                                     | Some v \<Rightarrow> where_ilike plate v))) (rows (users_t d));
          by_created = order_asc u_created_at us;
          (unsubmitted, submitted) = partition (\<lambda>u. u_driver_profile_submitted_at u = None) by_created
      in paginate offset limit
           (unsubmitted @ order_asc (\<lambda>u. the (u_driver_profile_submitted_at u)) submitted))"

definition list_pending_driver_verifications :: "int \<Rightarrow> int \<Rightarrow> database \<Rightarrow> user list" where
  "list_pending_driver_verifications limit offset d =
     list_driver_verifications (Some VPending) None None limit offset d"

definition user_create :: "user \<Rightarrow> user svc" where
  "user_create x = do {
     d \<leftarrow> gets db;
     now \<leftarrow> gets clock;
     let x' = x\<lparr>u_id := next_id (users_t d), u_created_at := now\<rparr>;
     flush ''users'' (user_constraints (rows (users_t d)) x') (do {
       write_db (add_user x');
       ok x'
     })
   }"

definition user_save :: "user \<Rightarrow> user svc" where
  "user_save x = do {
     d \<leftarrow> gets db;
     flush ''users'' (user_constraints (rows (users_t d)) x) (do {
       write_db (put_user x);
       ok x
     })
   }"

section \<open>Rides (repositories/ride.py)\<close>

definition search_rides_query ::
  "string option \<Rightarrow> string option \<Rightarrow> instant option \<Rightarrow> int \<Rightarrow> int \<Rightarrow> database \<Rightarrow> ride list" where
  "search_rides_query origin destination departure_after limit offset d =
     paginate offset limit (order_asc r_departure_time (filter (\<lambda>r.
       r_status r = RScheduled \<and> r_is_active r \<and> 0 < r_available_seats r \<and>
       where_ilike origin (r_origin r) \<and> where_ilike destination (r_destination r) \<and>
       (case departure_after of None \<Rightarrow> True | Some t \<Rightarrow> t \<le> r_departure_time r)) (rows (rides_t d))))"

definition rides_by_driver :: "int \<Rightarrow> ride_status option \<Rightarrow> int \<Rightarrow> int \<Rightarrow> database \<Rightarrow> ride list" where
  "rides_by_driver driver_id st limit offset d =
     paginate offset limit (order_asc r_departure_time
       (filter (\<lambda>r. r_driver_id r = driver_id \<and> where_eq st (r_status r)) (rows (rides_t d))))"

text \<open>The locations of a ride, newest first; of two written at one instant the later id first.\<close>

definition newest_locations :: "int \<Rightarrow> database \<Rightarrow> ride_location list" where
  "newest_locations ride_id d =
     order_desc l_created_at (order_desc l_id (filter (\<lambda>l. l_ride_id l = ride_id) (rows (ride_locations_t d))))"

definition get_latest_location :: "int \<Rightarrow> database \<Rightarrow> ride_location option" where
  "get_latest_location ride_id d =
     (case newest_locations ride_id d of [] \<Rightarrow> None | l # _ \<Rightarrow> Some l)"

definition list_locations :: "int \<Rightarrow> int \<Rightarrow> database \<Rightarrow> ride_location list" where
  "list_locations ride_id limit d = take (nat limit) (newest_locations ride_id d)"

definition delete_locations_older_than :: "instant \<Rightarrow> int act" where
  "delete_locations_older_than cutoff = do {
     d \<leftarrow> gets db;
     let old = filter (\<lambda>l. l_created_at l < cutoff) (rows (ride_locations_t d));
     write_db (\<lambda>d. d\<lparr>ride_locations_t := table_delete (\<lambda>l. l_created_at l < cutoff) (ride_locations_t d)\<rparr>);
     State_Monad.return (int (length old))
   }"

definition ride_create :: "ride \<Rightarrow> ride svc" where
  "ride_create x = do {
     d \<leftarrow> gets db;
     now \<leftarrow> gets clock;
     let x' = x\<lparr>r_id := next_id (rides_t d), r_created_at := now\<rparr>;
     flush ''rides'' (ride_constraints x') (do {
       write_db (add_ride x');
       ok x'
     })
   }"

definition ride_save :: "ride \<Rightarrow> ride svc" where
  "ride_save x =
     flush ''rides'' (ride_constraints x) (do {
       write_db (put_ride x);
       ok x
     })"

definition location_create :: "ride_location \<Rightarrow> ride_location svc" where
  "location_create x = do {
     d \<leftarrow> gets db;
     now \<leftarrow> gets clock;
     let x' = x\<lparr>l_id := next_id (ride_locations_t d), l_created_at := now\<rparr>;
     flush ''ride_locations'' (location_constraints x') (do {
       write_db (add_location x');
       ok x'
     })
   }"

section \<open>Bookings (repositories/booking.py)\<close>

definition booking_by_ride_and_passenger :: "int \<Rightarrow> int \<Rightarrow> database \<Rightarrow> booking option" where
  "booking_by_ride_and_passenger ride_id passenger_id d =
     find (\<lambda>b. b_ride_id b = ride_id \<and> b_passenger_id b = passenger_id) (rows (bookings_t d))"

definition booking_by_share_token_hash :: "string \<Rightarrow> database \<Rightarrow> booking option" where
  "booking_by_share_token_hash h d = find (\<lambda>b. b_share_token_hash b = Some h) (rows (bookings_t d))"

definition ride_of :: "booking \<Rightarrow> database \<Rightarrow> ride option" where
  "ride_of b d = get_ride (b_ride_id b) d"

definition bookings_of_ride :: "int \<Rightarrow> database \<Rightarrow> booking list" where
  "bookings_of_ride ride_id d = filter (\<lambda>b. b_ride_id b = ride_id) (rows (bookings_t d))"

definition bookings_by_passenger ::
  "int \<Rightarrow> booking_status option \<Rightarrow> int \<Rightarrow> int \<Rightarrow> database \<Rightarrow> booking list" where
  "bookings_by_passenger passenger_id st limit offset d =
     paginate offset limit (order_desc b_created_at
       (filter (\<lambda>b. b_passenger_id b = passenger_id \<and> where_eq st (b_status b)) (rows (bookings_t d))))"

text \<open>\<open>join(Ride)\<close>: a condition on the ride of a booking.\<close>

definition on_ride :: "(ride \<Rightarrow> bool) \<Rightarrow> database \<Rightarrow> booking \<Rightarrow> bool" where
  "on_ride P d b \<longleftrightarrow> (case ride_of b d of None \<Rightarrow> False | Some r \<Rightarrow> P r)"

definition bookings_for_driver ::
  "int \<Rightarrow> booking_status option \<Rightarrow> int \<Rightarrow> int \<Rightarrow> database \<Rightarrow> booking list" where
  "bookings_for_driver driver_id st limit offset d =
     paginate offset limit (order_desc b_created_at
       (filter (\<lambda>b. on_ride (\<lambda>r. r_driver_id r = driver_id) d b \<and> where_eq st (b_status b))
         (rows (bookings_t d))))"

definition bookings_for_operations ::
  "booking_status option \<Rightarrow> int option \<Rightarrow> int option \<Rightarrow> int option \<Rightarrow> bool option \<Rightarrow> int \<Rightarrow> int \<Rightarrow>
     database \<Rightarrow> booking list" where
  "bookings_for_operations st driver_id passenger_id ride_id boarded limit offset d =
     paginate offset limit (order_desc b_created_at
       (filter (\<lambda>b. on_ride (\<lambda>r. where_id driver_id (r_driver_id r)) d b \<and> where_eq st (b_status b) \<and>
           where_id passenger_id (b_passenger_id b) \<and> where_id ride_id (b_ride_id b) \<and>
           (case boarded of None \<Rightarrow> True | Some w \<Rightarrow> (b_boarded_at b \<noteq> None) = w))
         (rows (bookings_t d))))"

definition accepted_departures_within :: "instant \<Rightarrow> instant \<Rightarrow> int \<Rightarrow> database \<Rightarrow> booking list" where
  "accepted_departures_within starts_after ends_before limit d =
     take (nat limit) (order_asc (\<lambda>b. case ride_of b d of None \<Rightarrow> 0 | Some r \<Rightarrow> r_departure_time r)
       (filter (\<lambda>b. b_status b = BAccepted \<and>
           on_ride (\<lambda>r. starts_after \<le> r_departure_time r \<and> r_departure_time r \<le> ends_before) d b)
         (rows (bookings_t d))))"

definition booking_create :: "booking \<Rightarrow> booking svc" where
  "booking_create x = do {
     d \<leftarrow> gets db;
     now \<leftarrow> gets clock;
     let x' = x\<lparr>b_id := next_id (bookings_t d), b_created_at := now\<rparr>;
     flush ''bookings'' (booking_constraints (rows (bookings_t d)) x') (do {
       write_db (add_booking x');
       ok x'
     })
   }"

definition booking_save :: "booking \<Rightarrow> booking svc" where
  "booking_save x = do {
     d \<leftarrow> gets db;
     flush ''bookings'' (booking_constraints (rows (bookings_t d)) x) (do {
       write_db (put_booking x);
       ok x
     })
   }"

section \<open>Payments (repositories/payment.py)\<close>

definition payment_by_booking_id :: "int \<Rightarrow> database \<Rightarrow> payment option" where
  "payment_by_booking_id booking_id d = find (\<lambda>p. p_booking_id p = booking_id) (rows (payments_t d))"

definition payment_by_provider_payment_id :: "string \<Rightarrow> database \<Rightarrow> payment option" where
  "payment_by_provider_payment_id i d = find (\<lambda>p. p_provider_payment_id p = Some i) (rows (payments_t d))"

definition payment_by_provider_order_id :: "string \<Rightarrow> database \<Rightarrow> payment option" where
  "payment_by_provider_order_id i d = find (\<lambda>p. p_provider_order_id p = i) (rows (payments_t d))"

definition event_by_provider_id :: "string \<Rightarrow> database \<Rightarrow> payment_event option" where
  "event_by_provider_id i d = find (\<lambda>e. e_provider_event_id e = i) (rows (payment_events_t d))"

definition payments_for_user :: "int \<Rightarrow> int \<Rightarrow> int \<Rightarrow> database \<Rightarrow> payment list" where
  "payments_for_user user_id limit offset d =
     paginate offset limit (order_desc p_created_at (filter (\<lambda>p. p_payer_id p = user_id) (rows (payments_t d))))"

definition payments_for_operations ::
  "payment_status option \<Rightarrow> payment_provider option \<Rightarrow> int option \<Rightarrow> int option \<Rightarrow> int \<Rightarrow> int \<Rightarrow>
     database \<Rightarrow> payment list" where
  "payments_for_operations st prov booking_id payer_id limit offset d =
     paginate offset limit (order_desc p_updated_at (order_desc p_created_at
       (filter (\<lambda>p. where_eq st (p_status p) \<and> where_eq prov (p_provider p) \<and>
          where_id booking_id (p_booking_id p) \<and> where_id payer_id (p_payer_id p)) (rows (payments_t d)))))"

definition payment_create :: "payment \<Rightarrow> payment svc" where
  "payment_create x = do {
     d \<leftarrow> gets db;
     now \<leftarrow> gets clock;
     let x' = x\<lparr>p_id := next_id (payments_t d), p_created_at := now, p_updated_at := now\<rparr>;
     flush ''payments'' (payment_constraints (rows (payments_t d)) x') (do {
       write_db (add_payment x');
       ok x'
     })
   }"

text \<open>\<open>updated_at\<close> has \<open>onupdate\<close>: it moves when the flush writes a changed row.\<close>

definition payment_save :: "payment \<Rightarrow> payment svc" where
  "payment_save x = do {
     d \<leftarrow> gets db;
     now \<leftarrow> gets clock;
     let x' = (if get_payment (p_id x) d = Some x then x else x\<lparr>p_updated_at := now\<rparr>);
     flush ''payments'' (payment_constraints (rows (payments_t d)) x') (do {
       write_db (put_payment x');
       ok x'
     })
   }"

definition event_create :: "payment_event \<Rightarrow> payment_event svc" where
  "event_create x = do {
     d \<leftarrow> gets db;
     now \<leftarrow> gets clock;
     let x' = x\<lparr>e_id := next_id (payment_events_t d), e_created_at := now\<rparr>;
     flush ''payment_events'' (payment_event_constraints (rows (payment_events_t d)) x') (do {
       write_db (add_payment_event x');
       ok x'
     })
   }"

section \<open>Dispatch (repositories/dispatch.py)\<close>

definition get_driver_availability :: "int \<Rightarrow> database \<Rightarrow> driver_availability option" where
  "get_driver_availability driver_id d = find (\<lambda>v. v_driver_id v = driver_id) (rows (availability_t d))"

text \<open>An upsert: a row without a key yet (id 0) is inserted, one that was loaded is written back.\<close>

definition upsert_driver_availability :: "driver_availability \<Rightarrow> driver_availability svc" where
  "upsert_driver_availability x = do {
     d \<leftarrow> gets db;
     let x' = (if v_id x = 0 then x\<lparr>v_id := next_id (availability_t d)\<rparr> else x);
     flush ''driver_availability'' (availability_constraints (rows (availability_t d)) x') (do {
       write_db (if v_id x = 0 then add_availability x' else put_availability x');
       ok x'
     })
   }"

definition touch_driver_availability :: "int \<Rightarrow> driver_availability option svc" where
  "touch_driver_availability driver_id = do {
     d \<leftarrow> gets db;
     now \<leftarrow> gets clock;
     case get_driver_availability driver_id d of
       None \<Rightarrow> ok None
     | Some v \<Rightarrow> do {
         let v' = v\<lparr>v_updated_at := now\<rparr>;
         write_db (put_availability v');
         ok (Some v')
       }
   }"

definition open_request_for_passenger :: "int \<Rightarrow> database \<Rightarrow> ride_request option" where
  "open_request_for_passenger passenger_id d =
     (case order_desc q_created_at
        (filter (\<lambda>q. q_passenger_id q = passenger_id \<and> q_status q = QOpen) (rows (ride_requests_t d))) of
        [] \<Rightarrow> None | q # _ \<Rightarrow> Some q)"

definition requests_by_passenger ::
  "int \<Rightarrow> ride_request_status option \<Rightarrow> int \<Rightarrow> int \<Rightarrow> database \<Rightarrow> ride_request list" where
  "requests_by_passenger passenger_id st limit offset d =
     paginate offset limit (order_desc q_created_at
       (filter (\<lambda>q. q_passenger_id q = passenger_id \<and> where_eq st (q_status q)) (rows (ride_requests_t d))))"

definition is_dismissed :: "int \<Rightarrow> int \<Rightarrow> database \<Rightarrow> bool" where
  "is_dismissed driver_id request_id d =
     list_ex (\<lambda>x. d_driver_id x = driver_id \<and> d_request_id x = request_id) (rows (dismissals_t d))"

definition list_open_requests :: "int option \<Rightarrow> int \<Rightarrow> int \<Rightarrow> database \<Rightarrow> ride_request list" where
  "list_open_requests driver_id limit offset d =
     paginate offset limit (order_desc q_created_at
       (filter (\<lambda>q. q_status q = QOpen \<and>
          (case driver_id of None \<Rightarrow> True | Some v \<Rightarrow> \<not> is_dismissed v (q_id q) d)) (rows (ride_requests_t d))))"

definition list_expirable_open_requests :: "instant \<Rightarrow> int \<Rightarrow> database \<Rightarrow> ride_request list" where
  "list_expirable_open_requests before limit d =
     take (nat limit) (order_desc q_requested_departure_time
       (filter (\<lambda>q. q_status q = QOpen \<and> q_requested_departure_time q < before) (rows (ride_requests_t d))))"

definition request_create :: "ride_request \<Rightarrow> ride_request svc" where
  "request_create x = do {
     d \<leftarrow> gets db;
     now \<leftarrow> gets clock;
     let x' = x\<lparr>q_id := next_id (ride_requests_t d), q_created_at := now\<rparr>;
     write_db (add_request x');
     ok x'
   }"

definition request_save :: "ride_request \<Rightarrow> ride_request svc" where
  "request_save x = do {
     write_db (put_request x);
     ok x
   }"

definition dismissal_create :: "driver_request_dismissal \<Rightarrow> driver_request_dismissal svc" where
  "dismissal_create x = do {
     d \<leftarrow> gets db;
     let x' = x\<lparr>d_id := next_id (dismissals_t d)\<rparr>;
     flush ''driver_request_dismissals'' (dismissal_constraints (rows (dismissals_t d)) x') (do {
       write_db (add_dismissal x');
       ok x'
     })
   }"

definition get_driver_request_dismissal :: "int \<Rightarrow> int \<Rightarrow> database \<Rightarrow> driver_request_dismissal option" where
  "get_driver_request_dismissal driver_id request_id d =
     find (\<lambda>x. d_driver_id x = driver_id \<and> d_request_id x = request_id) (rows (dismissals_t d))"

definition delete_dismissals_older_than :: "instant \<Rightarrow> int act" where
  "delete_dismissals_older_than before = do {
     d \<leftarrow> gets db;
     let old = filter (\<lambda>x. d_dismissed_at x < before) (rows (dismissals_t d));
     write_db (\<lambda>d. d\<lparr>dismissals_t := table_delete (\<lambda>x. d_dismissed_at x < before) (dismissals_t d)\<rparr>);
     State_Monad.return (int (length old))
   }"

definition delete_availability_older_than :: "instant \<Rightarrow> int act" where
  "delete_availability_older_than before = do {
     d \<leftarrow> gets db;
     let old = filter (\<lambda>v. v_updated_at v < before) (rows (availability_t d));
     write_db (\<lambda>d. d\<lparr>availability_t := table_delete (\<lambda>v. v_updated_at v < before) (availability_t d)\<rparr>);
     State_Monad.return (int (length old))
   }"

section \<open>Notifications, messages, reviews (repositories/notification.py, message.py, review.py)\<close>

definition notification_create :: "notification \<Rightarrow> notification svc" where
  "notification_create x = do {
     d \<leftarrow> gets db;
     now \<leftarrow> gets clock;
     let x' = x\<lparr>n_id := next_id (notifications_t d), n_created_at := now\<rparr>;
     write_db (add_notification x');
     ok x'
   }"

definition notifications_for_user ::
  "int \<Rightarrow> bool option \<Rightarrow> notification_type option \<Rightarrow> int \<Rightarrow> int \<Rightarrow> database \<Rightarrow> notification list" where
  "notifications_for_user user_id is_read ty limit offset d =
     paginate offset limit (order_desc n_created_at
       (filter (\<lambda>n. n_recipient_id n = user_id \<and> where_eq is_read (n_is_read n) \<and> where_eq ty (n_type n))
         (rows (notifications_t d))))"

definition notification_for_user :: "int \<Rightarrow> int \<Rightarrow> database \<Rightarrow> notification option" where
  "notification_for_user notification_id user_id d =
     find (\<lambda>n. n_id n = notification_id \<and> n_recipient_id n = user_id) (rows (notifications_t d))"

definition count_unread :: "int \<Rightarrow> database \<Rightarrow> int" where
  "count_unread user_id d =
     int (length (filter (\<lambda>n. n_recipient_id n = user_id \<and> \<not> n_is_read n) (rows (notifications_t d))))"

definition mark_all_read :: "int \<Rightarrow> instant \<Rightarrow> int act" where
  "mark_all_read user_id read_at = do {
     d \<leftarrow> gets db;
     let unread = filter (\<lambda>n. n_recipient_id n = user_id \<and> \<not> n_is_read n) (rows (notifications_t d));
     for_each (\<lambda>n. write_db (put_notification (n\<lparr>n_is_read := True, n_read_at := Some read_at\<rparr>))) unread;
     State_Monad.return (int (length unread))
   }"

definition message_create :: "message \<Rightarrow> message svc" where
  "message_create x = do {
     d \<leftarrow> gets db;
     now \<leftarrow> gets clock;
     let x' = x\<lparr>m_id := next_id (messages_t d), m_created_at := now\<rparr>;
     write_db (add_message x');
     ok x'
   }"

definition messages_by_booking :: "int \<Rightarrow> database \<Rightarrow> message list" where
  "messages_by_booking booking_id d =
     order_asc m_created_at (filter (\<lambda>m. m_booking_id m = booking_id) (rows (messages_t d)))"

definition unseen_for_recipient :: "int \<Rightarrow> int \<Rightarrow> database \<Rightarrow> message list" where
  "unseen_for_recipient booking_id recipient_id d =
     order_asc m_created_at (filter (\<lambda>m. m_booking_id m = booking_id \<and> m_sender_id m \<noteq> recipient_id \<and>
        m_seen_at m = None) (rows (messages_t d)))"

definition mark_seen :: "message list \<Rightarrow> instant \<Rightarrow> message list act" where
  "mark_seen ms seen_at = do {
     for_each (\<lambda>m. write_db (put_message (m\<lparr>m_seen_at := Some seen_at\<rparr>))) ms;
     State_Monad.return (map (\<lambda>m. m\<lparr>m_seen_at := Some seen_at\<rparr>) ms)
   }"

definition review_by_booking_and_reviewer :: "int \<Rightarrow> int \<Rightarrow> database \<Rightarrow> review option" where
  "review_by_booking_and_reviewer booking_id reviewer_id d =
     find (\<lambda>w. w_booking_id w = booking_id \<and> w_reviewer_id w = reviewer_id) (rows (reviews_t d))"

text \<open>\<open>avg\<close> is NULL without rows; \<open>or 5.0\<close> also replaces an average of 0.\<close>

definition average_rating :: "int \<Rightarrow> database \<Rightarrow> real" where
  "average_rating user_id d =
     (let rs = map w_rating (filter (\<lambda>w. w_reviewee_id w = user_id) (rows (reviews_t d)))
      in if rs = [] then 5
         else let a = real_of_int (sum_list rs) / real (length rs) in if a = 0 then 5 else a)"

definition review_create :: "review \<Rightarrow> review svc" where
  "review_create x = do {
     d \<leftarrow> gets db;
     now \<leftarrow> gets clock;
     let x' = x\<lparr>w_id := next_id (reviews_t d), w_created_at := now\<rparr>;
     flush ''reviews'' (review_constraints (rows (reviews_t d)) x') (do {
       write_db (add_review x');
       ok x'
     })
   }"

section \<open>Incidents (repositories/incident.py)\<close>

definition incidents_for_reporter :: "int \<Rightarrow> int \<Rightarrow> int \<Rightarrow> database \<Rightarrow> incident_report list" where
  "incidents_for_reporter reporter_id limit offset d =
     paginate offset limit (order_desc i_created_at
       (filter (\<lambda>i. i_reporter_id i = reporter_id) (rows (incidents_t d))))"

definition incidents_for_support ::
  "incident_status option \<Rightarrow> int option \<Rightarrow> int option \<Rightarrow> int option \<Rightarrow> int \<Rightarrow> int \<Rightarrow> database \<Rightarrow>
     incident_report list" where
  "incidents_for_support st reporter_id ride_id booking_id limit offset d =
     paginate offset limit (order_desc i_created_at
       (filter (\<lambda>i. where_eq st (i_status i) \<and> where_id reporter_id (i_reporter_id i) \<and>
          (case ride_id of None \<Rightarrow> True | Some k \<Rightarrow> k = 0 \<or> i_ride_id i = Some k) \<and>
          (case booking_id of None \<Rightarrow> True | Some k \<Rightarrow> k = 0 \<or> i_booking_id i = Some k)) (rows (incidents_t d))))"

definition incident_create :: "incident_report \<Rightarrow> incident_report svc" where
  "incident_create x = do {
     d \<leftarrow> gets db;
     now \<leftarrow> gets clock;
     let x' = x\<lparr>i_id := next_id (incidents_t d), i_created_at := now\<rparr>;
     write_db (add_incident x');
     ok x'
   }"

definition incident_save :: "incident_report \<Rightarrow> incident_report svc" where
  "incident_save x = do {
     write_db (put_incident x);
     ok x
   }"

section \<open>Audit logs (repositories/audit_log.py)\<close>

definition audit_create :: "audit_log \<Rightarrow> audit_log act" where
  "audit_create x = do {
     d \<leftarrow> gets db;
     now \<leftarrow> gets clock;
     let x' = x\<lparr>a_id := next_id (audit_logs_t d), a_created_at := now\<rparr>;
     write_db (add_audit x');
     State_Monad.return x'
   }"

definition audit_logs_for_user :: "int \<Rightarrow> int \<Rightarrow> int \<Rightarrow> database \<Rightarrow> audit_log list" where
  "audit_logs_for_user user_id limit offset d =
     paginate offset limit (order_desc a_created_at
       (filter (\<lambda>a. a_actor_user_id a = Some user_id) (rows (audit_logs_t d))))"

definition audit_logs_for_entity ::
  "string \<Rightarrow> string \<Rightarrow> string option \<Rightarrow> int \<Rightarrow> int \<Rightarrow> database \<Rightarrow> audit_log list" where
  "audit_logs_for_entity entity_type entity_id prefix limit offset d =
     paginate offset limit (order_desc a_created_at
       (filter (\<lambda>a. a_entity_type a = Some entity_type \<and> a_entity_id a = Some entity_id \<and>
          (case prefix of None \<Rightarrow> True | Some p \<Rightarrow> starts_with (a_action a) p)) (rows (audit_logs_t d))))"

definition count_audit_for_user :: "int \<Rightarrow> database \<Rightarrow> int" where
  "count_audit_for_user user_id d =
     int (length (filter (\<lambda>a. a_actor_user_id a = Some user_id) (rows (audit_logs_t d))))"

text \<open>\<open>GROUP BY\<close> with a count, as an association list.\<close>

definition counts_by :: "(audit_log \<Rightarrow> string) \<Rightarrow> int \<Rightarrow> database \<Rightarrow> (string \<times> int) list" where
  "counts_by f user_id d =
     (let ks = map f (filter (\<lambda>a. a_actor_user_id a = Some user_id) (rows (audit_logs_t d)))
      in map (\<lambda>k. (k, int (count_list ks k))) (remdups ks))"

definition counts_by_action_for_user :: "int \<Rightarrow> database \<Rightarrow> (string \<times> int) list" where
  "counts_by_action_for_user = counts_by a_action"

definition counts_by_severity_for_user :: "int \<Rightarrow> database \<Rightarrow> (string \<times> int) list" where
  "counts_by_severity_for_user = counts_by a_severity"

definition delete_audit_where :: "(audit_log \<Rightarrow> bool) \<Rightarrow> int act" where
  "delete_audit_where P = do {
     d \<leftarrow> gets db;
     let old = filter P (rows (audit_logs_t d));
     write_db (\<lambda>d. d\<lparr>audit_logs_t := table_delete P (audit_logs_t d)\<rparr>);
     State_Monad.return (int (length old))
   }"

text \<open>\<open>datetime('now', '-n days')\<close> has whole seconds.\<close>

definition delete_audit_older_than :: "int \<Rightarrow> int act" where
  "delete_audit_older_than n = do {
     now \<leftarrow> gets clock;
     delete_audit_where (\<lambda>a. a_created_at a < seconds (now div seconds 1) - days n)
   }"

end
