(* ===== verification/JobQueue.thy ===== *)
theory JobQueue
  imports World Pystring
begin

text \<open>
  The background queue of src/app/services/job_queue.py. \<open>enqueue_with\<close> and \<open>execute_with\<close> are the
  two mutually recursive methods, over the action \<open>run\<close> that calls a job's handler; they cover the
  synchronous modes, where a retry recurses at once. The services use \<open>enqueue\<close>, the queue of a
  running worker, which is what \<open>enqueue_with\<close> does under the default settings (\<open>enqueue_worker\<close>).
  A job id is a fresh number in place of a UUID, and a sleep does not move the clock.
\<close>

definition set_jobs :: "(job_queue \<Rightarrow> job_queue) \<Rightarrow> unit act" where
  "set_jobs f = modify (\<lambda>w. w\<lparr>jobs := f (jobs w)\<rparr>)"

definition new_job :: "string \<Rightarrow> job_handler \<Rightarrow> int \<Rightarrow> job act" where
  "new_job name h retries = do {
     q \<leftarrow> gets jobs;
     set_jobs (\<lambda>q. q\<lparr>jq_next_job_id := jq_next_job_id q + 1\<rparr>);
     State_Monad.return
       \<lparr>j_name = name, j_handler = h, j_job_id = jq_next_job_id q, j_attempts = 0, j_max_retries = retries\<rparr>
   }"

definition record_event :: "job \<Rightarrow> string \<Rightarrow> string option \<Rightarrow> unit act" where
  "record_event j st err = do {
     now \<leftarrow> gets clock;
     set_jobs (\<lambda>q. q\<lparr>jq_recent_events := keep_last 25 (jq_recent_events q @
       [\<lparr>ev_job_id = j_job_id j, ev_name = j_name j, ev_status = st, ev_attempts = j_attempts j,
         ev_max_retries = j_max_retries j, ev_error = err, ev_timestamp = now\<rparr>])\<rparr>)
   }"

definition record_success :: "job \<Rightarrow> unit act" where
  "record_success j = do {
     set_jobs (\<lambda>q. q\<lparr>jq_success_total := jq_success_total q + 1, jq_last_successful_job := Some (j_name j)\<rparr>);
     record_event j ''success'' None
   }"

definition record_retry :: "job \<Rightarrow> unit act" where
  "record_retry j = do {
     set_jobs (\<lambda>q. q\<lparr>jq_retry_total := jq_retry_total q + 1\<rparr>);
     record_event j ''retry'' None
   }"

definition failure_message :: "job \<Rightarrow> string" where
  "failure_message j = j_name j @ '' failed after '' @ str_int (j_attempts j) @ '' attempts''"

definition record_failure :: "job \<Rightarrow> unit act" where
  "record_failure j = do {
     let error_message = failure_message j;
     set_jobs (\<lambda>q. q\<lparr>jq_failed_total := jq_failed_total q + 1, jq_last_failed_job := Some (j_name j),
       jq_last_error := Some error_message\<rparr>);
     record_event j ''failed'' (Some error_message)
   }"

definition put_job :: "job \<Rightarrow> unit act" where
  "put_job j = set_jobs (\<lambda>q. q\<lparr>jq_jobs := jq_jobs q @ [j]\<rparr>)"

definition next_attempt :: "job \<Rightarrow> job" where
  "next_attempt j = j\<lparr>j_attempts := j_attempts j + 1\<rparr>"

text \<open>Does \<open>enqueue\<close> run the job at once instead of handing it to the worker?\<close>

definition runs_inline :: "feature_settings \<Rightarrow> bool" where
  "runs_inline s \<longleftrightarrow> JOBS_SYNCHRONOUS s \<or> \<not> JOB_WORKER_ENABLED s"

function (sequential)
  enqueue_with :: "feature_settings \<Rightarrow> (job_handler \<Rightarrow> unit svc) \<Rightarrow> job \<Rightarrow> unit act" and
  execute_with :: "feature_settings \<Rightarrow> (job_handler \<Rightarrow> unit svc) \<Rightarrow> job \<Rightarrow> unit act" where
  "enqueue_with s run j = do {
     record_event j ''queued'' None;
     if runs_inline s then execute_with s run j else put_job j
   }"
| "execute_with s run j = do {
     record_event j ''running'' None;
     r \<leftarrow> run (j_handler j);
     case r of
       Inr _ \<Rightarrow> do {
         record_job_metric (j_name j) ''success'';
         record_success j
       }
     | Inl _ \<Rightarrow>
         (let j' = next_attempt j in
          if j_attempts j' \<le> j_max_retries j' then do {
            record_job_metric (j_name j') ''retry'';
            record_retry j';
            enqueue_with s run j'
          } else do {
            record_job_metric (j_name j') ''failed'';
            record_failure j'
          })
   }"
  by pat_completeness auto

termination
  by (relation "measure (\<lambda>x. case x of
        Inl (s, run, j) \<Rightarrow> 2 * nat (j_max_retries j + 1 - j_attempts j) + 1
      | Inr (s, run, j) \<Rightarrow> 2 * nat (j_max_retries j + 1 - j_attempts j))")
    (auto simp: next_attempt_def)

declare enqueue_with.simps [simp del] execute_with.simps [simp del]

section \<open>The queue of a running worker\<close>

definition enqueue :: "job \<Rightarrow> unit act" where
  "enqueue j = do {
     record_event j ''queued'' None;
     put_job j
   }"

lemma enqueue_worker: "\<not> runs_inline s \<Longrightarrow> enqueue_with s run j = enqueue j"
  by (simp add: enqueue_with.simps enqueue_def)

text \<open>One turn of the worker's loop: \<open>get\<close>, then \<open>_execute\<close>.\<close>

definition worker_turn :: "feature_settings \<Rightarrow> (job_handler \<Rightarrow> unit svc) \<Rightarrow> unit act" where
  "worker_turn s run = do {
     q \<leftarrow> gets jobs;
     case jq_jobs q of
       [] \<Rightarrow> State_Monad.return ()
     | j # js \<Rightarrow> do {
         set_jobs (\<lambda>q. q\<lparr>jq_jobs := js\<rparr>);
         execute_with s run j
       }
   }"

definition reset_queue :: "unit act" where
  "reset_queue = set_jobs (\<lambda>q. q\<lparr>jq_recent_events := [], jq_success_total := 0, jq_retry_total := 0,
     jq_failed_total := 0, jq_last_error := None, jq_last_failed_job := None,
     jq_last_successful_job := None, jq_jobs := []\<rparr>)"

section \<open>What the snapshot counts\<close>

definition named :: "string list \<Rightarrow> job_event \<Rightarrow> bool" where
  "named prefixes e \<longleftrightarrow> list_ex (starts_with (ev_name e)) prefixes"

definition count_events :: "(job_event \<Rightarrow> bool) \<Rightarrow> job_event list \<Rightarrow> int" where
  "count_events P es = int (length (filter P es))"

record job_snapshot =
  sn_worker_enabled :: bool
  sn_synchronous :: bool
  sn_queued_jobs :: int
  sn_success_total :: int
  sn_retry_total :: int
  sn_failed_total :: int
  sn_last_successful_job :: "string option"
  sn_last_failed_job :: "string option"
  sn_last_error :: "string option"
  sn_recent_events :: "job_event list"
  sn_maintenance_jobs :: "(string \<times> int) list"
  sn_dispatch_notification_jobs :: "(string \<times> int) list"
  sn_dispatch_cleanup_jobs :: "(string \<times> int) list"
  sn_payment_retry_jobs :: "(string \<times> int) list"
  sn_failed_email_jobs :: "job_event list"
  sn_failed_dispatch_notification_jobs :: "job_event list"
  sn_failed_payment_jobs :: "job_event list"

definition snapshot :: "feature_settings \<Rightarrow> job_queue \<Rightarrow> job_snapshot" where
  "snapshot s q =
     (let recent = jq_recent_events q;
          maintenance = filter (named [''session-cleanup:'', ''trip-reminder-email:'', ''audit-log-retention:'']) recent;
          dispatch = filter (named [''dispatch-notification:'']) recent;
          cleanup = filter (named [''dispatch-request-expiry:'', ''dispatch-dismissal-cleanup:'',
                                   ''dispatch-presence-cleanup:'']) recent;
          retries = filter (named [''payment-capture-retry:'', ''payment-refund-retry:'',
                                   ''payment-reconciliation:'']) recent;
          failed = (\<lambda>e. ev_status e = ''failed'');
          retrying = (\<lambda>e. ev_status e = ''retry'');
          ending = (\<lambda>suffix e. ends_with (ev_name e) suffix)
      in \<lparr>sn_worker_enabled = JOB_WORKER_ENABLED s,
          sn_synchronous = JOBS_SYNCHRONOUS s,
          sn_queued_jobs = int (length (jq_jobs q)),
          sn_success_total = jq_success_total q,
          sn_retry_total = jq_retry_total q,
          sn_failed_total = jq_failed_total q,
          sn_last_successful_job = jq_last_successful_job q,
          sn_last_failed_job = jq_last_failed_job q,
          sn_last_error = jq_last_error q,
          sn_recent_events = recent,
          sn_maintenance_jobs =
            [(''total'', int (length maintenance)),
             (''session_cleanup'', count_events (named [''session-cleanup:'']) maintenance),
             (''trip_reminders'', count_events (named [''trip-reminder-email:'']) maintenance),
             (''audit_retention'', count_events (named [''audit-log-retention:'']) maintenance)],
          sn_dispatch_notification_jobs =
            [(''total'', int (length dispatch)),
             (''matched'', count_events (ending '':dispatch_matched'') dispatch),
             (''cancelled'', count_events (ending '':dispatch_cancelled'') dispatch),
             (''expired'', count_events (ending '':dispatch_expired'') dispatch),
             (''retrying'', count_events retrying dispatch)],
          sn_dispatch_cleanup_jobs =
            [(''total'', int (length cleanup)),
             (''request_expiry'', count_events (named [''dispatch-request-expiry:'']) cleanup),
             (''dismissal_cleanup'', count_events (named [''dispatch-dismissal-cleanup:'']) cleanup),
             (''presence_cleanup'', count_events (named [''dispatch-presence-cleanup:'']) cleanup)],
          sn_payment_retry_jobs =
            [(''total'', int (length retries)),
             (''capture_retries'', count_events (named [''payment-capture-retry:'']) retries),
             (''refund_retries'', count_events (named [''payment-refund-retry:'']) retries),
             (''reconciliations'', count_events (named [''payment-reconciliation:'']) retries),
             (''retrying'', count_events retrying retries)],
          sn_failed_email_jobs = filter (\<lambda>e. failed e \<and> starts_with (ev_name e) ''send-'') recent,
          sn_failed_dispatch_notification_jobs = filter failed dispatch,
          sn_failed_payment_jobs = filter failed retries\<rparr>)"

section \<open>Frames and runs\<close>

lemmas job_defs = set_jobs_def new_job_def record_event_def record_success_def record_retry_def
  record_failure_def put_job_def enqueue_def

lemma keeps_set_jobs [frame]: "(\<And>w q. F (w\<lparr>jobs := q\<rparr>) = F w) \<Longrightarrow> keeps F (set_jobs f)"
  by (simp add: set_jobs_def keeps_modify)

lemma keeps_jobs [frame]:
  assumes "\<And>w q. F (w\<lparr>jobs := q\<rparr>) = F w"
  shows "keeps F (new_job name h n)" "keeps F (record_event j st err)" "keeps F (record_success j)"
    "keeps F (record_retry j)" "keeps F (record_failure j)" "keeps F (put_job j)" "keeps F (enqueue j)"
  using assms
  by (auto simp: new_job_def record_event_def record_success_def record_retry_def record_failure_def
      put_job_def enqueue_def Let_def intro!: frame)

end
