(* ===== verification/Evolution.thy ===== *)
theory Evolution
  imports Repositories JobQueue
begin

text \<open>
  What a request can do to the database, step by step. A relation \<open>R\<close> says which single writes are
  allowed; \<open>obeys R P m Q\<close> says that the action \<open>m\<close>, started where \<open>P\<close> holds, ends in \<open>Q\<close> and
  has changed the session's database and the committed one only along \<open>R\<close>: whatever larger
  reflexive and transitive relation holds from the committed to the pending state before \<open>m\<close>, it
  holds between the two committed states, and from the committed to the pending state after. The
  locale \<open>evolution\<close> is the interface of such a relation to the requests: its laws are that the
  relation is a preorder, and its lemmas carry \<open>obeys\<close> to sessions and their committed effect.
\<close>

definition larger :: "(database \<Rightarrow> database \<Rightarrow> bool) \<Rightarrow> (database \<Rightarrow> database \<Rightarrow> bool) \<Rightarrow> bool" where
  "larger R S \<longleftrightarrow> (\<forall>d. S d d) \<and> (\<forall>a b c. S a b \<longrightarrow> S b c \<longrightarrow> S a c) \<and> (\<forall>a b. R a b \<longrightarrow> S a b)"

definition moves :: "(database \<Rightarrow> database \<Rightarrow> bool) \<Rightarrow> world \<Rightarrow> world \<Rightarrow> bool" where
  "moves R w w' \<longleftrightarrow> (\<forall>S. larger R S \<longrightarrow> S (durable w) (db w) \<longrightarrow>
     S (durable w) (durable w') \<and> S (durable w') (db w'))"

definition obeys ::
  "(database \<Rightarrow> database \<Rightarrow> bool) \<Rightarrow> (world \<Rightarrow> bool) \<Rightarrow> 'a act \<Rightarrow> ('a \<Rightarrow> world \<Rightarrow> bool) \<Rightarrow> bool" where
  "obeys R P m Q \<longleftrightarrow> (\<forall>w. P w \<longrightarrow> (case run_state m w of (x, w') \<Rightarrow> Q x w' \<and> moves R w w'))"

text \<open>Without conditions: every write of \<open>m\<close> is allowed.\<close>

definition writes :: "(database \<Rightarrow> database \<Rightarrow> bool) \<Rightarrow> 'a act \<Rightarrow> bool" where
  "writes R m \<longleftrightarrow> (\<forall>w. moves R w (snd (run_state m w)))"

lemma larger_refl: "larger R S \<Longrightarrow> S d d"
  and larger_trans: "larger R S \<Longrightarrow> S a b \<Longrightarrow> S b c \<Longrightarrow> S a c"
  and larger_step: "larger R S \<Longrightarrow> R a b \<Longrightarrow> S a b"
  unfolding larger_def by blast+

lemma moves_same: "db w' = db w \<Longrightarrow> durable w' = durable w \<Longrightarrow> moves R w w'"
  by (auto simp: moves_def intro: larger_refl)

lemma moves_refl [simp]: "moves R w w"
  by (rule moves_same) simp_all

lemma moves_trans: "moves R u v \<Longrightarrow> moves R v w \<Longrightarrow> moves R u w"
  unfolding moves_def by (meson larger_trans)

lemma moves_write: "R (db w) (db w') \<Longrightarrow> durable w' = durable w \<Longrightarrow> moves R w w'"
  unfolding moves_def by (metis larger_refl larger_step larger_trans)

lemma moves_commit: "db w' = db w \<Longrightarrow> durable w' = db w \<Longrightarrow> moves R w w'"
  by (auto simp: moves_def intro: larger_refl)

lemma moves_rollback: "db w' = durable w \<Longrightarrow> durable w' = durable w \<Longrightarrow> moves R w w'"
  by (auto simp: moves_def intro: larger_refl)

lemma moves_mono: "moves R w w' \<Longrightarrow> (\<And>a b. R a b \<Longrightarrow> R' a b) \<Longrightarrow> moves R' w w'"
proof -
  assume R: "moves R w w'" and le: "\<And>a b. R a b \<Longrightarrow> R' a b"
  have "larger R S" if "larger R' S" for S
    using that le unfolding larger_def by blast
  with R show ?thesis unfolding moves_def by blast
qed

section \<open>Rules\<close>

lemma obeysI:
  "(\<And>w x w'. P w \<Longrightarrow> run_state m w = (x, w') \<Longrightarrow> Q x w') \<Longrightarrow>
   (\<And>w x w'. P w \<Longrightarrow> run_state m w = (x, w') \<Longrightarrow> moves R w w') \<Longrightarrow> obeys R P m Q"
  unfolding obeys_def split_beta by (metis prod.collapse)

lemma obeysD: "obeys R P m Q \<Longrightarrow> P w \<Longrightarrow> run_state m w = (x, w') \<Longrightarrow> Q x w' \<and> moves R w w'"
  by (auto simp: obeys_def split_beta)

lemma writes_obeys: "writes R m \<longleftrightarrow> obeys R (\<lambda>_. True) m (\<lambda>_ _. True)"
  by (auto simp: writes_def obeys_def split_beta)

lemma writesD: "writes R m \<Longrightarrow> run_state m w = (x, w') \<Longrightarrow> moves R w w'"
  unfolding writes_def by (metis snd_conv)

lemma obeys_writes: "writes R m \<Longrightarrow> obeys R P m (\<lambda>_ _. True)"
  by (auto simp: writes_def obeys_def split_beta)

lemma obeys_frame: "writes R m \<Longrightarrow> keeps f m \<Longrightarrow> obeys R (\<lambda>w. P (f w)) m (\<lambda>_ w. P (f w))"
  by (auto simp: writes_def obeys_def keeps_def split_beta)

lemma obeys_bind:
  "obeys R P m A \<Longrightarrow> (\<And>x. obeys R (A x) (k x) Q) \<Longrightarrow> obeys R P (State_Monad.bind m k) Q"
  unfolding obeys_def by (auto simp: split_beta) (metis moves_trans)

lemma obeys_bind_keep:
  assumes "writes R m" and "keeps f m" and "\<And>x. obeys R (\<lambda>w. P (f w)) (k x) Q"
  shows "obeys R (\<lambda>w. P (f w)) (State_Monad.bind m k) Q"
  by (rule obeys_bind [OF obeys_frame [OF assms(1,2)] assms(3)])

lemma obeys_or_rollback:
  assumes "obeys R P m (\<lambda>_ _. True)"
  shows "obeys R P (or_rollback m) (\<lambda>_ _. True)"
proof (rule obeysI)
  fix w x w'
  assume P: "P w" and run: "run_state (or_rollback m) w = (x, w')"
  obtain r v where m: "run_state m w = (r, v)" by fastforce
  with assms P have wv: "moves R w v" by (blast dest: obeysD)
  have "moves R v (v\<lparr>db := durable v\<rparr>)" by (rule moves_rollback) simp_all
  with wv m run show "moves R w w'"
    by (cases r) (auto simp: run_or_rollback intro: moves_trans)
qed simp

lemma obeys_pre: "obeys R P' m Q \<Longrightarrow> (\<And>w. P w \<Longrightarrow> P' w) \<Longrightarrow> obeys R P m Q"
  by (auto simp: obeys_def)

lemma obeys_gets:
  "(\<And>x. obeys R (\<lambda>w. P w \<and> f w = x) (k x) Q) \<Longrightarrow> obeys R P (State_Monad.bind (gets f) k) Q"
  by (auto simp: obeys_def)

lemma obeys_on_ok:
  "(\<And>x. r = Inr x \<Longrightarrow> obeys R P (k x) Q) \<Longrightarrow> (\<And>e w. r = Inl e \<Longrightarrow> P w \<Longrightarrow> Q (Inl e) w) \<Longrightarrow>
     obeys R P (on_ok r k) Q"
  by (cases r) (auto simp: obeys_def)

lemma obeys_write:
  "(\<And>w. P w \<Longrightarrow> R (db w) (f (db w))) \<Longrightarrow> (\<And>w. P w \<Longrightarrow> Q () (w\<lparr>db := f (db w)\<rparr>)) \<Longrightarrow>
     obeys R P (write_db f) Q"
  by (auto simp: obeys_def intro!: moves_write)

lemma obeys_return: "(\<And>w. P w \<Longrightarrow> Q x w) \<Longrightarrow> obeys R P (State_Monad.return x) Q"
  and obeys_raise: "(\<And>w. P w \<Longrightarrow> Q' (Inl e) w) \<Longrightarrow> obeys R P (raise e) Q'"
  and obeys_ok: "(\<And>w. P w \<Longrightarrow> Q'' (Inr y) w) \<Longrightarrow> obeys R P (ok y) Q''"
  by (auto simp: obeys_def)

lemma writes_return [intro]: "writes R (State_Monad.return x)"
  and writes_gets [intro]: "writes R (gets f)"
  and writes_raise [intro]: "writes R (raise e)"
  and writes_ok [intro]: "writes R (ok y)"
  and writes_commit [intro]: "writes R commit"
  and writes_rollback [intro]: "writes R rollback"
  by (auto simp: writes_def intro: moves_commit moves_rollback)

lemma writes_modify:
  "(\<And>w. db (g w) = db w) \<Longrightarrow> (\<And>w. durable (g w) = durable w) \<Longrightarrow> writes R (modify g)"
  by (auto simp: writes_def intro: moves_same)

lemma writes_write: "(\<And>d. R d (f d)) \<Longrightarrow> writes R (write_db f)"
  by (auto simp: writes_def intro: moves_write)

lemma writes_bind [intro]:
  "writes R m \<Longrightarrow> (\<And>x. writes R (k x)) \<Longrightarrow> writes R (State_Monad.bind m k)"
  by (auto simp: writes_def split_beta intro: moves_trans)

lemma writes_on_ok [intro]: "(\<And>x. r = Inr x \<Longrightarrow> writes R (k x)) \<Longrightarrow> writes R (on_ok r k)"
  by (cases r) (auto intro: writes_raise)

lemma writes_if [intro]:
  "(b \<Longrightarrow> writes R m) \<Longrightarrow> (\<not> b \<Longrightarrow> writes R n) \<Longrightarrow> writes R (if b then m else n)"
  by simp

lemma writes_Let [intro]: "(\<And>x. x = t \<Longrightarrow> writes R (m x)) \<Longrightarrow> writes R (Let t m)"
  by simp

lemma writes_case_option [intro]:
  "(r = None \<Longrightarrow> writes R m) \<Longrightarrow> (\<And>x. r = Some x \<Longrightarrow> writes R (n x)) \<Longrightarrow>
     writes R (case r of None \<Rightarrow> m | Some x \<Rightarrow> n x)"
  by (cases r) simp_all

lemma writes_case_sum [intro]:
  "(\<And>e. r = Inl e \<Longrightarrow> writes R (m e)) \<Longrightarrow> (\<And>x. r = Inr x \<Longrightarrow> writes R (n x)) \<Longrightarrow>
     writes R (case r of Inl e \<Rightarrow> m e | Inr x \<Rightarrow> n x)"
  by (cases r) simp_all

lemma writes_case_prod [intro]:
  "(\<And>a b. p = (a, b) \<Longrightarrow> writes R (m a b)) \<Longrightarrow> writes R (case p of (a, b) \<Rightarrow> m a b)"
  by (cases p) simp

lemma writes_case_exc [intro]:
  "(\<And>a b. writes R (m a b)) \<Longrightarrow> writes R n \<Longrightarrow>
     writes R (case x of PaymentProviderError a b \<Rightarrow> m a b | _ \<Rightarrow> n)"
  by (cases x) simp_all

lemma writes_deref [intro]: "(\<And>x. r = Some x \<Longrightarrow> writes R (k x)) \<Longrightarrow> writes R (deref r k)"
  by (cases r) (auto intro: writes_raise)

lemma writes_flush [intro]: "(b \<Longrightarrow> writes R k) \<Longrightarrow> writes R (flush t b k)"
  by (auto simp: flush_def)

lemma writes_handle [intro]: "writes R m \<Longrightarrow> (\<And>x. writes R (h x)) \<Longrightarrow> writes R (handle m h)"
  unfolding handle_def by (rule writes_bind, assumption, rule writes_case_sum, assumption, rule writes_ok)

lemma writes_or_rollback [intro]:
  assumes "writes R m"
  shows "writes R (or_rollback m)"
  unfolding writes_def
proof
  fix w
  obtain r v where m: "run_state m w = (r, v)" by fastforce
  with assms have "moves R w v" by (rule writesD)
  moreover have "moves R v (v\<lparr>db := durable v\<rparr>)" by (rule moves_rollback) simp_all
  ultimately show "moves R w (snd (run_state (or_rollback m) w))"
    using m by (cases r) (auto simp: run_or_rollback intro: moves_trans)
qed

lemma writes_for_each [intro]: "(\<And>x. writes R (f x)) \<Longrightarrow> writes R (for_each f xs)"
  by (induction xs) auto

lemma writes_for_each_ok [intro]: "(\<And>x. writes R (f x)) \<Longrightarrow> writes R (for_each_ok f xs)"
  by (induction xs) auto

lemma writes_in_session [intro]: "writes R m \<Longrightarrow> writes R (in_session m)"
  unfolding in_session_def by auto

lemma writes_mono: "writes R m \<Longrightarrow> (\<And>a b. R a b \<Longrightarrow> R' a b) \<Longrightarrow> writes R' m"
  unfolding writes_def by (blast intro: moves_mono)

lemma writes_quiet: "keeps db m \<Longrightarrow> keeps durable m \<Longrightarrow> writes R m"
  by (simp add: writes_def keeps_def moves_same)

section \<open>A preorder on databases\<close>

locale evolution =
  fixes R :: "database \<Rightarrow> database \<Rightarrow> bool"
  assumes step_refl: "R d d"
    and step_trans: "R a b \<Longrightarrow> R b c \<Longrightarrow> R a c"
begin

lemma larger_self: "larger R R"
  unfolding larger_def using step_refl step_trans by blast

lemma moves_iff_start: "moves R w w' \<Longrightarrow> R (durable w) (db w) \<Longrightarrow> R (durable w) (durable w') \<and> R (durable w') (db w')"
  using larger_self unfolding moves_def by blast

lemma session_step:
  assumes "writes R m" and "run_state (in_session m) w = (x, w')"
  shows "R (durable w) (durable w')" and "db w' = durable w'"
proof -
  from assms(2) obtain v where m: "run_state m (w\<lparr>db := durable w\<rparr>) = (x, v)" and w': "w' = v\<lparr>db := durable v\<rparr>"
    by (auto simp: in_session_def split_beta) (metis prod.collapse)
  have "moves R (w\<lparr>db := durable w\<rparr>) v" by (rule writesD [OF assms(1) m])
  from moves_iff_start [OF this] show "R (durable w) (durable w')" by (simp add: step_refl w')
  show "db w' = durable w'" by (simp add: w')
qed

end

end
