(* ===== verification/Provider.thy ===== *)
theory Provider
  imports World Pystring
begin

text \<open>
  The payment gateways of src/app/services/payment_provider.py. The mock answers by itself; the
  Razorpay gateway talks HTTP, and what comes back is \<open>http_answer\<close> of the environment, a function
  of everything sent before. Tokens of \<open>secrets\<close> are arguments. An HTTP call is recorded by its
  method, its path below \<open>base_url\<close> and its JSON body.
\<close>

record payment_intent =
  it_provider :: payment_provider
  it_provider_order_id :: string
  it_provider_payment_id :: "string option"

record payment_snapshot =
  ps_status :: payment_status
  ps_provider_payment_id :: "string option"

datatype gateway =
  MockPaymentProvider
| RazorpayPaymentProvider (key_id: string) (key_secret: string) (webhook_secret: string)

fun checkout_key_id :: "gateway \<Rightarrow> string option" where
  "checkout_key_id MockPaymentProvider = None"
| "checkout_key_id (RazorpayPaymentProvider k _ _) = Some k"

section \<open>Minor units\<close>

text \<open>\<open>quantize(Decimal("1"), rounding=ROUND_HALF_UP)\<close>: to nearest, a tie away from zero.\<close>

definition round_half_up :: "rat \<Rightarrow> int" where
  "round_half_up x = (if x < 0 then - \<lfloor>- x + 1 / 2\<rfloor> else \<lfloor>x + 1 / 2\<rfloor>)"

definition to_minor_units :: "rat \<Rightarrow> string \<Rightarrow> int" where
  "to_minor_units amount currency =
     (let exponent = (if upper_str currency = ''JPY'' then 0 else 2 :: nat)
      in round_half_up (amount * 10 ^ exponent))"

lemma round_half_up_of_int [simp]: "round_half_up (of_int i) = i"
proof -
  have "\<lfloor>of_int j + 1 / 2 :: rat\<rfloor> = j" for j :: int by linarith
  from this [of i] this [of "- i"] show ?thesis by (simp add: round_half_up_def)
qed

lemma round_half_up_error: "\<bar>of_int (round_half_up x) - x\<bar> \<le> 1 / 2"
proof (cases "x < 0")
  case True
  then have eq: "of_int (round_half_up x) - x = (- x) - of_int \<lfloor>- x + 1 / 2\<rfloor>"
    by (simp add: round_half_up_def)
  show ?thesis unfolding eq by linarith
next
  case False
  then have eq: "of_int (round_half_up x) - x = of_int \<lfloor>x + 1 / 2\<rfloor> - x"
    by (simp add: round_half_up_def)
  show ?thesis unfolding eq by linarith
qed

lemma round_half_up_mono: "x \<le> y \<Longrightarrow> round_half_up x \<le> round_half_up y"
proof (cases "x < 0")
  case True
  have "0 \<le> \<lfloor>- x + 1 / 2\<rfloor>" using True by simp
  moreover have "0 \<le> \<lfloor>y + 1 / 2\<rfloor>" if "\<not> y < 0" using that by simp
  moreover assume "x \<le> y"
  then have "\<lfloor>- y + 1 / 2\<rfloor> \<le> \<lfloor>- x + 1 / 2\<rfloor>" by (simp add: floor_mono)
  ultimately show ?thesis using True unfolding round_half_up_def by (smt (verit) neg_le_iff_le)
next
  case False
  assume "x \<le> y"
  with False show ?thesis by (simp add: round_half_up_def floor_mono)
qed

lemma round_half_up_nonneg: "0 \<le> x \<Longrightarrow> 0 \<le> round_half_up x"
  using round_half_up_mono [of 0 x] round_half_up_of_int [of 0] by simp

section \<open>Reading JSON answers\<close>

definition py_get :: "py \<Rightarrow> string \<Rightarrow> py \<Rightarrow> exc + py" where
  "py_get v k dflt =
     (case v of
        PyDict kvs \<Rightarrow> Inr (case map_of kvs k of None \<Rightarrow> dflt | Some x \<Rightarrow> x)
      | _ \<Rightarrow> Inl (AttributeError ''get''))"

definition py_item :: "py \<Rightarrow> string \<Rightarrow> exc + py" where
  "py_item v k =
     (case v of
        PyDict kvs \<Rightarrow> (case map_of kvs k of None \<Rightarrow> Inl (KeyError k) | Some x \<Rightarrow> Inr x)
      | _ \<Rightarrow> Inl (TypeError k))"

fun py_truth :: "py \<Rightarrow> bool" where
  "py_truth PyNone = False"
| "py_truth (PyBool b) = b"
| "py_truth (PyInt i) = (i \<noteq> 0)"
| "py_truth (PyStr s) = (s \<noteq> [])"
| "py_truth (PyDecimal q) = (q \<noteq> 0)"
| "py_truth (PyFloat x) = (x \<noteq> 0)"
| "py_truth (PyDatetime t) = True"
| "py_truth (PyList xs) = (xs \<noteq> [])"
| "py_truth (PyDict kvs) = (kvs \<noteq> [])"

text \<open>\<open>items[-1]\<close>, of a value that is true.\<close>

definition py_last :: "py \<Rightarrow> exc + py" where
  "py_last v =
     (case v of
        PyList xs \<Rightarrow> if xs = [] then Inl (IndexError ''list index out of range'') else Inr (last xs)
      | PyStr s \<Rightarrow> if s = [] then Inl (IndexError ''string index out of range'') else Inr (PyStr [last s])
      | PyDict kvs \<Rightarrow> Inl (KeyError ''-1'')
      | _ \<Rightarrow> Inl (TypeError ''not subscriptable''))"

text \<open>\<open>str(v)\<close>: on floats, decimals and containers the interpreter's \<open>repr\<close>, a parameter.\<close>

definition py_str :: "env \<Rightarrow> py \<Rightarrow> string" where
  "py_str e v =
     (case v of
        PyNone \<Rightarrow> ''None''
      | PyBool b \<Rightarrow> (if b then ''True'' else ''False'')
      | PyInt i \<Rightarrow> str_int i
      | PyStr s \<Rightarrow> s
      | _ \<Rightarrow> py_repr e v)"

definition is_str :: "string \<Rightarrow> py \<Rightarrow> bool" where
  "is_str s v \<longleftrightarrow> (case v of PyStr t \<Rightarrow> t = s | _ \<Rightarrow> False)"

section \<open>The Razorpay gateway\<close>

definition http_request :: "env \<Rightarrow> string \<Rightarrow> string \<Rightarrow> py option \<Rightarrow> py svc" where
  "http_request e method path json = do {
     log \<leftarrow> gets http_log;
     let call = HttpCall method path json;
     modify (\<lambda>w. w\<lparr>http_log := http_log w @ [call]\<rparr>);
     case http_answer e log call of
       HttpJson v \<Rightarrow> ok v
     | HttpNotJson \<Rightarrow> raise (ValueError ''not JSON'')
     | HttpStatusError code \<Rightarrow> raise (PaymentProviderError ''Payment provider rejected the request'' (Some code))
     | HttpRequestError \<Rightarrow> raise (PaymentProviderError ''Payment provider is unavailable'' None)
   }"

definition razorpay_create_payment :: "env \<Rightarrow> int \<Rightarrow> string \<Rightarrow> string \<Rightarrow> payment_intent svc" where
  "razorpay_create_payment e amount_minor currency receipt = do {
     r \<leftarrow> http_request e ''POST'' ''/orders''
       (Some (PyDict [(''amount'', PyInt amount_minor), (''currency'', PyStr (upper_str currency)),
                      (''receipt'', PyStr (take 40 receipt))]));
     on_ok r (\<lambda>data. on_ok (py_item data ''id'') (\<lambda>i.
       ok \<lparr>it_provider = Razorpay, it_provider_order_id = py_str e i, it_provider_payment_id = None\<rparr>))
   }"

definition razorpay_capture_payment :: "env \<Rightarrow> string \<Rightarrow> int \<Rightarrow> string \<Rightarrow> bool svc" where
  "razorpay_capture_payment e provider_payment_id amount_minor currency = do {
     r \<leftarrow> http_request e ''POST'' (''/payments/'' @ provider_payment_id @ ''/capture'')
       (Some (PyDict [(''amount'', PyInt amount_minor), (''currency'', PyStr (upper_str currency))]));
     on_ok r (\<lambda>data. on_ok (py_get data ''status'' PyNone) (\<lambda>st. ok (is_str ''captured'' st)))
   }"

definition razorpay_refund_payment :: "env \<Rightarrow> string \<Rightarrow> int \<Rightarrow> bool svc" where
  "razorpay_refund_payment e provider_payment_id amount_minor = do {
     r \<leftarrow> http_request e ''POST'' (''/payments/'' @ provider_payment_id @ ''/refund'')
       (Some (PyDict [(''amount'', PyInt amount_minor)]));
     on_ok r (\<lambda>data. on_ok (py_get data ''status'' PyNone) (\<lambda>st.
       case st of
         PyList _ \<Rightarrow> raise (TypeError ''unhashable'')
       | PyDict _ \<Rightarrow> raise (TypeError ''unhashable'')
       | _ \<Rightarrow> ok (is_str ''pending'' st \<or> is_str ''processed'' st)))
   }"

definition razorpay_status :: "string \<Rightarrow> payment_status" where
  "razorpay_status s =
     (if s = ''authorized'' then PAuthorized
      else if s = ''captured'' then PCaptured
      else if s = ''failed'' then PFailed
      else if s = ''refunded'' then PRefunded
      else PPending)"

definition razorpay_reconcile_payment :: "env \<Rightarrow> string \<Rightarrow> payment_snapshot svc" where
  "razorpay_reconcile_payment e provider_order_id = do {
     r \<leftarrow> http_request e ''GET'' (''/orders/'' @ provider_order_id @ ''/payments'') None;
     on_ok r (\<lambda>data. on_ok (py_get data ''items'' (PyList [])) (\<lambda>items.
       if \<not> py_truth items then ok \<lparr>ps_status = PPending, ps_provider_payment_id = None\<rparr>
       else on_ok (py_last items) (\<lambda>payment.
         on_ok (py_item payment ''id'') (\<lambda>i.
         on_ok (py_get payment ''status'' PyNone) (\<lambda>st.
           ok \<lparr>ps_status = razorpay_status (py_str e st),
               ps_provider_payment_id = Some (py_str e i)\<rparr>)))))
   }"

section \<open>The gateway interface\<close>

text \<open>\<open>t1\<close> and \<open>t2\<close> are the two tokens the mock draws.\<close>

fun gw_create_payment ::
  "env \<Rightarrow> gateway \<Rightarrow> string \<Rightarrow> string \<Rightarrow> int \<Rightarrow> string \<Rightarrow> string \<Rightarrow> payment_intent svc" where
  "gw_create_payment e MockPaymentProvider t1 t2 amount_minor currency receipt =
     ok \<lparr>it_provider = Mock, it_provider_order_id = ''mock_order_'' @ t1,
         it_provider_payment_id = Some (''mock_pay_'' @ t2)\<rparr>"
| "gw_create_payment e (RazorpayPaymentProvider _ _ _) t1 t2 amount_minor currency receipt =
     razorpay_create_payment e amount_minor currency receipt"

fun gw_reconcile_payment :: "env \<Rightarrow> gateway \<Rightarrow> string \<Rightarrow> payment_snapshot svc" where
  "gw_reconcile_payment e MockPaymentProvider provider_order_id =
     ok \<lparr>ps_status = PAuthorized, ps_provider_payment_id = None\<rparr>"
| "gw_reconcile_payment e (RazorpayPaymentProvider _ _ _) provider_order_id =
     razorpay_reconcile_payment e provider_order_id"

fun gw_confirm_payment :: "env \<Rightarrow> gateway \<Rightarrow> string \<Rightarrow> payment_snapshot svc" where
  "gw_confirm_payment e MockPaymentProvider provider_order_id =
     ok \<lparr>ps_status = PAuthorized, ps_provider_payment_id = None\<rparr>"
| "gw_confirm_payment e (RazorpayPaymentProvider a b c) provider_order_id =
     gw_reconcile_payment e (RazorpayPaymentProvider a b c) provider_order_id"

fun gw_capture_payment :: "env \<Rightarrow> gateway \<Rightarrow> string \<Rightarrow> int \<Rightarrow> string \<Rightarrow> bool svc" where
  "gw_capture_payment e MockPaymentProvider provider_payment_id amount_minor currency =
     ok (starts_with provider_payment_id ''mock_pay_'')"
| "gw_capture_payment e (RazorpayPaymentProvider _ _ _) provider_payment_id amount_minor currency =
     razorpay_capture_payment e provider_payment_id amount_minor currency"

fun gw_refund_payment :: "env \<Rightarrow> gateway \<Rightarrow> string \<Rightarrow> int \<Rightarrow> bool svc" where
  "gw_refund_payment e MockPaymentProvider provider_payment_id amount_minor =
     ok (starts_with provider_payment_id ''mock_pay_'')"
| "gw_refund_payment e (RazorpayPaymentProvider _ _ _) provider_payment_id amount_minor =
     razorpay_refund_payment e provider_payment_id amount_minor"

text \<open>
  \<open>hmac.compare_digest\<close> on two strings: a string with a character outside ASCII is a TypeError,
  whatever the other one is.
\<close>

definition ascii :: "string \<Rightarrow> bool" where
  "ascii s = list_all (\<lambda>c. of_char c < (128 :: nat)) s"

definition compare_digest :: "string \<Rightarrow> string \<Rightarrow> exc + bool" where
  "compare_digest a b =
     (if ascii a \<and> ascii b then Inr (a = b)
      else Inl (TypeError ''comparing strings with non-ASCII characters is not supported''))"

fun gw_verify_webhook_signature :: "env \<Rightarrow> gateway \<Rightarrow> string \<Rightarrow> string \<Rightarrow> exc + bool" where
  "gw_verify_webhook_signature e MockPaymentProvider body signature =
     Inr (APP_ENV (core e) \<noteq> ''production'')"
| "gw_verify_webhook_signature e (RazorpayPaymentProvider _ _ secret) body signature =
     compare_digest (hmac_sha256 e secret body) signature"

fun payment_provider_value :: "payment_provider \<Rightarrow> string" where
  "payment_provider_value Mock = ''mock''"
| "payment_provider_value Razorpay = ''razorpay''"

definition razorpay_provider :: "env \<Rightarrow> exc + gateway" where
  "razorpay_provider e =
     (case (RAZORPAY_KEY_ID (feat e), RAZORPAY_KEY_SECRET (feat e), RAZORPAY_WEBHOOK_SECRET (feat e)) of
        (Some k, Some s, Some h) \<Rightarrow>
          if k = [] \<or> s = [] \<or> h = [] then Inl (RuntimeError ''Razorpay credentials are not configured'')
          else Inr (RazorpayPaymentProvider k s h)
      | _ \<Rightarrow> Inl (RuntimeError ''Razorpay credentials are not configured''))"

definition get_payment_provider :: "env \<Rightarrow> payment_provider option \<Rightarrow> exc + gateway" where
  "get_payment_provider e provider =
     (let selected = (case provider of None \<Rightarrow> PAYMENT_PROVIDER (feat e)
                                     | Some p \<Rightarrow> payment_provider_value p)
      in if selected = payment_provider_value Razorpay then razorpay_provider e
         else Inr MockPaymentProvider)"

lemma get_payment_provider_mock [simp]: "get_payment_provider e (Some Mock) = Inr MockPaymentProvider"
  by (simp add: get_payment_provider_def)

section \<open>A gateway touches nothing but the wire\<close>

lemma keeps_http_request [frame]:
  "(\<And>w l. F (w\<lparr>http_log := l\<rparr>) = F w) \<Longrightarrow> keeps F (http_request e m p j)"
  unfolding http_request_def
  by (auto intro!: frame split: http_reply.split)

lemma keeps_gateway [frame]:
  assumes "\<And>w l. F (w\<lparr>http_log := l\<rparr>) = F w"
  shows "keeps F (gw_create_payment e g t1 t2 a c r)" "keeps F (gw_reconcile_payment e g i)"
    "keeps F (gw_confirm_payment e g i)" "keeps F (gw_capture_payment e g i a c)"
    "keeps F (gw_refund_payment e g i a)"
  using assms
  by (cases g; auto simp: razorpay_create_payment_def razorpay_reconcile_payment_def
      razorpay_capture_payment_def razorpay_refund_payment_def intro!: frame split: py.split)+

end
