(* ===== verification/Core.thy ===== *)
theory Core
  imports Evolution Provider
begin

text \<open>
  The abstract specification of the three tables the money and the seats live in: how a booking, a
  payment and a ride may change over their life, and what holds of the stored rows at any time.
  \<open>core_step\<close> relates a database to the one after a write that respects it; every handler is shown
  to write along it (in the theories of the components), so the committed database evolves along it.
\<close>

section \<open>The life of a booking\<close>

inductive booking_edge :: "booking_status \<Rightarrow> booking_status \<Rightarrow> bool" where
  accept: "booking_edge BPending BAccepted"
| reject: "booking_edge BPending BRejected"
| withdraw: "booking_edge BPending BCancelled_by_passenger"
| decline: "booking_edge BPending BCancelled_by_driver"
| cancel_passenger: "booking_edge BAccepted BCancelled_by_passenger"
| cancel_driver: "booking_edge BAccepted BCancelled_by_driver"
| complete: "booking_edge BAccepted BCompleted"

inductive_simps booking_edge_simps [simp]:
  "booking_edge BPending s" "booking_edge BAccepted s" "booking_edge BRejected s"
  "booking_edge BCancelled_by_passenger s" "booking_edge BCancelled_by_driver s" "booking_edge BCompleted s"

definition booking_reaches :: "booking_status \<Rightarrow> booking_status \<Rightarrow> bool" where
  "booking_reaches = booking_edge\<^sup>*\<^sup>*"

definition booking_final :: "booking_status \<Rightarrow> bool" where
  "booking_final s \<longleftrightarrow> s \<in> {BRejected, BCancelled_by_passenger, BCancelled_by_driver, BCompleted}"

lemma booking_reaches_refl [simp]: "booking_reaches s s"
  by (simp add: booking_reaches_def)

lemma booking_reaches_trans: "booking_reaches a b \<Longrightarrow> booking_reaches b c \<Longrightarrow> booking_reaches a c"
  unfolding booking_reaches_def by (rule rtranclp_trans)

lemma booking_reaches_edge: "booking_edge a b \<Longrightarrow> booking_reaches a b"
  unfolding booking_reaches_def by (rule r_into_rtranclp)

lemma booking_final_stays: "booking_reaches s s' \<Longrightarrow> booking_final s \<Longrightarrow> s' = s"
  unfolding booking_reaches_def
  by (induction rule: rtranclp_induct) (auto simp: booking_final_def)

lemma booking_reaches_pending: "booking_reaches s BPending \<Longrightarrow> s = BPending"
  unfolding booking_reaches_def
  by (erule rtranclp.cases) (auto elim: booking_edge.cases)

lemma booking_reaches_accepted: "booking_reaches BAccepted s \<Longrightarrow> s \<in> {BAccepted, BCancelled_by_passenger, BCancelled_by_driver, BCompleted}"
  unfolding booking_reaches_def
  by (induction rule: rtranclp_induct) auto

definition booking_moves :: "booking \<Rightarrow> booking \<Rightarrow> bool" where
  "booking_moves b b' \<longleftrightarrow>
     b_id b' = b_id b \<and> b_ride_id b' = b_ride_id b \<and> b_passenger_id b' = b_passenger_id b \<and>
     b_notes b' = b_notes b \<and> b_created_at b' = b_created_at b \<and>
     booking_reaches (b_status b) (b_status b') \<and>
     (b_boarded_at b \<noteq> None \<longrightarrow> b_boarded_at b' = b_boarded_at b)"

text \<open>A completed booking was boarded.\<close>

definition booking_ok :: "booking \<Rightarrow> bool" where
  "booking_ok b \<longleftrightarrow> (b_status b = BCompleted \<longrightarrow> b_boarded_at b \<noteq> None)"

section \<open>The life of a payment\<close>

definition payment_final :: "payment_status \<Rightarrow> bool" where
  "payment_final s \<longleftrightarrow> s \<in> {PRefunded, PFailed, PCancelled}"

definition payment_moves :: "payment \<Rightarrow> payment \<Rightarrow> bool" where
  "payment_moves p p' \<longleftrightarrow>
     p_id p' = p_id p \<and> p_booking_id p' = p_booking_id p \<and> p_payer_id p' = p_payer_id p \<and>
     p_amount p' = p_amount p \<and> p_amount_minor p' = p_amount_minor p \<and> p_currency p' = p_currency p \<and>
     p_provider p' = p_provider p \<and> p_provider_order_id p' = p_provider_order_id p \<and>
     p_created_at p' = p_created_at p \<and>
     (payment_final (p_status p) \<longrightarrow> p_status p' = p_status p)"

definition payment_ok :: "payment \<Rightarrow> bool" where
  "payment_ok p \<longleftrightarrow> p_amount_minor p = to_minor_units (p_amount p) (p_currency p)"

section \<open>The life of a ride\<close>

definition ride_moves :: "ride \<Rightarrow> ride \<Rightarrow> bool" where
  "ride_moves r r' \<longleftrightarrow> r_id r' = r_id r \<and> r_driver_id r' = r_driver_id r \<and> r_created_at r' = r_created_at r"

definition ride_ok :: "ride \<Rightarrow> bool" where
  "ride_ok r \<longleftrightarrow>
     0 \<le> r_available_seats r \<and> 0 \<le> r_price_per_seat r \<and> r_origin r \<noteq> r_destination r \<and>
     (r_is_active r \<longleftrightarrow> r_status r = RScheduled) \<and>
     (r_status r = RScheduled \<longrightarrow> 0 < r_available_seats r)"

section \<open>The stored rows\<close>

definition core_ok :: "database \<Rightarrow> bool" where
  "core_ok d \<longleftrightarrow>
     keys_ok d \<and>
     (\<forall>r \<in> set (rows (rides_t d)). ride_ok r) \<and>
     (\<forall>b \<in> set (rows (bookings_t d)). booking_ok b) \<and>
     distinct (map (\<lambda>b. (b_ride_id b, b_passenger_id b)) (rows (bookings_t d))) \<and>
     (\<forall>p \<in> set (rows (payments_t d)). payment_ok p) \<and>
     distinct (map p_booking_id (rows (payments_t d)))"

definition evolves :: "(int \<Rightarrow> 'd \<Rightarrow> 'r option) \<Rightarrow> ('r \<Rightarrow> 'r \<Rightarrow> bool) \<Rightarrow> 'd \<Rightarrow> 'd \<Rightarrow> bool" where
  "evolves get mv d d' \<longleftrightarrow> (\<forall>i x. get i d = Some x \<longrightarrow> (\<exists>x'. get i d' = Some x' \<and> mv x x'))"

definition core_step :: "database \<Rightarrow> database \<Rightarrow> bool" where
  "core_step d d' \<longleftrightarrow>
     (core_ok d \<longrightarrow> core_ok d' \<and> evolves get_booking booking_moves d d' \<and>
        evolves get_payment payment_moves d d' \<and> evolves get_ride ride_moves d d')"

lemma row_moves_refl [simp]: "booking_moves b b" "payment_moves p p" "ride_moves r r"
  by (simp_all add: booking_moves_def payment_moves_def ride_moves_def)

lemma booking_moves_trans: "booking_moves a b \<Longrightarrow> booking_moves b c \<Longrightarrow> booking_moves a c"
  unfolding booking_moves_def by (auto intro: booking_reaches_trans)

lemma payment_moves_trans: "payment_moves a b \<Longrightarrow> payment_moves b c \<Longrightarrow> payment_moves a c"
  unfolding payment_moves_def by auto

lemma ride_moves_trans: "ride_moves a b \<Longrightarrow> ride_moves b c \<Longrightarrow> ride_moves a c"
  unfolding ride_moves_def by auto

lemma evolves_refl: "(\<And>x. mv x x) \<Longrightarrow> evolves get mv d d"
  by (simp add: evolves_def)

lemma evolves_trans:
  "(\<And>x y z. mv x y \<Longrightarrow> mv y z \<Longrightarrow> mv x z) \<Longrightarrow> evolves get mv a b \<Longrightarrow> evolves get mv b c \<Longrightarrow> evolves get mv a c"
  unfolding evolves_def by meson

lemma evolves_same: "(\<And>x. mv x x) \<Longrightarrow> (\<And>i. get i d' = get i d) \<Longrightarrow> evolves get mv d d'"
  by (simp add: evolves_def)

interpretation core: evolution core_step
proof
  show "core_step d d" for d by (simp add: core_step_def evolves_refl)
  show "core_step a c" if "core_step a b" "core_step b c" for a b c
    using that unfolding core_step_def
    by (blast intro: evolves_trans booking_moves_trans payment_moves_trans ride_moves_trans)
qed

text \<open>Rows of a sound table, found by key.\<close>

lemma keys_ok_tables:
  assumes "keys_ok d"
  shows "table_ok r_id (rides_t d)" "table_ok b_id (bookings_t d)" "table_ok p_id (payments_t d)"
  using assms by (simp_all add: keys_ok_def)

lemmas core_gets = get_booking_def get_payment_def get_ride_def

section \<open>Writes beside the core tables\<close>

definition peripheral :: "database \<Rightarrow> database \<Rightarrow> bool" where
  "peripheral d d' \<longleftrightarrow>
     rides_t d' = rides_t d \<and> bookings_t d' = bookings_t d \<and> payments_t d' = payments_t d \<and>
     (keys_ok d \<longrightarrow> keys_ok d')"

lemma peripheral_core: "peripheral d d' \<Longrightarrow> core_step d d'"
  by (auto simp: peripheral_def core_step_def core_ok_def core_gets intro!: evolves_same)

interpretation peripheral: evolution peripheral
  by unfold_locales (auto simp: peripheral_def)

lemma peripheral_puts [intro]:
  "peripheral d (put_user u d)" "peripheral d (put_payment_event ev d)"
  "peripheral d (put_availability v d)" "peripheral d (put_request q d)"
  "peripheral d (put_notification n d)" "peripheral d (put_message m d)" "peripheral d (put_incident i d)"
  by (auto simp: peripheral_def) (simp_all add: put_defs)

lemma peripheral_adds:
  "u_id u = next_id (users_t d) \<Longrightarrow> peripheral d (add_user u d)"
  "l_id l = next_id (ride_locations_t d) \<Longrightarrow> peripheral d (add_location l d)"
  "e_id ev = next_id (payment_events_t d) \<Longrightarrow> peripheral d (add_payment_event ev d)"
  "v_id v = next_id (availability_t d) \<Longrightarrow> peripheral d (add_availability v d)"
  "q_id q = next_id (ride_requests_t d) \<Longrightarrow> peripheral d (add_request q d)"
  "d_id x = next_id (dismissals_t d) \<Longrightarrow> peripheral d (add_dismissal x d)"
  "n_id n = next_id (notifications_t d) \<Longrightarrow> peripheral d (add_notification n d)"
  "m_id m = next_id (messages_t d) \<Longrightarrow> peripheral d (add_message m d)"
  "w_id r = next_id (reviews_t d) \<Longrightarrow> peripheral d (add_review r d)"
  "i_id i = next_id (incidents_t d) \<Longrightarrow> peripheral d (add_incident i d)"
  "a_id a = next_id (audit_logs_t d) \<Longrightarrow> peripheral d (add_audit a d)"
  by (auto simp: peripheral_def) (simp_all add: add_defs)

lemma peripheral_deletes [intro]:
  "peripheral d (d\<lparr>ride_locations_t := table_delete P1 (ride_locations_t d)\<rparr>)"
  "peripheral d (d\<lparr>dismissals_t := table_delete P2 (dismissals_t d)\<rparr>)"
  "peripheral d (d\<lparr>availability_t := table_delete P3 (availability_t d)\<rparr>)"
  "peripheral d (d\<lparr>audit_logs_t := table_delete P4 (audit_logs_t d)\<rparr>)"
  by (auto simp: peripheral_def keys_ok_def intro: table_ok_delete)

section \<open>Writes to the core tables\<close>

lemma put_in_rows:
  "table_ok key t \<Longrightarrow> table_get key (key x') t = Some x \<Longrightarrow> y \<in> set (rows (table_put key x' t)) \<Longrightarrow>
     y = x' \<or> y \<in> set (rows t)"
  by (auto simp: rows_put)

lemma map_put_same:
  assumes "table_ok key t" and "table_get key (key x') t = Some x" and "f x' = f x"
  shows "map f (rows (table_put key x' t)) = map f (rows t)"
  unfolding rows_put map_map
proof (rule map_cong [OF refl])
  fix y
  assume y: "y \<in> set (rows t)"
  show "(f \<circ> (\<lambda>y. if key y = key x' then x' else y)) y = f y"
  proof (cases "key y = key x'")
    case True
    with table_get_unique [OF assms(1) y] assms(2) have "y = x" by simp
    with True assms(3) show ?thesis by simp
  qed simp
qed

context keyed_store
begin

lemma evolves_put:
  "get (key x') d = Some x \<Longrightarrow> mv x x' \<Longrightarrow> (\<And>x. mv x x) \<Longrightarrow> evolves get mv d (put x' d)"
  unfolding evolves_def by (metis get_put option.inject)

lemma evolves_add: "(\<And>x. mv x x) \<Longrightarrow> evolves get mv d (add x' d)"
  unfolding evolves_def by (metis get_add_old)

end

lemma core_step_put_booking:
  assumes get: "get_booking (b_id b') d = Some b" and mv: "booking_moves b b'" and b': "booking_ok b'"
  shows "core_step d (put_booking b' d)"
  unfolding core_step_def
proof (intro impI conjI)
  assume d: "core_ok d"
  then have t: "table_ok b_id (bookings_t d)" by (simp add: core_ok_def keys_ok_tables)
  have g: "table_get b_id (b_id b') (bookings_t d) = Some b" using get by (simp add: get_booking_def)
  have "map (\<lambda>b. (b_ride_id b, b_passenger_id b)) (rows (table_put b_id b' (bookings_t d))) =
      map (\<lambda>b. (b_ride_id b, b_passenger_id b)) (rows (bookings_t d))"
    by (rule map_put_same [OF t g]) (use mv in \<open>simp add: booking_moves_def\<close>)
  moreover have "\<forall>x \<in> set (rows (table_put b_id b' (bookings_t d))). booking_ok x"
    using put_in_rows [OF t g] b' d by (auto simp: core_ok_def)
  moreover have "keys_ok (put_booking b' d)" using d by (auto simp: core_ok_def)
  ultimately show "core_ok (put_booking b' d)" using d by (simp add: core_ok_def put_booking_def)
  show "evolves get_booking booking_moves d (put_booking b' d)"
    by (rule booking_store.evolves_put [OF get, of booking_moves]) (use mv in simp_all)
qed (auto simp: core_gets put_booking_def intro!: evolves_same)

lemma core_step_put_payment:
  assumes get: "get_payment (p_id p') d = Some p" and mv: "payment_moves p p'"
  shows "core_step d (put_payment p' d)"
  unfolding core_step_def
proof (intro impI conjI)
  assume d: "core_ok d"
  then have t: "table_ok p_id (payments_t d)" by (simp add: core_ok_def keys_ok_tables)
  have g: "table_get p_id (p_id p') (payments_t d) = Some p" using get by (simp add: get_payment_def)
  have "payment_ok p" using table_get_mem [OF g] d by (auto simp: core_ok_def)
  then have p': "payment_ok p'" using mv by (simp add: payment_ok_def payment_moves_def)
  have "map p_booking_id (rows (table_put p_id p' (payments_t d))) = map p_booking_id (rows (payments_t d))"
    by (rule map_put_same [OF t g]) (use mv in \<open>simp add: payment_moves_def\<close>)
  moreover have "\<forall>x \<in> set (rows (table_put p_id p' (payments_t d))). payment_ok x"
    using put_in_rows [OF t g] p' d by (auto simp: core_ok_def)
  moreover have "keys_ok (put_payment p' d)" using d by (auto simp: core_ok_def)
  ultimately show "core_ok (put_payment p' d)" using d by (simp add: core_ok_def put_payment_def)
  show "evolves get_payment payment_moves d (put_payment p' d)"
    by (rule payment_store.evolves_put [OF get, of payment_moves]) (use mv in simp_all)
qed (auto simp: core_gets put_payment_def intro!: evolves_same)

lemma core_step_put_ride:
  assumes get: "get_ride (r_id r') d = Some r" and mv: "ride_moves r r'" and r': "core_ok d \<Longrightarrow> ride_ok r'"
  shows "core_step d (put_ride r' d)"
  unfolding core_step_def
proof (intro impI conjI)
  assume d: "core_ok d"
  then have t: "table_ok r_id (rides_t d)" by (simp add: core_ok_def keys_ok_tables)
  have g: "table_get r_id (r_id r') (rides_t d) = Some r" using get by (simp add: get_ride_def)
  have "\<forall>x \<in> set (rows (table_put r_id r' (rides_t d))). ride_ok x"
    using put_in_rows [OF t g] r' d by (auto simp: core_ok_def)
  moreover have "keys_ok (put_ride r' d)" using d by (auto simp: core_ok_def)
  ultimately show "core_ok (put_ride r' d)" using d by (simp add: core_ok_def put_ride_def)
  show "evolves get_ride ride_moves d (put_ride r' d)"
    by (rule ride_store.evolves_put [OF get, of ride_moves]) (use mv in simp_all)
qed (auto simp: core_gets put_ride_def intro!: evolves_same)

text \<open>A fresh key differs from all stored ones, so the unique constraints speak of every stored row.\<close>

lemma others_fresh:
  "table_ok key t \<Longrightarrow> key x = next_id t \<Longrightarrow> others key x (rows t) = rows t"
  by (force simp: others_def table_ok_def filter_id_conv)

lemma core_step_add_booking:
  assumes key: "b_id b = next_id (bookings_t d)" and c: "booking_constraints (rows (bookings_t d)) b"
    and b: "booking_ok b"
  shows "core_step d (add_booking b d)"
  unfolding core_step_def
proof (intro impI conjI)
  assume d: "core_ok d"
  then have t: "table_ok b_id (bookings_t d)" by (simp add: core_ok_def keys_ok_tables)
  have "(b_ride_id b, b_passenger_id b) \<notin> (\<lambda>b. (b_ride_id b, b_passenger_id b)) ` set (rows (bookings_t d))"
    using c others_fresh [OF t key] by (auto simp: booking_constraints_def list_all_iff)
  moreover have "keys_ok (add_booking b d)" using d key by (auto simp: core_ok_def)
  ultimately show "core_ok (add_booking b d)" using d b by (auto simp: core_ok_def add_booking_def)
  show "evolves get_booking booking_moves d (add_booking b d)"
    by (rule booking_store.evolves_add) simp
qed (auto simp: core_gets add_booking_def intro!: evolves_same)

lemma core_step_add_payment:
  assumes key: "p_id p = next_id (payments_t d)" and c: "payment_constraints (rows (payments_t d)) p"
    and p: "payment_ok p"
  shows "core_step d (add_payment p d)"
  unfolding core_step_def
proof (intro impI conjI)
  assume d: "core_ok d"
  then have t: "table_ok p_id (payments_t d)" by (simp add: core_ok_def keys_ok_tables)
  have "p_booking_id p \<notin> p_booking_id ` set (rows (payments_t d))"
    using c others_fresh [OF t key] by (auto simp: payment_constraints_def list_all_iff)
  moreover have "keys_ok (add_payment p d)" using d key by (auto simp: core_ok_def)
  ultimately show "core_ok (add_payment p d)" using d p by (auto simp: core_ok_def add_payment_def)
  show "evolves get_payment payment_moves d (add_payment p d)"
    by (rule payment_store.evolves_add) simp
qed (auto simp: core_gets add_payment_def intro!: evolves_same)

lemma core_step_add_ride:
  assumes key: "r_id r = next_id (rides_t d)" and r: "ride_ok r"
  shows "core_step d (add_ride r d)"
  unfolding core_step_def
proof (intro impI conjI)
  assume d: "core_ok d"
  have "keys_ok (add_ride r d)" using d key by (auto simp: core_ok_def)
  then show "core_ok (add_ride r d)" using d r by (auto simp: core_ok_def add_ride_def)
  show "evolves get_ride ride_moves d (add_ride r d)"
    by (rule ride_store.evolves_add) simp
qed (auto simp: core_gets add_ride_def intro!: evolves_same)

lemma core_ok_empty: "core_ok empty_database"
  by (simp add: core_ok_def keys_ok_empty) (simp add: empty_database_def empty_table_def)

section \<open>Handlers that write along \<open>core_step\<close>\<close>

lemma core_stepI: "(core_ok d \<Longrightarrow> core_step d d') \<Longrightarrow> core_step d d'"
  by (simp add: core_step_def)

lemma peripheral_writes: "writes peripheral m \<Longrightarrow> writes core_step m"
  by (erule writes_mono) (rule peripheral_core)

definition has_payment :: "payment \<Rightarrow> database \<Rightarrow> bool" where
  "has_payment p d \<longleftrightarrow> p \<in> set (rows (payments_t d))"

definition has_booking :: "booking \<Rightarrow> database \<Rightarrow> bool" where
  "has_booking b d \<longleftrightarrow> b \<in> set (rows (bookings_t d))"

definition has_ride :: "ride \<Rightarrow> database \<Rightarrow> bool" where
  "has_ride r d \<longleftrightarrow> r \<in> set (rows (rides_t d))"

lemma has_payment_get: "core_ok d \<Longrightarrow> has_payment p d \<Longrightarrow> get_payment (p_id p) d = Some p"
  by (simp add: has_payment_def core_ok_def keys_ok_tables table_get_unique get_payment_def)

lemma has_booking_get: "core_ok d \<Longrightarrow> has_booking b d \<Longrightarrow> get_booking (b_id b) d = Some b"
  by (simp add: has_booking_def core_ok_def keys_ok_tables table_get_unique get_booking_def)

lemma has_ride_get: "core_ok d \<Longrightarrow> has_ride r d \<Longrightarrow> get_ride (r_id r) d = Some r"
  by (simp add: has_ride_def core_ok_def keys_ok_tables table_get_unique get_ride_def)

lemma get_has:
  "get_payment i d = Some p \<Longrightarrow> has_payment p d"
  "get_booking i d = Some b \<Longrightarrow> has_booking b d"
  "get_ride i d = Some r \<Longrightarrow> has_ride r d"
  using payment_store.get_mem booking_store.get_mem ride_store.get_mem
  by (simp_all add: has_payment_def has_booking_def has_ride_def)

lemma payment_step:
  assumes "has_payment p d" and "payment_moves p p'"
  shows "core_step d (put_payment p' d)"
proof (rule core_stepI)
  assume "core_ok d"
  then have "get_payment (p_id p') d = Some p"
    using has_payment_get assms by (simp add: payment_moves_def)
  then show ?thesis by (rule core_step_put_payment) (rule assms(2))
qed

lemma booking_step:
  assumes "has_booking b d" and "booking_moves b b'" and "core_ok d \<Longrightarrow> booking_ok b \<Longrightarrow> booking_ok b'"
  shows "core_step d (put_booking b' d)"
proof (rule core_stepI)
  assume d: "core_ok d"
  then have "get_booking (b_id b') d = Some b"
    using has_booking_get assms(1,2) by (simp add: booking_moves_def)
  moreover have "booking_ok b" using d assms(1) by (simp add: core_ok_def has_booking_def)
  ultimately show ?thesis using assms(2) assms(3) [OF d] by (blast intro: core_step_put_booking)
qed

lemma ride_step:
  assumes "has_ride r d" and "ride_moves r r'" and "core_ok d \<Longrightarrow> ride_ok r \<Longrightarrow> ride_ok r'"
  shows "core_step d (put_ride r' d)"
proof (rule core_stepI)
  assume d: "core_ok d"
  then have "get_ride (r_id r') d = Some r"
    using has_ride_get assms(1,2) by (simp add: ride_moves_def)
  moreover have "ride_ok r" using d assms(1) by (simp add: core_ok_def has_ride_def)
  ultimately show ?thesis using assms(2) assms(3) [OF d] by (blast intro: core_step_put_ride)
qed

text \<open>The saves of the three repositories, on a row that is stored.\<close>

lemma payment_save_step:
  assumes "payment_moves p x"
  shows "obeys core_step (\<lambda>w. has_payment p (db w)) (payment_save x) (\<lambda>_ _. True)"
proof (rule obeysI)
  fix w r w'
  assume p: "has_payment p (db w)" and run: "run_state (payment_save x) w = (r, w')"
  have "payment_moves p (x\<lparr>p_updated_at := t\<rparr>)" for t using assms by (simp add: payment_moves_def)
  with assms p run show "moves core_step w w'"
    by (auto simp: payment_save_def flush_def Let_def split: if_splits intro!: moves_write payment_step)
qed simp

lemma booking_save_step:
  assumes "booking_moves b x" and "booking_ok b \<Longrightarrow> booking_ok x"
  shows "obeys core_step (\<lambda>w. has_booking b (db w)) (booking_save x) (\<lambda>_ _. True)"
  using assms
  by (intro obeysI) (auto simp: booking_save_def flush_def split: if_splits intro!: moves_write booking_step)

lemma ride_save_step:
  assumes "ride_moves r x" and "ride_constraints x \<Longrightarrow> ride_ok r \<Longrightarrow> ride_ok x"
  shows "obeys core_step (\<lambda>w. has_ride r (db w)) (ride_save x) (\<lambda>_ _. True)"
  using assms
  by (intro obeysI) (auto simp: ride_save_def flush_def split: if_splits intro!: moves_write ride_step)

lemma booking_create_step: "booking_ok x \<Longrightarrow> writes core_step (booking_create x)"
  by (auto simp: writes_def booking_create_def flush_def Let_def booking_ok_def
      intro!: moves_write core_step_add_booking)

lemma payment_create_step: "payment_ok x \<Longrightarrow> writes core_step (payment_create x)"
  by (auto simp: writes_def payment_create_def flush_def Let_def payment_ok_def
      intro!: moves_write core_step_add_payment)

lemma ride_create_step:
  "(ride_constraints x \<Longrightarrow> ride_ok x) \<Longrightarrow> writes core_step (ride_create x)"
  by (auto simp: writes_def ride_create_def flush_def Let_def ride_ok_def ride_constraints_def
      intro!: moves_write core_step_add_ride)

end
