(* ===== verification/Notify.thy ===== *)
theory Notify
  imports Repositories JobQueue
begin

text \<open>
  src/app/services/notification.py, notification_jobs.py and audit_log.py: the notifications a user
  reads, the jobs that create them, and the audit trail every other service writes.
\<close>

section \<open>NotificationService\<close>

definition create_notification :: "int \<Rightarrow> notification_type \<Rightarrow> string \<Rightarrow> string \<Rightarrow> notification svc" where
  "create_notification recipient_id ty title body =
     notification_create \<lparr>n_id = 0, n_recipient_id = recipient_id, n_type = ty, n_title = title,
       n_body = body, n_is_read = False, n_read_at = None, n_created_at = 0\<rparr>"

definition list_notifications ::
  "user \<Rightarrow> bool option \<Rightarrow> notification_type option \<Rightarrow> int \<Rightarrow> int \<Rightarrow> (notification list \<times> int) act" where
  "list_notifications current_user is_read ty limit offset = do {
     d \<leftarrow> gets db;
     let items = notifications_for_user (u_id current_user) is_read ty limit offset d;
     let unread_count = count_unread (u_id current_user) d;
     State_Monad.return (items, unread_count)
   }"

definition mark_as_read :: "int \<Rightarrow> user \<Rightarrow> notification svc" where
  "mark_as_read notification_id current_user = do {
     d \<leftarrow> gets db;
     now \<leftarrow> gets clock;
     case notification_for_user notification_id (u_id current_user) d of
       None \<Rightarrow> raise (HTTPException 404 ''Notification not found'')
     | Some n \<Rightarrow>
         if \<not> n_is_read n then do {
           let n' = n\<lparr>n_is_read := True, n_read_at := Some now\<rparr>;
           write_db (put_notification n');
           commit;
           ok n'
         } else ok n
   }"

definition mark_all_as_read :: "user \<Rightarrow> int act" where
  "mark_all_as_read current_user = do {
     now \<leftarrow> gets clock;
     updated \<leftarrow> mark_all_read (u_id current_user) now;
     commit;
     State_Monad.return updated
   }"

section \<open>Notification jobs\<close>

definition notification_job_name :: "int \<Rightarrow> notification_type \<Rightarrow> string" where
  "notification_job_name recipient_id ty =
     ''notification:'' @ str_int recipient_id @ '':'' @ notification_type_value ty"

definition dispatch_notification_job_name :: "int \<Rightarrow> notification_type \<Rightarrow> string" where
  "dispatch_notification_job_name recipient_id ty =
     ''dispatch-notification:'' @ str_int recipient_id @ '':'' @ notification_type_value ty"

definition enqueue_notification ::
  "env \<Rightarrow> int \<Rightarrow> notification_type \<Rightarrow> string \<Rightarrow> string \<Rightarrow> unit act" where
  "enqueue_notification e recipient_id ty title body = do {
     j \<leftarrow> new_job (notification_job_name recipient_id ty) (Create_notification recipient_id ty title body)
       (JOB_WORKER_MAX_RETRIES (feat e));
     enqueue j
   }"

definition enqueue_dispatch_notification ::
  "env \<Rightarrow> int \<Rightarrow> notification_type \<Rightarrow> string \<Rightarrow> string \<Rightarrow> unit act" where
  "enqueue_dispatch_notification e recipient_id ty title body = do {
     j \<leftarrow> new_job (dispatch_notification_job_name recipient_id ty)
       (Create_notification recipient_id ty title body) (DISPATCH_NOTIFICATION_MAX_RETRIES (feat e));
     enqueue j
   }"

text \<open>The closure of both jobs: a session of its own, the insert, the commit.\<close>

definition run_create_notification :: "int \<Rightarrow> notification_type \<Rightarrow> string \<Rightarrow> string \<Rightarrow> unit svc" where
  "run_create_notification recipient_id ty title body = in_session (do {
     r \<leftarrow> create_notification recipient_id ty title body;
     on_ok r (\<lambda>_. do { commit; ok () })
   })"

section \<open>AuditLogService\<close>

text \<open>
  \<open>record(request=, action=, actor_user_id=, entity_type=, entity_id=, severity=, metadata=, commit=)\<close>;
  of the request only its \<open>request_id\<close> is read.
\<close>

definition audit_request ::
  "string option \<Rightarrow> string \<Rightarrow> int option \<Rightarrow> string option \<Rightarrow> string option \<Rightarrow> string \<Rightarrow> (string \<times> py) list \<Rightarrow> bool \<Rightarrow>
     audit_log act" where
  "audit_request request_id action actor_user_id entity_type entity_id severity metadata do_commit = do {
     saved \<leftarrow> audit_create \<lparr>a_id = 0, a_actor_user_id = actor_user_id, a_action = action,
       a_entity_type = entity_type, a_entity_id = entity_id, a_severity = severity,
       a_request_id = request_id, a_metadata_json = (if metadata = [] then None else Some metadata),
       a_created_at = 0\<rparr>;
     (if do_commit then commit else State_Monad.return ());
     State_Monad.return saved
   }"

text \<open>Most services pass no request.\<close>

abbreviation audit_record ::
  "string \<Rightarrow> int option \<Rightarrow> string option \<Rightarrow> string option \<Rightarrow> string \<Rightarrow> (string \<times> py) list \<Rightarrow> bool \<Rightarrow>
     audit_log act" where
  "audit_record \<equiv> audit_request None"

text \<open>The common call: an action of a user on an entity, with severity \<open>info\<close>.\<close>

abbreviation audit_entity ::
  "string \<Rightarrow> int \<Rightarrow> string \<Rightarrow> int \<Rightarrow> (string \<times> py) list \<Rightarrow> bool \<Rightarrow> audit_log act" where
  "audit_entity action actor entity_type entity_id metadata do_commit \<equiv>
     audit_record action (Some actor) (Some entity_type) (Some (str_int entity_id)) ''info'' metadata do_commit"

definition list_my_audit_logs :: "user \<Rightarrow> int \<Rightarrow> int \<Rightarrow> database \<Rightarrow> audit_log list" where
  "list_my_audit_logs current_user limit offset d = audit_logs_for_user (u_id current_user) limit offset d"

definition list_user_audit_logs :: "user \<Rightarrow> int \<Rightarrow> int \<Rightarrow> int \<Rightarrow> audit_log list svc" where
  "list_user_audit_logs current_user user_id limit offset = do {
     d \<leftarrow> gets db;
     if u_id current_user \<noteq> user_id
     then raise (HTTPException 403 ''Audit logs can only be viewed for your own account'')
     else ok (list_my_audit_logs current_user limit offset d)
   }"

definition list_entity_audit_logs ::
  "string \<Rightarrow> string \<Rightarrow> string option \<Rightarrow> int \<Rightarrow> int \<Rightarrow> database \<Rightarrow> audit_log list" where
  "list_entity_audit_logs entity_type entity_id prefix limit offset d =
     audit_logs_for_entity entity_type entity_id prefix limit offset d"

record audit_summary =
  as_total :: int
  as_by_action :: "(string \<times> int) list"
  as_by_severity :: "(string \<times> int) list"
  as_recent_items :: "audit_log list"

definition summarize_my_audit_logs :: "user \<Rightarrow> int \<Rightarrow> database \<Rightarrow> audit_summary" where
  "summarize_my_audit_logs current_user recent_limit d =
     \<lparr>as_total = count_audit_for_user (u_id current_user) d,
      as_by_action = counts_by_action_for_user (u_id current_user) d,
      as_by_severity = counts_by_severity_for_user (u_id current_user) d,
      as_recent_items = audit_logs_for_user (u_id current_user) recent_limit 0 d\<rparr>"

definition purge_older_than :: "int \<Rightarrow> int svc" where
  "purge_older_than n =
     (if n < 1 then raise (HTTPException 400 ''days must be greater than zero'')
      else do {
        deleted \<leftarrow> delete_audit_older_than n;
        commit;
        ok deleted
      })"

definition cleanup_my_audit_logs :: "user \<Rightarrow> int \<Rightarrow> int svc" where
  "cleanup_my_audit_logs current_user keep_days =
     (if keep_days < 1 then raise (HTTPException 400 ''keep_days must be greater than zero'')
      else do {
        now \<leftarrow> gets clock;
        let cutoff = now - days keep_days;
        deleted \<leftarrow> delete_audit_where (\<lambda>a. a_actor_user_id a = Some (u_id current_user) \<and> a_created_at a < cutoff);
        commit;
        ok deleted
      })"

end
