(* ===== verification/Payment.thy ===== *)
theory Payment
  imports Notify Provider
begin

text \<open>
  src/app/services/payment.py and payment_jobs.py: the life of a booking's payment. A method that
  changes \<open>payment\<close> and saves it works here on the changed row and writes it back at the save. A
  method that returns a decorated payment returns the row with its \<open>checkout_key_id\<close>.
\<close>

type_synonym decorated = "payment \<times> string option"

definition provider_for_payment :: "env \<Rightarrow> payment \<Rightarrow> exc + gateway" where
  "provider_for_payment e p = get_payment_provider e (Some (p_provider p))"

definition decorate_payment :: "env \<Rightarrow> payment \<Rightarrow> decorated svc" where
  "decorate_payment e p = on_ok (provider_for_payment e p) (\<lambda>gw. ok (p, checkout_key_id gw))"

text \<open>\<open>PaymentService(db)\<close>, whose constructor already asks for the configured gateway.\<close>

definition payment_service :: "env \<Rightarrow> (gateway \<Rightarrow> 'a svc) \<Rightarrow> 'a svc" where
  "payment_service e m = on_ok (get_payment_provider e None) m"

text \<open>
  The two last clauses of a \<open>try\<close>: a gateway error becomes a 502 under the given outcome, anything
  else is raised again, and both roll back.
\<close>

definition or_gateway_error :: "string \<Rightarrow> 'a svc \<Rightarrow> 'a svc" where
  "or_gateway_error outcome m = handle m (\<lambda>x.
     case x of
       PaymentProviderError _ _ \<Rightarrow> do {
         rollback;
         record_payment ''payment_provider_error'' outcome;
         raise (HTTPException 502 ''Payment provider is temporarily unavailable'')
       }
     | _ \<Rightarrow> do { rollback; raise x })"

section \<open>Retry jobs (payment_jobs.py)\<close>

definition enqueue_payment_capture_retry :: "env \<Rightarrow> int \<Rightarrow> unit act" where
  "enqueue_payment_capture_retry e payment_id = do {
     j \<leftarrow> new_job (''payment-capture-retry:'' @ str_int payment_id) (Retry_capture payment_id)
       (JOB_WORKER_MAX_RETRIES (feat e));
     enqueue j
   }"

definition enqueue_payment_refund_retry :: "env \<Rightarrow> int \<Rightarrow> unit act" where
  "enqueue_payment_refund_retry e payment_id = do {
     j \<leftarrow> new_job (''payment-refund-retry:'' @ str_int payment_id) (Retry_refund payment_id)
       (JOB_WORKER_MAX_RETRIES (feat e));
     enqueue j
   }"

definition enqueue_payment_reconciliation :: "env \<Rightarrow> int \<Rightarrow> unit act" where
  "enqueue_payment_reconciliation e payment_id = do {
     j \<leftarrow> new_job (''payment-reconciliation:'' @ str_int payment_id) (Reconcile payment_id)
       (JOB_WORKER_MAX_RETRIES (feat e));
     enqueue j
   }"

section \<open>Creating a payment\<close>

record payment_create_request =
  pc_booking_id :: int
  pc_currency :: string

definition payment_create_valid :: "payment_create_request \<Rightarrow> bool" where
  "payment_create_valid c \<longleftrightarrow> length (pc_currency c) = 3"

text \<open>\<open>t1\<close> and \<open>t2\<close> are the tokens the mock gateway draws for its identifiers.\<close>

definition create_payment ::
  "env \<Rightarrow> gateway \<Rightarrow> string \<Rightarrow> string \<Rightarrow> payment_create_request \<Rightarrow> user \<Rightarrow> decorated svc" where
  "create_payment e gw t1 t2 c current_user = do {
     d \<leftarrow> gets db;
     case get_booking (pc_booking_id c) d of
       None \<Rightarrow> raise (HTTPException 404 ''Booking not found'')
     | Some b \<Rightarrow>
         if b_passenger_id b \<noteq> u_id current_user
         then raise (HTTPException 403 ''Only the passenger can pay for this booking'')
         else if b_status b \<notin> {BPending, BAccepted}
         then raise (HTTPException 400 ''Payment cannot be created for this booking state'')
         else if payment_by_booking_id (b_id b) d \<noteq> None
         then raise (HTTPException 409 ''Payment already exists for this booking'')
         else deref (ride_of b d) (\<lambda>ride.
           let currency = upper_str (pc_currency c);
               amount_minor = to_minor_units (r_price_per_seat ride) currency
           in or_gateway_error ''create'' (do {
             r \<leftarrow> gw_create_payment e gw t1 t2 amount_minor currency (''booking-'' @ str_int (b_id b));
             on_ok r (\<lambda>intent. do {
               r \<leftarrow> payment_create \<lparr>p_id = 0, p_booking_id = b_id b, p_payer_id = u_id current_user,
                 p_amount = r_price_per_seat ride, p_amount_minor = amount_minor, p_currency = currency,
                 p_status = PPending, p_provider = it_provider intent,
                 p_provider_order_id = it_provider_order_id intent,
                 p_provider_payment_id = it_provider_payment_id intent,
                 p_failure_reason = None, p_created_at = 0, p_updated_at = 0\<rparr>;
               on_ok r (\<lambda>saved. do {
                 commit;
                 record_payment ''payment_created'' ''success'';
                 audit_entity ''payment_created'' (u_id current_user) ''payment'' (p_id saved)
                   [(''booking_id'', PyInt (b_id b)), (''amount'', PyDecimal (p_amount saved)),
                    (''currency'', PyStr (p_currency saved))] True;
                 d \<leftarrow> gets db;
                 decorate_payment e (case get_payment (p_id saved) d of None \<Rightarrow> saved | Some p \<Rightarrow> p)
               })
             })
           }))
   }"

section \<open>Capture and refund for a booking\<close>

text \<open>
  \<open>_reconcile_provider_reference\<close>, which returns the changed row: without a provider payment id it
  asks the gateway for one, and adopts a status that is already final there.
\<close>

definition reconcile_provider_reference :: "env \<Rightarrow> payment \<Rightarrow> payment svc" where
  "reconcile_provider_reference e p =
     (if truthy (p_provider_payment_id p) then ok p
      else on_ok (provider_for_payment e p) (\<lambda>gw. do {
        r \<leftarrow> gw_reconcile_payment e gw (p_provider_order_id p);
        on_ok r (\<lambda>s.
          let p1 = p\<lparr>p_provider_payment_id := ps_provider_payment_id s\<rparr>
          in ok (if ps_status s \<in> {PCaptured, PRefunded, PFailed} then p1\<lparr>p_status := ps_status s\<rparr> else p1))
      }))"

text \<open>\<open>try: bool(id and provider.op(id, ...)) except PaymentProviderError: False\<close>\<close>

definition attempt :: "string option \<Rightarrow> (string \<Rightarrow> bool svc) \<Rightarrow> bool svc" where
  "attempt pid f =
     (case pid of
        None \<Rightarrow> ok False
      | Some i \<Rightarrow>
          if i = [] then ok False
          else handle (f i) (\<lambda>x. case x of PaymentProviderError _ _ \<Rightarrow> ok False | _ \<Rightarrow> raise x))"

definition try_capture :: "env \<Rightarrow> gateway \<Rightarrow> payment \<Rightarrow> bool svc" where
  "try_capture e gw p =
     attempt (p_provider_payment_id p) (\<lambda>i. gw_capture_payment e gw i (p_amount_minor p) (p_currency p))"

definition try_refund :: "env \<Rightarrow> gateway \<Rightarrow> payment \<Rightarrow> bool svc" where
  "try_refund e gw p =
     attempt (p_provider_payment_id p) (\<lambda>i. gw_refund_payment e gw i (p_amount_minor p))"

definition commit_if :: "bool \<Rightarrow> unit act" where
  "commit_if b = (if b then commit else State_Monad.return ())"

definition capture_payment_for_booking :: "env \<Rightarrow> int \<Rightarrow> bool \<Rightarrow> payment option svc" where
  "capture_payment_for_booking e booking_id do_commit = do {
     d \<leftarrow> gets db;
     case payment_by_booking_id booking_id d of
       None \<Rightarrow> ok None
     | Some p \<Rightarrow>
         if p_status p \<noteq> PAuthorized then ok (Some p)
         else do {
           r \<leftarrow> reconcile_provider_reference e p;
           case r of
             Inl (PaymentProviderError _ _) \<Rightarrow> do {
               r \<leftarrow> payment_save (p\<lparr>p_failure_reason :=
                 Some ''Provider reconciliation failed before capture; retry scheduled''\<rparr>);
               on_ok r (\<lambda>saved. do {
                 commit_if do_commit;
                 record_payment ''payment_capture'' ''retry_queued'';
                 enqueue_payment_capture_retry e (p_id p);
                 enqueue_payment_reconciliation e (p_id p);
                 audit_entity ''payment_capture_retry_queued'' (p_payer_id p) ''payment'' (p_id p)
                   [(''booking_id'', PyInt booking_id), (''reason'', PyStr ''reconciliation_failed'')] do_commit;
                 ok (Some saved)
               })
             }
           | Inl x \<Rightarrow> raise x
           | Inr p1 \<Rightarrow> on_ok (provider_for_payment e p1) (\<lambda>gw. do {
               r \<leftarrow> try_capture e gw p1;
               on_ok r (\<lambda>captured.
                 if \<not> captured then do {
                   r \<leftarrow> payment_save (p1\<lparr>p_failure_reason := Some ''Provider capture failed; retry scheduled''\<rparr>);
                   on_ok r (\<lambda>saved. do {
                     commit_if do_commit;
                     record_payment ''payment_capture'' ''retry_queued'';
                     enqueue_payment_capture_retry e (p_id p1);
                     audit_entity ''payment_capture_retry_queued'' (p_payer_id p1) ''payment'' (p_id p1)
                       [(''booking_id'', PyInt booking_id)] do_commit;
                     ok (Some saved)
                   })
                 } else do {
                   r \<leftarrow> payment_save (p1\<lparr>p_status := PCaptured, p_failure_reason := None\<rparr>);
                   on_ok r (\<lambda>saved. do {
                     commit_if do_commit;
                     record_payment ''payment_capture'' ''success'';
                     audit_entity ''payment_captured'' (p_payer_id p1) ''payment'' (p_id p1)
                       [(''booking_id'', PyInt booking_id)] do_commit;
                     ok (Some saved)
                   })
                 })
             })
         }
   }"

definition refund_payment_for_booking :: "env \<Rightarrow> int \<Rightarrow> bool \<Rightarrow> payment option svc" where
  "refund_payment_for_booking e booking_id do_commit = do {
     d \<leftarrow> gets db;
     case payment_by_booking_id booking_id d of
       None \<Rightarrow> ok None
     | Some p \<Rightarrow>
         if p_status p \<notin> {PAuthorized, PCaptured} then ok (Some p)
         else do {
           r \<leftarrow> reconcile_provider_reference e p;
           case r of
             Inl (PaymentProviderError _ _) \<Rightarrow> do {
               r \<leftarrow> payment_save (p\<lparr>p_failure_reason :=
                 Some ''Provider reconciliation failed before refund; retry scheduled''\<rparr>);
               on_ok r (\<lambda>saved. do {
                 commit_if do_commit;
                 record_payment ''payment_refund'' ''retry_queued'';
                 enqueue_payment_refund_retry e (p_id p);
                 enqueue_payment_reconciliation e (p_id p);
                 audit_entity ''payment_refund_retry_queued'' (p_payer_id p) ''payment'' (p_id p)
                   [(''booking_id'', PyInt booking_id), (''reason'', PyStr ''reconciliation_failed'')] do_commit;
                 ok (Some saved)
               })
             }
           | Inl x \<Rightarrow> raise x
           | Inr p1 \<Rightarrow> on_ok (provider_for_payment e p1) (\<lambda>gw. do {
               r \<leftarrow> try_refund e gw p1;
               on_ok r (\<lambda>refunded. do {
                 r \<leftarrow> payment_save
                   (if refunded then p1\<lparr>p_status := PRefunded, p_failure_reason := None\<rparr>
                    else p1\<lparr>p_failure_reason := Some ''Provider refund failed; retry scheduled''\<rparr>);
                 on_ok r (\<lambda>saved. do {
                   commit_if do_commit;
                   if p_status saved = PRefunded then do {
                     record_payment ''payment_refund'' ''success'';
                     audit_entity ''payment_refunded'' (p_payer_id saved) ''payment'' (p_id saved)
                       [(''booking_id'', PyInt booking_id)] do_commit;
                     ok (Some saved)
                   } else do {
                     record_payment ''payment_refund'' ''retry_queued'';
                     enqueue_payment_refund_retry e (p_id saved);
                     enqueue_payment_reconciliation e (p_id saved);
                     audit_entity ''payment_refund_retry_queued'' (p_payer_id saved) ''payment'' (p_id saved)
                       [(''booking_id'', PyInt booking_id)] do_commit;
                     ok (Some saved)
                   }
                 })
               })
             })
         }
   }"

section \<open>Confirmation by the payer\<close>

definition ensure_payment_access :: "payment \<Rightarrow> user \<Rightarrow> payment svc" where
  "ensure_payment_access p current_user = do {
     d \<leftarrow> gets db;
     deref (get_booking (p_booking_id p) d) (\<lambda>b. deref (ride_of b d) (\<lambda>ride.
       if u_id current_user \<notin> {p_payer_id p, r_driver_id ride}
       then raise (HTTPException 403 ''Payment access denied'')
       else ok p))
   }"

definition get_accessible_payment :: "int \<Rightarrow> user \<Rightarrow> payment svc" where
  "get_accessible_payment payment_id current_user = do {
     d \<leftarrow> gets db;
     case get_payment payment_id d of
       None \<Rightarrow> raise (HTTPException 404 ''Payment not found'')
     | Some p \<Rightarrow> ensure_payment_access p current_user
   }"

text \<open>What \<open>confirm_payment\<close> and \<open>reconcile_payment\<close> end with: capture at once if the ride is agreed.\<close>

definition capture_if_accepted :: "env \<Rightarrow> payment \<Rightarrow> decorated svc" where
  "capture_if_accepted e saved = do {
     d \<leftarrow> gets db;
     if p_status saved = PAuthorized then
       deref (get_booking (p_booking_id saved) d) (\<lambda>b.
         if b_status b = BAccepted then do {
           r \<leftarrow> capture_payment_for_booking e (p_booking_id saved) True;
           on_ok r (\<lambda>captured. case captured of
             Some p \<Rightarrow> decorate_payment e p
           | None \<Rightarrow> decorate_payment e saved)
         } else decorate_payment e saved)
     else decorate_payment e saved
   }"

definition confirm_payment :: "env \<Rightarrow> int \<Rightarrow> user \<Rightarrow> decorated svc" where
  "confirm_payment e payment_id current_user = do {
     r \<leftarrow> get_accessible_payment payment_id current_user;
     on_ok r (\<lambda>p.
       if p_payer_id p \<noteq> u_id current_user
       then raise (HTTPException 403 ''Only the passenger can confirm this payment'')
       else if p_status p \<in> {PAuthorized, PCaptured} then decorate_payment e p
       else if p_status p \<noteq> PPending
       then raise (HTTPException 400 ''Only pending payments can be confirmed'')
       else or_gateway_error ''confirm'' (on_ok (provider_for_payment e p) (\<lambda>gw. do {
         r \<leftarrow> gw_confirm_payment e gw (p_provider_order_id p);
         on_ok r (\<lambda>s.
           if ps_status s = PPending then do {
             r \<leftarrow> payment_save (p\<lparr>p_provider_payment_id :=
               or_else (ps_provider_payment_id s) (p_provider_payment_id p)\<rparr>);
             on_ok r (\<lambda>saved. do {
               commit;
               record_payment ''payment_confirmed'' ''pending'';
               decorate_payment e saved
             })
           } else if ps_status s \<notin> {PAuthorized, PCaptured} then do {
             r \<leftarrow> payment_save (p\<lparr>p_status := PFailed, p_failure_reason := Some ''Provider confirmation failed''\<rparr>);
             on_ok r (\<lambda>saved. do {
               commit;
               record_payment ''payment_confirmed'' ''failed'';
               decorate_payment e saved
             })
           } else do {
             r \<leftarrow> payment_save (p\<lparr>p_status := ps_status s,
               p_provider_payment_id := or_else (ps_provider_payment_id s) (p_provider_payment_id p),
               p_failure_reason := None\<rparr>);
             on_ok r (\<lambda>saved. do {
               commit;
               record_payment ''payment_confirmed'' ''success'';
               audit_entity ''payment_authorized'' (u_id current_user) ''payment'' (p_id saved)
                 [(''booking_id'', PyInt (p_booking_id saved))] True;
               d \<leftarrow> gets db;
               capture_if_accepted e (case get_payment (p_id saved) d of None \<Rightarrow> saved | Some q \<Rightarrow> q)
             })
           })
       })))
   }"

section \<open>The retries a job runs\<close>

definition retry_capture_payment :: "env \<Rightarrow> int \<Rightarrow> payment option svc" where
  "retry_capture_payment e payment_id = do {
     d \<leftarrow> gets db;
     case get_payment payment_id d of
       None \<Rightarrow> ok None
     | Some p \<Rightarrow>
         if p_status p \<noteq> PAuthorized then ok (Some p)
         else do {
           r \<leftarrow> reconcile_provider_reference e p;
           case r of
             Inl (PaymentProviderError _ _) \<Rightarrow> do {
               r \<leftarrow> payment_save (p\<lparr>p_failure_reason := Some ''Provider reconciliation failed''\<rparr>);
               on_ok r (\<lambda>_. do {
                 commit;
                 record_payment ''payment_capture'' ''failed'';
                 raise (RuntimeError (''payment capture retry failed for payment_id='' @ str_int (p_id p)))
               })
             }
           | Inl x \<Rightarrow> raise x
           | Inr p1 \<Rightarrow> on_ok (provider_for_payment e p1) (\<lambda>gw. do {
               r \<leftarrow> try_capture e gw p1;
               on_ok r (\<lambda>captured.
                 if \<not> captured then do {
                   r \<leftarrow> payment_save (p1\<lparr>p_failure_reason := Some ''Provider capture failed''\<rparr>);
                   on_ok r (\<lambda>_. do {
                     commit;
                     record_payment ''payment_capture'' ''failed'';
                     raise (RuntimeError (''payment capture retry failed for payment_id='' @ str_int (p_id p1)))
                   })
                 } else do {
                   r \<leftarrow> payment_save (p1\<lparr>p_status := PCaptured, p_failure_reason := None\<rparr>);
                   on_ok r (\<lambda>saved. do {
                     commit;
                     record_payment ''payment_capture'' ''retry_success'';
                     audit_entity ''payment_captured'' (p_payer_id saved) ''payment'' (p_id saved)
                       [(''booking_id'', PyInt (p_booking_id saved)), (''retry'', PyBool True)] True;
                     ok (Some saved)
                   })
                 })
             })
         }
   }"

definition retry_refund_payment :: "env \<Rightarrow> int \<Rightarrow> payment option svc" where
  "retry_refund_payment e payment_id = do {
     d \<leftarrow> gets db;
     case get_payment payment_id d of
       None \<Rightarrow> ok None
     | Some p \<Rightarrow>
         if p_status p \<notin> {PAuthorized, PCaptured} then ok (Some p)
         else do {
           r \<leftarrow> reconcile_provider_reference e p;
           case r of
             Inl (PaymentProviderError _ _) \<Rightarrow> do {
               r \<leftarrow> payment_save (p\<lparr>p_failure_reason := Some ''Provider reconciliation failed''\<rparr>);
               on_ok r (\<lambda>_. do {
                 commit;
                 record_payment ''payment_refund'' ''failed'';
                 raise (RuntimeError (''payment refund retry failed for payment_id='' @ str_int (p_id p)))
               })
             }
           | Inl x \<Rightarrow> raise x
           | Inr p1 \<Rightarrow> on_ok (provider_for_payment e p1) (\<lambda>gw. do {
               r \<leftarrow> try_refund e gw p1;
               on_ok r (\<lambda>refunded.
                 if \<not> refunded then do {
                   r \<leftarrow> payment_save (p1\<lparr>p_failure_reason := Some ''Provider refund failed''\<rparr>);
                   on_ok r (\<lambda>_. do {
                     commit;
                     record_payment ''payment_refund'' ''failed'';
                     raise (RuntimeError (''payment refund retry failed for payment_id='' @ str_int (p_id p1)))
                   })
                 } else do {
                   r \<leftarrow> payment_save (p1\<lparr>p_status := PRefunded, p_failure_reason := None\<rparr>);
                   on_ok r (\<lambda>saved. do {
                     commit;
                     record_payment ''payment_refund'' ''retry_success'';
                     audit_entity ''payment_refunded'' (p_payer_id saved) ''payment'' (p_id saved)
                       [(''booking_id'', PyInt (p_booking_id saved)), (''retry'', PyBool True)] True;
                     ok (Some saved)
                   })
                 })
             })
         }
   }"

section \<open>Reconciliation with the gateway\<close>

definition reconcile_payment :: "env \<Rightarrow> int \<Rightarrow> decorated option svc" where
  "reconcile_payment e payment_id = do {
     d \<leftarrow> gets db;
     case get_payment payment_id d of
       None \<Rightarrow> ok None
     | Some p \<Rightarrow>
         if p_status p \<in> {PRefunded, PFailed, PCancelled} then ok (Some (p, None))
         else on_ok (provider_for_payment e p) (\<lambda>gw. do {
           r \<leftarrow> gw_reconcile_payment e gw (p_provider_order_id p);
           case r of
             Inl (PaymentProviderError _ _) \<Rightarrow> do {
               record_payment ''payment_provider_error'' ''reconcile'';
               raise (HTTPException 502 ''Payment provider is temporarily unavailable'')
             }
           | Inl x \<Rightarrow> raise x
           | Inr s \<Rightarrow> do {
               r \<leftarrow> payment_save (p\<lparr>p_status := ps_status s,
                 p_provider_payment_id := or_else (ps_provider_payment_id s) (p_provider_payment_id p),
                 p_failure_reason :=
                   (if ps_status s \<noteq> PFailed then None else Some ''Provider reported payment failure'')\<rparr>);
               on_ok r (\<lambda>saved. do {
                 commit;
                 record_payment ''payment_reconciled'' (payment_status_value (ps_status s));
                 r \<leftarrow> capture_if_accepted e saved;
                 on_ok r (\<lambda>x. ok (Some x))
               })
             }
         })
   }"

definition reconcile_accessible_payment :: "env \<Rightarrow> int \<Rightarrow> user \<Rightarrow> decorated svc" where
  "reconcile_accessible_payment e payment_id current_user = do {
     r \<leftarrow> get_accessible_payment payment_id current_user;
     on_ok r (\<lambda>p. do {
       r \<leftarrow> reconcile_payment e (p_id p);
       on_ok r (\<lambda>x. case x of Some q \<Rightarrow> ok q | None \<Rightarrow> decorate_payment e p)
     })
   }"

section \<open>Reading payments\<close>

definition get_payment_for_user :: "env \<Rightarrow> int \<Rightarrow> user \<Rightarrow> decorated svc" where
  "get_payment_for_user e payment_id current_user = do {
     r \<leftarrow> get_accessible_payment payment_id current_user;
     on_ok r (decorate_payment e)
   }"

definition get_booking_payment :: "env \<Rightarrow> int \<Rightarrow> user \<Rightarrow> decorated svc" where
  "get_booking_payment e booking_id current_user = do {
     d \<leftarrow> gets db;
     case payment_by_booking_id booking_id d of
       None \<Rightarrow> raise (HTTPException 404 ''Payment not found'')
     | Some p \<Rightarrow> do {
         r \<leftarrow> ensure_payment_access p current_user;
         on_ok r (decorate_payment e)
       }
   }"

fun decorate_payments :: "env \<Rightarrow> payment list \<Rightarrow> decorated list svc" where
  "decorate_payments e [] = ok []"
| "decorate_payments e (p # ps) = do {
     r \<leftarrow> decorate_payment e p;
     on_ok r (\<lambda>x. do {
       r \<leftarrow> decorate_payments e ps;
       on_ok r (\<lambda>xs. ok (x # xs))
     })
   }"

definition list_my_payments :: "env \<Rightarrow> user \<Rightarrow> int \<Rightarrow> int \<Rightarrow> decorated list svc" where
  "list_my_payments e current_user limit offset = do {
     d \<leftarrow> gets db;
     decorate_payments e (payments_for_user (u_id current_user) limit offset d)
   }"

section \<open>Webhooks\<close>

definition apply_webhook_transition :: "payment \<Rightarrow> string \<Rightarrow> payment" where
  "apply_webhook_transition p event_type =
     (if event_type = ''payment.authorized'' \<and> p_status p = PPending
      then p\<lparr>p_status := PAuthorized\<rparr>
      else if event_type = ''payment.captured'' \<and> p_status p \<in> {PPending, PAuthorized}
      then p\<lparr>p_status := PCaptured, p_failure_reason := None\<rparr>
      else if event_type = ''payment.refunded'' \<and> p_status p \<in> {PAuthorized, PCaptured}
      then p\<lparr>p_status := PRefunded, p_failure_reason := None\<rparr>
      else if event_type = ''payment.failed'' \<and> p_status p \<in> {PPending, PAuthorized}
      then p\<lparr>p_status := PFailed, p_failure_reason := Some ''Provider reported payment failure''\<rparr>
      else if event_type \<in> {''refund.processed'', ''payment.refunded''} \<and>
              p_status p \<in> {PAuthorized, PCaptured, PRefunded}
      then p\<lparr>p_status := PRefunded, p_failure_reason := None\<rparr>
      else if event_type = ''refund.failed'' \<and> p_status p \<noteq> PRefunded
      then p\<lparr>p_failure_reason := Some ''Provider reported refund failure''\<rparr>
      else p)"

record webhook_event =
  wh_provider_event_id :: string
  wh_event_type :: string
  wh_provider_payment_id :: string
  wh_provider_order_id :: "string option"
  wh_payload :: "(string \<times> py) list"

definition webhook_event_valid :: "webhook_event \<Rightarrow> bool" where
  "webhook_event_valid x \<longleftrightarrow>
     list_all (\<lambda>s. 1 \<le> length s \<and> length s \<le> 120)
       [wh_provider_event_id x, wh_event_type x, wh_provider_payment_id x]"

record webhook_response =
  wr_processed :: bool
  wr_event_id :: int
  wr_payment_id :: "int option"
  wr_status :: "payment_status option"

definition webhook_payment :: "webhook_event \<Rightarrow> database \<Rightarrow> payment option" where
  "webhook_payment x d =
     (case payment_by_provider_payment_id (wh_provider_payment_id x) d of
        Some p \<Rightarrow> Some p
      | None \<Rightarrow>
          (case wh_provider_order_id x of
             None \<Rightarrow> None
           | Some i \<Rightarrow> if i = [] then None else payment_by_provider_order_id i d))"

definition process_webhook_event :: "webhook_event \<Rightarrow> payment_provider \<Rightarrow> webhook_response svc" where
  "process_webhook_event x provider = do {
     d \<leftarrow> gets db;
     now \<leftarrow> gets clock;
     case event_by_provider_id (wh_provider_event_id x) d of
       Some existing \<Rightarrow>
         (let p = (case e_payment_id existing of None \<Rightarrow> None | Some i \<Rightarrow> get_payment i d)
          in ok \<lparr>wr_processed = False, wr_event_id = e_id existing,
                 wr_payment_id = map_option p_id p, wr_status = map_option p_status p\<rparr>)
     | None \<Rightarrow>
         (let found = webhook_payment x d
          in or_rollback (do {
            r \<leftarrow> event_create \<lparr>e_id = 0, e_payment_id = map_option p_id found, e_provider = provider,
              e_provider_event_id = wh_provider_event_id x, e_event_type = wh_event_type x,
              e_payload_json = wh_payload x, e_processed_at = None, e_created_at = 0\<rparr>;
            on_ok r (\<lambda>saved_event. do {
              r \<leftarrow> (case found of
                  None \<Rightarrow> ok None
                | Some p \<Rightarrow> do {
                    r \<leftarrow> payment_save (apply_webhook_transition
                      (p\<lparr>p_provider_payment_id := Some (wh_provider_payment_id x)\<rparr>) (wh_event_type x));
                    on_ok r (\<lambda>p. ok (Some p))
                  });
              on_ok r (\<lambda>saved. do {
                write_db (put_payment_event (saved_event\<lparr>e_processed_at := Some now\<rparr>));
                commit;
                (case saved of
                   None \<Rightarrow> State_Monad.return ()
                 | Some p \<Rightarrow> do {
                     audit_entity ''payment_webhook_processed'' (p_payer_id p) ''payment'' (p_id p)
                       [(''event_type'', PyStr (wh_event_type x)),
                        (''provider_event_id'', PyStr (wh_provider_event_id x))] True;
                     State_Monad.return ()
                   });
                ok \<lparr>wr_processed = True, wr_event_id = e_id saved_event,
                    wr_payment_id = map_option p_id saved, wr_status = map_option p_status saved\<rparr>
              })
            })
          }))
   }"

definition verify_webhook_signature :: "env \<Rightarrow> string \<Rightarrow> string \<Rightarrow> payment_provider \<Rightarrow> exc + bool" where
  "verify_webhook_signature e body signature provider =
     (case get_payment_provider e (Some provider) of
        Inl x \<Rightarrow> Inl x
      | Inr gw \<Rightarrow> gw_verify_webhook_signature e gw body signature)"

section \<open>The webhook endpoints (api/v1/endpoints/payments.py)\<close>

definition mock_payment_webhook :: "env \<Rightarrow> webhook_event \<Rightarrow> webhook_response svc" where
  "mock_payment_webhook e x = payment_service e (\<lambda>_. process_webhook_event x Mock)"

text \<open>\<open>webhook.get("payload", {}).get(key, {}).get("entity")\<close>\<close>

definition webhook_entity :: "py \<Rightarrow> string \<Rightarrow> py \<Rightarrow> exc + py" where
  "webhook_entity webhook key dflt =
     (case py_get webhook ''payload'' (PyDict []) of
        Inl x \<Rightarrow> Inl x
      | Inr v \<Rightarrow> (case py_get v key (PyDict []) of
          Inl x \<Rightarrow> Inl x
        | Inr v \<Rightarrow> py_get v ''entity'' dflt))"

definition py_or :: "py \<Rightarrow> py \<Rightarrow> py" where
  "py_or a b = (if py_truth a then a else b)"

definition razorpay_payment_webhook ::
  "env \<Rightarrow> string \<Rightarrow> string \<Rightarrow> string option \<Rightarrow> webhook_response svc" where
  "razorpay_payment_webhook e raw_body signature event_id_header = payment_service e (\<lambda>_.
     if signature = [] then raise (HTTPException 401 ''Invalid webhook signature'')
     else on_ok (verify_webhook_signature e raw_body signature Razorpay) (\<lambda>valid.
       if \<not> valid then raise (HTTPException 401 ''Invalid webhook signature'')
       else case json_loads e raw_body of
         None \<Rightarrow> raise (HTTPException 400 ''Invalid webhook payload'')
       | Some webhook \<Rightarrow>
         on_ok (webhook_entity webhook ''payment'' PyNone) (\<lambda>first.
         on_ok (if py_truth first then Inr first else webhook_entity webhook ''refund'' (PyDict [])) (\<lambda>entity.
         on_ok (py_get entity ''payment_id'' PyNone) (\<lambda>a.
         on_ok (if py_truth a then Inr a else py_get entity ''id'' PyNone) (\<lambda>provider_payment_id.
           if \<not> py_truth provider_payment_id
           then raise (HTTPException 400 ''Webhook payment identifier missing'')
           else
             on_ok (py_get webhook ''created_at'' (PyStr [])) (\<lambda>created_at.
             on_ok (py_get webhook ''event'' (PyStr [])) (\<lambda>event.
             on_ok (py_get entity ''order_id'' PyNone) (\<lambda>order_id.
               case (order_id, webhook) of
                 (PyNone, PyDict kvs) \<Rightarrow>
                   (let x = \<lparr>wh_provider_event_id =
                         (if truthy event_id_header then the event_id_header else py_str e created_at),
                       wh_event_type = py_str e event, wh_provider_payment_id = py_str e provider_payment_id,
                       wh_provider_order_id = None, wh_payload = kvs\<rparr>
                    in if webhook_event_valid x then process_webhook_event x Razorpay
                       else raise (ValueError ''PaymentWebhookEvent''))
               | (PyStr i, PyDict kvs) \<Rightarrow>
                   (let x = \<lparr>wh_provider_event_id =
                         (if truthy event_id_header then the event_id_header else py_str e created_at),
                       wh_event_type = py_str e event, wh_provider_payment_id = py_str e provider_payment_id,
                       wh_provider_order_id = Some i, wh_payload = kvs\<rparr>
                    in if webhook_event_valid x then process_webhook_event x Razorpay
                       else raise (ValueError ''PaymentWebhookEvent''))
               | _ \<Rightarrow> raise (ValueError ''PaymentWebhookEvent''))))))))))"

section \<open>The jobs' handlers\<close>

definition run_retry_capture :: "env \<Rightarrow> int \<Rightarrow> unit svc" where
  "run_retry_capture e payment_id = in_session (payment_service e (\<lambda>_. do {
     r \<leftarrow> retry_capture_payment e payment_id;
     on_ok r (\<lambda>_. ok ())
   }))"

definition run_retry_refund :: "env \<Rightarrow> int \<Rightarrow> unit svc" where
  "run_retry_refund e payment_id = in_session (payment_service e (\<lambda>_. do {
     r \<leftarrow> retry_refund_payment e payment_id;
     on_ok r (\<lambda>_. ok ())
   }))"

definition run_reconcile :: "env \<Rightarrow> int \<Rightarrow> unit svc" where
  "run_reconcile e payment_id = in_session (payment_service e (\<lambda>_. do {
     r \<leftarrow> reconcile_payment e payment_id;
     on_ok r (\<lambda>_. ok ())
   }))"

end
