(* ===== verification/Calendar.thy ===== *)
theory Calendar
  imports Model
begin

text \<open>
  The proleptic Gregorian calendar, as far as \<open>datetime.isoformat\<close> and \<open>datetime.fromisoformat\<close> need
  it: an instant in UTC is printed as date, time, microseconds where there are any, and the offset, and
  is read back from that form. Years count from March, so that the leap day is the last of its year.
\<close>

section \<open>Days and dates\<close>

text \<open>
  A day counted from 1970-01-01 as cycle of 400 years, century, four years, year and day of the year, all
  counted from March.
\<close>

definition march_parts :: "int \<Rightarrow> int \<times> int \<times> int \<times> int \<times> int" where
  "march_parts z0 =
     (let z = z0 + 719468;
          doe = z mod 146097;
          century = min 3 (doe div 36524);
          doc = doe - century * 36524;
          dof = doc mod 1461;
          one = min 3 (dof div 365)
      in (z div 146097, century, doc div 1461, one, dof - one * 365))"

text \<open>Year, month and day.\<close>

definition civil_from_days :: "int \<Rightarrow> int \<times> int \<times> int" where
  "civil_from_days z0 =
     (let (era, century, four, one, doy) = march_parts z0;
          mp = (5 * doy + 2) div 153;
          yy = 400 * era + (100 * century + 4 * four + one)
      in if mp < 10 then (yy, mp + 3, doy - (153 * mp + 2) div 5 + 1)
         else (yy + 1, mp - 9, doy - (153 * mp + 2) div 5 + 1))"

definition days_from_civil :: "int \<times> int \<times> int \<Rightarrow> int" where
  "days_from_civil d =
     (let (yy, mm, dd) = d;
          y = (if mm \<le> 2 then yy - 1 else yy);
          yoe = y mod 400;
          mp = (if mm \<le> 2 then mm + 9 else mm - 3);
          doy = (153 * mp + 2) div 5 + dd - 1
      in (y div 400) * 146097 + 365 * yoe + yoe div 4 - yoe div 100 + doy - 719468)"

lemma div_bounds: "0 < c \<Longrightarrow> c * (x div c) \<le> x \<and> x < c * (x div c) + (c :: int)"
  using mult_div_mod_eq [of c x] pos_mod_sign [of c x] pos_mod_bound [of c x] by linarith

lemma march_parts:
  assumes "march_parts z0 = (era, century, four, one, doy)"
  shows "0 \<le> century \<and> century \<le> 3 \<and> 0 \<le> four \<and> four \<le> 24 \<and> 0 \<le> one \<and> one \<le> 3 \<and> 0 \<le> doy \<and> doy \<le> 365 \<and>
    z0 + 719468 = 146097 * era + 36524 * century + 1461 * four + 365 * one + doy"
proof -
  define doe where "doe = (z0 + 719468) mod 146097"
  define c where "c = min 3 (doe div 36524)"
  define doc where "doc = doe - c * 36524"
  define dof where "dof = doc mod 1461"
  define n where "n = min 3 (dof div 365)"
  have eqs: "era = (z0 + 719468) div 146097" "century = c" "four = doc div 1461" "one = n" "doy = dof - n * 365"
  proof -
    have "march_parts z0 = ((z0 + 719468) div 146097, c, doc div 1461, n, dof - n * 365)"
      unfolding march_parts_def Let_def doe_def c_def doc_def dof_def n_def by (rule refl)
    from assms [unfolded this]
    show "era = (z0 + 719468) div 146097" "century = c" "four = doc div 1461" "one = n" "doy = dof - n * 365"
      by auto
  qed
  have doe: "0 \<le> doe" "doe < 146097" by (simp_all add: doe_def)
  have doc: "0 \<le> c" "c \<le> 3" "0 \<le> doc" "doc \<le> 36524"
    using doe div_bounds [of 36524 doe] unfolding doc_def c_def min_def by (simp_all split: if_splits)
  have dof: "0 \<le> doc div 1461" "doc div 1461 \<le> 24" "0 \<le> dof" "dof < 1461"
    using doc div_bounds [of 1461 doc] unfolding dof_def by simp_all
  have doy: "0 \<le> n" "n \<le> 3" "0 \<le> dof - n * 365" "dof - n * 365 \<le> 365"
    using dof div_bounds [of 365 dof] unfolding n_def min_def by (simp_all split: if_splits)
  have "z0 + 719468 = 146097 * era + doe" "doc = 1461 * four + dof" by (simp_all add: eqs doe_def dof_def)
  with doc dof doy show ?thesis by (simp add: eqs doc_def)
qed

lemma month_range: "0 \<le> doy \<Longrightarrow> doy \<le> 365 \<Longrightarrow> 0 \<le> (5 * doy + 2) div 153 \<and> (5 * doy + 2) div 153 \<le> (11 :: int)"
  using div_bounds [of 153 "5 * doy + 2"] by linarith

lemma days_from_civil_march:
  assumes "0 \<le> mp" "mp \<le> 11"
  shows "days_from_civil (if mp < 10 then (y, mp + 3, dd) else (y + 1, mp - 9, dd)) =
    (y div 400) * 146097 + 365 * (y mod 400) + (y mod 400) div 4 - (y mod 400) div 100 + ((153 * mp + 2) div 5 + dd - 1) - 719468"
proof (cases "mp < 10")
  case True
  have m: "(mp + 3 \<le> 2) = False" using assms by simp
  show ?thesis using True
    by (simp only: days_from_civil_def Let_def prod.case if_True if_False m add_diff_cancel_right')
next
  case False
  have m: "(mp - 9 \<le> 2) = True" using assms by simp
  show ?thesis using False
    by (simp only: days_from_civil_def Let_def prod.case if_True if_False m add_diff_cancel_right' diff_add_cancel)
qed

lemma days_from_civil_from_days: "days_from_civil (civil_from_days z0) = z0"
proof -
  obtain era century four one doy where parts: "march_parts z0 = (era, century, four, one, doy)"
    by (cases "march_parts z0")
  note r = march_parts [OF parts]
  define yoe where "yoe = 100 * century + 4 * four + one"
  have yoe_range: "0 \<le> yoe" "yoe < 400" using r by (auto simp: yoe_def)
  have yoe: "(400 * era + yoe) div 400 = era" "(400 * era + yoe) mod 400 = yoe"
    using yoe_range by simp_all
  have yoe4: "yoe div 4 = 25 * century + four"
    by (rule int_div_pos_eq [where r = one]) (use r in \<open>simp_all add: yoe_def\<close>)
  have yoe100: "yoe div 100 = century"
    by (rule int_div_pos_eq [where r = "4 * four + one"]) (use r in \<open>simp_all add: yoe_def\<close>)
  define mp where "mp = (5 * doy + 2) div 153"
  have mp: "0 \<le> mp" "mp \<le> 11" using r month_range [of doy] by (auto simp: mp_def)
  have "days_from_civil (civil_from_days z0) = era * 146097 + 365 * yoe + (25 * century + four) - century + doy - 719468"
  proof -
    have civil: "civil_from_days z0 =
        (if mp < 10 then (400 * era + yoe, mp + 3, doy - (153 * mp + 2) div 5 + 1)
         else (400 * era + yoe + 1, mp - 9, doy - (153 * mp + 2) div 5 + 1))"
      unfolding civil_from_days_def parts Let_def mp_def yoe_def by simp
    show ?thesis unfolding civil days_from_civil_march [OF mp] yoe yoe4 yoe100 by (simp only: algebra_simps)
  qed
  also have "\<dots> = z0" using r by (simp add: yoe_def)
  finally show ?thesis .
qed

lemma civil_ranges:
  assumes "civil_from_days z = (yy, mm, dd)"
  shows "1 \<le> mm \<and> mm \<le> 12 \<and> 1 \<le> dd \<and> dd \<le> 31"
proof -
  obtain era century four one doy where parts: "march_parts z = (era, century, four, one, doy)"
    by (cases "march_parts z")
  define mp where "mp = (5 * doy + 2) div 153"
  have mp: "0 \<le> mp" "mp \<le> 11" "153 * mp \<le> 5 * doy + 2" "5 * doy + 2 < 153 * mp + 153"
    using march_parts [OF parts] month_range [of doy] div_bounds [of 153 "5 * doy + 2"] unfolding mp_def by linarith+
  have "mm = (if mp < 10 then mp + 3 else mp - 9)" "dd = doy - (153 * mp + 2) div 5 + 1"
    using assms by (auto simp: civil_from_days_def Let_def parts mp_def split: if_splits)
  moreover have "0 \<le> doy - (153 * mp + 2) div 5" "doy - (153 * mp + 2) div 5 \<le> 30"
    using div_bounds [of 5 "153 * mp + 2"] mp by linarith+
  ultimately show ?thesis using mp by auto
qed

section \<open>ISO 8601\<close>

fun pad_int :: "nat \<Rightarrow> int \<Rightarrow> string" where
  "pad_int w i = (let s = str_int i in replicate (w - length s) CHR ''0'' @ s)"

definition isoformat :: "instant \<Rightarrow> string" where
  "isoformat t =
     (let (yy, mm, dd) = civil_from_days (t div days 1);
          r = t mod days 1;
          us = r mod seconds 1
      in pad_int 4 yy @ ''-'' @ pad_int 2 mm @ ''-'' @ pad_int 2 dd @ ''T'' @
         pad_int 2 (r div hours 1) @ '':'' @ pad_int 2 (r div minutes 1 mod 60) @ '':'' @
         pad_int 2 (r div seconds 1 mod 60) @
         (if us = 0 then [] else ''.'' @ pad_int 6 us) @ ''+00:00'')"

text \<open>
  \<open>datetime.fromisoformat\<close> on what \<open>isoformat\<close> prints for UTC; \<open>None\<close> is \<open>ValueError\<close>. A date exists when
  its day is printed as that date.
\<close>

definition two_digits :: "nat \<Rightarrow> string \<Rightarrow> int option" where
  "two_digits i s = map_option int (parse_digits 0 (take 2 (drop i s)))"

definition fromisoformat :: "string \<Rightarrow> instant option" where
  "fromisoformat s =
     (if length s \<in> {25, 32} \<and> map (\<lambda>i. s ! i) [4, 7, 10, 13, 16] = ''--T::'' \<and>
         drop (length s - 6) s = ''+00:00'' \<and> (length s = 32 \<longrightarrow> s ! 19 = CHR ''.'')
      then do {
        yy \<leftarrow> map_option int (parse_digits 0 (take 4 s));
        mm \<leftarrow> two_digits 5 s;
        dd \<leftarrow> two_digits 8 s;
        h \<leftarrow> two_digits 11 s;
        m \<leftarrow> two_digits 14 s;
        sec \<leftarrow> two_digits 17 s;
        us \<leftarrow> (if length s = 25 then Some 0 else map_option int (parse_digits 0 (take 6 (drop 20 s))));
        (let z = days_from_civil (yy, mm, dd)
         in if civil_from_days z = (yy, mm, dd) \<and> h < 24 \<and> m < 60 \<and> sec < 60
            then Some (days z + hours h + minutes m + seconds sec + us) else None)
      }
      else None)"

text \<open>The instants a \<open>datetime\<close> can hold, from the year 1 to the end of 9999.\<close>

definition representable :: "instant \<Rightarrow> bool" where
  "representable t \<longleftrightarrow> days (- 719162) \<le> t \<and> t < days 2932897"

lemma civil_year:
  assumes z: "- 719162 \<le> z" "z < 2932897" and ymd: "civil_from_days z = (yy, mm, dd)"
  shows "1 \<le> yy \<and> yy \<le> 9999"
proof -
  obtain era century four one doy where parts: "march_parts z = (era, century, four, one, doy)"
    by (cases "march_parts z")
  note r = march_parts [OF parts]
  define late where "late = (if (5 * doy + 2) div 153 < 10 then 0 else 1 :: int)"
  have late: "0 \<le> late" "late \<le> 1" "late = 0 \<Longrightarrow> doy < 306" "late = 1 \<Longrightarrow> 306 \<le> doy"
    by (auto simp: late_def split: if_splits)
  have yy: "yy = 400 * era + (100 * century + 4 * four + one) + late"
    using ymd by (auto simp: civil_from_days_def Let_def parts late_def split: if_splits)
  have lo: "1 \<le> yy" using r z(1) late yy by linarith
  have hi: "yy \<le> 9999" using r z(2) late yy by linarith
  show ?thesis using lo hi by simp
qed

lemma length_str_nat: "n < 10 ^ w \<Longrightarrow> 0 < w \<Longrightarrow> length (str_nat n) \<le> w"
proof (induction n arbitrary: w rule: str_nat.induct)
  case (1 n)
  show ?case
  proof (cases "n < 10")
    case True
    then show ?thesis using 1 by (subst str_nat.simps) simp
  next
    case False
    with 1(2,3) obtain v where w: "w = Suc v" and v: "0 < v" by (cases w) (auto, case_tac nat, auto)
    with 1(2) have "n div 10 < 10 ^ v" by (simp add: less_mult_imp_div_less mult.commute)
    with 1(1) [OF False _ v] False show ?thesis by (subst str_nat.simps) (simp add: w)
  qed
qed

lemma parse_zeros: "parse_digits 0 (replicate k (CHR ''0'') @ s) = parse_digits 0 s"
proof (induction k)
  case (Suc k)
  have "digit_val (CHR ''0'') = Some 0" by code_simp
  with Suc show ?case by simp
qed simp

lemma pad_int_read:
  assumes "0 \<le> i" "i < 10 ^ w" "0 < w"
  shows "length (pad_int w i) = w" "parse_digits 0 (pad_int w i) = Some (nat i)"
proof -
  from assms(1,2) have "nat i < 10 ^ w" by (simp add: nat_less_iff)
  from length_str_nat [OF this assms(3)] assms(1) show "length (pad_int w i) = w"
    by (simp add: str_int_def Let_def)
  from assms(1) show "parse_digits 0 (pad_int w i) = Some (nat i)"
    by (simp add: str_int_def Let_def parse_zeros parse_digits_str_nat)
qed

lemma unit_values: "seconds n = 1000000 * n" "minutes n = 60000000 * n" "hours n = 3600000000 * n"
  "days n = 86400000000 * n"
  by (simp_all add: time_units)

text \<open>The time of day, part by part.\<close>

lemma time_parts:
  fixes t :: instant
  defines "r \<equiv> t mod days 1"
  shows "0 \<le> r div hours 1 \<and> r div hours 1 < 24" "0 \<le> r div minutes 1 mod 60 \<and> r div minutes 1 mod 60 < 60"
    "0 \<le> r div seconds 1 mod 60 \<and> r div seconds 1 mod 60 < 60" "0 \<le> r mod seconds 1 \<and> r mod seconds 1 < 10 ^ 6"
    "days (t div days 1) + hours (r div hours 1) + minutes (r div minutes 1 mod 60) + seconds (r div seconds 1 mod 60)
       + r mod seconds 1 = t"
proof -
  have r: "0 \<le> r" "r < 86400000000" "t = 86400000000 * (t div 86400000000) + r"
    by (simp_all add: r_def time_units)
  show "0 \<le> r div hours 1 \<and> r div hours 1 < 24" "0 \<le> r div minutes 1 mod 60 \<and> r div minutes 1 mod 60 < 60"
    "0 \<le> r div seconds 1 mod 60 \<and> r div seconds 1 mod 60 < 60" "0 \<le> r mod seconds 1 \<and> r mod seconds 1 < 10 ^ 6"
    using r zdiv_mono1 [of r 86399999999 3600000000] by (simp_all add: time_units pos_imp_zdiv_nonneg_iff)
  define h m s u where "h = r div 3600000000" and "m = r div 60000000 mod 60" and "s = r div 1000000 mod 60"
    and "u = r mod 1000000"
  have a: "r = 1000000 * (r div 1000000) + u" unfolding u_def by (rule mult_div_mod_eq [symmetric])
  have b: "r div 1000000 = 60 * (r div 60000000) + s"
  proof -
    have "r div 1000000 div 60 = r div 60000000" by (subst zdiv_zmult2_eq [symmetric]) simp_all
    then show ?thesis unfolding s_def using mult_div_mod_eq [of 60 "r div 1000000"] by metis
  qed
  have c: "r div 60000000 = 60 * h + m"
  proof -
    have "r div 60000000 div 60 = r div 3600000000" by (subst zdiv_zmult2_eq [symmetric]) simp_all
    then show ?thesis unfolding h_def m_def using mult_div_mod_eq [of 60 "r div 60000000"] by metis
  qed
  have "86400000000 * (t div 86400000000) + 3600000000 * h + 60000000 * m + 1000000 * s + u = t"
  proof -
    have *: "86400000000 * D + 3600000000 * h + 60000000 * m + 1000000 * s + u = t"
      if "t = 86400000000 * D + r" "r = 1000000 * A + u" "A = 60 * B + s" "B = 60 * h + m" for D A B :: int
      using that by simp
    show ?thesis by (rule * [OF r(3) a b c])
  qed
  then show "days (t div days 1) + hours (r div hours 1) + minutes (r div minutes 1 mod 60) + seconds (r div seconds 1 mod 60)
       + r mod seconds 1 = t"
    by (simp only: unit_values mult_1_right h_def m_def s_def u_def)
qed

lemma fromisoformat_isoformat:
  assumes "representable t"
  shows "fromisoformat (isoformat t) = Some t"
proof -
  obtain yy mm dd where ymd: "civil_from_days (t div days 1) = (yy, mm, dd)" by (cases "civil_from_days (t div days 1)")
  have "- 719162 \<le> t div days 1" "t div days 1 < 2932897" using assms by (auto simp: representable_def unit_values)
  from civil_year [OF this ymd] have yy: "0 \<le> yy" "yy < 10 ^ 4" by simp_all
  have md: "0 \<le> mm" "mm < 10 ^ 2" "0 \<le> dd" "dd < 10 ^ 2" using civil_ranges [OF ymd] by simp_all
  define r where "r = t mod days 1"
  note parts = time_parts [of t, folded r_def]
  have two: "0 \<le> i \<Longrightarrow> i < 100 \<Longrightarrow> length (pad_int 2 i) = 2 \<and> parse_digits 0 (pad_int 2 i) = Some (nat i)" for i
    using pad_int_read [of i 2] by simp
  have y4: "length (pad_int 4 yy) = 4" "parse_digits 0 (pad_int 4 yy) = Some (nat yy)" using pad_int_read [of yy 4] yy by simp_all
  have u6: "length (pad_int 6 (r mod seconds 1)) = 6" "parse_digits 0 (pad_int 6 (r mod seconds 1)) = Some (nat (r mod seconds 1))"
    using pad_int_read [of "r mod seconds 1" 6] parts(4) by simp_all
  have mm: "length (pad_int 2 mm) = 2" "parse_digits 0 (pad_int 2 mm) = Some (nat mm)"
    and dd: "length (pad_int 2 dd) = 2" "parse_digits 0 (pad_int 2 dd) = Some (nat dd)"
    and hh: "length (pad_int 2 (r div hours 1)) = 2" "parse_digits 0 (pad_int 2 (r div hours 1)) = Some (nat (r div hours 1))"
    and mi: "length (pad_int 2 (r div minutes 1 mod 60)) = 2"
      "parse_digits 0 (pad_int 2 (r div minutes 1 mod 60)) = Some (nat (r div minutes 1 mod 60))"
    and ss: "length (pad_int 2 (r div seconds 1 mod 60)) = 2"
      "parse_digits 0 (pad_int 2 (r div seconds 1 mod 60)) = Some (nat (r div seconds 1 mod 60))"
    using two md parts(1-3) by auto
  have date: "days_from_civil (yy, mm, dd) = t div days 1" using days_from_civil_from_days [of "t div days 1"] ymd by simp
  have "isoformat t = pad_int 4 yy @ ''-'' @ pad_int 2 mm @ ''-'' @ pad_int 2 dd @ ''T'' @ pad_int 2 (r div hours 1) @ '':'' @
      pad_int 2 (r div minutes 1 mod 60) @ '':'' @ pad_int 2 (r div seconds 1 mod 60) @
      (if r mod seconds 1 = 0 then [] else ''.'' @ pad_int 6 (r mod seconds 1)) @ ''+00:00''"
    using ymd by (simp add: isoformat_def Let_def r_def)
  then show ?thesis
    using y4 u6 mm dd hh mi ss date ymd yy md parts
    by (simp add: fromisoformat_def two_digits_def nth_append del: pad_int.simps)
qed

lemma isoformat_epoch: "isoformat 0 = ''1970-01-01T00:00:00+00:00''"
  by code_simp

end
