(* ===== verification/Booking.thy ===== *)
theory Booking
  imports Payment Calendar
begin

text \<open>
  src/app/services/booking.py: a passenger's booking of a seat, from the request through the
  driver's decision, boarding by one-time password and the shared trip link. The service keeps a
  booking and its ride in one session; here each changed row is written to the session's database
  where the code changes the object, and checked against the table's constraints there.
\<close>

section \<open>Emails (services/email.py, the reminder of services/maintenance_jobs.py)\<close>

definition send_email :: "env \<Rightarrow> string \<Rightarrow> string \<Rightarrow> string \<Rightarrow> unit svc" where
  "send_email e to subj body =
     (if \<not> EMAILS_ENABLED (delivery e) then ok ()
      else do {
        sent \<leftarrow> gets outbox;
        let msg = Email to subj body;
        modify (\<lambda>w. w\<lparr>outbox := outbox w @ [msg]\<rparr>);
        if smtp_answer e sent msg then ok () else raise (RuntimeError ''smtplib'')
      })"

definition newline :: string where
  "newline = [char_of (10 :: nat)]"

definition reminder_body :: "user \<Rightarrow> ride \<Rightarrow> string" where
  "reminder_body passenger ride =
     ''Hi '' @ u_full_name passenger @ '','' @ newline @ newline @
     ''Your trip from '' @ r_origin ride @ '' to '' @ r_destination ride @ '' departs at '' @
     isoformat (r_departure_time ride) @ ''.'' @ newline @ newline @
     ''Please be ready a little early.''"

text \<open>The closure captures the loaded booking, and reads its passenger and its ride.\<close>

definition enqueue_trip_reminder_email :: "env \<Rightarrow> booking \<Rightarrow> unit act" where
  "enqueue_trip_reminder_email e b = do {
     d \<leftarrow> gets db;
     j \<leftarrow> new_job (''trip-reminder-email:'' @ str_int (b_id b))
       (Send_reminder (get_user (b_passenger_id b) d) (ride_of b d)) (JOB_WORKER_MAX_RETRIES (feat e));
     enqueue j
   }"

definition run_send_reminder :: "env \<Rightarrow> user option \<Rightarrow> ride option \<Rightarrow> unit svc" where
  "run_send_reminder e passenger ride =
     deref passenger (\<lambda>u. deref ride (\<lambda>r.
       send_email e (u_email u) ''Trip reminder from MooveSaathi'' (reminder_body u r)))"

section \<open>Hashes of secrets\<close>

definition hash_boarding_otp :: "env \<Rightarrow> int \<Rightarrow> string \<Rightarrow> string" where
  "hash_boarding_otp e booking_id otp =
     hmac_sha256 e (SECRET_KEY (core e)) (str_int booking_id @ '':'' @ otp)"

definition hash_share_token :: "env \<Rightarrow> string \<Rightarrow> string" where
  "hash_share_token e token = hmac_sha256 e (SECRET_KEY (core e)) token"

text \<open>\<open>f"{n:06d}"\<close> of the number drawn by \<open>secrets.randbelow\<close>.\<close>

definition format_otp :: "int \<Rightarrow> string" where
  "format_otp n = pad_int 6 n"

text \<open>\<open>Field(pattern=r"^\d{6}$")\<close>\<close>

definition otp_pattern :: "string \<Rightarrow> bool" where
  "otp_pattern s \<longleftrightarrow> length s = 6 \<and> list_all is_digit s"

section \<open>Creating a booking\<close>

record booking_create_request =
  bc_ride_id :: int
  bc_notes :: "string option"

definition new_booking :: "int \<Rightarrow> int \<Rightarrow> string option \<Rightarrow> booking" where
  "new_booking ride_id passenger_id notes =
     \<lparr>b_id = 0, b_ride_id = ride_id, b_passenger_id = passenger_id, b_status = BPending, b_notes = notes,
      b_boarding_otp_hash = None, b_boarding_otp_expires_at = None, b_boarded_at = None,
      b_share_token_hash = None, b_share_token_created_at = None, b_share_token_revoked_at = None,
      b_created_at = 0\<rparr>"

definition create_booking :: "env \<Rightarrow> booking_create_request \<Rightarrow> user \<Rightarrow> booking svc" where
  "create_booking e c current_user =
     (if u_role current_user \<noteq> Passenger
      then raise (HTTPException 403 ''Only passenger accounts can book rides'')
      else or_rollback (do {
        d \<leftarrow> gets db;
        case get_ride (bc_ride_id c) d of
          None \<Rightarrow> raise (HTTPException 404 ''Ride not found'')
        | Some ride \<Rightarrow>
            if r_status ride \<noteq> RScheduled \<or> \<not> r_is_active ride
            then raise (HTTPException 404 ''Ride not found'')
            else if r_driver_id ride = u_id current_user
            then raise (HTTPException 400 ''Driver cannot book own ride'')
            else if r_available_seats ride < 1
            then raise (HTTPException 400 ''No seats available'')
            else if booking_by_ride_and_passenger (bc_ride_id c) (u_id current_user) d \<noteq> None
            then raise (HTTPException 400 ''Passenger already has a booking for this ride'')
            else do {
              r \<leftarrow> booking_create (new_booking (bc_ride_id c) (u_id current_user) (bc_notes c));
              on_ok r (\<lambda>saved. do {
                enqueue_notification e (r_driver_id ride) NBooking_requested ''New booking request''
                  (u_full_name current_user @ '' requested a seat from '' @ r_origin ride @ '' to '' @
                   r_destination ride @ ''.'');
                commit;
                audit_entity ''booking_created'' (u_id current_user) ''booking'' (b_id saved)
                  [(''ride_id'', PyInt (r_id ride))] True;
                ok saved
              })
            }
      }))"

section \<open>The transitions\<close>

text \<open>\<open>from {origin} to {destination}\<close> of a ride, as the notifications say it.\<close>

definition route_text :: "ride \<Rightarrow> string" where
  "route_text ride = ''from '' @ r_origin ride @ '' to '' @ r_destination ride"

definition take_seat :: "ride \<Rightarrow> ride" where
  "take_seat ride =
     (let seats = r_available_seats ride - 1;
          st = (if seats = 0 then RFull else RScheduled)
      in ride\<lparr>r_available_seats := seats, r_status := st, r_is_active := (st = RScheduled)\<rparr>)"

definition give_seat_back :: "ride \<Rightarrow> ride" where
  "give_seat_back ride =
     ride\<lparr>r_available_seats := r_available_seats ride + 1, r_status := RScheduled, r_is_active := True\<rparr>"

text \<open>Both return the changed booking, which \<open>update_status\<close> saves.\<close>

definition apply_driver_transition :: "env \<Rightarrow> booking \<Rightarrow> ride \<Rightarrow> booking_status \<Rightarrow> booking svc" where
  "apply_driver_transition e b ride status_value =
     (if status_value = BAccepted then
        if b_status b \<noteq> BPending then raise (HTTPException 400 ''Only pending bookings can be accepted'')
        else if r_available_seats ride < 1 then raise (HTTPException 400 ''No seats available'')
        else do {
          let b' = b\<lparr>b_status := BAccepted\<rparr>;
          r \<leftarrow> ride_save (take_seat ride);
          on_ok r (\<lambda>ride'. do {
            r \<leftarrow> capture_payment_for_booking e (b_id b) False;
            on_ok r (\<lambda>_. do {
              enqueue_notification e (b_passenger_id b) NBooking_accepted ''Booking accepted''
                (''Your seat request '' @ route_text ride' @ '' was accepted.'');
              enqueue_trip_reminder_email e b';
              ok b'
            })
          })
        }
      else if status_value = BRejected then
        if b_status b \<noteq> BPending then raise (HTTPException 400 ''Only pending bookings can be rejected'')
        else do {
          enqueue_notification e (b_passenger_id b) NBooking_rejected ''Booking rejected''
            (''Your seat request '' @ route_text ride @ '' was rejected.'');
          ok (b\<lparr>b_status := BRejected\<rparr>)
        }
      else if status_value = BCancelled_by_driver then
        if b_status b \<notin> {BPending, BAccepted}
        then raise (HTTPException 400 ''This booking can no longer be cancelled by the driver'')
        else do {
          r \<leftarrow> ride_save (if b_status b = BAccepted then give_seat_back ride else ride);
          on_ok r (\<lambda>ride'. do {
            r \<leftarrow> refund_payment_for_booking e (b_id b) False;
            on_ok r (\<lambda>_. do {
              enqueue_notification e (b_passenger_id b) NBooking_cancelled ''Booking cancelled''
                (''Your booking '' @ route_text ride' @ '' was cancelled by the driver.'');
              ok (b\<lparr>b_status := BCancelled_by_driver\<rparr>)
            })
          })
        }
      else if status_value = BCompleted then
        if b_status b \<noteq> BAccepted then raise (HTTPException 400 ''Only accepted bookings can be completed'')
        else if b_boarded_at b = None
        then raise (HTTPException 400 ''Verify passenger boarding OTP before completing the trip'')
        else do {
          r \<leftarrow> create_notification (b_passenger_id b) NBooking_completed ''Trip completed''
            (''Your trip '' @ route_text ride @ '' is complete.'');
          on_ok r (\<lambda>_. ok (b\<lparr>b_status := BCompleted\<rparr>))
        }
      else raise (HTTPException 400 ''Unsupported booking transition for driver''))"

definition apply_passenger_transition :: "env \<Rightarrow> booking \<Rightarrow> ride \<Rightarrow> booking_status \<Rightarrow> booking svc" where
  "apply_passenger_transition e b ride status_value =
     (if status_value \<noteq> BCancelled_by_passenger
      then raise (HTTPException 403 ''Passengers can only cancel their own bookings'')
      else if b_status b \<notin> {BPending, BAccepted}
      then raise (HTTPException 400 ''This booking can no longer be cancelled'')
      else do {
        r \<leftarrow> ride_save (if b_status b = BAccepted then give_seat_back ride else ride);
        on_ok r (\<lambda>ride'. do {
          r \<leftarrow> refund_payment_for_booking e (b_id b) False;
          on_ok r (\<lambda>_. do {
            d \<leftarrow> gets db;
            deref (get_user (b_passenger_id b) d) (\<lambda>passenger. do {
              enqueue_notification e (r_driver_id ride') NBooking_cancelled ''Booking cancelled''
                (u_full_name passenger @ '' cancelled the booking '' @ route_text ride' @ ''.'');
              ok (b\<lparr>b_status := BCancelled_by_passenger\<rparr>)
            })
          })
        })
      })"

definition update_status :: "env \<Rightarrow> int \<Rightarrow> booking_status \<Rightarrow> user \<Rightarrow> booking svc" where
  "update_status e booking_id status_value current_user = or_rollback (do {
     d \<leftarrow> gets db;
     case get_booking booking_id d of
       None \<Rightarrow> raise (HTTPException 404 ''Booking not found'')
     | Some b \<Rightarrow> deref (ride_of b d) (\<lambda>ride. do {
         r \<leftarrow> (if u_id current_user = r_driver_id ride
               then apply_driver_transition e b ride status_value
               else if u_id current_user = b_passenger_id b
               then apply_passenger_transition e b ride status_value
               else raise (HTTPException 403 ''Only booking participants can update booking''));
         on_ok r (\<lambda>b'. do {
           r \<leftarrow> booking_save b';
           on_ok r (\<lambda>saved. do {
             commit;
             audit_entity ''booking_status_updated'' (u_id current_user) ''booking'' (b_id saved)
               [(''status'', PyStr (booking_status_value (b_status saved)))] True;
             ok saved
           })
         })
       })
   })"

section \<open>Boarding by one-time password\<close>

text \<open>\<open>n\<close> is the number drawn.\<close>

definition issue_boarding_otp :: "env \<Rightarrow> int \<Rightarrow> int \<Rightarrow> user \<Rightarrow> (string \<times> instant) svc" where
  "issue_boarding_otp e n booking_id current_user = do {
     d \<leftarrow> gets db;
     now \<leftarrow> gets clock;
     case get_booking booking_id d of
       None \<Rightarrow> raise (HTTPException 404 ''Booking not found'')
     | Some b \<Rightarrow>
         if u_id current_user \<noteq> b_passenger_id b
         then raise (HTTPException 403 ''Only the passenger can generate the boarding OTP'')
         else if b_status b \<noteq> BAccepted
         then raise (HTTPException 400 ''Boarding OTP is available only for accepted bookings'')
         else if b_boarded_at b \<noteq> None
         then raise (HTTPException 400 ''Passenger boarding is already verified'')
         else do {
           let otp = format_otp n;
           let expires_at = now + minutes (BOARDING_OTP_EXPIRE_MINUTES (feat e));
           r \<leftarrow> booking_save (b\<lparr>b_boarding_otp_hash := Some (hash_boarding_otp e (b_id b) otp),
                             b_boarding_otp_expires_at := Some expires_at\<rparr>);
           on_ok r (\<lambda>_. do {
             commit;
             audit_entity ''boarding_otp_issued'' (u_id current_user) ''booking'' (b_id b) [] True;
             ok (otp, expires_at)
           })
         }
   }"

definition verify_boarding_otp :: "env \<Rightarrow> int \<Rightarrow> string \<Rightarrow> user \<Rightarrow> booking svc" where
  "verify_boarding_otp e booking_id otp current_user = do {
     d \<leftarrow> gets db;
     now \<leftarrow> gets clock;
     case get_booking booking_id d of
       None \<Rightarrow> raise (HTTPException 404 ''Booking not found'')
     | Some b \<Rightarrow> deref (ride_of b d) (\<lambda>ride.
         if u_id current_user \<noteq> r_driver_id ride
         then raise (HTTPException 403 ''Only the driver can verify boarding'')
         else if b_status b \<noteq> BAccepted
         then raise (HTTPException 400 ''Only accepted bookings can be boarded'')
         else if b_boarded_at b \<noteq> None then ok b
         else if \<not> truthy (b_boarding_otp_hash b) \<or> b_boarding_otp_expires_at b = None
         then raise (HTTPException 400 ''Passenger must generate a boarding OTP first'')
         else if the (b_boarding_otp_expires_at b) \<le> now
         then raise (HTTPException 400 ''Boarding OTP has expired'')
         else if hash_boarding_otp e (b_id b) otp \<noteq> the (b_boarding_otp_hash b)
         then raise (HTTPException 400 ''Invalid boarding OTP'')
         else do {
           r \<leftarrow> booking_save (b\<lparr>b_boarded_at := Some now, b_boarding_otp_hash := None,
                             b_boarding_otp_expires_at := None\<rparr>);
           on_ok r (\<lambda>saved. do {
             commit;
             audit_entity ''passenger_boarding_verified'' (u_id current_user) ''booking'' (b_id b)
               [(''passenger_id'', PyInt (b_passenger_id b))] True;
             ok saved
           })
         })
   }"

section \<open>The shared trip link\<close>

definition create_share_token :: "env \<Rightarrow> string \<Rightarrow> int \<Rightarrow> user \<Rightarrow> (string \<times> booking) svc" where
  "create_share_token e token booking_id current_user = do {
     d \<leftarrow> gets db;
     now \<leftarrow> gets clock;
     case get_booking booking_id d of
       None \<Rightarrow> raise (HTTPException 404 ''Booking not found'')
     | Some b \<Rightarrow>
         if u_id current_user \<noteq> b_passenger_id b
         then raise (HTTPException 403 ''Only the passenger can share this trip'')
         else if b_status b \<noteq> BAccepted
         then raise (HTTPException 400 ''Only accepted bookings can be shared'')
         else do {
           r \<leftarrow> booking_save (b\<lparr>b_share_token_hash := Some (hash_share_token e token),
                             b_share_token_created_at := Some now, b_share_token_revoked_at := None\<rparr>);
           on_ok r (\<lambda>saved. do {
             commit;
             audit_entity ''trip_share_token_created'' (u_id current_user) ''booking'' (b_id saved) [] True;
             ok (token, saved)
           })
         }
   }"

definition revoke_share_token :: "int \<Rightarrow> user \<Rightarrow> bool svc" where
  "revoke_share_token booking_id current_user = do {
     d \<leftarrow> gets db;
     now \<leftarrow> gets clock;
     case get_booking booking_id d of
       None \<Rightarrow> raise (HTTPException 404 ''Booking not found'')
     | Some b \<Rightarrow>
         if u_id current_user \<noteq> b_passenger_id b
         then raise (HTTPException 403 ''Only the passenger can revoke this trip share'')
         else if \<not> truthy (b_share_token_hash b) \<or> b_share_token_revoked_at b \<noteq> None then ok False
         else do {
           r \<leftarrow> booking_save (b\<lparr>b_share_token_revoked_at := Some now\<rparr>);
           on_ok r (\<lambda>_. do {
             commit;
             audit_entity ''trip_share_token_revoked'' (u_id current_user) ''booking'' (b_id b) [] True;
             ok True
           })
         }
   }"

definition tracking_window :: "env \<Rightarrow> instant \<Rightarrow> instant \<Rightarrow> bool" where
  "tracking_window e departure now \<longleftrightarrow>
     departure - minutes (LOCATION_TRACKING_START_BEFORE_MINUTES (feat e)) \<le> now \<and>
     now \<le> departure + minutes (LOCATION_TRACKING_END_AFTER_MINUTES (feat e))"

record public_location =
  pl_latitude :: real
  pl_longitude :: real
  pl_heading :: "real option"
  pl_updated_at :: instant
  pl_age_seconds :: int
  pl_is_stale :: bool

record public_trip =
  pt_origin :: string
  pt_destination :: string
  pt_departure_time :: instant
  pt_ride_status :: ride_status
  pt_booking_status :: booking_status
  pt_driver_first_name :: string
  pt_driver_rating :: real
  pt_latest_location :: "public_location option"
  pt_location_visible :: bool

text \<open>\<open>max(0, int((now - t).total_seconds()))\<close>\<close>

definition age_seconds :: "instant \<Rightarrow> instant \<Rightarrow> int" where
  "age_seconds now t = max 0 ((now - t) div seconds 1)"

definition public_location_of :: "env \<Rightarrow> instant \<Rightarrow> ride_location \<Rightarrow> public_location" where
  "public_location_of e now l =
     (let age = age_seconds now (l_created_at l)
      in \<lparr>pl_latitude = l_latitude l, pl_longitude = l_longitude l, pl_heading = l_heading l,
          pl_updated_at = l_created_at l, pl_age_seconds = age,
          pl_is_stale = (LOCATION_STALE_AFTER_SECONDS (feat e) \<le> age)\<rparr>)"

text \<open>\<open>full_name.split()[0] if full_name else "Driver"\<close>\<close>

definition first_name :: "string \<Rightarrow> exc + string" where
  "first_name full_name =
     (if full_name = [] then Inr ''Driver''
      else case dropWhile is_space full_name of
          [] \<Rightarrow> Inl (IndexError ''list index out of range'')
        | c # cs \<Rightarrow> Inr (takeWhile (\<lambda>x. \<not> is_space x) (c # cs)))"

definition get_public_trip_status :: "env \<Rightarrow> string \<Rightarrow> public_trip svc" where
  "get_public_trip_status e token = do {
     d \<leftarrow> gets db;
     now \<leftarrow> gets clock;
     case booking_by_share_token_hash (hash_share_token e token) d of
       None \<Rightarrow> raise (HTTPException 404 ''Trip share not found'')
     | Some b \<Rightarrow>
         if b_share_token_revoked_at b \<noteq> None then raise (HTTPException 404 ''Trip share not found'')
         else if b_status b \<notin> {BAccepted, BCompleted} then raise (HTTPException 404 ''Trip share not found'')
         else deref (ride_of b d) (\<lambda>ride.
           deref (get_user (r_driver_id ride) d) (\<lambda>driver.
             on_ok (first_name (u_full_name driver)) (\<lambda>name.
               let visible = tracking_window e (r_departure_time ride) now;
                   latest = (if visible then get_latest_location (r_id ride) d else None)
               in ok \<lparr>pt_origin = r_origin ride, pt_destination = r_destination ride,
                      pt_departure_time = r_departure_time ride, pt_ride_status = r_status ride,
                      pt_booking_status = b_status b, pt_driver_first_name = name,
                      pt_driver_rating = u_rating driver,
                      pt_latest_location = map_option (public_location_of e now) latest,
                      pt_location_visible = visible\<rparr>)))
   }"

section \<open>Reading bookings\<close>

definition list_passenger_bookings ::
  "user \<Rightarrow> booking_status option \<Rightarrow> int \<Rightarrow> int \<Rightarrow> booking list svc" where
  "list_passenger_bookings current_user st limit offset = do {
     d \<leftarrow> gets db;
     if u_role current_user \<noteq> Passenger
     then raise (HTTPException 403 ''Only passenger accounts can view passenger bookings'')
     else ok (bookings_by_passenger (u_id current_user) st limit offset d)
   }"

definition list_driver_bookings ::
  "user \<Rightarrow> booking_status option \<Rightarrow> int \<Rightarrow> int \<Rightarrow> booking list svc" where
  "list_driver_bookings current_user st limit offset = do {
     d \<leftarrow> gets db;
     if u_role current_user \<noteq> Driver
     then raise (HTTPException 403 ''Only driver accounts can view booking requests'')
     else ok (bookings_for_driver (u_id current_user) st limit offset d)
   }"

record status_event =
  se_label :: string
  se_tone :: string
  se_timestamp :: "instant option"

definition build_status_events :: "booking \<Rightarrow> status_event list" where
  "build_status_events b =
     (let created_at = b_created_at b;
          (label, tone, timestamp) = (case b_status b of
              BPending \<Rightarrow> (''Awaiting decision'', ''upcoming'', None)
            | BAccepted \<Rightarrow> (''Trip confirmed'', ''current'', Some created_at)
            | BRejected \<Rightarrow> (''Request declined'', ''critical'', Some created_at)
            | BCancelled_by_passenger \<Rightarrow> (''Cancelled by passenger'', ''critical'', Some created_at)
            | BCancelled_by_driver \<Rightarrow> (''Cancelled by driver'', ''critical'', Some created_at)
            | BCompleted \<Rightarrow> (''Trip completed'', ''done'', Some created_at))
      in [\<lparr>se_label = ''Booking requested'', se_tone = ''done'', se_timestamp = Some created_at\<rparr>,
          \<lparr>se_label = ''Driver review'', se_tone = (if b_status b = BPending then ''current'' else ''done''),
           se_timestamp = (if b_status b \<noteq> BPending then Some created_at else None)\<rparr>,
          \<lparr>se_label = label, se_tone = tone, se_timestamp = timestamp\<rparr>])"

record booking_detail =
  bd_booking :: booking
  bd_ride :: ride
  bd_booked_passengers :: int
  bd_passengers :: "user list"
  bd_booking_id :: "int option"
  bd_driver :: "user option"
  bd_status_events :: "status_event list"

text \<open>The passengers of a ride's accepted bookings.\<close>

definition accepted_bookings :: "int \<Rightarrow> database \<Rightarrow> booking list" where
  "accepted_bookings ride_id d = filter (\<lambda>b. b_status b = BAccepted) (bookings_of_ride ride_id d)"

definition passengers_of :: "booking list \<Rightarrow> database \<Rightarrow> user list" where
  "passengers_of bs d = List.map_filter (\<lambda>b. get_user (b_passenger_id b) d) bs"

definition get_booking_detail :: "int \<Rightarrow> user \<Rightarrow> booking_detail svc" where
  "get_booking_detail booking_id current_user = do {
     d \<leftarrow> gets db;
     case get_booking booking_id d of
       None \<Rightarrow> raise (HTTPException 404 ''Booking not found'')
     | Some b \<Rightarrow> deref (ride_of b d) (\<lambda>ride.
         if u_id current_user \<notin> {b_passenger_id b, r_driver_id ride}
         then raise (HTTPException 403 ''Booking access denied'')
         else
           let accepted = accepted_bookings (r_id ride) d
           in ok \<lparr>bd_booking = b, bd_ride = ride, bd_booked_passengers = int (length accepted),
                  bd_passengers = passengers_of accepted d,
                  bd_booking_id = (if u_id current_user = b_passenger_id b then Some (b_id b) else None),
                  bd_driver = get_user (r_driver_id ride) d,
                  bd_status_events = build_status_events b\<rparr>)
   }"

end
