(* ===== verification/TokenStore.thy ===== *)
theory TokenStore
  imports World
begin

text \<open>
  src/app/services/token_store.py with Redis unreachable: every call to the client raises
  \<open>RedisError\<close>, and the store works on its dictionaries; the paths with Redis are in
  \<open>RedisStores\<close>. A dictionary is an association list in insertion order; the set of a
  user's sessions is a list without repetition. The methods are functions of the instant they run at.
\<close>

definition pop_user_session :: "int \<Rightarrow> string \<Rightarrow> token_store \<Rightarrow> token_store" where
  "pop_user_session user_id jti ts =
     (case map_of (ts_user_sessions ts) user_id of
        None \<Rightarrow> ts
      | Some js \<Rightarrow>
          if js = [] then ts
          else
            (let rest = filter (\<lambda>x. x \<noteq> jti) js
             in ts\<lparr>ts_user_sessions :=
               (if rest = [] then AList.delete user_id (ts_user_sessions ts)
                else AList.update user_id rest (ts_user_sessions ts))\<rparr>))"

definition prune_session :: "instant \<Rightarrow> string \<times> session_record \<Rightarrow> token_store \<Rightarrow> token_store" where
  "prune_session now x ts =
     (if s_expires_at (snd x) \<le> now
      then pop_user_session (s_user_id (snd x)) (fst x)
             (ts\<lparr>ts_sessions := AList.delete (fst x) (ts_sessions ts)\<rparr>)
      else ts)"

definition prune_expired :: "instant \<Rightarrow> token_store \<Rightarrow> token_store" where
  "prune_expired now ts =
     fold (prune_session now) (ts_sessions ts)
       (ts\<lparr>ts_tokens := filter (\<lambda>(j, t). now < t) (ts_tokens ts)\<rparr>)"

definition revoke_token :: "instant \<Rightarrow> string \<Rightarrow> instant \<Rightarrow> token_store \<Rightarrow> token_store" where
  "revoke_token now jti expires_at ts =
     prune_expired now (ts\<lparr>ts_tokens := AList.update jti expires_at (ts_tokens ts)\<rparr>)"

definition is_revoked :: "instant \<Rightarrow> string \<Rightarrow> token_store \<Rightarrow> bool" where
  "is_revoked now jti ts \<longleftrightarrow> map_of (ts_tokens (prune_expired now ts)) jti \<noteq> None"

definition register_session :: "instant \<Rightarrow> session_record \<Rightarrow> token_store \<Rightarrow> token_store" where
  "register_session now s ts =
     (let js = (case map_of (ts_user_sessions ts) (s_user_id s) of None \<Rightarrow> [] | Some js \<Rightarrow> js);
          js' = (if s_jti s \<in> set js then js else js @ [s_jti s])
      in prune_expired now
           (ts\<lparr>ts_sessions := AList.update (s_jti s) s (ts_sessions ts),
              ts_user_sessions := AList.update (s_user_id s) js' (ts_user_sessions ts)\<rparr>))"

definition get_session :: "instant \<Rightarrow> string \<Rightarrow> token_store \<Rightarrow> session_record option" where
  "get_session now jti ts = map_of (ts_sessions (prune_expired now ts)) jti"

definition list_sessions :: "instant \<Rightarrow> int \<Rightarrow> token_store \<Rightarrow> session_record list" where
  "list_sessions now user_id ts =
     sort_key (\<lambda>s. - s_issued_at s)
       (filter (\<lambda>s. s_user_id s = user_id) (map snd (ts_sessions (prune_expired now ts))))"

definition revoke_session_record :: "instant \<Rightarrow> string \<Rightarrow> token_store \<Rightarrow> token_store" where
  "revoke_session_record now jti ts =
     (case map_of (ts_sessions ts) jti of
        None \<Rightarrow> ts
      | Some s \<Rightarrow>
          revoke_token now jti (s_expires_at s)
            (pop_user_session (s_user_id s) jti (ts\<lparr>ts_sessions := AList.delete jti (ts_sessions ts)\<rparr>)))"

text \<open>The sessions with these ids are taken out of the store, then revoked one by one.\<close>

definition drop_sessions :: "instant \<Rightarrow> string list \<Rightarrow> token_store \<Rightarrow> token_store" where
  "drop_sessions now js ts =
     (let found = List.map_filter (\<lambda>j. map_option (\<lambda>s. (j, s_expires_at s)) (map_of (ts_sessions ts) j)) js
      in fold (\<lambda>(j, t). revoke_token now j t) found
           (ts\<lparr>ts_sessions := filter (\<lambda>(j, s). j \<notin> set js) (ts_sessions ts)\<rparr>))"

definition user_session_ids :: "int \<Rightarrow> token_store \<Rightarrow> string list" where
  "user_session_ids user_id ts = (case map_of (ts_user_sessions ts) user_id of None \<Rightarrow> [] | Some js \<Rightarrow> js)"

definition revoke_user_sessions :: "instant \<Rightarrow> int \<Rightarrow> token_store \<Rightarrow> token_store" where
  "revoke_user_sessions now user_id ts =
     drop_sessions now (user_session_ids user_id ts)
       (ts\<lparr>ts_user_sessions := AList.delete user_id (ts_user_sessions ts)\<rparr>)"

definition revoke_user_sessions_except :: "instant \<Rightarrow> int \<Rightarrow> string option \<Rightarrow> token_store \<Rightarrow> token_store" where
  "revoke_user_sessions_except now user_id keep_jti ts =
     drop_sessions now (filter (\<lambda>j. Some j \<noteq> keep_jti) (user_session_ids user_id ts))
       (ts\<lparr>ts_user_sessions :=
         (case keep_jti of
            None \<Rightarrow> AList.delete user_id (ts_user_sessions ts)
          | Some k \<Rightarrow> AList.update user_id [k] (ts_user_sessions ts))\<rparr>)"

section \<open>The blacklist\<close>

lemma ts_tokens_pop [simp]: "ts_tokens (pop_user_session u j ts) = ts_tokens ts"
  by (simp add: pop_user_session_def Let_def split: option.split)

lemma ts_sessions_pop [simp]: "ts_sessions (pop_user_session u j ts) = ts_sessions ts"
  by (simp add: pop_user_session_def Let_def split: option.split)

lemma ts_tokens_prune_fold [simp]: "ts_tokens (fold (prune_session now) xs ts) = ts_tokens ts"
  by (induction xs arbitrary: ts) (auto simp: prune_session_def)

lemma ts_tokens_prune [simp]:
  "ts_tokens (prune_expired now ts) = filter (\<lambda>(j, t). now < t) (ts_tokens ts)"
  by (simp add: prune_expired_def)

text \<open>The blacklist is a dictionary: no key twice.\<close>

definition tokens_ok :: "token_store \<Rightarrow> bool" where
  "tokens_ok ts \<longleftrightarrow> distinct (map fst (ts_tokens ts))"

lemma tokens_ok_prune [intro]: "tokens_ok ts \<Longrightarrow> tokens_ok (prune_expired now ts)"
  by (simp add: tokens_ok_def distinct_map_filter)

lemma tokens_ok_revoke [intro]: "tokens_ok ts \<Longrightarrow> tokens_ok (revoke_token now j t ts)"
  unfolding revoke_token_def by (rule tokens_ok_prune) (simp add: tokens_ok_def distinct_update)

lemma map_of_filter_live:
  assumes "distinct (map fst xs)"
  shows "map_of (filter (\<lambda>(j, t). P t) xs) j = (case map_of xs j of None \<Rightarrow> None | Some t \<Rightarrow> if P t then Some t else None)"
  using assms
  by (induction xs) (auto split: option.splits simp: map_of_eq_None_iff image_iff)

lemma is_revoked_iff:
  "tokens_ok ts \<Longrightarrow>
     is_revoked now j ts \<longleftrightarrow> (case map_of (ts_tokens ts) j of None \<Rightarrow> False | Some t \<Rightarrow> now < t)"
  by (auto simp: is_revoked_def tokens_ok_def map_of_filter_live split: option.splits)

lemma map_of_tokens_revoke:
  "tokens_ok ts \<Longrightarrow>
     map_of (ts_tokens (revoke_token now j t ts)) k =
       (if k = j then (if now < t then Some t else None)
        else case map_of (ts_tokens ts) k of None \<Rightarrow> None | Some s \<Rightarrow> if now < s then Some s else None)"
  unfolding revoke_token_def
  by (simp add: map_of_filter_live distinct_update tokens_ok_def update_conv)

text \<open>A revoked token is revoked until it expires.\<close>

lemma is_revoked_revoke:
  "tokens_ok ts \<Longrightarrow> now \<le> later \<Longrightarrow>
     is_revoked later j (revoke_token now j t ts) \<longleftrightarrow> later < t"
  by (subst is_revoked_iff) (auto simp: map_of_tokens_revoke)

text \<open>No revocation is undone by another.\<close>

lemma is_revoked_revoke_other:
  "tokens_ok ts \<Longrightarrow> now \<le> later \<Longrightarrow> k \<noteq> j \<Longrightarrow>
     is_revoked later k (revoke_token now j t ts) \<longleftrightarrow> is_revoked later k ts"
  by (subst is_revoked_iff, blast, subst is_revoked_iff) (auto simp: map_of_tokens_revoke split: option.splits)

end
