(* ===== verification/Auth.thy ===== *)
theory Auth
  imports Booking TokenStore
begin

text \<open>
  src/app/core/security.py, api/deps.py and services/auth.py: passwords, tokens, sessions and the
  lockout after failed logins. The password hash and the token codec are third-party code: the
  environment has \<open>pwd_hash\<close> (of a salt and a password), \<open>pwd_verify\<close>, \<open>jwt_encode\<close> and
  \<open>jwt_decode\<close>; a decode that raises \<open>JWTError\<close> is \<open>None\<close>. Fresh token ids and salts are arguments.
\<close>

section \<open>Tokens (core/security.py)\<close>

definition create_token ::
  "env \<Rightarrow> instant \<Rightarrow> string \<Rightarrow> string \<Rightarrow> string \<Rightarrow> int \<Rightarrow> claims \<Rightarrow> string" where
  "create_token e now jti subj token_type expires_delta extra_claims =
     (let claims = [(''sub'', PyStr subj), (''exp'', PyDatetime (now + expires_delta)),
                    (''type'', PyStr token_type), (''jti'', PyStr jti),
                    (''iss'', PyStr (TOKEN_ISSUER (core e)))]
      in jwt_encode e (SECRET_KEY (core e)) (JWT_ALGORITHM (core e)) (AList.updates (map fst extra_claims)
           (map snd extra_claims) claims))"

definition create_access_token :: "env \<Rightarrow> instant \<Rightarrow> string \<Rightarrow> string \<Rightarrow> claims \<Rightarrow> string" where
  "create_access_token e now jti subj extra_claims =
     create_token e now jti subj ''access'' (minutes (ACCESS_TOKEN_EXPIRE_MINUTES (core e))) extra_claims"

definition create_refresh_token :: "env \<Rightarrow> instant \<Rightarrow> string \<Rightarrow> string \<Rightarrow> string" where
  "create_refresh_token e now jti subj =
     create_token e now jti subj ''refresh'' (days (REFRESH_TOKEN_EXPIRE_DAYS (core e))) []"

definition create_reset_token :: "env \<Rightarrow> instant \<Rightarrow> string \<Rightarrow> string \<Rightarrow> string" where
  "create_reset_token e now jti subj =
     create_token e now jti subj ''reset'' (minutes (RESET_TOKEN_EXPIRE_MINUTES (core e))) []"

definition create_email_verification_token :: "env \<Rightarrow> instant \<Rightarrow> string \<Rightarrow> string \<Rightarrow> string" where
  "create_email_verification_token e now jti subj =
     create_token e now jti subj ''verify-email''
       (minutes (EMAIL_VERIFICATION_TOKEN_EXPIRE_MINUTES (core e))) []"

definition decode_token :: "env \<Rightarrow> instant \<Rightarrow> string \<Rightarrow> claims option" where
  "decode_token e now token =
     jwt_decode e now (SECRET_KEY (core e)) (JWT_ALGORITHM (core e)) (TOKEN_ISSUER (core e)) token"

section \<open>Reading claims\<close>

text \<open>\<open>payload.get("jti", "")\<close>; the codec only lets a string through.\<close>

definition claim_str :: "claims \<Rightarrow> string \<Rightarrow> string option" where
  "claim_str cs k = (case map_of cs k of Some (PyStr s) \<Rightarrow> Some s | _ \<Rightarrow> None)"

definition claim_jti :: "claims \<Rightarrow> string" where
  "claim_jti cs = (case claim_str cs ''jti'' of None \<Rightarrow> [] | Some s \<Rightarrow> s)"

text \<open>\<open>datetime.fromtimestamp(payload["exp"], tz=utc)\<close>\<close>

definition claim_exp :: "claims \<Rightarrow> exc + instant" where
  "claim_exp cs =
     (case map_of cs ''exp'' of
        None \<Rightarrow> Inl (KeyError ''exp'')
      | Some (PyInt i) \<Rightarrow> Inr (seconds i)
      | Some _ \<Rightarrow> Inl (TypeError ''exp''))"

definition py_int :: "py option \<Rightarrow> exc + int" where
  "py_int v =
     (case v of
        Some (PyStr s) \<Rightarrow> (case parse_int s of None \<Rightarrow> Inl (ValueError ''int'') | Some i \<Rightarrow> Inr i)
      | Some (PyInt i) \<Rightarrow> Inr i
      | None \<Rightarrow> Inl (KeyError ''sub'')
      | _ \<Rightarrow> Inl (TypeError ''int''))"

definition on_tokens :: "(instant \<Rightarrow> token_store \<Rightarrow> token_store) \<Rightarrow> unit act" where
  "on_tokens f = modify (\<lambda>w. w\<lparr>tokens := f (clock w) (tokens w)\<rparr>)"

definition revoke_token_from_payload :: "claims \<Rightarrow> unit svc" where
  "revoke_token_from_payload cs =
     (if claim_jti cs = [] \<or> map_of cs ''exp'' \<in> {None, Some PyNone} then ok ()
      else on_ok (claim_exp cs) (\<lambda>t. do {
        on_tokens (\<lambda>now. revoke_token now (claim_jti cs) t);
        ok ()
      }))"

section \<open>Who is asking (api/deps.py)\<close>

definition credentials_exception :: exc where
  "credentials_exception = HTTPException 401 ''Could not validate credentials''"

definition get_current_user :: "env \<Rightarrow> string \<Rightarrow> user svc" where
  "get_current_user e token = do {
     d \<leftarrow> gets db;
     now \<leftarrow> gets clock;
     ts \<leftarrow> gets tokens;
     case decode_token e now token of
       None \<Rightarrow> raise credentials_exception
     | Some cs \<Rightarrow>
         if map_of cs ''type'' \<noteq> Some (PyStr ''access'') then raise credentials_exception
         else if is_revoked now (claim_jti cs) ts then raise credentials_exception
         else (case py_int (case map_of cs ''sub'' of None \<Rightarrow> Some (PyStr ''0'') | x \<Rightarrow> x) of
             Inl (ValueError _) \<Rightarrow> raise credentials_exception
           | Inl x \<Rightarrow> raise x
           | Inr user_id \<Rightarrow>
               (case get_user user_id d of
                  None \<Rightarrow> raise credentials_exception
                | Some u \<Rightarrow> ok u))
   }"

definition decode_expected_token :: "env \<Rightarrow> string \<Rightarrow> string \<Rightarrow> claims svc" where
  "decode_expected_token e token expected_type = do {
     now \<leftarrow> gets clock;
     ts \<leftarrow> gets tokens;
     case decode_token e now token of
       None \<Rightarrow> raise (HTTPException 401 ''Invalid token'')
     | Some cs \<Rightarrow>
         if map_of cs ''type'' \<noteq> Some (PyStr expected_type) then raise (HTTPException 401 ''Invalid token'')
         else if is_revoked now (claim_jti cs) ts then raise (HTTPException 401 ''Invalid token'')
         else on_ok (claim_exp cs) (\<lambda>t.
           if t \<le> now then raise (HTTPException 401 ''Invalid token'') else ok cs)
   }"

section \<open>Requests (schemas/auth.py)\<close>

definition password_strong :: "string \<Rightarrow> bool" where
  "password_strong s \<longleftrightarrow> list_ex is_upper s \<and> list_ex is_lower s \<and> list_ex is_digit s"

definition new_password_valid :: "string \<Rightarrow> bool" where
  "new_password_valid s \<longleftrightarrow> 8 \<le> length s \<and> length s \<le> 128 \<and> password_strong s"

record register_request =
  rr_full_name :: string
  rr_email :: string
  rr_password :: string
  rr_phone_number :: "string option"
  rr_role :: user_role

definition register_valid :: "register_request \<Rightarrow> bool" where
  "register_valid r \<longleftrightarrow>
     2 \<le> length (rr_full_name r) \<and> length (rr_full_name r) \<le> 120 \<and> new_password_valid (rr_password r) \<and>
     (case rr_phone_number r of None \<Rightarrow> True | Some s \<Rightarrow> length s \<le> 20)"

text \<open>The client of a request: its user agent and its host.\<close>

record client =
  cl_user_agent :: "string option"
  cl_host :: "string option"

definition request_user_agent :: "client option \<Rightarrow> string option" where
  "request_user_agent c = (case c of None \<Rightarrow> None
     | Some x \<Rightarrow> if truthy (cl_user_agent x) then cl_user_agent x else None)"

definition request_ip_address :: "client option \<Rightarrow> string option" where
  "request_ip_address c = (case c of None \<Rightarrow> None | Some x \<Rightarrow> cl_host x)"

section \<open>Issuing tokens\<close>

record token_pair =
  tp_access_token :: string
  tp_refresh_token :: string

text \<open>\<open>j1\<close> is the id drawn for the refresh token, \<open>j2\<close> the one for the access token.\<close>

definition issue_token_pair ::
  "env \<Rightarrow> string \<Rightarrow> string \<Rightarrow> string \<Rightarrow> string option \<Rightarrow> string option \<Rightarrow> token_pair svc" where
  "issue_token_pair e j1 j2 subj user_agent ip_address = do {
     now \<leftarrow> gets clock;
     let refresh_token = create_refresh_token e now j1 subj;
     case decode_token e now refresh_token of
       None \<Rightarrow> raise (RuntimeError ''JWTError'')
     | Some cs \<Rightarrow>
         (case claim_str cs ''jti'' of
            None \<Rightarrow> raise (KeyError ''jti'')
          | Some jti \<Rightarrow>
              on_ok (py_int (Some (PyStr subj))) (\<lambda>user_id.
              on_ok (claim_exp cs) (\<lambda>t. do {
                on_tokens (\<lambda>now. register_session now \<lparr>s_jti = jti, s_user_id = user_id, s_issued_at = now,
                  s_expires_at = t, s_user_agent = user_agent, s_ip_address = ip_address\<rparr>);
                ok \<lparr>tp_access_token = create_access_token e now j2 subj [(''session_jti'', PyStr jti)],
                    tp_refresh_token = refresh_token\<rparr>
              })))
   }"

section \<open>Registration and email verification\<close>

fun user_role_value :: "user_role \<Rightarrow> string" where
  "user_role_value Driver = ''driver''"
| "user_role_value Passenger = ''passenger''"

definition new_user :: "register_request \<Rightarrow> string \<Rightarrow> user" where
  "new_user r hashed =
     \<lparr>u_id = 0, u_full_name = rr_full_name r, u_email = rr_email r, u_phone_number = rr_phone_number r,
      u_hashed_password = hashed, u_role = rr_role r, u_bio = None, u_rating = 5, u_email_verified = False,
      u_email_verified_at = None,
      u_driver_verification_status = (if rr_role r = Driver then VPending else VNot_required),
      u_vehicle_make = None, u_vehicle_model = None, u_vehicle_color = None, u_vehicle_plate_number = None,
      u_driver_license_number = None, u_driver_verification_rejection_reason = None,
      u_driver_profile_submitted_at = None, u_driver_profile_reviewed_at = None,
      u_failed_login_attempts = 0, u_locked_until = None, u_created_at = 0\<rparr>"

definition queue_verification_email :: "env \<Rightarrow> user \<Rightarrow> string \<Rightarrow> unit act" where
  "queue_verification_email e u token = do {
     j \<leftarrow> new_job (''send-verification-email:'' @ str_int (u_id u))
       (Send_verification (u_email u) (u_full_name u) token) (JOB_WORKER_MAX_RETRIES (feat e));
     enqueue j
   }"

text \<open>\<open>settings.FRONTEND_URL.rstrip('/')\<close>\<close>

definition frontend_base :: "env \<Rightarrow> string" where
  "frontend_base e = rev (dropWhile (\<lambda>c. c = CHR ''/'') (rev (FRONTEND_URL (delivery e))))"

definition verification_body :: "env \<Rightarrow> string \<Rightarrow> string \<Rightarrow> string" where
  "verification_body e full_name token =
     ''Hi '' @ full_name @ '','' @ newline @ newline @
     ''Verify your MooveSaathi account using the link below:'' @ newline @
     frontend_base e @ ''/verify-email?token='' @ token @ newline @ newline @
     ''If you did not create this account, you can ignore this email.''"

text \<open>The closure logs and drops what sending raises.\<close>

definition run_send_verification :: "env \<Rightarrow> string \<Rightarrow> string \<Rightarrow> string \<Rightarrow> unit svc" where
  "run_send_verification e to full_name token =
     handle (send_email e to ''Verify your MooveSaathi account'' (verification_body e full_name token))
       (\<lambda>_. ok ())"

definition register :: "env \<Rightarrow> string \<Rightarrow> string \<Rightarrow> register_request \<Rightarrow> (user \<times> string option) svc" where
  "register e salt jti r = do {
     d \<leftarrow> gets db;
     if user_by_email (rr_email r) d \<noteq> None then raise (HTTPException 400 ''Email already in use'')
     else do {
       r' \<leftarrow> or_rollback (do {
         s \<leftarrow> user_create (new_user r (pwd_hash e salt (rr_password r)));
         on_ok s (\<lambda>saved. do {
           commit;
           audit_entity ''user_registered'' (u_id saved) ''user'' (u_id saved)
             [(''role'', PyStr (user_role_value (u_role saved))),
              (''email_verified'', PyBool (u_email_verified saved))] True;
           ok saved
         })
       });
       on_ok r' (\<lambda>saved. do {
         now \<leftarrow> gets clock;
         let token = create_email_verification_token e now jti (str_int (u_id saved));
         queue_verification_email e saved token;
         ok (saved, if is_production (core e) then None else Some token)
       })
     }
   }"

definition resend_verification :: "env \<Rightarrow> string \<Rightarrow> string \<Rightarrow> string option act" where
  "resend_verification e jti email = do {
     d \<leftarrow> gets db;
     now \<leftarrow> gets clock;
     case user_by_email email d of
       None \<Rightarrow> State_Monad.return None
     | Some u \<Rightarrow>
         if u_email_verified u then State_Monad.return None
         else do {
           let token = create_email_verification_token e now jti (str_int (u_id u));
           queue_verification_email e u token;
           State_Monad.return (if is_production (core e) then None else Some token)
         }
   }"

definition verify_email :: "env \<Rightarrow> string \<Rightarrow> unit svc" where
  "verify_email e token = do {
     r \<leftarrow> decode_expected_token e token ''verify-email'';
     on_ok r (\<lambda>cs. on_ok (py_int (map_of cs ''sub'')) (\<lambda>user_id. do {
       d \<leftarrow> gets db;
       now \<leftarrow> gets clock;
       case get_user user_id d of
         None \<Rightarrow> raise (HTTPException 404 ''User not found'')
       | Some u \<Rightarrow>
           if u_email_verified u then revoke_token_from_payload cs
           else or_rollback (do {
             r \<leftarrow> user_save (u\<lparr>u_email_verified := True, u_email_verified_at := Some now\<rparr>);
             on_ok r (\<lambda>_. do {
               commit;
               audit_entity ''email_verified'' (u_id u) ''user'' (u_id u) [] True;
               revoke_token_from_payload cs
             })
           })
     }))
   }"

section \<open>Login and lockout\<close>

definition ensure_login_not_locked :: "user \<Rightarrow> unit svc" where
  "ensure_login_not_locked u = do {
     now \<leftarrow> gets clock;
     case u_locked_until u of
       None \<Rightarrow> ok ()
     | Some t \<Rightarrow>
         if now < t then do {
           record_auth ''login_blocked_locked'' ''success'';
           audit_record ''login_blocked_locked'' (Some (u_id u)) (Some ''user'') (Some (str_int (u_id u)))
             ''warning'' [(''locked_until'', PyDatetime t)] True;
           raise (HTTPException 423 ''Account temporarily locked due to too many failed login attempts'')
         } else ok ()
   }"

text \<open>
  The first audit record commits the session, which flushes the counter of the user row with it.
\<close>

definition record_failed_login :: "env \<Rightarrow> user \<Rightarrow> unit svc" where
  "record_failed_login e u = do {
     now \<leftarrow> gets clock;
     let u1 = u\<lparr>u_failed_login_attempts := u_failed_login_attempts u + 1\<rparr>;
     write_db (put_user u1);
     record_auth ''login_failed'' ''invalid_password'';
     audit_record ''login_failed'' (Some (u_id u)) (Some ''user'') (Some (str_int (u_id u))) ''warning''
       [(''failed_login_attempts'', PyInt (u_failed_login_attempts u1))] True;
     u2 \<leftarrow> (if AUTH_MAX_FAILED_LOGIN_ATTEMPTS (feat e) \<le> u_failed_login_attempts u1 then do {
         let until = now + minutes (AUTH_LOCKOUT_WINDOW_MINUTES (feat e));
         let u2 = u1\<lparr>u_locked_until := Some until, u_failed_login_attempts := 0\<rparr>;
         write_db (put_user u2);
         record_auth ''account_locked'' ''success'';
         audit_record ''account_locked'' (Some (u_id u)) (Some ''user'') (Some (str_int (u_id u))) ''warning''
           [(''locked_until'', PyDatetime until)] True;
         State_Monad.return u2
       } else State_Monad.return u1);
     r \<leftarrow> user_save u2;
     on_ok r (\<lambda>_. do { commit; ok () })
   }"

definition clear_failed_logins :: "user \<Rightarrow> unit svc" where
  "clear_failed_logins u =
     (if u_failed_login_attempts u \<noteq> 0 \<or> u_locked_until u \<noteq> None then do {
        r \<leftarrow> user_save (u\<lparr>u_failed_login_attempts := 0, u_locked_until := None\<rparr>);
        on_ok r (\<lambda>_. do { commit; ok () })
      } else ok ())"

definition login ::
  "env \<Rightarrow> string \<Rightarrow> string \<Rightarrow> string \<Rightarrow> string \<Rightarrow> client option \<Rightarrow> token_pair svc" where
  "login e j1 j2 email password client = do {
     d \<leftarrow> gets db;
     case user_by_email email d of
       None \<Rightarrow> raise (HTTPException 401 ''Invalid credentials'')
     | Some u \<Rightarrow> do {
         r \<leftarrow> ensure_login_not_locked u;
         on_ok r (\<lambda>_.
           if \<not> pwd_verify e password (u_hashed_password u) then do {
             r \<leftarrow> record_failed_login e u;
             on_ok r (\<lambda>_. raise (HTTPException 401 ''Invalid credentials''))
           }
           else if REQUIRE_EMAIL_VERIFICATION (core e) \<and> \<not> u_email_verified u
           then raise (HTTPException 403 ''Email verification required before login'')
           else do {
             r \<leftarrow> clear_failed_logins u;
             on_ok r (\<lambda>_. do {
               audit_record ''user_logged_in'' (Some (u_id u)) (Some ''session'') None ''info''
                 [(''email'', PyStr (u_email u))] True;
               issue_token_pair e j1 j2 (str_int (u_id u)) (request_user_agent client) (request_ip_address client)
             })
           })
       }
   }"

section \<open>Refresh and logout\<close>

definition refresh :: "env \<Rightarrow> string \<Rightarrow> string \<Rightarrow> string \<Rightarrow> client option \<Rightarrow> token_pair svc" where
  "refresh e j1 j2 refresh_token client = do {
     r \<leftarrow> decode_expected_token e refresh_token ''refresh'';
     on_ok r (\<lambda>cs. case claim_str cs ''jti'' of
         None \<Rightarrow> raise (KeyError ''jti'')
       | Some jti \<Rightarrow> do {
           now \<leftarrow> gets clock;
           ts \<leftarrow> gets tokens;
           let existing = get_session now jti ts;
           r \<leftarrow> revoke_token_from_payload cs;
           on_ok r (\<lambda>_. case map_of cs ''sub'' of
               None \<Rightarrow> raise (KeyError ''sub'')
             | Some s \<Rightarrow>
                 issue_token_pair e j1 j2 (py_str e s)
                   (case existing of Some x \<Rightarrow> s_user_agent x | None \<Rightarrow> request_user_agent client)
                   (case existing of Some x \<Rightarrow> s_ip_address x | None \<Rightarrow> request_ip_address client))
         })
   }"

definition logout :: "env \<Rightarrow> string \<Rightarrow> string option \<Rightarrow> unit svc" where
  "logout e access_token refresh_token = do {
     r \<leftarrow> decode_expected_token e access_token ''access'';
     on_ok r (\<lambda>access. do {
       r \<leftarrow> revoke_token_from_payload access;
       on_ok r (\<lambda>_. do {
         r \<leftarrow> (if truthy refresh_token then do {
             r \<leftarrow> decode_expected_token e (the refresh_token) ''refresh'';
             on_ok r revoke_token_from_payload
           } else ok ());
         on_ok r (\<lambda>_. on_ok (py_int (map_of access ''sub'')) (\<lambda>user_id. do {
           audit_record ''user_logged_out'' (Some user_id) (Some ''session'') None ''info''
             [(''refresh_revoked'', PyBool (truthy refresh_token))] True;
           ok ()
         }))
       })
     })
   }"

section \<open>Passwords\<close>

definition reset_body :: "env \<Rightarrow> string \<Rightarrow> string \<Rightarrow> string" where
  "reset_body e full_name token =
     ''Hi '' @ full_name @ '','' @ newline @ newline @
     ''Reset your MooveSaathi password using the link below:'' @ newline @
     frontend_base e @ ''/reset-password?token='' @ token @ newline @ newline @
     ''If you did not request a password reset, you can ignore this email.''"

definition forgot_password :: "env \<Rightarrow> string \<Rightarrow> string \<Rightarrow> string option act" where
  "forgot_password e jti email = do {
     d \<leftarrow> gets db;
     now \<leftarrow> gets clock;
     case user_by_email email d of
       None \<Rightarrow> State_Monad.return None
     | Some u \<Rightarrow> do {
         let token = create_reset_token e now jti (str_int (u_id u));
         record_auth ''password_reset_requested'' ''success'';
         audit_entity ''password_reset_requested'' (u_id u) ''user'' (u_id u)
           [(''email'', PyStr (u_email u))] True;
         j \<leftarrow> new_job (''send-reset-password-email:'' @ str_int (u_id u))
           (Send_email (u_email u) ''Reset your MooveSaathi password'' (reset_body e (u_full_name u) token))
           (JOB_WORKER_MAX_RETRIES (feat e));
         enqueue j;
         State_Monad.return (if is_production (core e) then None else Some token)
       }
   }"

definition reset_password :: "env \<Rightarrow> string \<Rightarrow> string \<Rightarrow> string \<Rightarrow> unit svc" where
  "reset_password e salt token new_password = do {
     r \<leftarrow> decode_expected_token e token ''reset'';
     on_ok r (\<lambda>cs. on_ok (py_int (map_of cs ''sub'')) (\<lambda>user_id. do {
       d \<leftarrow> gets db;
       case get_user user_id d of
         None \<Rightarrow> raise (HTTPException 404 ''User not found'')
       | Some u \<Rightarrow> or_rollback (do {
           r \<leftarrow> user_save (u\<lparr>u_hashed_password := pwd_hash e salt new_password\<rparr>);
           on_ok r (\<lambda>_. do {
             commit;
             r \<leftarrow> revoke_token_from_payload cs;
             on_ok r (\<lambda>_. do {
               on_tokens (\<lambda>now. revoke_user_sessions now (u_id u));
               record_auth ''password_reset_completed'' ''success'';
               audit_entity ''password_reset_completed'' (u_id u) ''user'' (u_id u) [] True;
               ok ()
             })
           })
         })
     }))
   }"

definition enqueue_session_cleanup :: "env \<Rightarrow> int \<Rightarrow> unit act" where
  "enqueue_session_cleanup e user_id = do {
     j \<leftarrow> new_job (''session-cleanup:'' @ str_int user_id) (Cleanup_sessions user_id)
       (JOB_WORKER_MAX_RETRIES (feat e));
     enqueue j
   }"

definition enqueue_audit_log_retention :: "env \<Rightarrow> int \<Rightarrow> unit act" where
  "enqueue_audit_log_retention e retention_days = do {
     j \<leftarrow> new_job (''audit-log-retention:'' @ str_int retention_days @ ''d'') (Cleanup_audit_logs retention_days)
       (JOB_WORKER_MAX_RETRIES (feat e));
     enqueue j
   }"

definition change_password :: "env \<Rightarrow> string \<Rightarrow> string \<Rightarrow> string \<Rightarrow> user \<Rightarrow> string \<Rightarrow> unit svc" where
  "change_password e salt current_password new_password current_user access_token =
     (if \<not> pwd_verify e current_password (u_hashed_password current_user)
      then raise (HTTPException 400 ''Current password is incorrect'')
      else or_rollback (do {
        r \<leftarrow> user_save (current_user\<lparr>u_hashed_password := pwd_hash e salt new_password\<rparr>);
        on_ok r (\<lambda>_. do {
          commit;
          r \<leftarrow> decode_expected_token e access_token ''access'';
          on_ok r (\<lambda>cs. do {
            r \<leftarrow> revoke_token_from_payload cs;
            on_ok r (\<lambda>_. do {
              on_tokens (\<lambda>now. revoke_user_sessions now (u_id current_user));
              enqueue_session_cleanup e (u_id current_user);
              enqueue_audit_log_retention e 90;
              audit_entity ''password_changed'' (u_id current_user) ''user'' (u_id current_user) [] True;
              ok ()
            })
          })
        })
      }))"

section \<open>Sessions of an account\<close>

definition device_name :: "string option \<Rightarrow> string" where
  "device_name user_agent =
     (if \<not> truthy user_agent then ''Unknown device''
      else
        (let lowered = lower_str (the user_agent) in
         if contains_str lowered ''mobile'' \<or> contains_str lowered ''android'' \<or> contains_str lowered ''iphone''
         then ''Mobile browser''
         else if contains_str lowered ''windows'' then ''Windows browser''
         else if contains_str lowered ''mac os'' \<or> contains_str lowered ''macintosh'' then ''Mac browser''
         else if contains_str lowered ''linux'' then ''Linux browser''
         else ''Browser''))"

record session_view =
  sv_session :: session_record
  sv_current :: bool
  sv_device_name :: string

definition list_account_sessions :: "user \<Rightarrow> string option \<Rightarrow> session_view list act" where
  "list_account_sessions current_user current_jti = do {
     now \<leftarrow> gets clock;
     ts \<leftarrow> gets tokens;
     State_Monad.return (map (\<lambda>s. \<lparr>sv_session = s, sv_current = (truthy current_jti \<and> current_jti = Some (s_jti s)),
       sv_device_name = device_name (s_user_agent s)\<rparr>) (list_sessions now (u_id current_user) ts))
   }"

definition revoke_session :: "user \<Rightarrow> string \<Rightarrow> unit svc" where
  "revoke_session current_user session_jti = do {
     now \<leftarrow> gets clock;
     ts \<leftarrow> gets tokens;
     if \<not> list_ex (\<lambda>s. s_jti s = session_jti) (list_sessions now (u_id current_user) ts)
     then raise (HTTPException 404 ''Session not found'')
     else do {
       on_tokens (\<lambda>now. revoke_session_record now session_jti);
       audit_record ''session_revoked'' (Some (u_id current_user)) (Some ''session'') (Some session_jti)
         ''info'' [] True;
       ok ()
     }
   }"

definition revoke_other_sessions :: "user \<Rightarrow> string option \<Rightarrow> unit act" where
  "revoke_other_sessions current_user current_jti = do {
     on_tokens (\<lambda>now. revoke_user_sessions_except now (u_id current_user) current_jti);
     audit_record ''other_sessions_revoked'' (Some (u_id current_user)) (Some ''session'') None ''info''
       [(''kept_session_jti'', (case current_jti of None \<Rightarrow> PyNone | Some j \<Rightarrow> PyStr j))] True;
     State_Monad.return ()
   }"

record account_security_view =
  av_failed_login_attempts :: int
  av_locked_until :: "instant option"
  av_is_locked :: bool
  av_lockout_reason :: "string option"
  av_recovery_hint :: string

definition account_security :: "instant \<Rightarrow> user \<Rightarrow> account_security_view" where
  "account_security now u =
     (let is_locked = (case u_locked_until u of None \<Rightarrow> False | Some t \<Rightarrow> now < t)
      in \<lparr>av_failed_login_attempts = u_failed_login_attempts u, av_locked_until = u_locked_until u,
          av_is_locked = is_locked,
          av_lockout_reason = (if is_locked
            then Some ''Account temporarily locked due to too many failed login attempts'' else None),
          av_recovery_hint = (if is_locked
            then ''Wait for the lock to expire, then sign in again or reset your password if you suspect abuse.''
            else ''Use session management to revoke other devices or change your password if needed.'')\<rparr>)"

end
