(* ===== verification/Geo.thy ===== *)
theory Geo
  imports Provider Calendar
begin

text \<open>
  The two distances of the program: the great-circle distance of DispatchService._distance_km and
  the distance from a point to the straight line of a ride's route of
  RideService._distance_to_route_segment_km. Floats are real numbers here, so the model has no
  rounding error of the arithmetic itself; the explicit roundings of the code are modelled.
\<close>

definition radians :: "real \<Rightarrow> real" where
  "radians x = x * pi / 180"

definition distance_km :: "real \<Rightarrow> real \<Rightarrow> real \<Rightarrow> real \<Rightarrow> real" where
  "distance_km lat1 lon1 lat2 lon2 =
     (let earth_radius_km = 6371;
          dlat = radians (lat2 - lat1);
          dlon = radians (lon2 - lon1);
          a = (sin (dlat / 2))\<^sup>2 + cos (radians lat1) * cos (radians lat2) * (sin (dlon / 2))\<^sup>2
      in 2 * earth_radius_km * arcsin (sqrt a))"

text \<open>\<open>round(x, 2)\<close>: to the nearest hundredth, a tie to the even one.\<close>

definition round_half_even :: "real \<Rightarrow> int" where
  "round_half_even x =
     (let n = \<lfloor>x\<rfloor>; r = x - of_int n
      in if r < 1 / 2 then n else if 1 / 2 < r then n + 1 else if even n then n else n + 1)"

definition round_2 :: "real \<Rightarrow> real" where
  "round_2 x = of_int (round_half_even (x * 100)) / 100"

section \<open>Distance to a route\<close>

text \<open>\<open>project\<close> under the mean latitude, in kilometres.\<close>

definition project :: "real \<Rightarrow> real \<times> real \<Rightarrow> real \<times> real" where
  "project mean_latitude p = (snd p * 111.32 * cos mean_latitude, fst p * 110.574)"

definition planar_distance :: "real \<times> real \<Rightarrow> real \<times> real \<Rightarrow> real" where
  "planar_distance p q = sqrt ((fst p - fst q)\<^sup>2 + (snd p - snd q)\<^sup>2)"

definition along :: "real \<times> real \<Rightarrow> real \<times> real \<Rightarrow> real \<Rightarrow> real \<times> real" where
  "along p q t = (fst p + t * (fst q - fst p), snd p + t * (snd q - snd p))"

definition clamped_projection :: "real \<times> real \<Rightarrow> real \<times> real \<Rightarrow> real \<times> real \<Rightarrow> real" where
  "clamped_projection point origin destination =
     (let sx = fst destination - fst origin;
          sy = snd destination - snd origin;
          projection = ((fst point - fst origin) * sx + (snd point - snd origin) * sy) / (sx * sx + sy * sy)
      in max 0 (min 1 projection))"

definition segment_distance :: "real \<times> real \<Rightarrow> real \<times> real \<Rightarrow> real \<times> real \<Rightarrow> real" where
  "segment_distance point origin destination =
     (let sx = fst destination - fst origin;
          sy = snd destination - snd origin
      in if sx * sx + sy * sy = 0 then planar_distance point origin
         else planar_distance point (along origin destination (clamped_projection point origin destination)))"

definition route_mean_latitude :: "real \<Rightarrow> real \<Rightarrow> real \<Rightarrow> real" where
  "route_mean_latitude origin_latitude destination_latitude latitude =
     radians ((origin_latitude + destination_latitude + latitude) / 3)"

definition distance_to_route_segment_km ::
  "real \<times> real \<Rightarrow> real \<times> real \<Rightarrow> real \<times> real \<Rightarrow> real" where
  "distance_to_route_segment_km point origin destination =
     (let m = route_mean_latitude (fst origin) (fst destination) (fst point)
      in segment_distance (project m point) (project m origin) (project m destination))"

section \<open>Facts\<close>

lemma planar_distance_le:
  "planar_distance p q \<le> planar_distance p r \<longleftrightarrow>
     (fst p - fst q)\<^sup>2 + (snd p - snd q)\<^sup>2 \<le> (fst p - fst r)\<^sup>2 + (snd p - snd r)\<^sup>2"
  by (simp add: planar_distance_def)

text \<open>A convex quadratic on \<open>[0, 1]\<close> is least at its clamped vertex.\<close>

lemma clamped_quadratic:
  fixes a b t c :: real
  assumes "0 < a" and "c = max 0 (min 1 (b / a))" and "0 \<le> t" and "t \<le> 1"
  shows "a * c\<^sup>2 - 2 * b * c \<le> a * t\<^sup>2 - 2 * b * t"
proof -
  have split: "a * t\<^sup>2 - 2 * b * t - (a * c\<^sup>2 - 2 * b * c) = a * (t - c)\<^sup>2 + 2 * (t - c) * (a * c - b)"
    by algebra
  have "0 \<le> (t - c) * (a * c - b)"
  proof (cases "b / a < 0")
    case True
    with assms(1,2) have "c = 0" "b < 0" by (auto simp: divide_less_0_iff)
    with assms(3) show ?thesis by (simp add: mult_nonneg_nonpos)
  next
    case nonneg: False
    show ?thesis
    proof (cases "1 < b / a")
      case True
      with assms(1,2) have "c = 1" "a < b" by (auto simp: less_divide_eq)
      with assms(4) show ?thesis by (simp add: mult_nonpos_nonpos)
    next
      case False
      with nonneg assms(1,2) have "a * c = b" by (auto simp: max_def min_def)
      then show ?thesis by simp
    qed
  qed
  moreover have "0 \<le> a * (t - c)\<^sup>2" using assms(1) by simp
  ultimately have "0 \<le> a * (t - c)\<^sup>2 + 2 * (t - c) * (a * c - b)"
    unfolding mult.assoc by linarith
  with split show ?thesis by linarith
qed

lemma segment_distance_least:
  assumes "0 \<le> t" and "t \<le> 1"
  shows "segment_distance p q r \<le> planar_distance p (along q r t)"
proof -
  define sx sy px py where "sx = fst r - fst q" and "sy = snd r - snd q"
    and "px = fst p - fst q" and "py = snd p - snd q"
  define a b where "a = sx * sx + sy * sy" and "b = px * sx + py * sy"
  have sq: "(fst p - (fst q + u * sx))\<^sup>2 + (snd p - (snd q + u * sy))\<^sup>2 =
      px\<^sup>2 + py\<^sup>2 + (a * u\<^sup>2 - 2 * b * u)" for u
    unfolding a_def b_def px_def py_def by algebra
  show ?thesis
  proof (cases "a = 0")
    case True
    then have "sx = 0" "sy = 0" by (auto simp: a_def sum_squares_eq_zero_iff)
    then show ?thesis
      by (simp add: segment_distance_def along_def planar_distance_le sx_def sy_def)
  next
    case False
    then have "0 < a" by (auto simp: a_def intro: sum_power2_gt_zero_iff[THEN iffD2] simp flip: power2_eq_square)
    define c where "c = max 0 (min 1 (b / a))"
    have "segment_distance p q r = planar_distance p (along q r c)"
      using False
      unfolding segment_distance_def clamped_projection_def Let_def c_def a_def b_def sx_def sy_def px_def py_def
      by (simp only: if_False)
    moreover have "a * c\<^sup>2 - 2 * b * c \<le> a * t\<^sup>2 - 2 * b * t"
      by (rule clamped_quadratic [OF \<open>0 < a\<close> c_def assms])
    ultimately show ?thesis
      using sq [of c] sq [of t]
      by (simp add: planar_distance_le along_def flip: sx_def sy_def)
  qed
qed

lemma segment_distance_attained: "\<exists>t. 0 \<le> t \<and> t \<le> 1 \<and> segment_distance p q r = planar_distance p (along q r t)"
proof (cases "(fst r - fst q) * (fst r - fst q) + (snd r - snd q) * (snd r - snd q) = 0")
  case True
  then have "segment_distance p q r = planar_distance p (along q r 0)"
    by (simp add: segment_distance_def along_def)
  then show ?thesis by (intro exI [of _ 0]) simp
next
  case False
  then have "segment_distance p q r = planar_distance p (along q r (clamped_projection p q r))"
    unfolding segment_distance_def Let_def by (simp only: if_False)
  moreover have "0 \<le> clamped_projection p q r" "clamped_projection p q r \<le> 1"
    by (simp_all add: clamped_projection_def Let_def)
  ultimately show ?thesis by blast
qed

text \<open>The haversine is between 0 and 1, so \<open>asin\<close> is defined.\<close>

lemma haversine_bounds:
  fixes x y d :: real
  defines "a \<equiv> (sin ((y - x) / 2))\<^sup>2 + cos x * cos y * (sin d)\<^sup>2"
  assumes "0 \<le> cos x" and "0 \<le> cos y"
  shows "0 \<le> a" and "a \<le> 1"
proof -
  show "0 \<le> a" using assms by simp
  have two: "2 * ((y - x) / 2) = y - x" by simp
  have "cos x * cos y * (sin d)\<^sup>2 \<le> cos x * cos y"
    using assms by (simp add: mult_left_le abs_square_le_1)
  moreover have "(sin ((y - x) / 2))\<^sup>2 = (1 - cos (y - x)) / 2"
    using cos_double_sin [of "(y - x) / 2"] unfolding two by simp
  moreover have "cos (y - x) = cos y * cos x + sin y * sin x" by (rule cos_diff)
  moreover have "cos (y + x) = cos y * cos x - sin y * sin x" by (rule cos_add)
  moreover have "- 1 \<le> cos (y + x)" "cos (y + x) \<le> 1" by simp_all
  ultimately have "a \<le> (1 - cos (y - x)) / 2 + (cos (y - x) + cos (y + x)) / 2"
    unfolding a_def by (simp add: field_simps)
  also have "\<dots> \<le> 1" using cos_le_one [of "y + x"] by (simp add: field_simps)
  finally show "a \<le> 1" .
qed

lemma cos_radians_nonneg: "- 90 \<le> x \<Longrightarrow> x \<le> 90 \<Longrightarrow> 0 \<le> cos (radians x)"
proof (rule cos_ge_zero)
  assume x: "- 90 \<le> x" "x \<le> 90"
  have "- 90 * pi \<le> x * pi" "x * pi \<le> 90 * pi" using x by (simp_all only: mult_right_mono pi_ge_zero)
  then show "- (pi / 2) \<le> radians x" "radians x \<le> pi / 2" by (simp_all add: radians_def)
qed

lemma distance_km_self [simp]: "distance_km a b a b = 0"
  by (simp add: distance_km_def radians_def)

lemma distance_km_sym: "distance_km a b c d = distance_km c d a b"
proof -
  have *: "radians (x - y) / 2 = - (radians (y - x) / 2)" for x y
    by (simp add: radians_def field_simps)
  show ?thesis
    unfolding distance_km_def Let_def
    by (subst * [of c a], subst * [of d b]) (simp add: mult.commute)
qed

lemma distance_km_bounds:
  assumes "- 90 \<le> a" "a \<le> 90" "- 90 \<le> c" "c \<le> 90"
  shows "0 \<le> distance_km a b c d" and "distance_km a b c d \<le> 6371 * pi"
proof -
  define h where "h = (sin (radians (c - a) / 2))\<^sup>2 +
    cos (radians a) * cos (radians c) * (sin (radians (d - b) / 2))\<^sup>2"
  have eq: "radians (c - a) = radians c - radians a" by (simp add: radians_def field_simps)
  have h: "0 \<le> h" "h \<le> 1"
    using haversine_bounds [of "radians a" "radians c" "radians (d - b) / 2"] cos_radians_nonneg assms
    unfolding h_def eq by blast+
  have d: "distance_km a b c d = 2 * 6371 * arcsin (sqrt h)"
    by (simp add: distance_km_def h_def)
  show "0 \<le> distance_km a b c d"
    using h arcsin_le_arcsin [of 0 "sqrt h"] by (simp add: d real_le_lsqrt)
  show "distance_km a b c d \<le> 6371 * pi"
    using h arcsin_ubound [of "sqrt h"] real_sqrt_ge_zero [OF h(1)] by (simp add: d)
qed

end
