(* ===== verification/Ride.thy ===== *)
theory Ride
  imports Booking Geo
begin

text \<open>
  src/app/services/ride.py: publishing, changing, cancelling and completing a ride, and the live
  location of its driver.
\<close>

section \<open>Requests (schemas/ride.py)\<close>

record ride_fields =
  rf_origin :: string
  rf_destination :: string
  rf_origin_latitude :: "real option"
  rf_origin_longitude :: "real option"
  rf_destination_latitude :: "real option"
  rf_destination_longitude :: "real option"
  rf_departure_time :: instant
  rf_available_seats :: int
  rf_price_per_seat :: rat
  rf_vehicle_details :: "string option"
  rf_notes :: "string option"

definition in_bounds :: "real \<Rightarrow> real \<Rightarrow> real option \<Rightarrow> bool" where
  "in_bounds lo hi x \<longleftrightarrow> (case x of None \<Rightarrow> True | Some v \<Rightarrow> lo \<le> v \<and> v \<le> hi)"

text \<open>\<open>Field(ge=0, max_digits=10, decimal_places=2)\<close>\<close>

definition price_valid :: "rat \<Rightarrow> bool" where
  "price_valid q \<longleftrightarrow> 0 \<le> q \<and> q * 100 = of_int \<lfloor>q * 100\<rfloor> \<and> q < 10 ^ 8"

definition ride_fields_valid :: "int \<Rightarrow> ride_fields \<Rightarrow> bool" where
  "ride_fields_valid min_seats f \<longleftrightarrow>
     2 \<le> length (rf_origin f) \<and> length (rf_origin f) \<le> 120 \<and>
     2 \<le> length (rf_destination f) \<and> length (rf_destination f) \<le> 120 \<and>
     in_bounds (- 90) 90 (rf_origin_latitude f) \<and> in_bounds (- 180) 180 (rf_origin_longitude f) \<and>
     in_bounds (- 90) 90 (rf_destination_latitude f) \<and> in_bounds (- 180) 180 (rf_destination_longitude f) \<and>
     min_seats \<le> rf_available_seats f \<and> rf_available_seats f \<le> 10 \<and>
     price_valid (rf_price_per_seat f) \<and>
     (case rf_vehicle_details f of None \<Rightarrow> True | Some v \<Rightarrow> length v \<le> 150)"

definition ride_create_valid :: "ride_fields \<Rightarrow> bool" where
  "ride_create_valid = ride_fields_valid 1"

definition ride_update_valid :: "ride_fields \<Rightarrow> bool" where
  "ride_update_valid = ride_fields_valid 0"

record ride_location_create =
  lc_latitude :: real
  lc_longitude :: real
  lc_heading :: "real option"
  lc_speed_kmph :: "real option"

definition location_create_valid :: "ride_location_create \<Rightarrow> bool" where
  "location_create_valid c \<longleftrightarrow>
     - 90 \<le> lc_latitude c \<and> lc_latitude c \<le> 90 \<and> - 180 \<le> lc_longitude c \<and> lc_longitude c \<le> 180 \<and>
     in_bounds 0 360 (lc_heading c) \<and> in_bounds 0 300 (lc_speed_kmph c)"

record ride_search_params =
  sp_origin :: "string option"
  sp_destination :: "string option"
  sp_departure_after :: "instant option"
  sp_limit :: int
  sp_offset :: int

section \<open>Publishing and changing a ride\<close>

definition ensure_verified_for_rides :: "user \<Rightarrow> unit svc" where
  "ensure_verified_for_rides current_user =
     (if u_driver_verification_status current_user \<noteq> VVerified
      then raise (HTTPException 403 ''Driver verification is required before publishing rides'')
      else ok ())"

definition create_ride :: "ride_fields \<Rightarrow> user \<Rightarrow> ride svc" where
  "create_ride f current_user =
     (if u_role current_user \<noteq> Driver
      then raise (HTTPException 403 ''Only driver accounts can publish rides'')
      else do {
        r \<leftarrow> ensure_verified_for_rides current_user;
        on_ok r (\<lambda>_. or_rollback (do {
          r \<leftarrow> ride_create \<lparr>r_id = 0, r_driver_id = u_id current_user, r_origin = rf_origin f,
            r_destination = rf_destination f, r_origin_latitude = rf_origin_latitude f,
            r_origin_longitude = rf_origin_longitude f, r_destination_latitude = rf_destination_latitude f,
            r_destination_longitude = rf_destination_longitude f, r_departure_time = rf_departure_time f,
            r_available_seats = rf_available_seats f, r_price_per_seat = rf_price_per_seat f,
            r_vehicle_details = rf_vehicle_details f, r_notes = rf_notes f, r_status = RScheduled,
            r_is_active = True, r_created_at = 0\<rparr>;
          on_ok r (\<lambda>saved. do {
            commit;
            audit_entity ''ride_created'' (u_id current_user) ''ride'' (r_id saved)
              [(''origin'', PyStr (r_origin saved)), (''destination'', PyStr (r_destination saved))] True;
            ok saved
          })
        }))
      })"

definition search_rides :: "ride_search_params \<Rightarrow> database \<Rightarrow> ride list" where
  "search_rides p d =
     search_rides_query (sp_origin p) (sp_destination p) (sp_departure_after p) (sp_limit p) (sp_offset p) d"

record ride_detail =
  rd_ride :: ride
  rd_booked_passengers :: int
  rd_passengers :: "user list"
  rd_booking_id :: "int option"

definition get_ride_detail :: "int \<Rightarrow> user option \<Rightarrow> ride_detail svc" where
  "get_ride_detail ride_id current_user = do {
     d \<leftarrow> gets db;
     case get_ride ride_id d of
       None \<Rightarrow> raise (HTTPException 404 ''Ride not found'')
     | Some ride \<Rightarrow>
         (let accepted = accepted_bookings (r_id ride) d;
              mine = (case current_user of
                  None \<Rightarrow> None
                | Some u \<Rightarrow>
                    if u_role u = Passenger
                    then map_option b_id (find (\<lambda>b. b_passenger_id b = u_id u) (bookings_of_ride (r_id ride) d))
                    else None)
          in ok \<lparr>rd_ride = ride, rd_booked_passengers = int (length accepted),
                 rd_passengers = passengers_of accepted d, rd_booking_id = mine\<rparr>)
   }"

definition with_fields :: "ride_fields \<Rightarrow> ride \<Rightarrow> ride" where
  "with_fields f ride =
     (let st = (if rf_available_seats f = 0 then RFull else RScheduled)
      in ride\<lparr>r_origin := rf_origin f, r_destination := rf_destination f,
        r_origin_latitude := rf_origin_latitude f, r_origin_longitude := rf_origin_longitude f,
        r_destination_latitude := rf_destination_latitude f,
        r_destination_longitude := rf_destination_longitude f,
        r_departure_time := rf_departure_time f, r_available_seats := rf_available_seats f,
        r_price_per_seat := rf_price_per_seat f, r_vehicle_details := rf_vehicle_details f,
        r_notes := rf_notes f, r_status := st, r_is_active := (st = RScheduled)\<rparr>)"

definition update_ride :: "int \<Rightarrow> ride_fields \<Rightarrow> user \<Rightarrow> ride svc" where
  "update_ride ride_id f current_user =
     (if u_role current_user \<noteq> Driver
      then raise (HTTPException 403 ''Only driver accounts can update rides'')
      else or_rollback (do {
        d \<leftarrow> gets db;
        case get_ride ride_id d of
          None \<Rightarrow> raise (HTTPException 404 ''Ride not found'')
        | Some ride \<Rightarrow>
            if r_driver_id ride \<noteq> u_id current_user
            then raise (HTTPException 403 ''Only driver can update this ride'')
            else if r_status ride \<in> {RCancelled, RCompleted}
            then raise (HTTPException 400 ''Completed or cancelled rides cannot be updated'')
            else if rf_available_seats f < int (length (accepted_bookings (r_id ride) d))
            then raise (HTTPException 400 ''Available seats cannot be lower than accepted passengers'')
            else do {
              r \<leftarrow> ride_save (with_fields f ride);
              on_ok r (\<lambda>saved. do {
                commit;
                audit_entity ''ride_updated'' (u_id current_user) ''ride'' (r_id saved) [] True;
                ok saved
              })
            }
      }))"

section \<open>Cancelling and completing a ride\<close>

definition cancel_ride_booking :: "env \<Rightarrow> ride \<Rightarrow> booking \<Rightarrow> unit act" where
  "cancel_ride_booking e ride b =
     (if b_status b \<in> {BPending, BAccepted} then do {
        write_db (put_booking (b\<lparr>b_status := BCancelled_by_driver\<rparr>));
        enqueue_notification e (b_passenger_id b) NRide_cancelled ''Ride cancelled''
          (r_origin ride @ '' to '' @ r_destination ride @ '' has been cancelled by the driver.'')
      } else State_Monad.return ())"

definition cancel_ride :: "env \<Rightarrow> int \<Rightarrow> user \<Rightarrow> unit svc" where
  "cancel_ride e ride_id current_user =
     (if u_role current_user \<noteq> Driver
      then raise (HTTPException 403 ''Only driver accounts can cancel rides'')
      else or_rollback (do {
        d \<leftarrow> gets db;
        case get_ride ride_id d of
          None \<Rightarrow> raise (HTTPException 404 ''Ride not found'')
        | Some ride \<Rightarrow>
            if r_driver_id ride \<noteq> u_id current_user
            then raise (HTTPException 403 ''Only driver can cancel this ride'')
            else if r_status ride = RCompleted
            then raise (HTTPException 400 ''Completed rides cannot be cancelled'')
            else if r_status ride = RCancelled
            then raise (HTTPException 400 ''Ride is already cancelled'')
            else do {
              for_each (cancel_ride_booking e ride) (bookings_of_ride (r_id ride) d);
              r \<leftarrow> ride_save (ride\<lparr>r_status := RCancelled, r_is_active := False\<rparr>);
              on_ok r (\<lambda>_. do {
                commit;
                audit_entity ''ride_cancelled'' (u_id current_user) ''ride'' (r_id ride) [] True;
                ok ()
              })
            }
      }))"

definition complete_ride_booking :: "env \<Rightarrow> ride \<Rightarrow> booking \<Rightarrow> unit svc" where
  "complete_ride_booking e ride b = do {
     r \<leftarrow> capture_payment_for_booking e (b_id b) False;
     on_ok r (\<lambda>p.
       if (case p of None \<Rightarrow> False | Some q \<Rightarrow> p_status q \<noteq> PCaptured)
       then raise (HTTPException 409 ''Payment capture must complete before the ride can be completed'')
       else do {
         write_db (put_booking (b\<lparr>b_status := BCompleted\<rparr>));
         enqueue_notification e (b_passenger_id b) NBooking_completed ''Trip completed''
           (''Your trip '' @ route_text ride @ '' has been marked completed.'');
         ok ()
       })
   }"

definition complete_ride :: "env \<Rightarrow> int \<Rightarrow> user \<Rightarrow> ride svc" where
  "complete_ride e ride_id current_user =
     (if u_role current_user \<noteq> Driver
      then raise (HTTPException 403 ''Only driver accounts can complete rides'')
      else or_rollback (do {
        d \<leftarrow> gets db;
        case get_ride ride_id d of
          None \<Rightarrow> raise (HTTPException 404 ''Ride not found'')
        | Some ride \<Rightarrow>
            if r_driver_id ride \<noteq> u_id current_user
            then raise (HTTPException 403 ''Only driver can complete this ride'')
            else if r_status ride = RCancelled
            then raise (HTTPException 400 ''Cancelled rides cannot be completed'')
            else if r_status ride = RCompleted
            then raise (HTTPException 400 ''Ride is already completed'')
            else
              (let accepted = accepted_bookings (r_id ride) d
               in if list_ex (\<lambda>b. b_boarded_at b = None) accepted
               then raise (HTTPException 400 ''All accepted passengers must be boarded before completing the ride'')
               else do {
                 r \<leftarrow> for_each_ok (complete_ride_booking e ride) accepted;
                 on_ok r (\<lambda>_. do {
                   r \<leftarrow> ride_save (ride\<lparr>r_status := RCompleted, r_is_active := False\<rparr>);
                   on_ok r (\<lambda>saved. do {
                     commit;
                     audit_entity ''ride_completed'' (u_id current_user) ''ride'' (r_id saved) [] True;
                     ok saved
                   })
                 })
               })
      }))"

definition list_driver_rides :: "user \<Rightarrow> ride_status option \<Rightarrow> int \<Rightarrow> int \<Rightarrow> ride list svc" where
  "list_driver_rides current_user st limit offset = do {
     d \<leftarrow> gets db;
     if u_role current_user \<noteq> Driver
     then raise (HTTPException 403 ''Only driver accounts can view published rides'')
     else ok (rides_by_driver (u_id current_user) st limit offset d)
   }"

section \<open>Live location\<close>

record located =
  lo_location :: ride_location
  lo_age_seconds :: int
  lo_is_stale :: bool

definition decorate_location :: "env \<Rightarrow> instant \<Rightarrow> ride_location \<Rightarrow> located" where
  "decorate_location e now l =
     (let age = age_seconds now (l_created_at l)
      in \<lparr>lo_location = l, lo_age_seconds = age, lo_is_stale = (LOCATION_STALE_AFTER_SECONDS (feat e) \<le> age)\<rparr>)"

definition validate_location_near_route :: "env \<Rightarrow> ride \<Rightarrow> ride_location_create \<Rightarrow> unit svc" where
  "validate_location_near_route e ride c =
     (case (r_origin_latitude ride, r_origin_longitude ride,
            r_destination_latitude ride, r_destination_longitude ride) of
        (Some olat, Some olon, Some dlat, Some dlon) \<Rightarrow>
          if distance_to_route_segment_km (lc_latitude c, lc_longitude c) (olat, olon) (dlat, dlon)
             > LOCATION_ROUTE_BUFFER_KM (feat e)
          then raise (HTTPException 400 ''Location is too far from this ride route'')
          else ok ()
      | _ \<Rightarrow> ok ())"

definition update_location :: "env \<Rightarrow> int \<Rightarrow> ride_location_create \<Rightarrow> user \<Rightarrow> located svc" where
  "update_location e ride_id c current_user =
     (if u_role current_user \<noteq> Driver
      then raise (HTTPException 403 ''Only driver accounts can update ride location'')
      else do {
        d \<leftarrow> gets db;
        now \<leftarrow> gets clock;
        case get_ride ride_id d of
          None \<Rightarrow> raise (HTTPException 404 ''Ride not found'')
        | Some ride \<Rightarrow>
            if r_driver_id ride \<noteq> u_id current_user
            then raise (HTTPException 403 ''Only driver can update this ride location'')
            else if r_status ride \<in> {RCancelled, RCompleted}
            then raise (HTTPException 400 ''Location cannot be updated for completed or cancelled rides'')
            else if (case lc_speed_kmph c of None \<Rightarrow> False
                     | Some v \<Rightarrow> LOCATION_MAX_REPORTED_SPEED_KMPH (feat e) < v)
            then raise (HTTPException 400 ''Reported speed is too high for ride tracking'')
            else do {
              r \<leftarrow> validate_location_near_route e ride c;
              on_ok r (\<lambda>_. or_rollback (do {
                r \<leftarrow> location_create \<lparr>l_id = 0, l_ride_id = r_id ride, l_driver_id = u_id current_user,
                  l_latitude = lc_latitude c, l_longitude = lc_longitude c, l_heading = lc_heading c,
                  l_speed_kmph = lc_speed_kmph c, l_created_at = 0\<rparr>;
                on_ok r (\<lambda>location. do {
                  audit_entity ''ride_location_updated'' (u_id current_user) ''ride'' (r_id ride)
                    [(''latitude'', PyFloat (lc_latitude c)), (''longitude'', PyFloat (lc_longitude c))] True;
                  ok (decorate_location e now location)
                })
              }))
            }
      })"

definition has_accepted_booking :: "int \<Rightarrow> int \<Rightarrow> database \<Rightarrow> bool" where
  "has_accepted_booking passenger_id ride_id d =
     list_ex (\<lambda>b. b_passenger_id b = passenger_id \<and> b_status b = BAccepted) (bookings_of_ride ride_id d)"

definition ensure_location_access :: "env \<Rightarrow> int \<Rightarrow> user \<Rightarrow> ride svc" where
  "ensure_location_access e ride_id current_user = do {
     d \<leftarrow> gets db;
     now \<leftarrow> gets clock;
     case get_ride ride_id d of
       None \<Rightarrow> raise (HTTPException 404 ''Ride not found'')
     | Some ride \<Rightarrow>
         if u_id current_user = r_driver_id ride then ok ride
         else if has_accepted_booking (u_id current_user) (r_id ride) d then
           (if \<not> tracking_window e (r_departure_time ride) now
            then raise (HTTPException 403 ''Location tracking is only available near ride time'')
            else ok ride)
         else raise (HTTPException 403 ''Location access denied'')
   }"

definition latest_location_for :: "env \<Rightarrow> int \<Rightarrow> user \<Rightarrow> located svc" where
  "latest_location_for e ride_id current_user = do {
     r \<leftarrow> ensure_location_access e ride_id current_user;
     on_ok r (\<lambda>_. do {
       d \<leftarrow> gets db;
       now \<leftarrow> gets clock;
       case get_latest_location ride_id d of
         None \<Rightarrow> raise (HTTPException 404 ''Ride location not found'')
       | Some l \<Rightarrow> ok (decorate_location e now l)
     })
   }"

definition list_location_history :: "env \<Rightarrow> int \<Rightarrow> user \<Rightarrow> int \<Rightarrow> located list svc" where
  "list_location_history e ride_id current_user limit = do {
     r \<leftarrow> ensure_location_access e ride_id current_user;
     on_ok r (\<lambda>_. do {
       d \<leftarrow> gets db;
       now \<leftarrow> gets clock;
       ok (map (decorate_location e now) (list_locations ride_id limit d))
     })
   }"

record location_access =
  la_ride_id :: int
  la_can_track :: bool
  la_reason :: "string option"
  la_tracking_starts_at :: instant
  la_tracking_ends_at :: instant

definition get_location_access :: "env \<Rightarrow> int \<Rightarrow> user \<Rightarrow> location_access svc" where
  "get_location_access e ride_id current_user = do {
     d \<leftarrow> gets db;
     now \<leftarrow> gets clock;
     case get_ride ride_id d of
       None \<Rightarrow> raise (HTTPException 404 ''Ride not found'')
     | Some ride \<Rightarrow>
         (let starts = r_departure_time ride - minutes (LOCATION_TRACKING_START_BEFORE_MINUTES (feat e));
              ends = r_departure_time ride + minutes (LOCATION_TRACKING_END_AFTER_MINUTES (feat e));
              answer = (\<lambda>can why. \<lparr>la_ride_id = r_id ride, la_can_track = can, la_reason = why,
                la_tracking_starts_at = starts, la_tracking_ends_at = ends\<rparr>)
          in if u_id current_user = r_driver_id ride then ok (answer True None)
             else if \<not> has_accepted_booking (u_id current_user) (r_id ride) d
             then ok (answer False (Some ''Location access denied''))
             else if now < starts \<or> ends < now
             then ok (answer False (Some ''Location tracking is only available near ride time''))
             else ok (answer True None))
   }"

definition cleanup_old_locations :: "env \<Rightarrow> int option \<Rightarrow> int svc" where
  "cleanup_old_locations e retention_days =
     (let n = (case retention_days of None \<Rightarrow> LOCATION_RETENTION_DAYS (feat e) | Some k \<Rightarrow> k)
      in if n < 1 then raise (HTTPException 400 ''retention_days must be greater than zero'')
         else do {
           now \<leftarrow> gets clock;
           deleted \<leftarrow> delete_locations_older_than (now - days n);
           commit;
           ok deleted
         })"

section \<open>The cleanup job (location_jobs.py)\<close>

definition enqueue_location_cleanup :: "env \<Rightarrow> int option \<Rightarrow> unit act" where
  "enqueue_location_cleanup e retention_days = do {
     let n = (case retention_days of None \<Rightarrow> LOCATION_RETENTION_DAYS (feat e) | Some k \<Rightarrow> k);
     j \<leftarrow> new_job (''location-cleanup:'' @ str_int n @ ''d'') (Cleanup_locations n)
       (JOB_WORKER_MAX_RETRIES (feat e));
     enqueue j
   }"

definition run_cleanup_locations :: "env \<Rightarrow> int \<Rightarrow> unit svc" where
  "run_cleanup_locations e n = in_session (payment_service e (\<lambda>_. do {
     r \<leftarrow> cleanup_old_locations e (Some n);
     on_ok r (\<lambda>_. ok ())
   }))"

end
