(* ===== verification/Dispatch.thy ===== *)
theory Dispatch
  imports Ride
begin

text \<open>
  src/app/services/dispatch.py and dispatch_jobs.py: drivers announce where they are, passengers
  ask for a ride, and the first driver near enough who accepts gets a ride with one booking.
  Published events are recorded with the payload that is dumped to JSON; what Redis makes of a
  publication is \<open>redis_answer\<close> of the environment.
\<close>

section \<open>Publishing\<close>

definition redis_publish :: "env \<Rightarrow> string \<Rightarrow> py \<Rightarrow> redis_reply act" where
  "redis_publish e chan msg = do {
     log \<leftarrow> gets publish_log;
     let p = Published chan msg;
     modify (\<lambda>w. w\<lparr>publish_log := publish_log w @ [p]\<rparr>);
     State_Monad.return (redis_answer e log p)
   }"

text \<open>A \<open>RedisError\<close> is answered once with a new client; any other exception ends the attempt.\<close>

definition publish :: "env \<Rightarrow> string \<Rightarrow> py \<Rightarrow> unit act" where
  "publish e chan msg = do {
     r \<leftarrow> redis_publish e chan msg;
     case r of
       RedisFails \<Rightarrow> do { redis_publish e chan msg; State_Monad.return () }
     | _ \<Rightarrow> State_Monad.return ()
   }"

definition publish_driver_event :: "env \<Rightarrow> int \<Rightarrow> py \<Rightarrow> unit act" where
  "publish_driver_event e driver_id msg = publish e (''dispatch:driver:'' @ str_int driver_id) msg"

definition publish_passenger_event :: "env \<Rightarrow> int \<Rightarrow> py \<Rightarrow> unit act" where
  "publish_passenger_event e passenger_id msg = publish e (''dispatch:passenger:'' @ str_int passenger_id) msg"

definition py_opt :: "('a \<Rightarrow> py) \<Rightarrow> 'a option \<Rightarrow> py" where
  "py_opt f x = (case x of None \<Rightarrow> PyNone | Some v \<Rightarrow> f v)"

fun request_status_value :: "ride_request_status \<Rightarrow> string" where
  "request_status_value QOpen = ''open''"
| "request_status_value QMatched = ''matched''"
| "request_status_value QCancelled = ''cancelled''"
| "request_status_value QExpired = ''expired''"

definition serialize_request :: "ride_request \<Rightarrow> py" where
  "serialize_request q = PyDict
     [(''id'', PyInt (q_id q)), (''passenger_id'', PyInt (q_passenger_id q)),
      (''origin'', PyStr (q_origin q)), (''destination'', PyStr (q_destination q)),
      (''origin_latitude'', PyFloat (q_origin_latitude q)),
      (''origin_longitude'', PyFloat (q_origin_longitude q)),
      (''destination_latitude'', PyFloat (q_destination_latitude q)),
      (''destination_longitude'', PyFloat (q_destination_longitude q)),
      (''requested_departure_time'', PyStr (isoformat (q_requested_departure_time q))),
      (''notes'', py_opt PyStr (q_notes q)), (''status'', PyStr (request_status_value (q_status q))),
      (''matched_driver_id'', py_opt PyInt (q_matched_driver_id q)),
      (''matched_ride_id'', py_opt PyInt (q_matched_ride_id q)),
      (''matched_booking_id'', py_opt PyInt (q_matched_booking_id q)),
      (''created_at'', PyStr (isoformat (q_created_at q)))]"

definition distance_to_request :: "driver_availability \<Rightarrow> ride_request \<Rightarrow> real" where
  "distance_to_request v q =
     distance_km (v_latitude v) (v_longitude v) (q_origin_latitude q) (q_origin_longitude q)"

definition list_nearby_online_driver_ids :: "env \<Rightarrow> ride_request \<Rightarrow> database \<Rightarrow> int list" where
  "list_nearby_online_driver_ids e q d =
     map v_driver_id (filter (\<lambda>v. v_is_online v \<and> distance_to_request v q \<le> DISPATCH_NEARBY_RADIUS_KM (feat e))
       (rows (availability_t d)))"

definition publish_nearby_request_created :: "env \<Rightarrow> ride_request \<Rightarrow> unit act" where
  "publish_nearby_request_created e q = do {
     d \<leftarrow> gets db;
     for_each (\<lambda>driver_id.
       case get_driver_availability driver_id d of
         None \<Rightarrow> State_Monad.return ()
       | Some v \<Rightarrow> publish_driver_event e driver_id (PyDict
           [(''event_type'', PyStr ''nearby_request_created''), (''request'', serialize_request q),
            (''distance_km'', PyFloat (round_2 (distance_to_request v q)))]))
       (list_nearby_online_driver_ids e q d)
   }"

definition publish_nearby_request_removed :: "env \<Rightarrow> ride_request \<Rightarrow> string \<Rightarrow> unit act" where
  "publish_nearby_request_removed e q why = do {
     d \<leftarrow> gets db;
     for_each (\<lambda>driver_id. publish_driver_event e driver_id (PyDict
         [(''event_type'', PyStr ''nearby_request_removed''), (''request_id'', PyInt (q_id q)),
          (''reason'', PyStr why)]))
       (list_nearby_online_driver_ids e q d)
   }"

definition record_dispatch_event :: "string \<Rightarrow> int option \<Rightarrow> unit act" where
  "record_dispatch_event action cleanup_count =
     record_dispatch action ''success''
       (case cleanup_count of None \<Rightarrow> 1 | Some n \<Rightarrow> if 0 < n then n else 1)"

section \<open>Driver presence\<close>

record driver_presence =
  dp_latitude :: real
  dp_longitude :: real
  dp_heading :: "real option"
  dp_is_online :: bool

definition driver_presence_valid :: "driver_presence \<Rightarrow> bool" where
  "driver_presence_valid p \<longleftrightarrow>
     - 90 \<le> dp_latitude p \<and> dp_latitude p \<le> 90 \<and> - 180 \<le> dp_longitude p \<and> dp_longitude p \<le> 180 \<and>
     in_bounds 0 360 (dp_heading p)"

definition ensure_verified_for_dispatch :: "user \<Rightarrow> unit svc" where
  "ensure_verified_for_dispatch current_user =
     (if u_driver_verification_status current_user \<noteq> VVerified
      then raise (HTTPException 403
        ''Driver verification is required before going online or accepting ride requests'')
      else ok ())"

definition upsert_driver_presence :: "driver_presence \<Rightarrow> user \<Rightarrow> driver_availability svc" where
  "upsert_driver_presence p current_user =
     (if u_role current_user \<noteq> Driver
      then raise (HTTPException 403 ''Only driver accounts can update availability'')
      else do {
        r \<leftarrow> (if dp_is_online p then ensure_verified_for_dispatch current_user else ok ());
        on_ok r (\<lambda>_. do {
          d \<leftarrow> gets db;
          now \<leftarrow> gets clock;
          r \<leftarrow> upsert_driver_availability
            (case get_driver_availability (u_id current_user) d of
               Some v \<Rightarrow> v\<lparr>v_latitude := dp_latitude p, v_longitude := dp_longitude p,
                 v_heading := dp_heading p, v_is_online := dp_is_online p, v_updated_at := now\<rparr>
             | None \<Rightarrow> \<lparr>v_id = 0, v_driver_id = u_id current_user, v_latitude = dp_latitude p,
                 v_longitude = dp_longitude p, v_heading = dp_heading p, v_is_online = dp_is_online p,
                 v_updated_at = now\<rparr>);
          on_ok r (\<lambda>v. do { commit; ok v })
        })
      })"

definition is_presence_stale :: "env \<Rightarrow> instant \<Rightarrow> instant \<Rightarrow> bool" where
  "is_presence_stale e now updated_at \<longleftrightarrow>
     seconds (DISPATCH_PRESENCE_STALE_AFTER_SECONDS (feat e)) < now - updated_at"

definition get_driver_presence :: "env \<Rightarrow> user \<Rightarrow> driver_availability svc" where
  "get_driver_presence e current_user =
     (if u_role current_user \<noteq> Driver
      then raise (HTTPException 403 ''Only driver accounts can view availability'')
      else do {
        d \<leftarrow> gets db;
        now \<leftarrow> gets clock;
        case get_driver_availability (u_id current_user) d of
          None \<Rightarrow> raise (HTTPException 404 ''Driver availability not found'')
        | Some v \<Rightarrow>
            if v_is_online v \<and> is_presence_stale e now (v_updated_at v) then do {
              r \<leftarrow> upsert_driver_availability (v\<lparr>v_is_online := False, v_updated_at := now\<rparr>);
              on_ok r (\<lambda>v. do { commit; ok v })
            } else ok v
      })"

definition touch_driver_presence :: "int \<Rightarrow> driver_availability option svc" where
  "touch_driver_presence driver_id = do {
     r \<leftarrow> touch_driver_availability driver_id;
     on_ok r (\<lambda>v. case v of None \<Rightarrow> ok None | Some a \<Rightarrow> do { commit; ok (Some a) })
   }"

definition get_fresh_driver_availability :: "env \<Rightarrow> int \<Rightarrow> driver_availability option svc" where
  "get_fresh_driver_availability e driver_id = do {
     d \<leftarrow> gets db;
     now \<leftarrow> gets clock;
     case get_driver_availability driver_id d of
       None \<Rightarrow> ok None
     | Some v \<Rightarrow>
         if \<not> v_is_online v then ok None
         else if is_presence_stale e now (v_updated_at v) then do {
           r \<leftarrow> upsert_driver_availability (v\<lparr>v_is_online := False, v_updated_at := now\<rparr>);
           on_ok r (\<lambda>_. do { commit; ok None })
         } else ok (Some v)
   }"

section \<open>Expiry\<close>

definition expire_request :: "env \<Rightarrow> ride_request \<Rightarrow> unit svc" where
  "expire_request e q0 = do {
     r \<leftarrow> request_save (q0\<lparr>q_status := QExpired\<rparr>);
     on_ok r (\<lambda>q. do {
       publish_nearby_request_removed e q ''expired'';
       publish_passenger_event e (q_passenger_id q)
         (PyDict [(''event_type'', PyStr ''request_expired''), (''request'', serialize_request q)]);
       enqueue_dispatch_notification e (q_passenger_id q) NDispatch_expired ''Ride request expired''
         (''Your request from '' @ q_origin q @ '' to '' @ q_destination q @
          '' expired before a driver accepted it.'');
       record_dispatch_event ''request_expired'' None;
       ok ()
     })
   }"

definition expire_stale_open_requests :: "env \<Rightarrow> int \<Rightarrow> int svc" where
  "expire_stale_open_requests e limit = do {
     d \<leftarrow> gets db;
     now \<leftarrow> gets clock;
     let expired = list_expirable_open_requests now limit d;
     if expired = [] then ok 0
     else do {
       r \<leftarrow> for_each_ok (expire_request e) expired;
       on_ok r (\<lambda>_. do {
         commit;
         record_dispatch_event ''cleanup_request_expiry'' (Some (int (length expired)));
         ok (int (length expired))
       })
     }
   }"

section \<open>Requests\<close>

record request_fields =
  qf_origin :: string
  qf_destination :: string
  qf_origin_latitude :: real
  qf_origin_longitude :: real
  qf_destination_latitude :: real
  qf_destination_longitude :: real
  qf_requested_departure_time :: instant
  qf_notes :: "string option"

definition request_fields_valid :: "request_fields \<Rightarrow> bool" where
  "request_fields_valid f \<longleftrightarrow>
     2 \<le> length (qf_origin f) \<and> length (qf_origin f) \<le> 120 \<and>
     2 \<le> length (qf_destination f) \<and> length (qf_destination f) \<le> 120 \<and>
     in_bounds (- 90) 90 (Some (qf_origin_latitude f)) \<and> in_bounds (- 180) 180 (Some (qf_origin_longitude f)) \<and>
     in_bounds (- 90) 90 (Some (qf_destination_latitude f)) \<and>
     in_bounds (- 180) 180 (Some (qf_destination_longitude f))"

definition create_request :: "env \<Rightarrow> request_fields \<Rightarrow> user \<Rightarrow> ride_request svc" where
  "create_request e f current_user =
     (if u_role current_user \<noteq> Passenger
      then raise (HTTPException 403 ''Only passenger accounts can request rides'')
      else or_rollback (do {
        r \<leftarrow> expire_stale_open_requests e 500;
        on_ok r (\<lambda>_. do {
          d \<leftarrow> gets db;
          if open_request_for_passenger (u_id current_user) d \<noteq> None
          then raise (HTTPException 400 ''Passenger already has an open ride request'')
          else do {
            r \<leftarrow> request_create \<lparr>q_id = 0, q_passenger_id = u_id current_user, q_origin = qf_origin f,
              q_destination = qf_destination f, q_origin_latitude = qf_origin_latitude f,
              q_origin_longitude = qf_origin_longitude f, q_destination_latitude = qf_destination_latitude f,
              q_destination_longitude = qf_destination_longitude f,
              q_requested_departure_time = qf_requested_departure_time f,
              q_notes = (if truthy (qf_notes f) then qf_notes f else None), q_status = QOpen,
              q_matched_driver_id = None, q_matched_ride_id = None, q_matched_booking_id = None,
              q_created_at = 0\<rparr>;
            on_ok r (\<lambda>saved. do {
              commit;
              audit_entity ''ride_request_created'' (u_id current_user) ''ride_request'' (q_id saved)
                [(''origin'', PyStr (q_origin saved)), (''destination'', PyStr (q_destination saved))] True;
              record_dispatch_event ''request_created'' None;
              publish_nearby_request_created e saved;
              ok saved
            })
          }
        })
      }))"

definition list_my_requests :: "env \<Rightarrow> user \<Rightarrow> ride_request list svc" where
  "list_my_requests e current_user =
     (if u_role current_user \<noteq> Passenger
      then raise (HTTPException 403 ''Only passenger accounts can view requests'')
      else do {
        r \<leftarrow> expire_stale_open_requests e 500;
        on_ok r (\<lambda>_. do {
          d \<leftarrow> gets db;
          ok (requests_by_passenger (u_id current_user) None 20 0 d)
        })
      })"

text \<open>The requests a driver at \<open>v\<close> is shown: near enough, nearest first, at most \<open>limit\<close>.\<close>

definition nearby_requests :: "env \<Rightarrow> driver_availability \<Rightarrow> int \<Rightarrow> database \<Rightarrow> (ride_request \<times> real) list" where
  "nearby_requests e v limit d =
     take (nat limit) (sort_key snd
       (map (\<lambda>q. (q, round_2 (distance_to_request v q)))
         (filter (\<lambda>q. distance_to_request v q \<le> DISPATCH_NEARBY_RADIUS_KM (feat e))
           (list_open_requests (Some (v_driver_id v)) (limit * 4) 0 d))))"

definition list_nearby_requests :: "env \<Rightarrow> user \<Rightarrow> int \<Rightarrow> (ride_request \<times> real) list svc" where
  "list_nearby_requests e current_user limit =
     (if u_role current_user \<noteq> Driver
      then raise (HTTPException 403 ''Only driver accounts can view nearby requests'')
      else do {
        r \<leftarrow> ensure_verified_for_dispatch current_user;
        on_ok r (\<lambda>_. do {
          r \<leftarrow> expire_stale_open_requests e 500;
          on_ok r (\<lambda>_. do {
            r \<leftarrow> get_fresh_driver_availability e (u_id current_user);
            on_ok r (\<lambda>availability. case availability of
                None \<Rightarrow> raise (HTTPException 404 ''Driver availability not found'')
              | Some v \<Rightarrow> do {
                  d \<leftarrow> gets db;
                  ok (nearby_requests e v limit d)
                })
          })
        })
      })"

definition decline_request :: "env \<Rightarrow> int \<Rightarrow> user \<Rightarrow> (int \<times> int \<times> bool) svc" where
  "decline_request e request_id current_user =
     (if u_role current_user \<noteq> Driver
      then raise (HTTPException 403 ''Only driver accounts can decline ride requests'')
      else do {
        r \<leftarrow> ensure_verified_for_dispatch current_user;
        on_ok r (\<lambda>_. do {
          r \<leftarrow> get_fresh_driver_availability e (u_id current_user);
          on_ok r (\<lambda>availability.
            if availability = None then raise (HTTPException 404 ''Driver availability not found'')
            else or_rollback (do {
              d \<leftarrow> gets db;
              now \<leftarrow> gets clock;
              case get_request request_id d of
                None \<Rightarrow> raise (HTTPException 404 ''Ride request not found'')
              | Some q \<Rightarrow>
                  if q_status q \<noteq> QOpen then raise (HTTPException 404 ''Ride request not found'')
                  else do {
                    r \<leftarrow> (if get_driver_request_dismissal (u_id current_user) request_id d = None then do {
                        r \<leftarrow> dismissal_create \<lparr>d_id = 0, d_driver_id = u_id current_user,
                          d_request_id = request_id, d_dismissed_at = now\<rparr>;
                        on_ok r (\<lambda>_. do { commit; ok () })
                      } else ok ());
                    on_ok r (\<lambda>_. do {
                      publish_driver_event e (u_id current_user) (PyDict
                        [(''event_type'', PyStr ''nearby_request_removed''), (''request_id'', PyInt request_id),
                         (''reason'', PyStr ''declined'')]);
                      record_dispatch_event ''request_declined'' None;
                      ok (request_id, u_id current_user, True)
                    })
                  }
            }))
        })
      })"

definition cancel_request :: "env \<Rightarrow> int \<Rightarrow> user \<Rightarrow> ride_request svc" where
  "cancel_request e request_id current_user =
     (if u_role current_user \<noteq> Passenger
      then raise (HTTPException 403 ''Only passenger accounts can cancel ride requests'')
      else or_rollback (do {
        d \<leftarrow> gets db;
        case get_request request_id d of
          None \<Rightarrow> raise (HTTPException 404 ''Ride request not found'')
        | Some q0 \<Rightarrow>
            if q_passenger_id q0 \<noteq> u_id current_user
            then raise (HTTPException 404 ''Ride request not found'')
            else do {
              r \<leftarrow> expire_stale_open_requests e 500;
              on_ok r (\<lambda>_. do {
                d \<leftarrow> gets db;
                let q = (case get_request request_id d of None \<Rightarrow> q0 | Some x \<Rightarrow> x);
                if q_status q \<noteq> QOpen
                then raise (HTTPException 400 ''Only open ride requests can be cancelled'')
                else do {
                  r \<leftarrow> request_save (q\<lparr>q_status := QCancelled\<rparr>);
                  on_ok r (\<lambda>saved. do {
                    commit;
                    audit_entity ''ride_request_cancelled'' (u_id current_user) ''ride_request'' (q_id saved)
                      [(''origin'', PyStr (q_origin saved)), (''destination'', PyStr (q_destination saved))] True;
                    publish_nearby_request_removed e saved ''cancelled'';
                    publish_passenger_event e (u_id current_user)
                      (PyDict [(''event_type'', PyStr ''request_cancelled''), (''request'', serialize_request saved)]);
                    enqueue_dispatch_notification e (u_id current_user) NDispatch_cancelled ''Ride request cancelled''
                      (''Your request from '' @ q_origin saved @ '' to '' @ q_destination saved @ '' was cancelled.'');
                    record_dispatch_event ''request_cancelled'' None;
                    ok saved
                  })
                }
              })
            }
      }))"

section \<open>Acceptance\<close>

text \<open>The larger of the base fare and distance times rate, to two decimals, half up.\<close>

definition estimated_price :: "env \<Rightarrow> real \<Rightarrow> rat" where
  "estimated_price e distance =
     (let fare = max (DISPATCH_BASE_FARE (feat e)) (distance * DISPATCH_PER_KM_RATE (feat e))
      in of_int (if fare < 0 then - \<lfloor>- fare * 100 + 1 / 2\<rfloor> else \<lfloor>fare * 100 + 1 / 2\<rfloor>) / 100)"

definition matched_ride :: "user \<Rightarrow> ride_request \<Rightarrow> rat \<Rightarrow> ride" where
  "matched_ride current_user q price =
     \<lparr>r_id = 0, r_driver_id = u_id current_user, r_origin = q_origin q, r_destination = q_destination q,
      r_origin_latitude = Some (q_origin_latitude q), r_origin_longitude = Some (q_origin_longitude q),
      r_destination_latitude = Some (q_destination_latitude q),
      r_destination_longitude = Some (q_destination_longitude q),
      r_departure_time = q_requested_departure_time q, r_available_seats = 1, r_price_per_seat = price,
      r_vehicle_details = None, r_notes = q_notes q, r_status = RFull, r_is_active = False,
      r_created_at = 0\<rparr>"

record acceptance =
  ac_request :: ride_request
  ac_ride_id :: int
  ac_booking_id :: int
  ac_estimated_price_per_seat :: rat

text \<open>What follows the commit: the audit entry, the events and the two notifications.\<close>

definition announce_match :: "env \<Rightarrow> user \<Rightarrow> ride_request \<Rightarrow> int \<Rightarrow> int \<Rightarrow> rat \<Rightarrow> unit act" where
  "announce_match e current_user saved ride_id booking_id price = do {
     audit_entity ''ride_request_matched'' (u_id current_user) ''ride_request'' (q_id saved)
       [(''ride_id'', PyInt ride_id), (''booking_id'', PyInt booking_id)] True;
     publish_nearby_request_removed e saved ''matched'';
     publish_passenger_event e (q_passenger_id saved) (PyDict
       [(''event_type'', PyStr ''request_matched''), (''request'', serialize_request saved),
        (''ride_id'', PyInt ride_id), (''booking_id'', PyInt booking_id),
        (''estimated_price_per_seat'', PyDecimal price)]);
     enqueue_dispatch_notification e (q_passenger_id saved) NDispatch_matched ''Driver matched''
       (u_full_name current_user @ '' accepted your request from '' @ q_origin saved @ '' to '' @
        q_destination saved @ ''.'');
     enqueue_dispatch_notification e (u_id current_user) NDispatch_matched ''Request accepted''
       (''You matched a request from '' @ q_origin saved @ '' to '' @ q_destination saved @ ''.'');
     record_dispatch_event ''request_matched'' None
   }"

definition accept_request :: "env \<Rightarrow> int \<Rightarrow> user \<Rightarrow> acceptance svc" where
  "accept_request e request_id current_user =
     (if u_role current_user \<noteq> Driver
      then raise (HTTPException 403 ''Only driver accounts can accept ride requests'')
      else do {
        r \<leftarrow> ensure_verified_for_dispatch current_user;
        on_ok r (\<lambda>_. do {
        r \<leftarrow> expire_stale_open_requests e 500;
        on_ok r (\<lambda>_. do {
        r \<leftarrow> get_fresh_driver_availability e (u_id current_user);
        on_ok r (\<lambda>availability. case availability of
            None \<Rightarrow> raise (HTTPException 404 ''Driver availability not found'')
          | Some v \<Rightarrow> or_rollback (do {
              d \<leftarrow> gets db;
              case get_request request_id d of
                None \<Rightarrow> raise (HTTPException 404 ''Ride request not found'')
              | Some q \<Rightarrow>
                  if q_status q \<noteq> QOpen
                  then raise (HTTPException 400 ''Ride request is no longer open'')
                  else if DISPATCH_NEARBY_RADIUS_KM (feat e) < distance_to_request v q
                  then raise (HTTPException 400 ''Ride request is too far away'')
                  else do {
                    let price = estimated_price e (distance_to_request v q);
                    r \<leftarrow> ride_create (matched_ride current_user q price);
                    on_ok r (\<lambda>saved_ride. do {
                    r \<leftarrow> booking_create ((new_booking (r_id saved_ride) (q_passenger_id q) (q_notes q))
                          \<lparr>b_status := BAccepted\<rparr>);
                    on_ok r (\<lambda>saved_booking. do {
                    r \<leftarrow> ride_save (saved_ride\<lparr>r_available_seats := 0\<rparr>);
                    on_ok r (\<lambda>saved_ride. do {
                    r \<leftarrow> request_save (q\<lparr>q_status := QMatched, q_matched_driver_id := Some (u_id current_user),
                          q_matched_ride_id := Some (r_id saved_ride),
                          q_matched_booking_id := Some (b_id saved_booking)\<rparr>);
                    on_ok r (\<lambda>saved. do {
                      commit;
                      announce_match e current_user saved (r_id saved_ride) (b_id saved_booking) price;
                      ok \<lparr>ac_request = saved, ac_ride_id = r_id saved_ride, ac_booking_id = b_id saved_booking,
                          ac_estimated_price_per_seat = price\<rparr>
                    }) }) }) })
                  }
            }))
        }) })
      })"

section \<open>Cleanups and their jobs (dispatch_jobs.py)\<close>

definition cleanup_driver_request_dismissals :: "int \<Rightarrow> int act" where
  "cleanup_driver_request_dismissals retention_days = do {
     now \<leftarrow> gets clock;
     deleted \<leftarrow> delete_dismissals_older_than (now - days retention_days);
     commit;
     record_dispatch_event ''cleanup_dismissals'' (Some deleted);
     State_Monad.return deleted
   }"

definition cleanup_stale_driver_availability :: "int \<Rightarrow> int act" where
  "cleanup_stale_driver_availability retention_hours = do {
     now \<leftarrow> gets clock;
     deleted \<leftarrow> delete_availability_older_than (now - hours retention_hours);
     commit;
     record_dispatch_event ''cleanup_presence'' (Some deleted);
     State_Monad.return deleted
   }"

definition enqueue_dispatch_request_expiry :: "env \<Rightarrow> int \<Rightarrow> unit act" where
  "enqueue_dispatch_request_expiry e limit = do {
     j \<leftarrow> new_job (''dispatch-request-expiry:'' @ str_int limit) (Expire_requests limit)
       (JOB_WORKER_MAX_RETRIES (feat e));
     enqueue j
   }"

definition enqueue_dispatch_dismissal_cleanup :: "env \<Rightarrow> int \<Rightarrow> unit act" where
  "enqueue_dispatch_dismissal_cleanup e retention_days = do {
     j \<leftarrow> new_job (''dispatch-dismissal-cleanup:'' @ str_int retention_days @ ''d'')
       (Cleanup_dismissals retention_days) (JOB_WORKER_MAX_RETRIES (feat e));
     enqueue j
   }"

definition enqueue_dispatch_presence_cleanup :: "env \<Rightarrow> int \<Rightarrow> unit act" where
  "enqueue_dispatch_presence_cleanup e retention_hours = do {
     j \<leftarrow> new_job (''dispatch-presence-cleanup:'' @ str_int retention_hours @ ''h'')
       (Cleanup_presence retention_hours) (JOB_WORKER_MAX_RETRIES (feat e));
     enqueue j
   }"

definition run_expire_requests :: "env \<Rightarrow> int \<Rightarrow> unit svc" where
  "run_expire_requests e limit = in_session (do {
     r \<leftarrow> expire_stale_open_requests e limit;
     on_ok r (\<lambda>_. ok ())
   })"

definition run_cleanup_dismissals :: "int \<Rightarrow> unit svc" where
  "run_cleanup_dismissals retention_days = in_session (do {
     cleanup_driver_request_dismissals retention_days;
     ok ()
   })"

definition run_cleanup_presence :: "int \<Rightarrow> unit svc" where
  "run_cleanup_presence retention_hours = in_session (do {
     cleanup_stale_driver_availability retention_hours;
     ok ()
   })"

end
