(* ===== verification/Community.thy ===== *)
theory Community
  imports Dispatch
begin

text \<open>
  What the participants of a booking do beside the trip: src/app/services/chat.py, review.py and
  user.py.
\<close>

section \<open>Chat (services/chat.py)\<close>

text \<open>Publishing with one retry, counted under the job name \<open>chat_publish\<close>.\<close>

definition chat_publish :: "env \<Rightarrow> int \<Rightarrow> py \<Rightarrow> unit act" where
  "chat_publish e booking_id msg = do {
     r \<leftarrow> redis_publish e (''chat:'' @ str_int booking_id) msg;
     case r of
       RedisOk \<Rightarrow> record_job_metric ''chat_publish'' ''success''
     | RedisOtherError \<Rightarrow> record_job_metric ''chat_publish'' ''failed''
     | RedisFails \<Rightarrow> do {
         record_job_metric ''chat_publish'' ''retry'';
         r \<leftarrow> redis_publish e (''chat:'' @ str_int booking_id) msg;
         record_job_metric ''chat_publish'' (if r = RedisOk then ''success'' else ''failed'')
       }
   }"

definition ensure_booking_access :: "int \<Rightarrow> user \<Rightarrow> unit svc" where
  "ensure_booking_access booking_id current_user = do {
     d \<leftarrow> gets db;
     case get_booking booking_id d of
       None \<Rightarrow> raise (HTTPException 404 ''Booking not found'')
     | Some b \<Rightarrow> deref (ride_of b d) (\<lambda>ride.
         if u_id current_user \<notin> {b_passenger_id b, r_driver_id ride}
         then raise (HTTPException 403 ''Chat access denied'')
         else ok ())
   }"

definition message_event :: "message \<Rightarrow> py" where
  "message_event m = PyDict
     [(''event_type'', PyStr ''message''),
      (''message'', PyDict
        [(''id'', PyInt (m_id m)), (''booking_id'', PyInt (m_booking_id m)),
         (''sender_id'', PyInt (m_sender_id m)), (''content'', PyStr (m_content m)),
         (''message_type'', PyStr (m_message_type m)), (''created_at'', PyStr (isoformat (m_created_at m))),
         (''seen_at'', py_opt (\<lambda>t. PyStr (isoformat t)) (m_seen_at m))])]"

text \<open>\<open>Field(min_length=1, max_length=1000)\<close>\<close>

definition message_content_valid :: "string \<Rightarrow> bool" where
  "message_content_valid s \<longleftrightarrow> 1 \<le> length s \<and> length s \<le> 1000"

definition save_message :: "env \<Rightarrow> int \<Rightarrow> string \<Rightarrow> user \<Rightarrow> message svc" where
  "save_message e booking_id content current_user = do {
     r \<leftarrow> ensure_booking_access booking_id current_user;
     on_ok r (\<lambda>_. do {
       r \<leftarrow> or_rollback (do {
         r \<leftarrow> message_create \<lparr>m_id = 0, m_booking_id = booking_id, m_sender_id = u_id current_user,
           m_content = content, m_message_type = ''text'', m_created_at = 0, m_seen_at = None\<rparr>;
         on_ok r (\<lambda>saved. do { commit; ok saved })
       });
       on_ok r (\<lambda>saved. do {
         chat_publish e booking_id (message_event saved);
         ok saved
       })
     })
   }"

definition list_messages :: "int \<Rightarrow> user \<Rightarrow> message list svc" where
  "list_messages booking_id current_user = do {
     r \<leftarrow> ensure_booking_access booking_id current_user;
     on_ok r (\<lambda>_. do {
       d \<leftarrow> gets db;
       ok (messages_by_booking booking_id d)
     })
   }"

record seen_response =
  sr_updated :: int
  sr_message_ids :: "int list"
  sr_seen_at :: "instant option"

definition mark_messages_seen :: "env \<Rightarrow> int \<Rightarrow> user \<Rightarrow> seen_response svc" where
  "mark_messages_seen e booking_id current_user = do {
     r \<leftarrow> ensure_booking_access booking_id current_user;
     on_ok r (\<lambda>_. do {
       d \<leftarrow> gets db;
       seen_at \<leftarrow> gets clock;
       let unseen = unseen_for_recipient booking_id (u_id current_user) d;
       if unseen = [] then ok \<lparr>sr_updated = 0, sr_message_ids = [], sr_seen_at = None\<rparr>
       else do {
         mark_seen unseen seen_at;
         commit;
         let ids = map m_id unseen;
         chat_publish e booking_id (PyDict
           [(''event_type'', PyStr ''seen''), (''booking_id'', PyInt booking_id),
            (''user_id'', PyInt (u_id current_user)), (''message_ids'', PyList (map PyInt ids)),
            (''seen_at'', PyStr (isoformat seen_at))]);
         ok \<lparr>sr_updated = int (length ids), sr_message_ids = ids, sr_seen_at = Some seen_at\<rparr>
       }
     })
   }"

definition publish_typing :: "env \<Rightarrow> int \<Rightarrow> user \<Rightarrow> bool \<Rightarrow> unit svc" where
  "publish_typing e booking_id current_user is_typing = do {
     r \<leftarrow> ensure_booking_access booking_id current_user;
     on_ok r (\<lambda>_. do {
       chat_publish e booking_id (PyDict
         [(''event_type'', PyStr ''typing''), (''booking_id'', PyInt booking_id),
          (''user_id'', PyInt (u_id current_user)), (''is_typing'', PyBool is_typing)]);
       ok ()
     })
   }"

section \<open>Reviews (services/review.py)\<close>

record review_request =
  rq_booking_id :: int
  rq_reviewee_id :: int
  rq_rating :: int
  rq_comment :: "string option"

definition review_request_valid :: "review_request \<Rightarrow> bool" where
  "review_request_valid q \<longleftrightarrow> 1 \<le> rq_rating q \<and> rq_rating q \<le> 5 \<and>
     (case rq_comment q of None \<Rightarrow> True | Some s \<Rightarrow> length s \<le> 1000)"

definition create_review :: "review_request \<Rightarrow> user \<Rightarrow> review svc" where
  "create_review q current_user = do {
     d \<leftarrow> gets db;
     case get_booking (rq_booking_id q) d of
       None \<Rightarrow> raise (HTTPException 404 ''Booking not found'')
     | Some b \<Rightarrow> deref (ride_of b d) (\<lambda>ride.
         let participants = {b_passenger_id b, r_driver_id ride};
             expected = (if u_id current_user = b_passenger_id b then r_driver_id ride else b_passenger_id b)
         in if u_id current_user \<notin> participants \<or> rq_reviewee_id q \<notin> participants
            then raise (HTTPException 403 ''Review not allowed'')
            else if b_status b \<noteq> BCompleted
            then raise (HTTPException 400 ''Reviews are only allowed after a completed trip'')
            else if rq_reviewee_id q = u_id current_user
            then raise (HTTPException 400 ''Users cannot review themselves'')
            else if rq_reviewee_id q \<noteq> expected
            then raise (HTTPException 400 ''Reviewee must be the other trip participant'')
            else if review_by_booking_and_reviewer (rq_booking_id q) (u_id current_user) d \<noteq> None
            then raise (HTTPException 409 ''Reviewer has already submitted feedback for this booking'')
            else or_rollback (do {
              r \<leftarrow> review_create \<lparr>w_id = 0, w_reviewer_id = u_id current_user,
                w_reviewee_id = rq_reviewee_id q, w_booking_id = rq_booking_id q, w_rating = rq_rating q,
                w_comment = rq_comment q, w_created_at = 0\<rparr>;
              on_ok r (\<lambda>saved. do {
                d \<leftarrow> gets db;
                r \<leftarrow> (case get_user (rq_reviewee_id q) d of
                    None \<Rightarrow> ok ()
                  | Some u \<Rightarrow> do {
                      r \<leftarrow> user_save (u\<lparr>u_rating := average_rating (rq_reviewee_id q) d\<rparr>);
                      on_ok r (\<lambda>_. ok ())
                    });
                on_ok r (\<lambda>_. do { commit; ok saved })
              })
            }))
   }"

section \<open>Profiles (services/user.py)\<close>

text \<open>
  \<open>model_dump(exclude_unset=True)\<close>: a field the client did not send is \<open>None\<close> here; one sent as
  null is \<open>Some None\<close>.
\<close>

record user_update =
  uu_full_name :: "string option option"
  uu_phone_number :: "string option option"
  uu_bio :: "string option option"

definition set_field :: "'v option \<Rightarrow> ('v \<Rightarrow> 'r \<Rightarrow> 'r) \<Rightarrow> 'r \<Rightarrow> 'r" where
  "set_field v f r = (case v of None \<Rightarrow> r | Some x \<Rightarrow> f x r)"

text \<open>A null name is refused by the column at the flush.\<close>

definition update_user :: "user \<Rightarrow> user_update \<Rightarrow> user svc" where
  "update_user current_user x =
     or_rollback (flush ''users'' (uu_full_name x \<noteq> Some None) (do {
       r \<leftarrow> user_save
         (set_field (uu_full_name x) (\<lambda>v u. u\<lparr>u_full_name := the v\<rparr>)
           (set_field (uu_phone_number x) (\<lambda>v u. u\<lparr>u_phone_number := v\<rparr>)
             (set_field (uu_bio x) (\<lambda>v u. u\<lparr>u_bio := v\<rparr>) current_user)));
       on_ok r (\<lambda>saved. do { commit; ok saved })
     }))"

record driver_verification_update =
  vu_vehicle_make :: "string option option"
  vu_vehicle_model :: "string option option"
  vu_vehicle_color :: "string option option"
  vu_vehicle_plate_number :: "string option option"
  vu_driver_license_number :: "string option option"

definition ensure_driver :: "user \<Rightarrow> unit svc" where
  "ensure_driver current_user =
     (if u_role current_user \<noteq> Driver
      then raise (HTTPException 403 ''Driver profile is only available for drivers'')
      else ok ())"

definition get_driver_verification_profile :: "user \<Rightarrow> user svc" where
  "get_driver_verification_profile current_user = do {
     r \<leftarrow> ensure_driver current_user;
     on_ok r (\<lambda>_. ok current_user)
   }"

definition apply_verification_update :: "driver_verification_update \<Rightarrow> instant \<Rightarrow> user \<Rightarrow> user" where
  "apply_verification_update x now u =
     (set_field (vu_vehicle_make x) (\<lambda>v u. u\<lparr>u_vehicle_make := v\<rparr>)
       (set_field (vu_vehicle_model x) (\<lambda>v u. u\<lparr>u_vehicle_model := v\<rparr>)
         (set_field (vu_vehicle_color x) (\<lambda>v u. u\<lparr>u_vehicle_color := v\<rparr>)
           (set_field (vu_vehicle_plate_number x) (\<lambda>v u. u\<lparr>u_vehicle_plate_number := v\<rparr>)
             (set_field (vu_driver_license_number x) (\<lambda>v u. u\<lparr>u_driver_license_number := v\<rparr>) u)))))
     \<lparr>u_driver_verification_status := VPending, u_driver_verification_rejection_reason := None,
      u_driver_profile_submitted_at := Some now, u_driver_profile_reviewed_at := None\<rparr>"

definition update_driver_verification_profile :: "user \<Rightarrow> driver_verification_update \<Rightarrow> user svc" where
  "update_driver_verification_profile current_user x = do {
     r \<leftarrow> ensure_driver current_user;
     on_ok r (\<lambda>_. or_rollback (do {
       now \<leftarrow> gets clock;
       r \<leftarrow> user_save (apply_verification_update x now current_user);
       on_ok r (\<lambda>saved. do {
         audit_entity ''driver_verification_profile_updated'' (u_id current_user) ''user'' (u_id current_user)
           [(''vehicle_make'', py_opt PyStr (u_vehicle_make saved)),
            (''vehicle_model'', py_opt PyStr (u_vehicle_model saved)),
            (''vehicle_plate_number'', py_opt PyStr (u_vehicle_plate_number saved))] False;
         commit;
         ok saved
       })
     }))
   }"

end
