(* ===== verification/Support.thy ===== *)
theory Support
  imports Community
begin

text \<open>
  The operators' side: src/app/services/support.py (behind the support token) and incident.py
  (reports by users, handled by support).
\<close>

section \<open>The support token\<close>

text \<open>Of a support request the services read the token header and the request id.\<close>

record support_request =
  st_token :: "string option"
  st_request_id :: "string option"

definition require_support_auth :: "env \<Rightarrow> support_request \<Rightarrow> unit svc" where
  "require_support_auth e q =
     (if \<not> SUPPORT_API_ENABLED (delivery e) then raise (HTTPException 404 ''Not found'')
      else if \<not> truthy (st_token q) \<or> st_token q \<noteq> SUPPORT_API_KEY (delivery e)
      then raise (HTTPException 401 ''Invalid support token'')
      else ok ())"

section \<open>Users (services/support.py)\<close>

record support_user =
  su_user :: user
  su_audit_summary :: audit_summary
  su_verification_history :: "audit_log list"

definition user_response :: "user \<Rightarrow> database \<Rightarrow> support_user" where
  "user_response u d =
     \<lparr>su_user = u, su_audit_summary = summarize_my_audit_logs u 10 d,
      su_verification_history =
        list_entity_audit_logs ''user'' (str_int (u_id u)) (Some ''driver_verification_'') 10 0 d\<rparr>"

definition support_get_user :: "env \<Rightarrow> int \<Rightarrow> support_request \<Rightarrow> support_user svc" where
  "support_get_user e user_id q = do {
     r \<leftarrow> require_support_auth e q;
     on_ok r (\<lambda>_. do {
       d \<leftarrow> gets db;
       case get_user user_id d of
         None \<Rightarrow> raise (HTTPException 404 ''User not found'')
       | Some u \<Rightarrow> ok (user_response u d)
     })
   }"

definition support_search_users :: "env \<Rightarrow> string option \<Rightarrow> support_request \<Rightarrow> support_user list svc" where
  "support_search_users e email q = do {
     r \<leftarrow> require_support_auth e q;
     on_ok r (\<lambda>_. do {
       d \<leftarrow> gets db;
       ok (map (\<lambda>u. user_response u d) (search_users email d))
     })
   }"

definition support_pending_driver_verifications ::
  "env \<Rightarrow> int \<Rightarrow> int \<Rightarrow> support_request \<Rightarrow> support_user list svc" where
  "support_pending_driver_verifications e limit offset q = do {
     r \<leftarrow> require_support_auth e q;
     on_ok r (\<lambda>_. do {
       d \<leftarrow> gets db;
       ok (map (\<lambda>u. user_response u d) (list_pending_driver_verifications limit offset d))
     })
   }"

definition support_driver_verifications ::
  "env \<Rightarrow> driver_verification_status option \<Rightarrow> string option \<Rightarrow> string option \<Rightarrow> int \<Rightarrow> int \<Rightarrow>
     support_request \<Rightarrow> support_user list svc" where
  "support_driver_verifications e st email plate limit offset q = do {
     r \<leftarrow> require_support_auth e q;
     on_ok r (\<lambda>_. do {
       d \<leftarrow> gets db;
       ok (map (\<lambda>u. user_response u d) (list_driver_verifications st email plate limit offset d))
     })
   }"

fun verification_status_value :: "driver_verification_status \<Rightarrow> string" where
  "verification_status_value VNot_required = ''not_required''"
| "verification_status_value VPending = ''pending''"
| "verification_status_value VVerified = ''verified''"
| "verification_status_value VRejected = ''rejected''"

definition enqueue_driver_verification_notification :: "env \<Rightarrow> user \<Rightarrow> unit act" where
  "enqueue_driver_verification_notification e u =
     (if u_driver_verification_status u = VVerified
      then enqueue_notification e (u_id u) NDriver_verification_approved ''Driver verification approved''
        ''Your driver profile is verified. You can now go online and accept ride requests.''
      else enqueue_notification e (u_id u) NDriver_verification_rejected ''Driver verification rejected''
        (if truthy (u_driver_verification_rejection_reason u)
         then the (u_driver_verification_rejection_reason u)
         else ''Your driver profile needs updates before approval.''))"

text \<open>One attempt; whatever it raises is logged.\<close>

definition publish_driver_verification_event :: "env \<Rightarrow> user \<Rightarrow> unit act" where
  "publish_driver_verification_event e u = do {
     redis_publish e (''dispatch:driver:'' @ str_int (u_id u)) (PyDict
       [(''event_type'', PyStr ''driver_verification_status_changed''),
        (''driver_verification_status'', PyStr (verification_status_value (u_driver_verification_status u))),
        (''driver_verification_rejection_reason'', py_opt PyStr (u_driver_verification_rejection_reason u)),
        (''driver_profile_reviewed_at'', py_opt (\<lambda>t. PyStr (isoformat t)) (u_driver_profile_reviewed_at u))]);
     State_Monad.return ()
   }"

definition review_driver_verification ::
  "env \<Rightarrow> int \<Rightarrow> driver_verification_status \<Rightarrow> string option \<Rightarrow> support_request \<Rightarrow> support_user svc" where
  "review_driver_verification e user_id st rejection_reason q = do {
     r \<leftarrow> require_support_auth e q;
     on_ok r (\<lambda>_.
       if st \<notin> {VVerified, VRejected}
       then raise (HTTPException 400 ''Driver verification can only be approved or rejected'')
       else if st = VRejected \<and> \<not> truthy rejection_reason
       then raise (HTTPException 400 ''Rejection reason is required'')
       else do {
         d \<leftarrow> gets db;
         now \<leftarrow> gets clock;
         case get_user user_id d of
           None \<Rightarrow> raise (HTTPException 404 ''Driver not found'')
         | Some u \<Rightarrow>
             if u_role u \<noteq> Driver then raise (HTTPException 404 ''Driver not found'')
             else do {
               r \<leftarrow> or_rollback (do {
                 r \<leftarrow> user_save (u\<lparr>u_driver_verification_status := st,
                   u_driver_verification_rejection_reason := (if st = VRejected then rejection_reason else None),
                   u_driver_profile_reviewed_at := Some now\<rparr>);
                 on_ok r (\<lambda>saved. do {
                   audit_request (st_request_id q) (''driver_verification_'' @ verification_status_value st) None
                     (Some ''user'') (Some (str_int (u_id saved))) ''info''
                     [(''driver_id'', PyInt (u_id saved)), (''status'', PyStr (verification_status_value st)),
                      (''rejection_reason'', py_opt PyStr (u_driver_verification_rejection_reason saved))] False;
                   commit;
                   ok saved
                 })
               });
               on_ok r (\<lambda>saved. do {
                 enqueue_driver_verification_notification e saved;
                 publish_driver_verification_event e saved;
                 d \<leftarrow> gets db;
                 ok (user_response saved d)
               })
             }
       })
   }"

section \<open>Payments and bookings (services/support.py)\<close>

definition support_list_payments ::
  "env \<Rightarrow> payment_status option \<Rightarrow> payment_provider option \<Rightarrow> int option \<Rightarrow> int option \<Rightarrow> int \<Rightarrow> int \<Rightarrow>
     support_request \<Rightarrow> payment list svc" where
  "support_list_payments e st prov booking_id payer_id limit offset q = do {
     r \<leftarrow> require_support_auth e q;
     on_ok r (\<lambda>_. do {
       d \<leftarrow> gets db;
       ok (payments_for_operations st prov booking_id payer_id limit offset d)
     })
   }"

definition support_reconcile_payment :: "env \<Rightarrow> int \<Rightarrow> support_request \<Rightarrow> decorated svc" where
  "support_reconcile_payment e payment_id q = do {
     r \<leftarrow> require_support_auth e q;
     on_ok r (\<lambda>_. do {
       r \<leftarrow> payment_service e (\<lambda>_. reconcile_payment e payment_id);
       on_ok r (\<lambda>x. case x of
           None \<Rightarrow> raise (HTTPException 404 ''Payment not found'')
         | Some y \<Rightarrow> do {
             audit_request (st_request_id q) ''support_payment_reconciled'' None (Some ''payment'')
               (Some (str_int (p_id (fst y)))) ''info''
               [(''booking_id'', PyInt (p_booking_id (fst y))),
                (''status'', PyStr (payment_status_value (p_status (fst y))))] True;
             ok y
           })
     })
   }"

definition support_list_bookings ::
  "env \<Rightarrow> booking_status option \<Rightarrow> int option \<Rightarrow> int option \<Rightarrow> int option \<Rightarrow> bool option \<Rightarrow> int \<Rightarrow> int \<Rightarrow>
     support_request \<Rightarrow> booking list svc" where
  "support_list_bookings e st driver_id passenger_id ride_id boarded limit offset q = do {
     r \<leftarrow> require_support_auth e q;
     on_ok r (\<lambda>_. do {
       d \<leftarrow> gets db;
       ok (bookings_for_operations st driver_id passenger_id ride_id boarded limit offset d)
     })
   }"

section \<open>Incidents (services/incident.py)\<close>

record incident_request =
  ir_ride_id :: "int option"
  ir_booking_id :: "int option"
  ir_ride_request_id :: "int option"
  ir_title :: string
  ir_description :: string
  ir_severity :: incident_severity

text \<open>The truth value of an optional id: \<open>None\<close> and 0 are false.\<close>

definition given_id :: "int option \<Rightarrow> bool" where
  "given_id i \<longleftrightarrow> (case i of None \<Rightarrow> False | Some k \<Rightarrow> k \<noteq> 0)"

definition incident_request_valid :: "incident_request \<Rightarrow> bool" where
  "incident_request_valid x \<longleftrightarrow>
     3 \<le> length (ir_title x) \<and> length (ir_title x) \<le> 140 \<and>
     10 \<le> length (ir_description x) \<and> length (ir_description x) \<le> 5000 \<and>
     (given_id (ir_ride_id x) \<or> given_id (ir_booking_id x) \<or> given_id (ir_ride_request_id x))"

definition can_access_booking :: "booking \<Rightarrow> ride \<Rightarrow> user \<Rightarrow> bool" where
  "can_access_booking b ride u \<longleftrightarrow> u_id u \<in> {b_passenger_id b, r_driver_id ride}"

definition can_access_ride :: "ride \<Rightarrow> user \<Rightarrow> database \<Rightarrow> bool" where
  "can_access_ride ride u d \<longleftrightarrow>
     r_driver_id ride = u_id u \<or> list_ex (\<lambda>b. b_passenger_id b = u_id u) (bookings_of_ride (r_id ride) d)"

definition can_access_ride_request :: "ride_request \<Rightarrow> user \<Rightarrow> bool" where
  "can_access_ride_request q u \<longleftrightarrow> q_passenger_id q = u_id u \<or> q_matched_driver_id q = Some (u_id u)"

definition ensure_context_access :: "incident_request \<Rightarrow> user \<Rightarrow> unit svc" where
  "ensure_context_access x current_user = do {
     d \<leftarrow> gets db;
     r \<leftarrow> (if \<not> given_id (ir_booking_id x) then ok ()
           else case get_booking (the (ir_booking_id x)) d of
               None \<Rightarrow> raise (HTTPException 404 ''Booking not found'')
             | Some b \<Rightarrow> deref (ride_of b d) (\<lambda>ride.
                 if can_access_booking b ride current_user then ok ()
                 else raise (HTTPException 404 ''Booking not found'')));
     on_ok r (\<lambda>_. do {
       r \<leftarrow> (if \<not> given_id (ir_ride_id x) then ok ()
             else case get_ride (the (ir_ride_id x)) d of
                 None \<Rightarrow> raise (HTTPException 404 ''Ride not found'')
               | Some ride \<Rightarrow>
                   if can_access_ride ride current_user d then ok ()
                   else raise (HTTPException 404 ''Ride not found''));
       on_ok r (\<lambda>_.
         if \<not> given_id (ir_ride_request_id x) then ok ()
         else case get_request (the (ir_ride_request_id x)) d of
             None \<Rightarrow> raise (HTTPException 404 ''Ride request not found'')
           | Some q \<Rightarrow>
               if can_access_ride_request q current_user then ok ()
               else raise (HTTPException 404 ''Ride request not found''))
     })
   }"

fun incident_severity_value :: "incident_severity \<Rightarrow> string" where
  "incident_severity_value SLow = ''low''"
| "incident_severity_value SMedium = ''medium''"
| "incident_severity_value SHigh = ''high''"
| "incident_severity_value SEmergency = ''emergency''"

fun incident_status_value :: "incident_status \<Rightarrow> string" where
  "incident_status_value IOpen = ''open''"
| "incident_status_value IReviewing = ''reviewing''"
| "incident_status_value IResolved = ''resolved''"
| "incident_status_value IDismissed = ''dismissed''"

definition create_incident :: "incident_request \<Rightarrow> user \<Rightarrow> incident_report svc" where
  "create_incident x current_user = do {
     r \<leftarrow> ensure_context_access x current_user;
     on_ok r (\<lambda>_. or_rollback (do {
       now \<leftarrow> gets clock;
       r \<leftarrow> incident_create \<lparr>i_id = 0, i_reporter_id = u_id current_user, i_ride_id = ir_ride_id x,
         i_booking_id = ir_booking_id x, i_ride_request_id = ir_ride_request_id x, i_title = ir_title x,
         i_description = ir_description x, i_severity = ir_severity x, i_status = IOpen,
         i_support_notes = None, i_resolved_at = None, i_created_at = 0, i_updated_at = now\<rparr>;
       on_ok r (\<lambda>saved. do {
         audit_record ''incident_report_created'' (Some (u_id current_user)) (Some ''incident_report'')
           (Some (str_int (i_id saved)))
           (if ir_severity x \<in> {SHigh, SEmergency} then ''warning'' else ''info'')
           [(''ride_id'', py_opt PyInt (i_ride_id saved)), (''booking_id'', py_opt PyInt (i_booking_id saved)),
            (''ride_request_id'', py_opt PyInt (i_ride_request_id saved)),
            (''incident_severity'', PyStr (incident_severity_value (i_severity saved)))] False;
         commit;
         ok saved
       })
     }))
   }"

definition list_my_incidents :: "user \<Rightarrow> int \<Rightarrow> int \<Rightarrow> database \<Rightarrow> incident_report list" where
  "list_my_incidents current_user limit offset d = incidents_for_reporter (u_id current_user) limit offset d"

definition get_my_incident :: "int \<Rightarrow> user \<Rightarrow> incident_report svc" where
  "get_my_incident incident_id current_user = do {
     d \<leftarrow> gets db;
     case get_incident incident_id d of
       None \<Rightarrow> raise (HTTPException 404 ''Incident report not found'')
     | Some i \<Rightarrow>
         if i_reporter_id i \<noteq> u_id current_user
         then raise (HTTPException 404 ''Incident report not found'')
         else ok i
   }"

definition list_incidents_for_support ::
  "env \<Rightarrow> incident_status option \<Rightarrow> int option \<Rightarrow> int option \<Rightarrow> int option \<Rightarrow> int \<Rightarrow> int \<Rightarrow>
     support_request \<Rightarrow> incident_report list svc" where
  "list_incidents_for_support e st reporter_id ride_id booking_id limit offset q = do {
     r \<leftarrow> require_support_auth e q;
     on_ok r (\<lambda>_. do {
       d \<leftarrow> gets db;
       ok (incidents_for_support st reporter_id ride_id booking_id limit offset d)
     })
   }"

definition update_support_status ::
  "env \<Rightarrow> int \<Rightarrow> incident_status \<Rightarrow> string option \<Rightarrow> support_request \<Rightarrow> incident_report svc" where
  "update_support_status e incident_id st support_notes q = do {
     r \<leftarrow> require_support_auth e q;
     on_ok r (\<lambda>_. do {
       d \<leftarrow> gets db;
       now \<leftarrow> gets clock;
       case get_incident incident_id d of
         None \<Rightarrow> raise (HTTPException 404 ''Incident report not found'')
       | Some i \<Rightarrow> do {
           r \<leftarrow> or_rollback (do {
             r \<leftarrow> incident_save (i\<lparr>i_status := st, i_support_notes := support_notes, i_updated_at := now,
               i_resolved_at := (if st \<in> {IResolved, IDismissed} then Some now else None)\<rparr>);
             on_ok r (\<lambda>saved. do {
               audit_request (st_request_id q) (''incident_report_'' @ incident_status_value st) None
                 (Some ''incident_report'') (Some (str_int (i_id saved))) ''info''
                 [(''status'', PyStr (incident_status_value st)),
                  (''support_notes'', py_opt PyStr support_notes)] False;
               commit;
               ok saved
             })
           });
           on_ok r (\<lambda>saved. do {
             enqueue_notification e (i_reporter_id saved) NIncident_updated ''Incident report updated''
               (''Your incident report is now '' @ incident_status_value (i_status saved) @ ''.'');
             ok saved
           })
         }
     })
   }"

end
