(* ===== verification/Maintenance.thy ===== *)
theory Maintenance
  imports Auth Support
begin

text \<open>
  src/app/services/maintenance_jobs.py, and the call of a queued job's closure by the worker:
  \<open>run_job\<close> takes each constructor of \<open>job_handler\<close> to the closure that built it.
\<close>

section \<open>Scheduling\<close>

text \<open>
  \<open>enqueue_job_housekeeping\<close>; the flag says whether a session factory was passed.
\<close>

definition enqueue_job_housekeeping :: "env \<Rightarrow> bool \<Rightarrow> int option \<Rightarrow> unit act" where
  "enqueue_job_housekeeping e with_session user_id = do {
     (case user_id of None \<Rightarrow> State_Monad.return () | Some i \<Rightarrow> enqueue_session_cleanup e i);
     if with_session then do {
       j \<leftarrow> new_job ''housekeeping:heartbeat'' Database_heartbeat (JOB_WORKER_MAX_RETRIES (feat e));
       enqueue j;
       enqueue_dispatch_request_expiry e 500;
       enqueue_dispatch_dismissal_cleanup e (DISPATCH_DISMISSAL_RETENTION_DAYS (feat e));
       enqueue_dispatch_presence_cleanup e (DISPATCH_PRESENCE_RETENTION_HOURS (feat e))
     } else State_Monad.return ()
   }"

definition enqueue_due_trip_reminders :: "env \<Rightarrow> int \<Rightarrow> int \<Rightarrow> unit act" where
  "enqueue_due_trip_reminders e window_minutes limit = in_session (do {
     now \<leftarrow> gets clock;
     d \<leftarrow> gets db;
     for_each (enqueue_trip_reminder_email e)
       (accepted_departures_within now (now + minutes window_minutes) limit d)
   })"

section \<open>The closures\<close>

definition run_cleanup_audit_logs :: "int \<Rightarrow> unit svc" where
  "run_cleanup_audit_logs retention_days = in_session (do {
     delete_audit_older_than retention_days;
     commit;
     ok ()
   })"

definition run_cleanup_sessions :: "int \<Rightarrow> unit svc" where
  "run_cleanup_sessions user_id = do {
     on_tokens (\<lambda>now. revoke_user_sessions now user_id);
     ok ()
   }"

text \<open>
  \<open>db.execute("SELECT 1")\<close>: SQLAlchemy 2 does not execute a plain string, it raises
  \<open>ObjectNotExecutableError\<close>.
\<close>

definition run_database_heartbeat :: "unit svc" where
  "run_database_heartbeat = in_session (raise (TypeError ''ObjectNotExecutableError''))"

fun run_job :: "env \<Rightarrow> job_handler \<Rightarrow> unit svc" where
  "run_job e (Create_notification recipient_id ty title body) =
     run_create_notification recipient_id ty title body"
| "run_job e (Retry_capture payment_id) = run_retry_capture e payment_id"
| "run_job e (Retry_refund payment_id) = run_retry_refund e payment_id"
| "run_job e (Reconcile payment_id) = run_reconcile e payment_id"
| "run_job e (Send_reminder passenger ride) = run_send_reminder e passenger ride"
| "run_job e (Send_email to subj body) = send_email e to subj body"
| "run_job e (Send_verification to full_name token) = run_send_verification e to full_name token"
| "run_job e (Expire_requests limit) = run_expire_requests e limit"
| "run_job e (Cleanup_dismissals n) = run_cleanup_dismissals n"
| "run_job e (Cleanup_presence n) = run_cleanup_presence n"
| "run_job e (Cleanup_locations n) = run_cleanup_locations e n"
| "run_job e (Cleanup_audit_logs n) = run_cleanup_audit_logs n"
| "run_job e (Cleanup_sessions user_id) = run_cleanup_sessions user_id"
| "run_job e Database_heartbeat = run_database_heartbeat"

text \<open>The worker of a running application.\<close>

definition job_worker :: "env \<Rightarrow> unit act" where
  "job_worker e = worker_turn (feat e) (run_job e)"

end
