(* ===== verification/Periphery.thy ===== *)
theory Periphery
  imports Core Maintenance
begin

text \<open>
  The actions that do not change a ride, a booking or a payment: everything they write is
  \<open>peripheral\<close>. First the actions that do not touch the database at all, then the repositories of
  the other tables, then the services built from them.
\<close>

named_theorems writing \<open>rules and facts for \<open>writes\<close>\<close>

lemmas [writing] = writes_return writes_gets writes_raise writes_ok writes_commit writes_rollback
  writes_bind writes_on_ok writes_if writes_Let writes_case_option writes_case_sum writes_case_prod
  writes_case_exc writes_deref writes_flush writes_handle writes_or_rollback writes_for_each
  writes_for_each_ok writes_in_session

section \<open>Beside the database\<close>

lemma writes_quiet_actions [writing]:
  "writes R (record_payment a b)" "writes R (record_dispatch a b n)" "writes R (record_auth a b)"
  "writes R (record_job_metric a b)" "writes R (record_exception a)"
  "writes R (new_job name h k)" "writes R (enqueue j)" "writes R (http_request e m p js)"
  "writes R (gw_create_payment e g t1 t2 am cu re)" "writes R (gw_reconcile_payment e g i)"
  "writes R (gw_confirm_payment e g i)" "writes R (gw_capture_payment e g i am cu)"
  "writes R (gw_refund_payment e g i am)" "writes R (set_jobs q)"
  by (rule writes_quiet; rule frame; simp)+

lemma writes_record_events [writing]:
  "writes R (record_event j st err)" "writes R (record_success j)" "writes R (record_retry j)"
  "writes R (record_failure j)" "writes R (put_job j)"
  by (rule writes_quiet; rule frame; simp)+

lemma writes_on_tokens [writing]: "writes R (on_tokens f)"
  unfolding on_tokens_def by (rule writes_modify) simp_all

lemma writes_redis_publish [writing]: "writes R (redis_publish e c m)"
  unfolding redis_publish_def by (auto intro!: writing writes_modify)

lemma writes_publish [writing]: "writes R (publish e c m)"
  unfolding publish_def by (auto intro!: writing split: redis_reply.split)

lemma writes_chat_publish [writing]: "writes R (chat_publish e b m)"
  unfolding chat_publish_def by (auto intro!: writing split: redis_reply.split)

lemma writes_send_email [writing]: "writes R (send_email e to s b)"
  unfolding send_email_def by (auto intro!: writing writes_modify)

lemma writes_enqueues [writing]:
  "writes R (enqueue_notification e u t a b)" "writes R (enqueue_dispatch_notification e u t a b)"
  "writes R (enqueue_payment_capture_retry e i)" "writes R (enqueue_payment_refund_retry e i)"
  "writes R (enqueue_payment_reconciliation e i)" "writes R (enqueue_trip_reminder_email e bk)"
  "writes R (enqueue_location_cleanup e k)" "writes R (enqueue_dispatch_request_expiry e n)"
  "writes R (enqueue_dispatch_dismissal_cleanup e n)" "writes R (enqueue_dispatch_presence_cleanup e n)"
  "writes R (queue_verification_email e us tok)" "writes R (enqueue_session_cleanup e n)"
  "writes R (enqueue_audit_log_retention e n)" "writes R (enqueue_driver_verification_notification e us)"
  unfolding enqueue_notification_def enqueue_dispatch_notification_def enqueue_payment_capture_retry_def
    enqueue_payment_refund_retry_def enqueue_payment_reconciliation_def enqueue_trip_reminder_email_def
    enqueue_location_cleanup_def enqueue_dispatch_request_expiry_def enqueue_dispatch_dismissal_cleanup_def
    enqueue_dispatch_presence_cleanup_def queue_verification_email_def enqueue_session_cleanup_def
    enqueue_audit_log_retention_def enqueue_driver_verification_notification_def
  by (auto intro!: writing)

lemma writes_publish_events [writing]:
  "writes R (publish_driver_event e u m)" "writes R (publish_passenger_event e u m)"
  "writes R (publish_nearby_request_created e q)" "writes R (publish_nearby_request_removed e q s)"
  "writes R (record_dispatch_event a c)"
  unfolding publish_driver_event_def publish_passenger_event_def publish_nearby_request_created_def
    publish_nearby_request_removed_def record_dispatch_event_def
  by (auto intro!: writing)

section \<open>The repositories of the peripheral tables\<close>

lemma peripheral_creates [writing]:
  "writes peripheral (user_create u)" "writes peripheral (location_create l)"
  "writes peripheral (event_create ev)" "writes peripheral (request_create q)"
  "writes peripheral (dismissal_create dm)" "writes peripheral (notification_create n)"
  "writes peripheral (message_create m)" "writes peripheral (review_create r)"
  "writes peripheral (incident_create i)" "writes peripheral (audit_create a)"
  by (auto simp: writes_def user_create_def location_create_def event_create_def request_create_def
      dismissal_create_def notification_create_def message_create_def review_create_def
      incident_create_def audit_create_def flush_def Let_def intro!: moves_write peripheral_adds)

lemma peripheral_saves [writing]:
  "writes peripheral (user_save u)" "writes peripheral (request_save q)"
  "writes peripheral (incident_save i)"
  unfolding user_save_def request_save_def incident_save_def
  by (auto intro!: writing writes_write)

lemma peripheral_write_puts [writing]:
  "writes peripheral (write_db (put_user u))" "writes peripheral (write_db (put_payment_event ev))"
  "writes peripheral (write_db (put_availability v))" "writes peripheral (write_db (put_notification n))"
  "writes peripheral (write_db (put_message m))"
  by (auto intro!: writes_write)

lemma peripheral_availability [writing]:
  "writes peripheral (upsert_driver_availability v)" "writes peripheral (touch_driver_availability k)"
  by (auto simp: writes_def upsert_driver_availability_def touch_driver_availability_def flush_def Let_def
      split: option.split intro!: moves_write peripheral_adds)

lemma peripheral_removes [writing]:
  "writes peripheral (delete_locations_older_than t)" "writes peripheral (delete_dismissals_older_than t)"
  "writes peripheral (delete_availability_older_than t)" "writes peripheral (delete_audit_where P)"
  "writes peripheral (delete_audit_older_than n)"
  unfolding delete_locations_older_than_def delete_dismissals_older_than_def
    delete_availability_older_than_def delete_audit_where_def delete_audit_older_than_def
  by (auto intro!: writing writes_write)

lemma peripheral_marks [writing]:
  "writes peripheral (mark_all_read u t)" "writes peripheral (mark_seen ms t)"
  unfolding mark_all_read_def mark_seen_def by (auto intro!: writing)

lemma peripheral_audit [writing]: "writes peripheral (audit_request rq a u t i s m c)"
  unfolding audit_request_def by (auto intro!: writing)

section \<open>The services\<close>

lemma peripheral_notification [writing]:
  "writes peripheral (create_notification k ty a b)"
    "writes peripheral (list_notifications u x y l f)"
    "writes peripheral (mark_as_read k u)"
    "writes peripheral (mark_all_as_read u)"
    "writes peripheral (list_user_audit_logs u k l f)"
    "writes peripheral (purge_older_than n)"
    "writes peripheral (cleanup_my_audit_logs u n)"
  unfolding create_notification_def list_notifications_def mark_as_read_def mark_all_as_read_def
    list_user_audit_logs_def purge_older_than_def cleanup_my_audit_logs_def
  by (auto intro!: writing)

lemma peripheral_run_notification [writing]: "writes peripheral (run_create_notification k ty a b)"
  unfolding run_create_notification_def by (auto intro!: writing)

lemma peripheral_tokens [writing]:
  "writes peripheral (revoke_token_from_payload cs)"
    "writes peripheral (decode_expected_token e t ty)"
    "writes peripheral (get_current_user e t)"
    "writes peripheral (issue_token_pair e j1 j2 sub ua ip)"
    "writes peripheral (run_send_verification e to nm tok)"
  unfolding revoke_token_from_payload_def decode_expected_token_def get_current_user_def
    issue_token_pair_def run_send_verification_def
  by (auto intro!: writing split: exc.split)

lemma peripheral_register [writing]:
  "writes peripheral (register e salt jti rr)"
    "writes peripheral (resend_verification e jti em)"
    "writes peripheral (verify_email e tok)"
  unfolding register_def resend_verification_def verify_email_def
  by (auto intro!: writing)

lemma peripheral_lockout [writing]:
  "writes peripheral (ensure_login_not_locked u)"
    "writes peripheral (record_failed_login e u)"
    "writes peripheral (clear_failed_logins u)"
  unfolding ensure_login_not_locked_def record_failed_login_def clear_failed_logins_def
  by (auto intro!: writing)

lemma peripheral_login [writing]:
  "writes peripheral (login e j1 j2 em pw c)"
    "writes peripheral (refresh e j1 j2 tok c)"
    "writes peripheral (logout e tok rt)"
  unfolding login_def refresh_def logout_def
  by (auto intro!: writing)

lemma peripheral_password [writing]:
  "writes peripheral (forgot_password e jti em)"
    "writes peripheral (reset_password e salt tok pw)"
    "writes peripheral (change_password e salt pw pw2 u tok)"
  unfolding forgot_password_def reset_password_def change_password_def
  by (auto intro!: writing)

lemma peripheral_sessions [writing]:
  "writes peripheral (list_account_sessions u j)"
    "writes peripheral (revoke_session u sj)"
    "writes peripheral (revoke_other_sessions u j)"
  unfolding list_account_sessions_def revoke_session_def revoke_other_sessions_def
  by (auto intro!: writing)

lemma peripheral_chat [writing]:
  "writes peripheral (ensure_booking_access k u)"
  unfolding ensure_booking_access_def
  by (auto intro!: writing)

lemma peripheral_messages [writing]:
  "writes peripheral (save_message e k c u)"
    "writes peripheral (list_messages k u)"
    "writes peripheral (mark_messages_seen e k u)"
    "writes peripheral (publish_typing e k u b)"
  unfolding save_message_def list_messages_def mark_messages_seen_def publish_typing_def
  by (auto intro!: writing)

lemma peripheral_review [writing]:
  "writes peripheral (create_review q u)"
  unfolding create_review_def
  by (auto intro!: writing)

lemma peripheral_profile [writing]:
  "writes peripheral (update_user u x)"
    "writes peripheral (ensure_driver u)"
    "writes peripheral (get_driver_verification_profile u)"
    "writes peripheral (update_driver_verification_profile u v)"
  unfolding update_user_def ensure_driver_def get_driver_verification_profile_def
    update_driver_verification_profile_def
  by (auto intro!: writing)

lemma peripheral_presence [writing]:
  "writes peripheral (ensure_verified_for_dispatch u)"
    "writes peripheral (upsert_driver_presence pr u)"
    "writes peripheral (get_driver_presence e u)"
    "writes peripheral (touch_driver_presence k)"
    "writes peripheral (get_fresh_driver_availability e k)"
    "writes peripheral (expire_request e q)"
  unfolding ensure_verified_for_dispatch_def upsert_driver_presence_def get_driver_presence_def
    touch_driver_presence_def get_fresh_driver_availability_def expire_request_def
  by (auto intro!: writing)

lemma peripheral_expiry [writing]:
  "writes peripheral (expire_stale_open_requests e n)"
  unfolding expire_stale_open_requests_def
  by (auto intro!: writing)

lemma peripheral_requests [writing]:
  "writes peripheral (create_request e f u)"
    "writes peripheral (list_my_requests e u)"
    "writes peripheral (list_nearby_requests e u n)"
    "writes peripheral (decline_request e k u)"
    "writes peripheral (cancel_request e k u)"
  unfolding create_request_def list_my_requests_def list_nearby_requests_def decline_request_def
    cancel_request_def
  by (auto intro!: writing)

lemma peripheral_cleanups [writing]:
  "writes peripheral (cleanup_driver_request_dismissals n)"
    "writes peripheral (cleanup_stale_driver_availability n)"
    "writes peripheral (cleanup_old_locations e rd)"
  unfolding cleanup_driver_request_dismissals_def cleanup_stale_driver_availability_def
    cleanup_old_locations_def
  by (auto intro!: writing)

lemma peripheral_support [writing]:
  "writes peripheral (require_support_auth e sq)"
    "writes peripheral (publish_driver_verification_event e u)"
  unfolding require_support_auth_def publish_driver_verification_event_def
  by (auto intro!: writing)

lemma peripheral_support_users [writing]:
  "writes peripheral (support_get_user e k sq)"
    "writes peripheral (support_search_users e em sq)"
    "writes peripheral (support_pending_driver_verifications e l f sq)"
    "writes peripheral (support_driver_verifications e st em pl l f sq)"
    "writes peripheral (review_driver_verification e k nst why sq)"
  unfolding support_get_user_def support_search_users_def support_pending_driver_verifications_def
    support_driver_verifications_def review_driver_verification_def
  by (auto intro!: writing)

lemma peripheral_support_reads [writing]:
  "writes peripheral (support_list_payments e st pv x y l f sq)"
    "writes peripheral (support_list_bookings e bs x y z bo l f sq)"
    "writes peripheral (list_incidents_for_support e is x y z l f sq)"
    "writes peripheral (update_support_status e k nis notes sq)"
  unfolding support_list_payments_def support_list_bookings_def list_incidents_for_support_def
    update_support_status_def
  by (auto intro!: writing)

lemma peripheral_incident [writing]:
  "writes peripheral (ensure_context_access x u)"
  unfolding ensure_context_access_def
  by (auto intro!: writing)

lemma peripheral_incidents [writing]:
  "writes peripheral (create_incident x u)"
    "writes peripheral (get_my_incident k u)"
  unfolding create_incident_def get_my_incident_def
  by (auto intro!: writing)

lemma peripheral_jobs [writing]:
  "writes peripheral (run_expire_requests e n)"
    "writes peripheral (run_cleanup_dismissals n)"
    "writes peripheral (run_cleanup_presence n)"
    "writes peripheral (run_cleanup_audit_logs n)"
    "writes peripheral (run_cleanup_sessions n)"
    "writes peripheral (run_database_heartbeat)"
    "writes peripheral (run_send_reminder e ou r)"
    "writes peripheral (enqueue_job_housekeeping e b oi)"
    "writes peripheral (enqueue_due_trip_reminders e n m)"
  unfolding run_expire_requests_def run_cleanup_dismissals_def run_cleanup_presence_def
    run_cleanup_audit_logs_def run_cleanup_sessions_def run_database_heartbeat_def
    run_send_reminder_def enqueue_job_housekeeping_def enqueue_due_trip_reminders_def
  by (auto intro!: writing)

end
