(* ===== verification/CoreSteps.thy ===== *)
theory CoreSteps
  imports Periphery
begin

text \<open>
  The handlers that change rides, bookings or payments write along \<open>core_step\<close>. Such a handler loads
  its rows, decides, and writes; what it decides depends on the database it loaded from, so the rules
  carry that database: \<open>writes_at R d m\<close> is \<open>m\<close> started where the session's database is \<open>d\<close>.
\<close>

definition writes_at :: "(database \<Rightarrow> database \<Rightarrow> bool) \<Rightarrow> database \<Rightarrow> 'a act \<Rightarrow> bool" where
  "writes_at R d m \<longleftrightarrow> obeys R (\<lambda>w. db w = d) m (\<lambda>_ _. True)"

lemma writes_iff_at: "writes R m \<longleftrightarrow> (\<forall>d. writes_at R d m)"
  by (auto simp: writes_at_def writes_def obeys_def split_beta)

named_theorems stepping \<open>rules for \<open>writes_at\<close>\<close>

lemma writes_at_writes: "writes R m \<Longrightarrow> writes_at R d m"
  by (simp add: writes_iff_at)

lemma writes_at_db [stepping]: "writes_at R d (k d) \<Longrightarrow> writes_at R d (State_Monad.bind (gets db) k)"
  by (auto simp: writes_at_def obeys_def)

lemma writes_at_clock [stepping]:
  "(\<And>t. writes_at R d (k t)) \<Longrightarrow> writes_at R d (State_Monad.bind (gets clock) k)"
  by (auto simp: writes_at_def obeys_def)

lemma writes_at_keep:
  assumes "keeps db m" and "writes R m" and "\<And>x. writes_at R d (k x)"
  shows "writes_at R d (State_Monad.bind m k)"
  unfolding writes_at_def
  by (rule obeys_bind_keep [where f = db and P = "\<lambda>x. x = d", OF assms(2,1)])
    (rule assms(3) [unfolded writes_at_def])

lemma writes_at_last:
  assumes "writes_at R d m" and "\<And>x. writes R (k x)"
  shows "writes_at R d (State_Monad.bind m k)"
  unfolding writes_at_def
  by (rule obeys_bind [OF assms(1) [unfolded writes_at_def]]) (rule obeys_writes [OF assms(2)])

lemma writes_at_on_ok [stepping]: "(\<And>x. r = Inr x \<Longrightarrow> writes_at R d (k x)) \<Longrightarrow> writes_at R d (on_ok r k)"
  by (cases r) (auto intro: writes_at_writes writes_raise)

lemma writes_at_if [stepping]:
  "(b \<Longrightarrow> writes_at R d m) \<Longrightarrow> (\<not> b \<Longrightarrow> writes_at R d n) \<Longrightarrow> writes_at R d (if b then m else n)"
  by simp

lemma writes_at_Let [stepping]: "(\<And>x. x = t \<Longrightarrow> writes_at R d (m x)) \<Longrightarrow> writes_at R d (Let t m)"
  by simp

lemma writes_at_case_option [stepping]:
  "(r = None \<Longrightarrow> writes_at R d m) \<Longrightarrow> (\<And>x. r = Some x \<Longrightarrow> writes_at R d (n x)) \<Longrightarrow>
     writes_at R d (case r of None \<Rightarrow> m | Some x \<Rightarrow> n x)"
  by (cases r) simp_all

lemma writes_at_deref [stepping]:
  "(\<And>x. r = Some x \<Longrightarrow> writes_at R d (k x)) \<Longrightarrow> writes_at R d (deref r k)"
  by (cases r) (auto intro: writes_at_writes writes_raise)

lemma writes_at_or_rollback [stepping]: "writes_at R d m \<Longrightarrow> writes_at R d (or_rollback m)"
  unfolding writes_at_def by (rule obeys_or_rollback)

lemma writes_at_raise [stepping]: "writes_at R d (raise x)"
  and writes_at_ok [stepping]: "writes_at R d (ok y)"
  by (rule writes_at_writes, rule writing)+

lemma writes_at_gateway_error [stepping]:
  "writes_at R d m \<Longrightarrow> writes_at R d (or_gateway_error s m)"
  unfolding or_gateway_error_def handle_def
  by (rule writes_at_last) (auto intro!: writing)

lemma writes_at_case_sum [stepping]:
  "(\<And>x. r = Inl x \<Longrightarrow> writes_at R d (m x)) \<Longrightarrow> (\<And>x. r = Inr x \<Longrightarrow> writes_at R d (n x)) \<Longrightarrow>
     writes_at R d (case r of Inl x \<Rightarrow> m x | Inr x \<Rightarrow> n x)"
  by (cases r) simp_all

lemma writes_at_case_exc [stepping]:
  "(\<And>a b. x = PaymentProviderError a b \<Longrightarrow> writes_at R d (m a b)) \<Longrightarrow>
     writes_at R d (case x of HTTPException i s \<Rightarrow> raise (HTTPException i s) | PaymentProviderError a b \<Rightarrow> m a b
       | RuntimeError s \<Rightarrow> raise (RuntimeError s) | KeyError s \<Rightarrow> raise (KeyError s)
       | IndexError s \<Rightarrow> raise (IndexError s) | AttributeError s \<Rightarrow> raise (AttributeError s)
       | TypeError s \<Rightarrow> raise (TypeError s) | ValueError s \<Rightarrow> raise (ValueError s)
       | IntegrityError s \<Rightarrow> raise (IntegrityError s)
       | AIProviderError s \<Rightarrow> raise (AIProviderError s) | ValidationError s \<Rightarrow> raise (ValidationError s))"
  by (cases x) (auto intro: writes_at_writes writes_raise)

lemma core_audit [writing]: "writes core_step (audit_request rq a u t i s m c)"
  by (intro peripheral_writes writing)

lemma core_create_notification [writing]: "writes core_step (create_notification k ty a b)"
  by (intro peripheral_writes writing)

lemma writes_at_then:
  assumes "writes_at R d m"
    and "\<And>r w w'. db w = d \<Longrightarrow> run_state m w = (r, w') \<Longrightarrow> writes_at R (db w') (k r)"
  shows "writes_at R d (State_Monad.bind m k)"
  unfolding writes_at_def
proof (rule obeysI)
  fix w x w'
  assume d: "db w = d" and run: "run_state (State_Monad.bind m k) w = (x, w')"
  obtain r v where m: "run_state m w = (r, v)" by fastforce
  with assms(1) d have "moves R w v" by (auto simp: writes_at_def dest: obeysD)
  moreover have "moves R v w'"
    using assms(2) [OF d m] run m by (auto simp: writes_at_def obeys_def split_beta)
  ultimately show "moves R w w'" by (rule moves_trans)
qed simp

section \<open>Payments\<close>

lemma writes_commit_if [writing]: "writes R (commit_if b)"
  unfolding commit_if_def by (auto intro!: writing)

lemma keeps_attempt: "(\<And>i. keeps F (f i)) \<Longrightarrow> keeps F (attempt pid f)"
  unfolding attempt_def by (auto intro!: frame split: option.split exc.split)

lemma writes_attempt: "(\<And>i. writes R (f i)) \<Longrightarrow> writes R (attempt pid f)"
  unfolding attempt_def by (auto intro!: writing split: option.split exc.split)

lemma keeps_payment_gateway [frame]:
  assumes "\<And>w l. F (w\<lparr>http_log := l\<rparr>) = F w"
  shows "keeps F (reconcile_provider_reference e p)" "keeps F (try_capture e gw p)"
    "keeps F (try_refund e gw p)"
  unfolding reconcile_provider_reference_def try_capture_def try_refund_def
  by (auto intro!: frame keeps_attempt assms)

lemma writes_payment_gateway [writing]:
  "writes R (reconcile_provider_reference e p)" "writes R (try_capture e gw p)"
  "writes R (try_refund e gw p)" "writes R (decorate_payment e p)"
  unfolding reconcile_provider_reference_def try_capture_def try_refund_def decorate_payment_def
  by (auto intro!: writing writes_attempt)

lemma writes_decorate_payments [writing]: "writes R (decorate_payments e ps)"
  by (induction ps) (auto intro!: writing)

text \<open>A row that may replace one of the stored payments.\<close>

definition payment_base :: "database \<Rightarrow> payment \<Rightarrow> bool" where
  "payment_base d x \<longleftrightarrow> (\<exists>p. has_payment p d \<and> payment_moves p x)"

lemma payment_baseI: "has_payment p d \<Longrightarrow> payment_moves p x \<Longrightarrow> payment_base d x"
  by (auto simp: payment_base_def)

lemma writes_at_payment_save [stepping]:
  assumes "payment_base d x" and "\<And>r. writes core_step (k r)"
  shows "writes_at core_step d (State_Monad.bind (payment_save x) k)"
proof (rule writes_at_last [OF _ assms(2)])
  from assms(1) obtain p where "has_payment p d" "payment_moves p x" by (auto simp: payment_base_def)
  then show "writes_at core_step d (payment_save x)"
    unfolding writes_at_def by (intro obeys_pre [OF payment_save_step]) auto
qed

text \<open>What asking the gateway does to the row: its identity stays, a status that is open may become final.\<close>

lemma reconcile_moves:
  assumes "run_state (reconcile_provider_reference e p) w = (Inr p1, w')" and "\<not> payment_final (p_status p)"
  shows "payment_moves p p1"
  using assms
  by (auto simp: reconcile_provider_reference_def provider_for_payment_def run_on_ok payment_moves_def Let_def
      split: if_splits sum.splits prod.splits)

lemma writes_at_reconcile [stepping]:
  assumes "\<not> payment_final (p_status p)"
    and "\<And>r. (\<And>p1. r = Inr p1 \<Longrightarrow> payment_moves p p1) \<Longrightarrow> writes_at R d (k r)"
  shows "writes_at R d (State_Monad.bind (reconcile_provider_reference e p) k)"
  unfolding writes_at_def
proof (rule obeysI)
  fix w x w'
  assume d: "db w = d" and run: "run_state (State_Monad.bind (reconcile_provider_reference e p) k) w = (x, w')"
  obtain r v where m: "run_state (reconcile_provider_reference e p) w = (r, v)" by fastforce
  have "keeps db (reconcile_provider_reference e p)" by (rule frame) simp
  from keepsD [OF this m] d have v: "db v = d" by simp
  have "writes_at R d (k r)"
    by (rule assms(2)) (use reconcile_moves [OF _ assms(1)] m in blast)
  with v m run have "moves R v w'" by (auto simp: writes_at_def obeys_def split_beta)
  moreover have "moves R w v" by (rule writesD [OF _ m]) (rule writing)
  ultimately show "moves R w w'" by (blast intro: moves_trans)
qed simp

lemma writes_at_gateway [stepping]:
  assumes "\<And>x. writes_at R d (k x)"
  shows "writes_at R d (State_Monad.bind (try_capture e gw p) k)"
    "writes_at R d (State_Monad.bind (try_refund e gw p) k)"
  by (rule writes_at_keep; (rule frame | rule writing | rule assms); simp)+

lemma writes_at_gw [stepping]:
  "(\<And>x. writes_at R d (k1 x)) \<Longrightarrow> writes_at R d (State_Monad.bind (gw_create_payment e g t1 t2 am cu re) k1)"
  "(\<And>x. writes_at R d (k2 x)) \<Longrightarrow> writes_at R d (State_Monad.bind (gw_reconcile_payment e g i) k2)"
  "(\<And>x. writes_at R d (k2 x)) \<Longrightarrow> writes_at R d (State_Monad.bind (gw_confirm_payment e g i) k2)"
  by (rule writes_at_keep; (rule frame | rule writing | assumption); simp)+

lemma payment_by_has: "payment_by_booking_id k d = Some p \<Longrightarrow> has_payment p d"
  by (auto simp: payment_by_booking_id_def has_payment_def find_Some_iff)

lemma core_capture [writing]: "writes core_step (capture_payment_for_booking e k c)"
  unfolding writes_iff_at capture_payment_for_booking_def
  by (intro allI stepping; (rule payment_baseI [OF payment_by_has], assumption)?)
    (auto simp: payment_final_def payment_moves_def intro!: writing)

lemma payment_get_has: "get_payment k d = Some p \<Longrightarrow> has_payment p d"
  by (rule get_has)

lemma core_refund [writing]: "writes core_step (refund_payment_for_booking e k c)"
  unfolding writes_iff_at refund_payment_for_booking_def
  by (intro allI stepping; (rule payment_baseI [OF payment_by_has], assumption)?)
    (auto simp: payment_final_def payment_moves_def intro!: writing)

lemma core_retry_capture [writing]: "writes core_step (retry_capture_payment e k)"
  unfolding writes_iff_at retry_capture_payment_def
  by (intro allI stepping; (rule payment_baseI [OF payment_get_has], assumption)?)
    (auto simp: payment_final_def payment_moves_def intro!: writing)

lemma core_retry_refund [writing]: "writes core_step (retry_refund_payment e k)"
  unfolding writes_iff_at retry_refund_payment_def
  by (intro allI stepping; (rule payment_baseI [OF payment_get_has], assumption)?)
    (auto simp: payment_final_def payment_moves_def intro!: writing)

lemma core_capture_if_accepted [writing]: "writes core_step (capture_if_accepted e p)"
  unfolding capture_if_accepted_def by (auto intro!: writing)

lemma core_reconcile [writing]: "writes core_step (reconcile_payment e k)"
  unfolding writes_iff_at reconcile_payment_def
  by (intro allI stepping; (rule payment_baseI [OF payment_get_has], assumption)?)
    (auto simp: payment_final_def payment_moves_def intro!: writing writes_at_writes)

lemma access_has:
  "run_state (get_accessible_payment k u) w = (Inr p, w') \<Longrightarrow> has_payment p (db w) \<and> w' = w"
  by (auto simp: get_accessible_payment_def ensure_payment_access_def deref_def
      split: option.splits if_splits intro: payment_get_has)

lemma quiet_access:
  "keeps db (get_accessible_payment k u)" "writes R (get_accessible_payment k u)"
  "writes R (ensure_payment_access p u)"
  unfolding get_accessible_payment_def ensure_payment_access_def by (auto intro!: frame writing)

lemma writes_at_access [stepping]:
  assumes "\<And>r. (\<And>p. r = Inr p \<Longrightarrow> has_payment p d) \<Longrightarrow> writes_at R d (k r)"
  shows "writes_at R d (State_Monad.bind (get_accessible_payment i u) k)"
proof (rule writes_at_then [OF writes_at_writes [OF quiet_access(2)]])
  fix r w w'
  assume d: "db w = d" and run: "run_state (get_accessible_payment i u) w = (r, w')"
  have "db w' = d" using keepsD [OF quiet_access(1) run] d by simp
  moreover have "writes_at R d (k r)" by (rule assms) (use access_has run d in blast)
  ultimately show "writes_at R (db w') (k r)" by simp
qed

lemma core_confirm [writing]: "writes core_step (confirm_payment e k u)"
  unfolding writes_iff_at confirm_payment_def
  by (intro allI stepping)
    (auto simp: payment_final_def payment_moves_def intro!: writing writes_at_writes payment_baseI)

lemma core_create_payment [writing]: "writes core_step (create_payment e gw t1 t2 c u)"
  unfolding writes_iff_at create_payment_def
  by (intro allI stepping)
    (auto simp: payment_ok_def intro!: writing writes_at_writes payment_create_step)

lemma webhook_payment_has: "webhook_payment x d = Some p \<Longrightarrow> has_payment p d"
  by (auto simp: webhook_payment_def payment_by_provider_payment_id_def payment_by_provider_order_id_def
      has_payment_def find_Some_iff split: option.splits if_splits)

lemma webhook_moves:
  "payment_moves p (apply_webhook_transition (p\<lparr>p_provider_payment_id := i\<rparr>) ty)"
  by (auto simp: apply_webhook_transition_def payment_moves_def payment_final_def)

lemma keeps_event_create: "keeps (\<lambda>w. payments_t (db w)) (event_create ev)"
  unfolding event_create_def by (auto simp: add_payment_event_def intro!: frame)

lemma writes_at_event [stepping]:
  assumes "\<And>d' r. payments_t d' = payments_t d \<Longrightarrow> writes_at core_step d' (k r)"
  shows "writes_at core_step d (State_Monad.bind (event_create ev) k)"
proof (rule writes_at_then)
  show "writes_at core_step d (event_create ev)"
    by (intro writes_at_writes peripheral_writes writing)
  fix r w w'
  assume "db w = d" and "run_state (event_create ev) w = (r, w')"
  with keepsD [OF keeps_event_create] show "writes_at core_step (db w') (k r)"
    by (metis assms)
qed

lemma webhook_base:
  "webhook_payment x d = Some p \<Longrightarrow> payments_t d' = payments_t d \<Longrightarrow>
     payment_base d' (apply_webhook_transition (p\<lparr>p_provider_payment_id := i\<rparr>) ty)"
  using webhook_payment_has [of x d p] by (intro payment_baseI [OF _ webhook_moves]) (auto simp: has_payment_def)

lemma core_webhook [writing]: "writes core_step (process_webhook_event x prov)"
proof -
  have "writes_at core_step d' (case webhook_payment x d of
      None \<Rightarrow> ok None
    | Some p \<Rightarrow> do {
        r \<leftarrow> payment_save (apply_webhook_transition (p\<lparr>p_provider_payment_id := Some (wh_provider_payment_id x)\<rparr>)
          (wh_event_type x));
        on_ok r (\<lambda>p. ok (Some p))
      })" if "payments_t d' = payments_t d" for d d'
    using that by (intro stepping webhook_base) (auto intro!: writing)
  note found = writes_at_last [OF this]
  show ?thesis
    unfolding writes_iff_at process_webhook_event_def Let_def
    by (intro allI stepping found) (auto intro!: writing peripheral_writes [OF peripheral_write_puts(2)])
qed

lemma core_payment_service [writing]:
  "(\<And>gw. writes R (m gw)) \<Longrightarrow> writes R (payment_service e m)"
  unfolding payment_service_def by (auto intro!: writing)

lemma writes_case_py:
  assumes "writes R a" "\<And>x. writes R (b x)" "\<And>x. writes R (c x)" "\<And>x. writes R (d x)" "\<And>x. writes R (f x)"
    "\<And>x. writes R (g x)" "\<And>x. writes R (h x)" "\<And>x. writes R (i x)" "\<And>x. writes R (j x)"
  shows "writes R (case v of PyNone \<Rightarrow> a | PyBool x \<Rightarrow> b x | PyInt x \<Rightarrow> c x | PyStr x \<Rightarrow> d x
    | PyDecimal x \<Rightarrow> f x | PyFloat x \<Rightarrow> g x | PyDatetime x \<Rightarrow> h x | PyList x \<Rightarrow> i x | PyDict x \<Rightarrow> j x)"
  using assms by (cases v) auto

lemma core_webhooks [writing]:
  "writes core_step (mock_payment_webhook e x)"
  "writes core_step (razorpay_payment_webhook e body sig hdr)"
  unfolding mock_payment_webhook_def razorpay_payment_webhook_def
  by (auto intro!: writing writes_case_py)

lemma core_payment_jobs [writing]:
  "writes core_step (run_retry_capture e k)" "writes core_step (run_retry_refund e k)"
  "writes core_step (run_reconcile e k)"
  unfolding run_retry_capture_def run_retry_refund_def run_reconcile_def by (auto intro!: writing)

lemma core_payment_reads [writing]:
  "writes R (get_payment_for_user e k u)" "writes R (get_booking_payment e k u)"
  "writes R (list_my_payments e u l f)"
  unfolding get_payment_for_user_def get_booking_payment_def list_my_payments_def
  by (auto intro!: writing quiet_access)

lemma core_reconcile_accessible [writing]: "writes core_step (reconcile_accessible_payment e k u)"
  unfolding reconcile_accessible_payment_def by (auto intro!: writing quiet_access)

lemma core_support_reconcile [writing]: "writes core_step (support_reconcile_payment e k sq)"
  unfolding support_reconcile_payment_def
  by (auto intro!: writing peripheral_writes [OF peripheral_support(1)])

section \<open>What an action returns\<close>

definition results :: "('a \<Rightarrow> bool) \<Rightarrow> 'a act \<Rightarrow> bool" where
  "results Q m \<longleftrightarrow> (\<forall>w. Q (fst (run_state m w)))"

named_theorems resulting \<open>rules for \<open>results\<close>\<close>

lemma resultsD: "results Q m \<Longrightarrow> run_state m w = (x, w') \<Longrightarrow> Q x"
  by (metis fst_conv results_def)

lemma results_rules [resulting]:
  "(\<And>x. results Q (k x)) \<Longrightarrow> results Q (State_Monad.bind m k)"
  "Q x \<Longrightarrow> results Q (State_Monad.return x)"
  "(b \<Longrightarrow> results Q m1) \<Longrightarrow> (\<not> b \<Longrightarrow> results Q m2) \<Longrightarrow> results Q (if b then m1 else m2)"
  "(\<And>y. y = t \<Longrightarrow> results Q (l y)) \<Longrightarrow> results Q (Let t l)"
  by (auto simp: results_def split_beta)

lemma results_svc [resulting]:
  "Q (Inr y) \<Longrightarrow> results Q (ok y)"
  "Q (Inl z) \<Longrightarrow> results Q (raise z)"
  "(\<And>y. r = Inr y \<Longrightarrow> results Q (l y)) \<Longrightarrow> (\<And>z. r = Inl z \<Longrightarrow> Q (Inl z)) \<Longrightarrow> results Q (on_ok r l)"
  "(\<And>y. oo = Some y \<Longrightarrow> results Q (g y)) \<Longrightarrow> (\<And>z. Q (Inl z)) \<Longrightarrow> results Q (deref oo g)"
  by (cases r; cases oo; simp add: results_def)+

section \<open>Bookings and rides\<close>

definition booking_base :: "database \<Rightarrow> booking \<Rightarrow> bool" where
  "booking_base d x \<longleftrightarrow> (\<exists>b. has_booking b d \<and> booking_moves b x \<and> (booking_ok b \<longrightarrow> booking_ok x))"

definition ride_base :: "database \<Rightarrow> ride \<Rightarrow> bool" where
  "ride_base d x \<longleftrightarrow>
     (\<exists>r. has_ride r d \<and> ride_moves r x \<and> (ride_constraints x \<longrightarrow> ride_ok r \<longrightarrow> ride_ok x))"

lemma booking_baseI:
  "has_booking b d \<Longrightarrow> booking_moves b x \<Longrightarrow> (booking_ok b \<Longrightarrow> booking_ok x) \<Longrightarrow> booking_base d x"
  by (auto simp: booking_base_def)

lemma ride_baseI:
  "has_ride r d \<Longrightarrow> ride_moves r x \<Longrightarrow> (ride_constraints x \<Longrightarrow> ride_ok r \<Longrightarrow> ride_ok x) \<Longrightarrow> ride_base d x"
  by (auto simp: ride_base_def)

lemma booking_save_at: "booking_base d x \<Longrightarrow> writes_at core_step d (booking_save x)"
  unfolding booking_base_def writes_at_def by (auto intro!: obeys_pre [OF booking_save_step])

lemma ride_save_at: "ride_base d x \<Longrightarrow> writes_at core_step d (ride_save x)"
  unfolding ride_base_def writes_at_def by (auto intro!: obeys_pre [OF ride_save_step])

lemma writes_at_row_save [stepping]:
  "booking_base d x \<Longrightarrow> (\<And>r. writes core_step (k1 r)) \<Longrightarrow> writes_at core_step d (State_Monad.bind (booking_save x) k1)"
  "ride_base d y \<Longrightarrow> (\<And>r. writes core_step (k2 r)) \<Longrightarrow> writes_at core_step d (State_Monad.bind (ride_save y) k2)"
  by (rule writes_at_last; (rule booking_save_at ride_save_at | assumption); assumption)+

lemma core_booking_create [writing]:
  "booking_ok x \<Longrightarrow> writes core_step (booking_create x)"
  by (rule booking_create_step)

lemma booking_get_has: "get_booking k d = Some b \<Longrightarrow> has_booking b d"
  by (rule get_has)

lemma ride_get_has: "get_ride k d = Some r \<Longrightarrow> has_ride r d"
  by (rule get_has)

lemma core_create_booking [writing]: "writes core_step (create_booking e c u)"
  unfolding create_booking_def by (auto intro!: writing simp: new_booking_def booking_ok_def)

lemma core_boarding [writing]:
  "writes core_step (issue_boarding_otp e n k u)" "writes core_step (verify_boarding_otp e k otp u)"
  "writes core_step (create_share_token e tok k u)" "writes core_step (revoke_share_token k u)"
  unfolding writes_iff_at issue_boarding_otp_def verify_boarding_otp_def create_share_token_def
    revoke_share_token_def
  by (intro allI stepping; (rule booking_baseI [OF booking_get_has], assumption)?;
      auto simp: booking_moves_def booking_ok_def intro!: writing)+

section \<open>The decision on a booking\<close>

lemma keeps_bookings [frame]:
  "keeps (\<lambda>w. bookings_t (db w)) (audit_request rq a u t i s m c)"
  "keeps (\<lambda>w. bookings_t (db w)) (create_notification k ty t1 t2)"
  "keeps (\<lambda>w. bookings_t (db w)) (commit_if c)"
  "keeps (\<lambda>w. bookings_t (db w)) (ride_save r)"
  "keeps (\<lambda>w. bookings_t (db w)) (payment_save x)"
  unfolding audit_request_def audit_create_def create_notification_def notification_create_def commit_if_def
    ride_save_def payment_save_def
  by (auto simp: add_audit_def add_notification_def put_ride_def put_payment_def Let_def intro!: frame)

lemma keeps_enqueues [frame]:
  assumes "\<And>w q. F (w\<lparr>jobs := q\<rparr>) = F w"
  shows "keeps F (enqueue_notification e k ty t1 t2)" "keeps F (enqueue_payment_capture_retry e i)"
    "keeps F (enqueue_payment_refund_retry e i)" "keeps F (enqueue_payment_reconciliation e i)"
    "keeps F (enqueue_trip_reminder_email e b)" "keeps F (enqueue_dispatch_notification e k ty t1 t2)"
  unfolding enqueue_notification_def enqueue_payment_capture_retry_def enqueue_payment_refund_retry_def
    enqueue_payment_reconciliation_def enqueue_trip_reminder_email_def enqueue_dispatch_notification_def
  using assms by (auto intro!: frame)

lemma keeps_bookings_capture [frame]:
  "keeps (\<lambda>w. bookings_t (db w)) (capture_payment_for_booking e k c)"
  "keeps (\<lambda>w. bookings_t (db w)) (refund_payment_for_booking e k c)"
  unfolding capture_payment_for_booking_def refund_payment_for_booking_def
  by (auto intro!: frame split: exc.split)

lemma keeps_bookings_transition:
  "keeps (\<lambda>w. bookings_t (db w)) (apply_driver_transition e b ride st)"
  "keeps (\<lambda>w. bookings_t (db w)) (apply_passenger_transition e b ride st)"
  unfolding apply_driver_transition_def apply_passenger_transition_def
  by (auto intro!: frame simp: Let_def)

text \<open>A transition only returns a booking that may replace the old one.\<close>

definition booking_becomes :: "booking \<Rightarrow> exc + booking \<Rightarrow> bool" where
  "booking_becomes b r \<longleftrightarrow> (\<forall>b'. r = Inr b' \<longrightarrow> booking_moves b b' \<and> booking_ok b')"

lemma booking_becomes_status:
  "booking_edge (b_status b) st \<Longrightarrow> (st = BCompleted \<Longrightarrow> b_boarded_at b \<noteq> None) \<Longrightarrow>
     booking_becomes b (Inr (b\<lparr>b_status := st\<rparr>))"
  by (auto simp: booking_becomes_def booking_moves_def booking_ok_def intro: booking_reaches_edge)

lemma booking_becomes_error: "booking_becomes b (Inl x)"
  by (simp add: booking_becomes_def)

lemma transition_results:
  "results (booking_becomes b) (apply_driver_transition e b ride st)"
  "results (booking_becomes b) (apply_passenger_transition e b ride st)"
  unfolding apply_driver_transition_def apply_passenger_transition_def
  by (auto intro!: resulting booking_becomes_error booking_becomes_status)

lemma take_seat_base: "has_ride r d \<Longrightarrow> 1 \<le> r_available_seats r \<Longrightarrow> ride_base d (take_seat r)"
  by (rule ride_baseI) (auto simp: take_seat_def ride_moves_def ride_ok_def ride_constraints_def Let_def)

lemma give_seat_base: "has_ride r d \<Longrightarrow> ride_base d (give_seat_back r)"
  by (rule ride_baseI) (auto simp: give_seat_back_def ride_moves_def ride_ok_def ride_constraints_def)

lemma same_ride_base: "has_ride r d \<Longrightarrow> ride_base d r"
  by (rule ride_baseI) auto

lemma core_driver_transition:
  assumes "has_ride ride d"
  shows "writes_at core_step d (apply_driver_transition e b ride st)"
proof -
  have "ride_base d (if b_status b = BAccepted then give_seat_back ride else ride)"
    using assms give_seat_base same_ride_base by auto
  then show ?thesis
    unfolding apply_driver_transition_def
    by (intro stepping take_seat_base) (auto intro!: writing writes_at_writes intro: assms)
qed

lemma core_passenger_transition:
  assumes "has_ride ride d"
  shows "writes_at core_step d (apply_passenger_transition e b ride st)"
proof -
  have "ride_base d (if b_status b = BAccepted then give_seat_back ride else ride)"
    using assms give_seat_base same_ride_base by auto
  then show ?thesis
    unfolding apply_passenger_transition_def
    by (intro stepping) (auto intro!: writing writes_at_writes)
qed

definition decide ::
  "env \<Rightarrow> booking \<Rightarrow> ride \<Rightarrow> booking_status \<Rightarrow> user \<Rightarrow> booking svc" where
  "decide e b ride status_value current_user =
     (if u_id current_user = r_driver_id ride
      then apply_driver_transition e b ride status_value
      else if u_id current_user = b_passenger_id b
      then apply_passenger_transition e b ride status_value
      else raise (HTTPException 403 ''Only booking participants can update booking''))"

lemma decide_facts:
  "has_ride ride d \<Longrightarrow> writes_at core_step d (decide e b ride st u)"
  "keeps (\<lambda>w. bookings_t (db w)) (decide e b ride st u)"
  "results (booking_becomes b) (decide e b ride st u)"
  unfolding decide_def
  by (auto intro!: stepping core_driver_transition core_passenger_transition frame resulting
      keeps_bookings_transition transition_results booking_becomes_error)

lemma ride_of_has: "ride_of b d = Some r \<Longrightarrow> has_ride r d"
  unfolding ride_of_def by (rule ride_get_has)

lemma writes_at_decide [stepping]:
  assumes r: "has_ride ride d"
    and k: "\<And>d' r. bookings_t d' = bookings_t d \<Longrightarrow> booking_becomes b r \<Longrightarrow> writes_at core_step d' (k r)"
  shows "writes_at core_step d (State_Monad.bind (decide e b ride st u) k)"
proof (rule writes_at_then [OF decide_facts(1) [OF r]])
  fix x w w'
  assume "db w = d" and run: "run_state (decide e b ride st u) w = (x, w')"
  with keepsD [OF decide_facts(2) run] resultsD [OF decide_facts(3) run]
  show "writes_at core_step (db w') (k x)" by (simp add: k)
qed

lemma core_update_status [writing]: "writes core_step (update_status e k st u)"
  unfolding writes_iff_at update_status_def decide_def [symmetric]
  by (intro allI stepping ride_of_has; (rule booking_baseI)?)
    (auto simp: booking_becomes_def has_booking_def intro!: writing dest: booking_get_has)

section \<open>Rides\<close>

lemma core_create_ride [writing]:
  "ride_create_valid f \<Longrightarrow> writes core_step (create_ride f u)"
  unfolding create_ride_def ensure_verified_for_rides_def
  by (auto intro!: writing ride_create_step simp: ride_ok_def ride_constraints_def ride_create_valid_def
      ride_fields_valid_def)

lemma with_fields_base: "has_ride r d \<Longrightarrow> ride_base d (with_fields f r)"
  by (rule ride_baseI) (auto simp: with_fields_def ride_moves_def ride_ok_def ride_constraints_def Let_def)

lemma core_update_ride [writing]: "writes core_step (update_ride k f u)"
  unfolding writes_iff_at update_ride_def
  by (intro writes_at_if writes_at_raise allI stepping with_fields_base)
    (auto intro!: writing dest: ride_get_has)

text \<open>A loop over bookings that are stored: each is written once, the later ones are still there.\<close>

lemma obeys_for_each:
  "(\<And>x xs. obeys R (I (x # xs)) (f x) (\<lambda>_. I xs)) \<Longrightarrow> obeys R (I xs) (for_each f xs) (\<lambda>_ _. True)"
proof (induction xs)
  case Nil
  show ?case by (auto intro: obeys_return)
next
  case (Cons x xs)
  then show ?case by (auto intro: obeys_bind)
qed

lemma obeys_for_each_ok:
  assumes "\<And>x xs. obeys R (I (x # xs)) (f x) (\<lambda>r w. \<forall>y. r = Inr y \<longrightarrow> I xs w)"
  shows "obeys R (I xs) (for_each_ok f xs) (\<lambda>_ _. True)"
proof (induction xs)
  case Nil
  show ?case by (auto intro: obeys_ok)
next
  case (Cons x xs)
  show ?case unfolding for_each_ok.simps
  proof (rule obeys_bind [OF assms])
    fix r
    show "obeys R (\<lambda>w. \<forall>y. r = Inr y \<longrightarrow> I xs w) (on_ok r (\<lambda>_. for_each_ok f xs)) (\<lambda>_ _. True)"
      by (rule obeys_on_ok) (auto intro: obeys_pre [OF Cons.IH])
  qed
qed

definition bookings_left :: "booking list \<Rightarrow> booking table \<Rightarrow> bool" where
  "bookings_left bs t \<longleftrightarrow>
     (distinct (map b_id (rows t)) \<longrightarrow> set bs \<subseteq> set (rows t) \<and> distinct (map b_id bs))"

lemma bookings_left_filter: "bookings_left (filter P (rows t)) t"
  by (auto simp: bookings_left_def distinct_map_filter)

lemma bookings_left_put:
  assumes "bookings_left (b # bs) (bookings_t d)" and "b_id b' = b_id b"
  shows "bookings_left bs (bookings_t (put_booking b' d))"
proof -
  have "map b_id (rows (bookings_t (put_booking b' d))) = map b_id (rows (bookings_t d))"
    by (rule booking_store.map_key_put)
  moreover have "x \<in> set (rows (bookings_t (put_booking b' d)))"
    if "x \<in> set (rows (bookings_t d))" "b_id x \<noteq> b_id b" for x
    using that assms(2) by (auto simp: booking_store.all_put image_iff)
  ultimately show ?thesis using assms(1) unfolding bookings_left_def
    by (simp add: subset_iff) (metis imageI image_set)
qed

lemma bookings_left_has: "bookings_left (b # bs) (bookings_t d) \<Longrightarrow> core_ok d \<Longrightarrow> has_booking b d"
  by (auto simp: bookings_left_def core_ok_def keys_ok_def table_ok_def has_booking_def)

lemma put_left:
  assumes "booking_moves b b'" and "booking_ok b \<Longrightarrow> booking_ok b'"
  shows "obeys core_step (\<lambda>w. bookings_left (b # bs) (bookings_t (db w))) (write_db (put_booking b'))
           (\<lambda>_ w. bookings_left bs (bookings_t (db w)))"
proof (rule obeys_write)
  fix w
  assume left: "bookings_left (b # bs) (bookings_t (db w))"
  show "core_step (db w) (put_booking b' (db w))"
    by (rule core_stepI, rule booking_step [OF bookings_left_has [OF left]]) (use assms in auto)
  show "bookings_left bs (bookings_t (db (w\<lparr>db := put_booking b' (db w)\<rparr>)))"
    using bookings_left_put [OF left] assms(1) by (simp add: booking_moves_def)
qed

lemma bookings_left_tl: "bookings_left (b # bs) t \<Longrightarrow> bookings_left bs t"
  by (auto simp: bookings_left_def)

lemma cancel_booking_step:
  "obeys core_step (\<lambda>w. bookings_left (b # bs) (bookings_t (db w))) (cancel_ride_booking e ride b)
     (\<lambda>_ w. bookings_left bs (bookings_t (db w)))"
proof (cases "b_status b \<in> {BPending, BAccepted}")
  case True
  then have "booking_moves b (b\<lparr>b_status := BCancelled_by_driver\<rparr>)"
    by (auto simp: booking_moves_def intro: booking_reaches_edge)
  note put = put_left [OF this, of bs]
  have "obeys core_step (\<lambda>w. bookings_left bs (bookings_t (db w))) (enqueue_notification e k ty t1 t2)
      (\<lambda>_ w. bookings_left bs (bookings_t (db w)))" for k ty t1 t2
    by (rule obeys_frame [where f = "\<lambda>w. bookings_t (db w)"]) (auto intro!: frame writing)
  with True put show ?thesis
    unfolding cancel_ride_booking_def by (auto intro: obeys_bind simp: booking_ok_def)
next
  case False
  then show ?thesis
    unfolding cancel_ride_booking_def by (auto intro!: obeys_return dest: bookings_left_tl)
qed

lemma keeps_rides_cancel: "keeps (\<lambda>w. rides_t (db w)) (for_each (cancel_ride_booking e ride) bs)"
  unfolding cancel_ride_booking_def by (auto intro!: frame simp: put_booking_def)

lemma writes_at_cancel_loop [stepping]:
  assumes "\<And>d'. rides_t d' = rides_t d \<Longrightarrow> writes_at core_step d' (k ())"
  shows "writes_at core_step d
    (State_Monad.bind (for_each (cancel_ride_booking e ride) (bookings_of_ride i d)) k)"
proof (rule writes_at_then)
  have "obeys core_step (\<lambda>w. bookings_left (bookings_of_ride i d) (bookings_t (db w)))
      (for_each (cancel_ride_booking e ride) (bookings_of_ride i d)) (\<lambda>_ _. True)"
    by (rule obeys_for_each [where I = "\<lambda>bs w. bookings_left bs (bookings_t (db w))"]) (rule cancel_booking_step)
  then show "writes_at core_step d (for_each (cancel_ride_booking e ride) (bookings_of_ride i d))"
    unfolding writes_at_def by (rule obeys_pre) (auto simp: bookings_of_ride_def bookings_left_filter)
  fix r :: unit and w w'
  assume "db w = d" and "run_state (for_each (cancel_ride_booking e ride) (bookings_of_ride i d)) w = (r, w')"
  with keepsD [OF keeps_rides_cancel] show "writes_at core_step (db w') (k r)"
    by (metis assms old.unit.exhaust)
qed

lemma has_ride_same: "has_ride r d \<Longrightarrow> rides_t d' = rides_t d \<Longrightarrow> has_ride r d'"
  by (simp add: has_ride_def)

lemma close_ride_base:
  "has_ride r d \<Longrightarrow> st \<in> {RCancelled, RCompleted} \<Longrightarrow> ride_base d (r\<lparr>r_status := st, r_is_active := False\<rparr>)"
  by (rule ride_baseI) (auto simp: ride_moves_def ride_ok_def ride_constraints_def)

lemma core_cancel_ride [writing]: "writes core_step (cancel_ride e k u)"
  unfolding writes_iff_at cancel_ride_def
  by (intro allI writes_at_if writes_at_raise stepping close_ride_base)
    (auto intro!: writing intro: has_ride_same ride_get_has)

lemma keeps_rides [frame]:
  "keeps (\<lambda>w. rides_t (db w)) (audit_request rq a u t i s m c)"
  "keeps (\<lambda>w. rides_t (db w)) (commit_if c)"
  "keeps (\<lambda>w. rides_t (db w)) (payment_save x)"
  "keeps (\<lambda>w. rides_t (db w)) (booking_create bk)"
  unfolding audit_request_def audit_create_def commit_if_def payment_save_def booking_create_def
  by (auto simp: add_audit_def put_payment_def add_booking_def Let_def intro!: frame)

lemma keeps_rides_complete [frame]:
  "keeps (\<lambda>w. rides_t (db w)) (complete_ride_booking e ride b)"
  unfolding complete_ride_booking_def capture_payment_for_booking_def
  by (auto intro!: frame simp: put_booking_def split: exc.split)

lemma complete_booking_step:
  assumes "b_status b = BAccepted" and "b_boarded_at b \<noteq> None"
  shows "obeys core_step (\<lambda>w. bookings_left (b # bs) (bookings_t (db w))) (complete_ride_booking e ride b)
    (\<lambda>r w. \<forall>y. r = Inr y \<longrightarrow> bookings_left bs (bookings_t (db w)))"
proof -
  have "booking_moves b (b\<lparr>b_status := BCompleted\<rparr>)"
    using assms by (auto simp: booking_moves_def intro: booking_reaches_edge)
  then have put: "obeys core_step (\<lambda>w. bookings_left (b # bs) (bookings_t (db w)))
      (write_db (put_booking (b\<lparr>b_status := BCompleted\<rparr>))) (\<lambda>_ w. bookings_left bs (bookings_t (db w)))"
    using assms(2) by (intro put_left) (auto simp: booking_ok_def)
  have rest: "obeys core_step (\<lambda>w. bookings_left bs (bookings_t (db w)))
      (do { enqueue_notification e k ty t1 t2; ok () })
      (\<lambda>r w. \<forall>y. r = Inr y \<longrightarrow> bookings_left bs (bookings_t (db w)))" for k ty t1 t2
    by (rule obeys_bind_keep [where f = "\<lambda>w. bookings_t (db w)"]) (auto intro!: frame writing obeys_ok)
  have "obeys core_step (\<lambda>w. bookings_left (b # bs) (bookings_t (db w)))
      (do { write_db (put_booking (b\<lparr>b_status := BCompleted\<rparr>)); enqueue_notification e k ty t1 t2; ok () })
      (\<lambda>r w. \<forall>y. r = Inr y \<longrightarrow> bookings_left bs (bookings_t (db w)))" for k ty t1 t2
    by (rule obeys_bind [OF put rest])
  then show ?thesis
    unfolding complete_ride_booking_def
    by (intro obeys_bind_keep [where f = "\<lambda>w. bookings_t (db w)"] obeys_on_ok)
      (auto intro!: frame writing intro: obeys_raise)
qed

lemma writes_at_complete_loop [stepping]:
  assumes boarded: "\<not> list_ex (\<lambda>b. b_boarded_at b = None) (accepted_bookings i d)"
    and k: "\<And>d' r. rides_t d' = rides_t d \<Longrightarrow> writes_at core_step d' (k r)"
  shows "writes_at core_step d
    (State_Monad.bind (for_each_ok (complete_ride_booking e ride) (accepted_bookings i d)) k)"
proof (rule writes_at_then)
  let ?I = "\<lambda>bs w. (\<forall>b \<in> set bs. b_status b = BAccepted \<and> b_boarded_at b \<noteq> None) \<and>
    bookings_left bs (bookings_t (db w))"
  have "obeys core_step (?I (b # bs)) (complete_ride_booking e ride b) (\<lambda>r w. \<forall>y. r = Inr y \<longrightarrow> ?I bs w)"
    for b bs
  proof (cases "\<forall>b \<in> set (b # bs). b_status b = BAccepted \<and> b_boarded_at b \<noteq> None")
    case True
    then have "obeys core_step (\<lambda>w. bookings_left (b # bs) (bookings_t (db w))) (complete_ride_booking e ride b)
        (\<lambda>r w. \<forall>y. r = Inr y \<longrightarrow> bookings_left bs (bookings_t (db w)))"
      by (intro complete_booking_step) auto
    with True show ?thesis by simp
  qed (auto simp: obeys_def)
  then have "obeys core_step (?I (accepted_bookings i d))
      (for_each_ok (complete_ride_booking e ride) (accepted_bookings i d)) (\<lambda>_ _. True)"
    by (rule obeys_for_each_ok)
  moreover have "bookings_left (accepted_bookings i d) (bookings_t d)"
    unfolding accepted_bookings_def bookings_of_ride_def filter_filter by (rule bookings_left_filter)
  ultimately show "writes_at core_step d (for_each_ok (complete_ride_booking e ride) (accepted_bookings i d))"
    unfolding writes_at_def using boarded
    by (elim obeys_pre) (auto simp: accepted_bookings_def list_ex_iff)
  fix r w w'
  assume "db w = d" and run: "run_state (for_each_ok (complete_ride_booking e ride) (accepted_bookings i d)) w = (r, w')"
  moreover have "keeps (\<lambda>w. rides_t (db w)) (for_each_ok (complete_ride_booking e ride) (accepted_bookings i d))"
    by (intro frame)
  ultimately show "writes_at core_step (db w') (k r)" using keepsD [OF _ run] by (metis k)
qed

lemma core_complete_ride [writing]: "writes core_step (complete_ride e k u)"
  unfolding writes_iff_at complete_ride_def Let_def
  by (intro allI writes_at_if writes_at_raise stepping close_ride_base)
    (auto intro!: writing intro: has_ride_same ride_get_has)

lemma peripheral_location [writing]: "writes peripheral (update_location e k c u)"
  unfolding update_location_def validate_location_near_route_def
  by (auto intro!: writing split: option.split)

section \<open>Dispatch\<close>

lemma ride_create_has:
  "run_state (ride_create x) w = (Inr r, w') \<Longrightarrow> has_ride r (db w') \<and> r_status r = r_status x"
  by (auto simp: ride_create_def flush_def Let_def has_ride_def add_ride_def split: if_splits)

lemma matched_ride_ok: "ride_constraints (matched_ride u q pr) \<Longrightarrow> ride_ok (matched_ride u q pr)"
  by (simp add: matched_ride_def ride_ok_def ride_constraints_def)

lemma writes_at_ride_create [stepping]:
  assumes "ride_constraints x \<Longrightarrow> ride_ok x"
    and "\<And>d' r. (\<And>y. r = Inr y \<Longrightarrow> has_ride y d' \<and> r_status y = r_status x) \<Longrightarrow>
           writes_at core_step d' (k r)"
  shows "writes_at core_step d (State_Monad.bind (ride_create x) k)"
  by (rule writes_at_then [OF writes_at_writes [OF ride_create_step [OF assms(1)]]])
    (auto intro!: assms(2) dest: ride_create_has)

lemma writes_at_booking_create [stepping]:
  assumes "booking_ok x" and "\<And>d' r. rides_t d' = rides_t d \<Longrightarrow> writes_at core_step d' (k r)"
  shows "writes_at core_step d (State_Monad.bind (booking_create x) k)"
proof (rule writes_at_then [OF writes_at_writes [OF booking_create_step [OF assms(1)]]])
  fix r w w'
  assume "db w = d" and "run_state (booking_create x) w = (r, w')"
  with keepsD [OF keeps_rides(4)] show "writes_at core_step (db w') (k r)" by (metis assms(2))
qed

lemma seats_base: "has_ride r d \<Longrightarrow> r_status r \<noteq> RScheduled \<Longrightarrow> ride_base d (r\<lparr>r_available_seats := 0\<rparr>)"
  by (rule ride_baseI) (auto simp: ride_moves_def ride_ok_def ride_constraints_def)

lemma writes_at_any:
  "writes R m \<Longrightarrow> (\<And>d' r. writes_at R d' (k r)) \<Longrightarrow> writes_at R d (State_Monad.bind m k)"
  by (rule writes_at_then) (auto intro: writes_at_writes)

lemma core_accept_request [writing]: "writes core_step (accept_request e k u)"
proof -
  have quiet: "writes core_step (ensure_verified_for_dispatch u)"
    "writes core_step (expire_stale_open_requests e n)" "writes core_step (get_fresh_driver_availability e i)"
    "writes core_step (request_save q)" for n i q
    by (intro peripheral_writes writing)+
  have seats: "writes_at core_step d' (State_Monad.bind (ride_save (r\<lparr>r_available_seats := 0\<rparr>)) c)"
    if "rides_t d' = rides_t d" "has_ride r d \<and> r_status r = r_status (matched_ride u q pr)"
      "\<And>x. writes core_step (c x)" for d d' r q pr and c :: "exc + ride \<Rightarrow> 'b act"
    using that by (intro stepping seats_base) (auto simp: matched_ride_def intro: has_ride_same)
  show ?thesis
    unfolding writes_iff_at accept_request_def announce_match_def Let_def
    by (intro allI writes_at_any [OF quiet(1)] writes_at_any [OF quiet(2)] writes_at_any [OF quiet(3)]
        seats stepping matched_ride_ok)
      (assumption | auto simp: booking_ok_def intro!: writing quiet)+
qed

end
