(* ===== verification/Guards.thy ===== *)
theory Guards
  imports World
begin

text \<open>
  Three small pieces of shared state beside the database: the rate limiter of
  src/app/core/rate_limit.py and the idempotency records of src/app/services/idempotency.py (both
  as they work when Redis is unreachable, on their own dictionaries; with it, in \<open>RedisStores\<close>), which stand in front of the
  endpoints, and the connections of
  src/app/websocket/manager.py.
\<close>

section \<open>Requests\<close>

text \<open>
  What the guards read of a request: its method and path, the \<open>Idempotency-Key\<close> header, the raw body,
  and the address of the client. A body of \<open>None\<close> is \<open>PyNone\<close>.
\<close>

record inbound =
  ik_method :: string
  ik_path :: string
  ik_key :: "string option"
  ik_body :: string
  ik_host :: "string option"

section \<open>Rate limiter (core/rate_limit.py)\<close>

definition rate_key :: "string \<Rightarrow> string" where
  "rate_key key = ''rate-limit:'' @ key"

definition prune_limits :: "instant \<Rightarrow> limiter \<Rightarrow> limiter" where
  "prune_limits now m = filter (\<lambda>(k, r). now < lr_expires_at r) m"

text \<open>The count of this call, and the dictionary after it.\<close>

definition rate_increment :: "instant \<Rightarrow> string \<Rightarrow> int \<Rightarrow> limiter \<Rightarrow> int \<times> limiter" where
  "rate_increment now key window_seconds m =
     (let fresh = \<lparr>lr_count = 0, lr_expires_at = now + seconds window_seconds\<rparr>;
          r = (case map_of m (rate_key key) of
                 None \<Rightarrow> fresh
               | Some r \<Rightarrow> if lr_expires_at r \<le> now then fresh else r);
          r' = r\<lparr>lr_count := lr_count r + 1\<rparr>
      in (lr_count r', prune_limits now (AList.update (rate_key key) r' m)))"

definition rate_enforce :: "instant \<Rightarrow> string \<Rightarrow> int \<Rightarrow> int \<Rightarrow> limiter \<Rightarrow> (exc + unit) \<times> limiter" where
  "rate_enforce now key limit window_seconds m =
     (let (current, m') = rate_increment now key window_seconds m
      in (if limit < current then Inl (HTTPException 429 ''Rate limit exceeded'') else Inr (), m'))"

text \<open>
  The dependency of an endpoint: one key per scope and identifier, which is the client's address
  unless the endpoint says otherwise. The request goes on when the limiter lets it through.
\<close>

definition client_host :: "inbound \<Rightarrow> string" where
  "client_host h = (case ik_host h of None \<Rightarrow> ''unknown'' | Some x \<Rightarrow> x)"

definition rate_limit_dependency :: "string \<Rightarrow> int \<Rightarrow> int \<Rightarrow> string \<Rightarrow> 'a svc \<Rightarrow> 'a svc" where
  "rate_limit_dependency scope limit window_seconds identifier m = do {
     now \<leftarrow> gets clock;
     ls \<leftarrow> gets limits;
     let (r, ls') = rate_enforce now (scope @ '':'' @ identifier) limit window_seconds ls;
     modify (\<lambda>w. w\<lparr>limits := ls'\<rparr>);
     on_ok r (\<lambda>_. m)
   }"

text \<open>A run of calls on one key, at the given instants: which of them are let through.\<close>

fun rate_run :: "string \<Rightarrow> int \<Rightarrow> int \<Rightarrow> instant list \<Rightarrow> limiter \<Rightarrow> bool list \<times> limiter" where
  "rate_run key limit window_seconds [] m = ([], m)"
| "rate_run key limit window_seconds (t # ts) m =
     (let (r, m') = rate_enforce t key limit window_seconds m;
          (rs, m'') = rate_run key limit window_seconds ts m'
      in ((case r of Inl _ \<Rightarrow> False | Inr _ \<Rightarrow> True) # rs, m''))"

section \<open>Idempotency (services/idempotency.py, api/idempotency.py)\<close>

definition idem_build_key :: "inbound \<Rightarrow> int option \<Rightarrow> string \<Rightarrow> string" where
  "idem_build_key q actor_id key =
     ''idempotency:'' @ (case actor_id of None \<Rightarrow> ''anonymous'' | Some i \<Rightarrow> str_int i) @ '':'' @
     ik_method q @ '':'' @ ik_path q @ '':'' @ key"

definition get_cached_response ::
  "(string \<Rightarrow> string) \<Rightarrow> inbound \<Rightarrow> int option \<Rightarrow> idem_store \<Rightarrow>
     exc + (string \<times> idempotency_record) option" where
  "get_cached_response hash q actor_id m =
     (if \<not> truthy (ik_key q) then Inr None
      else
        (let record_key = idem_build_key q actor_id (the (ik_key q));
             request_hash = hash (ik_body q)
         in case map_of m record_key of
              None \<Rightarrow> Inr (Some (record_key,
                \<lparr>id_request_hash = request_hash, id_status_code = 0, id_body = PyNone\<rparr>))
            | Some r \<Rightarrow>
                if id_request_hash r \<noteq> request_hash
                then Inl (HTTPException 409 ''Idempotency key reuse with different request payload'')
                else Inr (Some (record_key, r))))"

definition save_response :: "string \<Rightarrow> string \<Rightarrow> int \<Rightarrow> py \<Rightarrow> idem_store \<Rightarrow> idem_store" where
  "save_response record_key request_hash status_code body m =
     AList.update record_key \<lparr>id_request_hash = request_hash, id_status_code = status_code, id_body = body\<rparr> m"

record response =
  rs_status_code :: int
  rs_body :: py
  rs_replayed :: bool

text \<open>
  \<open>idempotent_execute\<close>: \<open>callback\<close> is the service's method, \<open>serializer\<close> gives the fields of the
  response model, and \<open>jsonable\<close> of the environment is FastAPI's encoder. An exception of the callback
  propagates, and nothing is recorded.
\<close>

definition idempotent_execute ::
  "env \<Rightarrow> inbound \<Rightarrow> int option \<Rightarrow> 'a svc \<Rightarrow> ('a \<Rightarrow> py) \<Rightarrow> int \<Rightarrow> response svc" where
  "idempotent_execute e h actor_id callback serializer status_code = do {
     m \<leftarrow> gets idem;
     on_ok (get_cached_response (sha256 e) h actor_id m) (\<lambda>idempotency_state.
       case idempotency_state of
         Some (record_key, r) \<Rightarrow>
           if id_status_code r \<noteq> 0
           then ok \<lparr>rs_status_code = id_status_code r, rs_body = id_body r, rs_replayed = True\<rparr>
           else do {
             result \<leftarrow> callback;
             on_ok result (\<lambda>x. do {
               let body = jsonable e (serializer x);
               modify (\<lambda>w. w\<lparr>idem := save_response record_key (id_request_hash r) status_code body (idem w)\<rparr>);
               ok \<lparr>rs_status_code = status_code, rs_body = body, rs_replayed = False\<rparr>
             })
           }
       | None \<Rightarrow> do {
           result \<leftarrow> callback;
           on_ok result (\<lambda>x.
             ok \<lparr>rs_status_code = status_code, rs_body = jsonable e (serializer x), rs_replayed = False\<rparr>)
         })
   }"

section \<open>Connections (websocket/manager.py)\<close>

text \<open>
  A socket is a number; the sets of a booking's sockets are lists without repetition. What a socket
  makes of a message (connected or not, and whether \<open>send_text\<close> raises) is a parameter.
\<close>

type_synonym connections = "(int \<times> int list) list"

definition sockets_of :: "int \<Rightarrow> connections \<Rightarrow> int list" where
  "sockets_of booking_id m = (case map_of m booking_id of None \<Rightarrow> [] | Some xs \<Rightarrow> xs)"

definition connect :: "int \<Rightarrow> int \<Rightarrow> connections \<Rightarrow> connections" where
  "connect booking_id socket m =
     (let xs = sockets_of booking_id m
      in AList.update booking_id (if socket \<in> set xs then xs else xs @ [socket]) m)"

definition disconnect :: "int \<Rightarrow> int \<Rightarrow> connections \<Rightarrow> connections" where
  "disconnect booking_id socket m =
     (if socket \<in> set (sockets_of booking_id m)
      then (let rest = filter (\<lambda>x. x \<noteq> socket) (sockets_of booking_id m)
            in if rest = [] then AList.delete booking_id m else AList.update booking_id rest m)
      else m)"

datatype socket_state = Connected | Disconnected | Send_fails

text \<open>The sockets the message reached, and the connections that are left.\<close>

definition broadcast :: "(int \<Rightarrow> socket_state) \<Rightarrow> int \<Rightarrow> connections \<Rightarrow> int list \<times> connections" where
  "broadcast status booking_id m =
     (let xs = sockets_of booking_id m;
          reached = filter (\<lambda>x. status x = Connected) xs;
          stale = filter (\<lambda>x. status x \<noteq> Connected) xs
      in (reached, fold (disconnect booking_id) stale m))"

end
