(* ===== verification/Regex.thy ===== *)
theory Regex
  imports Prelude Pystring
begin

text \<open>
  The part of Python's \<open>re\<close> that src/app/services/ai_provider.py uses, on ASCII text: character classes,
  greedy and lazy repetition of a class, alternatives, groups, word boundaries and the end of the text, without regard to case. A
  pattern is run by backtracking, as \<open>re\<close> does it: \<open>runs\<close> lists the ways to match in the order in which
  they are tried, and \<open>re_search\<close> takes the first one at the leftmost place.
\<close>

section \<open>Patterns\<close>

datatype rx =
  Cls "char \<Rightarrow> bool"
| Many bool nat "nat option" "char \<Rightarrow> bool"
| Bound
| End
| Eps
| Seq rx rx
| Alt rx rx
| Grp nat rx

text \<open>Where the matcher stands: what it has passed, the last character first, what is ahead, and the groups.\<close>

record place =
  passed_text :: string
  ahead :: string
  groups :: "nat \<Rightarrow> string option"

definition advance :: "nat \<Rightarrow> place \<Rightarrow> place" where
  "advance n p = p\<lparr>passed_text := rev (take n (ahead p)) @ passed_text p, ahead := drop n (ahead p)\<rparr>"

text \<open>A word character, between which and any other a word boundary lies.\<close>

definition is_word :: "char \<Rightarrow> bool" where
  "is_word c \<longleftrightarrow> is_upper c \<or> is_lower c \<or> is_digit c \<or> c = CHR ''_''"

definition word_first :: "string \<Rightarrow> bool" where
  "word_first s = (case s of [] \<Rightarrow> False | c # _ \<Rightarrow> is_word c)"

fun runs :: "rx \<Rightarrow> place \<Rightarrow> place list" where
  "runs (Cls p) s = (case ahead s of [] \<Rightarrow> [] | c # _ \<Rightarrow> if p c then [advance 1 s] else [])"
| "runs (Many greedy lo hi p) s =
     (let k = length (takeWhile p (ahead s));
          m = (case hi of None \<Rightarrow> k | Some h \<Rightarrow> min h k);
          ns = [lo..<Suc m]
      in map (\<lambda>n. advance n s) (if greedy then rev ns else ns))"
| "runs Bound s = (if word_first (passed_text s) \<noteq> word_first (ahead s) then [s] else [])"
| "runs End s = (if ahead s = [] \<or> ahead s = [CHR 0x0A] then [s] else [])"
| "runs Eps s = [s]"
| "runs (Seq a b) s = concat (map (runs b) (runs a s))"
| "runs (Alt a b) s = runs a s @ runs b s"
| "runs (Grp n a) s =
     map (\<lambda>q. q\<lparr>groups := (groups q)(n \<mapsto> take (length (ahead s) - length (ahead q)) (ahead s))\<rparr>) (runs a s)"

definition place_at :: "string \<Rightarrow> nat \<Rightarrow> place" where
  "place_at s i = \<lparr>passed_text = rev (take i s), ahead = drop i s, groups = Map.empty\<rparr>"

text \<open>The groups of \<open>re.search(pattern, s)\<close>, or \<open>None\<close>.\<close>

definition re_search :: "rx \<Rightarrow> string \<Rightarrow> (nat \<Rightarrow> string option) option" where
  "re_search r s =
     (case find (\<lambda>i. runs r (place_at s i) \<noteq> []) [0..<Suc (length s)] of
        None \<Rightarrow> None
      | Some i \<Rightarrow> Some (groups (hd (runs r (place_at s i)))))"

lemma re_searchE:
  assumes "re_search r s = Some g"
  obtains i q where "q \<in> set (runs r (place_at s i))" "g = groups q"
  using assms that
  by (auto simp: re_search_def find_Some_iff simp del: upt_Suc split: option.splits) (metis hd_in_set)

section \<open>Writing patterns\<close>

definition same_letter :: "char \<Rightarrow> char \<Rightarrow> bool" where
  "same_letter a c \<longleftrightarrow> lower_char c = lower_char a"

fun lit :: "string \<Rightarrow> rx" where
  "lit [] = Eps"
| "lit (c # s) = Seq (Cls (same_letter c)) (lit s)"

fun seqs :: "rx list \<Rightarrow> rx" where
  "seqs [] = Eps"
| "seqs (r # rs) = Seq r (seqs rs)"

fun alts :: "rx list \<Rightarrow> rx" where
  "alts [] = Cls (\<lambda>_. False)"
| "alts [r] = r"
| "alts (r # rs) = Alt r (alts rs)"

definition opt :: "rx \<Rightarrow> rx" where
  "opt r = Alt r Eps"

definition one_of :: "string list \<Rightarrow> rx" where
  "one_of ws = alts (map lit ws)"

text \<open>One or more, and any number of, white space characters.\<close>

definition spaces1 :: rx where
  "spaces1 = Many True 1 None is_space"

definition spaces0 :: rx where
  "spaces0 = Many True 0 None is_space"

text \<open>Between \<open>lo\<close> and \<open>hi\<close> digits.\<close>

definition digits :: "nat \<Rightarrow> nat \<Rightarrow> rx" where
  "digits lo hi = Many True lo (Some hi) is_digit"

definition letter_in :: "char \<Rightarrow> char \<Rightarrow> rx" where
  "letter_in a b = Cls (\<lambda>c. char_code a \<le> char_code c \<and> char_code c \<le> char_code b)"

section \<open>What a match is\<close>

text \<open>A match moves forward over the text it was given, and its groups are pieces of that text.\<close>

definition forward :: "place \<Rightarrow> place \<Rightarrow> bool" where
  "forward s q \<longleftrightarrow> (\<exists>x. ahead s = x @ ahead q \<and> passed_text q = rev x @ passed_text s)"

lemma forward_refl [simp]: "forward s s"
  by (simp add: forward_def)

lemma forward_trans: "forward s q \<Longrightarrow> forward q r \<Longrightarrow> forward s r"
  by (auto simp: forward_def)

lemma forward_advance: "forward s (advance n s)"
  by (auto simp: forward_def advance_def intro!: exI [of _ "take n (ahead s)"])

lemma forward_groups [simp]: "forward s (q\<lparr>groups := g\<rparr>) \<longleftrightarrow> forward s q"
  by (simp add: forward_def)

lemma runs_forward: "q \<in> set (runs r s) \<Longrightarrow> forward s q"
proof (induction r arbitrary: s q)
  case (Seq a b)
  then show ?case by (auto dest!: Seq.IH intro: forward_trans)
next
  case (Cls p)
  then show ?case by (auto simp: forward_advance split: list.splits if_splits)
next
  case (Many greedy lo hi p)
  then show ?case by (auto simp: forward_advance Let_def split: if_splits)
qed (auto split: if_splits)

text \<open>Whatever a pattern matched is a piece of the text.\<close>

definition piece_of :: "string \<Rightarrow> string \<Rightarrow> bool" where
  "piece_of g t \<longleftrightarrow> (\<exists>a b. t = a @ g @ b)"

definition grouped :: "string \<Rightarrow> place \<Rightarrow> bool" where
  "grouped t s \<longleftrightarrow> rev (passed_text s) @ ahead s = t \<and> (\<forall>n g. groups s n = Some g \<longrightarrow> piece_of g t)"

lemma grouped_advance: "grouped t s \<Longrightarrow> grouped t (advance n s)"
  by (simp add: grouped_def advance_def)

lemma runs_grouped: "q \<in> set (runs r s) \<Longrightarrow> grouped t s \<Longrightarrow> grouped t q"
proof (induction r arbitrary: s q)
  case (Grp n a)
  from Grp.prems(1) obtain p where p: "p \<in> set (runs a s)"
    and q: "q = p\<lparr>groups := (groups p)(n \<mapsto> take (length (ahead s) - length (ahead p)) (ahead s))\<rparr>" by auto
  from Grp.IH [OF p Grp.prems(2)] have g: "grouped t p" .
  from runs_forward [OF p] obtain x where x: "ahead s = x @ ahead p" by (auto simp: forward_def)
  then have "take (length (ahead s) - length (ahead p)) (ahead s) = x" by simp
  moreover have "t = rev (passed_text s) @ x @ ahead p" using Grp.prems(2) x by (simp add: grouped_def)
  then have "piece_of x t" by (auto simp: piece_of_def)
  ultimately show ?case using g by (auto simp: q grouped_def)
qed (auto simp: grouped_advance Let_def split: list.splits if_splits)

lemma re_search_piece: "re_search r t = Some g \<Longrightarrow> g n = Some x \<Longrightarrow> piece_of x t"
proof (erule re_searchE)
  fix i q
  assume q: "q \<in> set (runs r (place_at t i))" and x: "g n = Some x" "g = groups q"
  from runs_grouped [OF q] have "grouped t q" by (simp add: grouped_def place_at_def)
  with x show "piece_of x t" by (simp add: grouped_def)
qed

section \<open>What a group holds\<close>

text \<open>
  \<open>matches a x\<close>: somewhere the pattern \<open>a\<close> passes exactly the text \<open>x\<close>. If that implies \<open>P x\<close> for
  every group \<open>n\<close> in a pattern, then what a search puts there has \<open>P\<close>; and a group that every
  alternative has is always set.
\<close>

definition matches :: "rx \<Rightarrow> string \<Rightarrow> bool" where
  "matches a x \<longleftrightarrow> (\<exists>s q. q \<in> set (runs a s) \<and> ahead s = x @ ahead q)"

fun group_always :: "nat \<Rightarrow> (string \<Rightarrow> bool) \<Rightarrow> rx \<Rightarrow> bool" where
  "group_always n P (Seq a b) \<longleftrightarrow> group_always n P a \<and> group_always n P b"
| "group_always n P (Alt a b) \<longleftrightarrow> group_always n P a \<and> group_always n P b"
| "group_always n P (Grp m a) \<longleftrightarrow> (m = n \<longrightarrow> (\<forall>x. matches a x \<longrightarrow> P x)) \<and> group_always n P a"
| "group_always n P r \<longleftrightarrow> True"

fun group_set :: "nat \<Rightarrow> rx \<Rightarrow> bool" where
  "group_set n (Seq a b) \<longleftrightarrow> group_set n a \<or> group_set n b"
| "group_set n (Alt a b) \<longleftrightarrow> group_set n a \<and> group_set n b"
| "group_set n (Grp m a) \<longleftrightarrow> m = n \<or> group_set n a"
| "group_set n r \<longleftrightarrow> False"

lemma runs_ManyD:
  "q \<in> set (runs (Many b lo (Some hi) p) s) \<Longrightarrow>
     \<exists>n. lo \<le> n \<and> n \<le> length (takeWhile p (ahead s)) \<and> n \<le> hi \<and> q = advance n s"
  by (auto simp: Let_def split: if_splits) (metis le_eq_less_or_eq min.bounded_iff order_refl)+

lemma runs_ClsD:
  "q \<in> set (runs (Cls p) s) \<Longrightarrow> \<exists>c cs. ahead s = c # cs \<and> p c \<and> q = advance 1 s"
  by (cases "ahead s") (auto split: if_splits)

lemma groups_advance [simp]: "groups (advance n s) = groups s"
  by (simp add: advance_def)

lemma runs_group_always:
  "q \<in> set (runs r s) \<Longrightarrow> group_always n P r \<Longrightarrow> (\<And>x. groups s n = Some x \<Longrightarrow> P x) \<Longrightarrow>
     groups q n = Some x \<Longrightarrow> P x"
proof (induction r arbitrary: s q x)
  case (Seq a b)
  from Seq.prems(1) obtain p where p: "p \<in> set (runs a s)" "q \<in> set (runs b p)" by auto
  have "P y" if "groups p n = Some y" for y
    using Seq.IH(1) [OF p(1) _ Seq.prems(3) that] Seq.prems(2) by simp
  then show ?case using Seq.IH(2) [OF p(2)] Seq.prems(2,4) by simp
next
  case (Alt a b)
  then show ?case by auto
next
  case (Grp m a)
  from Grp.prems(1) obtain p where p: "p \<in> set (runs a s)"
    and q: "q = p\<lparr>groups := (groups p)(m \<mapsto> take (length (ahead s) - length (ahead p)) (ahead s))\<rparr>" by auto
  from runs_forward [OF p] obtain y where y: "ahead s = y @ ahead p" by (auto simp: forward_def)
  with p have m: "matches a y" by (auto simp: matches_def)
  have g: "groups q n = (if n = m then Some y else groups p n)" by (simp add: q y)
  show ?case
  proof (cases "n = m")
    case True
    with g m Grp.prems(2,4) show ?thesis by simp
  next
    case False
    with g Grp.prems(4) have "groups p n = Some x" by simp
    with Grp.IH [OF p _ Grp.prems(3)] Grp.prems(2) show ?thesis by simp
  qed
qed (auto simp: Let_def split: list.splits if_splits)

lemma runs_group_set:
  "q \<in> set (runs r s) \<Longrightarrow> group_set n r \<or> groups s n \<noteq> None \<Longrightarrow> groups q n \<noteq> None"
proof (induction r arbitrary: s q)
  case (Seq a b)
  from Seq.prems(1) obtain p where p: "p \<in> set (runs a s)" "q \<in> set (runs b p)" by auto
  show ?case using Seq.IH(1) [OF p(1)] Seq.IH(2) [OF p(2)] Seq.prems(2) by auto
qed (auto simp: Let_def split: list.splits if_splits)

lemma re_search_group:
  assumes "re_search r t = Some g" "group_always n P r" "g n = Some x"
  shows "P x"
  using assms by (elim re_searchE) (rule runs_group_always, auto simp: place_at_def)

lemma re_search_group_set:
  assumes "re_search r t = Some g" "group_set n r"
  obtains x where "g n = Some x"
  using assms by (elim re_searchE) (use runs_group_set in blast)

lemma take_takeWhile_le: "n \<le> length (takeWhile p xs) \<Longrightarrow> take n (takeWhile p xs) = take n xs"
  by (subst takeWhile_eq_take) simp

lemma passed_by_advance: "ahead s = x @ ahead (advance n s) \<Longrightarrow> x = take n (ahead s)"
proof -
  assume "ahead s = x @ ahead (advance n s)"
  moreover have "ahead s = take n (ahead s) @ ahead (advance n s)" by (simp add: advance_def)
  ultimately show ?thesis by (rule append_same_eq [THEN iffD1, OF trans [OF sym]])
qed

lemma matches_Many: "matches (Many b lo (Some hi) p) x \<Longrightarrow> lo \<le> length x \<and> length x \<le> hi \<and> list_all p x"
proof -
  assume "matches (Many b lo (Some hi) p) x"
  then obtain s n where n: "lo \<le> n" "n \<le> hi" "n \<le> length (takeWhile p (ahead s))"
    and x: "ahead s = x @ ahead (advance n s)"
    unfolding matches_def by (blast dest: runs_ManyD)
  have eq: "x = take n (takeWhile p (ahead s))"
    using passed_by_advance [OF x] take_takeWhile_le [OF n(3)] by simp
  have "list_all p (take n (takeWhile p (ahead s)))"
    by (auto simp: list_all_iff dest!: in_set_takeD set_takeWhileD)
  with n show ?thesis by (simp add: eq)
qed

lemma matches_Cls: "matches (Cls p) x \<Longrightarrow> \<exists>c. x = [c] \<and> p c"
proof -
  assume "matches (Cls p) x"
  then obtain s c cs where s: "ahead s = c # cs" "p c" "ahead s = x @ ahead (advance 1 s)"
    unfolding matches_def by (blast dest: runs_ClsD)
  from passed_by_advance [OF s(3)] s(1,2) show ?thesis by simp
qed

lemma matches_Eps: "matches Eps x \<Longrightarrow> x = []"
  by (auto simp: matches_def)

lemma matches_Alt: "matches (Alt a b) x \<Longrightarrow> matches a x \<or> matches b x"
  by (auto simp: matches_def)

lemma matches_Seq: "matches (Seq a b) x \<Longrightarrow> \<exists>y z. x = y @ z \<and> matches a y \<and> matches b z"
proof -
  assume "matches (Seq a b) x"
  then obtain s p q where p: "p \<in> set (runs a s)" and q: "q \<in> set (runs b p)" and x: "ahead s = x @ ahead q"
    by (auto simp: matches_def)
  from runs_forward [OF p] obtain y where y: "ahead s = y @ ahead p" by (auto simp: forward_def)
  from runs_forward [OF q] obtain z where z: "ahead p = z @ ahead q" by (auto simp: forward_def)
  from x have "(y @ z) @ ahead q = x @ ahead q" by (simp add: y z)
  then have "x = y @ z" unfolding append_same_eq by simp
  moreover from p y have "matches a y" unfolding matches_def by blast
  moreover from q z have "matches b z" unfolding matches_def by blast
  ultimately show ?thesis by blast
qed

lemma lower_str_Cons [simp]: "lower_str (c # s) = lower_char c # lower_str s"
  by (simp add: lower_str_def)

lemma lower_str_Nil [simp]: "lower_str [] = []"
  by (simp add: lower_str_def)

lemma matches_lit: "matches (lit w) x \<Longrightarrow> lower_str x = lower_str w"
proof (induction w arbitrary: x)
  case Nil
  then show ?case by (auto dest: matches_Eps)
next
  case (Cons c w)
  from Cons.prems have "matches (Seq (Cls (same_letter c)) (lit w)) x" by simp
  then obtain y z where x: "x = y @ z" and y: "matches (Cls (same_letter c)) y" and z: "matches (lit w) z"
    by (blast dest: matches_Seq)
  from matches_Cls [OF y] Cons.IH [OF z] show ?case by (auto simp: x same_letter_def)
qed

lemma matches_lit_length: "matches (lit w) x \<Longrightarrow> length x = length w"
  using matches_lit [of w x] by (metis length_map lower_str_def)

text \<open>Only letters have two cases.\<close>

lemma lower_char_eq: "\<not> is_lower d \<Longrightarrow> lower_char c = d \<Longrightarrow> c = d"
proof -
  assume d: "\<not> is_lower d" and eq: "lower_char c = d"
  have "is_lower (lower_char c)" if u: "is_upper c"
  proof -
    have "char_code c + 32 < 256" using u by (simp add: is_upper_def)
    then have "char_code (lower_char c) = char_code c + 32" using u by (simp add: lower_char_def char_code_def of_char_of)
    with u show ?thesis by (simp add: is_upper_def is_lower_def)
  qed
  with d eq have "\<not> is_upper c" by blast
  with eq show ?thesis by (simp add: lower_char_def)
qed

lemma group_always_lit [simp]: "group_always n P (lit w)"
  by (induction w) auto

lemma group_always_seqs [simp]: "group_always n P (seqs rs) \<longleftrightarrow> (\<forall>r\<in>set rs. group_always n P r)"
  by (induction rs) auto

lemma group_always_alts [simp]: "group_always n P (alts rs) \<longleftrightarrow> (\<forall>r\<in>set rs. group_always n P r)"
  by (induction rs rule: alts.induct) auto

lemma group_always_parts [simp]:
  "group_always n P (opt r) \<longleftrightarrow> group_always n P r" "group_always n P (one_of ws)"
  "group_always n P spaces0" "group_always n P spaces1" "group_always n P (digits lo hi)"
  "group_always n P (letter_in a b)"
  by (auto simp: opt_def one_of_def spaces0_def spaces1_def digits_def letter_in_def)

lemma group_set_seqs [simp]: "group_set n (seqs rs) \<longleftrightarrow> (\<exists>r\<in>set rs. group_set n r)"
  by (induction rs) auto

lemma matches_alts: "matches (alts rs) x \<Longrightarrow> \<exists>r\<in>set rs. matches r x"
  by (induction rs rule: alts.induct) (auto dest: matches_Alt matches_Cls)

lemma matches_one_of: "matches (one_of ws) x \<Longrightarrow> \<exists>w\<in>set ws. length x = length w"
  by (auto simp: one_of_def dest!: matches_alts matches_lit_length)

lemma matches_digits: "matches (digits lo hi) x \<Longrightarrow> lo \<le> length x \<and> length x \<le> hi \<and> list_all is_digit x"
  by (auto simp: digits_def dest: matches_Many)

lemma matches_letter_in:
  "matches (letter_in a b) x \<Longrightarrow> \<exists>c. x = [c] \<and> char_code a \<le> char_code c \<and> char_code c \<le> char_code b"
  by (auto simp: letter_in_def dest!: matches_Cls)

end
