(* ===== verification/Prompts.thy ===== *)
theory Prompts
  imports Regex Calendar
begin

text \<open>
  What the built-in assistant of src/app/services/ai_provider.py (\<open>MockAIProvider\<close>) reads out of a
  prompt: the route, seats, price, departure and vehicle, each by a regular expression, and the texts
  it builds from them. The clock is an argument. A price is a \<open>Decimal\<close> of up to six digits, so an
  integer here.
\<close>

section \<open>Text\<close>

text \<open>\<open>s.split()\<close>, the word read so far in front.\<close>

fun split_from :: "string \<Rightarrow> string \<Rightarrow> string list" where
  "split_from w [] = (if w = [] then [] else [w])"
| "split_from w (c # cs) =
     (if is_space c then (if w = [] then split_from [] cs else w # split_from [] cs)
      else split_from (w @ [c]) cs)"

fun join_with :: "string \<Rightarrow> string list \<Rightarrow> string" where
  "join_with sep [] = []"
| "join_with sep [w] = w"
| "join_with sep (w # ws) = w @ sep @ join_with sep ws"

definition one_spaced :: "string \<Rightarrow> string" where
  "one_spaced prompt = join_with '' '' (split_from [] prompt)"

definition strip_chars :: "string \<Rightarrow> string \<Rightarrow> string" where
  "strip_chars cs s = rev (dropWhile (\<lambda>c. c \<in> set cs) (rev (dropWhile (\<lambda>c. c \<in> set cs) s)))"

text \<open>\<open>re.sub(r"\s+", " ", s)\<close>, where the flag tells that a space has just been written.\<close>

fun collapse_spaces :: "bool \<Rightarrow> string \<Rightarrow> string" where
  "collapse_spaces b [] = []"
| "collapse_spaces b (c # cs) =
     (if is_space c then (if b then collapse_spaces True cs else CHR '' '' # collapse_spaces True cs)
      else c # collapse_spaces False cs)"

definition is_letter :: "char \<Rightarrow> bool" where
  "is_letter c \<longleftrightarrow> is_upper c \<or> is_lower c"

text \<open>\<open>str.title\<close>, the flag telling whether the last character was a letter.\<close>

fun title_from :: "bool \<Rightarrow> string \<Rightarrow> string" where
  "title_from b [] = []"
| "title_from b (c # cs) =
     (if is_letter c then (if b then lower_char c else upper_char c) # title_from True cs
      else c # title_from False cs)"

definition title_str :: "string \<Rightarrow> string" where
  "title_str s = title_from False s"

definition clean_place :: "string \<Rightarrow> string" where
  "clean_place v = title_str (collapse_spaces False (strip_chars '' ,.-'' v))"

section \<open>The expressions\<close>

definition place_char :: "char \<Rightarrow> bool" where
  "place_char c \<longleftrightarrow> is_letter c \<or> is_space c \<or> c \<in> set '',.-''"

definition route_rx :: rx where
  "route_rx = seqs [Bound, lit ''from'', spaces1, Grp 1 (Many False 2 (Some 80) place_char), spaces1,
     lit ''to'', spaces1, Grp 2 (Many False 2 (Some 80) place_char),
     alts [seqs [spaces1, one_of [''on'', ''at'', ''by'', ''with'', ''in'', ''for'', ''tomorrow'', ''today''], Bound],
           Cls (\<lambda>c. c \<in> set '',.;''), End]]"

definition seats_rx :: rx where
  "seats_rx = seqs [Bound, Grp 1 (Alt (letter_in (CHR ''1'') (CHR ''9'')) (lit ''10'')), spaces0,
     one_of [''seat'', ''seats'', ''passenger'', ''passengers''], Bound]"

definition fare_rx :: rx where
  "fare_rx = seqs [Alt (seqs [lit ''rs'', opt (lit ''.'')]) (lit ''inr''), spaces0, Grp 1 (digits 1 6),
     opt (seqs [spaces0, one_of [''per seat'', ''each'']])]"

definition budget_rx :: rx where
  "budget_rx = seqs [Bound, one_of [''under'', ''below'', ''max'', ''maximum'', ''budget''], spaces0,
     Grp 1 (digits 2 6), Bound]"

definition each_rx :: rx where
  "each_rx = seqs [Bound, Grp 1 (digits 2 6), spaces0, one_of [''per seat'', ''each''], Bound]"

definition word_rx :: "string list \<Rightarrow> rx" where
  "word_rx ws = seqs [Bound, one_of ws, Bound]"

definition hour_rx :: rx where
  "hour_rx = Alt (seqs [opt (letter_in (CHR ''0'') (CHR ''1'')), letter_in (CHR ''0'') (CHR ''9'')])
     (seqs [lit ''2'', letter_in (CHR ''0'') (CHR ''3'')])"

definition minutes_rx :: rx where
  "minutes_rx = seqs [lit '':'', Grp 2 (seqs [letter_in (CHR ''0'') (CHR ''5''), letter_in (CHR ''0'') (CHR ''9'')])]"

definition time_rx :: "rx \<Rightarrow> rx" where
  "time_rx mins = seqs [Bound, Grp 1 hour_rx, mins, spaces0, opt (Grp 3 (one_of [''am'', ''pm''])), Bound]"

definition vehicle_rx :: rx where
  "vehicle_rx = seqs [Bound, Grp 1 (one_of [''swift'', ''ertiga'', ''innova'', ''sedan'', ''hatchback'', ''suv'',
     ''dzire'', ''baleno'', ''creta'', ''wagonr'', ''wagon r'']), Bound]"

definition sensitive_rx :: rx where
  "sensitive_rx = seqs [Bound, Grp 1 (one_of [''otp'', ''password'', ''card'', ''cvv'', ''upi pin'', ''pin'']), Bound]"

section \<open>Reading a prompt\<close>

definition extract_route :: "string \<Rightarrow> string option \<times> string option" where
  "extract_route t =
     (case re_search route_rx t of
        None \<Rightarrow> (None, None)
      | Some g \<Rightarrow> (map_option clean_place (g 1), map_option clean_place (g 2)))"

definition group_int :: "nat \<Rightarrow> (nat \<Rightarrow> string option) \<Rightarrow> int option" where
  "group_int n g = Option.bind (g n) parse_int"

definition extract_seats :: "string \<Rightarrow> int option" where
  "extract_seats t = Option.bind (re_search seats_rx t) (group_int 1)"

definition extract_price :: "string \<Rightarrow> int option" where
  "extract_price t =
     (case re_search fare_rx t of
        Some g \<Rightarrow> group_int 1 g
      | None \<Rightarrow>
          (case re_search budget_rx t of
             Some g \<Rightarrow> group_int 1 g
           | None \<Rightarrow> Option.bind (re_search each_rx t) (group_int 1)))"

text \<open>The day a prompt names, counted from 1970-01-01.\<close>

definition named_day :: "instant \<Rightarrow> string \<Rightarrow> int option" where
  "named_day now t =
     (let today = now div days 1
      in if re_search (word_rx [''tomorrow'']) t \<noteq> None then Some (today + 1)
         else if re_search (word_rx [''today'']) t \<noteq> None then Some today
         else None)"

text \<open>Hour and minute of a match of \<open>time_rx\<close>, on the 24-hour clock.\<close>

definition clock_time :: "(nat \<Rightarrow> string option) \<Rightarrow> int \<times> int" where
  "clock_time g =
     (let h = (case group_int 1 g of None \<Rightarrow> 0 | Some h \<Rightarrow> h);
          m = (case group_int 2 g of None \<Rightarrow> 0 | Some m \<Rightarrow> m);
          h' = (case g 3 of
                  None \<Rightarrow> h
                | Some x \<Rightarrow> if lower_str x = ''pm'' \<and> h < 12 then h + 12
                           else if lower_str x = ''am'' \<and> h = 12 then 0 else h)
      in (h', m))"

definition combine :: "int \<Rightarrow> int \<times> int \<Rightarrow> instant" where
  "combine d hm = days d + hours (fst hm) + minutes (snd hm)"

definition extract_departure_time :: "instant \<Rightarrow> string \<Rightarrow> instant option" where
  "extract_departure_time now t =
     (let d = named_day now t; g = re_search (time_rx (opt minutes_rx)) t
      in if d = None \<and> g = None then None
         else Some (combine (case d of None \<Rightarrow> now div days 1 | Some x \<Rightarrow> x)
                (case g of None \<Rightarrow> (9, 0) | Some x \<Rightarrow> clock_time x)))"

definition extract_departure_window :: "instant \<Rightarrow> string \<Rightarrow> instant option \<times> instant option" where
  "extract_departure_window now t =
     (case named_day now t of
        None \<Rightarrow> (None, None)
      | Some d \<Rightarrow>
          (let lower = lower_str t; span = (\<lambda>a b. (Some (combine d a), Some (combine d b)))
           in if contains_str lower ''morning'' then span (5, 0) (12, 0)
              else if contains_str lower ''afternoon'' then span (12, 0) (17, 0)
              else if contains_str lower ''evening'' then span (17, 0) (21, 0)
              else if contains_str lower ''night'' then span (21, 0) (23, 59)
              else (case re_search (time_rx minutes_rx) t of
                      Some g \<Rightarrow> (let start = combine d (clock_time g) in (Some start, Some (start + hours 3)))
                    | None \<Rightarrow> span (0, 0) (23, 59))))"

definition extract_vehicle :: "string \<Rightarrow> string option" where
  "extract_vehicle t = Option.bind (re_search vehicle_rx t) (\<lambda>g. map_option title_str (g 1))"

definition build_notes :: "string \<Rightarrow> string" where
  "build_notes t = ''AI draft from driver note: '' @ take 220 t"

text \<open>\<open>value or default\<close> of an optional text.\<close>

definition or_text :: "string option \<Rightarrow> string \<Rightarrow> string" where
  "or_text v dflt = (case v of None \<Rightarrow> dflt | Some s \<Rightarrow> if s = [] then dflt else s)"

definition build_search_summary :: "string option \<Rightarrow> string option \<Rightarrow> int option \<Rightarrow> int option \<Rightarrow> string" where
  "build_search_summary origin destination seats price =
     (let route = or_text origin ''Any origin'' @ '' to '' @ or_text destination ''any destination'';
          seat_text = (case seats of
             None \<Rightarrow> ''any seat count''
           | Some n \<Rightarrow> if n = 0 then ''any seat count'' else str_int n @ '' seat'' @ (if n \<noteq> 1 then ''s'' else []));
          price_text = (case price of None \<Rightarrow> ''any fare'' | Some p \<Rightarrow> ''under Rs '' @ str_int p)
      in ''Search rides for '' @ route @ '', '' @ seat_text @ '', '' @ price_text @ ''.'')"

section \<open>What comes out\<close>

lemma length_strip_chars: "length (strip_chars cs s) \<le> length s"
proof -
  have "length (strip_chars cs s) \<le> length (dropWhile (\<lambda>c. c \<in> set cs) s)"
    unfolding strip_chars_def using length_dropWhile_le [of _ "rev (dropWhile (\<lambda>c. c \<in> set cs) s)"] by simp
  with length_dropWhile_le [of "\<lambda>c. c \<in> set cs" s] show ?thesis by linarith
qed

lemma length_collapse: "length (collapse_spaces b s) \<le> length s"
  by (induction b s rule: collapse_spaces.induct) auto

lemma length_title [simp]: "length (title_str s) = length s"
proof -
  have "length (title_from b s) = length s" for b
    by (induction b s rule: title_from.induct) auto
  then show ?thesis by (simp add: title_str_def)
qed

lemma length_clean_place: "length (clean_place v) \<le> length v"
  using length_strip_chars [of "'' ,.-''" v] length_collapse [of False "strip_chars '' ,.-'' v"]
  unfolding clean_place_def length_title by linarith

lemma route_places: "group_always n (\<lambda>x. length x \<le> 80) route_rx"
  by (auto simp: route_rx_def dest: matches_Many)

lemma extract_route_bounds:
  assumes "extract_route t = (a, b)"
  shows "(a = None \<longleftrightarrow> b = None) \<and> (\<forall>x. a = Some x \<longrightarrow> length x \<le> 80) \<and> (\<forall>x. b = Some x \<longrightarrow> length x \<le> 80)"
proof (cases "re_search route_rx t")
  case None
  with assms show ?thesis by (simp add: extract_route_def)
next
  case (Some g)
  have "group_set 1 route_rx" "group_set 2 route_rx" by (auto simp: route_rx_def)
  from re_search_group_set [OF Some this(1)] re_search_group_set [OF Some this(2)]
  obtain x y where xy: "g 1 = Some x" "g 2 = Some y" by metis
  have "length x \<le> 80" "length y \<le> 80" using re_search_group [OF Some route_places] xy by blast+
  with length_clean_place [of x] length_clean_place [of y] have "length (clean_place x) \<le> 80" "length (clean_place y) \<le> 80"
    by simp_all
  with assms Some xy show ?thesis by (auto simp: extract_route_def)
qed

text \<open>\<open>int\<close> of up to \<open>k\<close> digits.\<close>

lemma digit_val_bound: "digit_val c = Some d \<Longrightarrow> d < 10"
  by (auto simp: digit_val_def Let_def split: if_splits)

lemma parse_digits_bound: "parse_digits acc x = Some n \<Longrightarrow> n < (acc + 1) * 10 ^ length x"
proof (induction x arbitrary: acc)
  case (Cons c x)
  then obtain d where d: "digit_val c = Some d" and "parse_digits (10 * acc + d) x = Some n"
    by (auto split: option.splits)
  with Cons.IH have "n < (10 * acc + d + 1) * 10 ^ length x" by blast
  also have "\<dots> \<le> (10 * acc + 10) * 10 ^ length x"
    using digit_val_bound [OF d] by (intro mult_right_mono) auto
  finally show ?case by (simp add: algebra_simps)
qed simp

lemma parse_int_digits:
  assumes "parse_int x = Some i" "list_all is_digit x" "length x \<le> k"
  shows "0 \<le> i \<and> i < 10 ^ k"
proof -
  from assms(1,2) obtain c cs where x: "x = c # cs" and c: "is_digit c" by (cases x) (auto simp: parse_int_def)
  from c have "c \<noteq> CHR ''-''" by (auto simp: is_digit_def char_code_def)
  with assms(1) x obtain n where n: "parse_digits 0 x = Some n" "i = int n" by (auto simp: parse_int_def)
  from parse_digits_bound [OF n(1)] have "n < 10 ^ length x" by simp
  also have "\<dots> \<le> 10 ^ k" using assms(3) by (simp add: power_increasing)
  finally have "int n < int (10 ^ k)" by (simp only: of_nat_less_iff)
  with n(2) show ?thesis by simp
qed

lemma extract_price_bounds:
  assumes "extract_price t = Some p"
  shows "0 \<le> p \<and> p < 10 ^ 6"
proof -
  have *: "0 \<le> p \<and> p < 10 ^ 6"
    if g: "re_search r t = Some g" "group_int 1 g = Some p" and r: "r \<in> {fare_rx, budget_rx, each_rx}" for g r
  proof -
    from g(2) obtain x where x: "g 1 = Some x" "parse_int x = Some p" by (auto simp: group_int_def bind_eq_Some_conv)
    have "group_always 1 (\<lambda>x. length x \<le> 6 \<and> list_all is_digit x) r"
      using r by (auto simp: fare_rx_def budget_rx_def each_rx_def dest: matches_digits)
    from re_search_group [OF g(1) this x(1)] parse_int_digits [OF x(2)] show ?thesis by blast
  qed
  from assms obtain r g where "r \<in> {fare_rx, budget_rx, each_rx}" "re_search r t = Some g" "group_int 1 g = Some p"
    by (auto simp: extract_price_def bind_eq_Some_conv split: option.splits)
  with * show ?thesis by blast
qed

text \<open>\<open>int\<close> of one digit and of two.\<close>

lemma digit_val_code: "48 \<le> char_code c \<Longrightarrow> char_code c \<le> 57 \<Longrightarrow> digit_val c = Some (char_code c - 48)"
  by (simp add: digit_val_def char_code_def Let_def)

lemma digit_not_minus: "48 \<le> char_code c \<Longrightarrow> c \<noteq> CHR ''-''"
  by (auto simp: char_code_def)

lemma parse_int_digit: "48 \<le> char_code c \<Longrightarrow> char_code c \<le> 57 \<Longrightarrow> parse_int [c] = Some (int (char_code c) - 48)"
  using digit_not_minus [of c] by (simp add: parse_int_def digit_val_code)

lemma parse_int_digits2:
  "48 \<le> char_code c \<Longrightarrow> char_code c \<le> 57 \<Longrightarrow> 48 \<le> char_code d \<Longrightarrow> char_code d \<le> 57 \<Longrightarrow>
     parse_int [c, d] = Some (10 * (int (char_code c) - 48) + (int (char_code d) - 48))"
  using digit_not_minus [of c] by (simp add: parse_int_def digit_val_code)

lemma matches_lit_digits:
  "matches (lit w) x \<Longrightarrow> list_all is_digit w \<Longrightarrow> x = w"
proof (drule matches_lit)
  assume "lower_str x = lower_str w" "list_all is_digit w"
  then show "x = w"
  proof (induction w arbitrary: x)
    case (Cons d w)
    have d: "\<not> is_lower d" "lower_char d = d" using Cons.prems(2)
      by (auto simp: is_digit_def is_lower_def lower_char_def is_upper_def)
    from Cons.prems(1) obtain c y where x: "x = c # y" "lower_char c = d" "lower_str y = lower_str w"
      using d by (cases x) auto
    with lower_char_eq [OF d(1)] Cons.IH Cons.prems(2) show ?case by simp
  qed (simp add: lower_str_def)
qed

lemma codes [simp]:
  "char_code (CHR ''0'') = 48" "char_code (CHR ''1'') = 49" "char_code (CHR ''2'') = 50"
  "char_code (CHR ''3'') = 51" "char_code (CHR ''5'') = 53" "char_code (CHR ''9'') = 57"
  by code_simp+

lemma extract_seats_bounds:
  assumes "extract_seats t = Some n"
  shows "1 \<le> n \<and> n \<le> 10"
proof -
  from assms obtain g x where g: "re_search seats_rx t = Some g" "g 1 = Some x" and n: "parse_int x = Some n"
    by (auto simp: extract_seats_def group_int_def bind_eq_Some_conv)
  have ten: "parse_int ''10'' = Some 10" "list_all is_digit ''10''" by code_simp+
  have one: "\<forall>n. parse_int x = Some n \<longrightarrow> 1 \<le> n \<and> n \<le> 10"
    if "matches (Alt (letter_in (CHR ''1'') (CHR ''9'')) (lit ''10'')) x" for x
    using matches_Alt [OF that]
  proof
    assume "matches (letter_in (CHR ''1'') (CHR ''9'')) x"
    then obtain c where "x = [c]" "49 \<le> char_code c" "char_code c \<le> 57" by (auto dest!: matches_letter_in)
    then show ?thesis by (simp add: parse_int_digit)
  next
    assume "matches (lit ''10'') x"
    then have "x = ''10''" using ten(2) by (rule matches_lit_digits)
    with ten(1) show ?thesis by simp
  qed
  have "group_always 1 (\<lambda>x. \<forall>n. parse_int x = Some n \<longrightarrow> 1 \<le> n \<and> n \<le> 10) seats_rx"
    using one by (auto simp: seats_rx_def simp del: lit.simps)
  from re_search_group [OF g(1) this g(2)] n show ?thesis by blast
qed

text \<open>A time of day.\<close>

lemma hour_bounds:
  assumes "matches hour_rx x" and n: "parse_int x = Some n"
  shows "0 \<le> n \<and> n < 24"
proof -
  have two: "list_all is_digit ''2''" by code_simp
  from assms(1) consider
      (a) y z where "x = y @ z" "matches (opt (letter_in (CHR ''0'') (CHR ''1''))) y"
        "matches (letter_in (CHR ''0'') (CHR ''9'')) z"
    | (b) y z where "x = y @ z" "matches (lit ''2'') y" "matches (letter_in (CHR ''0'') (CHR ''3'')) z"
    unfolding hour_rx_def seqs.simps
    by (auto dest!: matches_Alt matches_Seq matches_Eps simp del: lit.simps)
  then show ?thesis
  proof cases
    case a
    from matches_letter_in [OF a(3)] obtain d where z: "z = [d]" "48 \<le> char_code d" "char_code d \<le> 57" by auto
    from a(2) consider "y = []" | c where "y = [c]" "48 \<le> char_code c" "char_code c \<le> 49"
      by (auto simp: opt_def dest!: matches_Alt matches_Eps matches_letter_in)
    then show ?thesis using n a(1) z by cases (auto simp: parse_int_digit parse_int_digits2)
  next
    case b
    from matches_letter_in [OF b(3)] obtain d where z: "z = [d]" "48 \<le> char_code d" "char_code d \<le> 51" by auto
    from matches_lit_digits [OF b(2) two] b(1) z(1) have "x = [CHR ''2'', d]" by simp
    with n z(2,3) show ?thesis by (auto simp: parse_int_digits2)
  qed
qed

lemma minute_bounds:
  assumes "matches (seqs [letter_in (CHR ''0'') (CHR ''5''), letter_in (CHR ''0'') (CHR ''9'')]) x"
    and n: "parse_int x = Some n"
  shows "0 \<le> n \<and> n < 60"
proof -
  from assms(1) obtain c d where x: "x = [c, d]" "48 \<le> char_code c" "char_code c \<le> 53" "48 \<le> char_code d" "char_code d \<le> 57"
    unfolding seqs.simps by (fastforce dest!: matches_Seq matches_Eps matches_letter_in)
  with n show ?thesis by (auto simp: parse_int_digits2)
qed

lemma clock_time_bounds:
  assumes g: "re_search (time_rx mins) t = Some g" and mins: "mins \<in> {minutes_rx, opt minutes_rx}"
    and hm: "clock_time g = (h, m)"
  shows "0 \<le> h \<and> h < 24 \<and> 0 \<le> m \<and> m < 60"
proof -
  have *: "group_always 1 (\<lambda>x. \<forall>n. parse_int x = Some n \<longrightarrow> 0 \<le> n \<and> n < 24) (time_rx mins)"
    using mins by (auto simp: time_rx_def minutes_rx_def hour_rx_def simp del: lit.simps seqs.simps
        dest!: hour_bounds [unfolded hour_rx_def])
  have **: "group_always 2 (\<lambda>x. \<forall>n. parse_int x = Some n \<longrightarrow> 0 \<le> n \<and> n < 60) (time_rx mins)"
    using mins by (auto simp: time_rx_def minutes_rx_def hour_rx_def simp del: lit.simps seqs.simps dest!: minute_bounds)
  have h1: "0 \<le> n \<and> n < 24" if "group_int 1 g = Some n" for n
    using that re_search_group [OF g *] by (auto simp: group_int_def bind_eq_Some_conv)
  have m1: "0 \<le> n \<and> n < 60" if "group_int 2 g = Some n" for n
    using that re_search_group [OF g **] by (auto simp: group_int_def bind_eq_Some_conv)
  show ?thesis
    using hm h1 m1 by (fastforce simp: clock_time_def Let_def split: option.splits if_splits)
qed

lemma extract_vehicle_length:
  assumes "extract_vehicle t = Some v"
  shows "length v \<le> 9"
proof -
  from assms obtain g x where g: "re_search vehicle_rx t = Some g" "g 1 = Some x" "v = title_str x"
    by (auto simp: extract_vehicle_def bind_eq_Some_conv)
  have "group_always 1 (\<lambda>x. length x \<le> 9) vehicle_rx"
    by (auto simp: vehicle_rx_def dest!: matches_one_of)
  from re_search_group [OF g(1) this g(2)] g(3) show ?thesis by simp
qed

lemma length_build_notes: "length (build_notes t) \<le> 247"
  by (simp add: build_notes_def)

lemma combine_day: "0 \<le> h \<and> h < 24 \<and> 0 \<le> m \<and> m < 60 \<Longrightarrow> days d \<le> combine d (h, m) \<and> combine d (h, m) < days (d + 1)"
  by (simp add: combine_def time_units)

text \<open>A departure is on the day that the prompt names, and a window is not empty and starts on it.\<close>

lemma extract_departure_on_day:
  assumes "extract_departure_time now t = Some x"
  shows "\<exists>d. days d \<le> x \<and> x < days (d + 1) \<and> (named_day now t = Some d \<or> named_day now t = None \<and> d = now div days 1)"
proof -
  let ?d = "case named_day now t of None \<Rightarrow> now div days 1 | Some y \<Rightarrow> y"
  let ?hm = "case re_search (time_rx (opt minutes_rx)) t of None \<Rightarrow> (9, 0) | Some y \<Rightarrow> clock_time y"
  have x: "x = combine ?d ?hm" using assms by (simp add: extract_departure_time_def Let_def split: if_splits)
  obtain h m where hm: "?hm = (h, m)" by (cases ?hm)
  then have "0 \<le> h \<and> h < 24 \<and> 0 \<le> m \<and> m < 60"
    by (cases "re_search (time_rx (opt minutes_rx)) t") (use clock_time_bounds in auto)
  from combine_day [OF this, of ?d] show ?thesis
    unfolding x hm by (intro exI [of _ ?d]) (simp split: option.split)
qed

lemma extract_window_ordered:
  assumes "extract_departure_window now t = (a, b)"
  shows "(a = None \<longleftrightarrow> b = None) \<and> (\<forall>x y. a = Some x \<longrightarrow> b = Some y \<longrightarrow> x < y)"
  using assms
  by (auto simp: extract_departure_window_def Let_def combine_def time_units split: option.splits if_splits)

end
