(* ===== verification/Assistant.thy ===== *)
theory Assistant
  imports Prompts Dispatch
begin

text \<open>
  The AI assistant: the schemas of src/app/schemas/ai.py as functions from an untyped answer to a record
  or a \<open>ValidationError\<close>, the two providers of src/app/services/ai_provider.py, and the service of
  src/app/services/ai.py, which falls back on the built-in provider. The language model is reached over
  HTTP, so its reply is \<open>http_answer\<close> of the environment and may be any JSON value; what pydantic reads
  as a number, a truth value or an instant is \<open>coerce\<close>.
\<close>

section \<open>Schemas\<close>

definition and_then :: "'e + 'a \<Rightarrow> ('a \<Rightarrow> 'e + 'b) \<Rightarrow> 'e + 'b" where
  "and_then r f = (case r of Inl x \<Rightarrow> Inl x | Inr y \<Rightarrow> f y)"

lemma and_then_simps [simp]: "and_then (Inl x) f = Inl x" "and_then (Inr y) f = f y"
  by (simp_all add: and_then_def)

lemma and_then_ok: "and_then r f = Inr x \<longleftrightarrow> (\<exists>y. r = Inr y \<and> f y = Inr x)"
  by (cases r) simp_all

record assistant_request =
  ar_prompt :: string
  ar_timezone :: string
  ar_locale :: string

definition length_between :: "nat \<Rightarrow> nat \<Rightarrow> string \<Rightarrow> bool" where
  "length_between lo hi s \<longleftrightarrow> lo \<le> length s \<and> length s \<le> hi"

definition assistant_request_valid :: "assistant_request \<Rightarrow> bool" where
  "assistant_request_valid q \<longleftrightarrow>
     length_between 10 1500 (ar_prompt q) \<and> length_between 2 64 (ar_timezone q) \<and> length_between 2 16 (ar_locale q)"

datatype chat_intent = Ask_pickup_confirmation | Share_arrival_update | Confirm_luggage | Delay_apology | General_reply

record chat_suggestion_request =
  cq_booking_id :: int
  cq_intent :: chat_intent
  cq_draft_message :: "string option"
  cq_locale :: string

definition chat_suggestion_request_valid :: "chat_suggestion_request \<Rightarrow> bool" where
  "chat_suggestion_request_valid q \<longleftrightarrow>
     0 < cq_booking_id q \<and> (case cq_draft_message q of None \<Rightarrow> True | Some m \<Rightarrow> length m \<le> 1000) \<and>
     length_between 2 16 (cq_locale q)"

record ride_draft =
  rd_origin :: "string option"
  rd_destination :: "string option"
  rd_departure_time :: "instant option"
  rd_available_seats :: "int option"
  rd_price_per_seat :: "rat option"
  rd_vehicle_details :: "string option"
  rd_notes :: "string option"
  rd_missing_fields :: "string list"
  rd_confidence :: real
  rd_safety_notes :: "string list"

record search_filters =
  sf_origin :: "string option"
  sf_destination :: "string option"
  sf_departure_after :: "instant option"
  sf_departure_before :: "instant option"
  sf_seat_count :: "int option"
  sf_max_price_per_seat :: "rat option"
  sf_missing_fields :: "string list"
  sf_confidence :: real
  sf_search_summary :: string
  sf_safety_notes :: "string list"

datatype tone = Polite | Friendly | Concise | Safety_warning

record chat_suggestion =
  cs_suggestion :: string
  cs_tone :: tone
  cs_should_warn :: bool
  cs_safety_notes :: "string list"

text \<open>
  A field of an object: how its value is read, what it must satisfy, and the default where it may be
  absent.
\<close>

definition field :: "(py \<Rightarrow> 'a option) \<Rightarrow> ('a \<Rightarrow> bool) \<Rightarrow> 'a option \<Rightarrow> (string \<times> py) list \<Rightarrow> string \<Rightarrow> exc + 'a" where
  "field read check dflt kvs k =
     (case map_of kvs k of
        None \<Rightarrow> (case dflt of None \<Rightarrow> Inl (ValidationError k) | Some x \<Rightarrow> Inr x)
      | Some v \<Rightarrow>
          (case read v of
             None \<Rightarrow> Inl (ValidationError k)
           | Some x \<Rightarrow> if check x then Inr x else Inl (ValidationError k)))"

text \<open>A field of type \<open>T | None\<close> with default \<open>None\<close>.\<close>

definition nullable :: "(py \<Rightarrow> 'a option) \<Rightarrow> py \<Rightarrow> 'a option option" where
  "nullable read v = (case v of PyNone \<Rightarrow> Some None | _ \<Rightarrow> map_option Some (read v))"

definition optional_field :: "(py \<Rightarrow> 'a option) \<Rightarrow> ('a \<Rightarrow> bool) \<Rightarrow> (string \<times> py) list \<Rightarrow> string \<Rightarrow> exc + 'a option" where
  "optional_field read check =
     field (nullable read) (\<lambda>x. case x of None \<Rightarrow> True | Some y \<Rightarrow> check y) (Some None)"

definition py_string :: "py \<Rightarrow> string option" where
  "py_string v = (case v of PyStr s \<Rightarrow> Some s | _ \<Rightarrow> None)"

fun all_strings :: "py list \<Rightarrow> string list option" where
  "all_strings [] = Some []"
| "all_strings (v # vs) =
     (case (py_string v, all_strings vs) of (Some s, Some ss) \<Rightarrow> Some (s # ss) | _ \<Rightarrow> None)"

definition py_strings :: "py \<Rightarrow> string list option" where
  "py_strings v = (case v of PyList vs \<Rightarrow> all_strings vs | _ \<Rightarrow> None)"

text \<open>The constraints that both schemas put on places, seats, prices and confidence.\<close>

definition place_ok :: "string \<Rightarrow> bool" where
  "place_ok = length_between 2 120"

definition seats_ok :: "int \<Rightarrow> bool" where
  "seats_ok n \<longleftrightarrow> 1 \<le> n \<and> n \<le> 10"

definition confidence_ok :: "real \<Rightarrow> bool" where
  "confidence_ok x \<longleftrightarrow> 0 \<le> x \<and> x \<le> 1"

definition validate_ride_draft :: "coercions \<Rightarrow> py \<Rightarrow> exc + ride_draft" where
  "validate_ride_draft c v =
     (case v of
        PyDict kvs \<Rightarrow>
          and_then (optional_field py_string place_ok kvs ''origin'') (\<lambda>origin.
          and_then (optional_field py_string place_ok kvs ''destination'') (\<lambda>destination.
          and_then (optional_field (as_datetime c) (\<lambda>_. True) kvs ''departure_time'') (\<lambda>departure_time.
          and_then (optional_field (as_int c) seats_ok kvs ''available_seats'') (\<lambda>available_seats.
          and_then (optional_field (as_decimal c) price_valid kvs ''price_per_seat'') (\<lambda>price_per_seat.
          and_then (optional_field py_string (length_between 0 150) kvs ''vehicle_details'') (\<lambda>vehicle_details.
          and_then (optional_field py_string (length_between 0 500) kvs ''notes'') (\<lambda>notes.
          and_then (field py_strings (\<lambda>_. True) (Some []) kvs ''missing_fields'') (\<lambda>missing_fields.
          and_then (field (as_float c) confidence_ok (Some 0) kvs ''confidence'') (\<lambda>confidence.
          and_then (field py_strings (\<lambda>_. True) (Some []) kvs ''safety_notes'') (\<lambda>safety_notes.
          Inr \<lparr>rd_origin = origin, rd_destination = destination, rd_departure_time = departure_time,
             rd_available_seats = available_seats, rd_price_per_seat = price_per_seat,
             rd_vehicle_details = vehicle_details, rd_notes = notes, rd_missing_fields = missing_fields,
             rd_confidence = confidence, rd_safety_notes = safety_notes\<rparr>))))))))))
      | _ \<Rightarrow> Inl (ValidationError ''AIRideCreateDraft''))"

definition validate_search_filters :: "coercions \<Rightarrow> py \<Rightarrow> exc + search_filters" where
  "validate_search_filters c v =
     (case v of
        PyDict kvs \<Rightarrow>
          and_then (optional_field py_string place_ok kvs ''origin'') (\<lambda>origin.
          and_then (optional_field py_string place_ok kvs ''destination'') (\<lambda>destination.
          and_then (optional_field (as_datetime c) (\<lambda>_. True) kvs ''departure_after'') (\<lambda>departure_after.
          and_then (optional_field (as_datetime c) (\<lambda>_. True) kvs ''departure_before'') (\<lambda>departure_before.
          and_then (optional_field (as_int c) seats_ok kvs ''seat_count'') (\<lambda>seat_count.
          and_then (optional_field (as_decimal c) price_valid kvs ''max_price_per_seat'') (\<lambda>max_price_per_seat.
          and_then (field py_strings (\<lambda>_. True) (Some []) kvs ''missing_fields'') (\<lambda>missing_fields.
          and_then (field (as_float c) confidence_ok (Some 0) kvs ''confidence'') (\<lambda>confidence.
          and_then (field py_string (length_between 0 240) None kvs ''search_summary'') (\<lambda>search_summary.
          and_then (field py_strings (\<lambda>_. True) (Some []) kvs ''safety_notes'') (\<lambda>safety_notes.
          Inr \<lparr>sf_origin = origin, sf_destination = destination, sf_departure_after = departure_after,
             sf_departure_before = departure_before, sf_seat_count = seat_count,
             sf_max_price_per_seat = max_price_per_seat, sf_missing_fields = missing_fields,
             sf_confidence = confidence, sf_search_summary = search_summary, sf_safety_notes = safety_notes\<rparr>))))))))))
      | _ \<Rightarrow> Inl (ValidationError ''AIRideSearchFilters''))"

definition read_tone :: "py \<Rightarrow> tone option" where
  "read_tone v = Option.bind (py_string v)
     (map_of [(''polite'', Polite), (''friendly'', Friendly), (''concise'', Concise), (''safety_warning'', Safety_warning)])"

definition validate_chat_suggestion :: "coercions \<Rightarrow> py \<Rightarrow> exc + chat_suggestion" where
  "validate_chat_suggestion c v =
     (case v of
        PyDict kvs \<Rightarrow>
          and_then (field py_string (length_between 1 500) None kvs ''suggestion'') (\<lambda>suggestion.
          and_then (field read_tone (\<lambda>_. True) (Some Polite) kvs ''tone'') (\<lambda>t.
          and_then (field (as_bool c) (\<lambda>_. True) (Some False) kvs ''should_warn'') (\<lambda>should_warn.
          and_then (field py_strings (\<lambda>_. True) (Some []) kvs ''safety_notes'') (\<lambda>safety_notes.
          Inr \<lparr>cs_suggestion = suggestion, cs_tone = t, cs_should_warn = should_warn, cs_safety_notes = safety_notes\<rparr>))))
      | _ \<Rightarrow> Inl (ValidationError ''AIChatSuggestion''))"

section \<open>The built-in provider\<close>

text \<open>The names of the fields that were not found, and the confidence, which falls with each.\<close>

definition missing :: "(string \<times> bool) list \<Rightarrow> string list" where
  "missing fs = map fst (filter snd fs)"

definition confidence_of :: "real \<Rightarrow> string list \<Rightarrow> real" where
  "confidence_of step ms = max (35 / 100) (1 - real (length ms) * step)"

definition mock_ride_draft :: "instant \<Rightarrow> assistant_request \<Rightarrow> py" where
  "mock_ride_draft now q =
     (let t = one_spaced (ar_prompt q);
          (origin, destination) = extract_route t;
          seats = extract_seats t;
          price = extract_price t;
          departure_time = extract_departure_time now t;
          vehicle = extract_vehicle t;
          ms = missing [(''origin'', origin = None), (''destination'', destination = None),
                 (''departure_time'', departure_time = None), (''available_seats'', seats = None),
                 (''price_per_seat'', price = None), (''vehicle_details'', vehicle = None)]
      in PyDict
        [(''origin'', py_opt PyStr origin), (''destination'', py_opt PyStr destination),
         (''departure_time'', py_opt (PyStr \<circ> isoformat) departure_time),
         (''available_seats'', py_opt PyInt seats), (''price_per_seat'', py_opt (PyStr \<circ> str_int) price),
         (''vehicle_details'', py_opt PyStr vehicle), (''notes'', PyStr (build_notes t)),
         (''missing_fields'', PyList (map PyStr ms)), (''confidence'', PyFloat (confidence_of (1 / 10) ms)),
         (''safety_notes'', PyList [PyStr ''Confirm exact pickup point before publishing.'',
            PyStr ''Avoid sharing private payment details in notes.''])])"

definition mock_search_filters :: "instant \<Rightarrow> assistant_request \<Rightarrow> py" where
  "mock_search_filters now q =
     (let t = one_spaced (ar_prompt q);
          (origin, destination) = extract_route t;
          seats = extract_seats t;
          price = extract_price t;
          (departure_after, departure_before) = extract_departure_window now t;
          ms = missing [(''origin'', origin = None), (''destination'', destination = None),
                 (''departure_after'', departure_after = None), (''seat_count'', seats = None)]
      in PyDict
        [(''origin'', py_opt PyStr origin), (''destination'', py_opt PyStr destination),
         (''departure_after'', py_opt (PyStr \<circ> isoformat) departure_after),
         (''departure_before'', py_opt (PyStr \<circ> isoformat) departure_before),
         (''seat_count'', py_opt PyInt seats), (''max_price_per_seat'', py_opt (PyStr \<circ> str_int) price),
         (''missing_fields'', PyList (map PyStr ms)), (''confidence'', PyFloat (confidence_of (12 / 100) ms)),
         (''search_summary'', PyStr (build_search_summary origin destination seats price)),
         (''safety_notes'', PyList [PyStr ''Confirm pickup point and vehicle details before boarding.'',
            PyStr ''Pay only through the platform-supported payment flow.''])])"

text \<open>What the service tells a provider about a booking.\<close>

record booking_context =
  bc_booking_status :: string
  bc_origin :: string
  bc_destination :: string
  bc_departure_time :: string
  bc_vehicle_details :: "string option"
  bc_sender_role :: string

fun chat_template :: "chat_intent \<Rightarrow> string" where
  "chat_template Ask_pickup_confirmation = ''Could you please confirm the exact pickup point and preferred landmark?''"
| "chat_template Share_arrival_update = ''I am on the way and will share an update if the arrival time changes.''"
| "chat_template Confirm_luggage =
     ''Could you please confirm if you are carrying luggage, so we can plan space comfortably?''"
| "chat_template Delay_apology = ''Sorry for the delay. I will keep you updated and coordinate the pickup clearly.''"
| "chat_template General_reply =
     ''Thanks for the update. Let us confirm the pickup point and timing before the ride.''"

definition chat_text :: "chat_intent \<Rightarrow> string \<Rightarrow> booking_context \<Rightarrow> string" where
  "chat_text intent sender_role b =
     (let origin = or_text (Some (bc_origin b)) ''pickup'';
          destination = or_text (Some (bc_destination b)) ''destination'';
          vehicle = or_text (bc_vehicle_details b) ''vehicle''
      in if sender_role = ''driver'' \<and> intent = Share_arrival_update
         then ''I am heading toward the pickup point for the '' @ origin @ '' to '' @ destination @ '' ride in my '' @
           vehicle @ ''. I will keep you updated.''
         else if sender_role \<noteq> ''driver'' \<and> intent = Ask_pickup_confirmation
         then ''Hi, could you please confirm the pickup point and arrival time for the '' @ origin @ '' to '' @
           destination @ '' ride?''
         else chat_template intent)"

text \<open>Whether a message mentions something that must not be shared.\<close>

definition sensitive :: "string option \<Rightarrow> bool" where
  "sensitive draft_message \<longleftrightarrow>
     (case draft_message of None \<Rightarrow> False | Some m \<Rightarrow> m \<noteq> [] \<and> re_search sensitive_rx m \<noteq> None)"

definition otp_note :: string where
  "otp_note = ''Do not share the boarding OTP until you meet the driver in person.''"

definition sensitive_note :: string where
  "sensitive_note = ''The draft may contain sensitive information. Avoid sharing OTPs, passwords, card details, CVV, or UPI PINs.''"

definition mock_chat_suggestion :: "chat_intent \<Rightarrow> string option \<Rightarrow> string \<Rightarrow> booking_context \<Rightarrow> py" where
  "mock_chat_suggestion intent draft_message sender_role b =
     (let should_warn = sensitive draft_message
      in PyDict
        [(''suggestion'', PyStr (chat_text intent sender_role b)),
         (''tone'', PyStr (if should_warn then ''safety_warning'' else ''polite'')),
         (''should_warn'', PyBool should_warn),
         (''safety_notes'', PyList (PyStr otp_note # (if should_warn then [PyStr sensitive_note] else [])))])"

section \<open>The language model\<close>

datatype ai_provider = MockAIProvider | OpenAICompatibleProvider (model_name: string) (base_url: string)

fun provider_name :: "ai_provider \<Rightarrow> string" where
  "provider_name MockAIProvider = ''mock''"
| "provider_name (OpenAICompatibleProvider m u) = ''openai''"

fun provider_model :: "ai_provider \<Rightarrow> string" where
  "provider_model MockAIProvider = ''mock-ride-assistant-v1''"
| "provider_model (OpenAICompatibleProvider m u) = m"

definition get_ai_provider :: "env \<Rightarrow> exc + ai_provider" where
  "get_ai_provider e =
     (if AI_PROVIDER (delivery e) = ''openai''
      then if \<not> given (AI_API_KEY (delivery e)) then Inl (RuntimeError ''AI_API_KEY is not configured'')
        else Inr (OpenAICompatibleProvider (AI_MODEL (ai e))
          (rev (dropWhile (\<lambda>c. c = CHR ''/'') (rev (AI_BASE_URL (ai e))))))
      else Inr MockAIProvider)"

text \<open>\<open>items[0]\<close> of a JSON value; the keys of an object are strings.\<close>

definition py_first :: "py \<Rightarrow> exc + py" where
  "py_first v =
     (case v of
        PyList xs \<Rightarrow> (case xs of [] \<Rightarrow> Inl (IndexError ''list index out of range'') | x # _ \<Rightarrow> Inr x)
      | PyStr s \<Rightarrow> (case s of [] \<Rightarrow> Inl (IndexError ''string index out of range'') | c # _ \<Rightarrow> Inr (PyStr [c]))
      | PyDict kvs \<Rightarrow> Inl (KeyError ''0'')
      | _ \<Rightarrow> Inl (TypeError ''not subscriptable''))"

text \<open>\<open>response.json()["choices"][0]["message"]["content"]\<close>\<close>

definition completion_content :: "py \<Rightarrow> exc + py" where
  "completion_content v =
     and_then (py_item v ''choices'') (\<lambda>cs. and_then (py_first cs) (\<lambda>c.
     and_then (py_item c ''message'') (\<lambda>m. py_item m ''content'')))"

text \<open>
  What the provider makes of a reply: a missing key, a text that is not JSON and a failed call are an
  \<open>AIProviderError\<close>; an empty list and a value that cannot be indexed raise as they are.
\<close>

definition read_completion :: "env \<Rightarrow> string \<Rightarrow> http_reply \<Rightarrow> exc + py" where
  "read_completion e error_message reply =
     (case reply of
        HttpJson v \<Rightarrow>
          (case completion_content v of
             Inl (KeyError k) \<Rightarrow> Inl (AIProviderError error_message)
           | Inl x \<Rightarrow> Inl x
           | Inr (PyStr content) \<Rightarrow>
               (case json_loads e content of
                  None \<Rightarrow> Inl (AIProviderError error_message)
                | Some (PyDict kvs) \<Rightarrow> Inr (PyDict kvs)
                | Some _ \<Rightarrow> Inl (AIProviderError ''AI provider returned non-object JSON''))
           | Inr _ \<Rightarrow> Inl (TypeError ''the JSON object must be str, bytes or bytearray''))
      | _ \<Rightarrow> Inl (AIProviderError error_message))"

definition json_chat_completion ::
  "env \<Rightarrow> string \<Rightarrow> string \<Rightarrow> string \<Rightarrow> string \<Rightarrow> string \<Rightarrow> py svc" where
  "json_chat_completion e model url system_prompt user_prompt error_message = do {
     log \<leftarrow> gets http_log;
     let call = HttpCall ''POST'' (url @ ''/chat/completions'') (Some (PyDict
       [(''model'', PyStr model), (''temperature'', PyFloat (AI_TEMPERATURE (ai e))),
        (''response_format'', PyDict [(''type'', PyStr ''json_object'')]),
        (''messages'', PyList
          [PyDict [(''role'', PyStr ''system''), (''content'', PyStr system_prompt)],
           PyDict [(''role'', PyStr ''user''), (''content'', PyStr user_prompt)]])]));
     modify (\<lambda>w. w\<lparr>http_log := http_log w @ [call]\<rparr>);
     State_Monad.return (read_completion e error_message (http_answer e log call))
   }"

text \<open>The prompts. Lines are separated by a line feed.\<close>

definition line :: "string \<Rightarrow> string" where
  "line s = s @ [CHR 0x0A]"

definition draft_system_prompt :: string where
  "draft_system_prompt =
     ''You convert ride-sharing driver text into a strict JSON ride draft. '' @
     ''Return only JSON with keys: origin, destination, departure_time, available_seats, '' @
     ''price_per_seat, vehicle_details, notes, missing_fields, confidence, safety_notes. '' @
     ''Use ISO 8601 for departure_time, null for unknown fields, and do not invent exact data.''"

definition filters_system_prompt :: string where
  "filters_system_prompt =
     ''You convert ride-sharing passenger text into strict JSON search filters. '' @
     ''Return only JSON with keys: origin, destination, departure_after, departure_before, '' @
     ''seat_count, max_price_per_seat, missing_fields, confidence, search_summary, safety_notes. '' @
     ''Use ISO 8601 datetimes, null for unknown fields, and do not invent exact places or prices.''"

definition chat_system_prompt :: string where
  "chat_system_prompt =
     ''You write safe, concise ride-sharing chat suggestions. '' @
     ''Return only JSON with keys: suggestion, tone, should_warn, safety_notes. '' @
     ''Do not ask users to share OTPs, card details, CVV, passwords, or UPI PINs. '' @
     ''If the draft contains sensitive content, set should_warn true and use tone safety_warning.''"

definition text_user_prompt :: "instant \<Rightarrow> string \<Rightarrow> assistant_request \<Rightarrow> string" where
  "text_user_prompt now who q =
     line (''Locale: '' @ ar_locale q) @ line (''Timezone: '' @ ar_timezone q) @
     line (''Current UTC time: '' @ isoformat now) @ who @ '' text: '' @ ar_prompt q"

fun intent_value :: "chat_intent \<Rightarrow> string" where
  "intent_value Ask_pickup_confirmation = ''ask_pickup_confirmation''"
| "intent_value Share_arrival_update = ''share_arrival_update''"
| "intent_value Confirm_luggage = ''confirm_luggage''"
| "intent_value Delay_apology = ''delay_apology''"
| "intent_value General_reply = ''general_reply''"

definition context_json :: "booking_context \<Rightarrow> py" where
  "context_json b = PyDict
     [(''booking_status'', PyStr (bc_booking_status b)), (''origin'', PyStr (bc_origin b)),
      (''destination'', PyStr (bc_destination b)), (''departure_time'', PyStr (bc_departure_time b)),
      (''vehicle_details'', py_opt PyStr (bc_vehicle_details b)), (''sender_role'', PyStr (bc_sender_role b))]"

definition chat_user_prompt :: "env \<Rightarrow> chat_suggestion_request \<Rightarrow> string \<Rightarrow> booking_context \<Rightarrow> string" where
  "chat_user_prompt e q sender_role b =
     line (''Locale: '' @ cq_locale q) @ line (''Sender role: '' @ sender_role) @
     line (''Intent: '' @ intent_value (cq_intent q)) @
     line (''Booking context: '' @ json_dumps e (context_json b)) @
     ''Draft message: '' @ or_text (cq_draft_message q) []"

section \<open>Asking a provider\<close>

definition ask_ride_draft :: "env \<Rightarrow> assistant_request \<Rightarrow> ai_provider \<Rightarrow> py svc" where
  "ask_ride_draft e q p = do {
     now \<leftarrow> gets clock;
     (case p of
        MockAIProvider \<Rightarrow> ok (mock_ride_draft now q)
      | OpenAICompatibleProvider m u \<Rightarrow>
          json_chat_completion e m u draft_system_prompt (text_user_prompt now ''Driver'' q)
            ''AI provider failed to return a valid ride draft'')
   }"

definition ask_search_filters :: "env \<Rightarrow> assistant_request \<Rightarrow> ai_provider \<Rightarrow> py svc" where
  "ask_search_filters e q p = do {
     now \<leftarrow> gets clock;
     (case p of
        MockAIProvider \<Rightarrow> ok (mock_search_filters now q)
      | OpenAICompatibleProvider m u \<Rightarrow>
          json_chat_completion e m u filters_system_prompt (text_user_prompt now ''Passenger'' q)
            ''AI provider failed to return valid ride search filters'')
   }"

definition ask_chat_suggestion ::
  "env \<Rightarrow> chat_suggestion_request \<Rightarrow> string \<Rightarrow> booking_context \<Rightarrow> ai_provider \<Rightarrow> py svc" where
  "ask_chat_suggestion e q sender_role b p =
     (case p of
        MockAIProvider \<Rightarrow> ok (mock_chat_suggestion (cq_intent q) (cq_draft_message q) sender_role b)
      | OpenAICompatibleProvider m u \<Rightarrow>
          json_chat_completion e m u chat_system_prompt (chat_user_prompt e q sender_role b)
            ''AI provider failed to return a valid chat suggestion'')"

section \<open>The service\<close>

record 'a assistant_answer =
  an_provider :: string
  an_model :: string
  an_used_fallback :: bool
  an_result :: 'a

definition answer_from :: "ai_provider \<Rightarrow> bool \<Rightarrow> 'a \<Rightarrow> 'a assistant_answer" where
  "answer_from p fallback x =
     \<lparr>an_provider = provider_name p, an_model = provider_model p, an_used_fallback = fallback, an_result = x\<rparr>"

text \<open>\<open>except (AIProviderError, RuntimeError, ValidationError)\<close>\<close>

definition provider_failed :: "exc \<Rightarrow> bool" where
  "provider_failed x \<longleftrightarrow>
     (case x of AIProviderError m \<Rightarrow> True | RuntimeError m \<Rightarrow> True | ValidationError k \<Rightarrow> True | _ \<Rightarrow> False)"

definition checked_answer :: "(ai_provider \<Rightarrow> py svc) \<Rightarrow> (py \<Rightarrow> exc + 'a) \<Rightarrow> ai_provider \<Rightarrow> 'a svc" where
  "checked_answer ask check p = do { r \<leftarrow> ask p; State_Monad.return (and_then r check) }"

text \<open>
  The shape of the three methods: ask the provider and validate; when that fails in one of the expected
  ways, ask and validate the built-in provider, or answer 503 when the fallback is off.
\<close>

definition assisted ::
  "env \<Rightarrow> (ai_provider \<Rightarrow> py svc) \<Rightarrow> (py \<Rightarrow> exc + 'a) \<Rightarrow> ai_provider \<Rightarrow> 'a assistant_answer svc" where
  "assisted e ask check p = do {
     r \<leftarrow> checked_answer ask check p;
     (case r of
        Inr x \<Rightarrow> ok (answer_from p False x)
      | Inl x \<Rightarrow>
          if \<not> provider_failed x then raise x
          else if \<not> AI_FALLBACK_TO_MOCK (ai e)
          then raise (HTTPException 503 ''AI assistant is temporarily unavailable'')
          else do {
            r' \<leftarrow> checked_answer ask check MockAIProvider;
            on_ok r' (\<lambda>y. ok (answer_from MockAIProvider True y))
          })
   }"

definition create_ride_draft :: "env \<Rightarrow> assistant_request \<Rightarrow> ride_draft assistant_answer svc" where
  "create_ride_draft e q = on_ok (get_ai_provider e)
     (assisted e (ask_ride_draft e q) (validate_ride_draft (coerce e)))"

definition create_ride_search_filters :: "env \<Rightarrow> assistant_request \<Rightarrow> search_filters assistant_answer svc" where
  "create_ride_search_filters e q = on_ok (get_ai_provider e)
     (assisted e (ask_search_filters e q) (validate_search_filters (coerce e)))"

definition chat_context :: "booking \<Rightarrow> ride \<Rightarrow> string \<Rightarrow> booking_context" where
  "chat_context b r sender_role =
     \<lparr>bc_booking_status = booking_status_value (b_status b), bc_origin = r_origin r,
      bc_destination = r_destination r, bc_departure_time = isoformat (r_departure_time r),
      bc_vehicle_details = r_vehicle_details r, bc_sender_role = sender_role\<rparr>"

definition booking_summary :: "booking \<Rightarrow> ride \<Rightarrow> string" where
  "booking_summary b r = r_origin r @ '' to '' @ r_destination r @ '' on '' @ isoformat (r_departure_time r) @
     '' ('' @ booking_status_value (b_status b) @ '')''"

definition suggest_chat_reply ::
  "env \<Rightarrow> chat_suggestion_request \<Rightarrow> user \<Rightarrow> (string \<times> chat_suggestion assistant_answer) svc" where
  "suggest_chat_reply e q current_user = on_ok (get_ai_provider e) (\<lambda>p. do {
     d \<leftarrow> gets db;
     case get_booking (cq_booking_id q) d of
       None \<Rightarrow> raise (HTTPException 404 ''Booking not found'')
     | Some b \<Rightarrow> deref (ride_of b d) (\<lambda>ride.
         if u_id current_user = r_driver_id ride \<or> u_id current_user = b_passenger_id b
         then do {
           let sender_role = (if u_id current_user = r_driver_id ride then ''driver'' else ''passenger'');
           r \<leftarrow> assisted e (ask_chat_suggestion e q sender_role (chat_context b ride sender_role))
             (validate_chat_suggestion (coerce e)) p;
           on_ok r (\<lambda>a. ok (booking_summary b ride, a))
         }
         else raise (HTTPException 403 ''Chat access denied''))
   })"

section \<open>What the assistant leaves alone\<close>

lemma keeps_json_chat_completion [frame]:
  "(\<And>w l. f (w\<lparr>http_log := l\<rparr>) = f w) \<Longrightarrow> keeps f (json_chat_completion e m u s t x)"
  unfolding json_chat_completion_def Let_def by (auto intro!: frame)

lemma keeps_ask [frame]:
  assumes "\<And>w l. f (w\<lparr>http_log := l\<rparr>) = f w"
  shows "keeps f (ask_ride_draft e q p)" "keeps f (ask_search_filters e q p)" "keeps f (ask_chat_suggestion e cq r b p)"
  using assms unfolding ask_ride_draft_def ask_search_filters_def ask_chat_suggestion_def
  by (auto intro!: frame split: ai_provider.split)

lemma keeps_assisted [frame]: "(\<And>p. keeps f (ask p)) \<Longrightarrow> keeps f (assisted e ask check p)"
  unfolding assisted_def checked_answer_def by (auto intro!: frame)

lemma keeps_assistant [frame]:
  assumes "\<And>w l. f (w\<lparr>http_log := l\<rparr>) = f w"
  shows "keeps f (create_ride_draft e q)" "keeps f (create_ride_search_filters e q)" "keeps f (suggest_chat_reply e cq u)"
  using assms unfolding create_ride_draft_def create_ride_search_filters_def suggest_chat_reply_def deref_def Let_def
  by (auto intro!: frame)

end
