(* ===== verification/Requests.thy ===== *)
theory Requests
  imports CoreSteps Guards Assistant
begin

text \<open>
  The HTTP interface: one constructor per endpoint of src/app/api/v1/endpoints, and what the endpoint
  does with it. Its dependencies run first (the current user, then the rate limiter, which counts the
  call); a body or a query parameter that the schema refuses is then answered with 422 before the
  service is called, and an idempotent endpoint looks for a recorded response. \<open>serve\<close> gives the effect
  of an endpoint and the exception it ends with; the bodies of the responses are in \<open>Answers\<close>, the WebSocket
  endpoints in \<open>Sockets\<close>.
\<close>

definition void :: "'a svc \<Rightarrow> unit svc" where
  "void m = do { r \<leftarrow> m; on_ok r (\<lambda>_. ok ()) }"

definition void_act :: "'a act \<Rightarrow> unit svc" where
  "void_act m = do { m; ok () }"

definition validated :: "bool \<Rightarrow> 'a svc \<Rightarrow> 'a svc" where
  "validated b m = (if b then m else raise (HTTPException 422 ''Unprocessable Entity''))"

text \<open>\<open>limit: int = Query(ge=1, le=100)\<close> and \<open>offset: int = Query(ge=0)\<close>\<close>

definition page_ok :: "int \<Rightarrow> int \<Rightarrow> bool" where
  "page_ok limit offset \<longleftrightarrow> 1 \<le> limit \<and> limit \<le> 100 \<and> 0 \<le> offset"

definition at_most :: "nat \<Rightarrow> string option \<Rightarrow> bool" where
  "at_most n s \<longleftrightarrow> (case s of None \<Rightarrow> True | Some t \<Rightarrow> length t \<le> n)"

definition field_at_most :: "nat \<Rightarrow> string option option \<Rightarrow> bool" where
  "field_at_most n s \<longleftrightarrow> (case s of None \<Rightarrow> True | Some t \<Rightarrow> at_most n t)"

lemma validated_True [simp]: "validated True m = m"
  by (simp add: validated_def)

lemma writes_void [writing]: "writes R m \<Longrightarrow> writes R (void m)"
  unfolding void_def by (auto intro!: writing)

lemma writes_void_act [writing]: "writes R m \<Longrightarrow> writes R (void_act m)"
  unfolding void_act_def by (auto intro!: writing)

lemma writes_validated [writing]: "(b \<Longrightarrow> writes R m) \<Longrightarrow> writes R (validated b m)"
  unfolding validated_def by (auto intro!: writing)

section \<open>The guards in front of the endpoints\<close>

lemma writes_rate_limit_dependency [writing]:
  "writes R m \<Longrightarrow> writes R (rate_limit_dependency scope limit window i m)"
  unfolding rate_limit_dependency_def by (auto intro!: writing writes_modify split: prod.split)

lemma writes_idempotent_execute [writing]: "writes R m \<Longrightarrow> writes R (idempotent_execute e h actor m f code)"
  unfolding idempotent_execute_def by (auto intro!: writing writes_modify split: prod.split)

text \<open>The fields of \<open>RideResponse\<close> and \<open>BookingResponse\<close>.\<close>

definition ride_status_value :: "ride_status \<Rightarrow> string" where
  "ride_status_value st =
     (case st of RScheduled \<Rightarrow> ''scheduled'' | RFull \<Rightarrow> ''full'' | RCancelled \<Rightarrow> ''cancelled''
      | RCompleted \<Rightarrow> ''completed'')"

definition ride_response :: "ride \<Rightarrow> py" where
  "ride_response r = PyDict
     [(''id'', PyInt (r_id r)), (''driver_id'', PyInt (r_driver_id r)), (''origin'', PyStr (r_origin r)),
      (''destination'', PyStr (r_destination r)), (''origin_latitude'', py_opt PyFloat (r_origin_latitude r)),
      (''origin_longitude'', py_opt PyFloat (r_origin_longitude r)),
      (''destination_latitude'', py_opt PyFloat (r_destination_latitude r)),
      (''destination_longitude'', py_opt PyFloat (r_destination_longitude r)),
      (''departure_time'', PyDatetime (r_departure_time r)), (''available_seats'', PyInt (r_available_seats r)),
      (''price_per_seat'', PyDecimal (r_price_per_seat r)), (''vehicle_details'', py_opt PyStr (r_vehicle_details r)),
      (''notes'', py_opt PyStr (r_notes r)), (''status'', PyStr (ride_status_value (r_status r))),
      (''is_active'', PyBool (r_is_active r))]"

definition booking_response :: "booking \<Rightarrow> py" where
  "booking_response b = PyDict
     [(''id'', PyInt (b_id b)), (''ride_id'', PyInt (b_ride_id b)), (''passenger_id'', PyInt (b_passenger_id b)),
      (''status'', PyStr (booking_status_value (b_status b))), (''notes'', py_opt PyStr (b_notes b)),
      (''boarded_at'', py_opt PyDatetime (b_boarded_at b)), (''created_at'', PyDatetime (b_created_at b))]"

section \<open>Rides (endpoints/rides.py)\<close>

definition ride_write :: "env \<Rightarrow> inbound \<Rightarrow> 'a svc \<Rightarrow> 'a svc" where
  "ride_write e h = rate_limit_dependency ''ride-write'' (RIDE_WRITE_RATE_LIMIT_MAX_REQUESTS (feat e))
     (RIDE_WRITE_RATE_LIMIT_WINDOW_SECONDS (feat e)) (client_host h)"

lemma writes_ride_write [writing]: "writes R m \<Longrightarrow> writes R (ride_write e h m)"
  unfolding ride_write_def by (rule writing)

datatype ride_call =
  Create_ride ride_fields
| List_my_rides "string option" int int
| Ride_detail int
| Update_ride int ride_fields
| Cancel_ride int
| Complete_ride int
| Update_ride_location int ride_location_create
| Latest_ride_location int
| Ride_location_history int int
| Ride_location_access int

text \<open>\<open>RideStatus(ride_status) if ride_status else None\<close>: an unknown status is a \<open>ValueError\<close> of the endpoint.\<close>

definition parse_ride_status :: "string \<Rightarrow> ride_status option" where
  "parse_ride_status s = find (\<lambda>st. ride_status_value st = s) [RScheduled, RFull, RCompleted, RCancelled]"

definition normalized_status :: "string option \<Rightarrow> exc + ride_status option" where
  "normalized_status s =
     (if \<not> truthy s then Inr None
      else case parse_ride_status (the s) of None \<Rightarrow> Inl (ValueError ''RideStatus'') | Some st \<Rightarrow> Inr (Some st))"

fun serve_rides :: "env \<Rightarrow> inbound \<Rightarrow> user \<Rightarrow> ride_call \<Rightarrow> unit svc" where
  "serve_rides e h u (Create_ride f) = ride_write e h (validated (ride_create_valid f)
     (void (idempotent_execute e h (Some (u_id u)) (create_ride f u) ride_response 201)))"
| "serve_rides e h u (List_my_rides st limit offset) =
     validated (page_ok limit offset) (void (on_ok (normalized_status st) (\<lambda>st. list_driver_rides u st limit offset)))"
| "serve_rides e h u (Ride_detail i) = void (get_ride_detail i (Some u))"
| "serve_rides e h u (Update_ride i f) = ride_write e h (validated (ride_update_valid f)
     (void (idempotent_execute e h (Some (u_id u)) (update_ride i f u) ride_response 200)))"
| "serve_rides e h u (Cancel_ride i) = ride_write e h
     (void (idempotent_execute e h (Some (u_id u)) (cancel_ride e i u) (\<lambda>_. PyNone) 204))"
| "serve_rides e h u (Complete_ride i) = ride_write e h
     (void (idempotent_execute e h (Some (u_id u)) (complete_ride e i u) ride_response 200))"
| "serve_rides e h u (Update_ride_location i c) =
     rate_limit_dependency ''location-update'' (LOCATION_UPDATE_RATE_LIMIT_MAX_REQUESTS (feat e))
       (LOCATION_UPDATE_RATE_LIMIT_WINDOW_SECONDS (feat e)) (client_host h)
       (validated (location_create_valid c) (void (update_location e i c u)))"
| "serve_rides e h u (Latest_ride_location i) = void (latest_location_for e i u)"
| "serve_rides e h u (Ride_location_history i limit) =
     validated (1 \<le> limit \<and> limit \<le> 200) (void (list_location_history e i u limit))"
| "serve_rides e h u (Ride_location_access i) = void (get_location_access e i u)"

lemma writes_ride_reads [writing]:
  "writes R (list_driver_rides u st l f)" "writes R (get_ride_detail i ou)"
  "writes R (ensure_location_access e i u)" "writes R (get_location_access e i u)"
  unfolding list_driver_rides_def get_ride_detail_def ensure_location_access_def get_location_access_def
  by (auto intro!: writing)

lemma writes_location_reads [writing]:
  "writes R (latest_location_for e i u)" "writes R (list_location_history e i u l)"
  unfolding latest_location_for_def list_location_history_def by (auto intro!: writing)

lemma core_serve_rides: "writes core_step (serve_rides e h u c)"
  by (cases c) (auto intro!: writing peripheral_writes [OF peripheral_location])

section \<open>Bookings (endpoints/bookings.py)\<close>

text \<open>The number and the token drawn by the service come with the call.\<close>

datatype booking_call =
  Create_booking booking_create_request
| List_my_bookings "booking_status option" int int
| List_managed_bookings "booking_status option" int int
| Booking_detail int
| Issue_boarding_code int int
| Verify_boarding_code int string
| Create_share_token int string
| Revoke_share_token int
| Update_booking_status int booking_status

definition booking_write :: "env \<Rightarrow> inbound \<Rightarrow> string \<Rightarrow> 'a svc \<Rightarrow> 'a svc" where
  "booking_write e h scope = rate_limit_dependency scope (BOOKING_WRITE_RATE_LIMIT_MAX_REQUESTS (feat e))
     (BOOKING_WRITE_RATE_LIMIT_WINDOW_SECONDS (feat e)) (client_host h)"

lemma writes_booking_write [writing]: "writes R m \<Longrightarrow> writes R (booking_write e h scope m)"
  unfolding booking_write_def by (rule writing)

fun serve_bookings :: "env \<Rightarrow> inbound \<Rightarrow> user \<Rightarrow> booking_call \<Rightarrow> unit svc" where
  "serve_bookings e h u (Create_booking c) = booking_write e h ''booking-write''
     (void (idempotent_execute e h (Some (u_id u)) (create_booking e c u) booking_response 200))"
| "serve_bookings e h u (List_my_bookings st limit offset) =
     validated (page_ok limit offset) (void (list_passenger_bookings u st limit offset))"
| "serve_bookings e h u (List_managed_bookings st limit offset) =
     validated (page_ok limit offset) (void (list_driver_bookings u st limit offset))"
| "serve_bookings e h u (Booking_detail i) = void (get_booking_detail i u)"
| "serve_bookings e h u (Issue_boarding_code i n) =
     booking_write e h ''boarding-otp-issue'' (void (issue_boarding_otp e n i u))"
| "serve_bookings e h u (Verify_boarding_code i otp) =
     booking_write e h ''boarding-otp-verify'' (validated (otp_pattern otp) (void (verify_boarding_otp e i otp u)))"
| "serve_bookings e h u (Create_share_token i token) = void (create_share_token e token i u)"
| "serve_bookings e h u (Revoke_share_token i) = void (revoke_share_token i u)"
| "serve_bookings e h u (Update_booking_status i st) = booking_write e h ''booking-write''
     (void (idempotent_execute e h (Some (u_id u)) (update_status e i st u) booking_response 200))"

lemma writes_booking_reads [writing]:
  "writes R (list_passenger_bookings u st l f)" "writes R (list_driver_bookings u st l f)"
  "writes R (get_booking_detail i u)" "writes R (get_public_trip_status e tok)"
  unfolding list_passenger_bookings_def list_driver_bookings_def get_booking_detail_def get_public_trip_status_def
  by (auto intro!: writing)

lemma core_serve_bookings: "writes core_step (serve_bookings e h u c)"
  by (cases c) (auto intro!: writing)

section \<open>Payments (endpoints/payments.py)\<close>

datatype payment_call =
  Create_payment string string payment_create_request
| List_my_payments int int
| Get_booking_payment int
| Get_payment int
| Confirm_payment int
| Reconcile_payment int

fun serve_payments :: "env \<Rightarrow> user \<Rightarrow> payment_call \<Rightarrow> unit svc" where
  "serve_payments e u (Create_payment t1 t2 c) =
     validated (payment_create_valid c) (void (payment_service e (\<lambda>gw. create_payment e gw t1 t2 c u)))"
| "serve_payments e u (List_my_payments limit offset) =
     validated (page_ok limit offset) (void (payment_service e (\<lambda>_. list_my_payments e u limit offset)))"
| "serve_payments e u (Get_booking_payment i) = void (payment_service e (\<lambda>_. get_booking_payment e i u))"
| "serve_payments e u (Get_payment i) = void (payment_service e (\<lambda>_. get_payment_for_user e i u))"
| "serve_payments e u (Confirm_payment i) = void (payment_service e (\<lambda>_. confirm_payment e i u))"
| "serve_payments e u (Reconcile_payment i) = void (payment_service e (\<lambda>_. reconcile_accessible_payment e i u))"

lemma core_serve_payments: "writes core_step (serve_payments e u c)"
  by (cases c) (auto intro!: writing)

section \<open>Dispatch (endpoints/dispatch.py)\<close>

datatype dispatch_call =
  Upsert_presence driver_presence
| Get_presence
| Create_request request_fields
| List_my_requests "ride_request_status option"
| List_nearby_requests int
| Cancel_request int
| Decline_request int
| Accept_request int

fun serve_dispatch :: "env \<Rightarrow> user \<Rightarrow> dispatch_call \<Rightarrow> unit svc" where
  "serve_dispatch e u (Upsert_presence p) = validated (driver_presence_valid p) (void (upsert_driver_presence p u))"
| "serve_dispatch e u Get_presence = void (get_driver_presence e u)"
| "serve_dispatch e u (Create_request f) = validated (request_fields_valid f) (void (create_request e f u))"
| "serve_dispatch e u (List_my_requests st) = void (do {
     r \<leftarrow> list_my_requests e u;
     on_ok r (\<lambda>qs. ok (filter (\<lambda>q. where_eq st (q_status q)) qs))
   })"
| "serve_dispatch e u (List_nearby_requests limit) =
     validated (1 \<le> limit \<and> limit \<le> 100) (void (list_nearby_requests e u limit))"
| "serve_dispatch e u (Cancel_request i) = void (cancel_request e i u)"
| "serve_dispatch e u (Decline_request i) = void (decline_request e i u)"
| "serve_dispatch e u (Accept_request i) = void (accept_request e i u)"

lemma peripheral_dispatch_services:
  "writes core_step (upsert_driver_presence p u)" "writes core_step (get_driver_presence e u)"
  "writes core_step (create_request e f u)" "writes core_step (list_my_requests e u)"
  "writes core_step (list_nearby_requests e u n)" "writes core_step (cancel_request e i u)"
  "writes core_step (decline_request e i u)"
  by (rule peripheral_writes, rule writing)+

lemma core_serve_dispatch: "writes core_step (serve_dispatch e u c)"
  by (cases c) (auto intro!: writing peripheral_dispatch_services)

section \<open>Chat, reviews, profiles, notifications, incidents, audit trail\<close>

datatype chat_call = List_messages int | Send_message int string | Mark_seen int

fun serve_chat :: "env \<Rightarrow> inbound \<Rightarrow> user \<Rightarrow> chat_call \<Rightarrow> unit svc" where
  "serve_chat e h u (List_messages i) = void (list_messages i u)"
| "serve_chat e h u (Send_message i content) =
     rate_limit_dependency ''chat-message'' (CHAT_MESSAGE_RATE_LIMIT_MAX_REQUESTS (feat e))
       (CHAT_MESSAGE_RATE_LIMIT_WINDOW_SECONDS (feat e)) (client_host h @ '':'' @ str_int i)
       (validated (message_content_valid content) (void (save_message e i content u)))"
| "serve_chat e h u (Mark_seen i) = void (mark_messages_seen e i u)"

definition serve_review :: "env \<Rightarrow> inbound \<Rightarrow> user \<Rightarrow> review_request \<Rightarrow> unit svc" where
  "serve_review e h u q =
     rate_limit_dependency ''review-create'' (REVIEW_CREATE_RATE_LIMIT_MAX_REQUESTS (feat e))
       (REVIEW_CREATE_RATE_LIMIT_WINDOW_SECONDS (feat e)) (client_host h)
       (validated (review_request_valid q) (void (create_review q u)))"

datatype user_call =
  Get_profile
| Update_profile user_update
| Get_driver_profile
| Update_driver_profile driver_verification_update

definition verification_update_valid :: "driver_verification_update \<Rightarrow> bool" where
  "verification_update_valid x \<longleftrightarrow>
     field_at_most 80 (vu_vehicle_make x) \<and> field_at_most 80 (vu_vehicle_model x) \<and>
     field_at_most 40 (vu_vehicle_color x) \<and> field_at_most 30 (vu_vehicle_plate_number x) \<and>
     field_at_most 60 (vu_driver_license_number x)"

definition user_update_valid :: "user_update \<Rightarrow> bool" where
  "user_update_valid x \<longleftrightarrow>
     (case uu_full_name x of Some (Some s) \<Rightarrow> 2 \<le> length s \<and> length s \<le> 120 | _ \<Rightarrow> True) \<and>
     field_at_most 20 (uu_phone_number x) \<and> field_at_most 1000 (uu_bio x)"

fun serve_users :: "user \<Rightarrow> user_call \<Rightarrow> unit svc" where
  "serve_users u Get_profile = ok ()"
| "serve_users u (Update_profile x) = validated (user_update_valid x) (void (update_user u x))"
| "serve_users u Get_driver_profile = void (get_driver_verification_profile u)"
| "serve_users u (Update_driver_profile x) =
     validated (verification_update_valid x) (void (update_driver_verification_profile u x))"

datatype notification_call =
  List_notifications "bool option" "notification_type option" int int
| Mark_notification_read int
| Mark_all_read

fun serve_notifications :: "user \<Rightarrow> notification_call \<Rightarrow> unit svc" where
  "serve_notifications u (List_notifications r ty limit offset) =
     validated (page_ok limit offset) (void_act (list_notifications u r ty limit offset))"
| "serve_notifications u (Mark_notification_read i) = void (mark_as_read i u)"
| "serve_notifications u Mark_all_read = void_act (mark_all_as_read u)"

datatype incident_call = Create_incident incident_request | List_my_incidents int int | Get_my_incident int

fun serve_incidents :: "user \<Rightarrow> incident_call \<Rightarrow> unit svc" where
  "serve_incidents u (Create_incident x) = validated (incident_request_valid x) (void (create_incident x u))"
| "serve_incidents u (List_my_incidents limit offset) =
     validated (page_ok limit offset) (void (do { d \<leftarrow> gets db; ok (list_my_incidents u limit offset d) }))"
| "serve_incidents u (Get_my_incident i) = void (get_my_incident i u)"

datatype audit_call = List_my_audit_logs int int | Audit_summary | Cleanup_my_audit_logs int

fun serve_audit :: "user \<Rightarrow> audit_call \<Rightarrow> unit svc" where
  "serve_audit u (List_my_audit_logs limit offset) =
     validated (page_ok limit offset) (void (do { d \<leftarrow> gets db; ok (list_my_audit_logs u limit offset d) }))"
| "serve_audit u Audit_summary = void (do { d \<leftarrow> gets db; ok (summarize_my_audit_logs u 10 d) })"
| "serve_audit u (Cleanup_my_audit_logs keep_days) =
     validated (1 \<le> keep_days \<and> keep_days \<le> 3650) (void (cleanup_my_audit_logs u keep_days))"

lemma peripheral_serve:
  "writes peripheral (serve_chat e h u c)" "writes peripheral (serve_review e h u q)"
  "writes peripheral (serve_users u x)" "writes peripheral (serve_notifications u n)"
  "writes peripheral (serve_incidents u i)" "writes peripheral (serve_audit u a)"
  by (cases c; auto intro!: writing) (auto simp: serve_review_def intro!: writing,
      (cases x; auto intro!: writing), (cases n; auto intro!: writing), (cases i; auto intro!: writing),
      (cases a; auto intro!: writing))

section \<open>Sessions of an account (endpoints/auth.py)\<close>

text \<open>
  These endpoints read the access token and look up its user themselves, so a refused body is answered before
  that (\<open>body_first\<close> below); \<open>session_jti\<close> is a claim of the token.
\<close>

datatype session_call =
  Change_password string string string
| List_sessions
| Account_security
| Revoke_session string
| Revoke_other_sessions

definition token_session_jti :: "env \<Rightarrow> instant \<Rightarrow> string \<Rightarrow> string option" where
  "token_session_jti e now token =
     (case decode_token e now token of None \<Rightarrow> None | Some cs \<Rightarrow> claim_str cs ''session_jti'')"

fun serve_sessions :: "env \<Rightarrow> string \<Rightarrow> user \<Rightarrow> session_call \<Rightarrow> unit svc" where
  "serve_sessions e token u (Change_password salt old new) = change_password e salt old new u token"
| "serve_sessions e token u List_sessions = do {
     now \<leftarrow> gets clock;
     void_act (list_account_sessions u (token_session_jti e now token))
   }"
| "serve_sessions e token u Account_security = void (do {
     now \<leftarrow> gets clock;
     ok (account_security now u)
   })"
| "serve_sessions e token u (Revoke_session jti) = revoke_session u jti"
| "serve_sessions e token u Revoke_other_sessions = do {
     now \<leftarrow> gets clock;
     void_act (revoke_other_sessions u (token_session_jti e now token))
   }"

lemma peripheral_serve_sessions: "writes peripheral (serve_sessions e token u c)"
  by (cases c) (auto intro!: writing)

section \<open>Endpoints without a user\<close>

datatype auth_call =
  Register string string register_request
| Login string string string string "client option"
| Forgot_password string string
| Resend_verification string string
| Verify_email string
| Reset_password string string string
| Refresh string string string "client option"
| Logout string "string option"

text \<open>\<open>_request_email_identifier\<close>\<close>

definition email_identifier :: "inbound \<Rightarrow> string \<Rightarrow> string" where
  "email_identifier h email = client_host h @ '':'' @ (if email = [] then ''unknown'' else email)"

fun serve_auth :: "env \<Rightarrow> inbound \<Rightarrow> auth_call \<Rightarrow> unit svc" where
  "serve_auth e h (Register salt jti r) = validated (register_valid r) (void (register e salt jti r))"
| "serve_auth e h (Login j1 j2 email password client) =
     rate_limit_dependency ''auth-login'' (LOGIN_RATE_LIMIT_MAX_REQUESTS (feat e))
       (LOGIN_RATE_LIMIT_WINDOW_SECONDS (feat e)) (email_identifier h email)
       (void (login e j1 j2 email password client))"
| "serve_auth e h (Forgot_password jti email) =
     rate_limit_dependency ''auth-forgot-password'' (FORGOT_PASSWORD_RATE_LIMIT_MAX_REQUESTS (feat e))
       (FORGOT_PASSWORD_RATE_LIMIT_WINDOW_SECONDS (feat e)) (email_identifier h email)
       (void_act (forgot_password e jti email))"
| "serve_auth e h (Resend_verification jti email) =
     rate_limit_dependency ''auth-resend-verification'' (RESEND_VERIFICATION_RATE_LIMIT_MAX_REQUESTS (feat e))
       (RESEND_VERIFICATION_RATE_LIMIT_WINDOW_SECONDS (feat e)) (email_identifier h email)
       (void_act (resend_verification e jti email))"
| "serve_auth e h (Verify_email token) = verify_email e token"
| "serve_auth e h (Reset_password salt token new) =
     rate_limit_dependency ''auth-reset-password'' (RESET_PASSWORD_RATE_LIMIT_MAX_REQUESTS (feat e))
       (RESET_PASSWORD_RATE_LIMIT_WINDOW_SECONDS (feat e)) (client_host h)
       (validated (new_password_valid new) (reset_password e salt token new))"
| "serve_auth e h (Refresh j1 j2 token client) = void (refresh e j1 j2 token client)"
| "serve_auth e h (Logout access_token refresh_token) = logout e access_token refresh_token"

lemma peripheral_serve_auth: "writes peripheral (serve_auth e h c)"
  by (cases c) (auto intro!: writing)

datatype support_call =
  Support_get_user int
| Support_search_users "string option"
| Support_list_driver_verifications "driver_verification_status option" "string option" "string option" int int
| Support_list_pending int int
| Support_review_driver int driver_verification_status "string option"
| Support_list_incidents "incident_status option" "int option" "int option" "int option" int int
| Support_update_incident int incident_status "string option"
| Support_list_payments "payment_status option" "payment_provider option" "int option" "int option" int int
| Support_list_bookings "booking_status option" "int option" "int option" "int option" "bool option" int int
| Support_reconcile_payment int

fun serve_support :: "env \<Rightarrow> support_request \<Rightarrow> support_call \<Rightarrow> unit svc" where
  "serve_support e q (Support_get_user i) = void (support_get_user e i q)"
| "serve_support e q (Support_search_users email) = void (support_search_users e email q)"
| "serve_support e q (Support_list_driver_verifications st email plate limit offset) =
     validated (page_ok limit offset) (void (support_driver_verifications e st email plate limit offset q))"
| "serve_support e q (Support_list_pending limit offset) =
     validated (page_ok limit offset) (void (support_pending_driver_verifications e limit offset q))"
| "serve_support e q (Support_review_driver i st why) =
     validated (at_most 1000 why) (void (review_driver_verification e i st why q))"
| "serve_support e q (Support_list_incidents st reporter ride booking limit offset) =
     validated (page_ok limit offset) (void (list_incidents_for_support e st reporter ride booking limit offset q))"
| "serve_support e q (Support_update_incident i st notes) =
     validated (at_most 5000 notes) (void (update_support_status e i st notes q))"
| "serve_support e q (Support_list_payments st prov booking payer limit offset) =
     validated (page_ok limit offset) (void (support_list_payments e st prov booking payer limit offset q))"
| "serve_support e q (Support_list_bookings st driver passenger ride boarded limit offset) =
     validated (page_ok limit offset)
       (void (support_list_bookings e st driver passenger ride boarded limit offset q))"
| "serve_support e q (Support_reconcile_payment i) = void (support_reconcile_payment e i q)"

lemma peripheral_support_services:
  "writes core_step (support_get_user e k q)" "writes core_step (support_search_users e em q)"
  "writes core_step (support_pending_driver_verifications e l f q)"
  "writes core_step (support_driver_verifications e st em pl l f q)"
  "writes core_step (review_driver_verification e k nst why q)"
  "writes core_step (support_list_payments e pst pv x y l f q)"
  "writes core_step (support_list_bookings e bs x y z bo l f q)"
  "writes core_step (list_incidents_for_support e ist x y z l f q)"
  "writes core_step (update_support_status e k nis notes q)"
  by (rule peripheral_writes, rule writing)+

lemma core_serve_support: "writes core_step (serve_support e q c)"
  by (cases c) (auto intro!: writing peripheral_support_services)

section \<open>Assistant (endpoints/ai.py)\<close>

definition ai_limited :: "env \<Rightarrow> inbound \<Rightarrow> 'a svc \<Rightarrow> 'a svc" where
  "ai_limited e h = rate_limit_dependency ''ai-assistant'' (AI_RATE_LIMIT_MAX_REQUESTS (ai e))
     (AI_RATE_LIMIT_WINDOW_SECONDS (ai e)) (client_host h)"

datatype assistant_call =
  Ride_create_assistant assistant_request
| Ride_search_assistant assistant_request
| Chat_suggestion chat_suggestion_request

fun serve_assistant :: "env \<Rightarrow> inbound \<Rightarrow> user \<Rightarrow> assistant_call \<Rightarrow> unit svc" where
  "serve_assistant e h u (Ride_create_assistant q) = ai_limited e h (validated (assistant_request_valid q)
     (if u_role u \<noteq> Driver
      then raise (HTTPException 403 ''Only driver accounts can use the ride creation assistant'')
      else void (create_ride_draft e q)))"
| "serve_assistant e h u (Ride_search_assistant q) = ai_limited e h (validated (assistant_request_valid q)
     (if u_role u \<noteq> Passenger
      then raise (HTTPException 403 ''Only passenger accounts can use the ride search assistant'')
      else void (create_ride_search_filters e q)))"
| "serve_assistant e h u (Chat_suggestion q) = ai_limited e h (validated (chat_suggestion_request_valid q)
     (void (suggest_chat_reply e q u)))"

lemma writes_assistant [writing]:
  "writes R (create_ride_draft e q)" "writes R (create_ride_search_filters e q)" "writes R (suggest_chat_reply e cq u)"
  by (rule writes_quiet; rule frame; simp)+

lemma core_serve_assistant: "writes core_step (serve_assistant e h u c)"
  by (cases c) (auto simp: ai_limited_def intro!: writing)

section \<open>A request\<close>

datatype call =
  Rides ride_call
| Bookings booking_call
| Payments payment_call
| Dispatches dispatch_call
| Chats chat_call
| Reviews review_request
| Users user_call
| Notifications notification_call
| Incidents incident_call
| Audits audit_call
| Sessions session_call
| Assistants assistant_call

datatype request =
  Authenticated string call
| Auth auth_call
| Support support_request support_call
| Search_rides ride_search_params
| Public_trip string
| Mock_webhook webhook_event
| Razorpay_webhook string string "string option"

fun serve_call :: "env \<Rightarrow> inbound \<Rightarrow> string \<Rightarrow> user \<Rightarrow> call \<Rightarrow> unit svc" where
  "serve_call e h token u (Rides c) = serve_rides e h u c"
| "serve_call e h token u (Bookings c) = serve_bookings e h u c"
| "serve_call e h token u (Payments c) = serve_payments e u c"
| "serve_call e h token u (Dispatches c) = serve_dispatch e u c"
| "serve_call e h token u (Chats c) = serve_chat e h u c"
| "serve_call e h token u (Reviews q) = serve_review e h u q"
| "serve_call e h token u (Users c) = serve_users u c"
| "serve_call e h token u (Notifications c) = serve_notifications u c"
| "serve_call e h token u (Incidents c) = serve_incidents u c"
| "serve_call e h token u (Audits c) = serve_audit u c"
| "serve_call e h token u (Sessions c) = serve_sessions e token u c"
| "serve_call e h token u (Assistants c) = serve_assistant e h u c"

fun body_first :: "call \<Rightarrow> bool" where
  "body_first (Sessions (Change_password _ _ new)) = new_password_valid new"
| "body_first _ = True"

fun serve :: "env \<Rightarrow> inbound \<Rightarrow> request \<Rightarrow> unit svc" where
  "serve e h (Authenticated token c) = validated (body_first c) (do {
     r \<leftarrow> get_current_user e token;
     on_ok r (\<lambda>u. serve_call e h token u c)
   })"
| "serve e h (Auth c) = serve_auth e h c"
| "serve e h (Support q c) = serve_support e q c"
| "serve e h (Search_rides p) =
     validated (page_ok (sp_limit p) (sp_offset p)) (void (do { d \<leftarrow> gets db; ok (search_rides p d) }))"
| "serve e h (Public_trip token) = void (get_public_trip_status e token)"
| "serve e h (Mock_webhook x) = validated (webhook_event_valid x) (void (mock_payment_webhook e x))"
| "serve e h (Razorpay_webhook body signature event_id) =
     void (razorpay_payment_webhook e body signature event_id)"

lemma core_serve_call: "writes core_step (serve_call e h token u c)"
  by (cases c) (auto intro: core_serve_rides core_serve_bookings core_serve_payments core_serve_dispatch core_serve_assistant
      peripheral_writes peripheral_serve peripheral_serve_sessions)

lemma core_serve: "writes core_step (serve e h q)"
  by (cases q) (auto intro!: writing core_serve_call core_serve_support
      peripheral_writes [OF peripheral_tokens(3)] peripheral_writes [OF peripheral_serve_auth])

end
