(* ===== verification/System.thy ===== *)
theory System
  imports Requests
begin

text \<open>
  The running application: requests served one after another, the background worker, and time. A
  request runs in a session of its own on the committed data; the worker takes the next job of the
  queue. The relation \<open>core_step\<close> is shown to hold between the committed databases of any two
  worlds one of which is reached from the other.
\<close>

definition handle_request :: "env \<Rightarrow> inbound \<Rightarrow> request \<Rightarrow> unit svc" where
  "handle_request e h q = in_session (serve e h q)"

inductive step :: "env \<Rightarrow> world \<Rightarrow> world \<Rightarrow> bool" for e where
  request: "run_state (handle_request e h q) w = (r, w') \<Longrightarrow> step e w w'"
| work: "run_state (job_worker e) w = (r, w') \<Longrightarrow> step e w w'"
| tick: "0 \<le> n \<Longrightarrow> step e w (w\<lparr>clock := clock w + n\<rparr>)"

definition reaches :: "env \<Rightarrow> world \<Rightarrow> world \<Rightarrow> bool" where
  "reaches e = (step e)\<^sup>*\<^sup>*"

definition reachable :: "env \<Rightarrow> world \<Rightarrow> bool" where
  "reachable e w \<longleftrightarrow> (\<exists>t. reaches e (initial_world t) w)"

section \<open>The worker\<close>

lemma writes_execute:
  assumes "\<And>h. writes R (run h)"
  shows "writes R (enqueue_with s run j)" "writes R (execute_with s run j)"
proof -
  have "(\<forall>h. writes R (run h)) \<longrightarrow> writes R (enqueue_with s run j)"
    and "(\<forall>h. writes R (run h)) \<longrightarrow> writes R (execute_with s run j)"
    by (induction s run j and s run j rule: enqueue_with_execute_with.induct)
      (subst enqueue_with.simps execute_with.simps, auto intro!: writing)+
  with assms show "writes R (enqueue_with s run j)" "writes R (execute_with s run j)" by auto
qed

lemma core_run_job: "writes core_step (run_job e h)"
  by (cases h) (auto intro!: writing peripheral_writes [OF peripheral_run_notification]
      peripheral_writes [OF peripheral_jobs(1)] peripheral_writes [OF peripheral_jobs(2)]
      peripheral_writes [OF peripheral_jobs(3)] peripheral_writes [OF peripheral_jobs(4)]
      peripheral_writes [OF peripheral_jobs(5)] peripheral_writes [OF peripheral_jobs(6)]
      peripheral_writes [OF peripheral_jobs(7)] peripheral_writes [OF peripheral_tokens(5)]
      simp: run_cleanup_locations_def peripheral_writes [OF peripheral_cleanups(3)])

lemma core_worker: "writes core_step (job_worker e)"
  unfolding job_worker_def worker_turn_def
  by (auto intro!: writing writes_execute core_run_job split: list.split)

section \<open>Reachable worlds\<close>

text \<open>What is pending in a session that is not closed is one \<open>core_step\<close> away from the committed data.\<close>

lemma step_core:
  assumes "step e w w'" and pending: "core_step (durable w) (db w)"
  shows "core_step (durable w) (durable w') \<and> core_step (durable w') (db w')"
  using assms(1)
proof cases
  case (request h q r)
  have "writes core_step (in_session (serve e h q))" by (intro writing core_serve)
  from core.moves_iff_start [OF writesD [OF this request [unfolded handle_request_def]] pending]
  show ?thesis .
next
  case (work r)
  from core.moves_iff_start [OF writesD [OF core_worker work] pending] show ?thesis .
next
  case tick
  with pending show ?thesis by (simp add: core.step_refl)
qed

lemma reaches_core:
  assumes "reaches e w w'" and pending: "core_step (durable w) (db w)"
  shows "core_step (durable w) (durable w') \<and> core_step (durable w') (db w')"
  using assms(1) unfolding reaches_def
proof (induction rule: rtranclp_induct)
  case base
  from pending show ?case by (simp add: core.step_refl)
next
  case (step u v)
  with step_core [OF step.hyps(2)] show ?case by (meson core.step_trans)
qed

lemma initial_core: "core_step (durable (initial_world t)) (db (initial_world t))"
  by (simp add: initial_world_def core.step_refl)

lemma reachable_pending: "reachable e w \<Longrightarrow> core_step (durable w) (db w)"
  unfolding reachable_def using reaches_core [OF _ initial_core] by blast

lemma reachable_core_ok: "reachable e w \<Longrightarrow> core_ok (durable w)"
proof -
  assume "reachable e w"
  then obtain t where "reaches e (initial_world t) w" unfolding reachable_def by blast
  from reaches_core [OF this initial_core] have "core_step empty_database (durable w)"
    by (simp add: initial_world_def)
  then show ?thesis by (simp add: core_step_def core_ok_empty)
qed

lemma reachable_step: "reachable e w \<Longrightarrow> reaches e w w' \<Longrightarrow> core_step (durable w) (durable w')"
  using reaches_core reachable_pending by blast

text \<open>
  Any world to start from: sound rows and nothing pending, the empty one of a new installation among
  them.
\<close>

definition sound :: "world \<Rightarrow> bool" where
  "sound w \<longleftrightarrow> core_ok (durable w) \<and> db w = durable w"

lemma sound_initial: "sound (initial_world t)"
  by (simp add: sound_def initial_world_def core_ok_empty)

lemma sound_reaches:
  assumes "sound w" and "reaches e w w'"
  shows "core_step (durable w) (durable w')" "core_ok (durable w')"
proof -
  show step: "core_step (durable w) (durable w')"
    using reaches_core [OF assms(2)] core.step_refl [of "durable w"] assms(1) by (simp add: sound_def)
  with assms(1) show "core_ok (durable w')" by (simp add: sound_def core_step_def)
qed

lemma reaches_request: "run_state (handle_request e h q) w = (r, w') \<Longrightarrow> reaches e w w'"
  unfolding reaches_def by (blast intro: step.request)

end
