(* ===== verification/Demo.thy ===== *)
theory Demo
  imports System
begin

text \<open>
  A small world with every kind of row the services work on, and an environment whose parameters are
  concrete functions (a MAC that concatenates, a token codec that reads the user id as the token, a
  gateway that never answers). The witnesses of the properties evaluate the handlers on it.
\<close>

definition demo_coercions :: coercions where
  "demo_coercions = \<lparr>
     as_int = (\<lambda>v. case v of PyInt i \<Rightarrow> Some i | _ \<Rightarrow> None),
     as_float = (\<lambda>v. case v of PyFloat x \<Rightarrow> Some x | PyInt i \<Rightarrow> Some (of_int i) | _ \<Rightarrow> None),
     as_bool = (\<lambda>v. case v of PyBool b \<Rightarrow> Some b | _ \<Rightarrow> None),
     as_decimal = (\<lambda>v. case v of PyInt i \<Rightarrow> Some (of_int i) | PyStr s \<Rightarrow> map_option of_int (parse_int s) | _ \<Rightarrow> None),
     as_datetime = (\<lambda>v. case v of PyStr s \<Rightarrow> fromisoformat s | PyDatetime t \<Rightarrow> Some t | _ \<Rightarrow> None)\<rparr>"

definition demo_env :: env where
  "demo_env = \<lparr>core = default_core_settings, feat = default_feature_settings,
     delivery = default_delivery_settings\<lparr>SUPPORT_API_ENABLED := True, SUPPORT_API_KEY := Some ''key''\<rparr>,
     hmac_sha256 = (\<lambda>k m. m), py_repr = (\<lambda>_. []), json_loads = (\<lambda>_. None),
     jwt_encode = (\<lambda>k a cs. []),
     jwt_decode = (\<lambda>now k a i t. Some [(''sub'', PyStr t), (''type'', PyStr ''access''), (''jti'', PyStr t),
       (''exp'', PyInt 1000)]),
     pwd_hash = (\<lambda>s p. p), pwd_verify = (\<lambda>p h. p = h),
     http_answer = (\<lambda>_ _. HttpRequestError), redis_answer = (\<lambda>_ _. RedisOk), smtp_answer = (\<lambda>_ _. True),
     sha256 = (\<lambda>s. s), jsonable = (\<lambda>v. v), ai = default_ai_settings, coerce = demo_coercions,
     json_dumps = (\<lambda>_. [])\<rparr>"

definition demo_user :: "int \<Rightarrow> user_role \<Rightarrow> user" where
  "demo_user i ro = \<lparr>u_id = i, u_full_name = ''Dan'', u_email = str_int i, u_phone_number = None,
     u_hashed_password = ''Secret12'', u_role = ro, u_bio = None, u_rating = 5, u_email_verified = True,
     u_email_verified_at = None, u_driver_verification_status = (if ro = Driver then VVerified else VNot_required),
     u_vehicle_make = None, u_vehicle_model = None, u_vehicle_color = None, u_vehicle_plate_number = None,
     u_driver_license_number = None, u_driver_verification_rejection_reason = None,
     u_driver_profile_submitted_at = None, u_driver_profile_reviewed_at = None, u_failed_login_attempts = 0,
     u_locked_until = None, u_created_at = 0\<rparr>"

abbreviation "dan \<equiv> demo_user 1 Driver"
abbreviation "pat \<equiv> demo_user 2 Passenger"
abbreviation "pia \<equiv> demo_user 3 Passenger"

definition demo_ride :: ride where
  "demo_ride = \<lparr>r_id = 1, r_driver_id = 1, r_origin = ''Pune'', r_destination = ''Goa'',
     r_origin_latitude = None, r_origin_longitude = None, r_destination_latitude = None,
     r_destination_longitude = None, r_departure_time = 0, r_available_seats = 2, r_price_per_seat = 100,
     r_vehicle_details = None, r_notes = None, r_status = RScheduled, r_is_active = True, r_created_at = 0\<rparr>"

definition demo_booking :: "int \<Rightarrow> int \<Rightarrow> booking_status \<Rightarrow> booking" where
  "demo_booking i passenger st = \<lparr>b_id = i, b_ride_id = 1, b_passenger_id = passenger, b_status = st,
     b_notes = None, b_boarding_otp_hash = None, b_boarding_otp_expires_at = None, b_boarded_at = None,
     b_share_token_hash = None, b_share_token_created_at = None, b_share_token_revoked_at = None,
     b_created_at = 0\<rparr>"

definition demo_payment :: "payment_status \<Rightarrow> payment" where
  "demo_payment st = \<lparr>p_id = 1, p_booking_id = 1, p_payer_id = 2, p_amount = 100, p_amount_minor = 10000,
     p_currency = ''INR'', p_status = st, p_provider = Mock, p_provider_order_id = ''mock_order_1'',
     p_provider_payment_id = Some ''mock_pay_1'', p_failure_reason = None, p_created_at = 0, p_updated_at = 0\<rparr>"

text \<open>Dan's ride with the given bookings and payments.\<close>

definition demo_db :: "booking list \<Rightarrow> payment list \<Rightarrow> database" where
  "demo_db bs ps = empty_database
     \<lparr>users_t := \<lparr>rows = [dan, pat, pia], next_id = 4\<rparr>,
      rides_t := \<lparr>rows = [demo_ride], next_id = 2\<rparr>,
      bookings_t := \<lparr>rows = bs, next_id = int (length bs) + 1\<rparr>,
      payments_t := \<lparr>rows = ps, next_id = int (length ps) + 1\<rparr>\<rparr>"

definition demo_world :: "booking list \<Rightarrow> payment list \<Rightarrow> world" where
  "demo_world bs ps = (initial_world 0)\<lparr>db := demo_db bs ps, durable := demo_db bs ps\<rparr>"

text \<open>Pat has asked for a seat and authorised the payment; Pia has a seat.\<close>

definition deal_world :: world where
  "deal_world = demo_world [demo_booking 1 2 BPending, demo_booking 2 3 BAccepted] [demo_payment PAuthorized]"

named_theorems demo \<open>definitions that a witness unfolds\<close>

lemmas [demo] = demo_env_def demo_user_def demo_ride_def demo_booking_def demo_payment_def demo_db_def
  demo_world_def deal_world_def initial_world_def empty_database_def empty_table_def empty_queue_def empty_token_store_def
  default_core_settings_def default_feature_settings_def default_delivery_settings_def

lemmas [demo] = put_defs add_defs get_defs table_get_def table_put_def table_add_def others_def flush_def Let_def
  run_or_rollback run_on_ok new_job_def set_jobs_def enqueue_def record_event_def put_job_def
  audit_request_def audit_create_def enqueue_notification_def counter_defs deref_def commit_if_def
  booking_save_def ride_save_def payment_save_def booking_create_def payment_create_def
  booking_constraints_def ride_constraints_def payment_constraints_def ride_of_def

lemmas [demo] = capture_payment_for_booking_def refund_payment_for_booking_def payment_by_booking_id_def
  reconcile_provider_reference_def provider_for_payment_def try_capture_def try_refund_def attempt_def
  handle_def enqueue_trip_reminder_email_def

section \<open>A request on the demo world\<close>

text \<open>Dan accepts Pat's booking over HTTP; the token is his user id.\<close>

definition demo_inbound :: inbound where
  "demo_inbound = \<lparr>ik_method = ''PATCH'', ik_path = ''/api/v1/bookings/1/status'', ik_key = Some ''k'',
     ik_body = [], ik_host = None\<rparr>"

definition accept_1 :: request where
  "accept_1 = Authenticated ''1'' (Bookings (Update_booking_status 1 BAccepted))"

lemma parse_digit: "parse_int ''1'' = Some 1" "parse_int ''2'' = Some 2"
  by code_simp+

lemmas handling = handle_request_def in_session_def get_current_user_def decode_token_def is_revoked_def
  prune_expired_def claim_jti_def claim_str_def py_int_def parse_digit booking_write_def ride_write_def
  rate_limit_dependency_def rate_enforce_def rate_increment_def prune_limits_def void_def
  idempotent_execute_def get_cached_response_def demo_inbound_def seconds_def

lemma accept_runs:
  "\<exists>w'. run_state (handle_request demo_env demo_inbound accept_1) deal_world = (Inr (), w') \<and>
     get_booking 1 (durable w') = Some (demo_booking 1 2 BAccepted) \<and>
     get_ride 1 (durable w') = Some (demo_ride\<lparr>r_available_seats := 1\<rparr>) \<and>
     get_payment 1 (durable w') = Some (demo_payment PCaptured)"
  unfolding accept_1_def handle_request_def serve.simps serve_call.simps serve_bookings.simps
  by (simp add: demo handling update_status_def apply_driver_transition_def take_seat_def)

lemma to_minor_units_inr: "to_minor_units 100 ''INR'' = 10000"
proof -
  have "upper_str ''INR'' = ''INR''" by code_simp
  then show ?thesis using round_half_up_of_int [of 10000] by (simp add: to_minor_units_def)
qed

lemma sound_deal: "sound deal_world"
  by (simp add: demo sound_def core_ok_def keys_ok_def table_ok_def ride_ok_def booking_ok_def
      payment_ok_def to_minor_units_inr)

text \<open>The world after it, with Pat's seat taken and paid for.\<close>

lemma deal_reaches:
  obtains w' where "reaches demo_env deal_world w'"
    and "get_booking 1 (durable w') = Some (demo_booking 1 2 BAccepted)"
    and "get_ride 1 (durable w') = Some (demo_ride\<lparr>r_available_seats := 1\<rparr>)"
    and "get_payment 1 (durable w') = Some (demo_payment PCaptured)"
  using accept_runs reaches_request by blast

end
