(* ===== verification/BookingFacts.thy ===== *)
theory BookingFacts
  imports Demo
begin

text \<open>
  What the booking service promises: a request that fails commits nothing, and a decision is only taken
  by a participant of the booking and keeps the count of seats.
\<close>

section \<open>Failing without a trace in the committed data\<close>

definition atomic :: "'a svc \<Rightarrow> bool" where
  "atomic m \<longleftrightarrow> (\<forall>w x w'. run_state m w = (Inl x, w') \<longrightarrow> durable w' = durable w)"

named_theorems atomicity \<open>rules for \<open>atomic\<close>\<close>

lemma atomicD: "atomic m \<Longrightarrow> run_state m w = (Inl x, w') \<Longrightarrow> durable w' = durable w"
  by (simp add: atomic_def)

lemma atomic_rules [atomicity]:
  "atomic (raise z)" "atomic (ok y)"
  "keeps durable m0 \<Longrightarrow> (\<And>x. atomic (k x)) \<Longrightarrow> atomic (State_Monad.bind m0 k)"
  "(b \<Longrightarrow> atomic m1) \<Longrightarrow> (\<not> b \<Longrightarrow> atomic m2) \<Longrightarrow> atomic (if b then m1 else m2)"
  "(\<And>y. y = t \<Longrightarrow> atomic (l y)) \<Longrightarrow> atomic (Let t l)"
  by (auto simp: atomic_def keeps_def split_beta)

lemma atomic_on_ok [atomicity]: "(\<And>x. r = Inr x \<Longrightarrow> atomic (k x)) \<Longrightarrow> atomic (on_ok r k)"
  by (cases r) (auto intro: atomic_rules)

lemma atomic_deref [atomicity]: "(\<And>x. r = Some x \<Longrightarrow> atomic (k x)) \<Longrightarrow> atomic (deref r k)"
  by (cases r) (auto intro: atomic_rules)

lemma atomic_case_option [atomicity]:
  "(r = None \<Longrightarrow> atomic m) \<Longrightarrow> (\<And>x. r = Some x \<Longrightarrow> atomic (n x)) \<Longrightarrow>
     atomic (case r of None \<Rightarrow> m | Some x \<Rightarrow> n x)"
  by (cases r) simp_all

lemma atomic_flush [atomicity]: "(b \<Longrightarrow> atomic k) \<Longrightarrow> atomic (flush t b k)"
  by (auto simp: flush_def intro: atomic_rules)

lemma atomic_or_rollback [atomicity]: "atomic m \<Longrightarrow> atomic (or_rollback m)"
  by (auto simp: atomic_def or_rollback_Inl)

text \<open>What follows the commit of a handler cannot fail.\<close>

lemma atomic_committed [atomicity]:
  "atomic (do { commit; audit_request rq a u t i s md c; ok y })"
  "atomic (do { commit; ok y })"
  by (auto simp: atomic_def split_beta)

lemma keeps_durable_saves [frame]:
  "keeps durable (booking_create b)" "keeps durable (booking_save b)" "keeps durable (ride_create r)"
  "keeps durable (ride_save r)" "keeps durable (payment_save p)" "keeps durable (create_notification k ty t1 t2)"
  unfolding booking_create_def booking_save_def ride_create_def ride_save_def payment_save_def
    create_notification_def notification_create_def
  by (auto intro!: frame simp: Let_def)

lemma keeps_durable_audit [frame]: "keeps durable (audit_request rq a u t i s md False)"
  unfolding audit_request_def audit_create_def by (auto intro!: frame simp: Let_def)

lemma keeps_durable_commit_if [frame]: "keeps durable (commit_if False)"
  unfolding commit_if_def by (auto intro!: frame)

lemma keeps_durable_money [frame]:
  "keeps durable (capture_payment_for_booking e k False)" "keeps durable (refund_payment_for_booking e k False)"
  unfolding capture_payment_for_booking_def refund_payment_for_booking_def
  by (auto intro!: frame split: exc.split)

lemma keeps_durable_transitions [frame]:
  "keeps durable (apply_driver_transition e b ride st)" "keeps durable (apply_passenger_transition e b ride st)"
  unfolding apply_driver_transition_def apply_passenger_transition_def by (auto intro!: frame simp: Let_def)

lemma keeps_durable_loops [frame]:
  "keeps durable (cancel_ride_booking e r b)" "keeps durable (complete_ride_booking e r b)"
  unfolding cancel_ride_booking_def complete_ride_booking_def by (auto intro!: frame)

lemma atomic_booking:
  "atomic (create_booking e c u)" "atomic (update_status e i st u)"
  unfolding create_booking_def update_status_def
  by (auto intro!: atomicity frame)

lemma atomic_boarding:
  "atomic (issue_boarding_otp e n i u)" "atomic (verify_boarding_otp e i otp u)"
  "atomic (create_share_token e tok i u)" "atomic (revoke_share_token i u)"
  unfolding issue_boarding_otp_def verify_boarding_otp_def create_share_token_def revoke_share_token_def
  by (auto intro!: atomicity frame)

lemma atomic_ride:
  "atomic (create_ride f u)" "atomic (update_ride k f u)" "atomic (cancel_ride e k u)" "atomic (complete_ride e k u)"
  unfolding create_ride_def update_ride_def cancel_ride_def complete_ride_def ensure_verified_for_rides_def
  by (auto intro!: atomicity frame)

section \<open>What a decision does to the ride\<close>

lemma keeps_rides_money [frame]:
  "keeps (\<lambda>w. rides_t (db w)) (capture_payment_for_booking e k c)"
  "keeps (\<lambda>w. rides_t (db w)) (refund_payment_for_booking e k c)"
  "keeps (\<lambda>w. rides_t (db w)) (create_notification i ty t1 t2)"
  unfolding capture_payment_for_booking_def refund_payment_for_booking_def create_notification_def
    notification_create_def
  by (auto intro!: frame split: exc.split simp: add_notification_def Let_def)

lemma rides_kept:
  "run_state (capture_payment_for_booking e k c) w = (x1, w') \<Longrightarrow> rides_t (db w') = rides_t (db w)"
  "run_state (refund_payment_for_booking e k c) w = (x2, w') \<Longrightarrow> rides_t (db w') = rides_t (db w)"
  "run_state (create_notification i ty t1 t2) w = (x3, w') \<Longrightarrow> rides_t (db w') = rides_t (db w)"
  "run_state (enqueue_notification e i ty t1 t2) w = (x4, w') \<Longrightarrow> rides_t (db w') = rides_t (db w)"
  "run_state (enqueue_trip_reminder_email e b) w = (x5, w') \<Longrightarrow> rides_t (db w') = rides_t (db w)"
  by (erule keepsD [rotated], rule frame, simp?)+

lemma run_ride_save:
  "run_state (ride_save r) w = (Inr r', w') \<longleftrightarrow>
     ride_constraints r \<and> r' = r \<and> w' = w\<lparr>db := put_ride r (db w)\<rparr>"
  by (auto simp: ride_save_def flush_def)

definition seat_holder :: "booking_status \<Rightarrow> int" where
  "seat_holder s = (if s \<in> {BAccepted, BCompleted} then 1 else 0)"

text \<open>The ride after the booking went from status \<open>s\<close> to \<open>s'\<close>.\<close>

definition ride_after :: "booking_status \<Rightarrow> booking_status \<Rightarrow> ride \<Rightarrow> ride" where
  "ride_after s s' ride =
     (if s = BPending \<and> s' = BAccepted then take_seat ride
      else if s = BAccepted \<and> s' \<in> {BCancelled_by_driver, BCancelled_by_passenger} then give_seat_back ride
      else ride)"

lemma decide_ride:
  assumes "run_state (decide e b ride st u) w = (Inr b', v)"
  shows "b' = b\<lparr>b_status := st\<rparr> \<and> booking_edge (b_status b) st \<and>
    (rides_t (db v) = rides_t (put_ride (ride_after (b_status b) st ride) (db w)) \<or>
     rides_t (db v) = rides_t (db w) \<and> ride_after (b_status b) st ride = ride)"
  using assms
  unfolding decide_def apply_driver_transition_def apply_passenger_transition_def
  by (auto simp: run_on_ok run_ride_save Let_def ride_after_def deref_def
      split: if_splits prod.splits sum.splits option.splits dest!: rides_kept)

lemma run_booking_save:
  "run_state (booking_save b) w = (Inr b', w') \<longleftrightarrow>
     booking_constraints (rows (bookings_t (db w))) b \<and> b' = b \<and> w' = w\<lparr>db := put_booking b (db w)\<rparr>"
  by (auto simp: booking_save_def flush_def)

text \<open>The last lines of a handler: commit, then the audit record with a commit of its own.\<close>

lemma run_audit:
  "run_state (audit_request rq a u t i s md True) w = (x, w') \<Longrightarrow>
     durable w' = db w' \<and> bookings_t (db w') = bookings_t (db w) \<and> rides_t (db w') = rides_t (db w) \<and>
     payments_t (db w') = payments_t (db w) \<and> users_t (db w') = users_t (db w) \<and> clock w' = clock w"
  by (auto simp: audit_request_def audit_create_def Let_def add_audit_def)

lemma update_status_ok:
  assumes "run_state (update_status e i st u) w = (Inr b', w')"
  obtains b ride v where "get_booking i (db w) = Some b" and "ride_of b (db w) = Some ride"
    and "run_state (decide e b ride st u) w = (Inr b', v)"
    and "durable w' = db w'" and "rides_t (durable w') = rides_t (db v)"
    and "bookings_t (durable w') = bookings_t (put_booking b' (db v))"
    and "payments_t (durable w') = payments_t (db v)"
proof -
  from assms obtain b ride where b: "get_booking i (db w) = Some b" and r: "ride_of b (db w) = Some ride"
    and body: "run_state (do {
         r \<leftarrow> decide e b ride st u;
         on_ok r (\<lambda>b'. do {
           r \<leftarrow> booking_save b';
           on_ok r (\<lambda>saved. do {
             commit;
             audit_entity ''booking_status_updated'' (u_id u) ''booking'' (b_id saved)
               [(''status'', PyStr (booking_status_value (b_status saved)))] True;
             ok saved
           })
         })
       }) w = (Inr b', w')"
    unfolding update_status_def or_rollback_Inr decide_def [symmetric]
    by (auto simp: deref_def split: option.splits)
  from body obtain v where d: "run_state (decide e b ride st u) w = (Inr b', v)"
    and saved: "\<exists>x. run_state (audit_entity ''booking_status_updated'' (u_id u) ''booking'' (b_id b')
         [(''status'', PyStr (booking_status_value (b_status b')))] True)
         (v\<lparr>db := put_booking b' (db v), durable := put_booking b' (db v)\<rparr>) = (x, w')"
    by (auto simp: run_on_ok run_booking_save split: prod.splits sum.splits)
  then show ?thesis
    using that [OF b r d] by (auto dest!: run_audit simp: put_booking_def)
qed

lemma seats_after:
  "r_available_seats (ride_after s s' ride) + seat_holder s' = r_available_seats ride + seat_holder s"
  if "booking_edge s s'"
  using that by cases (auto simp: ride_after_def take_seat_def give_seat_back_def seat_holder_def Let_def)

lemma ride_after_id: "r_id (ride_after s s' ride) = r_id ride"
  by (simp add: ride_after_def take_seat_def give_seat_back_def Let_def)

lemma update_status_ride:
  assumes "run_state (update_status e i st u) w = (Inr b', w')"
    and "get_booking i (db w) = Some b" and "get_ride (b_ride_id b) (db w) = Some ride"
  shows "get_ride (b_ride_id b) (durable w') = Some (ride_after (b_status b) st ride)"
    and "booking_edge (b_status b) st" and "b' = b\<lparr>b_status := st\<rparr>"
    and "get_booking i (durable w') = Some b'"
    and "k \<noteq> b_ride_id b \<Longrightarrow> get_ride k (durable w') = get_ride k (db w)"
proof -
  from assms(1) obtain v where d: "run_state (decide e b ride st u) w = (Inr b', v)"
    and rides: "rides_t (durable w') = rides_t (db v)"
    and bookings: "bookings_t (durable w') = bookings_t (put_booking b' (db v))"
    by (rule update_status_ok) (use assms(2,3) in \<open>auto simp: ride_of_def\<close>)
  from decide_ride [OF d] show "booking_edge (b_status b) st" "b' = b\<lparr>b_status := st\<rparr>" by auto
  have id: "r_id (ride_after (b_status b) st ride) = b_ride_id b"
    using ride_store.get_key [OF assms(3)] by (simp add: ride_after_id)
  from decide_ride [OF d] have rd:
    "(\<forall>j. get_ride j (durable w') = get_ride j (put_ride (ride_after (b_status b) st ride) (db w))) \<or>
     (\<forall>j. get_ride j (durable w') = get_ride j (db w)) \<and> ride_after (b_status b) st ride = ride"
    using rides by (auto simp: get_ride_def)
  show "get_ride (b_ride_id b) (durable w') = Some (ride_after (b_status b) st ride)"
    using rd ride_store.get_put_same [OF assms(3) id] assms(3) by auto
  show "get_ride k (durable w') = get_ride k (db w)" if "k \<noteq> b_ride_id b"
    using rd ride_store.get_put_other [of k "ride_after (b_status b) st ride" "db w"] id that
    by auto
  have "get_booking i (db v) = Some b"
    using keepsD [OF decide_facts(2) d] assms(2) by (simp add: get_booking_def)
  moreover have "b_id b' = i" using booking_store.get_key [OF assms(2)] \<open>b' = b\<lparr>b_status := st\<rparr>\<close> by simp
  ultimately have "get_booking i (put_booking b' (db v)) = Some b'"
    by (rule booking_store.get_put_same)
  then show "get_booking i (durable w') = Some b'" using bookings by (simp add: get_booking_def)
qed

lemma decide_actor:
  assumes "run_state (decide e b ride st u) w = (Inr b', v)"
  shows "u_id u = r_driver_id ride \<and> st \<noteq> BCancelled_by_passenger \<or>
    u_id u = b_passenger_id b \<and> st = BCancelled_by_passenger"
    and "st = BAccepted \<longrightarrow> 1 \<le> r_available_seats ride" and "st = BCompleted \<longrightarrow> b_boarded_at b \<noteq> None"
  using assms
  unfolding decide_def apply_driver_transition_def apply_passenger_transition_def
  by (auto simp: run_on_ok Let_def deref_def split: if_splits prod.splits sum.splits option.splits)

section \<open>Decisions\<close>

text \<open>
  C1. Whoever decides on a booking, seats are neither lost nor made: the free seats of its ride and
  the seat this booking holds (accepted or completed) add up to the same number before and after,
  and no other ride changes.
\<close>

theorem update_status_keeps_seats:
  assumes "run_state (update_status e i st u) w = (Inr b', w')"
    and "get_booking i (db w) = Some b" and "get_ride (b_ride_id b) (db w) = Some ride"
  shows "\<exists>ride'. get_ride (b_ride_id b) (durable w') = Some ride' \<and>
      r_available_seats ride' + seat_holder (b_status b') = r_available_seats ride + seat_holder (b_status b) \<and>
      (\<forall>k. k \<noteq> b_ride_id b \<longrightarrow> get_ride k (durable w') = get_ride k (db w))"
  using update_status_ride [OF assms] seats_after by auto

lemma update_status_keeps_seats_witness:
  "\<exists>ride' (w' :: world). get_ride 1 (durable w') = Some ride' \<and> r_available_seats ride' + 1 = 2"
proof -
  have "\<exists>w'. run_state (update_status demo_env 1 BAccepted dan) deal_world = (Inr (demo_booking 1 2 BAccepted), w')"
    by (simp add: demo update_status_def apply_driver_transition_def take_seat_def)
  then obtain w' where run: "run_state (update_status demo_env 1 BAccepted dan) deal_world = (Inr (demo_booking 1 2 BAccepted), w')"
    by blast
  have "get_booking 1 (db deal_world) = Some (demo_booking 1 2 BPending)"
    and "get_ride (b_ride_id (demo_booking 1 2 BPending)) (db deal_world) = Some demo_ride"
    by (simp_all add: demo)
  from update_status_keeps_seats [OF run this] show ?thesis
    by (auto simp: demo_booking_def demo_ride_def seat_holder_def)
qed

text \<open>
  C18. A decision that is taken follows the life of a booking (pending to accepted, rejected or
  cancelled; accepted to cancelled or completed), changes nothing but the status, and is taken by the
  ride's driver, or by the passenger to cancel. An acceptance needs a free seat, a completion a
  passenger on board. The committed row is the returned one.
\<close>

theorem update_status_authorised:
  assumes "run_state (update_status e i st u) w = (Inr b', w')"
    and "get_booking i (db w) = Some b" and "get_ride (b_ride_id b) (db w) = Some ride"
  shows "b' = b\<lparr>b_status := st\<rparr> \<and> get_booking i (durable w') = Some b' \<and> booking_edge (b_status b) st \<and>
    (if st = BCancelled_by_passenger then u_id u = b_passenger_id b else u_id u = r_driver_id ride) \<and>
    (st = BAccepted \<longrightarrow> 1 \<le> r_available_seats ride) \<and> (st = BCompleted \<longrightarrow> b_boarded_at b \<noteq> None)"
proof -
  from assms(1) obtain v where d: "run_state (decide e b ride st u) w = (Inr b', v)"
    by (rule update_status_ok) (use assms(2,3) in \<open>auto simp: ride_of_def\<close>)
  from update_status_ride [OF assms] decide_actor [OF d] show ?thesis by auto
qed

lemma update_status_authorised_witness:
  "\<exists>w' :: world. get_booking 2 (durable w') = Some (demo_booking 2 3 BCancelled_by_passenger)"
proof -
  have "\<exists>w'. run_state (update_status demo_env 2 BCancelled_by_passenger pia) deal_world =
      (Inr (demo_booking 2 3 BCancelled_by_passenger), w')"
    by (simp add: demo update_status_def apply_passenger_transition_def give_seat_back_def)
  then obtain w' where run: "run_state (update_status demo_env 2 BCancelled_by_passenger pia) deal_world =
      (Inr (demo_booking 2 3 BCancelled_by_passenger), w')" by blast
  have "get_booking 2 (db deal_world) = Some (demo_booking 2 3 BAccepted)"
    and "get_ride (b_ride_id (demo_booking 2 3 BAccepted)) (db deal_world) = Some demo_ride"
    by (simp_all add: demo)
  from update_status_authorised [OF run this] show ?thesis by blast
qed

text \<open>
  C19. A request for a booking or a decision on one that ends in an exception has committed nothing,
  although it may have written rides, payments and bookings and called the gateway before it failed.
\<close>

theorem failed_booking_commits_nothing:
  "(case run_state (create_booking e c u) w of (Inl x, w') \<Rightarrow> durable w' = durable w | (Inr b, w') \<Rightarrow> True) \<and>
   (case run_state (update_status e i st u) w of (Inl x, w') \<Rightarrow> durable w' = durable w | (Inr b, w') \<Rightarrow> True)"
  by (auto split: prod.split sum.split dest: atomicD [OF atomic_booking(1)] atomicD [OF atomic_booking(2)])

text \<open>
  C17. A booking is only created for a scheduled, active ride of another user with a free seat, by a
  passenger who has no booking for it yet; it is committed as pending, and the ride keeps its seats.
\<close>

theorem create_booking_sound:
  assumes "run_state (create_booking e c u) w = (Inr b, w')" and "keys_ok (db w)"
  shows "u_role u = Passenger \<and>
    (\<exists>ride. get_ride (bc_ride_id c) (db w) = Some ride \<and> r_status ride = RScheduled \<and> r_is_active ride \<and>
       r_driver_id ride \<noteq> u_id u \<and> 1 \<le> r_available_seats ride) \<and>
    booking_by_ride_and_passenger (bc_ride_id c) (u_id u) (db w) = None \<and>
    b_status b = BPending \<and> b_ride_id b = bc_ride_id c \<and> b_passenger_id b = u_id u \<and>
    get_booking (b_id b) (db w) = None \<and> get_booking (b_id b) (durable w') = Some b \<and>
    rides_t (durable w') = rides_t (db w)"
proof -
  have fresh: "get_booking (next_id (bookings_t (db w))) (db w) = None"
    unfolding get_booking_def using assms(2) by (intro table_get_fresh) (simp add: keys_ok_def)
  have new: "get_booking (b_id x) (add_booking x d) = Some x" if "get_booking (b_id x) d = None" for x d
    using that by (rule booking_store.get_add_new)
  have same: "get_booking k d = get_booking k d'" if "bookings_t d = bookings_t d'" for k d d'
    using that by (simp add: get_booking_def)
  let ?b = "(new_booking (bc_ride_id c) (u_id u) (bc_notes c))\<lparr>b_id := next_id (bookings_t (db w)), b_created_at := clock w\<rparr>"
  from assms(1) have u: "u_role u = Passenger" by (auto simp: create_booking_def split: if_splits)
  from assms(1) have ride: "\<exists>ride. get_ride (bc_ride_id c) (db w) = Some ride \<and> r_status ride = RScheduled \<and>
      r_is_active ride \<and> r_driver_id ride \<noteq> u_id u \<and> 1 \<le> r_available_seats ride"
    and none: "booking_by_ride_and_passenger (bc_ride_id c) (u_id u) (db w) = None"
    by (auto simp: create_booking_def or_rollback_Inr not_less split: if_splits option.splits)
  from assms(1) have b: "b = ?b" and d: "bookings_t (durable w') = bookings_t (add_booking ?b (db w)) \<and>
      rides_t (durable w') = rides_t (add_booking ?b (db w))"
    by (auto simp: create_booking_def or_rollback_Inr booking_create_def flush_def Let_def run_on_ok
        enqueue_notification_def new_job_def set_jobs_def enqueue_def record_event_def put_job_def
        split: if_splits option.splits prod.splits dest!: run_audit)
  from d have "rides_t (durable w') = rides_t (db w)" by (simp add: add_booking_def)
  moreover have "get_booking (b_id b) (durable w') = Some b"
    using same [of "durable w'" "add_booking b (db w)"] d new [of b "db w"] fresh b by simp
  ultimately show ?thesis using u ride none fresh b by (simp add: new_booking_def)
qed

lemma create_booking_sound_witness:
  "\<exists>w' :: world. get_booking 1 (durable w') = Some (demo_booking 1 3 BPending) \<and> rides_t (durable w') = rides_t (demo_db [] [])"
proof -
  have "\<exists>w'. run_state (create_booking demo_env \<lparr>bc_ride_id = 1, bc_notes = None\<rparr> pia) (demo_world [] []) =
      (Inr (demo_booking 1 3 BPending), w')"
    by (simp add: demo create_booking_def new_booking_def booking_by_ride_and_passenger_def)
  then obtain w' where run: "run_state (create_booking demo_env \<lparr>bc_ride_id = 1, bc_notes = None\<rparr> pia) (demo_world [] []) =
      (Inr (demo_booking 1 3 BPending), w')" by blast
  have k: "keys_ok (db (demo_world [] []))" by (simp add: demo keys_ok_def table_ok_def)
  have "get_booking (b_id (demo_booking 1 3 BPending)) (durable w') = Some (demo_booking 1 3 BPending)"
    and "rides_t (durable w') = rides_t (db (demo_world [] []))"
    using create_booking_sound [OF run k] by blast+
  then show ?thesis by (auto simp: demo_booking_def demo_world_def)
qed

end
