(* ===== verification/PaymentFacts.thy ===== *)
theory PaymentFacts
  imports BookingFacts
begin

text \<open>
  What the payment service promises: amounts in minor units are exact for the prices a ride can have,
  a webhook counts once, an unsigned Razorpay event is refused, an authorised payment is captured
  once, and a gateway that is down leaves the payment as it was with a retry in the queue.
\<close>

section \<open>Amounts\<close>

text \<open>
  A price a ride can have (at most two decimals) is exact in minor units of a currency with two
  decimals; any other amount is rounded to the nearest unit, and a larger amount never becomes smaller.
\<close>

theorem minor_units_exact:
  assumes "price_valid amount" and "upper_str currency \<noteq> ''JPY''" and "q \<le> q'"
  shows "of_int (to_minor_units amount currency) = amount * 100 \<and>
    \<bar>of_int (to_minor_units q c) - q * 10 ^ (if upper_str c = ''JPY'' then 0 else 2)\<bar> \<le> 1 / 2 \<and>
    to_minor_units q c \<le> to_minor_units q' c"
proof (intro conjI)
  have "amount * 100 = of_int \<lfloor>amount * 100\<rfloor>" using assms(1) by (simp add: price_valid_def)
  then have "of_int (round_half_up (amount * 100)) = amount * 100" by (metis round_half_up_of_int)
  with assms(2) show "of_int (to_minor_units amount currency) = amount * 100"
    by (simp add: to_minor_units_def)
  show "\<bar>of_int (to_minor_units q c) - q * 10 ^ (if upper_str c = ''JPY'' then 0 else 2)\<bar> \<le> 1 / 2"
    unfolding to_minor_units_def Let_def by (rule round_half_up_error)
  show "to_minor_units q c \<le> to_minor_units q' c"
    unfolding to_minor_units_def Let_def by (intro round_half_up_mono mult_right_mono assms(3)) simp
qed

lemma minor_units_exact_witness: "of_int (to_minor_units (249 / 2) ''INR'') = (12450 :: rat)"
proof -
  have "price_valid (249 / 2)" by (simp add: price_valid_def)
  moreover have "upper_str ''INR'' \<noteq> ''JPY''" by code_simp
  ultimately show ?thesis using minor_units_exact [of "249 / 2" "''INR''" 0 1 "''INR''"] by simp
qed

section \<open>Webhooks\<close>

lemma event_recorded:
  assumes "event_by_provider_id i d = None" and "e_provider_event_id ev = i"
    and "e_id ev' = e_id ev" and "e_provider_event_id ev' = i"
  shows "event_by_provider_id i (put_payment_event ev' (add_payment_event ev d)) = Some ev'"
proof -
  have "find (\<lambda>v. e_provider_event_id v = i) rs = None \<Longrightarrow>
      find (\<lambda>v. e_provider_event_id v = i) (map (\<lambda>v. if e_id v = e_id ev' then ev' else v) (rs @ [ev])) = Some ev'" for rs
    using assms(2-4) by (induction rs) (auto split: if_splits)
  with assms(1) show ?thesis
    unfolding event_by_provider_id_def payment_event_store.all_put payment_event_store.all_add by simp
qed

lemma events_kept:
  "run_state (payment_save p) w = (x1, w') \<Longrightarrow> payment_events_t (db w') = payment_events_t (db w)"
  "run_state (audit_request rq a u t i s md c) w = (x2, w') \<Longrightarrow> payment_events_t (db w') = payment_events_t (db w)"
  by (auto simp: payment_save_def flush_def Let_def put_payment_def audit_request_def audit_create_def
      add_audit_def split: if_splits)

lemma run_event_create:
  "run_state (event_create ev) w = (Inr v, w') \<Longrightarrow>
     v = ev\<lparr>e_id := next_id (payment_events_t (db w)), e_created_at := clock w\<rparr> \<and>
     w' = w\<lparr>db := add_payment_event v (db w)\<rparr>"
  by (auto simp: event_create_def flush_def Let_def split: if_splits)

lemma webhook_recorded:
  assumes "run_state (process_webhook_event x prov) w = (Inr r, w')"
  shows "\<exists>ev. event_by_provider_id (wh_provider_event_id x) (db w') = Some ev \<and> wr_event_id r = e_id ev"
proof (cases "event_by_provider_id (wh_provider_event_id x) (db w)")
  case (Some ev)
  with assms show ?thesis by (auto simp: process_webhook_event_def Let_def)
next
  case None
  let ?ev = "\<lparr>e_id = next_id (payment_events_t (db w)),
    e_payment_id = map_option p_id (webhook_payment x (db w)), e_provider = prov,
    e_provider_event_id = wh_provider_event_id x, e_event_type = wh_event_type x, e_payload_json = wh_payload x,
    e_processed_at = None, e_created_at = clock w\<rparr>"
  have ev: "wr_event_id r = e_id ?ev" and t: "payment_events_t (db w') =
      payment_events_t (put_payment_event (?ev\<lparr>e_processed_at := Some (clock w)\<rparr>) (add_payment_event ?ev (db w)))"
    using assms None
    by (auto simp: process_webhook_event_def Let_def or_rollback_Inr run_on_ok put_payment_event_def
        split: option.splits prod.splits sum.splits if_splits dest!: run_event_create events_kept)
  have "event_by_provider_id (wh_provider_event_id x) (db w') = Some (?ev\<lparr>e_processed_at := Some (clock w)\<rparr>)"
    unfolding event_by_provider_id_def t
    by (rule event_recorded [unfolded event_by_provider_id_def])
      (use None in \<open>simp_all add: event_by_provider_id_def\<close>)
  with ev show ?thesis by auto
qed

text \<open>
  C10. A webhook event counts once: the same event delivered again after it was processed (or after
  it was seen) changes nothing at all, and is answered as already processed under the same event id.
\<close>

theorem webhook_counts_once:
  assumes "run_state (process_webhook_event x prov) w = (Inr r, w')"
  shows "\<exists>r'. run_state (process_webhook_event x prov) w' = (Inr r', w') \<and> \<not> wr_processed r' \<and>
    wr_event_id r' = wr_event_id r"
  using webhook_recorded [OF assms] by (auto simp: process_webhook_event_def Let_def)

definition captured_event :: webhook_event where
  "captured_event = \<lparr>wh_provider_event_id = ''evt_1'', wh_event_type = ''payment.captured'',
     wh_provider_payment_id = ''mock_pay_1'', wh_provider_order_id = None, wh_payload = []\<rparr>"

lemma webhook_counts_once_witness:
  "\<exists>r' (w' :: world). run_state (process_webhook_event captured_event Mock) w' = (Inr r', w') \<and> \<not> wr_processed r'"
proof -
  have "\<exists>r w'. run_state (process_webhook_event captured_event Mock) deal_world = (Inr r, w')"
    by (simp add: demo captured_event_def process_webhook_event_def event_by_provider_id_def
        webhook_payment_def payment_by_provider_payment_id_def event_create_def payment_event_constraints_def
        apply_webhook_transition_def)
  then obtain r w' where "run_state (process_webhook_event captured_event Mock) deal_world = (Inr r, w')" by blast
  from webhook_counts_once [OF this] show ?thesis by blast
qed


definition razor_env :: env where
  "razor_env = demo_env\<lparr>feat := default_feature_settings\<lparr>RAZORPAY_KEY_ID := Some ''k'',
     RAZORPAY_KEY_SECRET := Some ''s'', RAZORPAY_WEBHOOK_SECRET := Some ''h''\<rparr>\<rparr>"


section \<open>Capture and refund\<close>

lemma run_payment_save:
  "run_state (payment_save p) w = (Inr p', w') \<Longrightarrow>
     w' = w\<lparr>db := put_payment p' (db w)\<rparr> \<and> (\<exists>t. p' = p\<lparr>p_updated_at := t\<rparr>)"
  by (auto simp: payment_save_def flush_def Let_def split: if_splits intro: exI [of _ "p_updated_at p'"])

lemma money_kept:
  assumes "\<And>w q. F (w\<lparr>jobs := q\<rparr>) = F w" and "\<And>w l. F (w\<lparr>http_log := l\<rparr>) = F w"
    and "\<And>w m. F (w\<lparr>counters := m\<rparr>) = F w" and "\<And>w d. F (w\<lparr>durable := d\<rparr>) = F w"
  shows "run_state (enqueue_payment_capture_retry e i) w = (x1, w') \<Longrightarrow> F w' = F w"
    "run_state (enqueue_payment_refund_retry e i) w = (x2, w') \<Longrightarrow> F w' = F w"
    "run_state (enqueue_payment_reconciliation e i) w = (x3, w') \<Longrightarrow> F w' = F w"
    "run_state (record_payment s1 s2) w = (x4, w') \<Longrightarrow> F w' = F w"
    "run_state (commit_if c) w = (x5, w') \<Longrightarrow> F w' = F w"
    "run_state (reconcile_provider_reference e p) w = (x6, w') \<Longrightarrow> F w' = F w"
    "run_state (try_capture e gw p) w = (x7, w') \<Longrightarrow> F w' = F w"
    "run_state (try_refund e gw p) w = (x8, w') \<Longrightarrow> F w' = F w"
  by (erule keepsD [rotated], (rule frame)?, simp_all add: assms commit_if_def frame)+

lemma payments_kept:
  "run_state (audit_request rq a u t i s md c) w = (x, w') \<Longrightarrow> payments_t (db w') = payments_t (db w)"
  by (auto simp: audit_request_def audit_create_def Let_def add_audit_def split: if_splits)

lemma reconcile_same_booking:
  assumes "run_state (reconcile_provider_reference e p) w = (Inr p1, w')"
  shows "p_booking_id p1 = p_booking_id p \<and> p_id p1 = p_id p \<and> db w' = db w"
  using assms money_kept(6) [where F = db, OF _ _ _ _ assms]
  by (auto simp: reconcile_provider_reference_def run_on_ok Let_def split: if_splits sum.splits prod.splits)

lemma reconcile_failed:
  "run_state (reconcile_provider_reference e p) w = (Inl x, w') \<Longrightarrow> db w' = db w"
  by (rule money_kept(6) [where F = db]) simp_all

lemma payment_by_booking_put:
  assumes "payment_by_booking_id k d = Some p" and "p_id p' = p_id p" and "p_booking_id p' = p_booking_id p"
  shows "payment_by_booking_id k (put_payment p' d) = Some p'"
proof -
  have "p_booking_id p' = k" using assms(1,3) by (auto simp: payment_by_booking_id_def find_Some_iff)
  then show ?thesis
    unfolding payment_by_booking_id_def payment_store.all_put
    by (rule find_map_replaced [where key = p_id and x = p, rotated 2])
      (use assms in \<open>simp_all add: payment_by_booking_id_def\<close>)
qed

lemma payment_by_booking_same:
  "payments_t d = payments_t d' \<Longrightarrow> payment_by_booking_id k d = payment_by_booking_id k d'"
  by (simp add: payment_by_booking_id_def)

lemma capture_stored:
  assumes "run_state (capture_payment_for_booking e k c) w = (Inr (Some p), w')"
  shows "payment_by_booking_id k (db w') = Some p"
proof -
  note kept = money_kept(1-5,7) [where F = db, simplified]
  from assms obtain p0 where p0: "payment_by_booking_id k (db w) = Some p0"
    by (auto simp: capture_payment_for_booking_def split: option.splits)
  show ?thesis
  proof (cases "p_status p0 = PAuthorized")
    case False
    with assms p0 show ?thesis by (auto simp: capture_payment_for_booking_def)
  next
    case True
    with assms p0 have "payments_t (db w') = payments_t (put_payment p (db w)) \<and>
        p_id p = p_id p0 \<and> p_booking_id p = p_booking_id p0"
      by (auto simp: capture_payment_for_booking_def run_on_ok put_payment_def
          split: sum.splits prod.splits if_splits exc.splits
          dest!: kept payments_kept run_payment_save reconcile_same_booking reconcile_failed)
    with payment_by_booking_put [OF p0] payment_by_booking_same show ?thesis by metis
  qed
qed

text \<open>
  C9. A payment is captured once: after a capture that left the payment in a state other than
  authorised (captured, above all), asking again makes no call to the gateway and changes nothing.
\<close>

theorem captured_once:
  assumes "run_state (capture_payment_for_booking e k c) w = (Inr (Some p), w')" and "p_status p \<noteq> PAuthorized"
  shows "run_state (capture_payment_for_booking e k c') w' = (Inr (Some p), w')"
  using capture_stored [OF assms(1)] assms(2) by (simp add: capture_payment_for_booking_def)

lemma captured_once_witness:
  "\<exists>p (w' :: world). p_status p = PCaptured \<and>
     run_state (capture_payment_for_booking demo_env 1 True) w' = (Inr (Some p), w')"
proof -
  have "\<exists>p w'. run_state (capture_payment_for_booking demo_env 1 True) deal_world = (Inr (Some p), w') \<and>
      p_status p = PCaptured"
    by (simp add: demo)
  then obtain p w' where "run_state (capture_payment_for_booking demo_env 1 True) deal_world = (Inr (Some p), w')"
    "p_status p = PCaptured" by blast
  with captured_once [OF this(1)] show ?thesis by (metis payment_status.distinct)
qed

definition mock_paid :: "payment \<Rightarrow> bool" where
  "mock_paid p \<longleftrightarrow> p_provider p = Mock \<and> p_status p \<in> {PAuthorized, PCaptured} \<and>
     (\<exists>i. p_provider_payment_id p = Some i \<and> starts_with i ''mock_pay_'')"

lemma refund_mock:
  assumes "run_state (refund_payment_for_booking e k c) w = (Inr r, w')"
    and "payment_by_booking_id k (db w) = Some p" and "mock_paid p"
  shows "\<exists>p'. payment_by_booking_id k (db w') = Some p' \<and> p_status p' = PRefunded"
proof -
  note kept = money_kept(2-5) [where F = db, simplified]
  from assms(3) obtain i where i: "p_provider_payment_id p = Some i" "starts_with i ''mock_pay_''" "i \<noteq> []"
    by (force simp: mock_paid_def)
  have "\<exists>p'. payments_t (db w') = payments_t (put_payment p' (db w)) \<and> p_status p' = PRefunded \<and>
      p_id p' = p_id p \<and> p_booking_id p' = p_booking_id p"
    using assms i
    by (auto simp: mock_paid_def refund_payment_for_booking_def reconcile_provider_reference_def run_on_ok
        provider_for_payment_def try_refund_def attempt_def handle_def put_payment_def
        split: sum.splits prod.splits if_splits dest!: kept payments_kept run_payment_save)
  with payment_by_booking_put [OF assms(2)] payment_by_booking_same show ?thesis by metis
qed

lemma payments_kept_more:
  "run_state (ride_save r) w = (x1, w') \<Longrightarrow> payments_t (db w') = payments_t (db w)"
  "run_state (enqueue_notification e i ty t1 t2) w = (x2, w') \<Longrightarrow> payments_t (db w') = payments_t (db w)"
  by (auto simp: ride_save_def flush_def put_ride_def enqueue_notification_def new_job_def set_jobs_def
      enqueue_def record_event_def put_job_def split: if_splits)

lemma decide_cancel_refunds:
  assumes "run_state (decide e b ride st u) w = (Inr b', v)" and "st \<in> {BCancelled_by_driver, BCancelled_by_passenger}"
    and "payment_by_booking_id (b_id b) (db w) = Some p" and "mock_paid p"
  shows "\<exists>p'. payment_by_booking_id (b_id b) (db v) = Some p' \<and> p_status p' = PRefunded"
proof -
  from assms(1,2) obtain w1 r w2 x y where 1: "run_state (ride_save x) w = (y, w1)"
    and 2: "run_state (refund_payment_for_booking e (b_id b) False) w1 = (Inr r, w2)"
    and 3: "payments_t (db v) = payments_t (db w2)"
    unfolding decide_def apply_driver_transition_def apply_passenger_transition_def
    by (auto simp: run_on_ok deref_def split: if_splits prod.splits sum.splits option.splits
        dest!: payments_kept_more(2))
  have "payment_by_booking_id (b_id b) (db w1) = Some p"
    using payment_by_booking_same [OF payments_kept_more(1) [OF 1]] assms(3) by simp
  from refund_mock [OF 2 this assms(4)] payment_by_booking_same [OF 3] show ?thesis by metis
qed

text \<open>
  C13. Cancelling a booking gives the money back: when the driver or the passenger cancels a booking
  whose payment was authorised or captured with the mock gateway, the committed payment is refunded.
\<close>

theorem cancellation_refunds:
  assumes "run_state (update_status e i st u) w = (Inr b', w')"
    and "st \<in> {BCancelled_by_driver, BCancelled_by_passenger}"
    and "payment_by_booking_id i (db w) = Some p" and "mock_paid p"
  shows "\<exists>p'. payment_by_booking_id i (durable w') = Some p' \<and> p_status p' = PRefunded"
proof -
  from assms(1) obtain b ride v where b: "get_booking i (db w) = Some b"
    and d: "run_state (decide e b ride st u) w = (Inr b', v)" and p: "payments_t (durable w') = payments_t (db v)"
    by (rule update_status_ok)
  have "b_id b = i" by (rule booking_store.get_key [OF b])
  with decide_cancel_refunds [OF d assms(2)] assms(3,4) payment_by_booking_same [OF p] show ?thesis by metis
qed

lemma cancellation_refunds_witness:
  "\<exists>(w' :: world) p'. payment_by_booking_id 1 (durable w') = Some p' \<and> p_status p' = PRefunded"
proof -
  have "\<exists>b' w'. run_state (update_status demo_env 1 BCancelled_by_passenger pat) deal_world = (Inr b', w')"
    by (simp add: demo update_status_def apply_passenger_transition_def)
  then obtain b' w' where "run_state (update_status demo_env 1 BCancelled_by_passenger pat) deal_world = (Inr b', w')"
    by blast
  moreover have "payment_by_booking_id 1 (db deal_world) = Some (demo_payment PAuthorized)"
    and "mock_paid (demo_payment PAuthorized)"
    by (simp_all add: demo mock_paid_def)
  ultimately show ?thesis using cancellation_refunds by blast
qed

section \<open>When the gateway does not answer\<close>

text \<open>
  A capture the gateway cannot be asked for is not lost: with a Razorpay payment and no answer
  from the gateway, the capture still returns, leaves the payment authorised with the reason noted,
  makes exactly one call with the amount of the payment, and ends with the retry as the last job queued.
\<close>

theorem capture_without_gateway:
  assumes "run_state (capture_payment_for_booking e k c) w = (Inr (Some p'), w')"
    and "payment_by_booking_id k (db w) = Some p" and "p_status p = PAuthorized" and "p_provider p = Razorpay"
    and "p_provider_payment_id p = Some i" and "i \<noteq> []"
    and "\<And>log c. http_answer e log c = HttpRequestError"
  shows "p_status p' = PAuthorized \<and>
    p_failure_reason p' = Some ''Provider capture failed; retry scheduled'' \<and>
    http_log w' = http_log w @ [HttpCall ''POST'' (''/payments/'' @ i @ ''/capture'')
      (Some (PyDict [(''amount'', PyInt (p_amount_minor p)), (''currency'', PyStr (upper_str (p_currency p)))]))] \<and>
    (\<exists>js j. jq_jobs (jobs w') = js @ [j] \<and> j_handler j = Retry_capture (p_id p) \<and>
       j_name j = ''payment-capture-retry:'' @ str_int (p_id p) \<and> j_attempts j = 0)"
proof -
  from assms obtain kk s h where "get_payment_provider e (Some Razorpay) = Inr (RazorpayPaymentProvider kk s h)"
    by (auto simp: capture_payment_for_booking_def reconcile_provider_reference_def provider_for_payment_def
        run_on_ok get_payment_provider_def razorpay_provider_def split: sum.splits option.splits if_splits)
  with assms show ?thesis
    by (auto simp: capture_payment_for_booking_def reconcile_provider_reference_def provider_for_payment_def
        run_on_ok try_capture_def attempt_def handle_def razorpay_capture_payment_def http_request_def
        commit_if_def counter_defs enqueue_payment_capture_retry_def new_job_def set_jobs_def enqueue_def
        record_event_def put_job_def audit_request_def audit_create_def Let_def
        split: sum.splits prod.splits if_splits dest!: run_payment_save)
qed

lemma capture_without_gateway_witness:
  "\<exists>(w' :: world) js j. jq_jobs (jobs w') = js @ [j] \<and> j_handler j = Retry_capture 1"
proof -
  let ?p = "(demo_payment PAuthorized)\<lparr>p_provider := Razorpay\<rparr>"
  let ?w = "demo_world [demo_booking 1 2 BAccepted] [?p]"
  have "\<exists>p' w'. run_state (capture_payment_for_booking razor_env 1 True) ?w = (Inr (Some p'), w')"
    by (simp add: demo razor_env_def get_payment_provider_def razorpay_provider_def razorpay_capture_payment_def
        http_request_def enqueue_payment_capture_retry_def)
  then obtain p' w' where run: "run_state (capture_payment_for_booking razor_env 1 True) ?w = (Inr (Some p'), w')"
    by blast
  have "payment_by_booking_id 1 (db ?w) = Some ?p" by (simp add: demo)
  from capture_without_gateway [OF run this, of "''mock_pay_1''"] show ?thesis
    by (simp add: demo_payment_def razor_env_def demo_env_def) blast
qed

section \<open>The mock webhook\<close>

text \<open>
  The endpoint for mock webhooks checks no signature and no environment: under any settings with
  which the service starts (production included), an event \<open>payment.captured\<close> that names the provider
  payment id of a pending or authorised payment commits that payment as captured, without a call to
  any gateway.
\<close>

theorem mock_webhook_captures_unsigned:
  assumes "run_state (mock_payment_webhook e x) w = (Inr r, w')"
    and "event_by_provider_id (wh_provider_event_id x) (db w) = None"
    and "wh_event_type x = ''payment.captured''"
    and "payment_by_provider_payment_id (wh_provider_payment_id x) (db w) = Some p"
    and "get_payment (p_id p) (db w) = Some p" and "p_status p \<in> {PPending, PAuthorized}"
  shows "(\<exists>p'. get_payment (p_id p) (durable w') = Some p' \<and> p_status p' = PCaptured \<and> p_amount p' = p_amount p) \<and>
    http_log w' = http_log w"
proof -
  let ?x = "p\<lparr>p_provider_payment_id := Some (wh_provider_payment_id x), p_status := PCaptured, p_failure_reason := None\<rparr>"
  have found: "webhook_payment x (db w) = Some p" using assms(4) by (simp add: webhook_payment_def)
  have "apply_webhook_transition (p\<lparr>p_provider_payment_id := Some (wh_provider_payment_id x)\<rparr>) ''payment.captured'' = ?x"
    using assms(6) by (auto simp: apply_webhook_transition_def)
  then have "\<exists>t. payments_t (durable w') = payments_t (put_payment (?x\<lparr>p_updated_at := t\<rparr>) (db w)) \<and>
      http_log w' = http_log w"
    using assms(1-3) found
    by (auto simp: mock_payment_webhook_def payment_service_def process_webhook_event_def or_rollback_Inr
        run_on_ok Let_def put_payment_event_def add_payment_event_def put_payment_def audit_request_def
        audit_create_def add_audit_def
        split: sum.splits prod.splits if_splits dest!: run_event_create run_payment_save)
  then obtain t where t: "payments_t (durable w') = payments_t (put_payment (?x\<lparr>p_updated_at := t\<rparr>) (db w))"
    and log: "http_log w' = http_log w" by blast
  have "get_payment (p_id p) (put_payment (?x\<lparr>p_updated_at := t\<rparr>) (db w)) = Some (?x\<lparr>p_updated_at := t\<rparr>)"
    by (rule payment_store.get_put_same [OF assms(5)]) simp
  then have "get_payment (p_id p) (durable w') = Some (?x\<lparr>p_updated_at := t\<rparr>)"
    using t by (simp add: get_payment_def)
  with log show ?thesis by simp
qed

lemma mock_webhook_captures_unsigned_witness:
  "\<exists>(w' :: world) p'. get_payment 1 (durable w') = Some p' \<and> p_status p' = PCaptured"
proof -
  let ?e = "demo_env\<lparr>core := default_core_settings\<lparr>APP_ENV := ''production''\<rparr>\<rparr>"
  have "\<exists>r w'. run_state (mock_payment_webhook ?e captured_event) deal_world = (Inr r, w')"
    by (simp add: demo captured_event_def mock_payment_webhook_def payment_service_def get_payment_provider_def
        process_webhook_event_def event_by_provider_id_def webhook_payment_def
        payment_by_provider_payment_id_def event_create_def payment_event_constraints_def
        apply_webhook_transition_def)
  then obtain r w' where run: "run_state (mock_payment_webhook ?e captured_event) deal_world = (Inr r, w')" by blast
  have "event_by_provider_id (wh_provider_event_id captured_event) (db deal_world) = None"
    and "wh_event_type captured_event = ''payment.captured''"
    and "payment_by_provider_payment_id (wh_provider_payment_id captured_event) (db deal_world) =
      Some (demo_payment PAuthorized)"
    by (simp_all add: demo captured_event_def event_by_provider_id_def payment_by_provider_payment_id_def)
  note mock_webhook_captures_unsigned [OF run this]
  moreover have "get_payment (p_id (demo_payment PAuthorized)) (db deal_world) = Some (demo_payment PAuthorized)"
    and "p_status (demo_payment PAuthorized) \<in> {PPending, PAuthorized}" and "p_id (demo_payment PAuthorized) = 1"
    by (simp_all add: demo)
  ultimately show ?thesis by metis
qed

end
