(* ===== verification/RideFacts.thy ===== *)
theory RideFacts
  imports PaymentFacts
begin

text \<open>
  What the ride service promises when a ride ends: a cancelled ride keeps no live booking, and a
  completed one has taken the money of every passenger.
\<close>

section \<open>Cancelling a ride\<close>

definition live_only_in :: "int \<Rightarrow> booking list \<Rightarrow> database \<Rightarrow> bool" where
  "live_only_in ride_id bs d \<longleftrightarrow> (\<forall>x \<in> set (rows (bookings_t d)).
     b_ride_id x = ride_id \<and> b_status x \<in> {BPending, BAccepted} \<longrightarrow> x \<in> set bs)"

lemma run_enqueue_db: "run_state (enqueue_notification e i ty t1 t2) w = (x, w') \<Longrightarrow> db w' = db w \<and> durable w' = durable w"
  by (auto simp: enqueue_notification_def new_job_def set_jobs_def enqueue_def record_event_def put_job_def)

lemma cancel_booking_effect:
  assumes "run_state (cancel_ride_booking e ride b) w = (x, w')" and "live_only_in k (b # bs) (db w)"
  shows "live_only_in k bs (db w') \<and> payments_t (db w') = payments_t (db w) \<and> rides_t (db w') = rides_t (db w)"
  using assms
  by (auto simp: cancel_ride_booking_def live_only_in_def put_booking_def table_put_mem
      split: if_splits prod.splits dest!: run_enqueue_db)

lemma cancel_loop_effect:
  "run_state (for_each (cancel_ride_booking e ride) bs) w = (x, w') \<Longrightarrow> live_only_in k bs (db w) \<Longrightarrow>
     live_only_in k [] (db w') \<and> payments_t (db w') = payments_t (db w) \<and> rides_t (db w') = rides_t (db w)"
proof (induction bs arbitrary: w)
  case (Cons b bs)
  from Cons.prems(1) obtain y v where 1: "run_state (cancel_ride_booking e ride b) w = (y, v)"
    and 2: "run_state (for_each (cancel_ride_booking e ride) bs) v = (x, w')"
    by (auto split: prod.splits)
  from cancel_booking_effect [OF 1 Cons.prems(2)] Cons.IH [OF 2] show ?case by simp
qed simp

text \<open>
  C12. A ride that its driver cancelled is committed as cancelled and inactive, and none of its
  bookings is pending or accepted any more; the payments of the cancelled bookings are left exactly
  as they were.
\<close>

theorem cancel_ride_frees_everyone:
  assumes "run_state (cancel_ride e i u) w = (Inr x, w')"
  shows "(\<exists>ride. get_ride i (db w) = Some ride \<and> r_driver_id ride = u_id u \<and>
      get_ride i (durable w') = Some (ride\<lparr>r_status := RCancelled, r_is_active := False\<rparr>)) \<and>
    (\<forall>b \<in> set (rows (bookings_t (durable w'))). b_ride_id b = i \<longrightarrow> b_status b \<notin> {BPending, BAccepted}) \<and>
    payments_t (durable w') = payments_t (db w)"
proof -
  from assms obtain ride where ride: "get_ride i (db w) = Some ride" and u: "r_driver_id ride = u_id u"
    by (auto simp: cancel_ride_def or_rollback_Inr split: if_splits option.splits)
  then have id: "r_id ride = i" using ride_store.get_key by blast
  let ?r = "ride\<lparr>r_status := RCancelled, r_is_active := False\<rparr>"
  from assms ride u id obtain y v where
    loop: "run_state (for_each (cancel_ride_booking e ride) (bookings_of_ride i (db w))) w = (y, v)"
    and tables: "rides_t (durable w') = rides_t (put_ride ?r (db v))"
      "bookings_t (durable w') = bookings_t (db v)" "payments_t (durable w') = payments_t (db v)"
    by (auto simp: cancel_ride_def or_rollback_Inr run_on_ok run_ride_save put_ride_def
        split: if_splits prod.splits sum.splits dest!: run_audit)
  have "live_only_in i (bookings_of_ride i (db w)) (db w)"
    by (auto simp: live_only_in_def bookings_of_ride_def)
  note effect = cancel_loop_effect [OF loop this]
  have "get_ride i (db v) = Some ride" using effect ride by (simp add: get_ride_def)
  from ride_store.get_put_same [OF this, of ?r] id have "get_ride i (durable w') = Some ?r"
    using tables(1) by (simp add: get_ride_def)
  with ride u effect tables(2,3) show ?thesis by (auto simp: live_only_in_def)
qed

lemma cancel_ride_frees_everyone_witness:
  "\<exists>w' :: world. payments_t (durable w') = payments_t (db deal_world) \<and>
     get_ride 1 (durable w') = Some (demo_ride\<lparr>r_status := RCancelled, r_is_active := False\<rparr>)"
proof -
  have "\<exists>w'. run_state (cancel_ride demo_env 1 dan) deal_world = (Inr (), w')"
    by (simp add: demo cancel_ride_def cancel_ride_booking_def bookings_of_ride_def)
  then obtain w' where "run_state (cancel_ride demo_env 1 dan) deal_world = (Inr (), w')" by blast
  from cancel_ride_frees_everyone [OF this] show ?thesis by (auto simp: demo)
qed

section \<open>Completing a ride\<close>

text \<open>A booking without a payment, or with one that is captured.\<close>

definition settled :: "int \<Rightarrow> database \<Rightarrow> bool" where
  "settled k d \<longleftrightarrow> (case payment_by_booking_id k d of None \<Rightarrow> True | Some p \<Rightarrow> p_status p = PCaptured)"

lemma payment_by_booking_put_other:
  assumes "distinct (map p_id (rows (payments_t d)))" and "payment_by_booking_id k d = Some p"
    and "p_id p' = p_id p" and "p_booking_id p' = p_booking_id p" and "k' \<noteq> k"
  shows "payment_by_booking_id k' (put_payment p' d) = payment_by_booking_id k' d"
proof -
  from assms(2) have p: "p \<in> set (rows (payments_t d))" "p_booking_id p = k"
    unfolding payment_by_booking_id_def by (fastforce simp: find_Some_iff)+
  have "x = p" if "x \<in> set (rows (payments_t d))" "p_id x = p_id p" for x
    using assms(1) that p(1) by (metis distinct_map inj_onD)
  then have "find (\<lambda>x. p_booking_id x = k') (map (\<lambda>x. if p_id x = p_id p' then p' else x) rs) =
      find (\<lambda>x. p_booking_id x = k') rs" if "set rs \<subseteq> set (rows (payments_t d))" for rs
    using that assms(3-5) p(2) by (induction rs) auto
  then show ?thesis unfolding payment_by_booking_id_def payment_store.all_put by simp
qed

lemma capture_effect:
  assumes "run_state (capture_payment_for_booking e k c) w = (Inr r, w')"
  shows "payments_t (db w') = payments_t (db w) \<or>
    (\<exists>p0 p. payment_by_booking_id k (db w) = Some p0 \<and> p_id p = p_id p0 \<and> p_booking_id p = p_booking_id p0 \<and>
       payments_t (db w') = payments_t (put_payment p (db w)))"
    and "payment_by_booking_id k (db w') = r"
proof -
  note kept = money_kept(1-5,7) [where F = db, simplified]
  show "payments_t (db w') = payments_t (db w) \<or>
    (\<exists>p0 p. payment_by_booking_id k (db w) = Some p0 \<and> p_id p = p_id p0 \<and> p_booking_id p = p_booking_id p0 \<and>
       payments_t (db w') = payments_t (put_payment p (db w)))"
  proof (cases "payment_by_booking_id k (db w)")
    case None
    with assms show ?thesis by (auto simp: capture_payment_for_booking_def)
  next
    case (Some p0)
    show ?thesis
    proof (cases "p_status p0 = PAuthorized")
      case True
      with assms Some obtain p where "r = Some p"
        by (auto simp: capture_payment_for_booking_def run_on_ok split: sum.splits prod.splits if_splits exc.splits)
      from True assms Some this have "payments_t (db w') = payments_t (put_payment p (db w)) \<and>
          p_id p = p_id p0 \<and> p_booking_id p = p_booking_id p0"
        by (auto simp: capture_payment_for_booking_def run_on_ok put_payment_def
            split: sum.splits prod.splits if_splits exc.splits
            dest!: kept payments_kept run_payment_save reconcile_same_booking reconcile_failed)
      with Some show ?thesis by blast
    qed (use assms Some in \<open>auto simp: capture_payment_for_booking_def\<close>)
  qed
  show "payment_by_booking_id k (db w') = r"
  proof (cases r)
    case None
    with assms have "payment_by_booking_id k (db w) = None \<and> w' = w"
      by (auto simp: capture_payment_for_booking_def run_on_ok
          split: option.splits sum.splits prod.splits if_splits exc.splits)
    with None show ?thesis by simp
  next
    case (Some p)
    with assms capture_stored show ?thesis by blast
  qed
qed

lemma keeps_payment_ids: "run_state (capture_payment_for_booking e k c) w = (Inr r, w') \<Longrightarrow>
    map p_id (rows (payments_t (db w'))) = map p_id (rows (payments_t (db w)))"
  by (drule capture_effect(1)) (auto simp: payment_store.map_key_put)

lemma complete_booking_effect:
  assumes run: "run_state (complete_ride_booking e ride b) w = (Inr x, w')"
    and get: "get_booking (b_id b) (db w) = Some b" and ids: "distinct (map p_id (rows (payments_t (db w))))"
  shows "get_booking (b_id b) (db w') = Some (b\<lparr>b_status := BCompleted\<rparr>) \<and> settled (b_id b) (db w') \<and>
    (\<forall>k. k \<noteq> b_id b \<longrightarrow> get_booking k (db w') = get_booking k (db w) \<and>
       payment_by_booking_id k (db w') = payment_by_booking_id k (db w)) \<and>
    distinct (map p_id (rows (payments_t (db w')))) \<and> rides_t (db w') = rides_t (db w)"
proof -
  let ?x = "b\<lparr>b_status := BCompleted\<rparr>"
  from run obtain r v where c: "run_state (capture_payment_for_booking e (b_id b) False) w = (Inr r, v)"
    and captured: "r = None \<or> (\<exists>p. r = Some p \<and> p_status p = PCaptured)"
    and w': "db w' = put_booking ?x (db v)"
    by (auto simp: complete_ride_booking_def run_on_ok split: if_splits option.splits prod.splits sum.splits
        dest!: run_enqueue_db)
  have same: "payments_t (db w') = payments_t (db v)" "rides_t (db w') = rides_t (db v)"
    by (simp_all add: w' put_booking_def)
  have b: "bookings_t (db v) = bookings_t (db w)" by (rule keepsD [OF keeps_bookings_capture(1) c])
  then have "get_booking (b_id b) (db v) = Some b" using get by (simp add: get_booking_def)
  from booking_store.get_put_same [OF this, of ?x] have 1: "get_booking (b_id b) (db w') = Some ?x"
    by (simp add: w')
  have 2: "settled (b_id b) (db w')"
    using capture_effect(2) [OF c] captured payment_by_booking_same [OF same(1)] by (auto simp: settled_def)
  have 3: "get_booking k (db w') = get_booking k (db w)" if "k \<noteq> b_id b" for k
    using booking_store.get_put_other [of k ?x "db v"] that b by (simp add: w' get_booking_def)
  have 4: "payment_by_booking_id k (db w') = payment_by_booking_id k (db w)" if "k \<noteq> b_id b" for k
    using capture_effect(1) [OF c] payment_by_booking_put_other [OF ids _ _ _ that]
      payment_by_booking_same [OF same(1)] payment_by_booking_same by metis
  have 5: "distinct (map p_id (rows (payments_t (db w'))))"
    using keeps_payment_ids [OF c] ids by (simp add: same(1))
  from 1 2 3 4 5 rides_kept(1) [OF c] same(2) show ?thesis by simp
qed

lemma complete_loop_effect:
  "run_state (for_each_ok (complete_ride_booking e ride) bs) w = (Inr x, w') \<Longrightarrow>
     distinct (map b_id bs) \<Longrightarrow> \<forall>b \<in> set bs. get_booking (b_id b) (db w) = Some b \<Longrightarrow>
     distinct (map p_id (rows (payments_t (db w)))) \<Longrightarrow>
     (\<forall>b \<in> set bs. get_booking (b_id b) (db w') = Some (b\<lparr>b_status := BCompleted\<rparr>) \<and> settled (b_id b) (db w')) \<and>
     (\<forall>k. k \<notin> b_id ` set bs \<longrightarrow> get_booking k (db w') = get_booking k (db w) \<and>
       payment_by_booking_id k (db w') = payment_by_booking_id k (db w)) \<and> rides_t (db w') = rides_t (db w)"
proof (induction bs arbitrary: w)
  case (Cons b bs)
  from Cons.prems(1) obtain y v where 1: "run_state (complete_ride_booking e ride b) w = (Inr y, v)"
    and 2: "run_state (for_each_ok (complete_ride_booking e ride) bs) v = (Inr x, w')"
    by (auto simp: run_on_ok split: prod.splits sum.splits)
  have get: "get_booking (b_id b) (db w) = Some b" using Cons.prems(3) by simp
  note effect = complete_booking_effect [OF 1 get Cons.prems(4)]
  have fresh: "b_id b \<notin> b_id ` set bs" using Cons.prems(2) by simp
  have "\<forall>c \<in> set bs. get_booking (b_id c) (db v) = Some c"
  proof
    fix c
    assume c: "c \<in> set bs"
    then have "b_id c \<noteq> b_id b" using fresh by (metis imageI)
    then show "get_booking (b_id c) (db v) = Some c" using effect Cons.prems(3) c by simp
  qed
  with Cons.IH [OF 2] Cons.prems(2) effect
  have rest: "(\<forall>b \<in> set bs. get_booking (b_id b) (db w') = Some (b\<lparr>b_status := BCompleted\<rparr>) \<and> settled (b_id b) (db w'))"
    and others: "\<forall>k. k \<notin> b_id ` set bs \<longrightarrow> get_booking k (db w') = get_booking k (db v) \<and>
       payment_by_booking_id k (db w') = payment_by_booking_id k (db v)"
    and rides: "rides_t (db w') = rides_t (db v)" by simp_all
  from others fresh effect have "get_booking (b_id b) (db w') = Some (b\<lparr>b_status := BCompleted\<rparr>) \<and> settled (b_id b) (db w')"
    by (simp add: settled_def)
  with rest others effect rides show ?case by auto
qed simp

text \<open>
  C8. Completing a ride completes it for everyone on board and takes the money: every booking that
  was accepted is committed as completed (its passenger had boarded), with no payment or a captured
  one, and the ride is committed as completed and inactive. If one capture does not go through,
  nothing of it is committed.
\<close>

theorem complete_ride_settles:
  assumes "keys_ok (db w)"
  shows "case run_state (complete_ride e i u) w of
      (Inl x, w') \<Rightarrow> durable w' = durable w
    | (Inr r, w') \<Rightarrow>
        (\<forall>b \<in> set (accepted_bookings i (db w)). b_boarded_at b \<noteq> None \<and>
           get_booking (b_id b) (durable w') = Some (b\<lparr>b_status := BCompleted\<rparr>) \<and> settled (b_id b) (durable w')) \<and>
        r_driver_id r = u_id u \<and> r_status r = RCompleted \<and> \<not> r_is_active r \<and> get_ride i (durable w') = Some r"
proof (cases "run_state (complete_ride e i u) w")
  case (Pair y w')
  show ?thesis
  proof (cases y)
    case (Inl x)
    with Pair atomicD [OF atomic_ride(4)] show ?thesis by simp
  next
    case (Inr r)
    note run = Pair [unfolded Inr]
    from run obtain ride where ride: "get_ride i (db w) = Some ride" and u: "r_driver_id ride = u_id u"
      by (auto simp: complete_ride_def or_rollback_Inr split: if_splits option.splits)
    then have id: "r_id ride = i" using ride_store.get_key by blast
    let ?r = "ride\<lparr>r_status := RCompleted, r_is_active := False\<rparr>"
    from run ride u id obtain z v where
      loop: "run_state (for_each_ok (complete_ride_booking e ride) (accepted_bookings i (db w))) w = (Inr z, v)"
      and boarded: "\<not> list_ex (\<lambda>b. b_boarded_at b = None) (accepted_bookings i (db w))" and r: "r = ?r"
      and tables: "rides_t (durable w') = rides_t (put_ride ?r (db v))"
        "bookings_t (durable w') = bookings_t (db v)" "payments_t (durable w') = payments_t (db v)"
      by (auto simp: complete_ride_def or_rollback_Inr run_on_ok run_ride_save put_ride_def Let_def
          split: if_splits prod.splits sum.splits dest!: run_audit)
    have ids: "distinct (map b_id (accepted_bookings i (db w)))"
      "\<forall>b \<in> set (accepted_bookings i (db w)). get_booking (b_id b) (db w) = Some b"
      "distinct (map p_id (rows (payments_t (db w))))"
      using assms by (auto simp: accepted_bookings_def bookings_of_ride_def distinct_map_filter keys_ok_def
          table_ok_def get_booking_def intro!: table_get_unique)
    note effect = complete_loop_effect [OF loop ids]
    have "get_ride i (db v) = Some ride" using effect ride by (simp add: get_ride_def)
    from ride_store.get_put_same [OF this, of ?r] id have "get_ride i (durable w') = Some ?r"
      using tables(1) by (simp add: get_ride_def)
    with effect boarded u r tables(2,3) show ?thesis
      unfolding run Inr Pair by (auto simp: list_ex_iff get_booking_def settled_def payment_by_booking_id_def)
  qed
qed

lemma complete_ride_settles_witness:
  "\<exists>w' :: world. get_booking 1 (durable w') = Some ((demo_booking 1 2 BCompleted)\<lparr>b_boarded_at := Some 0\<rparr>) \<and>
     settled 1 (durable w')"
proof -
  let ?b = "(demo_booking 1 2 BAccepted)\<lparr>b_boarded_at := Some 0\<rparr>"
  let ?w = "demo_world [?b] [demo_payment PAuthorized]"
  have "\<exists>r w'. run_state (complete_ride demo_env 1 dan) ?w = (Inr r, w')"
    by (simp add: demo complete_ride_def complete_ride_booking_def accepted_bookings_def bookings_of_ride_def)
  then obtain r w' where run: "run_state (complete_ride demo_env 1 dan) ?w = (Inr r, w')" by blast
  have k: "keys_ok (db ?w)" by (simp add: demo keys_ok_def table_ok_def)
  have b: "?b \<in> set (accepted_bookings 1 (db ?w))"
    by (simp add: demo accepted_bookings_def bookings_of_ride_def)
  have "get_booking (b_id ?b) (durable w') = Some (?b\<lparr>b_status := BCompleted\<rparr>) \<and> settled (b_id ?b) (durable w')"
    using complete_ride_settles [OF k, where e = demo_env and i = 1 and u = dan] b unfolding run case_prod_conv sum.case by blast
  then show ?thesis by (auto simp: demo_booking_def)
qed

end
