(* ===== verification/BoardingFacts.thy ===== *)
theory BoardingFacts
  imports BookingFacts
begin

text \<open>
  Boarding by one-time password and the shared trip link: a code that was issued boards its
  passenger, nothing else does, and a link that is revoked is gone.
\<close>

section \<open>Rows written back\<close>

lemma others_put:
  "key x = key y \<Longrightarrow> others key y (map (\<lambda>r. if key r = key x then x else r) rs) = others key y rs"
  unfolding others_def by (induction rs) auto

lemma booking_constraints_put:
  assumes "booking_constraints (rows (bookings_t d)) x" and "b_id y = b_id x" and "b_ride_id y = b_ride_id x"
    and "b_passenger_id y = b_passenger_id x" and "b_share_token_hash y = b_share_token_hash x"
  shows "booking_constraints (rows (bookings_t (put_booking x d))) y"
proof -
  have "others b_id y (rows (bookings_t (put_booking x d))) = others b_id y (rows (bookings_t d))"
    unfolding booking_store.all_put by (rule others_put) (simp add: assms(2))
  moreover have "others b_id y (rows (bookings_t d)) = others b_id x (rows (bookings_t d))"
    by (simp add: others_def assms(2))
  ultimately show ?thesis using assms(1,3-5) by (simp add: booking_constraints_def)
qed

lemma get_booking_add_audit: "get_booking i (add_audit a d) = get_booking i d"
  by (simp add: get_booking_def add_audit_def)

section \<open>The code\<close>

lemma issue_otp_ok:
  assumes "run_state (issue_boarding_otp e n i u) w = (Inr (otp, t), w')"
  obtains b where "get_booking i (db w) = Some b" and "b_passenger_id b = u_id u" and "b_status b = BAccepted"
    and "b_boarded_at b = None" and "otp = format_otp n"
    and "t = clock w + minutes (BOARDING_OTP_EXPIRE_MINUTES (feat e))"
    and "booking_constraints (rows (bookings_t (db w)))
      (b\<lparr>b_boarding_otp_hash := Some (hash_boarding_otp e (b_id b) otp), b_boarding_otp_expires_at := Some t\<rparr>)"
    and "bookings_t (db w') = bookings_t (put_booking
      (b\<lparr>b_boarding_otp_hash := Some (hash_boarding_otp e (b_id b) otp), b_boarding_otp_expires_at := Some t\<rparr>) (db w))"
    and "rides_t (db w') = rides_t (db w)" and "durable w' = db w'"
  using assms
  by (auto simp: issue_boarding_otp_def run_on_ok Let_def run_booking_save put_booking_def
      split: option.splits if_splits prod.splits sum.splits dest!: run_audit)

text \<open>
  C14. A boarding code that was issued to the passenger, entered by the ride's driver before it
  expires, boards the passenger: verification succeeds, and the committed booking is boarded at that
  moment with the code used up. (The MAC never yields the empty string.)
\<close>

theorem issued_otp_boards:
  assumes issued: "run_state (issue_boarding_otp e n i passenger) w = (Inr (otp, t), w1)"
    and ride: "get_booking i (db w) = Some b" "get_ride (b_ride_id b) (db w) = Some ride"
    and driver: "u_id driver = r_driver_id ride"
    and later: "clock w1 \<le> now" "now < t"
    and mac: "\<And>k m. hmac_sha256 e k m \<noteq> []"
  shows "\<exists>b' w2. run_state (verify_boarding_otp e i otp driver) (w1\<lparr>clock := now\<rparr>) = (Inr b', w2) \<and>
    b_boarded_at b' = Some now \<and> b_boarding_otp_hash b' = None \<and> get_booking i (durable w2) = Some b'"
proof -
  define x where "x = b\<lparr>b_boarding_otp_hash := Some (hash_boarding_otp e (b_id b) otp),
    b_boarding_otp_expires_at := Some t\<rparr>"
  from issued obtain b0 where "get_booking i (db w) = Some b0" and accepted: "b_status b = BAccepted"
    and ashore: "b_boarded_at b = None" and c: "booking_constraints (rows (bookings_t (db w))) x"
    and w1: "bookings_t (db w1) = bookings_t (put_booking x (db w))" "rides_t (db w1) = rides_t (db w)"
    by (rule issue_otp_ok) (use ride(1) in \<open>auto simp: x_def\<close>)
  let ?v = "w1\<lparr>clock := now\<rparr>"
  let ?y = "x\<lparr>b_boarded_at := Some now, b_boarding_otp_hash := None, b_boarding_otp_expires_at := None\<rparr>"
  have id: "b_id x = i" using booking_store.get_key [OF ride(1)] by (simp add: x_def)
  have get1: "get_booking i (db ?v) = Some x"
    using booking_store.get_put_same [OF ride(1) id] w1(1) by (simp add: get_booking_def)
  have ride1: "ride_of x (db ?v) = Some ride"
    using ride(2) w1(2) by (simp add: ride_of_def x_def get_ride_def)
  have "booking_constraints (rows (bookings_t (db ?v))) ?y"
    using booking_constraints_put [OF c, of ?y] w1(1) by simp
  then have save: "run_state (booking_save ?y) ?v = (Inr ?y, ?v\<lparr>db := put_booking ?y (db ?v)\<rparr>)"
    by (simp add: run_booking_save)
  have "get_booking i (put_booking ?y (db ?v)) = Some ?y"
    by (rule booking_store.get_put_same [OF get1]) (simp add: id)
  with save get1 ride1 driver accepted ashore later mac show ?thesis
    by (simp add: verify_boarding_otp_def run_on_ok x_def hash_boarding_otp_def audit_request_def
        audit_create_def Let_def get_booking_add_audit)
qed

lemma issued_otp_boards_witness:
  "\<exists>otp (w2 :: world) b'. get_booking 2 (durable w2) = Some b' \<and> b_boarded_at b' = Some 5 \<and>
     b_boarding_otp_hash b' = None \<and> otp = format_otp 123456"
proof -
  let ?e = "demo_env\<lparr>hmac_sha256 := \<lambda>k m. CHR ''x'' # m\<rparr>"
  have "\<exists>w1. run_state (issue_boarding_otp ?e 123456 2 pia) deal_world = (Inr (format_otp 123456, minutes 30), w1) \<and>
      clock w1 = 0"
    by (simp add: demo issue_boarding_otp_def)
  then obtain w1 where run: "run_state (issue_boarding_otp ?e 123456 2 pia) deal_world =
      (Inr (format_otp 123456, minutes 30), w1)" and t: "clock w1 = 0" by blast
  have "get_booking 2 (db deal_world) = Some (demo_booking 2 3 BAccepted)"
    and "get_ride (b_ride_id (demo_booking 2 3 BAccepted)) (db deal_world) = Some demo_ride"
    and "u_id dan = r_driver_id demo_ride"
    by (simp_all add: demo)
  from issued_otp_boards [OF run this, of 5] t show ?thesis by (auto simp: time_units)
qed

text \<open>
  C15. Nothing else boards a passenger: a verification that succeeds on a booking not yet boarded was
  made by the ride's driver, on an accepted booking, with a code whose MAC is the stored one, before
  it expired. It boards the booking and uses the code up.
\<close>

theorem verify_otp_sound:
  assumes "run_state (verify_boarding_otp e i otp u) w = (Inr b', w')"
    and "get_booking i (db w) = Some b" and "b_boarded_at b = None"
  shows "(\<exists>ride. get_ride (b_ride_id b) (db w) = Some ride \<and> u_id u = r_driver_id ride) \<and>
    b_status b = BAccepted \<and> b_boarding_otp_hash b = Some (hash_boarding_otp e (b_id b) otp) \<and>
    (\<exists>t. b_boarding_otp_expires_at b = Some t \<and> clock w < t) \<and>
    b' = b\<lparr>b_boarded_at := Some (clock w), b_boarding_otp_hash := None, b_boarding_otp_expires_at := None\<rparr> \<and>
    get_booking i (durable w') = Some b'"
proof -
  let ?y = "b\<lparr>b_boarded_at := Some (clock w), b_boarding_otp_hash := None, b_boarding_otp_expires_at := None\<rparr>"
  have "get_booking i (put_booking ?y (db w)) = Some ?y"
    using booking_store.get_put_same [OF assms(2)] booking_store.get_key [OF assms(2)] by simp
  moreover have "bookings_t (durable w') = bookings_t (put_booking ?y (db w)) \<and> b' = ?y"
    using assms by (auto simp: verify_boarding_otp_def run_on_ok run_booking_save deref_def
        split: option.splits if_splits prod.splits sum.splits dest!: run_audit)
  ultimately show ?thesis
    using assms by (auto simp: verify_boarding_otp_def get_booking_def run_on_ok deref_def ride_of_def not_le
        split: option.splits if_splits elim!: truthyE)
qed

lemma verify_otp_sound_witness:
  "hash_boarding_otp demo_env 2 ''123456'' = ''2:123456'' \<and> (0 :: int) < 9"
proof -
  let ?b = "(demo_booking 2 3 BAccepted)\<lparr>b_boarding_otp_hash := Some ''2:123456'', b_boarding_otp_expires_at := Some 9\<rparr>"
  let ?w = "demo_world [demo_booking 1 2 BPending, ?b] []"
  have h: "str_int 2 = ''2''" by code_simp
  have "\<exists>b' w'. run_state (verify_boarding_otp demo_env 2 ''123456'' dan) ?w = (Inr b', w')"
    by (simp add: demo verify_boarding_otp_def hash_boarding_otp_def h)
  then obtain b' w' where run: "run_state (verify_boarding_otp demo_env 2 ''123456'' dan) ?w = (Inr b', w')" by blast
  have "get_booking 2 (db ?w) = Some ?b" by (simp add: demo)
  from verify_otp_sound [OF run this] show ?thesis by (simp add: demo_booking_def)
qed

section \<open>The shared link\<close>

lemma shared_booking:
  "booking_by_share_token_hash h d = Some b \<Longrightarrow>
     b \<in> set (rows (bookings_t d)) \<and> b_share_token_hash b = Some h"
  unfolding booking_by_share_token_hash_def by (fastforce simp: find_Some_iff)

text \<open>
  C16. The public page of a trip is only shown for a stored booking whose share token hashes to the
  one given, that is accepted or completed and whose link is not revoked; the driver's position is
  on it only inside the tracking window. Reading it changes nothing.
\<close>

theorem public_trip_sound:
  assumes "run_state (get_public_trip_status e token) w = (Inr t, w')"
  shows "w' = w \<and> (\<exists>b ride. b \<in> set (rows (bookings_t (db w))) \<and>
    b_share_token_hash b = Some (hash_share_token e token) \<and> b_share_token_revoked_at b = None \<and>
    b_status b \<in> {BAccepted, BCompleted} \<and> get_ride (b_ride_id b) (db w) = Some ride \<and>
    pt_booking_status t = b_status b \<and>
    (pt_latest_location t = None \<or> tracking_window e (r_departure_time ride) (clock w)))"
  using assms
  by (auto simp: get_public_trip_status_def ride_of_def run_on_ok deref_def Let_def
      split: option.splits if_splits sum.splits dest!: shared_booking)

definition shared_world :: world where
  "shared_world = demo_world [(demo_booking 1 3 BAccepted)\<lparr>b_share_token_hash := Some ''tok''\<rparr>] []"

lemma public_trip_sound_witness:
  "\<exists>b ride. b \<in> set (rows (bookings_t (db shared_world))) \<and> b_share_token_hash b = Some ''tok'' \<and>
     get_ride (b_ride_id b) (db shared_world) = Some ride \<and> b_status b = BAccepted"
proof -
  have name: "first_name ''Dan'' = Inr ''Dan''" by code_simp
  have "\<exists>t. run_state (get_public_trip_status demo_env ''tok'') shared_world = (Inr t, shared_world) \<and>
      pt_booking_status t = BAccepted"
    by (simp add: demo shared_world_def get_public_trip_status_def booking_by_share_token_hash_def
        hash_share_token_def name)
  then obtain t where run: "run_state (get_public_trip_status demo_env ''tok'') shared_world = (Inr t, shared_world)"
    and st: "pt_booking_status t = BAccepted" by blast
  have "hash_share_token demo_env ''tok'' = ''tok''" by (simp add: hash_share_token_def demo_env_def)
  with public_trip_sound [OF run] st show ?thesis by metis
qed

text \<open>
  A link that its passenger revoked is gone: from then on the public page answers 404 for its
  token, whatever the time.
\<close>

theorem revoked_link_gone:
  assumes revoked: "run_state (revoke_share_token i u) w = (Inr True, w1)"
    and link: "booking_by_share_token_hash (hash_share_token e token) (db w) = Some b" "b_id b = i"
    and keys: "keys_ok (db w)"
  shows "run_state (get_public_trip_status e token) (w1\<lparr>clock := now\<rparr>) =
    (Inl (HTTPException 404 ''Trip share not found''), w1\<lparr>clock := now\<rparr>)"
proof -
  have mem: "b \<in> set (rows (bookings_t (db w)))" and hash: "b_share_token_hash b = Some (hash_share_token e token)"
    using shared_booking [OF link(1)] by simp_all
  have get: "get_booking i (db w) = Some b"
    using keys mem link(2) unfolding get_booking_def keys_ok_def by (auto dest: table_get_unique)
  let ?x = "b\<lparr>b_share_token_revoked_at := Some (clock w)\<rparr>"
  have "bookings_t (db w1) = bookings_t (put_booking ?x (db w))"
    using revoked get by (auto simp: revoke_share_token_def run_on_ok run_booking_save
        split: option.splits if_splits prod.splits sum.splits dest!: run_audit)
  then have rows: "rows (bookings_t (db w1)) = map (\<lambda>r. if b_id r = i then ?x else r) (rows (bookings_t (db w)))"
    using link(2) by (simp add: put_booking_def table_put_def)
  have "find (\<lambda>r. b_share_token_hash r = Some (hash_share_token e token))
      (map (\<lambda>r. if b_id r = b_id ?x then ?x else r) (rows (bookings_t (db w)))) = Some ?x"
    by (rule find_map_replaced [where key = b_id and x = b])
      (use link(1) hash in \<open>simp_all add: booking_by_share_token_hash_def\<close>)
  then have "booking_by_share_token_hash (hash_share_token e token) (db w1) = Some ?x"
    using link(2) by (simp add: booking_by_share_token_hash_def rows)
  then show ?thesis by (simp add: get_public_trip_status_def)
qed

lemma revoked_link_gone_witness:
  "\<exists>w1 :: world. run_state (get_public_trip_status demo_env ''tok'') (w1\<lparr>clock := 7\<rparr>) =
     (Inl (HTTPException 404 ''Trip share not found''), w1\<lparr>clock := 7\<rparr>)"
proof -
  let ?b = "(demo_booking 1 3 BAccepted)\<lparr>b_share_token_hash := Some ''tok''\<rparr>"
  have "\<exists>w1. run_state (revoke_share_token 1 pia) shared_world = (Inr True, w1)"
    by (simp add: demo shared_world_def revoke_share_token_def)
  then obtain w1 where run: "run_state (revoke_share_token 1 pia) shared_world = (Inr True, w1)" by blast
  have "booking_by_share_token_hash (hash_share_token demo_env ''tok'') (db shared_world) = Some ?b"
    by (simp add: demo shared_world_def booking_by_share_token_hash_def hash_share_token_def)
  moreover have "b_id ?b = 1" by (simp add: demo_booking_def)
  moreover have "keys_ok (db shared_world)"
    by (simp add: demo shared_world_def keys_ok_def table_ok_def)
  ultimately show ?thesis using revoked_link_gone [OF run] by blast
qed

end
