(* ===== verification/GuardFacts.thy ===== *)
theory GuardFacts
  imports Demo
begin

text \<open>
  What the pieces in front of and behind the endpoints promise: how many calls the rate limiter lets
  through, what an idempotency key guards against, and how often the worker runs a job.
\<close>

section \<open>The rate limiter\<close>

lemma map_of_prune:
  "distinct (map fst m) \<Longrightarrow> map_of (prune_limits now m) k =
     (case map_of m k of None \<Rightarrow> None | Some r \<Rightarrow> if now < lr_expires_at r then Some r else None)"
  unfolding prune_limits_def
  by (induction m) (auto split: option.splits simp: map_of_eq_None_iff image_iff)

lemma distinct_prune: "distinct (map fst m) \<Longrightarrow> distinct (map fst (prune_limits now m))"
  by (simp add: prune_limits_def distinct_map_filter)

text \<open>The calls of a run that are let through.\<close>

definition passed :: "string \<Rightarrow> int \<Rightarrow> int \<Rightarrow> instant list \<Rightarrow> limiter \<Rightarrow> int" where
  "passed key limit window ts m = int (length (filter id (fst (rate_run key limit window ts m))))"

lemma passed_Nil [simp]: "passed key limit window [] m = 0"
  by (simp add: passed_def)

lemma passed_nonneg: "0 \<le> passed key limit window ts m"
  by (simp add: passed_def)

lemma passed_Cons:
  "passed key limit window (t # ts) m =
     (let (c, m') = rate_increment t key window m
      in (if c \<le> limit then 1 else 0) + passed key limit window ts m')"
  by (simp add: passed_def rate_enforce_def split: prod.split)

text \<open>The record of a key that counts at a given instant.\<close>

definition live :: "instant \<Rightarrow> string \<Rightarrow> limiter \<Rightarrow> limit_record option" where
  "live now key m = (case map_of m (rate_key key) of
     None \<Rightarrow> None | Some r \<Rightarrow> if now < lr_expires_at r then Some r else None)"

lemma rate_increment_live:
  assumes "distinct (map fst m)" and "rate_increment t key window m = (c, m')" and "0 < window"
  shows "distinct (map fst m')"
    and "live t key m = None \<Longrightarrow> c = 1 \<and>
      map_of m' (rate_key key) = Some \<lparr>lr_count = 1, lr_expires_at = t + seconds window\<rparr>"
    and "live t key m = Some r \<Longrightarrow> c = lr_count r + 1 \<and>
      map_of m' (rate_key key) = Some (r\<lparr>lr_count := lr_count r + 1\<rparr>)"
  using assms
  by (auto simp: rate_increment_def live_def Let_def map_of_prune distinct_prune distinct_update update_conv
      seconds_def not_less split: option.splits if_splits)

text \<open>While a record lives it admits what is left of the limit; then a fresh one admits the limit.\<close>

lemma passed_in_window:
  assumes "distinct (map fst m)" and "map_of m (rate_key key) = Some r" and "0 < window" and "0 \<le> limit"
    and "\<forall>t \<in> set ts. t < lr_expires_at r"
  shows "passed key limit window ts m \<le> max 0 (limit - lr_count r)"
  using assms
proof (induction ts arbitrary: m r)
  case (Cons t ts)
  obtain c m' where inc: "rate_increment t key window m = (c, m')" by fastforce
  have "live t key m = Some r" using Cons.prems by (simp add: live_def)
  from rate_increment_live [OF Cons.prems(1) inc Cons.prems(3)] this
  have c: "c = lr_count r + 1" and m': "map_of m' (rate_key key) = Some (r\<lparr>lr_count := lr_count r + 1\<rparr>)"
    "distinct (map fst m')" by simp_all
  from Cons.IH [OF m'(2,1) Cons.prems(3,4)] Cons.prems(5)
  have "passed key limit window ts m' \<le> max 0 (limit - (lr_count r + 1))" by simp
  then show ?case using c by (auto simp: passed_Cons inc max_def split: if_splits)
qed simp

lemma passed_fresh:
  assumes "distinct (map fst m)" and "live t key m = None" and "0 < window" and "0 \<le> limit"
    and "\<forall>t' \<in> set ts. t' < t + seconds window"
  shows "passed key limit window (t # ts) m \<le> limit"
proof -
  obtain c m' where inc: "rate_increment t key window m = (c, m')" by fastforce
  from rate_increment_live [OF assms(1) inc assms(3)] assms(2)
  have "c = 1" "map_of m' (rate_key key) = Some \<lparr>lr_count = 1, lr_expires_at = t + seconds window\<rparr>"
    "distinct (map fst m')" by simp_all
  with passed_in_window [of m' key _ window limit ts] assms(3-5) show ?thesis
    by (auto simp: passed_Cons inc)
qed

lemma passed_live:
  assumes "distinct (map fst m)" and "map_of m (rate_key key) = Some r" and "0 < window" and "0 \<le> limit"
    and "sorted ts" and "\<forall>t \<in> set ts. t < t0 + seconds window" and "\<forall>t \<in> set ts. t0 \<le> t"
  shows "passed key limit window ts m \<le> max 0 (limit - lr_count r) + limit"
  using assms
proof (induction ts arbitrary: m r)
  case (Cons t ts)
  show ?case
  proof (cases "t < lr_expires_at r")
    case False
    then have "live t key m = None" using Cons.prems(2) by (simp add: live_def)
    moreover have "\<forall>t' \<in> set ts. t' < t + seconds window" using Cons.prems(6,7) by fastforce
    ultimately have "passed key limit window (t # ts) m \<le> limit"
      using passed_fresh [OF Cons.prems(1)] Cons.prems(3,4) by blast
    then show ?thesis by simp
  next
    case True
    obtain c m' where inc: "rate_increment t key window m = (c, m')" by fastforce
    have "live t key m = Some r" using Cons.prems True by (simp add: live_def)
    from rate_increment_live [OF Cons.prems(1) inc Cons.prems(3)] this
    have c: "c = lr_count r + 1" and m': "map_of m' (rate_key key) = Some (r\<lparr>lr_count := lr_count r + 1\<rparr>)"
      "distinct (map fst m')" by simp_all
    from Cons.IH [OF m'(2,1) Cons.prems(3,4)] Cons.prems(5-7)
    have "passed key limit window ts m' \<le> max 0 (limit - (lr_count r + 1)) + limit" by simp
    then show ?thesis using c by (auto simp: passed_Cons inc max_def split: if_splits)
  qed
qed (simp add: passed_def)

text \<open>
  C27. Of the calls with one key (one scope and client) at the instants of a span shorter than the
  window, the rate limiter lets at most twice the limit through, and at most the limit when no window
  of the key was open at the first of them.
\<close>

theorem rate_limit_holds:
  assumes "distinct (map fst m)" and "0 < window" and "0 \<le> limit"
    and "sorted (t # ts)" and "\<forall>t' \<in> set ts. t' < t + seconds window"
  shows "int (length (filter id (fst (rate_run key limit window (t # ts) m)))) \<le>
    (case map_of m (rate_key key) of
       None \<Rightarrow> limit
     | Some r \<Rightarrow> if lr_expires_at r \<le> t \<or> limit \<le> lr_count r then limit else 2 * limit - lr_count r)"
proof (cases "live t key m")
  case None
  from passed_fresh [OF assms(1) None assms(2,3,5)] None show ?thesis
    by (auto simp: passed_def live_def split: option.splits if_splits)
next
  case (Some r)
  then have r: "map_of m (rate_key key) = Some r" "t < lr_expires_at r"
    by (auto simp: live_def split: option.splits if_splits)
  have "0 < seconds window" using assms(2) by (simp add: seconds_def)
  with passed_live [OF assms(1) r(1) assms(2,3,4), of t] assms(4,5)
  have "passed key limit window (t # ts) m \<le> max 0 (limit - lr_count r) + limit" by auto
  then show ?thesis using r by (auto simp: passed_def)
qed

lemma rate_limit_holds_witness:
  "int (length (filter id (fst (rate_run ''auth-login:h:e'' 2 60 [0, 1, 2, 3] [])))) \<le> 2"
  using rate_limit_holds [of "[]" 60 2 0 "[1, 2, 3]" "''auth-login:h:e''"] by (simp add: seconds_def)

section \<open>Idempotency keys\<close>

lemma cached_new:
  "get_cached_response hash h a m = Inr (Some (k, r)) \<Longrightarrow>
     truthy (ik_key h) \<and> k = idem_build_key h a (the (ik_key h)) \<and> id_request_hash r = hash (ik_body h) \<and>
     (id_status_code r = 0 \<or> map_of m k = Some r)"
  by (auto simp: get_cached_response_def Let_def split: if_splits option.splits)

lemma cached_stored:
  "truthy (ik_key h) \<Longrightarrow> map_of m (idem_build_key h a (the (ik_key h))) = Some r \<Longrightarrow>
     id_request_hash r = hash (ik_body h) \<Longrightarrow>
     get_cached_response hash h a m = Inr (Some (idem_build_key h a (the (ik_key h)), r))"
  by (simp add: get_cached_response_def)

text \<open>
  C28. A request that succeeded under an idempotency key has its effect once: sent again by the same
  user it is answered with the same status and body, marked as a replay, and changes nothing, whatever
  its callback would have done; sent with another body (of another hash) it is refused with 409.
\<close>

theorem replay_has_no_effect:
  assumes "run_state (idempotent_execute e h a callback f code) w = (Inr r, w')"
    and "truthy (ik_key h)" and "code \<noteq> 0"
  shows "run_state (idempotent_execute e h a callback2 f2 code2) w' =
      (Inr \<lparr>rs_status_code = rs_status_code r, rs_body = rs_body r, rs_replayed = True\<rparr>, w') \<and>
    (sha256 e body \<noteq> sha256 e (ik_body h) \<longrightarrow>
       run_state (idempotent_execute e (h\<lparr>ik_body := body\<rparr>) a callback2 f2 code2) w' =
         (Inl (HTTPException 409 ''Idempotency key reuse with different request payload''), w'))"
proof -
  let ?k = "idem_build_key h a (the (ik_key h))"
  have "\<exists>rec. map_of (idem w') ?k = Some rec \<and> id_request_hash rec = sha256 e (ik_body h) \<and>
      id_status_code rec = rs_status_code r \<and> id_body rec = rs_body r \<and> rs_status_code r \<noteq> 0"
    using assms
    by (auto simp: idempotent_execute_def Let_def run_on_ok save_response_def update_conv
        get_cached_response_def split: option.splits if_splits sum.splits prod.splits)
  then obtain rec where rec: "map_of (idem w') ?k = Some rec" "id_request_hash rec = sha256 e (ik_body h)"
    "id_status_code rec = rs_status_code r" "id_body rec = rs_body r" "rs_status_code r \<noteq> 0" by blast
  have k: "idem_build_key (h\<lparr>ik_body := body\<rparr>) a (the (ik_key h)) = ?k" by (simp add: idem_build_key_def)
  show ?thesis using rec assms(2) k by (auto simp: idempotent_execute_def get_cached_response_def)
qed

lemma replay_has_no_effect_witness:
  "\<exists>w' :: world. run_state (idempotent_execute demo_env demo_inbound (Some 2) (ok ()) (\<lambda>_. PyInt 7) 201) (initial_world 0) =
      (Inr \<lparr>rs_status_code = 201, rs_body = PyInt 7, rs_replayed = False\<rparr>, w') \<and>
    run_state (idempotent_execute demo_env demo_inbound (Some 2) (raise (KeyError []) :: unit svc) (\<lambda>_. PyNone) 200) w' =
      (Inr \<lparr>rs_status_code = 201, rs_body = PyInt 7, rs_replayed = True\<rparr>, w')"
proof -
  have "\<exists>w' :: world. run_state (idempotent_execute demo_env demo_inbound (Some 2) (ok ()) (\<lambda>_. PyInt 7) 201) (initial_world 0) =
      (Inr \<lparr>rs_status_code = 201, rs_body = PyInt 7, rs_replayed = False\<rparr>, w')"
    by (simp add: idempotent_execute_def get_cached_response_def demo_inbound_def demo_env_def initial_world_def truthy_def
        Let_def)
  then obtain w' :: world where run: "run_state (idempotent_execute demo_env demo_inbound (Some 2) (ok ()) (\<lambda>_. PyInt 7) 201)
      (initial_world 0) = (Inr \<lparr>rs_status_code = 201, rs_body = PyInt 7, rs_replayed = False\<rparr>, w')" by blast
  have k: "truthy (ik_key demo_inbound)" by (simp add: demo_inbound_def truthy_def)
  from replay_has_no_effect [OF run k] run show ?thesis by auto
qed

section \<open>The worker\<close>

text \<open>A number of turns of the worker's loop.\<close>

primrec turns :: "feature_settings \<Rightarrow> (job_handler \<Rightarrow> unit svc) \<Rightarrow> nat \<Rightarrow> unit act" where
  "turns s f 0 = State_Monad.return ()"
| "turns s f (Suc n) = do { worker_turn s f; turns s f n }"

text \<open>A handler that always fails, and a count of its runs that only it changes.\<close>

definition always_fails :: "unit svc \<Rightarrow> (world \<Rightarrow> int) \<Rightarrow> bool" where
  "always_fails m count \<longleftrightarrow>
     (\<forall>w. \<exists>x w'. run_state m w = (Inl x, w') \<and> jobs w' = jobs w \<and> count w' = count w + 1) \<and>
     (\<forall>w q. count (w\<lparr>jobs := q\<rparr>) = count w) \<and> (\<forall>w c. count (w\<lparr>counters := c\<rparr>) = count w)"

text \<open>The two ends of a failed attempt, and the start of one.\<close>

lemma run_retry:
  assumes "run_state (do { record_job_metric a b; record_retry j; enqueue j }) u = ((), w')"
  shows "(\<exists>q c. w' = u\<lparr>counters := c, jobs := q\<rparr>) \<and> jq_jobs (jobs w') = jq_jobs (jobs u) @ [j] \<and>
    jq_retry_total (jobs w') = jq_retry_total (jobs u) + 1 \<and>
    jq_failed_total (jobs w') = jq_failed_total (jobs u) \<and> jq_success_total (jobs w') = jq_success_total (jobs u)"
  using assms by (auto simp: record_job_metric_def job_defs)

lemma run_failure:
  assumes "run_state (do { record_job_metric a b; record_failure j }) u = ((), w')"
  shows "(\<exists>q c. w' = u\<lparr>counters := c, jobs := q\<rparr>) \<and> jq_jobs (jobs w') = jq_jobs (jobs u) \<and>
    jq_retry_total (jobs w') = jq_retry_total (jobs u) \<and> jq_failed_total (jobs w') = jq_failed_total (jobs u) + 1 \<and>
    jq_success_total (jobs w') = jq_success_total (jobs u) \<and> jq_last_failed_job (jobs w') = Some (j_name j)"
  using assms by (auto simp: record_job_metric_def job_defs Let_def)

lemma run_start:
  "\<exists>es. run_state (record_event j st er) w = ((), w\<lparr>jobs := (jobs w)\<lparr>jq_recent_events := es\<rparr>\<rparr>)"
  by (simp add: job_defs) blast

lemma failing_turn:
  assumes "always_fails (f (j_handler j)) count" and "\<not> runs_inline s" and "jq_jobs (jobs w) = [j]"
    and "run_state (worker_turn s f) w = ((), w')"
  shows "count w' = count w + 1 \<and> jq_success_total (jobs w') = jq_success_total (jobs w) \<and>
    (if j_attempts j < j_max_retries j
     then jq_jobs (jobs w') = [next_attempt j] \<and> jq_retry_total (jobs w') = jq_retry_total (jobs w) + 1 \<and>
       jq_failed_total (jobs w') = jq_failed_total (jobs w)
     else jq_jobs (jobs w') = [] \<and> jq_retry_total (jobs w') = jq_retry_total (jobs w) \<and>
       jq_failed_total (jobs w') = jq_failed_total (jobs w) + 1 \<and> jq_last_failed_job (jobs w') = Some (j_name j))"
proof -
  let ?w0 = "w\<lparr>jobs := (jobs w)\<lparr>jq_jobs := []\<rparr>\<rparr>"
  obtain es where start: "run_state (record_event j ''running'' None) ?w0 =
      ((), ?w0\<lparr>jobs := (jobs ?w0)\<lparr>jq_recent_events := es\<rparr>\<rparr>)" using run_start by blast
  define v where "v = ?w0\<lparr>jobs := (jobs ?w0)\<lparr>jq_recent_events := es\<rparr>\<rparr>"
  have count: "count (z\<lparr>jobs := q\<rparr>) = count z" "count (z\<lparr>counters := c\<rparr>) = count z" for z q c
    using assms(1) by (simp_all add: always_fails_def)
  obtain x u where u: "run_state (f (j_handler j)) v = (Inl x, u)" "jobs u = jobs v" "count u = count v + 1"
    using assms(1) unfolding always_fails_def by blast
  have jv: "count v = count w" "jq_jobs (jobs u) = []" "jq_retry_total (jobs u) = jq_retry_total (jobs w)"
    "jq_failed_total (jobs u) = jq_failed_total (jobs w)" "jq_success_total (jobs u) = jq_success_total (jobs w)"
    unfolding u(2) v_def by (simp_all add: count)
  have turn: "run_state (worker_turn s f) w =
     run_state (if j_attempts j < j_max_retries j
       then do { record_job_metric (j_name j) ''retry''; record_retry (next_attempt j); enqueue (next_attempt j) }
       else do { record_job_metric (j_name j) ''failed''; record_failure (next_attempt j) }) u"
    using assms(2,3) start u(1)
    by (simp add: worker_turn_def set_jobs_def execute_with.simps enqueue_worker v_def next_attempt_def Let_def)
  show ?thesis
  proof (cases "j_attempts j < j_max_retries j")
    case True
    with turn assms(4) have "run_state (do { record_job_metric (j_name j) ''retry'';
        record_retry (next_attempt j); enqueue (next_attempt j) }) u = ((), w')" by simp
    from run_retry [OF this] True jv u(3) show ?thesis by (auto simp: count)
  next
    case False
    with turn assms(4) have "run_state (do { record_job_metric (j_name j) ''failed'';
        record_failure (next_attempt j) }) u = ((), w')" by simp
    from run_failure [OF this] False jv u(3) show ?thesis
      by (auto simp: count next_attempt_def)
  qed
qed

text \<open>
  C26. A job is neither dropped nor retried for ever: with a running worker, a job whose handler always
  fails is run once and then once per retry allowed, after which the queue is empty again, one failure
  and every retry are counted, and the job is named as the last one that failed.
\<close>

theorem failing_job_exhausts_retries:
  assumes "always_fails (f (j_handler j)) count" and "\<not> runs_inline s" and "jq_jobs (jobs w) = [j]"
    and "j_max_retries j = j_attempts j + int n"
  shows "\<exists>w'. run_state (turns s f (Suc n)) w = ((), w') \<and> count w' = count w + int (Suc n) \<and>
    jq_jobs (jobs w') = [] \<and> jq_failed_total (jobs w') = jq_failed_total (jobs w) + 1 \<and>
    jq_retry_total (jobs w') = jq_retry_total (jobs w) + int n \<and>
    jq_success_total (jobs w') = jq_success_total (jobs w) \<and> jq_last_failed_job (jobs w') = Some (j_name j)"
  using assms
proof (induction n arbitrary: j w)
  case 0
  obtain w' where "run_state (worker_turn s f) w = ((), w')" by (metis old.unit.exhaust surj_pair)
  with failing_turn [OF 0(1-3) this] 0(4) show ?case by simp
next
  case (Suc n)
  obtain v where v: "run_state (worker_turn s f) w = ((), v)" by (metis old.unit.exhaust surj_pair)
  from failing_turn [OF Suc.prems(1-3) this] Suc.prems(4)
  have turn: "count v = count w + 1" "jq_jobs (jobs v) = [next_attempt j]"
    "jq_retry_total (jobs v) = jq_retry_total (jobs w) + 1" "jq_failed_total (jobs v) = jq_failed_total (jobs w)"
    "jq_success_total (jobs v) = jq_success_total (jobs w)" by simp_all
  have "always_fails (f (j_handler (next_attempt j))) count"
    "j_max_retries (next_attempt j) = j_attempts (next_attempt j) + int n"
    using Suc.prems(1,4) by (simp_all add: next_attempt_def)
  from Suc.IH [OF this(1) Suc.prems(2) turn(2) this(2)] turn v show ?case
    by (auto simp: next_attempt_def)
qed

text \<open>The witness is the heartbeat job, which always fails, counted by the calls on the wire.\<close>

definition demo_call :: "unit svc" where
  "demo_call = do { modify (\<lambda>w. w\<lparr>http_log := http_log w @ [HttpCall ''GET'' [] None]\<rparr>); raise (TypeError []) }"

lemma failing_job_exhausts_retries_witness:
  "\<exists>w'. run_state (turns default_feature_settings (\<lambda>_. demo_call) 4)
       ((initial_world 0)\<lparr>jobs := empty_queue\<lparr>jq_jobs := [\<lparr>j_name = ''heartbeat'', j_handler = Database_heartbeat,
          j_job_id = 1, j_attempts = 0, j_max_retries = 3\<rparr>]\<rparr>\<rparr>) = ((), w') \<and>
     int (length (http_log w')) = 4 \<and> jq_failed_total (jobs w') = 1"
proof -
  let ?j = "\<lparr>j_name = ''heartbeat'', j_handler = Database_heartbeat, j_job_id = 1, j_attempts = 0, j_max_retries = 3\<rparr>"
  let ?w = "(initial_world 0)\<lparr>jobs := empty_queue\<lparr>jq_jobs := [?j]\<rparr>\<rparr>"
  have f: "always_fails ((\<lambda>_. demo_call) (j_handler ?j)) (\<lambda>w. int (length (http_log w)))"
    by (simp add: always_fails_def demo_call_def)
  have s: "\<not> runs_inline default_feature_settings" by (simp add: runs_inline_def default_feature_settings_def)
  have q: "jq_jobs (jobs ?w) = [?j]" and n: "j_max_retries ?j = j_attempts ?j + int 3" by simp_all
  have "Suc 3 = 4" by simp
  from failing_job_exhausts_retries [where f = "\<lambda>_. demo_call", OF f s q n, unfolded this] show ?thesis
    by (auto simp: initial_world_def empty_queue_def)
qed

end
