(* ===== verification/DispatchFacts.thy ===== *)
theory DispatchFacts
  imports BookingFacts
begin

text \<open>
  What the dispatch service promises: the requests a driver sees are the nearest open ones, and a
  request is matched once, with a full ride and an accepted booking of its own. The facts about the
  two distances that decide who is near are here too.
\<close>

section \<open>A driver and a request\<close>

text \<open>Dan waits where Pat wants to be picked up.\<close>

definition demo_presence :: driver_availability where
  "demo_presence = \<lparr>v_id = 1, v_driver_id = 1, v_latitude = 0, v_longitude = 0, v_heading = None,
     v_is_online = True, v_updated_at = 0\<rparr>"

definition demo_request :: ride_request where
  "demo_request = \<lparr>q_id = 1, q_passenger_id = 2, q_origin = ''Pune'', q_destination = ''Goa'', q_origin_latitude = 0,
     q_origin_longitude = 0, q_destination_latitude = 1, q_destination_longitude = 1,
     q_requested_departure_time = 10, q_notes = None, q_status = QOpen, q_matched_driver_id = None,
     q_matched_ride_id = None, q_matched_booking_id = None, q_created_at = 0\<rparr>"

definition dispatch_world :: "ride_request list \<Rightarrow> world" where
  "dispatch_world qs = (let d = (demo_db [] [])\<lparr>availability_t := \<lparr>rows = [demo_presence], next_id = 2\<rparr>,
       ride_requests_t := \<lparr>rows = qs, next_id = int (length qs) + 1\<rparr>\<rparr> in (initial_world 0)\<lparr>db := d, durable := d\<rparr>)"

lemma sound_dispatch: "sound (dispatch_world [])" "sound (dispatch_world [demo_request])"
  by (simp_all add: dispatch_world_def demo demo_presence_def demo_request_def sound_def core_ok_def keys_ok_def
      table_ok_def ride_ok_def)

lemma nothing_expires:
  "run_state (expire_stale_open_requests demo_env n) (dispatch_world [demo_request]) = (Inr 0, dispatch_world [demo_request])"
  "run_state (expire_stale_open_requests demo_env n) (dispatch_world []) = (Inr 0, dispatch_world [])"
  by (simp_all add: expire_stale_open_requests_def dispatch_world_def list_expirable_open_requests_def demo_request_def
      demo order_desc_def)

lemma dan_online:
  "run_state (get_fresh_driver_availability demo_env 1) (dispatch_world qs) = (Inr (Some demo_presence), dispatch_world qs)"
  by (simp add: get_fresh_driver_availability_def dispatch_world_def get_driver_availability_def
      demo_presence_def is_presence_stale_def seconds_def demo)

lemma demo_distance: "distance_to_request demo_presence demo_request = 0"
  by (simp add: distance_to_request_def demo_presence_def demo_request_def)

lemma demo_near: "nearby_requests demo_env demo_presence 5 (db (dispatch_world [demo_request])) = [(demo_request, 0)]"
proof -
  have "round_2 0 = 0" by (simp add: round_2_def round_half_even_def)
  moreover have "q_status demo_request = QOpen" by (simp add: demo_request_def)
  ultimately show ?thesis using demo_distance
    by (simp add: nearby_requests_def dispatch_world_def list_open_requests_def paginate_def order_desc_def
      is_dismissed_def demo)
qed

section \<open>Distances\<close>

text \<open>
  The distance of a position to a ride's route is the distance in the plane of the projection to
  the nearest point of the straight segment between the ride's ends: it is attained at a point of the
  segment, and no point of the segment is nearer, for a route of any length.
\<close>

theorem route_distance_is_least:
  fixes point origin destination
  defines "m \<equiv> route_mean_latitude (fst origin) (fst destination) (fst point)"
  shows "(\<exists>t \<in> {0..1}. distance_to_route_segment_km point origin destination =
      planar_distance (project m point) (along (project m origin) (project m destination) t)) \<and>
    (\<forall>t \<in> {0..1}. distance_to_route_segment_km point origin destination \<le>
      planar_distance (project m point) (along (project m origin) (project m destination) t))"
  using segment_distance_attained [of "project m point" "project m origin" "project m destination"]
    segment_distance_least [where p = "project m point" and q = "project m origin" and r = "project m destination"]
  unfolding distance_to_route_segment_km_def m_def Let_def by auto

text \<open>The route from (0, 0) to (0, 2): the point (0, 1) is on it.\<close>

lemma route_distance_is_least_witness:
  "distance_to_route_segment_km (0, 1) (0, 0) (0, 2) \<le> 0"
proof -
  have "distance_to_route_segment_km (0, 1) (0, 0) (0, 2) \<le>
      planar_distance (project (route_mean_latitude 0 0 0) (0, 1))
        (along (project (route_mean_latitude 0 0 0) (0, 0)) (project (route_mean_latitude 0 0 0) (0, 2)) (1 / 2))"
    using route_distance_is_least [of "(0, 1)" "(0, 0)" "(0, 2)"] by auto
  also have "\<dots> = 0" by (simp add: planar_distance_def along_def project_def)
  finally show ?thesis .
qed

text \<open>
  The great-circle distance does not depend on the direction, is zero from a place to itself, and
  for latitudes a request can have lies between zero and half the earth's circumference: the argument of
  the arcsine is never out of its range, so the computation cannot fail.
\<close>

lemma great_circle_bounds:
  assumes "- 90 \<le> lat1" "lat1 \<le> 90" "- 90 \<le> lat2" "lat2 \<le> 90"
  shows "distance_km lat1 lon1 lat2 lon2 = distance_km lat2 lon2 lat1 lon1 \<and>
    distance_km lat1 lon1 lat1 lon1 = 0 \<and>
    0 \<le> distance_km lat1 lon1 lat2 lon2 \<and> distance_km lat1 lon1 lat2 lon2 \<le> 6371 * pi \<and>
    (sin (radians (lat2 - lat1) / 2))\<^sup>2 + cos (radians lat1) * cos (radians lat2) * (sin (radians (lon2 - lon1) / 2))\<^sup>2
      \<in> {0..1}"
proof -
  have eq: "radians (lat2 - lat1) = radians lat2 - radians lat1" by (simp add: radians_def field_simps)
  show ?thesis
    using distance_km_sym [of lat1 lon1 lat2 lon2] distance_km_bounds [OF assms, of lon1 lon2]
      haversine_bounds [OF cos_radians_nonneg [OF assms(1,2)] cos_radians_nonneg [OF assms(3,4)],
        of "radians (lon2 - lon1) / 2"]
    by (simp add: eq)
qed

section \<open>Nearby requests\<close>

lemma take_sorted_key:
  assumes "x \<in> set (sort_key f xs)" and "x \<notin> set (take n (sort_key f xs))" and "y \<in> set (take n (sort_key f xs))"
  shows "f y \<le> (f x :: real)" and "length (take n (sort_key f xs)) = n"
proof -
  let ?s = "sort_key f xs"
  have "x \<in> set (take n ?s @ drop n ?s)" using assms(1) by simp
  then have x: "x \<in> set (drop n ?s)" using assms(2) by (simp only: set_append Un_iff) blast
  have "sorted (map f (take n ?s @ drop n ?s))" by simp
  then show "f y \<le> f x" using assms(3) x unfolding map_append sorted_append by auto
  show "length (take n ?s) = n" using x by (cases "n \<le> length ?s") auto
qed

lemma length_filter_conj: "length (filter (\<lambda>x. P x \<and> Q x) xs) \<le> length (filter P xs)"
  by (induction xs) auto

text \<open>
  What a driver sees of the open requests: only a verified driver whose presence is fresh sees
  any, each is open, not declined by the driver, within the radius, and shown with its distance to two
  decimals; the list is ordered by distance and not longer than asked. If not more requests are open
  than are looked at, a request within the radius is only missing from a full list that has nearer ones.
\<close>

theorem nearby_requests_are_nearest:
  assumes "run_state (list_nearby_requests e u limit) w = (Inr xs, w')"
  shows "u_role u = Driver \<and> u_driver_verification_status u = VVerified \<and>
    (\<exists>v. get_driver_availability (u_id u) (db w') = Some v \<and> v_is_online v \<and>
      \<not> is_presence_stale e (clock w') (v_updated_at v) \<and>
      (\<forall>(q, dist) \<in> set xs. q \<in> set (rows (ride_requests_t (db w'))) \<and> q_status q = QOpen \<and>
         \<not> is_dismissed (v_driver_id v) (q_id q) (db w') \<and>
         distance_to_request v q \<le> DISPATCH_NEARBY_RADIUS_KM (feat e) \<and> dist = round_2 (distance_to_request v q)) \<and>
      sorted (map snd xs) \<and> int (length xs) \<le> max 0 limit \<and>
      (\<forall>q \<in> set (rows (ride_requests_t (db w'))). q_status q = QOpen \<longrightarrow>
         \<not> is_dismissed (v_driver_id v) (q_id q) (db w') \<longrightarrow>
         distance_to_request v q \<le> DISPATCH_NEARBY_RADIUS_KM (feat e) \<longrightarrow>
         length (filter (\<lambda>q. q_status q = QOpen) (rows (ride_requests_t (db w')))) \<le> nat (limit * 4) \<longrightarrow>
         q \<notin> fst ` set xs \<longrightarrow>
         length xs = nat limit \<and> (\<forall>(q', dist) \<in> set xs. dist \<le> round_2 (distance_to_request v q))))"
proof -
  from assms have u: "u_role u = Driver" "u_driver_verification_status u = VVerified"
    by (auto simp: list_nearby_requests_def ensure_verified_for_dispatch_def run_on_ok split: if_splits)
  with assms obtain v where xs: "xs = nearby_requests e v limit (db w')"
    and v: "get_driver_availability (u_id u) (db w') = Some v" "v_is_online v"
      "\<not> is_presence_stale e (clock w') (v_updated_at v)"
    by (auto simp: list_nearby_requests_def ensure_verified_for_dispatch_def get_fresh_driver_availability_def
        run_on_ok split: if_splits option.splits sum.splits prod.splits)
  let ?near = "\<lambda>q. distance_to_request v q \<le> DISPATCH_NEARBY_RADIUS_KM (feat e)"
  let ?open = "filter (\<lambda>q. q_status q = QOpen \<and> \<not> is_dismissed (v_driver_id v) (q_id q) (db w'))
    (rows (ride_requests_t (db w')))"
  let ?looked = "list_open_requests (Some (v_driver_id v)) (limit * 4) 0 (db w')"
  let ?item = "\<lambda>q. (q, round_2 (distance_to_request v q))"
  have looked: "set ?looked \<subseteq> set ?open"
    using set_paginate_subset by (fastforce simp: list_open_requests_def order_desc_def)
  have xs': "xs = take (nat limit) (sort_key snd (map ?item (filter ?near ?looked)))"
    by (simp add: xs nearby_requests_def)
  have items: "\<forall>(q, dist) \<in> set xs. q \<in> set ?looked \<and> ?near q \<and> dist = round_2 (distance_to_request v q)"
    unfolding xs' by (auto dest!: in_set_takeD)
  have sorted: "sorted (map snd xs)" unfolding xs' take_map [symmetric] by (rule sorted_wrt_take) simp
  have len: "int (length xs) \<le> max 0 limit" unfolding xs' by simp
  have complete: "length xs = nat limit \<and> (\<forall>(q', dist) \<in> set xs. dist \<le> round_2 (distance_to_request v q))"
    if q: "q \<in> set (rows (ride_requests_t (db w')))" "q_status q = QOpen"
      "\<not> is_dismissed (v_driver_id v) (q_id q) (db w')" "?near q"
      and few: "length (filter (\<lambda>q. q_status q = QOpen) (rows (ride_requests_t (db w')))) \<le> nat (limit * 4)"
      and missing: "q \<notin> fst ` set xs" for q
  proof -
    have "length ?open \<le> length (filter (\<lambda>q. q_status q = QOpen) (rows (ride_requests_t (db w'))))"
      by (rule length_filter_conj)
    with few have "set ?looked = set ?open"
      by (simp add: list_open_requests_def paginate_def order_desc_def)
    then have "q \<in> set ?looked" using q by simp
    then have x: "?item q \<in> set (sort_key snd (map ?item (filter ?near ?looked)))" using q(4) by auto
    have out: "?item q \<notin> set xs" using missing by force
    define s where "s = sort_key snd (map ?item (filter ?near ?looked))"
    have xs_s: "xs = take (nat limit) s" by (simp only: xs' s_def)
    have "nat limit < length s"
    proof (rule ccontr)
      assume "\<not> nat limit < length s"
      then have "xs = s" by (simp add: xs_s)
      moreover have "?item q \<in> set s" unfolding s_def by (rule x)
      ultimately show False using out by blast
    qed
    then have full: "length xs = nat limit" by (simp add: xs_s)
    have "snd y \<le> snd (?item q)" if "y \<in> set xs" for y
      by (rule take_sorted_key(1) [OF x out [unfolded xs'] that [unfolded xs']])
    then show ?thesis using full by force
  qed
  have each: "\<forall>(q, dist) \<in> set xs. q \<in> set (rows (ride_requests_t (db w'))) \<and> q_status q = QOpen \<and>
      \<not> is_dismissed (v_driver_id v) (q_id q) (db w') \<and> ?near q \<and> dist = round_2 (distance_to_request v q)"
    using items looked by auto
  show ?thesis
    by (intro conjI exI [of _ v] u v each sorted len ballI impI complete)
qed

section \<open>Acceptance\<close>

lemma keeps_publishing [frame]:
  assumes "\<And>w l. F (w\<lparr>publish_log := l\<rparr>) = F w"
  shows "keeps F (redis_publish e c m)" "keeps F (publish e c m)" "keeps F (publish_driver_event e i m)"
    "keeps F (publish_passenger_event e i m)" "keeps F (publish_nearby_request_removed e q why)"
    "keeps F (publish_nearby_request_created e q)"
  unfolding redis_publish_def publish_def publish_driver_event_def publish_passenger_event_def
    publish_nearby_request_removed_def publish_nearby_request_created_def
  using assms by (auto intro!: frame simp: Let_def split: redis_reply.split)

lemma keeps_dispatch_record [frame]:
  assumes "\<And>w m. F (w\<lparr>counters := m\<rparr>) = F w"
  shows "keeps F (record_dispatch_event a c)"
  unfolding record_dispatch_event_def using assms by (auto intro!: frame)

text \<open>Expiry closes requests and opens none; a driver's position stays.\<close>

definition closes_requests :: "database \<Rightarrow> database \<Rightarrow> bool" where
  "closes_requests d d' \<longleftrightarrow>
     (\<forall>i q. get_request i d' = Some q \<longrightarrow> q_status q = QOpen \<longrightarrow> get_request i d = Some q) \<and>
     rides_t d' = rides_t d \<and> bookings_t d' = bookings_t d \<and> availability_t d' = availability_t d"

interpretation closes_requests: evolution closes_requests
  by unfold_locales (auto simp: closes_requests_def)

lemma closes_expired: "q_status q \<noteq> QOpen \<Longrightarrow> closes_requests d (put_request q d)"
  unfolding closes_requests_def
  unfolding request_store.get_all request_store.all_put find_map_update
  by (auto simp: put_request_def split: if_splits)

lemma writes_expiry: "writes closes_requests (expire_stale_open_requests e n)"
  unfolding expire_stale_open_requests_def expire_request_def request_save_def
  by (auto intro!: writing writes_write closes_expired)

lemma expired_closes:
  assumes "run_state (expire_stale_open_requests e n) w = (r, w')" and "db w = durable w"
  shows "closes_requests (db w) (db w')" and "clock w' = clock w"
proof -
  have "moves closes_requests w w'" by (rule writesD [OF writes_expiry assms(1)])
  from closes_requests.moves_iff_start [OF this] assms(2) show "closes_requests (db w) (db w')"
    using closes_requests.step_refl closes_requests.step_trans by metis
  have "keeps clock (expire_stale_open_requests e n)"
    unfolding expire_stale_open_requests_def expire_request_def request_save_def by (auto intro!: frame simp: Let_def)
  from keepsD [OF this assms(1)] show "clock w' = clock w" .
qed

lemma match_tail:
  assumes "run_state (announce_match e u q k b pr) w = (r, w')"
  shows "durable w' = db w' \<and> rides_t (db w') = rides_t (db w) \<and>
    bookings_t (db w') = bookings_t (db w) \<and> ride_requests_t (db w') = ride_requests_t (db w)"
proof -
  obtain r1 v where audit: "run_state (audit_entity ''ride_request_matched'' (u_id u) ''ride_request'' (q_id q)
      [(''ride_id'', PyInt k), (''booking_id'', PyInt b)] True) w = (r1, v)" by fastforce
  define rest where "rest = do {
     publish_nearby_request_removed e q ''matched'';
     publish_passenger_event e (q_passenger_id q) (PyDict
       [(''event_type'', PyStr ''request_matched''), (''request'', serialize_request q),
        (''ride_id'', PyInt k), (''booking_id'', PyInt b), (''estimated_price_per_seat'', PyDecimal pr)]);
     enqueue_dispatch_notification e (q_passenger_id q) NDispatch_matched ''Driver matched''
       (u_full_name u @ '' accepted your request from '' @ q_origin q @ '' to '' @ q_destination q @ ''.'');
     enqueue_dispatch_notification e (u_id u) NDispatch_matched ''Request accepted''
       (''You matched a request from '' @ q_origin q @ '' to '' @ q_destination q @ ''.'');
     record_dispatch_event ''request_matched'' None
   }"
  have "run_state rest v = (r, w')"
    using assms audit unfolding announce_match_def rest_def [symmetric] by simp
  moreover have "keeps (\<lambda>w. (db w, durable w)) rest" unfolding rest_def by (auto intro!: frame)
  ultimately have "db w' = db v \<and> durable w' = durable v" by (auto dest: keepsD)
  moreover have "ride_requests_t (db v) = ride_requests_t (db w)"
    using audit by (auto simp: audit_request_def audit_create_def Let_def add_audit_def)
  ultimately show ?thesis using run_audit [OF audit] by simp
qed

lemma fresh_availability:
  "run_state (get_fresh_driver_availability e k) w = (Inr (Some v), w') \<Longrightarrow>
     w' = w \<and> get_driver_availability k (db w) = Some v \<and> v_is_online v \<and>
     \<not> is_presence_stale e (clock w) (v_updated_at v)"
  by (auto simp: get_fresh_driver_availability_def run_on_ok split: option.splits if_splits prod.splits sum.splits)

lemma accept_request_ok:
  assumes "run_state (accept_request e i u) w = (Inr a, w')" and "db w = durable w"
  obtains v q ride b where "u_role u = Driver" and "u_driver_verification_status u = VVerified"
    and "get_driver_availability (u_id u) (db w) = Some v" and "v_is_online v"
    and "\<not> is_presence_stale e (clock w) (v_updated_at v)"
    and "get_request i (db w) = Some q" and "q_status q = QOpen"
    and "distance_to_request v q \<le> DISPATCH_NEARBY_RADIUS_KM (feat e)"
    and "ride = (matched_ride u q (estimated_price e (distance_to_request v q)))
        \<lparr>r_id := next_id (rides_t (db w)), r_available_seats := 0, r_created_at := clock w\<rparr>"
    and "b = (new_booking (r_id ride) (q_passenger_id q) (q_notes q))
        \<lparr>b_id := next_id (bookings_t (db w)), b_status := BAccepted, b_created_at := clock w\<rparr>"
    and "ac_request a = q\<lparr>q_status := QMatched, q_matched_driver_id := Some (u_id u),
        q_matched_ride_id := Some (r_id ride), q_matched_booking_id := Some (b_id b)\<rparr>"
    and "a = \<lparr>ac_request = ac_request a, ac_ride_id = r_id ride, ac_booking_id = b_id b,
        ac_estimated_price_per_seat = r_price_per_seat ride\<rparr>"
    and "rides_t (db w') = rides_t (put_ride ride (add_ride (ride\<lparr>r_available_seats := 1\<rparr>) (db w)))"
    and "bookings_t (db w') = bookings_t (add_booking b (db w))"
    and "durable w' = db w'" and "get_request i (db w') = Some (ac_request a)"
proof -
  from assms(1) have u: "u_role u = Driver" "u_driver_verification_status u = VVerified"
    by (auto simp: accept_request_def ensure_verified_for_dispatch_def run_on_ok split: if_splits)
  from assms(1) u obtain n w1 where w1: "run_state (expire_stale_open_requests e 500) w = (Inr n, w1)"
    by (auto simp: accept_request_def ensure_verified_for_dispatch_def run_on_ok split: prod.splits sum.splits)
  from expired_closes [OF w1 assms(2)] have c: "closes_requests (db w) (db w1)" "clock w1 = clock w" .
  from assms(1) u w1 obtain v where v: "get_driver_availability (u_id u) (db w1) = Some v" "v_is_online v"
      "\<not> is_presence_stale e (clock w1) (v_updated_at v)"
      "run_state (get_fresh_driver_availability e (u_id u)) w1 = (Inr (Some v), w1)"
    by (auto simp: accept_request_def ensure_verified_for_dispatch_def run_on_ok split: prod.splits sum.splits option.splits
       dest: fresh_availability)
  from assms(1) u w1 v(4) obtain q where q: "get_request i (db w1) = Some q" "q_status q = QOpen"
      "distance_to_request v q \<le> DISPATCH_NEARBY_RADIUS_KM (feat e)"
    by (auto simp: accept_request_def ensure_verified_for_dispatch_def run_on_ok or_rollback_Inr not_less split: option.splits if_splits)
  define price where "price = estimated_price e (distance_to_request v q)"
  define ride where "ride = (matched_ride u q price)
        \<lparr>r_id := next_id (rides_t (db w1)), r_created_at := clock w1\<rparr>"
  define b where "b = (new_booking (r_id ride) (q_passenger_id q) (q_notes q))
        \<lparr>b_id := next_id (bookings_t (db w1)), b_status := BAccepted, b_created_at := clock w1\<rparr>"
  define q' where "q' = q\<lparr>q_status := QMatched, q_matched_driver_id := Some (u_id u),
        q_matched_ride_id := Some (r_id ride), q_matched_booking_id := Some (b_id b)\<rparr>"
  let ?d = "put_request q' (put_ride (ride\<lparr>r_available_seats := 0\<rparr>) (add_booking b (add_ride ride (db w1))))"
  have
    "a = \<lparr>ac_request = q', ac_ride_id = r_id ride, ac_booking_id = b_id b, ac_estimated_price_per_seat = price\<rparr> \<and>
     durable w' = db w' \<and> rides_t (db w') = rides_t ?d \<and> bookings_t (db w') = bookings_t ?d \<and>
     ride_requests_t (db w') = ride_requests_t ?d"
    using assms(1) u w1 v(4) q
    by (auto simp: accept_request_def ensure_verified_for_dispatch_def run_on_ok or_rollback_Inr not_less Let_def
      ride_create_def booking_create_def flush_def ride_save_def request_save_def
      q'_def ride_def b_def price_def matched_ride_def new_booking_def
      put_ride_def add_booking_def add_ride_def put_request_def
      split: if_splits prod.splits dest!: match_tail)
  moreover have "get_request i ?d = Some q'"
    using request_store.get_put_same [of i "db w1" q q'] request_store.get_key [OF q(1)] q(1)
    by (simp add: q'_def get_request_def put_request_def put_ride_def add_booking_def add_ride_def)
  ultimately have after: "a = \<lparr>ac_request = q', ac_ride_id = r_id ride, ac_booking_id = b_id b, ac_estimated_price_per_seat = price\<rparr>"
    "durable w' = db w'" "rides_t (db w') = rides_t ?d" "bookings_t (db w') = bookings_t ?d"
    "get_request i (db w') = Some q'"
    by (simp_all add: get_request_def)
  have same: "rides_t (db w1) = rides_t (db w)" "bookings_t (db w1) = bookings_t (db w)"
    "get_driver_availability (u_id u) (db w1) = get_driver_availability (u_id u) (db w)" "get_request i (db w) = Some q"
    using c(1) q(1,2) by (auto simp: closes_requests_def get_driver_availability_def)
  show ?thesis
    by (rule that [of v q "ride\<lparr>r_available_seats := 0\<rparr>" b])
      (use u v(1-3) q(2,3) same c(2) after in \<open>simp_all add: ride_def b_def q'_def price_def matched_ride_def
        put_ride_def add_booking_def add_ride_def put_request_def\<close>)
qed


text \<open>
  C20. A request is matched once: the driver who accepts it is verified, online with a fresh position
  within the radius, and the request was open. Afterwards the committed request names the driver, a new
  full ride of the driver at the estimated price, and a new accepted booking of the passenger on it;
  and no acceptance of the request can succeed again.
\<close>

theorem request_matched_once:
  assumes "run_state (accept_request e i u) w = (Inr a, w')" and "sound w"
  shows "u_role u = Driver \<and> u_driver_verification_status u = VVerified \<and>
    (\<exists>v q. get_driver_availability (u_id u) (db w) = Some v \<and> v_is_online v \<and>
       \<not> is_presence_stale e (clock w) (v_updated_at v) \<and>
       get_request i (db w) = Some q \<and> q_status q = QOpen \<and>
       distance_to_request v q \<le> DISPATCH_NEARBY_RADIUS_KM (feat e) \<and>
       ac_estimated_price_per_seat a = estimated_price e (distance_to_request v q) \<and>
       get_request i (durable w') = Some (q\<lparr>q_status := QMatched, q_matched_driver_id := Some (u_id u),
         q_matched_ride_id := Some (ac_ride_id a), q_matched_booking_id := Some (ac_booking_id a)\<rparr>) \<and>
       get_ride (ac_ride_id a) (db w) = None \<and>
       get_ride (ac_ride_id a) (durable w') = Some ((matched_ride u q (ac_estimated_price_per_seat a))
         \<lparr>r_id := ac_ride_id a, r_available_seats := 0, r_created_at := clock w\<rparr>) \<and>
       get_booking (ac_booking_id a) (db w) = None \<and>
       get_booking (ac_booking_id a) (durable w') = Some ((new_booking (ac_ride_id a) (q_passenger_id q) (q_notes q))
         \<lparr>b_id := ac_booking_id a, b_status := BAccepted, b_created_at := clock w\<rparr>)) \<and>
    (\<forall>u' a' w''. run_state (accept_request e i u') w' \<noteq> (Inr a', w''))"
proof -
  have same: "db w = durable w" and k: "table_ok r_id (rides_t (db w))" "table_ok b_id (bookings_t (db w))"
    using assms(2) by (auto simp: sound_def core_ok_def keys_ok_def)
  from accept_request_ok [OF assms(1) same]
  obtain v q ride b where u: "u_role u = Driver" "u_driver_verification_status u = VVerified"
    and v: "get_driver_availability (u_id u) (db w) = Some v" "v_is_online v"
      "\<not> is_presence_stale e (clock w) (v_updated_at v)"
    and q: "get_request i (db w) = Some q" "q_status q = QOpen"
      "distance_to_request v q \<le> DISPATCH_NEARBY_RADIUS_KM (feat e)"
    and ride: "ride = (matched_ride u q (estimated_price e (distance_to_request v q)))
        \<lparr>r_id := next_id (rides_t (db w)), r_available_seats := 0, r_created_at := clock w\<rparr>"
    and b: "b = (new_booking (r_id ride) (q_passenger_id q) (q_notes q))
        \<lparr>b_id := next_id (bookings_t (db w)), b_status := BAccepted, b_created_at := clock w\<rparr>"
    and a: "ac_request a = q\<lparr>q_status := QMatched, q_matched_driver_id := Some (u_id u),
        q_matched_ride_id := Some (r_id ride), q_matched_booking_id := Some (b_id b)\<rparr>"
      "a = \<lparr>ac_request = ac_request a, ac_ride_id = r_id ride, ac_booking_id = b_id b,
        ac_estimated_price_per_seat = r_price_per_seat ride\<rparr>"
    and rides: "rides_t (db w') = rides_t (put_ride ride (add_ride (ride\<lparr>r_available_seats := 1\<rparr>) (db w)))"
    and bookings: "bookings_t (db w') = bookings_t (add_booking b (db w))"
    and d: "durable w' = db w'" and q': "get_request i (db w') = Some (ac_request a)" .
  have fresh: "get_ride (r_id ride) (db w) = None" "get_booking (b_id b) (db w) = None"
    using table_get_fresh [OF k(1)] table_get_fresh [OF k(2)] by (simp_all add: ride b get_ride_def get_booking_def)
  have "get_ride (r_id ride) (add_ride (ride\<lparr>r_available_seats := 1\<rparr>) (db w)) = Some (ride\<lparr>r_available_seats := 1\<rparr>)"
    using ride_store.get_add_new [of "ride\<lparr>r_available_seats := 1\<rparr>" "db w"] fresh by simp
  from ride_store.get_put_same [OF this refl] rides have "get_ride (r_id ride) (db w') = Some ride"
    by (simp add: get_ride_def)
  moreover have "get_booking (b_id b) (db w') = Some b"
    using booking_store.get_add_new [OF fresh(2)] bookings by (simp add: get_booking_def)
  moreover have "ac_ride_id a = r_id ride" "ac_booking_id a = b_id b"
      "ac_estimated_price_per_seat a = estimated_price e (distance_to_request v q)"
    by (subst a(2), simp add: ride matched_ride_def)+
  moreover have "run_state (accept_request e i u') w' \<noteq> (Inr a', w'')" for u' a' w''
  proof
    assume "run_state (accept_request e i u') w' = (Inr a', w'')"
    then show False by (rule accept_request_ok [OF _ d [symmetric]]) (use q' a(1) in auto)
  qed
  ultimately show ?thesis using u v q fresh d q' a(1) ride b by auto
qed

lemma nearby_requests_are_nearest_witness:
  "int (length [(demo_request, 0 :: real)]) \<le> max 0 (5 :: int)"
proof -
  have "run_state (list_nearby_requests demo_env dan 5) (dispatch_world [demo_request]) =
      (Inr [(demo_request, 0)], dispatch_world [demo_request])"
    using nothing_expires(1) dan_online demo_near
    by (simp add: list_nearby_requests_def ensure_verified_for_dispatch_def demo_user_def run_on_ok)
  from nearby_requests_are_nearest [OF this] show ?thesis by blast
qed

lemma demo_get: "get_request 1 (db (dispatch_world [demo_request])) = Some demo_request"
  by (simp add: dispatch_world_def get_request_def table_get_def demo_request_def Let_def)

lemma accept_runs_once:
  "\<exists>a w'. run_state (accept_request demo_env 1 dan) (dispatch_world [demo_request]) = (Inr a, w')"
proof -
  have price: "estimated_price demo_env 0 = 50" by (simp add: estimated_price_def demo)
  have c: "ride_constraints ((matched_ride dan demo_request 50)\<lparr>r_id := k, r_created_at := t\<rparr>)"
    "ride_constraints ((matched_ride dan demo_request 50)\<lparr>r_id := k, r_created_at := t, r_available_seats := 0\<rparr>)" for k t
    by (simp_all add: ride_constraints_def matched_ride_def demo_request_def)
  have b: "booking_constraints (rows (bookings_t (db (dispatch_world [demo_request])))) x" if "0 < b_passenger_id x" for x
    using that by (simp add: dispatch_world_def booking_constraints_def others_def demo_db_def Let_def empty_database_def)
  have s: "q_status demo_request = QOpen" "u_role dan = Driver" "u_driver_verification_status dan = VVerified" "u_id dan = 1"
    by (simp_all add: demo_request_def demo_user_def)
  show ?thesis
    using nothing_expires(1) dan_online demo_distance demo_get price s c b
    by (simp add: accept_request_def ensure_verified_for_dispatch_def run_on_ok Let_def run_or_rollback
      ride_create_def booking_create_def flush_def ride_save_def request_save_def add_ride_def
      default_feature_settings_def demo_env_def demo_request_def new_booking_def split: prod.splits sum.splits)
qed

lemma request_matched_once_witness:
  "\<exists>(a :: acceptance) (w' :: world). get_request 1 (durable w') = Some (demo_request\<lparr>q_status := QMatched, q_matched_driver_id := Some 1,
      q_matched_ride_id := Some (ac_ride_id a), q_matched_booking_id := Some (ac_booking_id a)\<rparr>)"
proof -
  obtain a w' where run: "run_state (accept_request demo_env 1 dan) (dispatch_world [demo_request]) = (Inr a, w')"
    using accept_runs_once by blast
  from request_matched_once [OF run sound_dispatch(2)] demo_get show ?thesis by (auto simp: demo_user_def)
qed

section \<open>One open request\<close>

lemma rows_fold_put:
  assumes "distinct (map key xs)" and "\<And>x. key (g x) = key x"
  shows "rows (fold (\<lambda>x. table_put key (g x)) xs t) =
    map (\<lambda>x. case map_of (map (\<lambda>q. (key q, g q)) xs) (key x) of None \<Rightarrow> x | Some y \<Rightarrow> y) (rows t)"
  using assms
proof (induction xs arbitrary: t)
  case (Cons a xs)
  have "map_of (map (\<lambda>q. (key q, g q)) xs) (key a) = None"
    using Cons.prems(1) by (force simp: map_of_eq_None_iff)
  then show ?case using Cons by (simp add: rows_put)
qed simp

text \<open>Rows of a table, written back changed.\<close>

lemma rows_fold_members:
  assumes "table_ok key t" and "set xs \<subseteq> set (rows t)" and "distinct (map key xs)" and "\<And>x. key (g x) = key x"
  shows "rows (fold (\<lambda>x. table_put key (g x)) xs t) = map (\<lambda>x. if x \<in> set xs then g x else x) (rows t)"
  unfolding rows_fold_put [OF assms(3,4)]
proof (rule map_cong [OF refl])
  fix x
  assume x: "x \<in> set (rows t)"
  have same: "q = x" if "q \<in> set xs" "key q = key x" for q
    using assms(1,2) that x by (auto simp: table_ok_def distinct_map dest: inj_onD)
  show "(case map_of (map (\<lambda>q. (key q, g q)) xs) (key x) of None \<Rightarrow> x | Some y \<Rightarrow> y) = (if x \<in> set xs then g x else x)"
  proof (cases "x \<in> set xs")
    case True
    then have "map_of (map (\<lambda>q. (key q, g q)) xs) (key x) = Some (g x)"
      using assms(3) by (intro map_of_is_SomeI) (auto simp: comp_def)
    with True show ?thesis by simp
  next
    case False
    with same have "map_of (map (\<lambda>q. (key q, g q)) xs) (key x) = None" by (auto simp: map_of_eq_None_iff)
    with False show ?thesis by simp
  qed
qed

lemma run_expire_request:
  "\<exists>w'. run_state (expire_request e q) w = (Inr (), w') \<and> db w' = put_request (q\<lparr>q_status := QExpired\<rparr>) (db w) \<and>
     durable w' = durable w \<and> clock w' = clock w"
proof -
  let ?q = "q\<lparr>q_status := QExpired\<rparr>"
  define rest where "rest = do {
     publish_nearby_request_removed e ?q ''expired'';
     publish_passenger_event e (q_passenger_id ?q)
       (PyDict [(''event_type'', PyStr ''request_expired''), (''request'', serialize_request ?q)]);
     enqueue_dispatch_notification e (q_passenger_id ?q) NDispatch_expired ''Ride request expired''
       (''Your request from '' @ q_origin ?q @ '' to '' @ q_destination ?q @ '' expired before a driver accepted it.'');
     record_dispatch_event ''request_expired'' None
   }"
  have "keeps (\<lambda>w. (db w, durable w, clock w)) rest" unfolding rest_def by (auto intro!: frame)
  then have kept: "db (snd (run_state rest v)) = db v" "durable (snd (run_state rest v)) = durable v"
    "clock (snd (run_state rest v)) = clock v" for v
    by (simp_all add: keeps_def)
  have "run_state (expire_request e q) w = (Inr (), snd (run_state rest (w\<lparr>db := put_request ?q (db w)\<rparr>)))"
    by (simp add: expire_request_def rest_def request_save_def split_beta)
  then show ?thesis using kept by simp
qed

lemma sort_key_empty: "sort_key f xs = [] \<longleftrightarrow> xs = []"
  by (metis length_0_conv length_sort)

text \<open>The table of requests once the overdue ones, at most 500 at a time, are expired.\<close>

definition requests_expired :: "world \<Rightarrow> ride_request list" where
  "requests_expired w = map
     (\<lambda>x. if x \<in> set (list_expirable_open_requests (clock w) 500 (durable w)) then x\<lparr>q_status := QExpired\<rparr> else x)
     (rows (ride_requests_t (durable w)))"

lemma expirable_members:
  assumes "table_ok q_id (ride_requests_t d)"
  shows "set (list_expirable_open_requests t n d) \<subseteq>
      {x \<in> set (rows (ride_requests_t d)). q_status x = QOpen \<and> q_requested_departure_time x < t}"
    and "distinct (map q_id (list_expirable_open_requests t n d))"
    and "length (filter (\<lambda>x. q_status x = QOpen \<and> q_requested_departure_time x < t) (rows (ride_requests_t d))) \<le> nat n \<Longrightarrow>
      set (list_expirable_open_requests t n d) =
        {x \<in> set (rows (ride_requests_t d)). q_status x = QOpen \<and> q_requested_departure_time x < t}"
proof -
  let ?xs = "filter (\<lambda>x. q_status x = QOpen \<and> q_requested_departure_time x < t) (rows (ride_requests_t d))"
  show "set (list_expirable_open_requests t n d) \<subseteq>
      {x \<in> set (rows (ride_requests_t d)). q_status x = QOpen \<and> q_requested_departure_time x < t}"
    unfolding list_expirable_open_requests_def order_desc_def by (auto dest!: in_set_takeD)
  have "distinct (map q_id (rows (ride_requests_t d)))" using assms by (simp add: table_ok_def)
  then have "distinct (map q_id ?xs)" by (rule distinct_map_filter)
  then have "distinct (map q_id (order_desc q_requested_departure_time ?xs))"
    by (simp add: order_desc_def distinct_map)
  then show "distinct (map q_id (list_expirable_open_requests t n d))"
    unfolding list_expirable_open_requests_def take_map [symmetric] by (rule distinct_take)
  show "length ?xs \<le> nat n \<Longrightarrow> set (list_expirable_open_requests t n d) =
        {x \<in> set (rows (ride_requests_t d)). q_status x = QOpen \<and> q_requested_departure_time x < t}"
    by (simp add: list_expirable_open_requests_def order_desc_def)
qed

lemma run_expire_all:
  "\<exists>w'. run_state (for_each_ok (expire_request e) qs) w = (Inr (), w') \<and>
     ride_requests_t (db w') = fold (\<lambda>q. table_put q_id (q\<lparr>q_status := QExpired\<rparr>)) qs (ride_requests_t (db w)) \<and>
     durable w' = durable w \<and> clock w' = clock w"
proof (induction qs arbitrary: w)
  case (Cons q qs)
  obtain v where v: "run_state (expire_request e q) w = (Inr (), v)" "db v = put_request (q\<lparr>q_status := QExpired\<rparr>) (db w)"
    "durable v = durable w" "clock v = clock w"
    using run_expire_request [of e q w] by blast
  from Cons.IH [of v] v show ?case by (auto simp: put_request_def)
qed simp

lemma run_expiry:
  assumes "sound w"
  obtains n v where "run_state (expire_stale_open_requests e 500) w = (Inr n, v)"
    and "rows (ride_requests_t (db v)) = requests_expired w" and "next_id (ride_requests_t (db v)) = next_id (ride_requests_t (db w))"
    and "ride_requests_t (durable v) = ride_requests_t (db v)" and "clock v = clock w"
proof -
  let ?xs = "list_expirable_open_requests (clock w) 500 (db w)"
  have d: "db w = durable w" and ok: "table_ok q_id (ride_requests_t (db w))"
    using assms by (simp_all add: sound_def core_ok_def keys_ok_def)
  show thesis
  proof (cases "?xs = []")
    case True
    then have "run_state (expire_stale_open_requests e 500) w = (Inr 0, w)" by (simp add: expire_stale_open_requests_def)
    then show thesis using True d by (intro that [of 0 w]) (simp_all add: requests_expired_def)
  next
    case False
    obtain v where v: "run_state (for_each_ok (expire_request e) ?xs) w = (Inr (), v)"
      "ride_requests_t (db v) = fold (\<lambda>q. table_put q_id (q\<lparr>q_status := QExpired\<rparr>)) ?xs (ride_requests_t (db w))"
      "clock v = clock w"
      using run_expire_all [of e ?xs w] by blast
    have "keeps (\<lambda>w. (db w, durable w, clock w)) (record_dispatch_event ''cleanup_request_expiry'' c)" for c
      by (auto intro!: frame)
    then have kept: "db (snd (run_state (record_dispatch_event ''cleanup_request_expiry'' c) w)) = db w"
      "durable (snd (run_state (record_dispatch_event ''cleanup_request_expiry'' c) w)) = durable w"
      "clock (snd (run_state (record_dispatch_event ''cleanup_request_expiry'' c) w)) = clock w" for c w
      by (simp_all add: keeps_def)
    have run: "run_state (expire_stale_open_requests e 500) w = (Inr (int (length ?xs)),
        snd (run_state (record_dispatch_event ''cleanup_request_expiry'' (Some (int (length ?xs)))) (v\<lparr>durable := db v\<rparr>)))"
      using False v(1) by (simp add: expire_stale_open_requests_def split_beta Let_def)
    have "rows (ride_requests_t (db v)) = requests_expired w"
      unfolding v(2) requests_expired_def d [symmetric]
      by (rule rows_fold_members [OF ok _ expirable_members(2) [OF ok]]) (use expirable_members(1) [OF ok] in auto)
    moreover have "next_id (fold (\<lambda>q. table_put q_id (q\<lparr>q_status := QExpired\<rparr>)) qs t) = next_id t" for qs t
      by (induction qs arbitrary: t) auto
    ultimately show thesis using v by (intro that [OF run]) (simp_all add: kept)
  qed
qed

lemma created_tail:
  "ride_requests_t (durable (snd (run_state (publish_nearby_request_created e q)
     (snd (run_state (record_dispatch_event ev c) (snd (run_state (audit_entity a i ty k md True) w))))))) =
   ride_requests_t (db w)"
proof -
  have "keeps durable (publish_nearby_request_created e q)" "keeps durable (record_dispatch_event ev c)"
    by (auto intro!: frame)
  then show ?thesis
    by (simp add: keeps_def audit_request_def audit_create_def Let_def add_audit_def split_beta)
qed

lemma open_request_none:
  "open_request_for_passenger i d = None \<longleftrightarrow>
     (\<forall>x \<in> set (rows (ride_requests_t d)). q_passenger_id x = i \<longrightarrow> q_status x \<noteq> QOpen)"
proof -
  let ?xs = "order_desc q_created_at (filter (\<lambda>q. q_passenger_id q = i \<and> q_status q = QOpen) (rows (ride_requests_t d)))"
  have "open_request_for_passenger i d = None \<longleftrightarrow> ?xs = []"
    by (auto simp: open_request_for_passenger_def split: list.split)
  then show ?thesis by (simp add: order_desc_def sort_key_empty filter_empty_conv)
qed

text \<open>What a call asks for, as a row.\<close>

definition asked_request :: "request_fields \<Rightarrow> user \<Rightarrow> world \<Rightarrow> ride_request" where
  "asked_request f u w = \<lparr>q_id = next_id (ride_requests_t (durable w)), q_passenger_id = u_id u, q_origin = qf_origin f,
     q_destination = qf_destination f, q_origin_latitude = qf_origin_latitude f,
     q_origin_longitude = qf_origin_longitude f, q_destination_latitude = qf_destination_latitude f,
     q_destination_longitude = qf_destination_longitude f,
     q_requested_departure_time = qf_requested_departure_time f,
     q_notes = (if qf_notes f = Some [] then None else qf_notes f), q_status = QOpen,
     q_matched_driver_id = None, q_matched_ride_id = None, q_matched_booking_id = None,
     q_created_at = clock w\<rparr>"

lemma create_request_outcome:
  assumes "run_state (create_request e f u) w = (r, w')" and "sound w"
  shows "if u_role u \<noteq> Passenger
    then r = Inl (HTTPException 403 ''Only passenger accounts can request rides'') \<and>
      ride_requests_t (durable w') = ride_requests_t (durable w)
    else if \<forall>x \<in> set (requests_expired w). q_passenger_id x = u_id u \<longrightarrow> q_status x \<noteq> QOpen
    then r = Inr (asked_request f u w) \<and>
      rows (ride_requests_t (durable w')) = requests_expired w @ [asked_request f u w] \<and>
      filter (\<lambda>x. q_passenger_id x = u_id u \<and> q_status x = QOpen) (rows (ride_requests_t (durable w'))) = [asked_request f u w]
    else r = Inl (HTTPException 400 ''Passenger already has an open ride request'') \<and>
      rows (ride_requests_t (durable w')) = requests_expired w"
    (is "if ?role then ?refused else if ?free then ?created else ?taken")
proof -
  have d: "db w = durable w" using assms(2) by (simp add: sound_def)
  obtain n v where v: "run_state (expire_stale_open_requests e 500) w = (Inr n, v)"
    "rows (ride_requests_t (db v)) = requests_expired w" "next_id (ride_requests_t (db v)) = next_id (ride_requests_t (db w))"
    "ride_requests_t (durable v) = ride_requests_t (db v)" "clock v = clock w"
    using run_expiry [OF assms(2)] .
  have free: "open_request_for_passenger (u_id u) (db v) = None \<longleftrightarrow> ?free" by (simp add: open_request_none v(2))
  have trimmed: "(if truthy (qf_notes f) then qf_notes f else None) = (if qf_notes f = Some [] then None else qf_notes f)"
    by (cases "qf_notes f") (simp_all add: truthy_def)
  have ?refused if ?role using assms(1) that by (auto simp: create_request_def)
  moreover have ?taken if "\<not> ?role" "\<not> ?free"
  proof -
    from free that(2) have "open_request_for_passenger (u_id u) (db v) \<noteq> None" by blast
    with assms(1) that(1) v show ?thesis by (auto simp: create_request_def run_or_rollback)
  qed
  moreover have ?created if "\<not> ?role" ?free
  proof -
    from free that(2) have none: "open_request_for_passenger (u_id u) (db v) = None" by blast
    have "(r, w') = run_state (create_request e f u) w" using assms(1) by simp
    then have "r = Inr (asked_request f u w) \<and> ride_requests_t (durable w') = ride_requests_t (add_request (asked_request f u w) (db v))"
      using that(1) v(1,3,5) d none
      by (simp add: create_request_def asked_request_def run_or_rollback request_create_def trimmed split_beta Let_def created_tail)
    moreover have "filter (\<lambda>x. q_passenger_id x = u_id u \<and> q_status x = QOpen) (requests_expired w) = []"
      using that(2) by (simp add: filter_empty_conv)
    ultimately show ?thesis using v(2) by (simp add: add_request_def) (simp add: asked_request_def)
  qed
  ultimately show ?thesis by argo
qed

text \<open>
  C32. A passenger has one open request. Creating one is for passengers (403), and first expires the
  overdue requests of everybody: the open ones whose departure is past, 500 at a time. It is refused
  (400) exactly when the passenger still has an open one, which stays as it is; else one row is added with
  everything asked for, open and unmatched, and it is the passenger's only open request. Nothing else
  changes in the committed requests.
\<close>

theorem one_open_request:
  assumes "run_state (create_request e f u) w = (r, w')" and "sound w"
  shows "(case r of
      Inl x \<Rightarrow> (if u_role u = Passenger
         then x = HTTPException 400 ''Passenger already has an open ride request'' \<and>
           (\<exists>q \<in> set (requests_expired w). q_passenger_id q = u_id u \<and> q_status q = QOpen) \<and>
           rows (ride_requests_t (durable w')) = requests_expired w
         else x = HTTPException 403 ''Only passenger accounts can request rides'' \<and>
           ride_requests_t (durable w') = ride_requests_t (durable w))
    | Inr q \<Rightarrow> u_role u = Passenger \<and>
         (\<forall>x \<in> set (requests_expired w). q_passenger_id x = u_id u \<longrightarrow> q_status x \<noteq> QOpen) \<and>
         q = \<lparr>q_id = next_id (ride_requests_t (durable w)), q_passenger_id = u_id u, q_origin = qf_origin f,
           q_destination = qf_destination f, q_origin_latitude = qf_origin_latitude f,
           q_origin_longitude = qf_origin_longitude f, q_destination_latitude = qf_destination_latitude f,
           q_destination_longitude = qf_destination_longitude f,
           q_requested_departure_time = qf_requested_departure_time f,
           q_notes = (if qf_notes f = Some [] then None else qf_notes f), q_status = QOpen,
           q_matched_driver_id = None, q_matched_ride_id = None, q_matched_booking_id = None,
           q_created_at = clock w\<rparr> \<and>
         rows (ride_requests_t (durable w')) = requests_expired w @ [q] \<and>
         filter (\<lambda>x. q_passenger_id x = u_id u \<and> q_status x = QOpen) (rows (ride_requests_t (durable w'))) = [q]) \<and>
    (length (filter (\<lambda>x. q_status x = QOpen \<and> q_requested_departure_time x < clock w) (rows (ride_requests_t (durable w)))) \<le> 500 \<longrightarrow>
      requests_expired w = map (\<lambda>x. if q_status x = QOpen \<and> q_requested_departure_time x < clock w
        then x\<lparr>q_status := QExpired\<rparr> else x) (rows (ride_requests_t (durable w))))"
proof (rule conjI)
  have "table_ok q_id (ride_requests_t (durable w))" using assms(2) by (simp add: sound_def core_ok_def keys_ok_def)
  from expirable_members(3) [OF this, of "clock w" 500]
  show "length (filter (\<lambda>x. q_status x = QOpen \<and> q_requested_departure_time x < clock w) (rows (ride_requests_t (durable w)))) \<le> 500 \<longrightarrow>
      requests_expired w = map (\<lambda>x. if q_status x = QOpen \<and> q_requested_departure_time x < clock w
        then x\<lparr>q_status := QExpired\<rparr> else x) (rows (ride_requests_t (durable w)))"
    by (auto simp: requests_expired_def)
qed (use create_request_outcome [OF assms] in \<open>cases r; auto simp: asked_request_def split: if_splits\<close>)

lemma one_open_request_witness:
  "\<exists>q (w' :: world). filter (\<lambda>x. q_passenger_id x = 2 \<and> q_status x = QOpen) (rows (ride_requests_t (durable w'))) = [q]"
proof -
  let ?f = "\<lparr>qf_origin = ''Pune'', qf_destination = ''Goa'', qf_origin_latitude = 0, qf_origin_longitude = 0,
    qf_destination_latitude = 1, qf_destination_longitude = 1, qf_requested_departure_time = 10, qf_notes = None\<rparr>"
  have "open_request_for_passenger 2 (db (dispatch_world [])) = None"
    by (simp add: open_request_for_passenger_def dispatch_world_def order_desc_def Let_def)
  then have "\<exists>q w'. run_state (create_request demo_env ?f pat) (dispatch_world []) = (Inr q, w')"
    using nothing_expires(2)
    by (simp add: create_request_def demo_user_def run_on_ok run_or_rollback request_create_def Let_def
      split: prod.splits sum.splits)
  then obtain q w' where "run_state (create_request demo_env ?f pat) (dispatch_world []) = (Inr q, w')" by blast
  from one_open_request [OF this sound_dispatch(1), THEN conjunct1]
  have "filter (\<lambda>x. q_passenger_id x = u_id pat \<and> q_status x = QOpen) (rows (ride_requests_t (durable w'))) = [q]" by simp
  then show ?thesis by (auto simp: demo_user_def)
qed

text \<open>
  The price of a matched ride is the larger of the base fare and distance times rate, rounded to
  the nearest hundredth; it is never negative and grows with the distance.
\<close>

theorem estimated_price_bounds:
  assumes "0 \<le> DISPATCH_BASE_FARE (feat e)" and "0 \<le> DISPATCH_PER_KM_RATE (feat e)" and "0 \<le> x" and "x \<le> y"
  shows "\<bar>real_of_rat (estimated_price e x) - max (DISPATCH_BASE_FARE (feat e)) (x * DISPATCH_PER_KM_RATE (feat e))\<bar> \<le> 1 / 200 \<and>
    estimated_price e x * 100 \<in> \<int> \<and> 0 \<le> estimated_price e x \<and> estimated_price e x \<le> estimated_price e y"
proof -
  let ?fare = "\<lambda>d. max (DISPATCH_BASE_FARE (feat e)) (d * DISPATCH_PER_KM_RATE (feat e))"
  have pos: "0 \<le> ?fare d" for d using assms(1) by simp
  have price: "estimated_price e d = of_int \<lfloor>?fare d * 100 + 1 / 2\<rfloor> / 100" for d
    using pos [of d] unfolding estimated_price_def Let_def by (simp only: not_less [symmetric] if_False)
  have "?fare x \<le> ?fare y" using assms by (intro max.mono mult_right_mono) auto
  then have "\<lfloor>?fare x * 100 + 1 / 2\<rfloor> \<le> \<lfloor>?fare y * 100 + 1 / 2\<rfloor>" by (intro floor_mono) simp
  then have "estimated_price e x \<le> estimated_price e y" unfolding price by (simp add: divide_right_mono)
  moreover have "\<bar>real_of_int \<lfloor>?fare x * 100 + 1 / 2\<rfloor> / 100 - ?fare x\<bar> \<le> 1 / 200"
    by linarith
  then have "\<bar>real_of_rat (estimated_price e x) - ?fare x\<bar> \<le> 1 / 200"
    unfolding price by (simp add: of_rat_divide)
  moreover have "0 \<le> \<lfloor>?fare x * 100 + 1 / 2\<rfloor>" using pos [of x] by simp
  then have "0 \<le> estimated_price e x" unfolding price by simp
  moreover have "estimated_price e x * 100 \<in> \<int>" unfolding price by simp
  ultimately show ?thesis by blast
qed

lemma estimated_price_bounds_witness: "estimated_price demo_env 1 \<le> estimated_price demo_env 2"
  using estimated_price_bounds [of demo_env 1 2] by (simp add: demo_env_def default_feature_settings_def)

end
