(* ===== verification/TrackingFacts.thy ===== *)
theory TrackingFacts
  imports BookingFacts
begin

text \<open>
  What the ride service promises to those who look: who sees the position of a driver and when, what a
  driver may report, and which rides a search finds.
\<close>

section \<open>Reading positions\<close>

lemma route_check:
  "run_state (validate_location_near_route e ride c) w = (Inr z, w') \<Longrightarrow> w' = w \<and>
     (\<forall>olat olon dlat dlon. r_origin_latitude ride = Some olat \<longrightarrow> r_origin_longitude ride = Some olon \<longrightarrow>
         r_destination_latitude ride = Some dlat \<longrightarrow> r_destination_longitude ride = Some dlon \<longrightarrow>
         distance_to_route_segment_km (lc_latitude c, lc_longitude c) (olat, olon) (dlat, dlon)
           \<le> LOCATION_ROUTE_BUFFER_KM (feat e))"
  by (auto simp: validate_location_near_route_def not_less split: option.splits if_splits)

lemma ensure_access_cases:
  "run_state (ensure_location_access e i u) w =
     (case get_ride i (db w) of
        None \<Rightarrow> Inl (HTTPException 404 ''Ride not found'')
      | Some ride \<Rightarrow>
          if u_id u = r_driver_id ride then Inr ride
          else if \<not> has_accepted_booking (u_id u) (r_id ride) (db w)
          then Inl (HTTPException 403 ''Location access denied'')
          else if tracking_window e (r_departure_time ride) (clock w) then Inr ride
          else Inl (HTTPException 403 ''Location tracking is only available near ride time''), w)"
  by (auto simp: ensure_location_access_def split: option.split)

lemma latest_answer: "run_state (ok y) w = (Inr x, w') \<Longrightarrow> x = y \<and> w' = w"
  by simp

lemma ensure_access_ok:
  assumes "run_state (ensure_location_access e i u) w = (Inr ride, w')"
  shows "w' = w" and "get_ride i (db w) = Some ride"
    and "u_id u = r_driver_id ride \<or> has_accepted_booking (u_id u) (r_id ride) (db w) \<and>
      tracking_window e (r_departure_time ride) (clock w)"
  using assms by (auto simp: ensure_location_access_def split: option.splits if_splits)

lemma has_accepted_iff:
  "has_accepted_booking k i d \<longleftrightarrow>
     (\<exists>b \<in> set (rows (bookings_t d)). b_ride_id b = i \<and> b_passenger_id b = k \<and> b_status b = BAccepted)"
  by (auto simp: has_accepted_booking_def bookings_of_ride_def list_ex_iff)

lemma hd_sorted:
  assumes "sort_key f xs = x # ys" and "y \<in> set xs"
  shows "(f x :: 'b :: linorder) \<le> f y"
proof -
  have "sorted (map f (x # ys))" unfolding assms(1) [symmetric] by simp
  moreover have "y \<in> set (x # ys)" unfolding assms(1) [symmetric] using assms(2) by simp
  ultimately show ?thesis by auto
qed

lemma latest_location:
  assumes "get_latest_location i d = Some l"
  shows "l \<in> set (rows (ride_locations_t d))" and "l_ride_id l = i"
    and "\<forall>l' \<in> set (rows (ride_locations_t d)). l_ride_id l' = i \<longrightarrow> l_created_at l' \<le> l_created_at l"
proof -
  obtain ls where l: "newest_locations i d = l # ls"
    using assms by (auto simp: get_latest_location_def split: list.splits)
  have "set (newest_locations i d) = {l \<in> set (rows (ride_locations_t d)). l_ride_id l = i}"
    by (auto simp: newest_locations_def)
  moreover have "l \<in> set (newest_locations i d)" by (simp add: l)
  ultimately show "l \<in> set (rows (ride_locations_t d))" "l_ride_id l = i" by blast+
  show "\<forall>l' \<in> set (rows (ride_locations_t d)). l_ride_id l' = i \<longrightarrow> l_created_at l' \<le> l_created_at l"
    using hd_sorted [OF l [unfolded newest_locations_def order_desc_def [where f = l_created_at]]] by auto
qed

text \<open>
  C29. The position of a driver is only shown to the driver of the ride, and to a passenger with an
  accepted booking on it while it is near ride time; what is shown is the newest position of that ride,
  with its true age.
\<close>

theorem location_private:
  assumes "run_state (latest_location_for e i u) w = (Inr x, w')"
  shows "w' = w \<and> (\<exists>ride. get_ride i (db w) = Some ride \<and>
      (u_id u = r_driver_id ride \<or>
       (\<exists>b \<in> set (rows (bookings_t (db w))). b_ride_id b = i \<and> b_passenger_id b = u_id u \<and> b_status b = BAccepted) \<and>
       r_departure_time ride - minutes (LOCATION_TRACKING_START_BEFORE_MINUTES (feat e)) \<le> clock w \<and>
       clock w \<le> r_departure_time ride + minutes (LOCATION_TRACKING_END_AFTER_MINUTES (feat e)))) \<and>
    lo_location x \<in> set (rows (ride_locations_t (db w))) \<and> l_ride_id (lo_location x) = i \<and>
    (\<forall>l \<in> set (rows (ride_locations_t (db w))). l_ride_id l = i \<longrightarrow> l_created_at l \<le> l_created_at (lo_location x)) \<and>
    lo_age_seconds x = age_seconds (clock w) (l_created_at (lo_location x)) \<and>
    (lo_is_stale x \<longleftrightarrow> LOCATION_STALE_AFTER_SECONDS (feat e) \<le> lo_age_seconds x)"
proof -
  obtain r v where r: "run_state (ensure_location_access e i u) w = (r, v)" by fastforce
  with assms obtain ride where ok: "r = Inr ride"
    by (cases r) (simp_all add: latest_location_for_def)
  note access = ensure_access_ok [OF r [unfolded ok]]
  have "run_state (case get_latest_location i (db w) of
      None \<Rightarrow> raise (HTTPException 404 ''Ride location not found'') | Some l \<Rightarrow> ok (decorate_location e (clock w) l)) w =
    (Inr x, w')"
    using assms r ok access(1) by (simp add: latest_location_for_def)
  then have "\<exists>l. get_latest_location i (db w) = Some l \<and> x = decorate_location e (clock w) l \<and> w' = w"
    by (cases "get_latest_location i (db w)") (simp, simp only: option.case, metis latest_answer)
  then obtain l where l: "get_latest_location i (db w) = Some l" and x: "x = decorate_location e (clock w) l" "w' = w"
    by blast
  have "r_id ride = i" using access(2) by (rule ride_store.get_key)
  then show ?thesis using access(2,3) latest_location [OF l]
    by (simp add: x decorate_location_def Let_def tracking_window_def has_accepted_iff)
qed

text \<open>
  The page that tells whether tracking is possible tells the truth: it answers yes exactly when
  reading positions is allowed, and otherwise gives the very reason for which reading is refused.
\<close>

theorem tracking_answers_agree:
  "(case run_state (get_location_access e i u) w of
      (Inl x, w') \<Rightarrow> w' = w \<and> run_state (ensure_location_access e i u) w = (Inl x, w)
    | (Inr a, w') \<Rightarrow> w' = w \<and> la_ride_id a = i \<and>
        (case la_reason a of
           None \<Rightarrow> la_can_track a \<and> get_ride i (db w) \<noteq> None \<and>
             run_state (ensure_location_access e i u) w = (Inr (the (get_ride i (db w))), w)
         | Some why \<Rightarrow> \<not> la_can_track a \<and>
             run_state (ensure_location_access e i u) w = (Inl (HTTPException 403 why), w)))"
  by (auto simp: ensure_access_cases get_location_access_def tracking_window_def Let_def not_less
      split: option.split dest: ride_store.get_key)

section \<open>Reporting positions\<close>

text \<open>
  A position is only recorded for the driver of a ride that is neither cancelled nor completed, at
  a speed a ride can have and, when the ride has coordinates, within the buffer of its route; exactly
  the reported position is committed, under the driver and at the time of the request.
\<close>

theorem recorded_location_sound:
  assumes "run_state (update_location e i c u) w = (Inr x, w')" and "sound w"
  shows "u_role u = Driver \<and>
    (\<exists>ride. get_ride i (db w) = Some ride \<and> r_driver_id ride = u_id u \<and> r_status ride \<notin> {RCancelled, RCompleted} \<and>
      (\<forall>v. lc_speed_kmph c = Some v \<longrightarrow> v \<le> LOCATION_MAX_REPORTED_SPEED_KMPH (feat e)) \<and>
      (\<forall>olat olon dlat dlon. r_origin_latitude ride = Some olat \<longrightarrow> r_origin_longitude ride = Some olon \<longrightarrow>
         r_destination_latitude ride = Some dlat \<longrightarrow> r_destination_longitude ride = Some dlon \<longrightarrow>
         distance_to_route_segment_km (lc_latitude c, lc_longitude c) (olat, olon) (dlat, dlon)
           \<le> LOCATION_ROUTE_BUFFER_KM (feat e))) \<and>
    l_latitude (lo_location x) = lc_latitude c \<and> l_longitude (lo_location x) = lc_longitude c \<and>
    l_ride_id (lo_location x) = i \<and> l_driver_id (lo_location x) = u_id u \<and> l_created_at (lo_location x) = clock w \<and>
    rows (ride_locations_t (durable w')) = rows (ride_locations_t (db w)) @ [lo_location x] \<and>
    rides_t (durable w') = rides_t (db w)"
proof -
  from assms(1) have u: "u_role u = Driver" by (auto simp: update_location_def split: if_splits)
  from assms(1) obtain ride where ride: "get_ride i (db w) = Some ride" "r_driver_id ride = u_id u"
      "r_status ride \<notin> {RCancelled, RCompleted}"
    and speed: "\<forall>v. lc_speed_kmph c = Some v \<longrightarrow> v \<le> LOCATION_MAX_REPORTED_SPEED_KMPH (feat e)"
    by (auto simp: update_location_def not_less split: option.splits if_splits)
  from assms(1) u ride speed obtain z w1 where route: "run_state (validate_location_near_route e ride c) w = (Inr z, w1)"
    and rest: "run_state (or_rollback (do {
        r \<leftarrow> location_create \<lparr>l_id = 0, l_ride_id = r_id ride, l_driver_id = u_id u, l_latitude = lc_latitude c,
          l_longitude = lc_longitude c, l_heading = lc_heading c, l_speed_kmph = lc_speed_kmph c, l_created_at = 0\<rparr>;
        on_ok r (\<lambda>location. do {
          audit_entity ''ride_location_updated'' (u_id u) ''ride'' (r_id ride)
            [(''latitude'', PyFloat (lc_latitude c)), (''longitude'', PyFloat (lc_longitude c))] True;
          ok (decorate_location e (clock w) location)
        })
      })) w1 = (Inr x, w')"
    by (auto simp: update_location_def run_on_ok split: prod.splits sum.splits if_splits)
  have "r_id ride = i" using ride(1) by (rule ride_store.get_key)
  with rest route_check [OF route] u ride speed show ?thesis
    by (auto simp: run_on_ok or_rollback_Inr location_create_def flush_def Let_def audit_request_def audit_create_def
        add_audit_def add_location_def table_add_def decorate_location_def split: prod.splits sum.splits if_splits)
qed

section \<open>Searching\<close>

text \<open>A ride that a search with the parameters \<open>p\<close> is for.\<close>

definition offered :: "ride_search_params \<Rightarrow> ride \<Rightarrow> bool" where
  "offered p r \<longleftrightarrow> r_status r = RScheduled \<and> r_is_active r \<and> 0 < r_available_seats r \<and>
     where_ilike (sp_origin p) (r_origin r) \<and> where_ilike (sp_destination p) (r_destination r) \<and>
     (case sp_departure_after p of None \<Rightarrow> True | Some t \<Rightarrow> t \<le> r_departure_time r)"

lemma search_rides_offered:
  "search_rides p d = paginate (sp_offset p) (sp_limit p) (order_asc r_departure_time (filter (offered p) (rows (rides_t d))))"
proof -
  have "offered p = (\<lambda>r. r_status r = RScheduled \<and> r_is_active r \<and> 0 < r_available_seats r \<and>
     where_ilike (sp_origin p) (r_origin r) \<and> where_ilike (sp_destination p) (r_destination r) \<and>
     (case sp_departure_after p of None \<Rightarrow> True | Some t \<Rightarrow> t \<le> r_departure_time r))"
    by (rule ext) (simp add: offered_def)
  then show ?thesis by (simp add: search_rides_def search_rides_query_def)
qed

text \<open>
  A search that asks for everything returns exactly the scheduled, active rides with a free seat
  that match its filters, in the order of departure and none twice; and any other page is the part of
  that list between its offset and its limit, so pages side by side neither repeat nor skip a ride.
\<close>

theorem search_pages_of_all:
  fixes p :: ride_search_params
  defines "all \<equiv> \<lambda>d. search_rides (p\<lparr>sp_limit := int (length (rows (rides_t d))), sp_offset := 0\<rparr>) d"
  shows "set (all d) = {r \<in> set (rows (rides_t d)). offered p r} \<and>
    length (all d) = length (filter (offered p) (rows (rides_t d))) \<and>
    sorted (map r_departure_time (all d)) \<and>
    search_rides p d = take (nat (sp_limit p)) (drop (nat (sp_offset p)) (all d))"
proof -
  have same: "offered (p\<lparr>sp_limit := l, sp_offset := k\<rparr>) = offered p" for l k
    by (rule ext) (simp add: offered_def)
  have "length (filter (offered p) (rows (rides_t d))) \<le> length (rows (rides_t d))" by simp
  then have "all d = order_asc r_departure_time (filter (offered p) (rows (rides_t d)))"
    by (simp add: all_def search_rides_offered same paginate_def order_asc_def)
  then show ?thesis by (auto simp: search_rides_offered paginate_def order_asc_def)
qed

lemma search_pages_of_all_witness: "search_rides \<lparr>sp_origin = None, sp_destination = None, sp_departure_after = None,
    sp_limit = 5, sp_offset = 0\<rparr> (demo_db [] []) = [demo_ride]"
  using search_pages_of_all [where p = "\<lparr>sp_origin = None, sp_destination = None, sp_departure_after = None,
    sp_limit = 5, sp_offset = 0\<rparr>" and d = "demo_db [] []"]
  by (simp add: search_rides_offered offered_def paginate_def order_asc_def where_ilike_def demo)

section \<open>Witnesses\<close>

text \<open>Dan is at the origin of the plane and has reported it; Pia has a seat on his ride.\<close>

definition demo_location :: ride_location where
  "demo_location = \<lparr>l_id = 1, l_ride_id = 1, l_driver_id = 1, l_latitude = 0, l_longitude = 0, l_heading = None,
     l_speed_kmph = None, l_created_at = 0\<rparr>"

definition tracked_world :: world where
  "tracked_world = deal_world\<lparr>db := (db deal_world)\<lparr>ride_locations_t := \<lparr>rows = [demo_location], next_id = 2\<rparr>\<rparr>\<rparr>"

lemma location_private_witness:
  "\<exists>x :: located. lo_location x = demo_location \<and> \<not> lo_is_stale x \<and> lo_age_seconds x = age_seconds 0 0"
proof -
  have "\<exists>x. run_state (latest_location_for demo_env 1 pia) tracked_world = (Inr x, tracked_world) \<and>
      lo_location x = demo_location \<and> \<not> lo_is_stale x"
    by (simp add: latest_location_for_def ensure_location_access_def has_accepted_booking_def bookings_of_ride_def
        tracked_world_def demo_location_def demo tracking_window_def minutes_def seconds_def get_latest_location_def
        newest_locations_def order_desc_def decorate_location_def age_seconds_def)
  then obtain x where "run_state (latest_location_for demo_env 1 pia) tracked_world = (Inr x, tracked_world)"
    and x: "lo_location x = demo_location" "\<not> lo_is_stale x" by blast
  from location_private [OF this(1)] have "lo_age_seconds x = age_seconds (clock tracked_world) (l_created_at (lo_location x))"
    by blast
  with x show ?thesis by (auto simp: tracked_world_def demo demo_location_def)
qed

lemma recorded_location_sound_witness:
  "\<exists>(x :: located) (w' :: world). rows (ride_locations_t (durable w')) = [lo_location x] \<and> l_latitude (lo_location x) = 3"
proof -
  let ?c = "\<lparr>lc_latitude = 3, lc_longitude = 4, lc_heading = None, lc_speed_kmph = Some 50\<rparr>"
  have "\<exists>x w'. run_state (update_location demo_env 1 ?c dan) deal_world = (Inr x, w')"
    by (simp add: update_location_def validate_location_near_route_def location_create_def location_constraints_def demo)
  then obtain x w' where "run_state (update_location demo_env 1 ?c dan) deal_world = (Inr x, w')" by blast
  from recorded_location_sound [OF this sound_deal]
  have "rows (ride_locations_t (durable w')) = rows (ride_locations_t (db deal_world)) @ [lo_location x] \<and>
      l_latitude (lo_location x) = 3" by simp
  then show ?thesis by (auto simp: demo)
qed

lemma tracking_answers_agree_witness:
  "\<exists>a. run_state (get_location_access demo_env 1 pat) deal_world = (Inr a, deal_world) \<and> \<not> la_can_track a \<and>
     run_state (ensure_location_access demo_env 1 pat) deal_world = (Inl (HTTPException 403 ''Location access denied''), deal_world)"
  using tracking_answers_agree [where e = demo_env and i = 1 and u = pat and w = deal_world]
  by (simp add: get_location_access_def has_accepted_booking_def bookings_of_ride_def demo)

end
