(* ===== verification/TokenRegistry.thy ===== *)
theory TokenRegistry
  imports TokenStore
begin

text \<open>
  What the token store promises, apart from its dictionaries: at any instant it stands for a registry, a
  map of the revoked token ids to the end of their revocation and a map of the live sessions. The locale
  \<open>session_registry\<close> states how each operation of a store acts on the registry; \<open>TokenStore\<close>, with its
  index of the sessions by user and its pruning, is shown to be one.
\<close>

section \<open>Registries\<close>

type_synonym registry = "(string \<Rightarrow> instant option) \<times> (string \<Rightarrow> session_record option)"

text \<open>What is left of a registry at an instant.\<close>

definition unexpired :: "instant \<Rightarrow> ('r \<Rightarrow> instant) \<Rightarrow> ('k \<Rightarrow> 'r option) \<Rightarrow> 'k \<Rightarrow> 'r option" where
  "unexpired now f m j = (case m j of None \<Rightarrow> None | Some x \<Rightarrow> if now < f x then Some x else None)"

definition living :: "instant \<Rightarrow> registry \<Rightarrow> registry" where
  "living now r = (unexpired now id (fst r), unexpired now s_expires_at (snd r))"

definition revoked_in :: "string \<Rightarrow> instant \<Rightarrow> registry \<Rightarrow> registry" where
  "revoked_in j t r = ((fst r)(j \<mapsto> t), snd r)"

definition opened_in :: "session_record \<Rightarrow> registry \<Rightarrow> registry" where
  "opened_in s r = (fst r, (snd r)(s_jti s \<mapsto> s))"

text \<open>The sessions for which \<open>P\<close> holds end, and their ids are revoked for as long as they would have run.\<close>

definition ended_in :: "(session_record \<Rightarrow> bool) \<Rightarrow> registry \<Rightarrow> registry" where
  "ended_in P r =
     (\<lambda>j. case snd r j of None \<Rightarrow> fst r j | Some s \<Rightarrow> if P s then Some (s_expires_at s) else fst r j,
      \<lambda>j. case snd r j of None \<Rightarrow> None | Some s \<Rightarrow> if P s then None else Some s)"

lemma live_later: "now \<le> t \<Longrightarrow> living t (living now r) = living t r"
  by (auto simp: living_def unexpired_def fun_eq_iff split: option.splits)

lemma live_eq_later: "living now r = living now r' \<Longrightarrow> now \<le> t \<Longrightarrow> living t r = living t r'"
  by (metis live_later)

locale session_registry =
  fixes inv :: "'s \<Rightarrow> bool"
    and registry :: "'s \<Rightarrow> registry"
    and fits :: "session_record \<Rightarrow> 's \<Rightarrow> bool"
    and revoke :: "instant \<Rightarrow> string \<Rightarrow> instant \<Rightarrow> 's \<Rightarrow> 's"
    and open_session :: "instant \<Rightarrow> session_record \<Rightarrow> 's \<Rightarrow> 's"
    and end_session :: "instant \<Rightarrow> string \<Rightarrow> 's \<Rightarrow> 's"
    and end_all :: "instant \<Rightarrow> int \<Rightarrow> 's \<Rightarrow> 's"
    and end_others :: "instant \<Rightarrow> int \<Rightarrow> string option \<Rightarrow> 's \<Rightarrow> 's"
  assumes registry_key: "inv s \<Longrightarrow> snd (registry s) j = Some x \<Longrightarrow> s_jti x = j"
    and revoke_law: "inv s \<Longrightarrow>
      living now (registry (revoke now j t s)) = living now (revoked_in j t (registry s))"
    and revoke_inv: "inv s \<Longrightarrow> (\<And>x. snd (registry s) j = Some x \<Longrightarrow> t \<le> s_expires_at x) \<Longrightarrow>
      inv (revoke now j t s)"
    and open_law: "inv s \<Longrightarrow>
      living now (registry (open_session now x s)) = living now (opened_in x (registry s))"
    and open_inv: "inv s \<Longrightarrow> fits x s \<Longrightarrow> inv (open_session now x s)"
    and end_law: "inv s \<Longrightarrow> inv (end_session now j s) \<and>
      living now (registry (end_session now j s)) = living now (ended_in (\<lambda>x. s_jti x = j) (registry s))"
    and end_all_law: "inv s \<Longrightarrow> inv (end_all now u s) \<and>
      living now (registry (end_all now u s)) = living now (ended_in (\<lambda>x. s_user_id x = u) (registry s))"
    and end_others_law: "inv s \<Longrightarrow> living now (registry (end_others now u keep s)) =
        living now (ended_in (\<lambda>x. s_user_id x = u \<and> Some (s_jti x) \<noteq> keep) (registry s))"
    and end_others_inv: "inv s \<Longrightarrow> (\<And>k x. keep = Some k \<Longrightarrow> snd (registry s) k = Some x \<Longrightarrow> s_user_id x = u) \<Longrightarrow>
      inv (end_others now u keep s)"
begin

definition revoked_at :: "instant \<Rightarrow> string \<Rightarrow> 's \<Rightarrow> bool" where
  "revoked_at t j s \<longleftrightarrow> fst (living t (registry s)) j \<noteq> None"

definition session_at :: "instant \<Rightarrow> string \<Rightarrow> 's \<Rightarrow> session_record option" where
  "session_at t j s = snd (living t (registry s)) j"

text \<open>Ending all sessions of a user: none is left, their ids are revoked until they would have expired.\<close>

lemma ended:
  assumes "inv s" and "now \<le> t"
  shows "session_at t j (end_all now u s) = Some x \<Longrightarrow> s_user_id x \<noteq> u"
    and "snd (registry s) j = Some x \<Longrightarrow> s_user_id x = u \<Longrightarrow> revoked_at t j (end_all now u s) \<longleftrightarrow> t < s_expires_at x"
    and "snd (registry s) j = None \<Longrightarrow> revoked_at t j (end_all now u s) = revoked_at t j s"
proof -
  have "living t (registry (end_all now u s)) = living t (ended_in (\<lambda>x. s_user_id x = u) (registry s))"
    using end_all_law [OF assms(1), of now u] assms(2) by (blast intro: live_eq_later)
  then have after: "session_at t j (end_all now u s) = snd (living t (ended_in (\<lambda>x. s_user_id x = u) (registry s))) j"
    "revoked_at t j (end_all now u s) \<longleftrightarrow> fst (living t (ended_in (\<lambda>x. s_user_id x = u) (registry s))) j \<noteq> None"
    by (simp_all add: session_at_def revoked_at_def)
  show "session_at t j (end_all now u s) = Some x \<Longrightarrow> s_user_id x \<noteq> u"
    and "snd (registry s) j = Some x \<Longrightarrow> s_user_id x = u \<Longrightarrow> revoked_at t j (end_all now u s) \<longleftrightarrow> t < s_expires_at x"
    unfolding after by (auto simp: living_def unexpired_def ended_in_def split: option.splits if_splits)
  show "snd (registry s) j = None \<Longrightarrow> revoked_at t j (end_all now u s) = revoked_at t j s"
    unfolding after by (simp add: revoked_at_def living_def unexpired_def ended_in_def)
qed

text \<open>Revoking the id of no session leaves every other id and all sessions as they are.\<close>

lemma revoked_other:
  assumes "inv s" and "snd (registry s) j = None" and "now \<le> later"
  shows "inv (revoke now j t s)" and "snd (living later (registry (revoke now j t s))) = snd (living later (registry s))"
    and "k \<noteq> j \<Longrightarrow> revoked_at later k (revoke now j t s) = revoked_at later k s"
proof -
  show "inv (revoke now j t s)" using assms by (intro revoke_inv) auto
  have "living later (registry (revoke now j t s)) = living later (revoked_in j t (registry s))"
    using revoke_law [OF assms(1)] assms(3) by (blast intro: live_eq_later)
  then show "snd (living later (registry (revoke now j t s))) = snd (living later (registry s))"
    and "k \<noteq> j \<Longrightarrow> revoked_at later k (revoke now j t s) = revoked_at later k s"
    by (auto simp: revoked_at_def living_def unexpired_def revoked_in_def)
qed

end

section \<open>The store is a registry\<close>

definition registry_of :: "token_store \<Rightarrow> registry" where
  "registry_of ts = (map_of (ts_tokens ts), map_of (ts_sessions ts))"

text \<open>
  The dictionaries have no key twice; sessions are stored under their id and found in the index of their
  user, and the index leads to no other user's session; a session's id is not revoked beyond its end.
\<close>

definition store_ok :: "token_store \<Rightarrow> bool" where
  "store_ok ts \<longleftrightarrow> distinct (map fst (ts_tokens ts)) \<and> distinct (map fst (ts_sessions ts)) \<and>
     (\<forall>j s. map_of (ts_sessions ts) j = Some s \<longrightarrow> s_jti s = j \<and>
        (\<forall>u. j \<in> set (user_session_ids u ts) \<longleftrightarrow> u = s_user_id s) \<and>
        (\<forall>t. map_of (ts_tokens ts) j = Some t \<longrightarrow> t \<le> s_expires_at s))"

text \<open>What the registry needs: a dictionary has no key twice.\<close>

definition store_keys :: "token_store \<Rightarrow> bool" where
  "store_keys ts \<longleftrightarrow> distinct (map fst (ts_tokens ts)) \<and> distinct (map fst (ts_sessions ts))"

lemma store_ok_keys: "store_ok ts \<Longrightarrow> store_keys ts"
  by (simp add: store_ok_def store_keys_def)

lemma ids_pop: "user_session_ids u (pop_user_session u' j ts) =
    (if u = u' then filter (\<lambda>x. x \<noteq> j) (user_session_ids u ts) else user_session_ids u ts)"
  by (auto simp: pop_user_session_def user_session_ids_def Let_def delete_conv update_conv split: option.splits)

lemma ids_same: "ts_user_sessions ts' = ts_user_sessions ts \<Longrightarrow> user_session_ids u ts' = user_session_ids u ts"
  by (simp add: user_session_ids_def)

lemma sessions_prune_fold:
  "map_of (ts_sessions (fold (prune_session now) xs ts)) j =
     (if \<exists>s. (j, s) \<in> set xs \<and> s_expires_at s \<le> now then None else map_of (ts_sessions ts) j)"
  by (induction xs arbitrary: ts) (auto simp: prune_session_def delete_conv)

lemma sessions_prune_distinct: "distinct (map fst (ts_sessions ts)) \<Longrightarrow>
    distinct (map fst (ts_sessions (fold (prune_session now) xs ts)))"
  by (induction xs arbitrary: ts) (auto simp: prune_session_def distinct_delete)

lemma ids_prune_fold:
  "set (user_session_ids u (fold (prune_session now) xs ts)) =
     set (user_session_ids u ts) - {j. \<exists>s. (j, s) \<in> set xs \<and> s_expires_at s \<le> now \<and> s_user_id s = u}"
proof (induction xs arbitrary: ts)
  case (Cons x xs)
  have "set (user_session_ids u (prune_session now x ts)) =
      set (user_session_ids u ts) - {j. j = fst x \<and> s_expires_at (snd x) \<le> now \<and> s_user_id (snd x) = u}"
    by (auto simp: prune_session_def ids_pop ids_same [of "ts\<lparr>ts_sessions := y\<rparr>" ts for y])
  with Cons show ?case by (cases x) auto
qed simp

lemma sessions_prune:
  "distinct (map fst (ts_sessions ts)) \<Longrightarrow> map_of (ts_sessions (prune_expired now ts)) j =
     (case map_of (ts_sessions ts) j of None \<Rightarrow> None | Some s \<Rightarrow> if now < s_expires_at s then Some s else None)"
  unfolding prune_expired_def sessions_prune_fold
  by (auto simp: not_less split: option.splits dest: map_of_SomeD) (metis eq_key_imp_eq_value linorder_not_le)

lemma live_prune:
  assumes "store_keys ts"
  shows "registry_of (prune_expired now ts) = living now (registry_of ts)"
  using assms
  by (auto simp: registry_of_def living_def fun_eq_iff unexpired_def id_def store_keys_def sessions_prune map_of_filter_live)

lemma keys_prune: "store_keys ts \<Longrightarrow> store_keys (prune_expired now ts)"
  unfolding store_keys_def ts_tokens_prune
  by (auto simp: prune_expired_def distinct_map_filter intro!: sessions_prune_distinct)

lemma store_ok_prune:
  assumes ok: "store_ok ts"
  shows "store_ok (prune_expired now ts)"
  unfolding store_ok_def
proof (intro conjI allI impI)
  have d: "distinct (map fst (ts_sessions ts))" "distinct (map fst (ts_tokens ts))" using ok by (simp_all add: store_ok_def)
  show "distinct (map fst (ts_tokens (prune_expired now ts)))" using d(2) by (simp add: distinct_map_filter)
  show "distinct (map fst (ts_sessions (prune_expired now ts)))"
    unfolding prune_expired_def by (rule sessions_prune_distinct) (simp add: d)
  fix j s
  assume "map_of (ts_sessions (prune_expired now ts)) j = Some s"
  then have s: "map_of (ts_sessions ts) j = Some s" "now < s_expires_at s"
    by (auto simp: sessions_prune [OF d(1)] split: option.splits if_splits)
  with ok show "s_jti s = j" unfolding store_ok_def by blast
  show "j \<in> set (user_session_ids u (prune_expired now ts)) \<longleftrightarrow> u = s_user_id s" for u
  proof -
    have only: "\<not> s_expires_at s' \<le> now" if "(j, s') \<in> set (ts_sessions ts)" for s'
      using eq_key_imp_eq_value [OF d(1) that map_of_SomeD [OF s(1)]] s(2) by simp
    have "j \<in> set (user_session_ids u ts) \<longleftrightarrow> u = s_user_id s"
      using ok s(1) unfolding store_ok_def by blast
    moreover have "user_session_ids u (ts\<lparr>ts_tokens := x\<rparr>) = user_session_ids u ts" for x by (rule ids_same) simp
    ultimately show ?thesis
      using only unfolding prune_expired_def ids_prune_fold by simp blast
  qed
  show "t \<le> s_expires_at s" if "map_of (ts_tokens (prune_expired now ts)) j = Some t" for t
    using ok s that d(2) by (auto simp: store_ok_def map_of_filter_live split: option.splits if_splits)
qed

lemma unexpired_twice [simp]: "unexpired now f (unexpired now f m) = unexpired now f m"
  by (auto simp: unexpired_def fun_eq_iff split: option.split)

lemma live_live [simp]: "living now (living now r) = living now r"
  by (simp add: living_def)

lemma unexpired_add_cong:
  assumes "unexpired now f m = unexpired now f m'"
  shows "unexpired now f (m ++ a) = unexpired now f (m' ++ a)"
proof
  fix j
  have "unexpired now f m j = unexpired now f m' j" using assms by simp
  then show "unexpired now f (m ++ a) j = unexpired now f (m' ++ a) j"
    by (cases "a j") (simp_all add: unexpired_def map_add_def)
qed

lemma live_store: "store_keys ts \<Longrightarrow> living now (registry_of (prune_expired now ts)) = living now (registry_of ts)"
  by (simp add: live_prune)

lemma store_okD:
  assumes "store_ok ts"
  shows "distinct (map fst (ts_tokens ts))" and "distinct (map fst (ts_sessions ts))"
    and "map_of (ts_sessions ts) j = Some s \<Longrightarrow> s_jti s = j"
    and "map_of (ts_sessions ts) j = Some s \<Longrightarrow> j \<in> set (user_session_ids u ts) \<longleftrightarrow> u = s_user_id s"
    and "map_of (ts_sessions ts) j = Some s \<Longrightarrow> map_of (ts_tokens ts) j = Some t \<Longrightarrow> t \<le> s_expires_at s"
  using assms unfolding store_ok_def by blast+

lemma revoke_token_law:
  assumes ok: "store_keys ts"
  shows "store_keys (revoke_token now j t ts)"
    and "living now (registry_of (revoke_token now j t ts)) = living now (revoked_in j t (registry_of ts))"
proof -
  let ?ts = "ts\<lparr>ts_tokens := AList.update j t (ts_tokens ts)\<rparr>"
  have "store_keys ?ts" using ok by (simp add: store_keys_def distinct_update)
  moreover have "registry_of ?ts = revoked_in j t (registry_of ts)"
    by (simp add: registry_of_def revoked_in_def update_conv')
  ultimately show "store_keys (revoke_token now j t ts)"
    and "living now (registry_of (revoke_token now j t ts)) = living now (revoked_in j t (registry_of ts))"
    unfolding revoke_token_def by (simp_all add: keys_prune live_store)
qed

lemma revoke_token_ok:
  assumes ok: "store_ok ts" and t: "\<And>x. map_of (ts_sessions ts) j = Some x \<Longrightarrow> t \<le> s_expires_at x"
  shows "store_ok (revoke_token now j t ts)"
proof -
  let ?ts = "ts\<lparr>ts_tokens := AList.update j t (ts_tokens ts)\<rparr>"
  have "user_session_ids u ?ts = user_session_ids u ts" for u by (rule ids_same) simp
  then have "store_ok ?ts"
    using store_okD [OF ok] t unfolding store_ok_def by (auto simp: distinct_update update_conv split: if_splits)
  then show ?thesis unfolding revoke_token_def by (rule store_ok_prune)
qed

text \<open>
  A session that fits the store: its id is in the index of no other user, and is not revoked beyond the
  session's end. A new id, as every token gets one, is such, and so is the id of a session of the same
  user that is registered again.
\<close>

definition fits_session :: "session_record \<Rightarrow> token_store \<Rightarrow> bool" where
  "fits_session s ts \<longleftrightarrow> (\<forall>u. s_jti s \<in> set (user_session_ids u ts) \<longrightarrow> u = s_user_id s) \<and>
     (\<forall>t. map_of (ts_tokens ts) (s_jti s) = Some t \<longrightarrow> t \<le> s_expires_at s)"

lemma register_law:
  assumes ok: "store_ok ts"
  shows "living now (registry_of (register_session now s ts)) = living now (opened_in s (registry_of ts))"
    and "fits_session s ts \<Longrightarrow> store_ok (register_session now s ts)"
proof -
  let ?js = "user_session_ids (s_user_id s) ts"
  let ?js' = "if s_jti s \<in> set ?js then ?js else ?js @ [s_jti s]"
  let ?ts = "ts\<lparr>ts_sessions := AList.update (s_jti s) s (ts_sessions ts),
    ts_user_sessions := AList.update (s_user_id s) ?js' (ts_user_sessions ts)\<rparr>"
  have reg: "register_session now s ts = prune_expired now ?ts"
    unfolding register_session_def user_session_ids_def Let_def by (rule refl)
  have "store_keys ?ts" using store_ok_keys [OF ok] by (simp add: store_keys_def distinct_update)
  moreover have "registry_of ?ts = opened_in s (registry_of ts)"
    by (simp add: registry_of_def opened_in_def update_conv')
  ultimately show "living now (registry_of (register_session now s ts)) = living now (opened_in s (registry_of ts))"
    unfolding reg by (simp add: live_store)
  assume fits: "fits_session s ts"
  have "user_session_ids u ?ts = (if u = s_user_id s then ?js' else user_session_ids u ts)" for u
    by (simp add: user_session_ids_def update_conv)
  moreover have "x \<in> set ?js' \<longleftrightarrow> x = s_jti s \<or> x \<in> set ?js" for x by auto
  ultimately have ids: "x \<in> set (user_session_ids u ?ts) \<longleftrightarrow>
      u = s_user_id s \<and> x = s_jti s \<or> x \<in> set (user_session_ids u ts)" for x u by auto
  have one: "x \<in> set (user_session_ids u ?ts) \<longleftrightarrow> u = s_user_id s'"
    if "map_of (ts_sessions ?ts) x = Some s'" for x u s'
  proof (cases "x = s_jti s")
    case True
    then show ?thesis using that fits unfolding ids fits_session_def by (auto simp: update_conv)
  next
    case False
    then show ?thesis using that store_okD(4) [OF ok, of x s' u] unfolding ids by (simp add: update_conv)
  qed
  have two: "s_jti s' = x \<and> (\<forall>t. map_of (ts_tokens ?ts) x = Some t \<longrightarrow> t \<le> s_expires_at s')"
    if "map_of (ts_sessions ?ts) x = Some s'" for x s'
    using that fits store_okD(3,5) [OF ok, of x s'] unfolding fits_session_def
    by (cases "x = s_jti s") (auto simp: update_conv)
  have "distinct (map fst (ts_tokens ?ts))" "distinct (map fst (ts_sessions ?ts))"
    using store_okD(1,2) [OF ok] by (simp_all add: distinct_update)
  then have "store_ok ?ts" unfolding store_ok_def using one two by blast
  then show "store_ok (register_session now s ts)" unfolding reg by (rule store_ok_prune)
qed

lemma end_session_law:
  assumes ok: "store_ok ts"
  shows "store_ok (revoke_session_record now j ts)"
    and "living now (registry_of (revoke_session_record now j ts)) = living now (ended_in (\<lambda>x. s_jti x = j) (registry_of ts))"
proof -
  have P: "(case map_of (ts_sessions ts) k of None \<Rightarrow> a | Some s \<Rightarrow> if s_jti s = j then f s else g s) =
      (case map_of (ts_sessions ts) k of None \<Rightarrow> a | Some s \<Rightarrow> if k = j then f s else g s)"
    for k f g and a :: 'b
    using store_okD(3) [OF ok, of k] by (auto split: option.split)
  have "store_ok (revoke_session_record now j ts) \<and>
    living now (registry_of (revoke_session_record now j ts)) = living now (ended_in (\<lambda>x. s_jti x = j) (registry_of ts))"
  proof (cases "map_of (ts_sessions ts) j")
    case None
    then have "ended_in (\<lambda>x. s_jti x = j) (registry_of ts) = registry_of ts"
      unfolding ended_in_def registry_of_def fst_conv snd_conv P by (auto simp: fun_eq_iff split: option.split)
    with None ok show ?thesis by (simp add: revoke_session_record_def)
  next
    case (Some s)
    let ?ts = "pop_user_session (s_user_id s) j (ts\<lparr>ts_sessions := AList.delete j (ts_sessions ts)\<rparr>)"
    have "user_session_ids u (ts\<lparr>ts_sessions := x\<rparr>) = user_session_ids u ts" for u x by (rule ids_same) simp
    then have "store_ok ?ts"
      using store_okD [OF ok] unfolding store_ok_def by (auto simp: ids_pop delete_conv distinct_delete split: if_splits)
    moreover have "revoked_in j (s_expires_at s) (registry_of ?ts) = ended_in (\<lambda>x. s_jti x = j) (registry_of ts)"
      unfolding ended_in_def registry_of_def fst_conv snd_conv P
      using Some by (auto simp: revoked_in_def delete_conv fun_eq_iff split: option.split)
    ultimately show ?thesis
      using revoke_token_law(2) [OF store_ok_keys, of ?ts now j "s_expires_at s"] revoke_token_ok [of ?ts j "s_expires_at s" now] Some
      by (simp add: revoke_session_record_def delete_conv)
  qed
  then show "store_ok (revoke_session_record now j ts)"
    and "living now (registry_of (revoke_session_record now j ts)) = living now (ended_in (\<lambda>x. s_jti x = j) (registry_of ts))"
    by blast+
qed

text \<open>Revoking many ids one by one; the store stays consistent when none is of a stored session.\<close>

lemma revoke_many:
  assumes "store_keys ts"
  shows "store_keys (fold (\<lambda>(j, t). revoke_token now j t) xs ts) \<and>
    living now (registry_of (fold (\<lambda>(j, t). revoke_token now j t) xs ts)) =
      living now (fst (registry_of ts) ++ map_of (rev xs), snd (registry_of ts))"
  using assms
proof (induction xs arbitrary: ts)
  case (Cons x xs)
  obtain j t where x: "x = (j, t)" by (cases x)
  note law = revoke_token_law [OF Cons.prems, of now j t]
  have "living now (fst r ++ m, snd r) = living now (fst r' ++ m, snd r')" if "living now r = living now r'" for r r' m
    using that unexpired_add_cong [of now id "fst r" "fst r'" m] by (simp add: living_def)
  from this [OF law(2)] Cons.IH [OF law(1)] show ?case
    by (simp add: x revoked_in_def map_add_assoc)
qed simp

lemma revoke_many_ok:
  assumes "store_ok ts" and "\<forall>(j, t) \<in> set xs. map_of (ts_sessions ts) j = None"
  shows "store_ok (fold (\<lambda>(j, t). revoke_token now j t) xs ts)"
  using assms
proof (induction xs arbitrary: ts)
  case (Cons x xs)
  obtain j t where x: "x = (j, t)" by (cases x)
  have none: "map_of (ts_sessions ts) j = None" using Cons.prems(2) x by simp
  have "map_of (ts_sessions (revoke_token now j t ts)) k = None" if "map_of (ts_sessions ts) k = None" for k
    using that store_okD(2) [OF Cons.prems(1)] by (simp add: revoke_token_def sessions_prune)
  then have "\<forall>(j', t') \<in> set xs. map_of (ts_sessions (revoke_token now j t ts)) j' = None"
    using Cons.prems(2) by auto
  moreover have "store_ok (revoke_token now j t ts)" by (rule revoke_token_ok [OF Cons.prems(1)]) (simp add: none)
  ultimately show ?case using Cons.IH [of "revoke_token now j t ts"] by (simp add: x)
qed simp

lemma map_of_found:
  fixes m :: "string \<Rightarrow> session_record option"
  defines "found \<equiv> \<lambda>js. List.map_filter (\<lambda>j. map_option (\<lambda>s. (j, s_expires_at s)) (m j)) js"
  shows "map_of (rev (found js)) j = (if j \<in> set js then map_option s_expires_at (m j) else None)"
proof -
  have "set (found js) = {(k, t). k \<in> set js \<and> map_option s_expires_at (m k) = Some t}"
    by (induction js) (auto simp: found_def List.map_filter_simps split: option.splits)
  then have in_found: "(k, t) \<in> set (rev (found js)) \<longleftrightarrow> k \<in> set js \<and> map_option s_expires_at (m k) = Some t" for k t
    by auto
  show ?thesis
  proof (cases "map_of (rev (found js)) j")
    case None
    then have "\<not> (\<exists>t. (j, t) \<in> set (rev (found js)))" by (force simp: map_of_eq_None_iff)
    with in_found None show ?thesis by (cases "m j") auto
  next
    case (Some t)
    with in_found map_of_SomeD [OF Some] show ?thesis by auto
  qed
qed

lemma map_of_filter_out: "map_of (filter (\<lambda>(j, s). j \<notin> A) xs) j = (if j \<in> A then None else map_of xs j)"
  by (induction xs) auto

text \<open>
  Taking the sessions with the ids \<open>js\<close> out of the store, after the index was changed to \<open>ix\<close>.
\<close>

lemma drop_sessions_law:
  assumes ok: "store_keys ts" and P: "\<And>j s. map_of (ts_sessions ts) j = Some s \<Longrightarrow> P s \<longleftrightarrow> j \<in> set js"
  shows "living now (registry_of (drop_sessions now js (ts\<lparr>ts_user_sessions := ix\<rparr>))) = living now (ended_in P (registry_of ts))"
proof -
  let ?ts = "ts\<lparr>ts_user_sessions := ix, ts_sessions := filter (\<lambda>(j, s). j \<notin> set js) (ts_sessions ts)\<rparr>"
  let ?found = "List.map_filter (\<lambda>j. map_option (\<lambda>s. (j, s_expires_at s)) (map_of (ts_sessions ts) j)) js"
  have "store_keys ?ts" using ok by (simp add: store_keys_def distinct_map_filter)
  then have "living now (registry_of (fold (\<lambda>(j, t). revoke_token now j t) ?found ?ts)) =
      living now (fst (registry_of ?ts) ++ map_of (rev ?found), snd (registry_of ?ts))"
    using revoke_many by blast
  moreover have "(fst (registry_of ?ts) ++ map_of (rev ?found), snd (registry_of ?ts)) = ended_in P (registry_of ts)"
    using P by (auto simp: registry_of_def ended_in_def map_of_filter_out map_of_found map_add_def fun_eq_iff split: option.splits)
  ultimately show ?thesis by (simp add: drop_sessions_def)
qed

lemma drop_sessions_ok:
  assumes ok: "store_ok ts"
    and ix: "\<And>j s u. map_of (ts_sessions ts) j = Some s \<Longrightarrow> j \<notin> set js \<Longrightarrow>
      j \<in> set (user_session_ids u (ts\<lparr>ts_user_sessions := ix\<rparr>)) \<longleftrightarrow> u = s_user_id s"
  shows "store_ok (drop_sessions now js (ts\<lparr>ts_user_sessions := ix\<rparr>))"
proof -
  let ?ts = "ts\<lparr>ts_user_sessions := ix, ts_sessions := filter (\<lambda>(j, s). j \<notin> set js) (ts_sessions ts)\<rparr>"
  let ?found = "List.map_filter (\<lambda>j. map_option (\<lambda>s. (j, s_expires_at s)) (map_of (ts_sessions ts) j)) js"
  have sessions: "map_of (ts_sessions ?ts) j = (if j \<in> set js then None else map_of (ts_sessions ts) j)" for j
    by (simp add: map_of_filter_out)
  have "user_session_ids u ?ts = user_session_ids u (ts\<lparr>ts_user_sessions := ix\<rparr>)" for u by (rule ids_same) simp
  then have "store_ok ?ts"
    unfolding store_ok_def sessions using store_okD [OF ok] ix by (auto simp: distinct_map_filter split: if_splits)
  moreover have "\<forall>(j, t) \<in> set ?found. map_of (ts_sessions ?ts) j = None"
    unfolding sessions by (auto simp: List.map_filter_def)
  ultimately have "store_ok (fold (\<lambda>(j, t). revoke_token now j t) ?found ?ts)" by (rule revoke_many_ok)
  then show ?thesis by (simp add: drop_sessions_def)
qed

lemma user_index:
  assumes "store_ok ts" and "map_of (ts_sessions ts) j = Some s"
  shows "s_user_id s = u \<longleftrightarrow> j \<in> set (user_session_ids u ts)"
    and "s_user_id s = u \<and> Some (s_jti s) \<noteq> keep \<longleftrightarrow> j \<in> set (filter (\<lambda>j. Some j \<noteq> keep) (user_session_ids u ts))"
  using store_okD(3,4) [OF assms] by auto

lemma end_all_law:
  assumes ok: "store_ok ts"
  shows "store_ok (revoke_user_sessions now u ts) \<and>
    living now (registry_of (revoke_user_sessions now u ts)) = living now (ended_in (\<lambda>x. s_user_id x = u) (registry_of ts))"
  unfolding revoke_user_sessions_def
proof
  have "user_session_ids v (ts\<lparr>ts_user_sessions := AList.delete u (ts_user_sessions ts)\<rparr>) =
      (if v = u then [] else user_session_ids v ts)" for v by (simp add: user_session_ids_def delete_conv)
  then show "store_ok (drop_sessions now (user_session_ids u ts) (ts\<lparr>ts_user_sessions := AList.delete u (ts_user_sessions ts)\<rparr>))"
    using user_index(1) [OF ok] by (intro drop_sessions_ok [OF ok]) (metis empty_iff empty_set)
qed (rule drop_sessions_law [OF store_ok_keys [OF ok] user_index(1) [OF ok]])

lemma end_others_law:
  assumes ok: "store_ok ts"
  shows "living now (registry_of (revoke_user_sessions_except now u keep ts)) =
      living now (ended_in (\<lambda>x. s_user_id x = u \<and> Some (s_jti x) \<noteq> keep) (registry_of ts))"
  unfolding revoke_user_sessions_except_def
  by (rule drop_sessions_law [OF store_ok_keys [OF ok] user_index(2) [OF ok]])

lemma end_others_ok:
  assumes ok: "store_ok ts" and keep: "\<And>k x. keep = Some k \<Longrightarrow> map_of (ts_sessions ts) k = Some x \<Longrightarrow> s_user_id x = u"
  shows "store_ok (revoke_user_sessions_except now u keep ts)"
  unfolding revoke_user_sessions_except_def
proof (rule drop_sessions_ok [OF ok])
  fix j s v
  assume s: "map_of (ts_sessions ts) j = Some s"
    and j: "j \<notin> set (filter (\<lambda>j. Some j \<noteq> keep) (user_session_ids u ts))"
  let ?ix = "case keep of None \<Rightarrow> AList.delete u (ts_user_sessions ts) | Some k \<Rightarrow> AList.update u [k] (ts_user_sessions ts)"
  have "user_session_ids v (ts\<lparr>ts_user_sessions := ?ix\<rparr>) =
      (if v = u then (case keep of None \<Rightarrow> [] | Some k \<Rightarrow> [k]) else user_session_ids v ts)"
    by (auto simp: user_session_ids_def delete_conv update_conv split: option.split)
  then show "j \<in> set (user_session_ids v (ts\<lparr>ts_user_sessions := ?ix\<rparr>)) \<longleftrightarrow> v = s_user_id s"
    using store_okD(4) [OF ok s] j keep s by (auto split: option.splits)
qed

interpretation token_store: session_registry store_ok registry_of fits_session revoke_token register_session
  revoke_session_record revoke_user_sessions revoke_user_sessions_except
proof unfold_locales
  fix ts
  assume ok: "store_ok ts"
  have sessions: "snd (registry_of ts) = map_of (ts_sessions ts)" by (simp add: registry_of_def)
  show "s_jti x = j" if "snd (registry_of ts) j = Some x" for j x
    using store_okD(3) [OF ok] that unfolding sessions by blast
  show "living now (registry_of (revoke_token now j t ts)) = living now (revoked_in j t (registry_of ts))" for now j t
    by (rule revoke_token_law(2) [OF store_ok_keys [OF ok]])
  show "store_ok (revoke_token now j t ts)" if "\<And>x. snd (registry_of ts) j = Some x \<Longrightarrow> t \<le> s_expires_at x" for now j t
    using revoke_token_ok [OF ok] that unfolding sessions by blast
  show "living now (registry_of (register_session now x ts)) = living now (opened_in x (registry_of ts))" for now x
    by (rule register_law(1) [OF ok])
  show "store_ok (register_session now x ts)" if "fits_session x ts" for now x
    by (rule register_law(2) [OF ok that])
  show "store_ok (revoke_session_record now j ts) \<and>
      living now (registry_of (revoke_session_record now j ts)) = living now (ended_in (\<lambda>x. s_jti x = j) (registry_of ts))"
    for now j
    using end_session_law [OF ok] by blast
  show "store_ok (revoke_user_sessions now u ts) \<and>
      living now (registry_of (revoke_user_sessions now u ts)) = living now (ended_in (\<lambda>x. s_user_id x = u) (registry_of ts))"
    for now u
    by (rule end_all_law [OF ok])
  show "living now (registry_of (revoke_user_sessions_except now u keep ts)) =
        living now (ended_in (\<lambda>x. s_user_id x = u \<and> Some (s_jti x) \<noteq> keep) (registry_of ts))" for now u keep
    by (rule end_others_law [OF ok])
  show "store_ok (revoke_user_sessions_except now u keep ts)"
    if "\<And>k x. keep = Some k \<Longrightarrow> snd (registry_of ts) k = Some x \<Longrightarrow> s_user_id x = u" for now u keep
    by (rule end_others_ok [OF ok]) (use that sessions in simp)
qed

section \<open>The index holds sets\<close>

text \<open>The sets of the index are lists without repetition: no operation puts an id in one twice.\<close>

definition index_ok :: "token_store \<Rightarrow> bool" where
  "index_ok ts \<longleftrightarrow> (\<forall>u. distinct (user_session_ids u ts))"

lemma index_ok_other [simp]: "index_ok (ts\<lparr>ts_tokens := x\<rparr>) = index_ok ts" "index_ok (ts\<lparr>ts_sessions := y\<rparr>) = index_ok ts"
  by (simp_all add: index_ok_def user_session_ids_def)

lemma index_ok_pop: "index_ok ts \<Longrightarrow> index_ok (pop_user_session u j ts)"
  by (simp add: index_ok_def ids_pop)

lemma index_ok_prune: "index_ok ts \<Longrightarrow> index_ok (prune_expired now ts)"
proof -
  have "index_ok (fold (prune_session now) xs ts)" if "index_ok ts" for xs ts
    using that
  proof (induction xs arbitrary: ts)
    case (Cons x xs)
    have "index_ok (prune_session now x ts)"
      using Cons.prems by (simp add: prune_session_def index_ok_pop)
    with Cons.IH show ?case by simp
  qed simp
  then show "index_ok ts \<Longrightarrow> index_ok (prune_expired now ts)"
    by (simp add: prune_expired_def)
qed

lemma index_ok_revoke: "index_ok ts \<Longrightarrow> index_ok (revoke_token now j t ts)"
  unfolding revoke_token_def by (rule index_ok_prune) simp

lemma index_ok_drop: "index_ok ts \<Longrightarrow> index_ok (drop_sessions now js ts)"
proof -
  have "index_ok (fold (\<lambda>(j, t). revoke_token now j t) xs ts)" if "index_ok ts" for xs ts
    using that by (induction xs arbitrary: ts) (auto intro: index_ok_revoke)
  then show "index_ok ts \<Longrightarrow> index_ok (drop_sessions now js ts)"
    by (simp add: drop_sessions_def)
qed

lemma index_ok_kept:
  assumes "index_ok ts"
  shows "index_ok (register_session now s ts)" and "index_ok (revoke_session_record now j ts)"
    and "index_ok (revoke_user_sessions now u ts)" and "index_ok (revoke_user_sessions_except now u keep ts)"
proof -
  have upd: "index_ok (ts\<lparr>ts_user_sessions := AList.update u js (ts_user_sessions ts)\<rparr>)" if "distinct js" for u js
    using assms that by (simp add: index_ok_def user_session_ids_def update_conv)
  have upd': "index_ok (ts\<lparr>ts_sessions := x, ts_user_sessions := AList.update u js (ts_user_sessions ts)\<rparr>)"
    if "distinct js" for u js x
    using assms that by (simp add: index_ok_def user_session_ids_def update_conv)
  have del: "index_ok (ts\<lparr>ts_user_sessions := AList.delete u (ts_user_sessions ts)\<rparr>)" for u
    using assms by (simp add: index_ok_def user_session_ids_def delete_conv)
  have "distinct (case map_of (ts_user_sessions ts) (s_user_id s) of None \<Rightarrow> [] | Some js \<Rightarrow> js)"
    using assms unfolding index_ok_def user_session_ids_def by blast
  then show "index_ok (register_session now s ts)"
    unfolding register_session_def Let_def
    by (intro index_ok_prune) (use upd' in auto)
  show "index_ok (revoke_session_record now j ts)"
    unfolding revoke_session_record_def
    using assms by (simp add: index_ok_revoke index_ok_pop split: option.split)
  show "index_ok (revoke_user_sessions now u ts)"
    unfolding revoke_user_sessions_def by (intro index_ok_drop del)
  show "index_ok (revoke_user_sessions_except now u keep ts)"
    unfolding revoke_user_sessions_except_def
    by (cases keep) (auto intro!: index_ok_drop del upd)
qed

section \<open>Reading the store\<close>

lemma is_revoked_registry:
  "store_ok ts \<Longrightarrow> is_revoked t j ts \<longleftrightarrow> fst (living t (registry_of ts)) j \<noteq> None"
  by (simp add: is_revoked_def live_prune [OF store_ok_keys, symmetric]) (simp add: registry_of_def)

lemma get_session_registry:
  "store_ok ts \<Longrightarrow> get_session t j ts = snd (living t (registry_of ts)) j"
  by (simp add: get_session_def live_prune [OF store_ok_keys, symmetric]) (simp add: registry_of_def)

lemma list_sessions_registry:
  assumes "store_ok ts"
  shows "set (list_sessions t u ts) = {s. \<exists>j. snd (living t (registry_of ts)) j = Some s \<and> s_user_id s = u}"
proof -
  have d: "distinct (map fst (ts_sessions (prune_expired t ts)))" using store_okD(2) [OF store_ok_prune [OF assms]] .
  have "snd ` set (ts_sessions (prune_expired t ts)) = {s. \<exists>j. map_of (ts_sessions (prune_expired t ts)) j = Some s}"
    using d by (force simp: image_iff)
  moreover have "map_of (ts_sessions (prune_expired t ts)) = snd (living t (registry_of ts))"
    using arg_cong [OF live_prune [OF store_ok_keys [OF assms], of t], of snd] by (simp add: registry_of_def)
  ultimately show ?thesis by (auto simp: list_sessions_def)
qed

text \<open>The laws of the locale, read off the store: another id revoked, the sessions of a user ended.\<close>

lemma revoke_other_id:
  assumes ok: "store_ok ts" and none: "map_of (ts_sessions ts) j = None" and t: "now \<le> t"
  shows "store_ok (revoke_token now j x ts)"
    and "k \<noteq> j \<Longrightarrow> is_revoked t k (revoke_token now j x ts) = is_revoked t k ts"
    and "map_of (ts_sessions (revoke_token now j x ts)) k =
      (case map_of (ts_sessions ts) k of None \<Rightarrow> None | Some s \<Rightarrow> if now < s_expires_at s then Some s else None)"
proof -
  have none: "snd (registry_of ts) j = None" using none by (simp add: registry_of_def)
  show "store_ok (revoke_token now j x ts)" by (rule token_store.revoked_other(1) [OF ok none t])
  then show "k \<noteq> j \<Longrightarrow> is_revoked t k (revoke_token now j x ts) = is_revoked t k ts"
    using token_store.revoked_other(3) [OF ok none t] ok by (simp add: is_revoked_registry token_store.revoked_at_def)
  show "map_of (ts_sessions (revoke_token now j x ts)) k =
      (case map_of (ts_sessions ts) k of None \<Rightarrow> None | Some s \<Rightarrow> if now < s_expires_at s then Some s else None)"
    using sessions_prune [of "ts\<lparr>ts_tokens := AList.update j x (ts_tokens ts)\<rparr>"] store_okD(2) [OF ok]
    by (simp add: revoke_token_def)
qed

lemma user_sessions_ended:
  assumes ok: "store_ok ts" and t: "now \<le> t"
  shows "list_sessions t u (revoke_user_sessions now u ts) = []"
    and "map_of (ts_sessions ts) j = Some s \<Longrightarrow> s_user_id s = u \<Longrightarrow>
      is_revoked t j (revoke_user_sessions now u ts) \<longleftrightarrow> t < s_expires_at s"
    and "map_of (ts_sessions ts) j = None \<Longrightarrow> is_revoked t j (revoke_user_sessions now u ts) = is_revoked t j ts"
proof -
  have ok': "store_ok (revoke_user_sessions now u ts)" using end_all_law [OF ok] by blast
  have "set (list_sessions t u (revoke_user_sessions now u ts)) = {}"
    unfolding list_sessions_registry [OF ok'] using token_store.ended(1) [OF ok t, of _ u]
    by (auto simp: token_store.session_at_def)
  then show "list_sessions t u (revoke_user_sessions now u ts) = []" by simp
  show "map_of (ts_sessions ts) j = Some s \<Longrightarrow> s_user_id s = u \<Longrightarrow>
      is_revoked t j (revoke_user_sessions now u ts) \<longleftrightarrow> t < s_expires_at s"
    and "map_of (ts_sessions ts) j = None \<Longrightarrow> is_revoked t j (revoke_user_sessions now u ts) = is_revoked t j ts"
    using token_store.ended(2,3) [OF ok t, of j] ok ok'
    by (simp_all add: is_revoked_registry token_store.revoked_at_def registry_of_def)
qed

section \<open>Refinement\<close>

text \<open>The registry a store stands for at an instant.\<close>

definition registry_at :: "instant \<Rightarrow> token_store \<Rightarrow> registry" where
  "registry_at t ts = living t (registry_of ts)"

lemma live_revoked: "living t (revoked_in j x (living t r)) = living t (revoked_in j x r)"
  by (auto simp: living_def revoked_in_def unexpired_def fun_eq_iff split: option.split)

lemma live_opened: "living t (opened_in s (living t r)) = living t (opened_in s r)"
  by (auto simp: living_def opened_in_def unexpired_def fun_eq_iff split: option.split)

lemma live_ended:
  assumes "store_ok ts"
  shows "living t (ended_in P (living t (registry_of ts))) = living t (ended_in P (registry_of ts))"
proof -
  have "x \<le> s_expires_at s" if "map_of (ts_sessions ts) j = Some s" "map_of (ts_tokens ts) j = Some x" for j s x
    using store_okD(5) [OF assms that] .
  then show ?thesis
    by (fastforce simp: living_def ended_in_def unexpired_def registry_of_def fun_eq_iff split: option.split)
qed

lemma sorted_newest: "sorted_wrt (\<lambda>a b. s_issued_at b \<le> s_issued_at a) (list_sessions t u ts)"
  using sorted_sort_key [of "\<lambda>s. - s_issued_at s"]
  by (fastforce simp: list_sessions_def sorted_map intro: sorted_wrt_mono_rel [rotated])

lemma list_sessions_ids: "store_ok ts \<Longrightarrow> distinct (map s_jti (list_sessions t u ts))"
proof -
  assume ok: "store_ok ts"
  let ?xs = "ts_sessions (prune_expired t ts)"
  note ok' = store_ok_prune [OF ok, of t]
  have "s_jti (snd x) = fst x" if "x \<in> set ?xs" for x
    using store_okD(3) [OF ok', of "fst x" "snd x"] that map_of_is_SomeI [OF store_okD(2) [OF ok'], of "fst x" "snd x"] by simp
  then have "map s_jti (map snd ?xs) = map fst ?xs" by simp
  then have "distinct (map s_jti (map snd ?xs))" using store_okD(2) [OF ok'] by (simp only:)
  then have "distinct (map s_jti (filter P (map snd ?xs)))" for P by (rule distinct_map_filter)
  moreover have "distinct (map f (sort_key g ys)) = distinct (map f ys)" for f :: "session_record \<Rightarrow> string" and g :: "session_record \<Rightarrow> int" and ys
    by (simp add: distinct_map)
  ultimately show ?thesis by (simp add: list_sessions_def)
qed

text \<open>
  C21. The token store, two dictionaries of tokens and sessions, an index by user and a pruning of what
  expired at every call, implements a registry of revoked ids and live sessions. Every operation, called
  with any arguments, does to the registry exactly what its name says: a revocation (also of a live
  session's id, as refresh and logout make it), a registration (also of an id in use), the end of one
  session, of a user's sessions, and of a user's sessions but one. The store stays consistent when a
  session's id is not revoked beyond its end, and no id is used for two users. Every query, the
  listing newest first among them, is read off the registry, which ages with time alone.
\<close>

theorem token_store_refines:
  assumes "store_ok ts"
  shows "(now \<le> t \<longrightarrow> registry_at t ts = living t (registry_at now ts)) \<and>
    registry_at now (revoke_token now j x ts) = living now (revoked_in j x (registry_at now ts)) \<and>
    ((\<forall>s. map_of (ts_sessions ts) j = Some s \<longrightarrow> x \<le> s_expires_at s) \<longrightarrow> store_ok (revoke_token now j x ts)) \<and>
    registry_at now (register_session now s ts) = living now (opened_in s (registry_at now ts)) \<and>
    (fits_session s ts \<longrightarrow> store_ok (register_session now s ts)) \<and>
    registry_at now (revoke_session_record now j ts) = living now (ended_in (\<lambda>x. s_jti x = j) (registry_at now ts)) \<and>
    store_ok (revoke_session_record now j ts) \<and>
    registry_at now (revoke_user_sessions now u ts) = living now (ended_in (\<lambda>x. s_user_id x = u) (registry_at now ts)) \<and>
    store_ok (revoke_user_sessions now u ts) \<and>
    registry_at now (revoke_user_sessions_except now u keep ts) =
      living now (ended_in (\<lambda>x. s_user_id x = u \<and> Some (s_jti x) \<noteq> keep) (registry_at now ts)) \<and>
    ((\<forall>k s. keep = Some k \<longrightarrow> map_of (ts_sessions ts) k = Some s \<longrightarrow> s_user_id s = u) \<longrightarrow>
      store_ok (revoke_user_sessions_except now u keep ts)) \<and>
    is_revoked now j ts = (fst (registry_at now ts) j \<noteq> None) \<and>
    get_session now j ts = snd (registry_at now ts) j \<and>
    set (list_sessions now u ts) = {s. \<exists>j. snd (registry_at now ts) j = Some s \<and> s_user_id s = u} \<and>
    distinct (map s_jti (list_sessions now u ts)) \<and>
    sorted_wrt (\<lambda>a b. s_issued_at b \<le> s_issued_at a) (list_sessions now u ts)"
proof -
  have sessions: "snd (registry_of ts) = map_of (ts_sessions ts)" by (simp add: registry_of_def)
  note laws = token_store.revoke_law [OF assms] token_store.open_law [OF assms]
    token_store.end_law [OF assms] token_store.end_all_law [OF assms] token_store.end_others_law [OF assms]
  note invs = token_store.revoke_inv [OF assms, unfolded sessions] token_store.open_inv [OF assms]
    token_store.end_others_inv [OF assms, unfolded sessions]
  show ?thesis
    unfolding registry_at_def live_revoked live_opened live_ended [OF assms]
    by (intro conjI impI)
      (use laws invs in \<open>simp_all add: live_later is_revoked_registry [OF assms] get_session_registry [OF assms]
         list_sessions_registry [OF assms] list_sessions_ids [OF assms] sorted_newest\<close>)
qed

text \<open>User 2 has the sessions \<open>''b''\<close> and \<open>''c''\<close>; \<open>''b''\<close> is logged out, then all but \<open>''c''\<close> are ended.\<close>

lemma token_store_refines_witness:
  "\<exists>ts ts'. is_revoked 5 ''b'' ts \<and> get_session 5 ''b'' ts \<noteq> None \<and> \<not> is_revoked 5 ''c'' ts \<and>
     map s_jti (list_sessions 5 2 ts') = [''c''] \<and> is_revoked 5 ''b'' ts'"
proof -
  define s where "s = (\<lambda>j. \<lparr>s_jti = j, s_user_id = 2, s_issued_at = 0, s_expires_at = 9, s_user_agent = None, s_ip_address = None\<rparr>)"
  define b where "b = register_session 0 (s ''b'') empty_token_store"
  define bc where "bc = register_session 0 (s ''c'') b"
  define out where "out = revoke_token 5 ''b'' 9 bc"
  define left where "left = revoke_user_sessions_except 5 2 (Some ''c'') out"
  have empty: "store_ok empty_token_store" "fits_session (s ''b'') empty_token_store"
    by (simp_all add: store_ok_def fits_session_def user_session_ids_def empty_token_store_def)
  have revoke: "registry_at 5 (revoke_token 5 j x ts) = living 5 (revoked_in j x (registry_at 5 ts))"
    "(\<forall>s. map_of (ts_sessions ts) j = Some s \<longrightarrow> x \<le> s_expires_at s) \<Longrightarrow> store_ok (revoke_token 5 j x ts)"
    if "store_ok ts" for j x ts
    using token_store_refines [OF that] by blast+
  have opens: "store_ok (register_session 0 s' ts)" if "store_ok ts" "fits_session s' ts" for s' ts
    using token_store_refines [OF that(1)] that(2) by blast
  have others: "registry_at 5 (revoke_user_sessions_except 5 2 (Some k) ts) =
      living 5 (ended_in (\<lambda>x. s_user_id x = 2 \<and> Some (s_jti x) \<noteq> Some k) (registry_at 5 ts))"
    "(\<forall>s. map_of (ts_sessions ts) k = Some s \<longrightarrow> s_user_id s = 2) \<Longrightarrow> store_ok (revoke_user_sessions_except 5 2 (Some k) ts)"
    if "store_ok ts" for k ts
    using token_store_refines [where now = 5 and u = 2 and keep = "Some k", OF that] by blast+
  have queries: "is_revoked 5 j ts = (fst (registry_at 5 ts) j \<noteq> None)" "get_session 5 j ts = snd (registry_at 5 ts) j"
    "set (list_sessions 5 2 ts) = {s. \<exists>j. snd (registry_at 5 ts) j = Some s \<and> s_user_id s = 2}"
    "distinct (map s_jti (list_sessions 5 2 ts))"
    if "store_ok ts" for j ts
    using token_store_refines [OF that] by blast+
  have b: "store_ok b" unfolding b_def
    by (rule opens [OF empty])
  have b_eq: "b = empty_token_store\<lparr>ts_sessions := [(''b'', s ''b'')], ts_user_sessions := [(2, [''b''])]\<rparr>"
    by (simp add: b_def register_session_def empty_token_store_def prune_expired_def prune_session_def s_def)
  have bc_eq: "bc = b\<lparr>ts_sessions := [(''b'', s ''b''), (''c'', s ''c'')], ts_user_sessions := [(2, [''b'', ''c''])]\<rparr>"
    by (simp add: bc_def b_eq register_session_def empty_token_store_def prune_expired_def prune_session_def s_def)
  have "fits_session (s ''c'') b"
    by (simp add: fits_session_def b_eq user_session_ids_def empty_token_store_def s_def)
  then have bc: "store_ok bc" unfolding bc_def by (rule opens [OF b])
  have reg: "registry_at 5 bc = (Map.empty, [''b'' \<mapsto> s ''b'', ''c'' \<mapsto> s ''c''])"
    by (auto simp: registry_at_def living_def unexpired_def registry_of_def bc_eq b_eq empty_token_store_def s_def fun_eq_iff)
  have out: "registry_at 5 out = living 5 (revoked_in ''b'' 9 (registry_at 5 bc))" "store_ok out"
    unfolding out_def using revoke [OF bc, of "''b''" 9] by (simp_all add: bc_eq s_def)
  have out_eq: "registry_at 5 out = ([''b'' \<mapsto> 9], [''b'' \<mapsto> s ''b'', ''c'' \<mapsto> s ''c''])"
    by (auto simp: out reg living_def unexpired_def revoked_in_def s_def fun_eq_iff)
  have keep: "\<forall>s. map_of (ts_sessions out) ''c'' = Some s \<longrightarrow> s_user_id s = 2"
    by (simp add: out_def revoke_token_def bc_eq b_eq empty_token_store_def prune_expired_def prune_session_def s_def)
  have left: "registry_at 5 left = living 5 (ended_in (\<lambda>x. s_user_id x = 2 \<and> Some (s_jti x) \<noteq> Some ''c'') (registry_at 5 out))"
    "store_ok left"
    unfolding left_def using others(1) [OF out(2)] others(2) [OF out(2) keep] by blast+
  have left_eq: "registry_at 5 left = ([''b'' \<mapsto> 9], [''c'' \<mapsto> s ''c''])"
    by (auto simp: left out_eq living_def unexpired_def ended_in_def s_def fun_eq_iff)
  have "is_revoked 5 ''b'' out" "get_session 5 ''b'' out \<noteq> None" "\<not> is_revoked 5 ''c'' out" "is_revoked 5 ''b'' left"
    by (simp_all add: queries out(2) left(2) out_eq left_eq)
  moreover have "set (list_sessions 5 2 left) = {s ''c''}" "distinct (map s_jti (list_sessions 5 2 left))"
    unfolding queries(3) [OF left(2)] using queries(4) [OF left(2)] by (simp_all add: left_eq) (auto simp: s_def split: if_splits)
  then have "map s_jti (list_sessions 5 2 left) = [''c'']"
    by (cases "list_sessions 5 2 left"; cases "tl (list_sessions 5 2 left)") (auto simp: s_def)
  ultimately show ?thesis by (intro exI [of _ out] exI [of _ left] conjI)
qed

end
