(* ===== verification/AuthFacts.thy ===== *)
theory AuthFacts
  imports BookingFacts TokenRegistry
begin

text \<open>
  What the authentication service promises: who may log in, when an account locks, and for how long an
  issued token speaks for its user.
\<close>

section \<open>Logging in\<close>

lemma audit_users:
  "run_state (audit_request rq a u t i s md True) w = (x, w') \<Longrightarrow>
     users_t (db w') = users_t (db w) \<and> durable w' = db w' \<and> clock w' = clock w \<and> tokens w' = tokens w"
  by (auto simp: audit_request_def audit_create_def Let_def add_audit_def)

lemma record_auth_users:
  "run_state (record_auth a b) w = (x, w') \<Longrightarrow>
     db w' = db w \<and> durable w' = durable w \<and> clock w' = clock w \<and> tokens w' = tokens w"
  by (auto simp: counter_defs)

lemma put_put_user: "u_id u = u_id u' \<Longrightarrow> put_user u' (put_user u d) = put_user u' d"
  by (simp add: put_user_def table_put_def)

lemma users_put: "users_t d' = users_t d \<Longrightarrow> users_t (put_user u d') = users_t (put_user u d)"
  by (simp add: put_user_def)

text \<open>What a failed login leaves of the account.\<close>

definition after_failure :: "env \<Rightarrow> instant \<Rightarrow> user \<Rightarrow> user" where
  "after_failure e now u =
     (if AUTH_MAX_FAILED_LOGIN_ATTEMPTS (feat e) \<le> u_failed_login_attempts u + 1
      then u\<lparr>u_locked_until := Some (now + minutes (AUTH_LOCKOUT_WINDOW_MINUTES (feat e))), u_failed_login_attempts := 0\<rparr>
      else u\<lparr>u_failed_login_attempts := u_failed_login_attempts u + 1\<rparr>)"

definition unlocked :: "instant \<Rightarrow> user \<Rightarrow> bool" where
  "unlocked now u \<longleftrightarrow> (case u_locked_until u of None \<Rightarrow> True | Some t \<Rightarrow> t \<le> now)"

text \<open>The committed accounts: keys and addresses are unique.\<close>

definition accounts_ok :: "database \<Rightarrow> bool" where
  "accounts_ok d \<longleftrightarrow> table_ok u_id (users_t d) \<and> distinct (map u_email (rows (users_t d)))"

lemma accounts_put:
  assumes "accounts_ok d" and "get_user (u_id u') d = Some u" and "u_email u' = u_email u"
  shows "accounts_ok (put_user u' d)"
proof -
  have "map u_email (rows (table_put u_id u' (users_t d))) = map u_email (rows (users_t d))"
    using assms by (intro map_put_same) (auto simp: accounts_ok_def get_user_def)
  with assms(1) show ?thesis by (simp add: accounts_ok_def put_user_def table_ok_put)
qed

lemma by_email_get: "accounts_ok d \<Longrightarrow> user_by_email em d = Some u \<Longrightarrow> get_user (u_id u) d = Some u \<and> u_email u = em"
  by (auto simp: accounts_ok_def user_by_email_def get_user_def find_Some_iff dest: table_get_unique
     intro!: table_get_unique)

lemma get_by_email: "accounts_ok d \<Longrightarrow> get_user i d = Some u \<Longrightarrow> user_by_email (u_email u) d = Some u"
  unfolding accounts_ok_def user_by_email_def get_user_def
  by (metis find_key_unique table_get_mem)

lemma by_email_put:
  assumes "accounts_ok d" and "user_by_email em d = Some u" and "u_id u' = u_id u" and "u_email u' = em"
  shows "user_by_email em (put_user u' d) = Some u' \<and> accounts_ok (put_user u' d)"
proof -
  have g: "get_user (u_id u') d = Some u" "u_email u' = u_email u" using by_email_get [OF assms(1,2)] assms(3,4) by simp_all
  then have "get_user (u_id u') (put_user u' d) = Some u'" using user_store.get_put_same [OF g(1)] by simp
  with get_by_email [OF accounts_put [OF assms(1) g], of "u_id u'" u'] accounts_put [OF assms(1) g] assms(4)
  show ?thesis by simp
qed

lemma save_allowed:
  assumes "accounts_ok d" and "get_user (u_id u') d = Some u" and "u_email u' = u_email u"
  shows "user_constraints (rows (users_t d)) u'"
proof -
  have "u_email x \<noteq> u_email u'" if x: "x \<in> set (rows (users_t d))" "u_id x \<noteq> u_id u'" for x
  proof
    assume "u_email x = u_email u'"
    moreover have "u \<in> set (rows (users_t d))" "u_id u = u_id u'"
      using user_store.get_mem [OF assms(2)] user_store.get_key [OF assms(2)] by simp_all
    ultimately show False using x assms(1,3) by (auto simp: accounts_ok_def distinct_map dest: inj_onD)
  qed
  then show ?thesis by (auto simp: user_constraints_def others_def list_all_iff)
qed

lemma run_user_save:
  "accounts_ok (db w) \<Longrightarrow> get_user (u_id u') (db w) = Some u \<Longrightarrow> u_email u' = u_email u \<Longrightarrow>
     run_state (user_save u') w = (Inr u', w\<lparr>db := put_user u' (db w)\<rparr>)"
  by (simp add: user_save_def flush_def save_allowed)

lemma same_users:
  "users_t d' = users_t d \<Longrightarrow> accounts_ok d' = accounts_ok d \<and> get_user i d' = get_user i d \<and>
     user_by_email em d' = user_by_email em d"
  by (simp add: accounts_ok_def get_user_def user_by_email_def)

lemma run_record_failed_login:
  assumes run: "run_state (record_failed_login e u) w = (r, w')" and ok: "accounts_ok (db w)"
    and get: "get_user (u_id u) (db w) = Some u"
  shows "r = Inr () \<and> users_t (db w') = users_t (put_user (after_failure e (clock w) u) (db w)) \<and>
    durable w' = db w' \<and> clock w' = clock w \<and> tokens w' = tokens w"
proof -
  let ?u1 = "u\<lparr>u_failed_login_attempts := u_failed_login_attempts u + 1\<rparr>"
  have acc: "accounts_ok (put_user ?u1 (db w))" and g1: "get_user (u_id u) (put_user ?u1 (db w)) = Some ?u1"
    using accounts_put [OF ok, of ?u1 u] user_store.get_put_same [OF get, of ?u1] get by simp_all
  let ?after = "\<lambda>v. users_t (db v) = users_t (put_user ?u1 (db w)) \<and> durable v = db v \<and> clock v = clock w \<and> tokens v = tokens w"
  obtain x0 w0 where w0: "run_state (record_auth ''login_failed'' ''invalid_password'')
      (w\<lparr>db := put_user ?u1 (db w)\<rparr>) = (x0, w0)"
    by (rule that [OF prod.collapse [symmetric]])
  obtain x1 v where audit: "run_state (audit_record ''login_failed'' (Some (u_id u)) (Some ''user'') (Some (str_int (u_id u)))
      ''warning'' [(''failed_login_attempts'', PyInt (u_failed_login_attempts ?u1))] True) w0 = (x1, v)" by fastforce
  have v: "users_t (db v) = users_t (put_user ?u1 (db w))" "durable v = db v" "clock v = clock w" "tokens v = tokens w"
    using audit_users [OF audit] record_auth_users [OF w0] by simp_all
  show ?thesis
  proof (cases "AUTH_MAX_FAILED_LOGIN_ATTEMPTS (feat e) \<le> u_failed_login_attempts ?u1")
    case False
    then have "run_state (do { r \<leftarrow> user_save ?u1; on_ok r (\<lambda>_. do { commit; ok () }) }) v = (r, w')"
      using run w0 audit by (simp add: record_failed_login_def Let_def)
    moreover have "run_state (user_save ?u1) v = (Inr ?u1, v\<lparr>db := put_user ?u1 (db v)\<rparr>)"
      using same_users [OF v(1)] acc g1 by (intro run_user_save [where u = ?u1]) simp_all
    moreover have "users_t (put_user ?u1 (db v)) = users_t (put_user ?u1 (db w))"
      using users_put [OF v(1)] put_put_user [of ?u1 ?u1] by simp
    ultimately show ?thesis using False v by (auto simp: after_failure_def)
  next
    case True
    let ?until = "clock w + minutes (AUTH_LOCKOUT_WINDOW_MINUTES (feat e))"
    let ?u2 = "?u1\<lparr>u_locked_until := Some ?until, u_failed_login_attempts := 0\<rparr>"
    obtain x2 w2 where w2: "run_state (record_auth ''account_locked'' ''success'') (v\<lparr>db := put_user ?u2 (db v)\<rparr>) = (x2, w2)"
      by (rule that [OF prod.collapse [symmetric]])
    obtain x3 v' where audit': "run_state (audit_record ''account_locked'' (Some (u_id u)) (Some ''user'') (Some (str_int (u_id u)))
        ''warning'' [(''locked_until'', PyDatetime ?until)] True) w2 = (x3, v')" by fastforce
    have last: "run_state (do { r \<leftarrow> user_save ?u2; on_ok r (\<lambda>_. do { commit; ok () }) }) v' = (r, w')"
      using run w0 audit w2 audit' True by (simp add: record_failed_login_def Let_def)
    have v': "users_t (db v') = users_t (put_user ?u2 (db v))" "durable v' = db v'" "clock v' = clock w" "tokens v' = tokens w"
      using audit_users [OF audit'] record_auth_users [OF w2] v by simp_all
    have acc': "accounts_ok (db v)" "get_user (u_id u) (db v) = Some ?u1" using same_users [OF v(1)] acc g1 by simp_all
    have acc2: "accounts_ok (put_user ?u2 (db v))" "get_user (u_id u) (put_user ?u2 (db v)) = Some ?u2"
      using accounts_put [OF acc'(1), of ?u2 ?u1] user_store.get_put_same [OF acc'(2), of ?u2] acc'(2) by simp_all
    have "run_state (user_save ?u2) v' = (Inr ?u2, v'\<lparr>db := put_user ?u2 (db v')\<rparr>)"
      using same_users [OF v'(1)] acc2 by (intro run_user_save [where u = ?u2]) simp_all
    moreover have "users_t (put_user ?u2 (db v')) = users_t (put_user ?u2 (db w))"
      using users_put [OF v'(1), of ?u2] users_put [OF v(1), of ?u2] put_put_user [of ?u2 ?u2] put_put_user [of ?u1 ?u2] by simp
    ultimately show ?thesis using last True v' by (auto simp: after_failure_def)
  qed
qed

lemma failed_login:
  assumes "user_by_email em (db w) = Some u" and "accounts_ok (db w)" and "unlocked (clock w) u"
    and "\<not> pwd_verify e pw (u_hashed_password u)"
  shows "\<exists>w'. run_state (login e j1 j2 em pw c) w = (Inl (HTTPException 401 ''Invalid credentials''), w') \<and>
    users_t (db w') = users_t (put_user (after_failure e (clock w) u) (db w)) \<and>
    durable w' = db w' \<and> clock w' = clock w \<and> tokens w' = tokens w"
proof -
  obtain r w' where run: "run_state (record_failed_login e u) w = (r, w')" by fastforce
  have "get_user (u_id u) (db w) = Some u" using by_email_get [OF assms(2,1)] by simp
  from run_record_failed_login [OF run assms(2) this] run show ?thesis
    using assms(1,3,4)
    by (simp add: login_def ensure_login_not_locked_def unlocked_def split: option.splits)
qed

text \<open>Attempts to log in to the account \<open>em\<close>, one after the other; what they answer is dropped.\<close>

fun attempt_logins ::
  "env \<Rightarrow> string \<Rightarrow> (string \<times> string \<times> string \<times> client option) list \<Rightarrow> world \<Rightarrow> world" where
  "attempt_logins e em [] w = w"
| "attempt_logins e em ((pw, j1, j2, c) # xs) w = attempt_logins e em xs (snd (run_state (login e j1 j2 em pw c) w))"

lemma locked_login:
  assumes "user_by_email em (db w) = Some u" and "u_locked_until u = Some t" and "clock w < t"
  shows "\<exists>w'. run_state (login e j1 j2 em pw c) w =
      (Inl (HTTPException 423 ''Account temporarily locked due to too many failed login attempts''), w') \<and>
    users_t (durable w') = users_t (db w) \<and> tokens w' = tokens w"
proof -
  obtain x0 w0 where w0: "run_state (record_auth ''login_blocked_locked'' ''success'') w = (x0, w0)"
    by (rule that [OF prod.collapse [symmetric]])
  obtain x1 w1 where w1: "run_state (audit_record ''login_blocked_locked'' (Some (u_id u)) (Some ''user'') (Some (str_int (u_id u)))
      ''warning'' [(''locked_until'', PyDatetime t)] True) w0 = (x1, w1)" by fastforce
  from assms w0 w1 show ?thesis
    using audit_users [OF w1] record_auth_users [OF w0] by (simp add: login_def ensure_login_not_locked_def)
qed

lemma attempts_lock:
  assumes "user_by_email em (db w) = Some u" and "accounts_ok (db w)" and "unlocked (clock w) u" and "db w = durable w"
    and "\<forall>(pw, _) \<in> set xs. \<not> pwd_verify e pw (u_hashed_password u)"
    and "u_failed_login_attempts u + int (length xs) = AUTH_MAX_FAILED_LOGIN_ATTEMPTS (feat e)" and "xs \<noteq> []"
  shows "user_by_email em (db (attempt_logins e em xs w)) =
      Some (u\<lparr>u_failed_login_attempts := 0, u_locked_until := Some (clock w + minutes (AUTH_LOCKOUT_WINDOW_MINUTES (feat e)))\<rparr>) \<and>
    durable (attempt_logins e em xs w) = db (attempt_logins e em xs w)"
  using assms
proof (induction xs arbitrary: w u)
  case Nil
  from Nil.prems(7) show ?case by blast
next
  case (Cons x xs)
  obtain pw j1 j2 c where x: "x = (pw, j1, j2, c)" by (cases x)
  obtain w' where w': "run_state (login e j1 j2 em pw c) w = (Inl (HTTPException 401 ''Invalid credentials''), w')"
    "users_t (db w') = users_t (put_user (after_failure e (clock w) u) (db w))" "durable w' = db w'" "clock w' = clock w"
    using failed_login [OF Cons.prems(1-3), of e pw j1 j2 c] Cons.prems(5) x by auto
  have same: "u_id (after_failure e (clock w) u) = u_id u" "u_email (after_failure e (clock w) u) = em"
    using by_email_get [OF Cons.prems(2,1)] by (simp_all add: after_failure_def)
  from by_email_put [OF Cons.prems(2,1) same] same_users [OF w'(2)]
  have u': "user_by_email em (db w') = Some (after_failure e (clock w) u)" "accounts_ok (db w')" by simp_all
  show ?case
  proof (cases "xs = []")
    case True
    with Cons.prems(6) x w' u' show ?thesis by (simp add: after_failure_def)
  next
    case False
    then have more: "after_failure e (clock w) u = u\<lparr>u_failed_login_attempts := u_failed_login_attempts u + 1\<rparr>"
      using Cons.prems(6) by (cases xs) (auto simp: after_failure_def)
    have "unlocked (clock w') (after_failure e (clock w) u)" "\<forall>(pw, _) \<in> set xs. \<not> pwd_verify e pw (u_hashed_password (after_failure e (clock w) u))"
      "u_failed_login_attempts (after_failure e (clock w) u) + int (length xs) = AUTH_MAX_FAILED_LOGIN_ATTEMPTS (feat e)"
      using Cons.prems(3,5,6) w'(4) by (auto simp: more unlocked_def)
    from Cons.IH [OF u' this(1) w'(3) [symmetric] this(2,3) False] show ?thesis
      using x w'(1,4) by (simp add: more)
  qed
qed

text \<open>
  C25. Guessing locks the account: after as many wrong passwords in a row as are allowed, every login is
  refused for the lockout window, with the right password too; no token is issued and the account is
  not changed by those attempts.
\<close>

theorem guessing_locks_the_account:
  assumes "user_by_email em (db w) = Some u" and "accounts_ok (db w)" and "unlocked (clock w) u" and "db w = durable w"
    and "\<forall>(pw, _) \<in> set guesses. \<not> pwd_verify e pw (u_hashed_password u)"
    and "u_failed_login_attempts u + int (length guesses) = AUTH_MAX_FAILED_LOGIN_ATTEMPTS (feat e)" and "guesses \<noteq> []"
    and "now < clock w + minutes (AUTH_LOCKOUT_WINDOW_MINUTES (feat e))"
  shows "\<exists>w'. run_state (login e j1 j2 em pw c) ((attempt_logins e em guesses w)\<lparr>clock := now\<rparr>) =
      (Inl (HTTPException 423 ''Account temporarily locked due to too many failed login attempts''), w') \<and>
    users_t (durable w') = users_t (durable (attempt_logins e em guesses w)) \<and>
    tokens w' = tokens (attempt_logins e em guesses w)"
proof -
  note locked = attempts_lock [OF assms(1-7)]
  let ?w = "(attempt_logins e em guesses w)\<lparr>clock := now\<rparr>"
  have "user_by_email em (db ?w) = Some (u\<lparr>u_failed_login_attempts := 0,
      u_locked_until := Some (clock w + minutes (AUTH_LOCKOUT_WINDOW_MINUTES (feat e)))\<rparr>)" using locked by simp
  from locked_login [OF this, of _ e j1 j2 pw c] locked assms(8) show ?thesis by simp
qed

lemma accounts_demo: "accounts_ok (db deal_world)" "db deal_world = durable deal_world"
    "user_by_email (str_int 2) (db deal_world) = Some pat"
  by (simp_all add: demo accounts_ok_def table_ok_def user_by_email_def)

lemma guessing_locks_the_account_witness:
  "\<exists>w'. run_state (login demo_env [] [] (str_int 2) ''Secret12'' None)
      ((attempt_logins demo_env (str_int 2) (replicate 5 (''guess'', [], [], None)) deal_world)\<lparr>clock := 0\<rparr>) =
      (Inl (HTTPException 423 ''Account temporarily locked due to too many failed login attempts''), w')"
proof -
  let ?guesses = "replicate 5 (''guess'', [], [], None)"
  have "unlocked (clock deal_world) pat" "\<forall>(pw, _) \<in> set ?guesses. \<not> pwd_verify demo_env pw (u_hashed_password pat)"
    "u_failed_login_attempts pat + int (length ?guesses) = AUTH_MAX_FAILED_LOGIN_ATTEMPTS (feat demo_env)" "?guesses \<noteq> []"
    "0 < clock deal_world + minutes (AUTH_LOCKOUT_WINDOW_MINUTES (feat demo_env))"
    by (simp_all add: demo unlocked_def minutes_def seconds_def)
  from guessing_locks_the_account [OF accounts_demo(3,1) this(1) accounts_demo(2) this(2-5)] show ?thesis by blast
qed

section \<open>What a token is good for\<close>

text \<open>
  The documented behaviour of the token codec: a token decodes, under the key, algorithm and issuer it
  was made with, to its claims as JSON keeps them, with instants as whole seconds; it does before its
  expiry, and it does not from one second after. Within the second of its expiry nothing is assumed.
\<close>

definition stored_claim :: "py \<Rightarrow> py" where
  "stored_claim v = (case v of PyDatetime t \<Rightarrow> PyInt (t div seconds 1) | _ \<Rightarrow> v)"

definition stored_claims :: "claims \<Rightarrow> claims" where
  "stored_claims cs = map (\<lambda>(k, v). (k, stored_claim v)) cs"

fun text_claim :: "py \<Rightarrow> bool" where
  "text_claim (PyStr s) = True"
| "text_claim (PyDatetime t) = True"
| "text_claim _ = False"

definition jwt_codec :: "env \<Rightarrow> bool" where
  "jwt_codec e \<longleftrightarrow> (\<forall>now k a iss cs t. list_all (\<lambda>(_, v). text_claim v) cs \<longrightarrow> map_of cs ''exp'' = Some (PyDatetime t) \<longrightarrow> map_of cs ''iss'' = Some (PyStr iss) \<longrightarrow>
     (now < seconds (t div seconds 1) \<longrightarrow> jwt_decode e now k a iss (jwt_encode e k a cs) = Some (stored_claims cs)) \<and>
     (seconds (t div seconds 1) + seconds 1 \<le> now \<longrightarrow> jwt_decode e now k a iss (jwt_encode e k a cs) = None))"

lemma map_of_stored:
  "map_of (stored_claims cs) k = map_option stored_claim (map_of cs k)"
  by (induction cs) (auto simp: stored_claims_def)

definition token_claims :: "env \<Rightarrow> instant \<Rightarrow> string \<Rightarrow> string \<Rightarrow> string \<Rightarrow> int \<Rightarrow> claims \<Rightarrow> claims" where
  "token_claims e now jti subj ty dur extra = AList.updates (map fst extra) (map snd extra)
     [(''sub'', PyStr subj), (''exp'', PyDatetime (now + dur)), (''type'', PyStr ty), (''jti'', PyStr jti),
      (''iss'', PyStr (TOKEN_ISSUER (core e)))]"

lemma decode_created:
  assumes "jwt_codec e" and "extra = [] \<or> extra = [(''session_jti'', PyStr v)]"
  shows "now < seconds ((t0 + dur) div seconds 1) \<Longrightarrow>
      \<exists>cs. decode_token e now (create_token e t0 jti subj ty dur extra) = Some cs \<and>
        map_of cs ''sub'' = Some (PyStr subj) \<and> map_of cs ''type'' = Some (PyStr ty) \<and> claim_jti cs = jti \<and>
        claim_str cs ''jti'' = Some jti \<and>
        map_of cs ''exp'' = Some (PyInt ((t0 + dur) div seconds 1))"
    and "seconds ((t0 + dur) div seconds 1) + seconds 1 \<le> now \<Longrightarrow>
      decode_token e now (create_token e t0 jti subj ty dur extra) = None"
proof -
  let ?cs = "token_claims e t0 jti subj ty dur extra"
  have m: "map_of ?cs ''exp'' = Some (PyDatetime (t0 + dur))" "map_of ?cs ''iss'' = Some (PyStr (TOKEN_ISSUER (core e)))"
    "map_of ?cs ''sub'' = Some (PyStr subj)" "map_of ?cs ''type'' = Some (PyStr ty)" "map_of ?cs ''jti'' = Some (PyStr jti)"
    using assms(2) by (auto simp: token_claims_def)
  have texts: "list_all (\<lambda>(_, v). text_claim v) ?cs" using assms(2) by (auto simp: token_claims_def)
  have t: "create_token e t0 jti subj ty dur extra = jwt_encode e (SECRET_KEY (core e)) (JWT_ALGORITHM (core e)) ?cs"
    by (simp add: create_token_def token_claims_def)
  show "\<exists>cs. decode_token e now (create_token e t0 jti subj ty dur extra) = Some cs \<and>
      map_of cs ''sub'' = Some (PyStr subj) \<and> map_of cs ''type'' = Some (PyStr ty) \<and> claim_jti cs = jti \<and>
      claim_str cs ''jti'' = Some jti \<and> map_of cs ''exp'' = Some (PyInt ((t0 + dur) div seconds 1))"
    if "now < seconds ((t0 + dur) div seconds 1)"
    using assms(1) texts that m unfolding decode_token_def t jwt_codec_def
    by (auto simp: map_of_stored stored_claim_def claim_jti_def claim_str_def)
  show "decode_token e now (create_token e t0 jti subj ty dur extra) = None"
    if "seconds ((t0 + dur) div seconds 1) + seconds 1 \<le> now"
    using assms(1) texts that m(1,2) unfolding decode_token_def t jwt_codec_def by blast
qed

lemma login_ok:
  assumes "run_state (login e j1 j2 em pw c) w = (Inr tp, w')" and "accounts_ok (db w)"
  obtains u jti where "user_by_email em (db w) = Some u" and "pwd_verify e pw (u_hashed_password u)"
    and "unlocked (clock w) u" and "REQUIRE_EMAIL_VERIFICATION (core e) \<Longrightarrow> u_email_verified u"
    and "get_user (u_id u) (db w') = Some (u\<lparr>u_failed_login_attempts := 0, u_locked_until := None\<rparr>)"
    and "durable w' = db w'" and "clock w' = clock w"
    and "tp = \<lparr>tp_access_token = create_access_token e (clock w) j2 (str_int (u_id u)) [(''session_jti'', PyStr jti)],
        tp_refresh_token = create_refresh_token e (clock w) j1 (str_int (u_id u))\<rparr>"
proof -
  from assms(1) obtain u where u: "user_by_email em (db w) = Some u"
    by (auto simp: login_def split: option.splits)
  have free: "unlocked (clock w) u"
  proof (rule ccontr)
    assume "\<not> unlocked (clock w) u"
    then obtain t where "u_locked_until u = Some t" "clock w < t" by (auto simp: unlocked_def split: option.splits)
    from locked_login [OF u this, of e j1 j2 pw c] assms(1) show False by auto
  qed
  have pw: "pwd_verify e pw (u_hashed_password u)"
    using failed_login [OF u assms(2) free, of e pw j1 j2 c] assms(1) by auto
  have open_account: "run_state (ensure_login_not_locked u) w = (Inr (), w)"
    using free by (simp add: ensure_login_not_locked_def unlocked_def split: option.splits)
  from assms(1) u pw open_account have v: "REQUIRE_EMAIL_VERIFICATION (core e) \<Longrightarrow> u_email_verified u"
    by (auto simp: login_def split: if_splits)
  let ?u = "u\<lparr>u_failed_login_attempts := 0, u_locked_until := None\<rparr>"
  have g: "get_user (u_id u) (db w) = Some u" using by_email_get [OF assms(2) u] by simp
  have same: "u\<lparr>u_failed_login_attempts := 0, u_locked_until := None\<rparr> = u"
    if "u_failed_login_attempts u = 0" "u_locked_until u = None" using that by simp
  obtain w1 where w1: "run_state (clear_failed_logins u) w = (Inr (), w1)" "get_user (u_id u) (db w1) = Some ?u" "clock w1 = clock w"
  proof (cases "u_failed_login_attempts u = 0 \<and> u_locked_until u = None")
    case True
    with that [of w] g same show ?thesis by (simp add: clear_failed_logins_def)
  next
    case False
    then have "run_state (clear_failed_logins u) w =
        (Inr (), w\<lparr>db := put_user ?u (db w), durable := put_user ?u (db w)\<rparr>)"
      using run_user_save [OF assms(2), of ?u u] g by (auto simp: clear_failed_logins_def)
    moreover have "get_user (u_id u) (put_user ?u (db w)) = Some ?u"
      using user_store.get_put_same [OF g, of ?u] by simp
    ultimately show ?thesis using that by simp
  qed
  obtain x w2 where w2: "run_state (audit_record ''user_logged_in'' (Some (u_id u)) (Some ''session'') None ''info''
      [(''email'', PyStr (u_email u))] True) w1 = (x, w2)" by fastforce
  have last: "run_state (issue_token_pair e j1 j2 (str_int (u_id u)) (request_user_agent c) (request_ip_address c)) w2 = (Inr tp, w')"
    using assms(1) u pw open_account v w1 w2 by (auto simp: login_def split: if_splits)
  then obtain jti where tp: "tp = \<lparr>tp_access_token = create_access_token e (clock w2) j2 (str_int (u_id u)) [(''session_jti'', PyStr jti)],
        tp_refresh_token = create_refresh_token e (clock w2) j1 (str_int (u_id u))\<rparr>"
    and w': "db w' = db w2 \<and> durable w' = durable w2 \<and> clock w' = clock w2"
    by (auto simp: issue_token_pair_def on_tokens_def Let_def run_on_ok split: option.splits sum.splits)
  show ?thesis
    using that [OF u pw free v] audit_users [OF w2] w1 w' tp same_users [of "db w2" "db w1"] by simp
qed

text \<open>
  C23. Logging in gives a token that speaks for the account, and only to the right password: the account
  was not locked, the password verified and, where that is required, the address verified; the failures
  counted so far are cleared. As long as the access token has not expired and its id is not revoked,
  whatever else happened to the token store, presenting it yields that account, and presenting the
  refresh token in its place is refused.
\<close>

theorem login_token_identifies:
  assumes "run_state (login e j1 j2 em pw c) w = (Inr tp, w')" and "accounts_ok (db w)" and "jwt_codec e"
    and "now < seconds ((clock w + minutes (ACCESS_TOKEN_EXPIRE_MINUTES (core e))) div seconds 1)"
    and "now < seconds ((clock w + days (REFRESH_TOKEN_EXPIRE_DAYS (core e))) div seconds 1)"
    and "\<not> is_revoked now j2 ts"
  shows "\<exists>u. user_by_email em (db w) = Some u \<and> pwd_verify e pw (u_hashed_password u) \<and> unlocked (clock w) u \<and>
    (REQUIRE_EMAIL_VERIFICATION (core e) \<longrightarrow> u_email_verified u) \<and>
    (let v = w'\<lparr>clock := now, tokens := ts\<rparr> in
      run_state (get_current_user e (tp_access_token tp)) v =
        (Inr (u\<lparr>u_failed_login_attempts := 0, u_locked_until := None\<rparr>), v) \<and>
      run_state (get_current_user e (tp_refresh_token tp)) v = (Inl credentials_exception, v))"
proof -
  from login_ok [OF assms(1,2)] obtain u jti where u: "user_by_email em (db w) = Some u" "pwd_verify e pw (u_hashed_password u)"
      "unlocked (clock w) u" "REQUIRE_EMAIL_VERIFICATION (core e) \<Longrightarrow> u_email_verified u"
    and g: "get_user (u_id u) (db w') = Some (u\<lparr>u_failed_login_attempts := 0, u_locked_until := None\<rparr>)"
    and tp: "tp = \<lparr>tp_access_token = create_access_token e (clock w) j2 (str_int (u_id u)) [(''session_jti'', PyStr jti)],
        tp_refresh_token = create_refresh_token e (clock w) j1 (str_int (u_id u))\<rparr>" by metis
  from decode_created(1) [OF assms(3) disjI2 [OF refl] assms(4)]
  obtain cs where cs: "decode_token e now (tp_access_token tp) = Some cs" "map_of cs ''sub'' = Some (PyStr (str_int (u_id u)))"
      "map_of cs ''type'' = Some (PyStr ''access'')" "claim_jti cs = j2"
    unfolding tp create_access_token_def token_pair.simps by metis
  from decode_created(1) [OF assms(3) disjI1 [OF refl] assms(5)]
  obtain cs' where cs': "decode_token e now (tp_refresh_token tp) = Some cs'" "map_of cs' ''type'' = Some (PyStr ''refresh'')"
    unfolding tp create_refresh_token_def token_pair.simps by metis
  show ?thesis
    by (rule exI [of _ u])
      (use u g cs cs' assms(6) in \<open>simp add: get_current_user_def py_int_def parse_int_str_int Let_def\<close>)
qed

section \<open>A codec\<close>

text \<open>
  A codec as \<open>jwt_codec\<close> describes it, for the witnesses: strings with every character marked, claims
  one after the other, instants as whole seconds.
\<close>

fun mark :: "string \<Rightarrow> string" where
  "mark [] = ''.''"
| "mark (c # s) = CHR ''-'' # c # mark s"

fun unmark :: "string \<Rightarrow> string \<times> string" where
  "unmark [] = ([], [])"
| "unmark [c] = ([], [])"
| "unmark (m # c # s) = (if m = CHR ''-'' then (case unmark s of (x, r) \<Rightarrow> (c # x, r)) else ([], c # s))"

lemma unmark_mark: "r \<noteq> [] \<Longrightarrow> unmark (mark s @ r) = (s, r)"
  by (induction s) (auto simp: neq_Nil_conv)

fun write_claims :: "claims \<Rightarrow> string" where
  "write_claims [] = ''e''"
| "write_claims ((k, PyStr s) # cs) = CHR ''s'' # mark k @ mark s @ write_claims cs"
| "write_claims ((k, PyDatetime t) # cs) = CHR ''d'' # mark k @ mark (str_int (t div seconds 1)) @ write_claims cs"
| "write_claims (_ # cs) = write_claims cs"

lemma write_claims_nonempty [simp]: "write_claims cs \<noteq> []"
  by (induction cs rule: write_claims.induct) auto

fun read_claims :: "nat \<Rightarrow> string \<Rightarrow> claims" where
  "read_claims 0 s = []"
| "read_claims (Suc n) [] = []"
| "read_claims (Suc n) (c # s) =
     (if c = CHR ''e'' then []
      else (case unmark s of (k, r) \<Rightarrow> (case unmark r of (v, r') \<Rightarrow>
        (k, if c = CHR ''s'' then PyStr v else PyInt (the (parse_int v))) # read_claims n r')))"

lemma read_written: "list_all (\<lambda>(_, v). text_claim v) cs \<Longrightarrow> length cs < n \<Longrightarrow> read_claims n (write_claims cs) = stored_claims cs"
proof (induction cs arbitrary: n)
  case Nil
  then show ?case by (cases n) (auto simp: stored_claims_def)
next
  case (Cons x cs)
  obtain k v where x: "x = (k, v)" by (cases x)
  obtain m where n: "n = Suc m" using Cons.prems(2) by (cases n) auto
  with Cons have "read_claims m (write_claims cs) = stored_claims cs" by simp
  with Cons.prems(1) show ?case
    by (cases v) (auto simp: x n stored_claims_def stored_claim_def unmark_mark parse_int_str_int)
qed

lemma length_written: "list_all (\<lambda>(_, v). text_claim v) cs \<Longrightarrow> length cs < length (write_claims cs)"
proof (induction cs)
  case (Cons x cs)
  then show ?case by (cases x; cases "snd x") auto
qed simp

definition codec_env :: env where
  "codec_env = demo_env\<lparr>jwt_encode := (\<lambda>k a cs. write_claims cs),
     jwt_decode := (\<lambda>now k a i t. let cs = read_claims (length t) t in
       case map_of cs ''exp'' of Some (PyInt x) \<Rightarrow> if now < seconds x then Some cs else None | _ \<Rightarrow> None)\<rparr>"

lemma codec_env_ok: "jwt_codec codec_env"
  by (auto simp: jwt_codec_def codec_env_def Let_def read_written length_written map_of_stored stored_claim_def seconds_def)

section \<open>Logging out\<close>

lemma revoke_payload:
  assumes "run_state (revoke_token_from_payload cs) w = (Inr (), w')" and "tokens_ok (tokens w)"
  shows "db w' = db w" and "clock w' = clock w" and "tokens_ok (tokens w')"
    and "j \<noteq> claim_jti cs \<Longrightarrow> clock w \<le> t \<Longrightarrow> is_revoked t j (tokens w') = is_revoked t j (tokens w)"
    and "claim_jti cs \<noteq> [] \<Longrightarrow> map_of cs ''exp'' = Some (PyInt x) \<Longrightarrow> clock w \<le> t \<Longrightarrow>
      is_revoked t (claim_jti cs) (tokens w') = (t < seconds x)"
  using assms
  by (auto simp: revoke_token_from_payload_def on_tokens_def run_on_ok is_revoked_revoke is_revoked_revoke_other claim_exp_def
      intro: tokens_ok_revoke split: if_splits sum.splits)

text \<open>
  C24. After logging out, the access token is refused for good, except that nothing is claimed of the
  one second its expiry falls into, when the store forgets the revocation and the codec may still accept
  the token. (The refresh token handed in is another token.)
\<close>

theorem logout_ends_the_token:
  assumes "run_state (logout e token rt) w = (Inr (), w')" and "jwt_codec e" and "tokens_ok (tokens w)"
    and "token = create_access_token e t0 j subj [(''session_jti'', PyStr s)]" and "j \<noteq> []"
    and "\<forall>r cs. rt = Some r \<longrightarrow> decode_token e (clock w) r = Some cs \<longrightarrow> claim_jti cs \<noteq> j"
    and "clock w < expiry" and "expiry = seconds ((t0 + minutes (ACCESS_TOKEN_EXPIRE_MINUTES (core e))) div seconds 1)"
    and "clock w \<le> now" and "now < expiry \<or> expiry + seconds 1 \<le> now"
  shows "run_state (get_current_user e token) (w'\<lparr>clock := now\<rparr>) = (Inl credentials_exception, w'\<lparr>clock := now\<rparr>)"
proof (cases "now < expiry")
  case False
  then have "decode_token e now token = None"
    using assms(10) decode_created(2) [OF assms(2) disjI2 [OF refl]] unfolding assms(4,8) create_access_token_def by blast
  then show ?thesis by (simp add: get_current_user_def)
next
  case True
  let ?dur = "minutes (ACCESS_TOKEN_EXPIRE_MINUTES (core e))"
  note created = decode_created(1) [OF assms(2) disjI2 [OF refl], where dur = ?dur and ty = "''access''",
      folded create_access_token_def]
  from created [of now t0 j subj s] True assms(4,8) obtain cs1 where cs1: "decode_token e now token = Some cs1" "claim_jti cs1 = j"
    by auto
  from created [of "clock w" t0 j subj s] assms(4,7,8) obtain cs where cs: "decode_token e (clock w) token = Some cs"
    "claim_jti cs = j" "map_of cs ''exp'' = Some (PyInt ((t0 + ?dur) div seconds 1))" by auto
  have expected: "run_state (decode_expected_token e r ty) v = (Inr c, v') \<Longrightarrow> v' = v \<and> decode_token e (clock v) r = Some c" for r ty v c v'
    by (auto simp: decode_expected_token_def run_on_ok split: option.splits if_splits sum.splits)
  from assms(1) obtain c0 w1 w2 where c0: "run_state (decode_expected_token e token ''access'') w = (Inr c0, w1)"
    and r1: "run_state (revoke_token_from_payload c0) w1 = (Inr (), w2)"
    and rest: "run_state (do {
         r \<leftarrow> (if truthy rt then do {
             r \<leftarrow> decode_expected_token e (the rt) ''refresh'';
             on_ok r revoke_token_from_payload
           } else ok ());
         on_ok r (\<lambda>_. on_ok (py_int (map_of c0 ''sub'')) (\<lambda>user_id. do {
           audit_record ''user_logged_out'' (Some user_id) (Some ''session'') None ''info''
             [(''refresh_revoked'', PyBool (truthy rt))] True;
           ok ()
         }))
       }) w2 = (Inr (), w')"
    by (auto simp: logout_def run_on_ok split: prod.splits sum.splits)
  from expected [OF c0] cs(1) have c: "c0 = cs" "w1 = w" by simp_all
  note first = revoke_payload [OF r1 [unfolded c] assms(3)]
  have gone: "is_revoked now j (tokens w2)" using first(5) [of "(t0 + ?dur) div seconds 1" now] cs(2,3) assms(5,8,9) True by simp
  have "is_revoked now j (tokens w') = is_revoked now j (tokens w2)"
  proof (cases "truthy rt")
    case False
    with rest show ?thesis by (auto simp: run_on_ok split: sum.splits prod.splits dest!: audit_users)
  next
    case True
    with rest obtain c1 w3 w4 where c1: "run_state (decode_expected_token e (the rt) ''refresh'') w2 = (Inr c1, w3)"
      and r2: "run_state (revoke_token_from_payload c1) w3 = (Inr (), w4)" and w4: "tokens w' = tokens w4"
      by (auto simp: run_on_ok split: sum.splits prod.splits dest!: audit_users)
    from True have "rt = Some (the rt)" by (cases rt) (auto simp: truthy_def)
    with expected [OF c1] assms(6) first(2) have "w3 = w2" "claim_jti c1 \<noteq> j" by auto
    with revoke_payload(4) [OF r2, of j now] first(2,3) assms(9) w4 show ?thesis by simp
  qed
  with gone cs1 show ?thesis by (simp add: get_current_user_def)
qed

section \<open>Pat logs in and out\<close>

lemma codec_times:
  "(0 :: int) < seconds ((0 + minutes (ACCESS_TOKEN_EXPIRE_MINUTES (core codec_env))) div seconds 1)"
  "(0 :: int) < seconds ((0 + days (REFRESH_TOKEN_EXPIRE_DAYS (core codec_env))) div seconds 1)"
  by (simp_all add: codec_env_def demo minutes_def days_def hours_def seconds_def)

lemma login_token_identifies_witness:
  "\<exists>(tp :: token_pair) (w' :: world). run_state (get_current_user codec_env (tp_access_token tp)) w' = (Inr pat, w') \<and>
     run_state (get_current_user codec_env (tp_refresh_token tp)) w' = (Inl credentials_exception, w')"
proof -
  from decode_created(1) [OF codec_env_ok disjI1 [OF refl] codec_times(2), of "''r''" "str_int 2" "''refresh''"]
  obtain cs where cs: "decode_token codec_env 0 (create_refresh_token codec_env 0 ''r'' (str_int 2)) = Some cs"
    "claim_str cs ''jti'' = Some ''r''"
    "map_of cs ''exp'' = Some (PyInt ((0 + days (REFRESH_TOKEN_EXPIRE_DAYS (core codec_env))) div seconds 1))"
    unfolding create_refresh_token_def by blast
  have c: "clock deal_world = 0" by (simp add: demo)
  have "\<exists>tp w'. run_state (login codec_env ''r'' ''a'' (str_int 2) ''Secret12'' None) deal_world = (Inr tp, w')"
    using cs accounts_demo(3)
    by (simp add: login_def ensure_login_not_locked_def clear_failed_logins_def issue_token_pair_def on_tokens_def
        claim_exp_def py_int_def parse_int_str_int codec_env_def demo)
  then obtain tp w' where run: "run_state (login codec_env ''r'' ''a'' (str_int 2) ''Secret12'' None) deal_world = (Inr tp, w')"
    by blast
  have "\<not> is_revoked 0 ''a'' empty_token_store" by (simp add: is_revoked_def empty_token_store_def)
  from login_token_identifies [OF run accounts_demo(1) codec_env_ok, unfolded c, OF codec_times this]
  have "\<exists>v. run_state (get_current_user codec_env (tp_access_token tp)) v = (Inr (pat\<lparr>u_failed_login_attempts := 0, u_locked_until := None\<rparr>), v) \<and>
     run_state (get_current_user codec_env (tp_refresh_token tp)) v = (Inl credentials_exception, v)"
    using accounts_demo(3) by (auto simp: Let_def)
  then show ?thesis by (auto simp: demo_user_def)
qed

lemma logout_ends_the_token_witness:
  "\<exists>token (w' :: world). run_state (get_current_user codec_env token) w' = (Inl credentials_exception, w')"
proof -
  let ?t = "create_access_token codec_env 0 ''a'' (str_int 2) [(''session_jti'', PyStr ''r'')]"
  from decode_created(1) [OF codec_env_ok disjI2 [OF refl] codec_times(1), of "''a''" "str_int 2" "''access''" "''r''"]
  obtain cs where cs: "decode_token codec_env 0 ?t = Some cs" "map_of cs ''sub'' = Some (PyStr (str_int 2))"
    "map_of cs ''type'' = Some (PyStr ''access'')" "claim_jti cs = ''a''"
    "map_of cs ''exp'' = Some (PyInt ((0 + minutes (ACCESS_TOKEN_EXPIRE_MINUTES (core codec_env))) div seconds 1))"
    unfolding create_access_token_def by blast
  have c: "clock deal_world = 0" "tokens_ok (tokens deal_world)" by (simp_all add: demo tokens_ok_def)
  have fresh: "\<not> is_revoked 0 ''a'' (tokens deal_world)" by (simp add: demo is_revoked_def)
  have "\<exists>w'. run_state (logout codec_env ?t None) deal_world = (Inr (), w')"
    using cs c fresh codec_times(1)
    by (simp add: logout_def decode_expected_token_def revoke_token_from_payload_def on_tokens_def claim_exp_def
      py_int_def parse_int_str_int run_on_ok audit_request_def audit_create_def Let_def)
  then obtain w' where run: "run_state (logout codec_env ?t None) deal_world = (Inr (), w')" by blast
  have "run_state (get_current_user codec_env ?t) (w'\<lparr>clock := 0\<rparr>) = (Inl credentials_exception, w'\<lparr>clock := 0\<rparr>)"
    by (rule logout_ends_the_token [OF run codec_env_ok c(2) refl _ _ _ refl]) (use c codec_times(1) in simp_all)
  then show ?thesis by blast
qed

section \<open>Resetting a password\<close>

lemma run_revoke_payload:
  "run_state (revoke_token_from_payload cs) w = (Inr (), w') \<Longrightarrow>
     db w' = db w \<and> durable w' = durable w \<and> clock w' = clock w \<and>
     (tokens w' = tokens w \<or> (\<exists>t. tokens w' = revoke_token (clock w) (claim_jti cs) t (tokens w)))"
  by (auto simp: revoke_token_from_payload_def on_tokens_def run_on_ok split: if_splits sum.splits)

text \<open>
  C22. A password reset stores the new hash and ends every session of the account: none is listed any
  more and the id of each is revoked for as long as it would have run. It does nothing to any other
  id but the reset token's own: an access token issued before the reset is as good as it was.
\<close>

theorem reset_ends_the_sessions:
  assumes "run_state (reset_password e salt token new_password) w = (Inr (), w')" and "accounts_ok (db w)"
    and "store_ok (tokens w)" and "decode_token e (clock w) token = Some cs"
    and "map_of cs ''sub'' = Some (PyStr (str_int (u_id u)))" and "get_user (u_id u) (db w) = Some u"
    and "map_of (ts_sessions (tokens w)) (claim_jti cs) = None" and "clock w \<le> t"
  shows "get_user (u_id u) (durable w') = Some (u\<lparr>u_hashed_password := pwd_hash e salt new_password\<rparr>) \<and>
    list_sessions t (u_id u) (tokens w') = [] \<and>
    (\<forall>j s. map_of (ts_sessions (tokens w)) j = Some s \<longrightarrow> s_user_id s = u_id u \<longrightarrow> clock w < s_expires_at s \<longrightarrow>
       is_revoked t j (tokens w') = (t < s_expires_at s)) \<and>
    (\<forall>j. map_of (ts_sessions (tokens w)) j = None \<longrightarrow> j \<noteq> claim_jti cs \<longrightarrow>
       is_revoked t j (tokens w') = is_revoked t j (tokens w))"
proof -
  let ?u = "u\<lparr>u_hashed_password := pwd_hash e salt new_password\<rparr>"
  have expected: "run_state (decode_expected_token e token ''reset'') w = (Inr c, v) \<Longrightarrow> v = w \<and> c = cs" for c v
    using assms(4) by (auto simp: decode_expected_token_def run_on_ok split: option.splits if_splits sum.splits)
  have save: "run_state (user_save ?u) w = (Inr ?u, w\<lparr>db := put_user ?u (db w)\<rparr>)"
    using assms(2,6) by (intro run_user_save [where u = u]) simp_all
  from assms(1) obtain v where dec: "run_state (decode_expected_token e token ''reset'') w = (Inr cs, w)"
    by (auto simp: reset_password_def run_on_ok split: prod.splits sum.splits dest: expected)
  let ?w0 = "w\<lparr>db := put_user ?u (db w), durable := put_user ?u (db w)\<rparr>"
  obtain r w1 where r: "run_state (revoke_token_from_payload cs) ?w0 = (r, w1)" by fastforce
  obtain x w2 where w2: "run_state (record_auth ''password_reset_completed'' ''success'')
      (w1\<lparr>tokens := revoke_user_sessions (clock w1) (u_id u) (tokens w1)\<rparr>) = (x, w2)"
    by (rule that [OF prod.collapse [symmetric]])
  obtain y w3 where w3: "run_state (audit_entity ''password_reset_completed'' (u_id u) ''user'' (u_id u) [] True) w2 = (y, w3)"
    by fastforce
  have "r = Inr () \<and> w' = w3"
    using assms(1,5,6) dec save r w2 w3
    by (cases r) (simp_all add: reset_password_def run_on_ok py_int_def parse_int_str_int or_rollback_Inr on_tokens_def)
  with r have r: "run_state (revoke_token_from_payload cs) ?w0 = (Inr (), w1)" and w': "w' = w3" by simp_all
  note first = run_revoke_payload [OF r]
  let ?T = "tokens w1"
  have T': "tokens w' = revoke_user_sessions (clock w) (u_id u) ?T" and d': "users_t (durable w') = users_t (put_user ?u (db w))"
    using audit_users [OF w3] record_auth_users [OF w2] first w' by simp_all
  have "get_user (u_id u) (durable w') = Some ?u"
    using user_store.get_put_same [OF assms(6), of ?u] same_users [OF d', of "u_id u"] by simp
  moreover obtain T: "store_ok ?T" "\<And>j. j \<noteq> claim_jti cs \<Longrightarrow> is_revoked t j ?T = is_revoked t j (tokens w)"
    "\<And>j. map_of (ts_sessions (tokens w)) j = None \<Longrightarrow> map_of (ts_sessions ?T) j = None"
    "\<And>j s. map_of (ts_sessions (tokens w)) j = Some s \<Longrightarrow> clock w < s_expires_at s \<Longrightarrow> map_of (ts_sessions ?T) j = Some s"
  proof -
    have "?T = tokens w \<or> (\<exists>x. ?T = revoke_token (clock w) (claim_jti cs) x (tokens w))" using first by simp
    then show ?thesis using that revoke_other_id [OF assms(3,7,8)] assms(3) by auto
  qed
  ultimately show ?thesis
    unfolding T' using user_sessions_ended [OF T(1) assms(8), where u = "u_id u"] by auto
qed

text \<open>Pat has one session, \<open>''r''\<close>, and resets the password with the token \<open>''x''\<close>.\<close>

lemma reset_ends_the_sessions_witness:
  "\<exists>w' :: world. list_sessions 7 2 (tokens w') = [] \<and> is_revoked 7 ''r'' (tokens w') \<and> \<not> is_revoked 7 ''a'' (tokens w')"
proof -
  define s where "s = \<lparr>s_jti = ''r'', s_user_id = 2, s_issued_at = 0, s_expires_at = 9, s_user_agent = None, s_ip_address = None\<rparr>"
  define w where "w = deal_world\<lparr>tokens := register_session 0 s empty_token_store\<rparr>"
  have empty: "store_ok empty_token_store" "fits_session s empty_token_store"
    by (simp_all add: store_ok_def fits_session_def user_session_ids_def empty_token_store_def)
  have t: "ts_sessions (tokens w) = [(''r'', s)]" "ts_tokens (tokens w) = []"
    by (simp_all add: w_def register_session_def empty_token_store_def prune_expired_def prune_session_def s_def)
  have ok: "store_ok (tokens w)" using register_law(2) [OF empty] by (simp add: w_def)
  have w: "clock w = 0" "accounts_ok (db w)" "get_user 2 (db w) = Some pat" "db w = durable w"
    using accounts_demo(1,2) by (simp_all add: w_def demo)
  have u: "u_id pat = 2" by (simp add: demo_user_def)
  let ?t = "create_reset_token codec_env 0 ''x'' (str_int 2)"
  have time: "(0 :: int) < seconds ((0 + minutes (RESET_TOKEN_EXPIRE_MINUTES (core codec_env))) div seconds 1)"
    by (simp add: codec_env_def demo minutes_def seconds_def)
  from decode_created(1) [OF codec_env_ok disjI1 [OF refl] time, of "''x''" "str_int 2" "''reset''"]
  obtain cs where cs: "decode_token codec_env 0 ?t = Some cs" "map_of cs ''sub'' = Some (PyStr (str_int 2))"
    "map_of cs ''type'' = Some (PyStr ''reset'')" "claim_jti cs = ''x''"
    "map_of cs ''exp'' = Some (PyInt ((0 + minutes (RESET_TOKEN_EXPIRE_MINUTES (core codec_env))) div seconds 1))"
    unfolding create_reset_token_def by blast
  have fresh: "\<not> is_revoked 0 ''x'' (tokens w)" by (simp add: is_revoked_def t)
  have save: "run_state (user_save (pat\<lparr>u_hashed_password := p\<rparr>)) w =
      (Inr (pat\<lparr>u_hashed_password := p\<rparr>), w\<lparr>db := put_user (pat\<lparr>u_hashed_password := p\<rparr>) (db w)\<rparr>)" for p
    using w u by (intro run_user_save [where u = pat]) simp_all
  have "\<exists>w'. run_state (reset_password codec_env [] ?t ''Other123'') w = (Inr (), w')"
    using cs fresh time w u save
    by (simp add: reset_password_def decode_expected_token_def revoke_token_from_payload_def on_tokens_def claim_exp_def
        py_int_def parse_int_str_int run_on_ok run_or_rollback split: prod.splits)
  then obtain w' where run: "run_state (reset_password codec_env [] ?t ''Other123'') w = (Inr (), w')" by blast
  have "map_of (ts_sessions (tokens w)) (claim_jti cs) = None" using t cs(4) by simp
  from reset_ends_the_sessions [OF run w(2) ok _ _ _ this, where u = pat and t = 7]
  have "list_sessions 7 2 (tokens w') = []" "is_revoked 7 ''r'' (tokens w')" "is_revoked 7 ''a'' (tokens w') = is_revoked 7 ''a'' (tokens w)"
    using w u cs t by (simp_all add: s_def)
  moreover have "\<not> is_revoked 7 ''a'' (tokens w)" by (simp add: is_revoked_def t)
  ultimately show ?thesis by blast
qed

end
