(* ===== verification/AssistantFacts.thy ===== *)
theory AssistantFacts
  imports Assistant Demo
begin

text \<open>
  What the assistant promises: whatever a provider answers, a draft that gets through is within the bounds
  of the ride form, and nothing is written; what the built-in provider answers, and when it has no answer
  because a place it cut out of the prompt is too short for its own schema; and who gets a chat suggestion,
  with which warning.
\<close>

section \<open>Fields\<close>

lemma field_checked: "field read check dflt kvs k = Inr x \<Longrightarrow> dflt = Some x \<or> check x"
  by (auto simp: field_def split: option.splits if_splits)

lemma optional_field_checked: "optional_field read check kvs k = Inr (Some y) \<Longrightarrow> check y"
  by (auto simp: optional_field_def dest!: field_checked)

text \<open>A field that is present with a value that can be read.\<close>

lemma field_present:
  "map_of kvs k = Some v \<Longrightarrow> read v = Some x \<Longrightarrow>
     field read check dflt kvs k = (if check x then Inr x else Inl (ValidationError k))"
  by (simp add: field_def)

lemma optional_field_present:
  assumes "map_of kvs k = Some (py_opt f x)" and "\<And>y. x = Some y \<Longrightarrow> f y \<noteq> PyNone \<and> read (f y) = Some (g y)"
  shows "optional_field read check kvs k =
    (if \<forall>y. x = Some y \<longrightarrow> check (g y) then Inr (map_option g x) else Inl (ValidationError k))"
proof (cases x)
  case None
  then show ?thesis using assms(1) by (simp add: optional_field_def field_def nullable_def py_opt_def)
next
  case (Some y)
  with assms(2) have "nullable read (f y) = Some (Some (g y))" by (cases "f y") (simp_all add: nullable_def)
  with Some assms(1) show ?thesis by (simp add: optional_field_def field_def py_opt_def)
qed

lemma all_strings_map [simp]: "all_strings (map PyStr ss) = Some ss"
  by (induction ss) (simp_all add: py_string_def)

lemma py_strings_map [simp]: "py_strings (PyList (map PyStr ss)) = Some ss"
  by (simp add: py_strings_def)

section \<open>Any provider\<close>

definition draft_ok :: "ride_draft \<Rightarrow> bool" where
  "draft_ok d \<longleftrightarrow>
     (\<forall>x. rd_origin d = Some x \<longrightarrow> place_ok x) \<and> (\<forall>x. rd_destination d = Some x \<longrightarrow> place_ok x) \<and>
     (\<forall>n. rd_available_seats d = Some n \<longrightarrow> seats_ok n) \<and> (\<forall>p. rd_price_per_seat d = Some p \<longrightarrow> price_valid p) \<and>
     (\<forall>v. rd_vehicle_details d = Some v \<longrightarrow> length v \<le> 150) \<and> (\<forall>n. rd_notes d = Some n \<longrightarrow> length n \<le> 500) \<and>
     confidence_ok (rd_confidence d)"

lemma validate_ride_draft_ok: "validate_ride_draft c v = Inr d \<Longrightarrow> draft_ok d"
  by (auto simp: validate_ride_draft_def and_then_ok draft_ok_def length_between_def confidence_ok_def
      split: py.splits dest!: optional_field_checked dest: field_checked)

lemma checked_answer_ok:
  "run_state (checked_answer ask check p) w = (Inr x, w') \<Longrightarrow> \<exists>v. check v = Inr x"
  by (auto simp: checked_answer_def and_then_ok split: prod.splits)

lemma assisted_ok:
  assumes "run_state (assisted e ask check p) w = (Inr a, w')"
  shows "(\<exists>v. check v = Inr (an_result a)) \<and>
    (an_used_fallback a \<longrightarrow> an_provider a = ''mock'' \<and> AI_FALLBACK_TO_MOCK (ai e)) \<and>
    (\<not> an_used_fallback a \<longrightarrow> an_provider a = provider_name p)"
proof -
  obtain r v where r: "run_state (checked_answer ask check p) w = (r, v)" by fastforce
  show ?thesis
  proof (cases r)
    case (Inr x)
    with assms r checked_answer_ok [of ask check p w x v] show ?thesis
      by (auto simp: assisted_def answer_from_def)
  next
    case (Inl x)
    obtain r' v' where r': "run_state (checked_answer ask check MockAIProvider) v = (r', v')" by fastforce
    from assms r r' Inl checked_answer_ok [of ask check MockAIProvider v _ v'] show ?thesis
      by (cases r') (auto simp: assisted_def answer_from_def split: if_splits)
  qed
qed

lemma create_ride_draft_ok:
  assumes "run_state (create_ride_draft e q) w = (Inr a, w')"
  shows "draft_ok (an_result a)"
proof -
  from assms obtain p where "run_state (assisted e (ask_ride_draft e q) (validate_ride_draft (coerce e)) p) w = (Inr a, w')"
    by (auto simp: create_ride_draft_def run_on_ok split: sum.splits)
  from assisted_ok [OF this] validate_ride_draft_ok show ?thesis by blast
qed

text \<open>
  C35. A complete draft can be published: whatever the language model answers to the prompt, when the
  assistant returns a draft in which route, departure, seats and price are filled in, the form made of it
  passes the validation of a new ride (a place of 2 to 120 characters, 1 to 10 seats, a price with two
  decimals, a vehicle text of at most 150). A draft that came from the fallback says so by its provider. And
  asking changes neither the session nor the committed data, whether an answer comes or not.
\<close>

theorem any_draft_is_publishable:
  assumes "run_state (create_ride_draft e q) w = (r, w')"
  shows "db w' = db w \<and> durable w' = durable w \<and>
    (\<forall>a from_place to_place t n p. r = Inr a \<and>
       rd_origin (an_result a) = Some from_place \<and> rd_destination (an_result a) = Some to_place \<and>
       rd_departure_time (an_result a) = Some t \<and> rd_available_seats (an_result a) = Some n \<and>
       rd_price_per_seat (an_result a) = Some p \<longrightarrow>
       (an_used_fallback a \<longrightarrow> an_provider a = ''mock'') \<and>
       ride_create_valid
         \<lparr>rf_origin = from_place, rf_destination = to_place, rf_origin_latitude = None, rf_origin_longitude = None,
          rf_destination_latitude = None, rf_destination_longitude = None, rf_departure_time = t,
          rf_available_seats = n, rf_price_per_seat = p, rf_vehicle_details = rd_vehicle_details (an_result a),
          rf_notes = rd_notes (an_result a)\<rparr>)"
proof -
  have kept: "db w' = db w" "durable w' = durable w"
    using keepsD [OF keeps_assistant(1) assms, of db] keepsD [OF keeps_assistant(1) assms, of durable] by simp_all
  have "draft_ok (an_result a) \<and> (an_used_fallback a \<longrightarrow> an_provider a = ''mock'')" if "r = Inr a" for a
  proof -
    from assms that obtain p where "run_state (assisted e (ask_ride_draft e q) (validate_ride_draft (coerce e)) p) w = (Inr a, w')"
      by (auto simp: create_ride_draft_def run_on_ok split: sum.splits)
    from assisted_ok [OF this] validate_ride_draft_ok show ?thesis by blast
  qed
  with kept show ?thesis
    by (auto simp: draft_ok_def place_ok_def length_between_def seats_ok_def ride_create_valid_def ride_fields_valid_def
        in_bounds_def split: option.splits)
qed

section \<open>The built-in provider\<close>

text \<open>
  What the answers of the built-in provider need of pydantic: it takes an integer, a float and a truth value
  as they are, reads the decimal digits of a number back, and the ISO form of an instant that a \<open>datetime\<close>
  can hold.
\<close>

definition reads_back :: "coercions \<Rightarrow> bool" where
  "reads_back c \<longleftrightarrow>
     (\<forall>i. as_int c (PyInt i) = Some i) \<and> (\<forall>x. as_float c (PyFloat x) = Some x) \<and>
     (\<forall>b. as_bool c (PyBool b) = Some b) \<and> (\<forall>i. as_decimal c (PyStr (str_int i)) = Some (of_int i)) \<and>
     (\<forall>t. representable t \<longrightarrow> as_datetime c (PyStr (isoformat t)) = Some t)"

lemma confidence_of_ok: "0 \<le> k \<Longrightarrow> confidence_ok (confidence_of k ms)"
  by (auto simp: confidence_ok_def confidence_of_def)

lemma whole_price_valid: "0 \<le> p \<Longrightarrow> p < 10 ^ 6 \<Longrightarrow> price_valid (of_int p)"
proof -
  assume p: "0 \<le> p" "p < 10 ^ 6"
  then have "(of_int p :: rat) < of_int (10 ^ 6)" by (simp only: of_int_less_iff)
  moreover have "(of_int p :: rat) * 100 = of_int (p * 100)" by simp
  then have "(of_int p :: rat) * 100 = of_int \<lfloor>of_int p * 100 :: rat\<rfloor>" by (metis floor_of_int)
  ultimately show ?thesis using p(1) by (simp add: price_valid_def)
qed

text \<open>The departures that a prompt sent at \<open>now\<close> can name lie within the next days.\<close>

definition near :: "instant \<Rightarrow> bool" where
  "near now \<longleftrightarrow> representable (now - days 1) \<and> representable (now + days 3)"

lemma near_representable: "near now \<Longrightarrow> now - days 1 \<le> t \<Longrightarrow> t \<le> now + days 3 \<Longrightarrow> representable t"
  by (auto simp: near_def representable_def)

lemma today_bounds: "days (now div days 1) \<le> now \<and> now < days (now div days 1) + days 1"
  using div_bounds [of "days 1" now] by (simp add: unit_values)

lemma named_day_cases: "named_day now t = Some d \<Longrightarrow> d = now div days 1 \<or> d = now div days 1 + 1"
  by (auto simp: named_day_def Let_def split: if_splits)

lemma departure_representable:
  assumes "near now" "extract_departure_time now t = Some x"
  shows "representable x"
proof -
  from extract_departure_on_day [OF assms(2)] obtain d where d: "days d \<le> x" "x < days (d + 1)"
    and "named_day now t = Some d \<or> d = now div days 1" by blast
  then have "d = now div days 1 \<or> d = now div days 1 + 1" using named_day_cases by blast
  then have "now - days 1 \<le> x" "x \<le> now + days 3"
    using d today_bounds [of now] by (auto simp: unit_values)
  with assms(1) show ?thesis by (rule near_representable)
qed

text \<open>The two places of a prompt are long enough for the schema.\<close>

definition places_fit :: "string \<Rightarrow> bool" where
  "places_fit t \<longleftrightarrow>
     (case extract_route t of (a, b) \<Rightarrow> (\<forall>x. a = Some x \<longrightarrow> 2 \<le> length x) \<and> (\<forall>x. b = Some x \<longrightarrow> 2 \<le> length x))"

text \<open>The draft that is read out of a prompt.\<close>

definition draft_of :: "instant \<Rightarrow> string \<Rightarrow> ride_draft" where
  "draft_of now t =
     (let ms = missing [(''origin'', fst (extract_route t) = None), (''destination'', snd (extract_route t) = None),
                 (''departure_time'', extract_departure_time now t = None), (''available_seats'', extract_seats t = None),
                 (''price_per_seat'', extract_price t = None), (''vehicle_details'', extract_vehicle t = None)]
      in \<lparr>rd_origin = fst (extract_route t), rd_destination = snd (extract_route t),
          rd_departure_time = extract_departure_time now t, rd_available_seats = extract_seats t,
          rd_price_per_seat = map_option of_int (extract_price t), rd_vehicle_details = extract_vehicle t,
          rd_notes = Some (build_notes t), rd_missing_fields = ms, rd_confidence = confidence_of (1 / 10) ms,
          rd_safety_notes = [''Confirm exact pickup point before publishing.'',
            ''Avoid sharing private payment details in notes.'']\<rparr>)"

lemma validate_mock_draft:
  assumes c: "reads_back c" and now: "near now"
  shows "\<exists>k. validate_ride_draft c (mock_ride_draft now q) =
    (if places_fit (one_spaced (ar_prompt q)) then Inr (draft_of now (one_spaced (ar_prompt q))) else Inl (ValidationError k))"
proof -
  define t where "t = one_spaced (ar_prompt q)"
  obtain a b where ab: "extract_route t = (a, b)" by (cases "extract_route t")
  note r = extract_route_bounds [OF ab]
  have places: "(\<forall>y. x = Some y \<longrightarrow> place_ok y) \<longleftrightarrow> (\<forall>y. x = Some y \<longrightarrow> 2 \<le> length y)" if "x \<in> {a, b}" for x
    using that r by (auto simp: place_ok_def length_between_def intro: order_trans)
  have seats: "\<forall>n. extract_seats t = Some n \<longrightarrow> seats_ok n"
    using extract_seats_bounds by (auto simp: seats_ok_def)
  have price: "\<forall>p. extract_price t = Some p \<longrightarrow> price_valid (of_int p)"
    using extract_price_bounds whole_price_valid by blast
  have vehicle: "\<forall>v. extract_vehicle t = Some v \<longrightarrow> length_between 0 150 v"
    using extract_vehicle_length by (force simp: length_between_def)
  have note_len: "length_between 0 500 (build_notes t)"
    using length_build_notes [of t] by (simp add: length_between_def)
  have departure: "\<forall>x. extract_departure_time now t = Some x \<longrightarrow> as_datetime c (PyStr (isoformat x)) = Some x"
    using departure_representable [OF now] c by (auto simp: reads_back_def)
  define ms where "ms = missing [(''origin'', a = None), (''destination'', b = None),
    (''departure_time'', extract_departure_time now t = None), (''available_seats'', extract_seats t = None),
    (''price_per_seat'', extract_price t = None), (''vehicle_details'', extract_vehicle t = None)]"
  obtain kvs where v: "mock_ride_draft now q = PyDict kvs"
    and kvs: "map_of kvs ''origin'' = Some (py_opt PyStr a)" "map_of kvs ''destination'' = Some (py_opt PyStr b)"
      "map_of kvs ''departure_time'' = Some (py_opt (PyStr \<circ> isoformat) (extract_departure_time now t))"
      "map_of kvs ''available_seats'' = Some (py_opt PyInt (extract_seats t))"
      "map_of kvs ''price_per_seat'' = Some (py_opt (PyStr \<circ> str_int) (extract_price t))"
      "map_of kvs ''vehicle_details'' = Some (py_opt PyStr (extract_vehicle t))"
      "map_of kvs ''notes'' = Some (PyStr (build_notes t))"
      "map_of kvs ''missing_fields'' = Some (PyList (map PyStr ms))"
      "map_of kvs ''confidence'' = Some (PyFloat (confidence_of (1 / 10) ms))"
      "map_of kvs ''safety_notes'' = Some (PyList (map PyStr [''Confirm exact pickup point before publishing.'',
            ''Avoid sharing private payment details in notes.'']))"
    by (simp add: mock_ride_draft_def t_def [symmetric] ab Let_def ms_def)
  have note_fld: "optional_field py_string (length_between 0 500) kvs ''notes'' = Inr (Some (build_notes t))"
    using kvs(7) note_len by (simp add: optional_field_def field_def nullable_def py_string_def)
  have texts: "field py_strings (\<lambda>_. True) d kvs ''missing_fields'' = Inr ms" for d
    using kvs(8) by (simp add: field_present)
  have safety: "field py_strings (\<lambda>_. True) d kvs ''safety_notes'' = Inr [''Confirm exact pickup point before publishing.'',
            ''Avoid sharing private payment details in notes.'']" for d
    using kvs(10) by (simp add: field_def py_strings_def py_string_def)
  have conf: "field (as_float c) confidence_ok d kvs ''confidence'' = Inr (confidence_of (1 / 10) ms)" for d
    using kvs(9) c confidence_of_ok by (simp add: field_present [of _ _ "PyFloat (confidence_of (1 / 10) ms)"] reads_back_def)
  have pl: "optional_field py_string place_ok kvs k =
      (if \<forall>y. x = Some y \<longrightarrow> 2 \<le> length y then Inr x else Inl (ValidationError k))"
    if "map_of kvs k = Some (py_opt PyStr x)" "x \<in> {a, b}" for k x
    using optional_field_present [of kvs k PyStr x py_string "\<lambda>y. y"] that places [OF that(2)]
    by (simp add: py_string_def option.map_ident)
  have dep: "optional_field (as_datetime c) (\<lambda>_. True) kvs ''departure_time'' = Inr (extract_departure_time now t)"
    using optional_field_present [of kvs _ "PyStr \<circ> isoformat" _ "as_datetime c" "\<lambda>y. y"] kvs(3) departure
    by (simp add: option.map_ident)
  have st: "optional_field (as_int c) seats_ok kvs ''available_seats'' = Inr (extract_seats t)"
    using optional_field_present [of kvs _ PyInt _ "as_int c" "\<lambda>y. y"] kvs(4) seats c
    by (simp add: option.map_ident reads_back_def)
  have pr: "optional_field (as_decimal c) price_valid kvs ''price_per_seat'' = Inr (map_option of_int (extract_price t))"
    using optional_field_present [of kvs _ "PyStr \<circ> str_int" _ "as_decimal c" of_int] kvs(5) price c
    by (simp add: reads_back_def)
  have ve: "optional_field py_string (length_between 0 150) kvs ''vehicle_details'' = Inr (extract_vehicle t)"
    using optional_field_present [of kvs _ PyStr _ py_string "\<lambda>y. y"] kvs(6) vehicle
    by (simp add: option.map_ident py_string_def)
  show ?thesis
    unfolding v t_def [symmetric]
    using pl [OF kvs(1)] pl [OF kvs(2)]
    by (auto simp: validate_ride_draft_def places_fit_def ab dep st pr ve note_fld texts safety conf draft_of_def ms_def Let_def)
qed

lemma mock_provider: "AI_PROVIDER (delivery e) \<noteq> ''openai'' \<Longrightarrow> get_ai_provider e = Inr MockAIProvider"
  by (simp add: get_ai_provider_def)

text \<open>When the built-in provider is the configured one, the fallback only asks it again.\<close>

lemma assisted_mock:
  assumes ask: "run_state (ask MockAIProvider) w = (Inr v, w)"
  shows "run_state (assisted e ask check MockAIProvider) w =
    (case check v of
       Inr x \<Rightarrow> (Inr (answer_from MockAIProvider False x), w)
     | Inl x \<Rightarrow> (Inl (if provider_failed x \<and> \<not> AI_FALLBACK_TO_MOCK (ai e)
                 then HTTPException 503 ''AI assistant is temporarily unavailable'' else x), w))"
  using ask by (cases "check v") (auto simp: assisted_def checked_answer_def)

lemma ask_mock_draft: "run_state (ask_ride_draft e q MockAIProvider) w = (Inr (mock_ride_draft (clock w) q), w)"
  by (simp add: ask_ride_draft_def)

lemma mock_draft_run:
  assumes "AI_PROVIDER (delivery e) \<noteq> ''openai''" and c: "reads_back (coerce e)" and now: "near (clock w)"
  shows "\<exists>r. run_state (create_ride_draft e q) w = (r, w) \<and>
    (if places_fit (one_spaced (ar_prompt q))
     then r = Inr (answer_from MockAIProvider False (draft_of (clock w) (one_spaced (ar_prompt q))))
     else if AI_FALLBACK_TO_MOCK (ai e) then (\<exists>k. r = Inl (ValidationError k))
     else r = Inl (HTTPException 503 ''AI assistant is temporarily unavailable''))"
proof -
  obtain k where k: "validate_ride_draft (coerce e) (mock_ride_draft (clock w) q) =
      (if places_fit (one_spaced (ar_prompt q)) then Inr (draft_of (clock w) (one_spaced (ar_prompt q)))
       else Inl (ValidationError k))"
    using validate_mock_draft [OF c now] by blast
  have "run_state (create_ride_draft e q) w =
      run_state (assisted e (ask_ride_draft e q) (validate_ride_draft (coerce e)) MockAIProvider) w"
    using mock_provider [OF assms(1)] by (simp add: create_ride_draft_def)
  also have "\<dots> = (case validate_ride_draft (coerce e) (mock_ride_draft (clock w) q) of
       Inr x \<Rightarrow> (Inr (answer_from MockAIProvider False x), w)
     | Inl x \<Rightarrow> (Inl (if provider_failed x \<and> \<not> AI_FALLBACK_TO_MOCK (ai e)
                 then HTTPException 503 ''AI assistant is temporarily unavailable'' else x), w))"
    by (rule assisted_mock, rule ask_mock_draft)
  finally show ?thesis unfolding k by (auto simp: provider_failed_def)
qed

text \<open>
  What the built-in assistant answers: when both places that it cuts out of the prompt have two
  characters at least, it answers with the draft read out of the prompt (route, departure, seats, price,
  vehicle, the list of what was not found, and a confidence that falls with it), and that draft always passes
  its own schema. When a place is shorter, as in "from ., to Pune", the schema refuses it, the fallback asks
  the same provider again, and the request ends with the uncaught \<open>ValidationError\<close> (or with 503 when the
  fallback is off).
\<close>

theorem assistant_reads_prompt:
  assumes "AI_PROVIDER (delivery e) \<noteq> ''openai''" and c: "reads_back (coerce e)" and now: "near (clock w)"
  shows "\<exists>r. run_state (create_ride_draft e q) w = (r, w) \<and>
    (if places_fit (one_spaced (ar_prompt q))
     then r = Inr (answer_from MockAIProvider False (draft_of (clock w) (one_spaced (ar_prompt q))))
     else if AI_FALLBACK_TO_MOCK (ai e) then (\<exists>k. r = Inl (ValidationError k))
     else r = Inl (HTTPException 503 ''AI assistant is temporarily unavailable''))"
  by (rule mock_draft_run [OF assms])

section \<open>Chat suggestions\<close>

lemma validate_mock_chat:
  assumes "reads_back c"
  shows "validate_chat_suggestion c (mock_chat_suggestion i m role b) =
    (if length_between 1 500 (chat_text i role b)
     then Inr \<lparr>cs_suggestion = chat_text i role b, cs_tone = (if sensitive m then Safety_warning else Polite),
       cs_should_warn = sensitive m,
       cs_safety_notes = otp_note # (if sensitive m then [sensitive_note] else [])\<rparr>
     else Inl (ValidationError ''suggestion''))"
  using assms
  by (simp add: validate_chat_suggestion_def mock_chat_suggestion_def Let_def field_def py_string_def py_strings_def
      read_tone_def reads_back_def)

lemma chat_text_nonempty: "chat_text i role b \<noteq> []"
  by (cases i) (auto simp: chat_text_def Let_def)

lemma validate_chat_ok: "validate_chat_suggestion c v = Inr x \<Longrightarrow> length_between 1 500 (cs_suggestion x)"
  by (auto simp: validate_chat_suggestion_def and_then_ok split: py.splits dest: field_checked)

text \<open>
  A chat suggestion is for the two people of a booking: anyone else is refused with 403 before a
  provider is asked, so that nothing about the booking leaves the server; a suggestion that is returned was
  asked for by the driver of the ride or the passenger, has 1 to 500 characters, and comes with the summary
  of that booking; and when the built-in provider wrote it, it warns exactly if the draft message mentions a
  one-time password, a card or a PIN. Nothing is written.
\<close>

theorem chat_suggestion_private:
  assumes run: "run_state (suggest_chat_reply e q u) w = (r, w')" and p: "get_ai_provider e = Inr p"
    and b: "get_booking (cq_booking_id q) (db w) = Some b" and ride: "ride_of b (db w) = Some ride"
  shows "db w' = db w \<and> durable w' = durable w \<and>
    (u_id u \<notin> {r_driver_id ride, b_passenger_id b} \<longrightarrow> r = Inl (HTTPException 403 ''Chat access denied'') \<and> w' = w) \<and>
    (\<forall>s a. r = Inr (s, a) \<longrightarrow>
       u_id u \<in> {r_driver_id ride, b_passenger_id b} \<and> s = booking_summary b ride \<and>
       length_between 1 500 (cs_suggestion (an_result a)) \<and>
       (p = MockAIProvider \<and> reads_back (coerce e) \<longrightarrow>
          (cs_should_warn (an_result a) \<longleftrightarrow> sensitive (cq_draft_message q))))"
proof -
  let ?role = "if u_id u = r_driver_id ride then ''driver'' else ''passenger''"
  let ?ask = "ask_chat_suggestion e q ?role (chat_context b ride ?role)"
  let ?check = "validate_chat_suggestion (coerce e)"
  have kept: "db w' = db w" "durable w' = durable w"
    using keepsD [OF keeps_assistant(3) run, of db] keepsD [OF keeps_assistant(3) run, of durable] by simp_all
  have denied: "r = Inl (HTTPException 403 ''Chat access denied'') \<and> w' = w"
    if "u_id u \<notin> {r_driver_id ride, b_passenger_id b}"
    using run that by (simp add: suggest_chat_reply_def p b ride deref_def)
  have "u_id u \<in> {r_driver_id ride, b_passenger_id b} \<and> s = booking_summary b ride \<and>
       length_between 1 500 (cs_suggestion (an_result a)) \<and>
       (p = MockAIProvider \<and> reads_back (coerce e) \<longrightarrow>
          (cs_should_warn (an_result a) \<longleftrightarrow> sensitive (cq_draft_message q)))" if r: "r = Inr (s, a)" for s a
  proof -
    have part: "u_id u \<in> {r_driver_id ride, b_passenger_id b}" using denied r by blast
    obtain r1 w1 where a1: "run_state (assisted e ?ask ?check p) w = (r1, w1)" by fastforce
    from run r part a1 have s: "r1 = Inr a" "s = booking_summary b ride"
      by (auto simp: suggest_chat_reply_def p b ride deref_def Let_def run_on_ok split: sum.splits if_splits)
    from assisted_ok [OF a1 [unfolded s(1)]] validate_chat_ok
    have len: "length_between 1 500 (cs_suggestion (an_result a))" by blast
    have "cs_should_warn (an_result a) \<longleftrightarrow> sensitive (cq_draft_message q)"
      if m: "p = MockAIProvider" and c: "reads_back (coerce e)"
    proof -
      have ask: "run_state (?ask MockAIProvider) x =
          (Inr (mock_chat_suggestion (cq_intent q) (cq_draft_message q) ?role (chat_context b ride ?role)), x)" for x
        by (simp add: ask_chat_suggestion_def)
      have "run_state (assisted e ?ask ?check MockAIProvider) w =
        (case ?check (mock_chat_suggestion (cq_intent q) (cq_draft_message q) ?role (chat_context b ride ?role)) of
           Inr x \<Rightarrow> (Inr (answer_from MockAIProvider False x), w)
         | Inl x \<Rightarrow> (Inl (if provider_failed x \<and> \<not> AI_FALLBACK_TO_MOCK (ai e)
             then HTTPException 503 ''AI assistant is temporarily unavailable'' else x), w))"
        by (rule assisted_mock, rule ask)
      with a1 show ?thesis
        unfolding m s(1) validate_mock_chat [OF c]
        by (auto simp: answer_from_def split: if_splits)
    qed
    with part s(2) len show ?thesis by blast
  qed
  with kept denied show ?thesis by blast
qed

section \<open>Witnesses\<close>

definition pune_goa :: assistant_request where
  "pune_goa = \<lparr>ar_prompt = ''from Pune to Goa today 4 seats Rs 50'', ar_timezone = ''Asia/Kolkata'', ar_locale = ''en-IN''\<rparr>"

definition no_place :: assistant_request where
  "no_place = \<lparr>ar_prompt = ''from ., to Pune'', ar_timezone = ''Asia/Kolkata'', ar_locale = ''en-IN''\<rparr>"

lemma no_place_route: "extract_route (one_spaced (ar_prompt no_place)) = (Some [], Some ''Pune'')"
  by code_simp

lemma pune_goa_route: "extract_route (one_spaced (ar_prompt pune_goa)) = (Some ''Pune'', Some ''Goa'')"
  by code_simp

lemma pune_goa_departure: "extract_departure_time 0 (one_spaced (ar_prompt pune_goa)) = Some (hours 4)"
  by code_simp

lemma pune_goa_seats: "extract_seats (one_spaced (ar_prompt pune_goa)) = Some 4"
  by code_simp

lemma pune_goa_price: "extract_price (one_spaced (ar_prompt pune_goa)) = Some 50"
  by code_simp

lemmas pune_goa_read = pune_goa_route pune_goa_departure pune_goa_seats pune_goa_price

lemma reads_back_demo: "reads_back (coerce demo_env)"
  by (simp add: reads_back_def demo_env_def demo_coercions_def parse_int_str_int fromisoformat_isoformat)

lemma near_epoch: "near (clock (initial_world 0))"
  by (simp add: near_def representable_def unit_values initial_world_def)

lemma demo_mock: "AI_PROVIDER (delivery demo_env) \<noteq> ''openai''" "AI_FALLBACK_TO_MOCK (ai demo_env)"
  by (simp_all add: demo_env_def default_delivery_settings_def default_ai_settings_def)

lemma demo_fit: "places_fit (one_spaced (ar_prompt pune_goa))" "\<not> places_fit (one_spaced (ar_prompt no_place))"
  by (simp_all add: places_fit_def pune_goa_read no_place_route)

lemma assistant_reads_prompt_witness:
  "(\<exists>d. run_state (create_ride_draft demo_env pune_goa) (initial_world 0) =
      (Inr (answer_from MockAIProvider False d), initial_world 0) \<and> rd_origin d = Some ''Pune'' \<and> rd_available_seats d = Some 4) \<and>
   (\<exists>k. run_state (create_ride_draft demo_env no_place) (initial_world 0) = (Inl (ValidationError k), initial_world 0))"
  using assistant_reads_prompt [OF demo_mock(1) reads_back_demo near_epoch, of pune_goa]
    assistant_reads_prompt [OF demo_mock(1) reads_back_demo near_epoch, of no_place] demo_fit demo_mock(2)
  by (auto simp: draft_of_def Let_def pune_goa_read)

lemma any_draft_is_publishable_witness:
  "\<exists>a v n. run_state (create_ride_draft demo_env pune_goa) (initial_world 0) = (Inr a, initial_world 0) \<and>
     ride_create_valid
       \<lparr>rf_origin = ''Pune'', rf_destination = ''Goa'', rf_origin_latitude = None, rf_origin_longitude = None,
        rf_destination_latitude = None, rf_destination_longitude = None, rf_departure_time = hours 4,
        rf_available_seats = 4, rf_price_per_seat = 50, rf_vehicle_details = v, rf_notes = n\<rparr>"
proof -
  obtain a where run: "run_state (create_ride_draft demo_env pune_goa) (initial_world 0) = (Inr a, initial_world 0)"
    and a: "a = answer_from MockAIProvider False (draft_of 0 (one_spaced (ar_prompt pune_goa)))"
    using mock_draft_run [OF demo_mock(1) reads_back_demo near_epoch, of pune_goa] demo_fit
    by (auto simp: initial_world_def)
  have "rd_origin (an_result a) = Some ''Pune''" "rd_destination (an_result a) = Some ''Goa''"
    "rd_departure_time (an_result a) = Some (hours 4)" "rd_available_seats (an_result a) = Some 4"
    "rd_price_per_seat (an_result a) = Some 50"
    by (simp_all add: a answer_from_def draft_of_def Let_def pune_goa_read)
  with any_draft_is_publishable [OF run] run show ?thesis by blast
qed

text \<open>Dan asks for a reply to a message that mentions the one-time password; Pia, of another booking, may not.\<close>

definition otp_chat :: chat_suggestion_request where
  "otp_chat = \<lparr>cq_booking_id = 1, cq_intent = Delay_apology, cq_draft_message = Some ''my otp'', cq_locale = ''en-IN''\<rparr>"

lemma otp_sensitive: "sensitive (cq_draft_message otp_chat)"
  by code_simp

lemma otp_chat_run:
  "\<exists>s a. run_state (suggest_chat_reply demo_env otp_chat dan) deal_world = (Inr (s, a), deal_world)"
proof -
  have b: "get_booking 1 (db deal_world) = Some (demo_booking 1 2 BPending)" "ride_of (demo_booking 1 2 BPending) (db deal_world) = Some demo_ride"
    by (simp_all add: demo)
  have len: "length_between 1 500 (chat_text Delay_apology role x)" for role x
    by (simp add: chat_text_def length_between_def)
  show ?thesis
    using len by (simp add: suggest_chat_reply_def mock_provider [OF demo_mock(1)] otp_chat_def b deref_def Let_def
        assisted_def checked_answer_def ask_chat_suggestion_def validate_mock_chat [OF reads_back_demo] run_on_ok
        demo_user_def demo_ride_def)
qed

lemma chat_suggestion_private_witness:
  "(\<exists>s a. run_state (suggest_chat_reply demo_env otp_chat dan) deal_world = (Inr (s, a), deal_world) \<and>
      s = booking_summary (demo_booking 1 2 BPending) demo_ride \<and> cs_should_warn (an_result a)) \<and>
   fst (run_state (suggest_chat_reply demo_env otp_chat pia) deal_world) = Inl (HTTPException 403 ''Chat access denied'')"
proof -
  have b: "get_booking (cq_booking_id otp_chat) (db deal_world) = Some (demo_booking 1 2 BPending)"
      "ride_of (demo_booking 1 2 BPending) (db deal_world) = Some demo_ride"
    by (simp_all add: demo otp_chat_def)
  note priv = chat_suggestion_private [OF _ mock_provider [OF demo_mock(1)] b]
  from otp_chat_run obtain s a where run: "run_state (suggest_chat_reply demo_env otp_chat dan) deal_world = (Inr (s, a), deal_world)"
    by blast
  have pia: "u_id pia \<notin> {r_driver_id demo_ride, b_passenger_id (demo_booking 1 2 BPending)}"
    by (simp add: demo_user_def demo_ride_def demo_booking_def)
  from priv [OF run] priv [OF prod.collapse [symmetric], of pia] pia run show ?thesis
    using otp_sensitive reads_back_demo by blast
qed

end
