(* ===== verification/RedisStores.thy ===== *)
theory RedisStores
  imports TokenStore Guards Calendar Provider
begin

text \<open>
  The whole methods of the three stores that prefer Redis: src/app/services/token_store.py,
  src/app/core/rate_limit.py and src/app/services/idempotency.py. A method tries its commands on the client
  and falls back on the dictionaries of the process when one of them raises \<open>RedisError\<close>, with the
  operations of \<open>TokenStore\<close> and \<open>Guards\<close>; where a fallback revokes tokens it tries Redis again. Redis itself is a parameter: a client is a record of functions on
  an unknown state, whose answer \<open>None\<close> is the error. The instant of a call is an argument; Redis and the
  process share a clock.
\<close>

section \<open>The client\<close>

record 'r redis_client =
  rd_setex :: "instant \<Rightarrow> string \<Rightarrow> int \<Rightarrow> string \<Rightarrow> 'r \<Rightarrow> unit option \<times> 'r"
  rd_get :: "instant \<Rightarrow> string \<Rightarrow> 'r \<Rightarrow> string option option \<times> 'r"
  rd_exists :: "instant \<Rightarrow> string \<Rightarrow> 'r \<Rightarrow> int option \<times> 'r"
  rd_incr :: "instant \<Rightarrow> string \<Rightarrow> 'r \<Rightarrow> int option \<times> 'r"
  rd_expire :: "instant \<Rightarrow> string \<Rightarrow> int \<Rightarrow> 'r \<Rightarrow> unit option \<times> 'r"
  rd_delete :: "instant \<Rightarrow> string \<Rightarrow> 'r \<Rightarrow> unit option \<times> 'r"
  rd_keys :: "instant \<Rightarrow> string \<Rightarrow> 'r \<Rightarrow> string list option \<times> 'r"
  rd_hset :: "instant \<Rightarrow> string \<Rightarrow> (string \<times> string) list \<Rightarrow> 'r \<Rightarrow> unit option \<times> 'r"
  rd_hgetall :: "instant \<Rightarrow> string \<Rightarrow> 'r \<Rightarrow> (string \<times> string) list option \<times> 'r"
  rd_sadd :: "instant \<Rightarrow> string \<Rightarrow> string \<Rightarrow> 'r \<Rightarrow> unit option \<times> 'r"
  rd_srem :: "instant \<Rightarrow> string \<Rightarrow> string \<Rightarrow> 'r \<Rightarrow> unit option \<times> 'r"
  rd_smembers :: "instant \<Rightarrow> string \<Rightarrow> 'r \<Rightarrow> string list option \<times> 'r"

datatype store_exc = RedisError | Raised exc

text \<open>An action on the state of Redis and the dictionaries of the process.\<close>

type_synonym ('r, 'm, 'a) store_act = "('r \<times> 'm, store_exc + 'a) state"

definition redis_cmd :: "('r \<Rightarrow> 'a option \<times> 'r) \<Rightarrow> ('r, 'm, 'a) store_act" where
  "redis_cmd f = State (\<lambda>(r, m). case f r of
     (Some x, r') \<Rightarrow> (Inr x, (r', m))
   | (None, r') \<Rightarrow> (Inl RedisError, (r', m)))"

definition in_memory :: "('m \<Rightarrow> 'a \<times> 'm) \<Rightarrow> ('r, 'm, 'a) store_act" where
  "in_memory f = State (\<lambda>(r, m). case f m of (x, m') \<Rightarrow> (Inr x, (r, m')))"

text \<open>\<open>try: m except (those that are caught): pass\<close>, then the fallback.\<close>

definition or_else ::
  "(store_exc \<Rightarrow> bool) \<Rightarrow> ('r, 'm, 'a) store_act \<Rightarrow> ('r, 'm, 'a) store_act \<Rightarrow> ('r, 'm, 'a) store_act" where
  "or_else caught m k = do {
     r \<leftarrow> m;
     case r of
       Inr x \<Rightarrow> ok x
     | Inl x \<Rightarrow> if caught x then k else raise x
   }"

definition redis_failed :: "store_exc \<Rightarrow> bool" where
  "redis_failed x \<longleftrightarrow> x = RedisError"

lemma run_redis_cmd:
  "run_state (redis_cmd f) (r, m) =
     (case f r of (Some x, r') \<Rightarrow> (Inr x, (r', m)) | (None, r') \<Rightarrow> (Inl RedisError, (r', m)))"
  by (simp add: redis_cmd_def)

lemma run_in_memory [simp]: "run_state (in_memory f) (r, m) = (Inr (fst (f m)), (r, snd (f m)))"
  by (simp add: in_memory_def split: prod.split)

section \<open>Token store\<close>

definition redis_key :: "string \<Rightarrow> string" where
  "redis_key jti = ''token:blacklist:'' @ jti"

definition session_key :: "string \<Rightarrow> string" where
  "session_key jti = ''token:session:'' @ jti"

definition user_sessions_key :: "string \<Rightarrow> string" where
  "user_sessions_key user_id = ''token:sessions:'' @ user_id"

text \<open>\<open>max(int((expires_at - now).total_seconds()), 1)\<close>\<close>

definition ttl_seconds :: "instant \<Rightarrow> instant \<Rightarrow> int" where
  "ttl_seconds now expires_at = max ((expires_at - now) div seconds 1) 1"

definition store_revoke :: "'r redis_client \<Rightarrow> instant \<Rightarrow> string \<Rightarrow> instant \<Rightarrow> ('r, token_store, unit) store_act" where
  "store_revoke c now jti expires_at = or_else redis_failed
     (redis_cmd (rd_setex c now (redis_key jti) (ttl_seconds now expires_at) ''revoked''))
     (in_memory (\<lambda>ts. ((), revoke_token now jti expires_at ts)))"

definition store_is_revoked :: "'r redis_client \<Rightarrow> instant \<Rightarrow> string \<Rightarrow> ('r, token_store, bool) store_act" where
  "store_is_revoked c now jti = or_else redis_failed
     (do { r \<leftarrow> redis_cmd (rd_exists c now (redis_key jti)); on_ok r (\<lambda>n. ok (n \<noteq> 0)) })
     (in_memory (\<lambda>ts. (is_revoked now jti ts, prune_expired now ts)))"

text \<open>\<open>value or ""\<close>, and back \<open>data.get(key) or None\<close>.\<close>

definition text_or_empty :: "string option \<Rightarrow> string" where
  "text_or_empty s = (case s of None \<Rightarrow> [] | Some t \<Rightarrow> t)"

definition text_or_none :: "string option \<Rightarrow> string option" where
  "text_or_none s = (case s of None \<Rightarrow> None | Some t \<Rightarrow> if t = [] then None else Some t)"

definition session_fields :: "session_record \<Rightarrow> (string \<times> string) list" where
  "session_fields s =
     [(''user_id'', str_int (s_user_id s)), (''issued_at'', isoformat (s_issued_at s)),
      (''expires_at'', isoformat (s_expires_at s)), (''user_agent'', text_or_empty (s_user_agent s)),
      (''ip_address'', text_or_empty (s_ip_address s))]"

definition store_register_session ::
  "'r redis_client \<Rightarrow> instant \<Rightarrow> session_record \<Rightarrow> ('r, token_store, unit) store_act" where
  "store_register_session c now s = or_else redis_failed
     (do {
        let key = session_key (s_jti s);
        let users = user_sessions_key (str_int (s_user_id s));
        let ttl = ttl_seconds now (s_expires_at s);
        r \<leftarrow> redis_cmd (rd_hset c now key (session_fields s));
        on_ok r (\<lambda>_. do {
        r \<leftarrow> redis_cmd (rd_expire c now key ttl);
        on_ok r (\<lambda>_. do {
        r \<leftarrow> redis_cmd (rd_sadd c now users (s_jti s));
        on_ok r (\<lambda>_. redis_cmd (rd_expire c now users ttl)) }) })
      })
     (in_memory (\<lambda>ts. ((), register_session now s ts)))"

text \<open>\<open>data[key]\<close>, \<open>int(...)\<close> and \<open>datetime.fromisoformat(...)\<close>\<close>

definition data_item :: "(string \<times> string) list \<Rightarrow> string \<Rightarrow> store_exc + string" where
  "data_item data k = (case map_of data k of None \<Rightarrow> Inl (Raised (KeyError k)) | Some v \<Rightarrow> Inr v)"

definition data_int :: "(string \<times> string) list \<Rightarrow> string \<Rightarrow> store_exc + int" where
  "data_int data k = (case data_item data k of
     Inl x \<Rightarrow> Inl x
   | Inr v \<Rightarrow> (case parse_int v of None \<Rightarrow> Inl (Raised (ValueError k)) | Some i \<Rightarrow> Inr i))"

definition data_instant :: "(string \<times> string) list \<Rightarrow> string \<Rightarrow> store_exc + instant" where
  "data_instant data k = (case data_item data k of
     Inl x \<Rightarrow> Inl x
   | Inr v \<Rightarrow> (case fromisoformat v of None \<Rightarrow> Inl (Raised (ValueError k)) | Some t \<Rightarrow> Inr t))"

definition session_of :: "string \<Rightarrow> (string \<times> string) list \<Rightarrow> ('r, 'm, session_record) store_act" where
  "session_of jti data =
     on_ok (data_int data ''user_id'') (\<lambda>user_id.
     on_ok (data_instant data ''issued_at'') (\<lambda>issued_at.
     on_ok (data_instant data ''expires_at'') (\<lambda>expires_at.
     ok \<lparr>s_jti = jti, s_user_id = user_id, s_issued_at = issued_at, s_expires_at = expires_at,
         s_user_agent = text_or_none (map_of data ''user_agent''),
         s_ip_address = text_or_none (map_of data ''ip_address'')\<rparr>)))"

definition bad_data :: "store_exc \<Rightarrow> bool" where
  "bad_data x \<longleftrightarrow>
     (case x of RedisError \<Rightarrow> True | Raised (KeyError k) \<Rightarrow> True | Raised (ValueError k) \<Rightarrow> True | _ \<Rightarrow> False)"

definition store_get_session ::
  "'r redis_client \<Rightarrow> instant \<Rightarrow> string \<Rightarrow> ('r, token_store, session_record option) store_act" where
  "store_get_session c now jti = or_else bad_data
     (do {
        r \<leftarrow> redis_cmd (rd_hgetall c now (session_key jti));
        on_ok r (\<lambda>data.
          if data = [] then ok None
          else do { r \<leftarrow> session_of jti data; on_ok r (\<lambda>s. ok (Some s)) })
      })
     (in_memory (\<lambda>ts. (get_session now jti ts, prune_expired now ts)))"

fun load_sessions ::
  "'r redis_client \<Rightarrow> instant \<Rightarrow> string list \<Rightarrow> ('r, 'm, session_record list) store_act" where
  "load_sessions c now [] = ok []"
| "load_sessions c now (jti # jtis) = do {
     r \<leftarrow> redis_cmd (rd_hgetall c now (session_key jti));
     on_ok r (\<lambda>data.
       if data = [] then load_sessions c now jtis
       else do {
         r \<leftarrow> session_of jti data;
         on_ok r (\<lambda>s. do {
         r \<leftarrow> load_sessions c now jtis;
         on_ok r (\<lambda>ss. ok (s # ss)) })
       })
   }"

definition newest_first :: "session_record list \<Rightarrow> session_record list" where
  "newest_first = sort_key (\<lambda>s. - s_issued_at s)"

definition store_list_sessions ::
  "'r redis_client \<Rightarrow> instant \<Rightarrow> int \<Rightarrow> ('r, token_store, session_record list) store_act" where
  "store_list_sessions c now user_id = or_else redis_failed
     (do {
        r \<leftarrow> redis_cmd (rd_smembers c now (user_sessions_key (str_int user_id)));
        on_ok r (\<lambda>jtis. do {
        r \<leftarrow> load_sessions c now jtis;
        on_ok r (\<lambda>ss. ok (newest_first ss)) })
      })
     (in_memory (\<lambda>ts. (list_sessions now user_id ts, prune_expired now ts)))"

text \<open>
  The fallbacks that end sessions: under the lock the records are taken out of the dictionaries, and
  each is then revoked with \<open>revoke\<close>, which tries Redis once more.
\<close>

definition take_session :: "string \<Rightarrow> token_store \<Rightarrow> (string \<times> instant) list \<times> token_store" where
  "take_session jti ts =
     (case map_of (ts_sessions ts) jti of
        None \<Rightarrow> ([], ts)
      | Some s \<Rightarrow>
          ([(jti, s_expires_at s)],
           pop_user_session (s_user_id s) jti (ts\<lparr>ts_sessions := AList.delete jti (ts_sessions ts)\<rparr>)))"

fun take_sessions :: "string list \<Rightarrow> token_store \<Rightarrow> (string \<times> instant) list \<times> token_store" where
  "take_sessions [] ts = ([], ts)"
| "take_sessions (jti # jtis) ts =
     (let (found, ts') = take_sessions jtis (ts\<lparr>ts_sessions := AList.delete jti (ts_sessions ts)\<rparr>)
      in (case map_of (ts_sessions ts) jti of
            None \<Rightarrow> found
          | Some s \<Rightarrow> (jti, s_expires_at s) # found, ts'))"

definition take_user_sessions :: "int \<Rightarrow> token_store \<Rightarrow> (string \<times> instant) list \<times> token_store" where
  "take_user_sessions user_id ts =
     take_sessions (user_session_ids user_id ts)
       (ts\<lparr>ts_user_sessions := AList.delete user_id (ts_user_sessions ts)\<rparr>)"

definition take_other_sessions :: "int \<Rightarrow> string option \<Rightarrow> token_store \<Rightarrow> (string \<times> instant) list \<times> token_store" where
  "take_other_sessions user_id keep_jti ts =
     (case take_sessions (filter (\<lambda>j. Some j \<noteq> keep_jti) (user_session_ids user_id ts)) ts of
        (found, ts') \<Rightarrow>
          (found, ts'\<lparr>ts_user_sessions :=
             (case keep_jti of
                None \<Rightarrow> AList.delete user_id (ts_user_sessions ts')
              | Some k \<Rightarrow> AList.update user_id [k] (ts_user_sessions ts'))\<rparr>))"

definition revoke_taken ::
  "'r redis_client \<Rightarrow> instant \<Rightarrow> (token_store \<Rightarrow> (string \<times> instant) list \<times> token_store) \<Rightarrow> ('r, token_store, unit) store_act" where
  "revoke_taken c now taken = do {
     r \<leftarrow> in_memory taken;
     on_ok r (for_each_ok (\<lambda>(jti, expires_at). store_revoke c now jti expires_at))
   }"

definition store_revoke_session :: "'r redis_client \<Rightarrow> instant \<Rightarrow> string \<Rightarrow> ('r, token_store, unit) store_act" where
  "store_revoke_session c now jti = or_else redis_failed
     (do {
        r \<leftarrow> redis_cmd (rd_delete c now (session_key jti));
        on_ok r (\<lambda>_. do {
        r \<leftarrow> redis_cmd (rd_keys c now (user_sessions_key ''*''));
        on_ok r (for_each_ok (\<lambda>key. redis_cmd (rd_srem c now key jti))) })
      })
     (revoke_taken c now (take_session jti))"

text \<open>The loop body of the two methods that end many sessions.\<close>

definition end_session :: "'r redis_client \<Rightarrow> instant \<Rightarrow> string \<Rightarrow> ('r, token_store, unit) store_act" where
  "end_session c now jti = do {
     r \<leftarrow> redis_cmd (rd_hgetall c now (session_key jti));
     on_ok r (\<lambda>data.
     on_ok (if data = [] then Inr now else data_instant data ''expires_at'') (\<lambda>expires_at. do {
       r \<leftarrow> store_revoke c now jti expires_at;
       on_ok r (\<lambda>_. redis_cmd (rd_delete c now (session_key jti))) }))
   }"

definition store_revoke_user_sessions :: "'r redis_client \<Rightarrow> instant \<Rightarrow> int \<Rightarrow> ('r, token_store, unit) store_act" where
  "store_revoke_user_sessions c now user_id = or_else redis_failed
     (do {
        r \<leftarrow> redis_cmd (rd_smembers c now (user_sessions_key (str_int user_id)));
        on_ok r (\<lambda>jtis. do {
        r \<leftarrow> for_each_ok (end_session c now) jtis;
        on_ok r (\<lambda>_. redis_cmd (rd_delete c now (user_sessions_key (str_int user_id)))) })
      })
     (revoke_taken c now (take_user_sessions user_id))"

definition store_revoke_user_sessions_except ::
  "'r redis_client \<Rightarrow> instant \<Rightarrow> int \<Rightarrow> string option \<Rightarrow> ('r, token_store, unit) store_act" where
  "store_revoke_user_sessions_except c now user_id keep_jti = or_else redis_failed
     (do {
        let users = user_sessions_key (str_int user_id);
        r \<leftarrow> redis_cmd (rd_smembers c now users);
        on_ok r (\<lambda>jtis. do {
        r \<leftarrow> for_each_ok (\<lambda>jti. if Some jti = keep_jti then ok () else end_session c now jti) jtis;
        on_ok r (\<lambda>_.
          case keep_jti of
            None \<Rightarrow> redis_cmd (rd_delete c now users)
          | Some k \<Rightarrow> redis_cmd (rd_sadd c now users k)) })
      })
     (revoke_taken c now (take_other_sessions user_id keep_jti))"

section \<open>Rate limiter\<close>

definition store_increment :: "'r redis_client \<Rightarrow> instant \<Rightarrow> string \<Rightarrow> int \<Rightarrow> ('r, limiter, int) store_act" where
  "store_increment c now key window_seconds = or_else redis_failed
     (do {
        r \<leftarrow> redis_cmd (rd_incr c now (rate_key key));
        on_ok r (\<lambda>count.
          if count = 1
          then do { r \<leftarrow> redis_cmd (rd_expire c now (rate_key key) window_seconds); on_ok r (\<lambda>_. ok count) }
          else ok count)
      })
     (in_memory (rate_increment now key window_seconds))"

definition store_enforce ::
  "'r redis_client \<Rightarrow> instant \<Rightarrow> string \<Rightarrow> int \<Rightarrow> int \<Rightarrow> ('r, limiter, unit) store_act" where
  "store_enforce c now key limit window_seconds = do {
     r \<leftarrow> store_increment c now key window_seconds;
     on_ok r (\<lambda>current.
       if limit < current then raise (Raised (HTTPException 429 ''Rate limit exceeded'')) else ok ())
   }"

section \<open>Idempotency records\<close>

definition idem_json :: "idempotency_record \<Rightarrow> py" where
  "idem_json x = PyDict [(''request_hash'', PyStr (id_request_hash x)), (''status_code'', PyInt (id_status_code x)),
     (''body'', id_body x)]"

definition store_save_response ::
  "env \<Rightarrow> 'r redis_client \<Rightarrow> instant \<Rightarrow> string \<Rightarrow> idempotency_record \<Rightarrow> ('r, idem_store, unit) store_act" where
  "store_save_response e c now record_key x = or_else redis_failed
     (redis_cmd (rd_setex c now record_key (IDEMPOTENCY_KEY_TTL_SECONDS (feat e)) (json_dumps e (idem_json x))))
     (in_memory (\<lambda>m. ((), save_response record_key (id_request_hash x) (id_status_code x) (id_body x) m)))"

text \<open>
  A stored text that is not the JSON of a record raises, which nothing catches; an absent one is looked up in
  the dictionary. (A hash that is no text and a status that is no integer, which \<open>save_response\<close> never
  stores, are errors here.)
\<close>

definition read_idem_json :: "env \<Rightarrow> string \<Rightarrow> store_exc + idempotency_record" where
  "read_idem_json e stored =
     (case json_loads e stored of
        None \<Rightarrow> Inl (Raised (ValueError ''JSON''))
      | Some v \<Rightarrow>
          (case (py_item v ''request_hash'', py_item v ''status_code'', py_get v ''body'' PyNone) of
             (Inr h, Inr st, Inr b) \<Rightarrow>
               (case (h, st) of
                  (PyStr s, PyInt n) \<Rightarrow> Inr \<lparr>id_request_hash = s, id_status_code = n, id_body = b\<rparr>
                | _ \<Rightarrow> Inl (Raised (TypeError ''status_code'')))
           | (Inl x, _) \<Rightarrow> Inl (Raised x)
           | (_, Inl x, _) \<Rightarrow> Inl (Raised x)
           | (_, _, Inl x) \<Rightarrow> Inl (Raised x)))"

definition store_get_response ::
  "env \<Rightarrow> 'r redis_client \<Rightarrow> instant \<Rightarrow> string \<Rightarrow> ('r, idem_store, idempotency_record option) store_act" where
  "store_get_response e c now record_key =
     (let memory = in_memory (\<lambda>m. (map_of m record_key, m))
      in or_else redis_failed
        (do {
           r \<leftarrow> redis_cmd (rd_get c now record_key);
           on_ok r (\<lambda>stored. case stored of
             None \<Rightarrow> memory
           | Some s \<Rightarrow>
               if s = [] then memory else on_ok (read_idem_json e s) (\<lambda>x. ok (Some x)))
         })
        memory)"

end
