(* ===== verification/RedisFacts.thy ===== *)
theory RedisFacts
  imports RedisStores GuardFacts TokenRegistry
begin

text \<open>
  The stores with and without Redis. \<open>unreachable\<close> is a client whose every command fails: with it the
  methods are the dictionary operations that the rest of the library uses. \<open>answers\<close> is a client that
  answers as the Redis documentation says, command by command, on a key space with expiry times: with it
  the limiter lets the same calls through as the dictionary, while the token store does not end a session
  as the dictionary does. \<open>with_outages\<close> is a client that comes and goes.
\<close>

section \<open>Redis out of reach\<close>

definition unreachable :: "'r redis_client \<Rightarrow> bool" where
  "unreachable c \<longleftrightarrow>
     (\<forall>now k n v r. rd_setex c now k n v r = (None, r)) \<and> (\<forall>now k r. rd_get c now k r = (None, r)) \<and>
     (\<forall>now k r. rd_exists c now k r = (None, r)) \<and> (\<forall>now k r. rd_incr c now k r = (None, r)) \<and>
     (\<forall>now k n r. rd_expire c now k n r = (None, r)) \<and> (\<forall>now k r. rd_delete c now k r = (None, r)) \<and>
     (\<forall>now k r. rd_keys c now k r = (None, r)) \<and> (\<forall>now k h r. rd_hset c now k h r = (None, r)) \<and>
     (\<forall>now k r. rd_hgetall c now k r = (None, r)) \<and> (\<forall>now k x r. rd_sadd c now k x r = (None, r)) \<and>
     (\<forall>now k x r. rd_srem c now k x r = (None, r)) \<and> (\<forall>now k r. rd_smembers c now k r = (None, r))"

lemma or_else_failed:
  "run_state m s = (Inl RedisError, s) \<Longrightarrow> caught RedisError \<Longrightarrow> run_state (or_else caught m k) s = run_state k s"
  by (simp add: or_else_def)

lemma redis_failed_simps [simp]: "redis_failed RedisError" "\<not> redis_failed (Raised x)" "bad_data RedisError"
  by (simp_all add: redis_failed_def bad_data_def)

text \<open>The fallbacks that end sessions: what is taken out one by one is taken out at once.\<close>

lemma take_sessions_at_once:
  "distinct js \<Longrightarrow> take_sessions js ts =
     (List.map_filter (\<lambda>j. map_option (\<lambda>s. (j, s_expires_at s)) (map_of (ts_sessions ts) j)) js,
      ts\<lparr>ts_sessions := filter (\<lambda>(j, s). j \<notin> set js) (ts_sessions ts)\<rparr>)"
proof (induction js arbitrary: ts)
  case (Cons j js)
  have "List.map_filter (\<lambda>k. map_option (\<lambda>s. (k, s_expires_at s)) (map_of (AList.delete j (ts_sessions ts)) k)) js =
      List.map_filter (\<lambda>k. map_option (\<lambda>s. (k, s_expires_at s)) (map_of (ts_sessions ts) k)) js"
    using Cons.prems unfolding List.map_filter_def by (intro map_cong filter_cong) (auto simp: delete_conv')
  moreover have "filter (\<lambda>(k, s). k \<notin> set js) (AList.delete j xs) = filter (\<lambda>(k, s). k \<notin> set (j # js)) xs" for xs :: "(string \<times> session_record) list"
    by (auto simp: AList.delete_eq filter_filter intro: filter_cong)
  ultimately show ?case
    using Cons by (simp add: map_filter_simps split: option.split)
qed (simp add: map_filter_simps)

lemma run_revoke_many:
  assumes "unreachable c"
  shows "run_state (for_each_ok (\<lambda>(j, t). store_revoke c now j t) xs) (r, ts) =
    (Inr (), (r, fold (\<lambda>(j, t). revoke_token now j t) xs ts))"
  using assms
  by (induction xs arbitrary: ts) (auto simp: store_revoke_def or_else_def run_redis_cmd unreachable_def)

text \<open>
  Without Redis the stores are the dictionaries: when every command of the client fails, each method of
  the token store, the limiter and the idempotency store is the operation of \<open>TokenStore\<close> and \<open>Guards\<close>
  that the rest of the library uses, and no exception escapes.
\<close>

lemma tokens_without_redis:
  assumes "unreachable c"
  shows "run_state (store_revoke c now j t) (r, ts) = (Inr (), (r, revoke_token now j t ts))"
    and "run_state (store_is_revoked c now j) (r, ts) = (Inr (is_revoked now j ts), (r, prune_expired now ts))"
    and "run_state (store_register_session c now s) (r, ts) = (Inr (), (r, register_session now s ts))"
    and "run_state (store_get_session c now j) (r, ts) = (Inr (get_session now j ts), (r, prune_expired now ts))"
    and "run_state (store_list_sessions c now u) (r, ts) = (Inr (list_sessions now u ts), (r, prune_expired now ts))"
  using assms
  by (simp_all add: unreachable_def store_revoke_def store_is_revoked_def store_register_session_def
      store_get_session_def store_list_sessions_def or_else_def run_redis_cmd Let_def)

lemma sessions_end_without_redis:
  assumes "unreachable c"
  shows "run_state (store_revoke_session c now j) (r, ts) = (Inr (), (r, revoke_session_record now j ts))"
    and "distinct (user_session_ids u ts) \<Longrightarrow>
      run_state (store_revoke_user_sessions c now u) (r, ts) = (Inr (), (r, revoke_user_sessions now u ts))"
    and "distinct (user_session_ids u ts) \<Longrightarrow>
      run_state (store_revoke_user_sessions_except c now u keep) (r, ts) = (Inr (), (r, revoke_user_sessions_except now u keep ts))"
proof -
  have fails: "run_state (redis_cmd (rd_delete c now k)) s = (Inl RedisError, s)"
    "run_state (redis_cmd (rd_smembers c now k)) s = (Inl RedisError, s)" for k and s :: "'a \<times> token_store"
    using assms by (cases s; simp add: unreachable_def run_redis_cmd)+
  have taken: "run_state (revoke_taken c now f) (r, ts) =
      (Inr (), (r, fold (\<lambda>(j, t). revoke_token now j t) (fst (f ts)) (snd (f ts))))" for f
    by (simp add: revoke_taken_def run_revoke_many [OF assms])
  show "run_state (store_revoke_session c now j) (r, ts) = (Inr (), (r, revoke_session_record now j ts))"
    by (simp add: store_revoke_session_def or_else_def fails taken)
      (simp add: take_session_def revoke_session_record_def split: option.split)
  assume d: "distinct (user_session_ids u ts)"
  show "run_state (store_revoke_user_sessions c now u) (r, ts) = (Inr (), (r, revoke_user_sessions now u ts))"
    by (simp add: store_revoke_user_sessions_def or_else_def fails taken take_user_sessions_def
        take_sessions_at_once [OF d] revoke_user_sessions_def drop_sessions_def)
  have commute: "ts\<lparr>ts_sessions := x, ts_user_sessions := y\<rparr> = ts\<lparr>ts_user_sessions := y, ts_sessions := x\<rparr>" for x y
    by (cases ts) simp
  have "distinct (filter (\<lambda>j. Some j \<noteq> keep) (user_session_ids u ts))" using d by simp
  from take_sessions_at_once [OF this]
  show "run_state (store_revoke_user_sessions_except c now u keep) (r, ts) = (Inr (), (r, revoke_user_sessions_except now u keep ts))"
    by (cases keep)
      (simp_all add: store_revoke_user_sessions_except_def or_else_def fails taken take_other_sessions_def Let_def
        revoke_user_sessions_except_def drop_sessions_def commute)
qed

lemma guards_without_redis:
  assumes "unreachable c"
  shows "run_state (store_enforce c now key limit window) (r, ls) =
      (case rate_enforce now key limit window ls of
         (Inl x, ls') \<Rightarrow> (Inl (Raised x), (r, ls')) | (Inr _, ls') \<Rightarrow> (Inr (), (r, ls')))"
    and "run_state (store_save_response e c now k x) (r, m) =
      (Inr (), (r, save_response k (id_request_hash x) (id_status_code x) (id_body x) m))"
    and "run_state (store_get_response e c now k) (r, m) = (Inr (map_of m k), (r, m))"
  using assms
  by (simp_all add: unreachable_def store_enforce_def store_increment_def store_save_response_def
      store_get_response_def or_else_def run_redis_cmd Let_def rate_enforce_def split: prod.split)

section \<open>Redis as documented\<close>

datatype redis_value = RStr string | RHash "(string \<times> string) list" | RSet "string list"

type_synonym keyspace = "string \<Rightarrow> (redis_value \<times> instant option) option"

text \<open>What is left of a key space at an instant: a key is gone when its time has come.\<close>

definition current :: "instant \<Rightarrow> keyspace \<Rightarrow> keyspace" where
  "current now m k =
     (case m k of None \<Rightarrow> None | Some (v, t) \<Rightarrow> if (case t of None \<Rightarrow> True | Some x \<Rightarrow> now < x) then Some (v, t) else None)"

lemma current_later: "now \<le> t \<Longrightarrow> current t (current now m) = current t m"
  by (auto simp: current_def fun_eq_iff split: option.splits)

lemma current_eq_later: "current now m = current now m' \<Longrightarrow> now \<le> t \<Longrightarrow> current t m = current t m'"
  by (metis current_later)

lemma current_other: "k \<noteq> k' \<Longrightarrow> current t (m(k' := e)) k = current t m k"
  by (simp add: current_def)

lemma current_at: "now \<le> t \<Longrightarrow> current t (current now m) k = current t m k"
  by (simp add: current_later)

lemma redis_key_inject [simp]: "redis_key j = redis_key k \<longleftrightarrow> j = k"
  by (simp add: redis_key_def)

text \<open>
  The commands, on the key space \<open>view r\<close> of a state. Where a key holds a value of another kind nothing is
  said.
\<close>

definition answers_strings :: "'r redis_client \<Rightarrow> ('r \<Rightarrow> keyspace) \<Rightarrow> bool" where
  "answers_strings c view \<longleftrightarrow>
     (\<forall>now k n v r. 0 < n \<longrightarrow> (\<exists>r'. rd_setex c now k n v r = (Some (), r') \<and>
        current now (view r') = (current now (view r))(k \<mapsto> (RStr v, Some (now + seconds n))))) \<and>
     (\<forall>now k r. \<exists>r'. rd_exists c now k r = (Some (if current now (view r) k = None then 0 else 1), r') \<and>
        current now (view r') = current now (view r)) \<and>
     (\<forall>now k r. current now (view r) k = None \<longrightarrow> (\<exists>r'. rd_get c now k r = (Some None, r') \<and>
        current now (view r') = current now (view r))) \<and>
     (\<forall>now k r v t. current now (view r) k = Some (RStr v, t) \<longrightarrow> (\<exists>r'. rd_get c now k r = (Some (Some v), r') \<and>
        current now (view r') = current now (view r))) \<and>
     (\<forall>now k r. current now (view r) k = None \<longrightarrow> (\<exists>r'. rd_incr c now k r = (Some 1, r') \<and>
        current now (view r') = (current now (view r))(k \<mapsto> (RStr (str_int 1), None)))) \<and>
     (\<forall>now k r n t. current now (view r) k = Some (RStr (str_int n), t) \<longrightarrow> (\<exists>r'. rd_incr c now k r = (Some (n + 1), r') \<and>
        current now (view r') = (current now (view r))(k \<mapsto> (RStr (str_int (n + 1)), t)))) \<and>
     (\<forall>now k n r v t. 0 < n \<longrightarrow> current now (view r) k = Some (v, t) \<longrightarrow> (\<exists>r'. rd_expire c now k n r = (Some (), r') \<and>
        current now (view r') = (current now (view r))(k \<mapsto> (v, Some (now + seconds n)))))"


text \<open>One command, as a step of an action.\<close>

lemma setex_step:
  assumes "answers_strings c view" "0 < n"
  obtains r' where "run_state (redis_cmd (rd_setex c now k n v)) (r, m) = (Inr (), (r', m))"
    and "current now (view r') = (current now (view r))(k \<mapsto> (RStr v, Some (now + seconds n)))"
proof -
  from assms obtain r' where "rd_setex c now k n v r = (Some (), r')"
    "current now (view r') = (current now (view r))(k \<mapsto> (RStr v, Some (now + seconds n)))"
    unfolding answers_strings_def by meson
  with that show thesis by (simp add: run_redis_cmd)
qed

lemma exists_step:
  assumes "answers_strings c view"
  obtains r' where "run_state (redis_cmd (rd_exists c now k)) (r, m) =
      (Inr (if current now (view r) k = None then 0 else 1), (r', m))"
    and "current now (view r') = current now (view r)"
proof -
  from assms obtain r' where "rd_exists c now k r = (Some (if current now (view r) k = None then 0 else 1), r')"
    "current now (view r') = current now (view r)"
    unfolding answers_strings_def by meson
  with that show thesis by (simp add: run_redis_cmd)
qed

section \<open>Revoking a token in Redis\<close>

lemma ttl_positive: "0 < ttl_seconds now t"
  by (simp add: ttl_seconds_def)

lemma store_is_revoked_answer:
  assumes "answers_strings c view"
  obtains r' where "run_state (store_is_revoked c now j) (r, ts) =
      (Inr (current now (view r) (redis_key j) \<noteq> None), (r', ts))"
    and "current now (view r') = current now (view r)"
proof -
  obtain r' where run: "run_state (redis_cmd (rd_exists c now (redis_key j))) (r, ts) =
      (Inr (if current now (view r) (redis_key j) = None then 0 else 1), (r', ts))"
    and cur: "current now (view r') = current now (view r)"
    using exists_step [OF assms] .
  have "run_state (store_is_revoked c now j) (r, ts) = (Inr (current now (view r) (redis_key j) \<noteq> None), (r', ts))"
    by (simp add: store_is_revoked_def or_else_def run)
  from that [OF this cur] show thesis .
qed

text \<open>
  A token revoked in Redis stays revoked for whole seconds: asked at or after the revocation, the store
  says so until \<open>ttl_seconds\<close> seconds have passed, and answers for other tokens as before. So it is refused
  until one second before it would have expired; but as the rest of a second is cut off, a token that
  expires in the middle of one is accepted again in the last moments of its life, where the dictionary
  keeps it revoked to the end.
\<close>

theorem redis_revocation_window:
  assumes c: "answers_strings c view" and later: "now \<le> now'"
    and revoke: "run_state (store_revoke c now j t) (r, ts) = (x, (r1, ts1))"
  shows "x = Inr () \<and> ts1 = ts \<and>
    fst (run_state (store_is_revoked c now' j) (r1, ts)) = Inr (now' < now + seconds (ttl_seconds now t)) \<and>
    (now' \<le> t - seconds 1 \<longrightarrow> fst (run_state (store_is_revoked c now' j) (r1, ts)) = Inr True) \<and>
    (\<forall>k. k \<noteq> j \<longrightarrow> fst (run_state (store_is_revoked c now' k) (r1, ts)) =
       fst (run_state (store_is_revoked c now' k) (r, ts)))"
proof -
  obtain r2 where cmd: "run_state (redis_cmd (rd_setex c now (redis_key j) (ttl_seconds now t) ''revoked'')) (r, ts) = (Inr (), (r2, ts))"
    and cur: "current now (view r2) =
      (current now (view r))(redis_key j \<mapsto> (RStr ''revoked'', Some (now + seconds (ttl_seconds now t))))"
    using setex_step [OF c ttl_positive] .
  from revoke cmd have res: "x = Inr ()" "ts1 = ts" "r1 = r2" by (auto simp: store_revoke_def or_else_def)
  have cur': "current now' (view r1) =
      current now' ((current now (view r))(redis_key j \<mapsto> (RStr ''revoked'', Some (now + seconds (ttl_seconds now t)))))"
    using current_later [OF later, of "view r2"] by (simp add: cur res(3))
  have ans: "fst (run_state (store_is_revoked c now' k) (r', ts)) = Inr (current now' (view r') (redis_key k) \<noteq> None)" for k r'
    using store_is_revoked_answer [OF c, of now' k r' ts] by (metis fst_conv)
  have self: "fst (run_state (store_is_revoked c now' j) (r1, ts)) = Inr (now' < now + seconds (ttl_seconds now t))"
    unfolding ans cur' by (simp add: current_def)
  have other: "current now' (view r1) (redis_key k) = current now' (view r) (redis_key k)" if "k \<noteq> j" for k
    using that unfolding cur' by (simp add: current_other current_at [OF later] del: fun_upd_apply)
  have "now' < now + seconds (ttl_seconds now t)" if "now' \<le> t - seconds 1"
    using that div_bounds [of "seconds 1" "t - now"] by (auto simp: ttl_seconds_def unit_values)
  with res self other ans show ?thesis by simp
qed

section \<open>Redis that comes and goes\<close>

text \<open>A client that is out of reach at some instants: every command then raises.\<close>

definition out_at :: "(instant \<Rightarrow> bool) \<Rightarrow> instant \<Rightarrow> ('r \<Rightarrow> 'a option \<times> 'r) \<Rightarrow> 'r \<Rightarrow> 'a option \<times> 'r" where
  "out_at down now f r = (if down now then (None, r) else f r)"

definition with_outages :: "(instant \<Rightarrow> bool) \<Rightarrow> 'r redis_client \<Rightarrow> 'r redis_client" where
  "with_outages down c = \<lparr>
     rd_setex = (\<lambda>now k n v. out_at down now (rd_setex c now k n v)), rd_get = (\<lambda>now k. out_at down now (rd_get c now k)),
     rd_exists = (\<lambda>now k. out_at down now (rd_exists c now k)), rd_incr = (\<lambda>now k. out_at down now (rd_incr c now k)),
     rd_expire = (\<lambda>now k n. out_at down now (rd_expire c now k n)), rd_delete = (\<lambda>now k. out_at down now (rd_delete c now k)),
     rd_keys = (\<lambda>now p. out_at down now (rd_keys c now p)), rd_hset = (\<lambda>now k h. out_at down now (rd_hset c now k h)),
     rd_hgetall = (\<lambda>now k. out_at down now (rd_hgetall c now k)), rd_sadd = (\<lambda>now k x. out_at down now (rd_sadd c now k x)),
     rd_srem = (\<lambda>now k x. out_at down now (rd_srem c now k x)), rd_smembers = (\<lambda>now k. out_at down now (rd_smembers c now k))\<rparr>"

text \<open>While it is out of reach it works as one that never answers; else as the client itself.\<close>

lemma outage_fails:
  assumes "down now"
  shows "run_state (redis_cmd (rd_setex (with_outages down c) now k n v)) s = (Inl RedisError, s)"
    and "run_state (redis_cmd (rd_exists (with_outages down c) now k)) s = (Inl RedisError, s)"
    and "run_state (redis_cmd (rd_smembers (with_outages down c) now k)) s = (Inl RedisError, s)"
  using assms by (cases s; simp add: with_outages_def out_at_def run_redis_cmd)+

lemma outage_over:
  assumes "\<not> down now"
  shows "rd_setex (with_outages down c) now = rd_setex c now" and "rd_exists (with_outages down c) now = rd_exists c now"
  using assms by (simp_all add: with_outages_def out_at_def fun_eq_iff)

lemma revoke_in_outage:
  "down now \<Longrightarrow> run_state (store_revoke (with_outages down c) now j t) (r, ts) = (Inr (), (r, revoke_token now j t ts))"
  by (simp add: store_revoke_def or_else_def outage_fails)

lemma is_revoked_in_outage:
  "down now \<Longrightarrow> fst (run_state (store_is_revoked (with_outages down c) now j) (r, ts)) = Inr (is_revoked now j ts)"
  by (simp add: store_is_revoked_def or_else_def outage_fails)

lemma is_revoked_after_outage:
  assumes "answers_strings c view" "\<not> down now"
  shows "fst (run_state (store_is_revoked (with_outages down c) now j) (r, ts)) = Inr (current now (view r) (redis_key j) \<noteq> None)"
proof -
  have "store_is_revoked (with_outages down c) now j = store_is_revoked c now j"
    by (simp add: store_is_revoked_def outage_over [where down = down, OF assms(2)])
  then show ?thesis using store_is_revoked_answer [OF assms(1), of now j r ts] by (metis fst_conv)
qed

lemma many_in_outage:
  "down now \<Longrightarrow> run_state (for_each_ok (\<lambda>(j, t). store_revoke (with_outages down c) now j t) xs) (r, ts) =
     (Inr (), (r, fold (\<lambda>(j, t). revoke_token now j t) xs ts))"
  by (induction xs arbitrary: ts) (auto simp: revoke_in_outage)

lemma end_all_in_outage:
  assumes "down now" and "distinct (user_session_ids u ts)"
  shows "run_state (store_revoke_user_sessions (with_outages down c) now u) (r, ts) = (Inr (), (r, revoke_user_sessions now u ts))"
  using assms
  by (simp add: store_revoke_user_sessions_def or_else_def outage_fails revoke_taken_def many_in_outage
      take_user_sessions_def take_sessions_at_once revoke_user_sessions_def drop_sessions_def)

text \<open>
  C36. A revocation holds only as long as Redis stays as reachable as it was when the token was revoked.
  Revoked in an outage, a token is refused until its end while the outage lasts, but as soon as Redis is
  back the store asks only Redis, which was never told; revoked in Redis, it is forgotten in an outage,
  when only the dictionary is asked. The same for a whole account: ending a user's sessions in an outage,
  as a password reset does, revokes each session's id in the process, and none of them once Redis is back.
\<close>

theorem outages_forget_revocations:
  assumes "answers_strings c view" and "store_ok ts" and "distinct (user_session_ids u ts)" and "now \<le> now'"
  shows "fst (run_state (store_is_revoked (with_outages down c) now' j)
        (snd (run_state (store_revoke (with_outages down c) now j t) (r, ts)))) =
      Inr (if down now then if down now' then now' < t else current now' (view r) (redis_key j) \<noteq> None
           else if down now' then is_revoked now' j ts else now' < now + seconds (ttl_seconds now t)) \<and>
    (down now \<longrightarrow> map_of (ts_sessions ts) j = Some s \<longrightarrow> s_user_id s = u \<longrightarrow>
      fst (run_state (store_is_revoked (with_outages down c) now' j)
        (snd (run_state (store_revoke_user_sessions (with_outages down c) now u) (r, ts)))) =
      Inr (if down now' then now' < s_expires_at s else current now' (view r) (redis_key j) \<noteq> None))"
proof
  let ?d = "with_outages down c"
  have tokens: "tokens_ok ts" using store_okD(1) [OF assms(2)] by (simp add: tokens_ok_def)
  note after = is_revoked_in_outage is_revoked_after_outage [OF assms(1)]
  show "fst (run_state (store_is_revoked ?d now' j) (snd (run_state (store_revoke ?d now j t) (r, ts)))) =
      Inr (if down now then if down now' then now' < t else current now' (view r) (redis_key j) \<noteq> None
           else if down now' then is_revoked now' j ts else now' < now + seconds (ttl_seconds now t))"
  proof (cases "down now")
    case True
    then show ?thesis
      using is_revoked_revoke [OF tokens assms(4)] by (simp add: revoke_in_outage after)
  next
    case False
    then have up: "store_revoke ?d now j t = store_revoke c now j t" by (simp add: store_revoke_def outage_over)
    obtain x r1 ts1 where run: "run_state (store_revoke c now j t) (r, ts) = (x, (r1, ts1))" by (metis prod.collapse)
    note window = redis_revocation_window [OF assms(1,4) run]
    show ?thesis
    proof (cases "down now'")
      case True
      then show ?thesis using False window by (simp add: up run after(1))
    next
      case up': False
      then have "store_is_revoked ?d now' j = store_is_revoked c now' j"
        by (simp add: store_is_revoked_def outage_over)
      then show ?thesis using False up' window by (simp add: up run)
    qed
  qed
  show "down now \<longrightarrow> map_of (ts_sessions ts) j = Some s \<longrightarrow> s_user_id s = u \<longrightarrow>
      fst (run_state (store_is_revoked ?d now' j) (snd (run_state (store_revoke_user_sessions ?d now u) (r, ts)))) =
      Inr (if down now' then now' < s_expires_at s else current now' (view r) (redis_key j) \<noteq> None)"
    using user_sessions_ended(2) [OF assms(2,4)] by (simp add: end_all_in_outage assms(3) after)
qed

section \<open>Ending a session in Redis\<close>








section \<open>The limiter in Redis\<close>

text \<open>The dictionary and Redis agree on a key at an instant.\<close>

definition agree :: "('r \<Rightarrow> keyspace) \<Rightarrow> instant \<Rightarrow> string \<Rightarrow> limiter \<Rightarrow> 'r \<Rightarrow> bool" where
  "agree view now key ls r \<longleftrightarrow> distinct (map fst ls) \<and>
     (case live now key ls of
        None \<Rightarrow> current now (view r) (rate_key key) = None
      | Some x \<Rightarrow> 1 \<le> lr_count x \<and>
          current now (view r) (rate_key key) = Some (RStr (str_int (lr_count x)), Some (lr_expires_at x)))"

lemma live_None_later: "live now key ls = None \<Longrightarrow> now \<le> t \<Longrightarrow> live t key ls = None"
  by (auto simp: live_def split: option.splits if_splits)

lemma live_Some_later: "live now key ls = Some x \<Longrightarrow> now \<le> t \<Longrightarrow> live t key ls = (if t < lr_expires_at x then Some x else None)"
  by (auto simp: live_def split: option.splits if_splits)

lemma agree_later:
  assumes "agree view now key ls r" "now \<le> t"
  shows "agree view t key ls r"
proof -
  have cur: "current t (view r) (rate_key key) = current t (current now (view r)) (rate_key key)"
    using assms(2) by (simp add: current_at)
  show ?thesis
  proof (cases "live now key ls")
    case None
    with assms live_None_later [OF None assms(2)] cur show ?thesis by (simp add: agree_def current_def)
  next
    case (Some x)
    with assms live_Some_later [OF Some assms(2)] cur show ?thesis by (simp add: agree_def current_def)
  qed
qed

lemma incr_new_step:
  assumes "answers_strings c view" "current now (view r) k = None"
  obtains r' where "run_state (redis_cmd (rd_incr c now k)) (r, m) = (Inr 1, (r', m))"
    and "current now (view r') = (current now (view r))(k \<mapsto> (RStr (str_int 1), None))"
proof -
  from assms obtain r' where "rd_incr c now k r = (Some 1, r')"
    "current now (view r') = (current now (view r))(k \<mapsto> (RStr (str_int 1), None))"
    unfolding answers_strings_def by meson
  with that show thesis by (simp add: run_redis_cmd)
qed

lemma incr_step:
  assumes "answers_strings c view" "current now (view r) k = Some (RStr (str_int n), t)"
  obtains r' where "run_state (redis_cmd (rd_incr c now k)) (r, m) = (Inr (n + 1), (r', m))"
    and "current now (view r') = (current now (view r))(k \<mapsto> (RStr (str_int (n + 1)), t))"
proof -
  from assms obtain r' where "rd_incr c now k r = (Some (n + 1), r')"
    "current now (view r') = (current now (view r))(k \<mapsto> (RStr (str_int (n + 1)), t))"
    unfolding answers_strings_def by meson
  with that show thesis by (simp add: run_redis_cmd)
qed

lemma expire_step:
  assumes "answers_strings c view" "current now (view r) k = Some (v, t)" "0 < n"
  obtains r' where "run_state (redis_cmd (rd_expire c now k n)) (r, m) = (Inr (), (r', m))"
    and "current now (view r') = (current now (view r))(k \<mapsto> (v, Some (now + seconds n)))"
proof -
  from assms obtain r' where "rd_expire c now k n r = (Some (), r')"
    "current now (view r') = (current now (view r))(k \<mapsto> (v, Some (now + seconds n)))"
    unfolding answers_strings_def by meson
  with that show thesis by (simp add: run_redis_cmd)
qed

text \<open>One call counts the same in both, and they agree afterwards.\<close>

lemma increment_agrees:
  assumes c: "answers_strings c view" and window: "0 < window" and agree: "agree view now key ls r"
    and inc: "rate_increment now key window ls = (n, ls')"
  shows "\<exists>r'. run_state (store_increment c now key window) (r, m) = (Inr n, (r', m)) \<and> agree view now key ls' r'"
proof (cases "live now key ls")
  case None
  from agree have d: "distinct (map fst ls)" by (simp add: agree_def)
  have mem: "n = 1" "live now key ls' = Some \<lparr>lr_count = 1, lr_expires_at = now + seconds window\<rparr>" "distinct (map fst ls')"
  proof -
    note facts = rate_increment_live [OF d inc window]
    show "n = 1" "distinct (map fst ls')" using facts None by simp_all
    have m: "map_of ls' (rate_key key) = Some \<lparr>lr_count = 1, lr_expires_at = now + seconds window\<rparr>" using facts None by blast
    show "live now key ls' = Some \<lparr>lr_count = 1, lr_expires_at = now + seconds window\<rparr>"
      unfolding live_def m using window by (simp add: unit_values)
  qed
  have cur: "current now (view r) (rate_key key) = None" using agree None by (simp add: agree_def)
  obtain r1 where r1: "run_state (redis_cmd (rd_incr c now (rate_key key))) (r, m) = (Inr 1, (r1, m))"
    "current now (view r1) = (current now (view r))(rate_key key \<mapsto> (RStr (str_int 1), None))"
    using incr_new_step [OF c cur] .
  from r1(2) have "current now (view r1) (rate_key key) = Some (RStr (str_int 1), None)" by simp
  from expire_step [OF c this window] obtain r2
    where r2: "run_state (redis_cmd (rd_expire c now (rate_key key) window)) (r1, m) = (Inr (), (r2, m))"
      "current now (view r2) = (current now (view r1))(rate_key key \<mapsto> (RStr (str_int 1), Some (now + seconds window)))" .
  have "run_state (store_increment c now key window) (r, m) = (Inr n, (r2, m))"
    by (simp add: store_increment_def or_else_def r1(1) r2(1) mem(1))
  moreover have "agree view now key ls' r2" using mem by (simp add: agree_def r2(2))
  ultimately show ?thesis by blast
next
  case (Some x)
  from agree have d: "distinct (map fst ls)" by (simp add: agree_def)
  have x: "now < lr_expires_at x" using Some by (auto simp: live_def split: option.splits if_splits)
  have mem: "n = lr_count x + 1" "live now key ls' = Some (x\<lparr>lr_count := lr_count x + 1\<rparr>)" "distinct (map fst ls')"
  proof -
    note facts = rate_increment_live [OF d inc window]
    show "n = lr_count x + 1" "distinct (map fst ls')" using facts Some by simp_all
    have m: "map_of ls' (rate_key key) = Some (x\<lparr>lr_count := lr_count x + 1\<rparr>)" using facts Some by blast
    show "live now key ls' = Some (x\<lparr>lr_count := lr_count x + 1\<rparr>)" unfolding live_def m using x by simp
  qed
  have cur: "1 \<le> lr_count x" "current now (view r) (rate_key key) = Some (RStr (str_int (lr_count x)), Some (lr_expires_at x))"
    using agree Some by (simp_all add: agree_def)
  obtain r1 where r1: "run_state (redis_cmd (rd_incr c now (rate_key key))) (r, m) = (Inr (lr_count x + 1), (r1, m))"
    "current now (view r1) = (current now (view r))(rate_key key \<mapsto> (RStr (str_int (lr_count x + 1)), Some (lr_expires_at x)))"
    using incr_step [OF c cur(2)] .
  have "run_state (store_increment c now key window) (r, m) = (Inr n, (r1, m))"
    using cur(1) by (simp add: store_increment_def or_else_def r1(1) mem(1))
  moreover have "agree view now key ls' r1" using mem cur(1) by (simp add: agree_def r1(2))
  ultimately show ?thesis by blast
qed

text \<open>A run of calls on one key, with Redis: which of them are let through.\<close>

fun store_rate_run :: "'r redis_client \<Rightarrow> string \<Rightarrow> int \<Rightarrow> int \<Rightarrow> instant list \<Rightarrow> 'r \<times> limiter \<Rightarrow> bool list" where
  "store_rate_run c key limit window_seconds [] s = []"
| "store_rate_run c key limit window_seconds (t # ts) s =
     (case run_state (store_enforce c t key limit window_seconds) s of
        (r, s') \<Rightarrow> (case r of Inl _ \<Rightarrow> False | Inr _ \<Rightarrow> True) # store_rate_run c key limit window_seconds ts s')"


lemma rate_runs_agree:
  assumes c: "answers_strings c view" and window: "0 < window"
  shows "sorted ts \<Longrightarrow> (\<And>t. t \<in> set ts \<Longrightarrow> now \<le> t) \<Longrightarrow> agree view now key ls r \<Longrightarrow>
    store_rate_run c key limit window ts (r, m) = fst (rate_run key limit window ts ls)"
proof (induction ts arbitrary: now ls r)
  case (Cons t ts)
  obtain n ls' where inc: "rate_increment t key window ls = (n, ls')" by fastforce
  have "agree view t key ls r" using Cons.prems agree_later by (metis list.set_intros(1))
  from increment_agrees [OF c window this inc, of m] obtain r' where
    r': "run_state (store_increment c t key window) (r, m) = (Inr n, (r', m))" "agree view t key ls' r'" by blast
  have "store_rate_run c key limit window ts (r', m) = fst (rate_run key limit window ts ls')"
    using Cons.IH [OF _ _ r'(2)] Cons.prems(1) by simp
  then show ?case
    by (simp add: store_enforce_def r'(1) rate_enforce_def inc split: prod.split)
qed simp

text \<open>
  The limiter is the same with Redis and without: over any run of calls on one key at rising instants,
  from a state in which Redis and the dictionary hold the same count of the key (as at the start, when
  neither has it), the calls that pass are the same.
\<close>

theorem limiter_paths_agree:
  assumes "answers_strings c view" "0 < window" "sorted ts" "\<forall>t\<in>set ts. now \<le> t" "agree view now key ls r"
  shows "store_rate_run c key limit window ts (r, m) = fst (rate_run key limit window ts ls)"
  using rate_runs_agree [OF assms(1-3) _ assms(5)] assms(4) by blast

section \<open>Idempotency records in Redis\<close>

text \<open>
  A response recorded in Redis is replayed while the key lives, and not afterwards: read back before
  \<open>IDEMPOTENCY_KEY_TTL_SECONDS\<close> have passed it is the record that was saved, and from then on what the
  dictionary of the process holds, which has no expiry.
\<close>

theorem redis_record_replayed:
  assumes c: "answers_strings c view" and ttl: "0 < IDEMPOTENCY_KEY_TTL_SECONDS (feat e)" and later: "now \<le> now'"
    and json: "json_dumps e (idem_json x) \<noteq> []" "json_loads e (json_dumps e (idem_json x)) = Some (idem_json x)"
    and save: "run_state (store_save_response e c now k x) (r, m) = (y, (r1, m1))"
  shows "y = Inr () \<and> m1 = m \<and>
    fst (run_state (store_get_response e c now' k) (r1, m)) =
      Inr (if now' < now + seconds (IDEMPOTENCY_KEY_TTL_SECONDS (feat e)) then Some x else map_of m k)"
proof -
  obtain r2 where set: "run_state (redis_cmd (rd_setex c now k (IDEMPOTENCY_KEY_TTL_SECONDS (feat e)) (json_dumps e (idem_json x)))) (r, m)
      = (Inr (), (r2, m))"
    and cur: "current now (view r2) = (current now (view r))(k \<mapsto>
      (RStr (json_dumps e (idem_json x)), Some (now + seconds (IDEMPOTENCY_KEY_TTL_SECONDS (feat e)))))"
    using setex_step [OF c ttl] .
  from save set have res: "y = Inr ()" "m1 = m" "r1 = r2" by (auto simp: store_save_response_def or_else_def)
  have cur': "current now' (view r1) k =
      (if now' < now + seconds (IDEMPOTENCY_KEY_TTL_SECONDS (feat e))
       then Some (RStr (json_dumps e (idem_json x)), Some (now + seconds (IDEMPOTENCY_KEY_TTL_SECONDS (feat e)))) else None)"
    using current_at [OF later, of "view r2" k] by (simp add: res(3) cur current_def)
  have read: "read_idem_json e (json_dumps e (idem_json x)) = Inr x"
    using json(2) by (simp add: read_idem_json_def idem_json_def py_item_def py_get_def)
  have "fst (run_state (store_get_response e c now' k) (r1, m)) =
      Inr (if now' < now + seconds (IDEMPOTENCY_KEY_TTL_SECONDS (feat e)) then Some x else map_of m k)"
  proof (cases "now' < now + seconds (IDEMPOTENCY_KEY_TTL_SECONDS (feat e))")
    case True
    with cur' have "current now' (view r1) k = Some (RStr (json_dumps e (idem_json x)), Some (now + seconds (IDEMPOTENCY_KEY_TTL_SECONDS (feat e))))" by simp
    with c obtain r3 where "rd_get c now' k r1 = (Some (Some (json_dumps e (idem_json x))), r3)"
      unfolding answers_strings_def by meson
    with True json(1) read show ?thesis by (simp add: store_get_response_def or_else_def Let_def run_redis_cmd)
  next
    case False
    with cur' have "current now' (view r1) k = None" by simp
    with c obtain r3 where "rd_get c now' k r1 = (Some None, r3)"
      unfolding answers_strings_def by meson
    with False show ?thesis by (simp add: store_get_response_def or_else_def Let_def run_redis_cmd)
  qed
  with res show ?thesis by simp
qed

section \<open>A client, and witnesses\<close>

text \<open>A key space kept as a list, the latest entry of a key first and \<open>None\<close> for a deleted one.\<close>

type_synonym entries = "(string \<times> (redis_value \<times> instant option) option) list"

definition entry_view :: "entries \<Rightarrow> keyspace" where
  "entry_view r k = (case map_of r k of None \<Rightarrow> None | Some e \<Rightarrow> e)"

definition held :: "instant \<Rightarrow> string \<Rightarrow> entries \<Rightarrow> (redis_value \<times> instant option) option" where
  "held now k r = current now (entry_view r) k"

definition list_client :: "entries redis_client" where
  "list_client = \<lparr>
     rd_setex = (\<lambda>now k n v r. (Some (), (k, Some (RStr v, Some (now + seconds n))) # r)),
     rd_get = (\<lambda>now k r. (case held now k r of
        None \<Rightarrow> Some None | Some (RStr s, t) \<Rightarrow> Some (Some s) | Some _ \<Rightarrow> None, r)),
     rd_exists = (\<lambda>now k r. (Some (if held now k r = None then 0 else 1), r)),
     rd_incr = (\<lambda>now k r. case held now k r of
        None \<Rightarrow> (Some 1, (k, Some (RStr (str_int 1), None)) # r)
      | Some (RStr s, t) \<Rightarrow> (case parse_int s of
           None \<Rightarrow> (None, r) | Some n \<Rightarrow> (Some (n + 1), (k, Some (RStr (str_int (n + 1)), t)) # r))
      | Some _ \<Rightarrow> (None, r)),
     rd_expire = (\<lambda>now k n r. (Some (), (case held now k r of
        None \<Rightarrow> r | Some (v, t) \<Rightarrow> (k, Some (v, Some (now + seconds n))) # r))),
     rd_delete = (\<lambda>now k r. (Some (), (k, None) # r)),
     rd_keys = (\<lambda>now p r. (Some (filter (\<lambda>k. starts_with k (butlast p) \<and> held now k r \<noteq> None) (map fst r)), r)),
     rd_hset = (\<lambda>now k h r. (Some (), (k, Some (RHash h, None)) # r)),
     rd_hgetall = (\<lambda>now k r. (case held now k r of None \<Rightarrow> Some [] | Some (RHash h, t) \<Rightarrow> Some h | Some _ \<Rightarrow> None, r)),
     rd_sadd = (\<lambda>now k x r. case held now k r of
        None \<Rightarrow> (Some (), (k, Some (RSet [x], None)) # r)
      | Some (RSet xs, t) \<Rightarrow> (Some (), (k, Some (RSet (List.insert x xs), t)) # r)
      | Some _ \<Rightarrow> (None, r)),
     rd_srem = (\<lambda>now k x r. case held now k r of
        None \<Rightarrow> (Some (), r)
      | Some (RSet xs, t) \<Rightarrow> (Some (), (k, let ys = filter (\<lambda>y. y \<noteq> x) xs in if ys = [] then None else Some (RSet ys, t)) # r)
      | Some _ \<Rightarrow> (None, r)),
     rd_smembers = (\<lambda>now k r. (case held now k r of None \<Rightarrow> Some [] | Some (RSet xs, t) \<Rightarrow> Some xs | Some _ \<Rightarrow> None, r))\<rparr>"

lemma entry_view_Cons: "entry_view ((k, e) # r) = (entry_view r)(k := e)"
  by (auto simp: entry_view_def fun_eq_iff)

lemma current_upd: "current now (m(k := e)) = (current now m)(k := current now (\<lambda>_. e) k)"
  by (auto simp: current_def fun_eq_iff)

lemma current_const: "current now (\<lambda>_. None) k = None" "current now (\<lambda>_. Some (v, None)) k = Some (v, None)"
  "now < t \<Longrightarrow> current now (\<lambda>_. Some (v, Some t)) k = Some (v, Some t)"
  by (simp_all add: current_def)

lemma current_expiry: "current now m k = Some (v, t) \<Longrightarrow> current now (\<lambda>_. Some (x, t)) k' = Some (x, t)"
  by (auto simp: current_def split: option.splits if_splits)

lemma list_client_strings: "answers_strings list_client entry_view"
  unfolding answers_strings_def
  by (auto simp: list_client_def held_def entry_view_Cons current_upd current_const current_expiry parse_int_str_int
      unit_values)


definition no_client :: "unit redis_client" where
  "no_client = \<lparr>
     rd_setex = (\<lambda>now k n v r. (None, r)), rd_get = (\<lambda>now k r. (None, r)), rd_exists = (\<lambda>now k r. (None, r)),
     rd_incr = (\<lambda>now k r. (None, r)), rd_expire = (\<lambda>now k n r. (None, r)), rd_delete = (\<lambda>now k r. (None, r)),
     rd_keys = (\<lambda>now p r. (None, r)), rd_hset = (\<lambda>now k h r. (None, r)), rd_hgetall = (\<lambda>now k r. (None, r)),
     rd_sadd = (\<lambda>now k x r. (None, r)), rd_srem = (\<lambda>now k x r. (None, r)), rd_smembers = (\<lambda>now k r. (None, r))\<rparr>"

text \<open>A token that expires ten and a half seconds from now is accepted again after ten.\<close>

lemma redis_revocation_window_witness:
  "fst (run_state (store_is_revoked list_client (seconds 9) ''j'')
     (snd (run_state (store_revoke list_client 0 ''j'' (seconds 10 + 500000)) ([], empty_token_store)))) = Inr True \<and>
   fst (run_state (store_is_revoked list_client (seconds 10) ''j'')
     (snd (run_state (store_revoke list_client 0 ''j'' (seconds 10 + 500000)) ([], empty_token_store)))) = Inr False"
proof -
  obtain x r1 ts1 where run: "run_state (store_revoke list_client 0 ''j'' (seconds 10 + 500000)) ([], empty_token_store) = (x, (r1, ts1))"
    by (metis prod.collapse)
  have "0 \<le> seconds 9" "0 \<le> seconds 10" "ttl_seconds 0 (seconds 10 + 500000) = 10"
    by (simp_all add: unit_values ttl_seconds_def)
  with redis_revocation_window [OF list_client_strings this(1) run] redis_revocation_window [OF list_client_strings this(2) run] run
  show ?thesis by (simp add: unit_values)
qed

definition open_session :: session_record where
  "open_session = \<lparr>s_jti = ''j'', s_user_id = 1, s_issued_at = 0, s_expires_at = seconds 60, s_user_agent = None, s_ip_address = None\<rparr>"

definition one_session :: token_store where
  "one_session = empty_token_store\<lparr>ts_sessions := [(''j'', open_session)], ts_user_sessions := [(1, [''j''])]\<rparr>"



text \<open>Redis is out of reach until instant 5; the session is ended at 0 and its token asked for at 3 and at 7.\<close>

lemma outages_forget_revocations_witness:
  "fst (run_state (store_is_revoked (with_outages (\<lambda>t. t < 5) list_client) 3 ''j'')
     (snd (run_state (store_revoke_user_sessions (with_outages (\<lambda>t. t < 5) list_client) 0 1) ([], one_session)))) = Inr True \<and>
   fst (run_state (store_is_revoked (with_outages (\<lambda>t. t < 5) list_client) 7 ''j'')
     (snd (run_state (store_revoke_user_sessions (with_outages (\<lambda>t. t < 5) list_client) 0 1) ([], one_session)))) = Inr False"
proof -
  have ok: "store_ok one_session" "distinct (user_session_ids 1 one_session)"
    by (auto simp: store_ok_def one_session_def open_session_def empty_token_store_def user_session_ids_def split: if_splits)
  have s: "map_of (ts_sessions one_session) ''j'' = Some open_session" "s_user_id open_session = 1" "3 < s_expires_at open_session"
    by (simp_all add: one_session_def open_session_def unit_values)
  have none: "current 7 (entry_view []) (redis_key ''j'') = None" by (simp add: current_def entry_view_def)
  have later: "(0 :: instant) \<le> 3" "(0 :: instant) \<le> 7" by simp_all
  note forget = outages_forget_revocations [OF list_client_strings ok, THEN conjunct2, rule_format, OF _ _ s(1,2),
      where down = "\<lambda>t. t < 5" and r = "[]"]
  from forget [OF later(1)] forget [OF later(2)] s(3) none show ?thesis by simp
qed

lemma limiter_paths_agree_witness:
  "store_rate_run list_client ''k'' 2 60 [0, 1, 2] ([], []) = fst (rate_run ''k'' 2 60 [0, 1, 2] [])"
  by (rule limiter_paths_agree [OF list_client_strings, where now = 0])
    (simp_all add: agree_def live_def current_def entry_view_def)

end
