(* ===== verification/Operations.thy ===== *)
theory Operations
  imports Provider Calendar "HOL-Library.List_Lexorder" "HOL-Library.Product_Lexorder" "HOL-Library.Char_ord"
begin

text \<open>
  What stands around the endpoints: the error pages of src/app/core/exceptions.py, the two middlewares
  (src/app/core/headers.py and \<open>log_requests\<close> of src/app/core/logging.py) in the order in which src/app/main.py
  installs them, the registry of src/app/core/metrics.py with its Prometheus page, and the health and
  deployment pages of src/app/services/health.py and src/app/services/deployment.py. What a probe of the
  database or of Redis finds, the heads of the migration scripts, and how a float is printed are arguments.
\<close>

section \<open>Metrics (core/metrics.py)\<close>

text \<open>A \<open>Counter\<close> is an association list; its items are printed in order.\<close>

definition count_up :: "'k \<Rightarrow> 'n :: plus \<Rightarrow> ('k \<times> 'n) list \<Rightarrow> ('k \<times> 'n) list" where
  "count_up k n m = (case map_of m k of None \<Rightarrow> AList.update k n m | Some x \<Rightarrow> AList.update k (x + n) m)"

record registry =
  request_total :: "((string \<times> string \<times> int) \<times> int) list"
  request_duration_ms_total :: "((string \<times> string) \<times> real) list"
  request_duration_count :: "((string \<times> string) \<times> int) list"
  job_totals :: "((string \<times> string) \<times> int) list"
  exception_totals :: "(string \<times> int) list"
  dispatch_totals :: "((string \<times> string) \<times> int) list"
  auth_totals :: "((string \<times> string) \<times> int) list"
  payment_totals :: "((string \<times> string) \<times> int) list"

definition empty_registry :: registry where
  "empty_registry = \<lparr>request_total = [], request_duration_ms_total = [], request_duration_count = [], job_totals = [],
     exception_totals = [], dispatch_totals = [], auth_totals = [], payment_totals = []\<rparr>"

definition normalize_path :: "string \<Rightarrow> string" where
  "normalize_path path = (if path = [] then ''/unknown'' else path)"

definition status_bucket :: "int \<Rightarrow> int" where
  "status_bucket status_code = (status_code div 100) * 100"

definition record_request :: "string \<Rightarrow> string \<Rightarrow> int \<Rightarrow> real \<Rightarrow> registry \<Rightarrow> registry" where
  "record_request meth path status_code duration_ms m =
     (let p = normalize_path path; u = upper_str meth
      in m\<lparr>request_total := count_up (u, p, status_bucket status_code) 1 (request_total m),
           request_duration_ms_total := count_up (u, p) duration_ms (request_duration_ms_total m),
           request_duration_count := count_up (u, p) 1 (request_duration_count m)\<rparr>)"

definition registry_job :: "string \<Rightarrow> string \<Rightarrow> registry \<Rightarrow> registry" where
  "registry_job name status m = m\<lparr>job_totals := count_up (name, status) 1 (job_totals m)\<rparr>"

definition registry_exception :: "string \<Rightarrow> registry \<Rightarrow> registry" where
  "registry_exception code m = m\<lparr>exception_totals := count_up code 1 (exception_totals m)\<rparr>"

definition registry_dispatch :: "string \<Rightarrow> string \<Rightarrow> int \<Rightarrow> registry \<Rightarrow> registry" where
  "registry_dispatch event outcome n m = m\<lparr>dispatch_totals := count_up (event, outcome) n (dispatch_totals m)\<rparr>"

definition registry_auth :: "string \<Rightarrow> string \<Rightarrow> int \<Rightarrow> registry \<Rightarrow> registry" where
  "registry_auth event outcome n m = m\<lparr>auth_totals := count_up (event, outcome) n (auth_totals m)\<rparr>"

definition registry_payment :: "string \<Rightarrow> string \<Rightarrow> int \<Rightarrow> registry \<Rightarrow> registry" where
  "registry_payment event outcome n m = m\<lparr>payment_totals := count_up (event, outcome) n (payment_totals m)\<rparr>"

definition registry_reset :: "registry \<Rightarrow> registry" where
  "registry_reset m = empty_registry"

text \<open>\<open>name{label="value",...} number\<close>, and the two lines that introduce a metric.\<close>

definition label :: "string \<Rightarrow> string \<Rightarrow> string" where
  "label k v = k @ ''='' @ [CHR 0x22] @ v @ [CHR 0x22]"

fun commas :: "string list \<Rightarrow> string" where
  "commas [] = []"
| "commas [s] = s"
| "commas (s # ss) = s @ '','' @ commas ss"

definition sample :: "string \<Rightarrow> string list \<Rightarrow> string \<Rightarrow> string" where
  "sample name labels number = name @ [CHR ''{''] @ commas labels @ [CHR ''}''] @ '' '' @ number"

definition heading :: "string \<Rightarrow> string \<Rightarrow> string list" where
  "heading name help = [''# HELP '' @ name @ '' '' @ help, ''# TYPE '' @ name @ '' counter'']"

definition pair_samples :: "string \<Rightarrow> string \<Rightarrow> string \<Rightarrow> ((string \<times> string) \<times> int) list \<Rightarrow> string list" where
  "pair_samples name k1 k2 m = map (\<lambda>((a, b), v). sample name [label k1 a, label k2 b] (str_int v)) (sort m)"

text \<open>The lines of the page; \<open>fmt\<close> prints a float rounded to two decimals.\<close>

definition prometheus_lines :: "(real \<Rightarrow> string) \<Rightarrow> registry \<Rightarrow> string list" where
  "prometheus_lines fmt m =
     heading ''moovesaathi_requests_total'' ''Total HTTP requests handled by the API.'' @
     map (\<lambda>((meth, path, b), v). sample ''moovesaathi_requests_total''
       [label ''method'' meth, label ''path'' path, label ''status'' (str_int b)] (str_int v)) (sort (request_total m)) @
     heading ''moovesaathi_request_duration_ms_sum'' ''Total request duration in milliseconds.'' @
     map (\<lambda>((meth, path), v). sample ''moovesaathi_request_duration_ms_sum''
       [label ''method'' meth, label ''path'' path] (fmt v)) (sort (request_duration_ms_total m)) @
     heading ''moovesaathi_request_duration_ms_count'' ''Total request samples observed.'' @
     pair_samples ''moovesaathi_request_duration_ms_count'' ''method'' ''path'' (request_duration_count m) @
     heading ''moovesaathi_jobs_total'' ''Total background jobs processed by status.'' @
     pair_samples ''moovesaathi_jobs_total'' ''job'' ''status'' (job_totals m) @
     heading ''moovesaathi_exceptions_total'' ''Total exceptions seen by code.'' @
     map (\<lambda>(code, v). sample ''moovesaathi_exceptions_total'' [label ''code'' code] (str_int v)) (sort (exception_totals m)) @
     heading ''moovesaathi_dispatch_total'' ''Total dispatch lifecycle and cleanup events.'' @
     pair_samples ''moovesaathi_dispatch_total'' ''event'' ''outcome'' (dispatch_totals m) @
     heading ''moovesaathi_auth_total'' ''Total auth security and recovery events.'' @
     pair_samples ''moovesaathi_auth_total'' ''event'' ''outcome'' (auth_totals m) @
     heading ''moovesaathi_payment_total'' ''Total payment lifecycle and recovery events.'' @
     pair_samples ''moovesaathi_payment_total'' ''event'' ''outcome'' (payment_totals m)"

definition render_prometheus :: "(real \<Rightarrow> string) \<Rightarrow> registry \<Rightarrow> string" where
  "render_prometheus fmt m = concat (map (\<lambda>l. l @ [CHR 0x0A]) (prometheus_lines fmt m))"

section \<open>Error pages (core/exceptions.py)\<close>

record page =
  pg_status :: int
  pg_body :: py
  pg_headers :: "(string \<times> string) list"

definition error_code_for_status :: "int \<Rightarrow> string" where
  "error_code_for_status status_code =
     (case map_of [(400, ''bad_request''), (401, ''unauthorized''), (403, ''forbidden''), (404, ''not_found''),
        (409, ''conflict''), (422, ''validation_error''), (429, ''rate_limited'')] status_code of
        None \<Rightarrow> ''http_error'' | Some c \<Rightarrow> c)"

definition py_text :: "string option \<Rightarrow> py" where
  "py_text s = (case s of None \<Rightarrow> PyNone | Some t \<Rightarrow> PyStr t)"

definition error_body :: "string \<Rightarrow> string \<Rightarrow> string option \<Rightarrow> py" where
  "error_body detail code request_id =
     PyDict [(''detail'', PyStr detail), (''code'', PyStr code), (''request_id'', py_text request_id)]"

definition http_exception_handler :: "string option \<Rightarrow> int \<Rightarrow> string \<Rightarrow> (string \<times> string) list \<Rightarrow> registry \<Rightarrow> page \<times> registry" where
  "http_exception_handler request_id status_code detail headers m =
     (\<lparr>pg_status = status_code, pg_body = error_body detail (error_code_for_status status_code) request_id, pg_headers = headers\<rparr>,
      registry_exception (error_code_for_status status_code) m)"

text \<open>A refused body or parameter: \<open>errors\<close> is pydantic's list.\<close>

definition validation_exception_handler :: "string option \<Rightarrow> py \<Rightarrow> registry \<Rightarrow> page \<times> registry" where
  "validation_exception_handler request_id errors m =
     (\<lparr>pg_status = 422, pg_body = PyDict [(''detail'', PyStr ''Request validation failed''),
         (''code'', PyStr ''validation_error''), (''request_id'', py_text request_id), (''errors'', errors)],
       pg_headers = []\<rparr>,
      registry_exception ''validation_error'' m)"

definition unhandled_exception_handler :: "string option \<Rightarrow> registry \<Rightarrow> page \<times> registry" where
  "unhandled_exception_handler request_id m =
     (\<lparr>pg_status = 500, pg_body = error_body ''Internal server error'' ''internal_server_error'' request_id, pg_headers = []\<rparr>,
      registry_exception ''internal_server_error'' m)"

section \<open>Middlewares (core/headers.py, core/logging.py, main.py)\<close>

definition set_default :: "string \<Rightarrow> string \<Rightarrow> (string \<times> string) list \<Rightarrow> (string \<times> string) list" where
  "set_default k v h = (if map_of h k = None then h @ [(k, v)] else h)"

definition security_headers :: "(string \<times> string) list" where
  "security_headers =
     [(''x-content-type-options'', ''nosniff''), (''x-frame-options'', ''DENY''),
      (''referrer-policy'', ''strict-origin-when-cross-origin''),
      (''permissions-policy'', ''geolocation=(), microphone=(), camera=()''), (''cache-control'', ''no-store'')]"

definition add_security_headers :: "page \<Rightarrow> page" where
  "add_security_headers p = p\<lparr>pg_headers := fold (\<lambda>(k, v). set_default k v) security_headers (pg_headers p)\<rparr>"

text \<open>
  What a request brings to the middlewares: its method, the path as sent, the path of the route that
  serves it, the \<open>x-request-id\<close> header and the time it took. Without the header the id is a fresh one.
\<close>

record call_info =
  ci_method :: string
  ci_url_path :: string
  ci_route_path :: "string option"
  ci_request_id :: "string option"
  ci_duration_ms :: real

text \<open>How the endpoint ended: with an answer, with a refused parameter, or with an exception and its headers.\<close>

datatype outcome =
  Answered int py
| Refused py
| Failed exc "(string \<times> string) list"

definition request_path :: "call_info \<Rightarrow> string" where
  "request_path c = (case ci_route_path c of None \<Rightarrow> ci_url_path c | Some p \<Rightarrow> p)"

definition request_id_of :: "string \<Rightarrow> call_info \<Rightarrow> string" where
  "request_id_of fresh c = (case ci_request_id c of None \<Rightarrow> fresh | Some i \<Rightarrow> i)"

text \<open>
  The answer to a request, with the metrics after it. Answers, refused parameters and \<open>HTTPException\<close>s become
  a page inside the middlewares, which count the request, echo its id and add the security headers. Any
  other exception passes through \<open>log_requests\<close>, which counts a 500 on the path as sent, and reaches the
  handler of \<open>Exception\<close>, which Starlette runs outside the middlewares.
\<close>

definition inner_page :: "string \<Rightarrow> outcome \<Rightarrow> registry \<Rightarrow> (page \<times> registry) option" where
  "inner_page i out m =
     (case out of
        Answered code body \<Rightarrow> Some (\<lparr>pg_status = code, pg_body = body, pg_headers = []\<rparr>, m)
      | Refused errors \<Rightarrow> Some (validation_exception_handler (Some i) errors m)
      | Failed (HTTPException code detail) headers \<Rightarrow> Some (http_exception_handler (Some i) code detail headers m)
      | Failed _ _ \<Rightarrow> None)"

definition log_requests :: "call_info \<Rightarrow> string \<Rightarrow> (page \<times> registry) option \<Rightarrow> registry \<Rightarrow> (page \<times> registry) + registry" where
  "log_requests c i r m =
     (case r of
        None \<Rightarrow> Inr (record_request (ci_method c) (ci_url_path c) 500 (ci_duration_ms c) m)
      | Some (p, m') \<Rightarrow> Inl (p\<lparr>pg_headers := AList.update ''x-request-id'' i (pg_headers p)\<rparr>,
          record_request (ci_method c) (request_path c) (pg_status p) (ci_duration_ms c) m'))"

definition respond :: "string \<Rightarrow> call_info \<Rightarrow> outcome \<Rightarrow> registry \<Rightarrow> page \<times> registry" where
  "respond fresh c out m =
     (let i = request_id_of fresh c
      in case log_requests c i (inner_page i out m) m of
           Inl (p, m') \<Rightarrow> (add_security_headers p, m')
         | Inr m' \<Rightarrow> unhandled_exception_handler (Some i) m')"

section \<open>Health (services/health.py)\<close>

text \<open>What a probe found: \<open>None\<close>, or the text of the exception.\<close>

definition check_result :: "string option \<Rightarrow> bool \<times> string" where
  "check_result failure = (case failure of None \<Rightarrow> (True, ''ok'') | Some x \<Rightarrow> (False, x))"

definition check_json :: "bool \<times> string \<Rightarrow> py" where
  "check_json c = PyDict [(''status'', PyStr (if fst c then ''ok'' else ''error'')), (''detail'', PyStr (snd c))]"

record readiness =
  rn_status :: string
  rn_service :: string
  rn_environment :: string
  rn_generated_at :: "string option"
  rn_checks :: "(string \<times> py) list"
  rn_dependencies :: "(string \<times> bool) list"

definition build_readiness_payload ::
  "env \<Rightarrow> instant \<Rightarrow> bool \<times> string \<Rightarrow> bool \<times> string \<Rightarrow> readiness \<times> bool" where
  "build_readiness_payload e now database redis =
     (let healthy = fst database \<and> fst redis
      in (\<lparr>rn_status = (if healthy then ''ok'' else ''degraded''), rn_service = PROJECT_NAME (core e),
           rn_environment = APP_ENV (core e), rn_generated_at = Some (isoformat now),
           rn_checks = [(''database'', check_json database), (''redis'', check_json redis)],
           rn_dependencies = [(''database'', fst database), (''redis'', fst redis)]\<rparr>, healthy))"

definition readiness_status :: "bool \<Rightarrow> int" where
  "readiness_status healthy = (if healthy then 200 else 503)"

section \<open>Deployment (services/deployment.py)\<close>

text \<open>The heads of the migration scripts; \<open>None\<close> when reading them raises.\<close>

record migrations =
  mg_single_head :: bool
  mg_head_count :: nat
  mg_heads :: "string list"

definition build_migration_preflight_payload :: "string list option \<Rightarrow> migrations" where
  "build_migration_preflight_payload found =
     (let heads = (case found of None \<Rightarrow> [] | Some hs \<Rightarrow> hs)
      in \<lparr>mg_single_head = (length heads = 1), mg_head_count = length heads, mg_heads = heads\<rparr>)"

text \<open>Outside production the dependencies are not probed.\<close>

definition assumed_readiness :: "env \<Rightarrow> readiness" where
  "assumed_readiness e =
     \<lparr>rn_status = ''ok'', rn_service = PROJECT_NAME (core e), rn_environment = APP_ENV (core e), rn_generated_at = None,
      rn_checks = [(''database'', check_json (True, ''test environment'')), (''redis'', check_json (True, ''test environment''))],
      rn_dependencies = []\<rparr>"

record preflight =
  pf_ready_to_deploy :: bool
  pf_blocking_issues :: "string list"
  pf_checks :: "(string \<times> bool) list"
  pf_runtime_dependencies_healthy :: bool
  pf_runtime_dependencies :: "(string \<times> py) list"
  pf_migrations :: migrations

definition build_deployment_preflight_payload ::
  "env \<Rightarrow> instant \<Rightarrow> string list option \<Rightarrow> bool \<times> string \<Rightarrow> bool \<times> string \<Rightarrow> preflight" where
  "build_deployment_preflight_payload e now found database redis =
     (let mg = build_migration_preflight_payload found;
          (readiness, healthy) = (if APP_ENV (core e) \<noteq> ''production'' then (assumed_readiness e, True)
             else build_readiness_payload e now database redis);
          d = delivery e;
          blocking =
            (if \<not> mg_single_head mg then [''alembic-multiple-heads''] else []) @
            (if \<not> healthy then [''runtime-dependencies-unhealthy''] else []) @
            (if is_production (core e) \<and> AUTO_CREATE_TABLES d then [''auto-create-tables-enabled''] else []) @
            (if EMAILS_ENABLED d \<and> \<not> given (SMTP_HOST d) then [''smtp-missing''] else []) @
            (if ERROR_REPORTING_ENABLED d \<and> \<not> given (ERROR_REPORTING_DSN d) then [''error-reporting-missing-dsn''] else []) @
            (if SUPPORT_API_ENABLED d \<and> \<not> given (SUPPORT_API_KEY d) then [''support-api-missing-key''] else [])
      in \<lparr>pf_ready_to_deploy = (blocking = []), pf_blocking_issues = blocking,
          pf_checks =
            [(''migrations_single_head'', mg_single_head mg), (''runtime_dependencies_healthy'', healthy),
             (''production_auto_create_disabled'', \<not> (is_production (core e) \<and> AUTO_CREATE_TABLES d)),
             (''smtp_configured_when_enabled'', \<not> EMAILS_ENABLED d \<or> given (SMTP_HOST d)),
             (''error_reporting_configured_when_enabled'', \<not> ERROR_REPORTING_ENABLED d \<or> given (ERROR_REPORTING_DSN d)),
             (''support_api_configured_when_enabled'', \<not> SUPPORT_API_ENABLED d \<or> given (SUPPORT_API_KEY d))],
          pf_runtime_dependencies_healthy = healthy, pf_runtime_dependencies = rn_checks readiness,
          pf_migrations = mg\<rparr>)"

record deployment_status =
  ds_environment :: string
  ds_service :: string
  ds_version :: string
  ds_build_sha :: "string option"
  ds_build_timestamp :: "string option"
  ds_production_safe :: bool
  ds_database_url_scheme :: string
  ds_auto_create_tables :: bool
  ds_redis_url_scheme :: string
  ds_jobs_enabled :: bool
  ds_jobs_synchronous :: bool
  ds_jobs_max_retries :: int
  ds_emails_enabled :: bool
  ds_smtp_configured :: bool
  ds_migrations :: migrations
  ds_preflight :: preflight

text \<open>\<open>url.split(":", 1)[0]\<close>\<close>

definition url_scheme :: "string \<Rightarrow> string" where
  "url_scheme url = takeWhile (\<lambda>c. c \<noteq> CHR '':'') url"

definition build_deployment_status_payload ::
  "env \<Rightarrow> instant \<Rightarrow> string list option \<Rightarrow> bool \<times> string \<Rightarrow> bool \<times> string \<Rightarrow> deployment_status" where
  "build_deployment_status_payload e now found database redis =
     \<lparr>ds_environment = APP_ENV (core e), ds_service = PROJECT_NAME (core e), ds_version = APP_VERSION (core e),
      ds_build_sha = BUILD_SHA (core e), ds_build_timestamp = BUILD_TIMESTAMP (core e),
      ds_production_safe = (\<not> is_production (core e) \<or> \<not> should_create_tables (core e) (delivery e)),
      ds_database_url_scheme = url_scheme (DATABASE_URL (delivery e)), ds_auto_create_tables = AUTO_CREATE_TABLES (delivery e),
      ds_redis_url_scheme = url_scheme (REDIS_URL (delivery e)), ds_jobs_enabled = JOB_WORKER_ENABLED (feat e),
      ds_jobs_synchronous = JOBS_SYNCHRONOUS (feat e), ds_jobs_max_retries = JOB_WORKER_MAX_RETRIES (feat e),
      ds_emails_enabled = EMAILS_ENABLED (delivery e), ds_smtp_configured = given (SMTP_HOST (delivery e)),
      ds_migrations = build_migration_preflight_payload found,
      ds_preflight = build_deployment_preflight_payload e now found database redis\<rparr>"

record deployment_checklist =
  dc_version :: string
  dc_service :: string
  dc_deploy_steps :: "string list"
  dc_rollback_steps :: "string list"
  dc_single_migration_head :: bool
  dc_runtime_dependencies_healthy :: bool
  dc_ready_to_deploy :: bool

definition build_deployment_checklist_payload ::
  "env \<Rightarrow> instant \<Rightarrow> string list option \<Rightarrow> bool \<times> string \<Rightarrow> bool \<times> string \<Rightarrow> deployment_checklist" where
  "build_deployment_checklist_payload e now found database redis =
     (let pf = build_deployment_preflight_payload e now found database redis
      in \<lparr>dc_version = APP_VERSION (core e), dc_service = PROJECT_NAME (core e),
          dc_deploy_steps = [''take a database backup'', ''run alembic upgrade head'', ''verify /health/ready'',
            ''start the new API release'', ''monitor logs, metrics, and job retries''],
          dc_rollback_steps = [''stop the new release'', ''restore the previous application version'',
            ''restore the database backup if the migration was not backward compatible'', ''verify /health/ready again''],
          dc_single_migration_head = mg_single_head (build_migration_preflight_payload found),
          dc_runtime_dependencies_healthy = pf_runtime_dependencies_healthy pf, dc_ready_to_deploy = pf_ready_to_deploy pf\<rparr>)"

end
