(* ===== verification/OperationsFacts.thy ===== *)
theory OperationsFacts
  imports Operations Demo
begin

text \<open>
  What holds of every answer of the application, of the request metrics, and of the deployment gate.
\<close>

section \<open>Answers\<close>

lemma map_of_set_default:
  "map_of (set_default k v h) = (map_of h)(k \<mapsto> (case map_of h k of None \<Rightarrow> v | Some x \<Rightarrow> x))"
  by (auto simp: set_default_def map_add_def fun_eq_iff split: option.split)

lemma header_added:
  "(k, v) \<in> set security_headers \<Longrightarrow>
     map_of (pg_headers (add_security_headers p)) k = Some (case map_of (pg_headers p) k of None \<Rightarrow> v | Some x \<Rightarrow> x)"
  by (auto simp: add_security_headers_def security_headers_def map_of_set_default split: option.split)

lemma defaults_keep:
  "map_of h k = Some v \<Longrightarrow> map_of (fold (\<lambda>(k, v). set_default k v) defaults h) k = Some v"
proof (induction defaults arbitrary: h)
  case (Cons d defaults)
  then have "map_of (set_default (fst d) (snd d) h) k = Some v" by (auto simp: map_of_set_default)
  with Cons.IH show ?case by (simp add: split_beta)
qed simp

lemma security_status [simp]: "pg_status (add_security_headers p) = pg_status p"
  by (simp add: add_security_headers_def)

lemma header_kept:
  "map_of (pg_headers p) k = Some v \<Longrightarrow> map_of (pg_headers (add_security_headers p)) k = Some v"
  by (simp add: add_security_headers_def defaults_keep)

text \<open>An exception that no handler but the last one knows.\<close>

definition defect :: "outcome \<Rightarrow> bool" where
  "defect out \<longleftrightarrow> (case out of Failed (HTTPException _ _) _ \<Rightarrow> False | Failed _ _ \<Rightarrow> True | _ \<Rightarrow> False)"

definition own_headers :: "outcome \<Rightarrow> (string \<times> string) list" where
  "own_headers out = (case out of Failed _ headers \<Rightarrow> headers | _ \<Rightarrow> [])"

definition own_status :: "outcome \<Rightarrow> int" where
  "own_status out = (case out of Answered code _ \<Rightarrow> code | Failed (HTTPException code _) _ \<Rightarrow> code | _ \<Rightarrow> 422)"

lemma inner_page_defect: "defect out \<longleftrightarrow> inner_page i out m = None"
  by (auto simp: defect_def inner_page_def split: outcome.split exc.split)

lemma inner_page_own:
  "inner_page i out m = Some (p, m') \<Longrightarrow> pg_status p = own_status out \<and> pg_headers p = own_headers out"
  by (auto simp: inner_page_def own_status_def own_headers_def http_exception_handler_def
      validation_exception_handler_def split: outcome.splits exc.splits)

lemma respond_defect:
  "defect out \<Longrightarrow> respond fresh c out m =
     unhandled_exception_handler (Some (request_id_of fresh c))
       (record_request (ci_method c) (ci_url_path c) 500 (ci_duration_ms c) m)"
  by (simp add: respond_def log_requests_def inner_page_defect [of _ "request_id_of fresh c" m])

lemma respond_page:
  assumes "inner_page (request_id_of fresh c) out m = Some (p, m')"
  shows "respond fresh c out m =
    (add_security_headers (p\<lparr>pg_headers := AList.update ''x-request-id'' (request_id_of fresh c) (pg_headers p)\<rparr>),
     record_request (ci_method c) (request_path c) (pg_status p) (ci_duration_ms c) m')"
  using assms by (simp add: respond_def log_requests_def)

text \<open>
  Every answer carries the id of its request and tells nothing of a defect: an answer, a refused
  parameter or an \<open>HTTPException\<close> keeps its status, echoes the id, and has each security header, with the
  default value unless the exception brought its own; any other exception is answered with one fixed page,
  the same whatever was raised, which has the id in its body and none of the headers.
\<close>

theorem answers_are_guarded:
  "(\<not> defect out \<longrightarrow>
     pg_status (fst (respond fresh c out m)) = own_status out \<and>
     map_of (pg_headers (fst (respond fresh c out m))) ''x-request-id'' = Some (request_id_of fresh c) \<and>
     (\<forall>(k, v) \<in> set security_headers. map_of (pg_headers (fst (respond fresh c out m))) k =
        Some (case map_of (own_headers out) k of None \<Rightarrow> v | Some x \<Rightarrow> x))) \<and>
   (defect out \<longrightarrow> fst (respond fresh c out m) =
     \<lparr>pg_status = 500,
      pg_body = error_body ''Internal server error'' ''internal_server_error'' (Some (request_id_of fresh c)),
      pg_headers = []\<rparr>)"
proof (cases "inner_page (request_id_of fresh c) out m")
  case None
  then have "defect out" using inner_page_defect by blast
  then show ?thesis by (simp add: respond_defect unhandled_exception_handler_def)
next
  case (Some pm)
  then obtain p m' where page: "inner_page (request_id_of fresh c) out m = Some (p, m')" by (cases pm) simp
  then have "\<not> defect out" by (metis inner_page_defect option.distinct(1))
  moreover have "map_of (pg_headers (fst (respond fresh c out m))) k = Some (case map_of (own_headers out) k of None \<Rightarrow> v | Some x \<Rightarrow> x)"
    if "(k, v) \<in> set security_headers" for k v
  proof -
    from that have "k \<noteq> ''x-request-id''" by (auto simp: security_headers_def)
    with that inner_page_own [OF page] show ?thesis by (simp add: respond_page [OF page] header_added update_conv')
  qed
  moreover have "map_of (pg_headers (fst (respond fresh c out m))) ''x-request-id'' = Some (request_id_of fresh c)"
    by (simp add: respond_page [OF page] header_kept update_conv')
  ultimately show ?thesis using inner_page_own [OF page] by (auto simp: respond_page [OF page])
qed

lemma answers_are_guarded_witness:
  "\<exists>p m. respond ''r1'' \<lparr>ci_method = ''get'', ci_url_path = ''/x'', ci_route_path = None, ci_request_id = None,
       ci_duration_ms = 1\<rparr> (Failed (HTTPException 401 ''no'') [(''cache-control'', ''private'')]) empty_registry = (p, m) \<and>
     pg_status p = 401 \<and> map_of (pg_headers p) ''x-request-id'' = Some ''r1'' \<and>
     map_of (pg_headers p) ''cache-control'' = Some ''private'' \<and> map_of (pg_headers p) ''x-frame-options'' = Some ''DENY''"
proof -
  let ?c = "\<lparr>ci_method = ''get'', ci_url_path = ''/x'', ci_route_path = None, ci_request_id = None, ci_duration_ms = 1\<rparr>"
  let ?out = "Failed (HTTPException 401 ''no'') [(''cache-control'', ''private'')]"
  have "\<not> defect ?out" by (simp add: defect_def)
  with answers_are_guarded [of ?out "''r1''" ?c empty_registry] show ?thesis
    by (auto simp: own_status_def own_headers_def security_headers_def request_id_of_def
        intro!: exI [of _ "fst (respond ''r1'' ?c ?out empty_registry)"] exI [of _ "snd (respond ''r1'' ?c ?out empty_registry)"])
qed

section \<open>Request metrics\<close>

definition tally :: "('k \<Rightarrow> bool) \<Rightarrow> ('k \<times> int) list \<Rightarrow> int" where
  "tally P m = sum_list (map snd (filter (P \<circ> fst) m))"

lemma tally_Cons: "tally P ((k, v) # m) = (if P k then v else 0) + tally P m"
  by (simp add: tally_def)

lemma tally_update:
  "distinct (map fst m) \<Longrightarrow> tally P (AList.update k v m) =
     tally P m + (if P k then v - (case map_of m k of None \<Rightarrow> 0 | Some x \<Rightarrow> x) else 0)"
  by (induction m) (auto simp: tally_Cons tally_def dest: map_of_SomeD split: option.split)

lemma tally_count_up:
  "distinct (map fst m) \<Longrightarrow> tally P (count_up k n m) = tally P m + (if P k then n else 0)"
  by (simp add: count_up_def tally_update split: option.split)

lemma distinct_count_up: "distinct (map fst m) \<Longrightarrow> distinct (map fst (count_up k n m))"
  by (simp add: count_up_def distinct_update split: option.split)

text \<open>The requests of a method and path, over all status classes, are the samples of its duration.\<close>

definition requests_ok :: "registry \<Rightarrow> bool" where
  "requests_ok m \<longleftrightarrow> distinct (map fst (request_total m)) \<and> distinct (map fst (request_duration_count m)) \<and>
     (\<forall>u p. tally (\<lambda>(u', p', b). u' = u \<and> p' = p) (request_total m) =
        tally (\<lambda>(u', p'). u' = u \<and> p' = p) (request_duration_count m))"

lemma requests_ok_record: "requests_ok m \<Longrightarrow> requests_ok (record_request meth path code ms m)"
  by (auto simp: requests_ok_def record_request_def Let_def tally_count_up distinct_count_up)

lemma requests_ok_exception: "requests_ok (registry_exception code m) \<longleftrightarrow> requests_ok m"
  by (simp add: requests_ok_def registry_exception_def)

definition all_requests :: "registry \<Rightarrow> int" where
  "all_requests m = tally (\<lambda>_. True) (request_total m)"

lemma all_requests_record:
  "requests_ok m \<Longrightarrow> all_requests (record_request meth path code ms m) = all_requests m + 1"
  by (simp add: requests_ok_def all_requests_def record_request_def Let_def tally_count_up)

lemma all_requests_exception: "all_requests (registry_exception code m) = all_requests m"
  by (simp add: all_requests_def registry_exception_def)

lemma inner_page_registry:
  assumes "inner_page i out m = Some (p, m')"
  shows "(requests_ok m' \<longleftrightarrow> requests_ok m) \<and> all_requests m' = all_requests m"
  using assms
  by (auto simp: inner_page_def http_exception_handler_def validation_exception_handler_def requests_ok_exception
      all_requests_exception split: outcome.splits exc.splits)

text \<open>A number of requests, one after the other.\<close>

fun respond_all :: "(string \<times> call_info \<times> outcome) list \<Rightarrow> registry \<Rightarrow> registry" where
  "respond_all [] m = m"
| "respond_all ((fresh, c, out) # rest) m = respond_all rest (snd (respond fresh c out m))"

lemma respond_counts:
  assumes "requests_ok m"
  shows "requests_ok (snd (respond fresh c out m)) \<and> all_requests (snd (respond fresh c out m)) = all_requests m + 1"
proof (cases "inner_page (request_id_of fresh c) out m")
  case None
  then have "defect out" using inner_page_defect by blast
  then show ?thesis using assms
    by (simp add: respond_defect unhandled_exception_handler_def requests_ok_exception requests_ok_record
        all_requests_exception all_requests_record)
next
  case (Some pm)
  then obtain p m' where page: "inner_page (request_id_of fresh c) out m = Some (p, m')" by (cases pm) simp
  with inner_page_registry [OF page] assms show ?thesis
    by (simp add: respond_page [OF page] requests_ok_record all_requests_record)
qed

text \<open>
  The request metrics add up: from an empty registry, after any requests, however they ended, the counter
  has counted each of them once, and for every method and path the requests over all status classes are
  as many as the samples of the duration.
\<close>

theorem request_metrics_add_up:
  "tally (\<lambda>_. True) (request_total (respond_all cs empty_registry)) = int (length cs) \<and>
   tally (\<lambda>(u', p', b). u' = u \<and> p' = p) (request_total (respond_all cs empty_registry)) =
     tally (\<lambda>(u', p'). u' = u \<and> p' = p) (request_duration_count (respond_all cs empty_registry))"
proof -
  have "requests_ok (respond_all cs m) \<and> all_requests (respond_all cs m) = all_requests m + int (length cs)"
    if "requests_ok m" for m
    using that by (induction cs m rule: respond_all.induct) (auto simp: respond_counts)
  moreover have "requests_ok empty_registry" "all_requests empty_registry = 0"
    by (simp_all add: requests_ok_def all_requests_def empty_registry_def tally_def)
  ultimately show ?thesis by (simp add: requests_ok_def all_requests_def)
qed

section \<open>Deployment\<close>

text \<open>
  The deployment gate opens when it should: it is open exactly when every check passes, no issue is
  listed exactly then, and for settings the application starts with (its validators passed) only two
  things can close it: the migrations do not have a single head, or, in production, the database or Redis
  does not answer. The status page calls every installation safe for production.
\<close>

theorem preflight_gate:
  assumes pf: "pf = build_deployment_preflight_payload e now found database redis"
  shows "(pf_ready_to_deploy pf \<longleftrightarrow> list_all snd (pf_checks pf)) \<and>
    (pf_ready_to_deploy pf \<longleftrightarrow> pf_blocking_issues pf = []) \<and>
    (settings_ok (core e) (feat e) (delivery e) \<longrightarrow>
      (pf_ready_to_deploy pf \<longleftrightarrow> (\<exists>h. found = Some [h]) \<and>
        (APP_ENV (core e) = ''production'' \<longrightarrow> fst database \<and> fst redis))) \<and>
    ds_production_safe (build_deployment_status_payload e now found database redis)"
proof -
  have heads: "mg_single_head (build_migration_preflight_payload found) \<longleftrightarrow> (\<exists>h. found = Some [h])"
    by (auto simp: build_migration_preflight_payload_def length_Suc_conv split: option.split)
  have ok: "\<not> (EMAILS_ENABLED (delivery e) \<and> \<not> given (SMTP_HOST (delivery e)))"
      "\<not> (ERROR_REPORTING_ENABLED (delivery e) \<and> \<not> given (ERROR_REPORTING_DSN (delivery e)))"
      "\<not> (SUPPORT_API_ENABLED (delivery e) \<and> \<not> given (SUPPORT_API_KEY (delivery e)))"
      "\<not> (is_production (core e) \<and> AUTO_CREATE_TABLES (delivery e))"
    if "settings_ok (core e) (feat e) (delivery e)"
    using that by (auto simp: settings_ok_def validate_runtime_settings_def split: if_splits)
  have "pf_ready_to_deploy pf \<longleftrightarrow> pf_blocking_issues pf = []" "pf_ready_to_deploy pf \<longleftrightarrow> list_all snd (pf_checks pf)"
    by (auto simp: pf build_deployment_preflight_payload_def Let_def split_beta)
  moreover have "pf_ready_to_deploy pf \<longleftrightarrow> (\<exists>h. found = Some [h]) \<and>
        (APP_ENV (core e) = ''production'' \<longrightarrow> fst database \<and> fst redis)"
    if "settings_ok (core e) (feat e) (delivery e)"
    using ok [OF that] heads
    by (auto simp: pf build_deployment_preflight_payload_def build_readiness_payload_def is_production_def Let_def
        split_beta split: if_splits)
  ultimately show ?thesis
    by (auto simp: build_deployment_status_payload_def should_create_tables_def)
qed

lemma preflight_gate_witness:
  "\<not> pf_ready_to_deploy (build_deployment_preflight_payload demo_env 0 (Some [''a'', ''b'']) (True, ''ok'') (True, ''ok'')) \<and>
   pf_ready_to_deploy (build_deployment_preflight_payload demo_env 0 (Some [''a'']) (False, ''x'') (False, ''y''))"
proof -
  have ok: "settings_ok (core demo_env) (feat demo_env) (delivery demo_env)"
    by (simp add: demo_env_def settings_ok_def validate_secret_key_def validate_runtime_settings_def is_production_def
        given_def default_core_settings_def default_feature_settings_def default_delivery_settings_def)
  have env: "APP_ENV (core demo_env) \<noteq> ''production''" by (simp add: demo_env_def default_core_settings_def)
  have "pf_ready_to_deploy (build_deployment_preflight_payload demo_env 0 found x y) \<longleftrightarrow> (\<exists>h. found = Some [h])" for found x y
    using preflight_gate [OF refl, of demo_env 0 found x y] ok env by blast
  then show ?thesis by simp
qed

end
