(* ===== verification/Schema.thy ===== *)
theory Schema
  imports Main
begin

text \<open>
  The schema of the database, and the operations of Alembic that the scripts of src/alembic/versions use on
  it. An operation is applied as PostgreSQL documents it: \<open>None\<close> is the error that the server raises, for
  instance for a table that exists, a type that is in use, or a column without default that may not be null.
  \<open>compare_schema\<close> lists the differences between two schemas, whatever the order of their parts.
\<close>

section \<open>Schemas\<close>

datatype sql_type =
  SInteger
| SSmallInteger
| SFloat
| SNumeric nat nat
| SString nat
| SText
| SBoolean
| STimestamp
| SEnum string

record column =
  col_name :: string
  col_type :: sql_type
  col_nullable :: bool
  col_key :: bool
  col_default :: "string option"
  col_references :: "(string \<times> string option) option"

text \<open>A unique constraint that the code leaves unnamed has no name.\<close>

record relation =
  tb_name :: string
  tb_columns :: "column list"
  tb_uniques :: "(string option \<times> string list) list"
  tb_checks :: "(string \<times> string) list"
  tb_indexes :: "(string \<times> string list \<times> bool) list"

record schema =
  sc_types :: "(string \<times> string list) list"
  sc_tables :: "relation list"

definition empty_schema :: schema where
  "empty_schema = \<lparr>sc_types = [], sc_tables = []\<rparr>"

text \<open>The forms of \<open>sa.Column\<close>.\<close>

definition column :: "string \<Rightarrow> sql_type \<Rightarrow> column" where
  "column n t = \<lparr>col_name = n, col_type = t, col_nullable = False, col_key = False, col_default = None,
     col_references = None\<rparr>"

definition optional_column :: "string \<Rightarrow> sql_type \<Rightarrow> column" where
  "optional_column n t = (column n t)\<lparr>col_nullable := True\<rparr>"

definition key_column :: "string \<Rightarrow> column" where
  "key_column n = (column n SInteger)\<lparr>col_key := True\<rparr>"

definition default_value :: "string \<Rightarrow> column \<Rightarrow> column" where
  "default_value v c = c\<lparr>col_default := Some v\<rparr>"

definition references :: "string \<Rightarrow> string option \<Rightarrow> column \<Rightarrow> column" where
  "references t on_delete c = c\<lparr>col_references := Some (t, on_delete)\<rparr>"

section \<open>Operations\<close>

text \<open>The operations on one table; consecutive ones are listed together, as in \<open>batch_alter_table\<close>.\<close>

datatype table_op =
  Add_column column
| Drop_column string
| Alter_type string sql_type
| Alter_nullable string bool
| Create_index string "string list" bool
| Drop_index string
| Create_check string string
| Create_unique string "string list"
| Drop_constraint string
| Update_rows

datatype migration_op =
  Create_type string "string list"
| Add_values string "string list"
| Drop_type string
| Create_table string "column list" "(string \<times> string list) list" "(string \<times> string) list"
| Drop_table string
| On string "table_op list"

definition table_names :: "schema \<Rightarrow> string list" where
  "table_names s = map tb_name (sc_tables s)"

definition type_names :: "schema \<Rightarrow> string list" where
  "type_names s = map fst (sc_types s)"

definition column_names :: "relation \<Rightarrow> string list" where
  "column_names t = map col_name (tb_columns t)"

definition has_column :: "relation \<Rightarrow> string \<Rightarrow> bool" where
  "has_column t c \<longleftrightarrow> c \<in> set (column_names t)"

definition column_ok :: "string list \<Rightarrow> string list \<Rightarrow> column \<Rightarrow> bool" where
  "column_ok types tables c \<longleftrightarrow>
     (case col_type c of SEnum n \<Rightarrow> n \<in> set types | _ \<Rightarrow> True) \<and>
     (case col_references c of None \<Rightarrow> True | Some (t, _) \<Rightarrow> t \<in> set tables)"

text \<open>
  The names that an index, a unique constraint or a check of a table may not take. (The server also refuses
  an index name of another table; the names here start with the table's.)
\<close>

definition index_names :: "relation \<Rightarrow> string list" where
  "index_names t = map fst (tb_indexes t) @ List.map_filter fst (tb_uniques t)"

definition constraint_names :: "relation \<Rightarrow> string list" where
  "constraint_names t = map fst (tb_checks t) @ List.map_filter fst (tb_uniques t)"

definition covers :: "string list \<Rightarrow> string list \<Rightarrow> bool" where
  "covers names cs \<longleftrightarrow> set cs \<subseteq> set names"

definition type_used :: "string \<Rightarrow> schema \<Rightarrow> bool" where
  "type_used n s \<longleftrightarrow> list_ex (\<lambda>t. list_ex (\<lambda>c. col_type c = SEnum n) (tb_columns t)) (sc_tables s)"

definition table_used :: "string \<Rightarrow> schema \<Rightarrow> bool" where
  "table_used n s \<longleftrightarrow>
     list_ex (\<lambda>t. tb_name t \<noteq> n \<and> list_ex (\<lambda>c. map_option fst (col_references c) = Some n) (tb_columns t)) (sc_tables s)"

definition admit :: "bool \<Rightarrow> 'a \<Rightarrow> 'a option" where
  "admit b x = (if b then Some x else None)"

definition change_column :: "string \<Rightarrow> (column \<Rightarrow> column) \<Rightarrow> relation \<Rightarrow> relation option" where
  "change_column c f t = admit (has_column t c)
     (t\<lparr>tb_columns := map (\<lambda>x. if col_name x = c then f x else x) (tb_columns t)\<rparr>)"

text \<open>A dropped column takes the indexes and unique constraints that cover it along.\<close>

definition without_column :: "string \<Rightarrow> relation \<Rightarrow> relation" where
  "without_column c t = t\<lparr>tb_columns := filter (\<lambda>x. col_name x \<noteq> c) (tb_columns t),
     tb_uniques := filter (\<lambda>(_, cs). c \<notin> set cs) (tb_uniques t),
     tb_indexes := filter (\<lambda>(_, cs, _). c \<notin> set cs) (tb_indexes t)\<rparr>"

text \<open>
  One operation on a table, given the types and the tables there are. A new column that may not be null needs
  a default, as the table may have rows.
\<close>

fun apply_table_op :: "string list \<Rightarrow> string list \<Rightarrow> table_op \<Rightarrow> relation \<Rightarrow> relation option" where
  "apply_table_op types tables (Add_column c) t =
     admit (column_ok types tables c \<and> \<not> has_column t (col_name c) \<and> (col_nullable c \<or> col_default c \<noteq> None))
       (t\<lparr>tb_columns := tb_columns t @ [c]\<rparr>)"
| "apply_table_op types tables (Drop_column c) t = admit (has_column t c) (without_column c t)"
| "apply_table_op types tables (Alter_type c ty) t = change_column c (\<lambda>x. x\<lparr>col_type := ty\<rparr>) t"
| "apply_table_op types tables (Alter_nullable c b) t = change_column c (\<lambda>x. x\<lparr>col_nullable := b\<rparr>) t"
| "apply_table_op types tables (Create_index i cs u) t =
     admit (i \<notin> set (index_names t) \<and> covers (column_names t) cs)
       (t\<lparr>tb_indexes := tb_indexes t @ [(i, cs, u)]\<rparr>)"
| "apply_table_op types tables (Drop_index i) t =
     admit (i \<in> set (map fst (tb_indexes t))) (t\<lparr>tb_indexes := filter (\<lambda>(j, _). j \<noteq> i) (tb_indexes t)\<rparr>)"
| "apply_table_op types tables (Create_check i test) t =
     admit (i \<notin> set (constraint_names t)) (t\<lparr>tb_checks := tb_checks t @ [(i, test)]\<rparr>)"
| "apply_table_op types tables (Create_unique i cs) t =
     admit (i \<notin> set (index_names t) \<and> i \<notin> set (constraint_names t) \<and> covers (column_names t) cs)
       (t\<lparr>tb_uniques := tb_uniques t @ [(Some i, cs)]\<rparr>)"
| "apply_table_op types tables (Drop_constraint i) t =
     admit (i \<in> set (constraint_names t))
       (t\<lparr>tb_checks := filter (\<lambda>(j, _). j \<noteq> i) (tb_checks t),
          tb_uniques := filter (\<lambda>(j, _). j \<noteq> Some i) (tb_uniques t)\<rparr>)"
| "apply_table_op types tables Update_rows t = Some t"

fun apply_table_ops :: "string list \<Rightarrow> string list \<Rightarrow> table_op list \<Rightarrow> relation \<Rightarrow> relation option" where
  "apply_table_ops types tables [] t = Some t"
| "apply_table_ops types tables (m # ms) t =
     (case apply_table_op types tables m t of None \<Rightarrow> None | Some t' \<Rightarrow> apply_table_ops types tables ms t')"

text \<open>The table of the given name, changed; \<open>None\<close> when there is none.\<close>

fun alter_relation :: "string \<Rightarrow> (relation \<Rightarrow> relation option) \<Rightarrow> relation list \<Rightarrow> relation list option" where
  "alter_relation n f [] = None"
| "alter_relation n f (t # ts) =
     (if tb_name t = n then map_option (\<lambda>t'. t' # ts) (f t)
      else map_option (\<lambda>ts'. t # ts') (alter_relation n f ts))"

fun apply_op :: "migration_op \<Rightarrow> schema \<Rightarrow> schema option" where
  "apply_op (Create_type n vs) s =
     Some (if n \<in> set (type_names s) then s else s\<lparr>sc_types := sc_types s @ [(n, vs)]\<rparr>)"
| "apply_op (Add_values n vs) s = admit (n \<in> set (type_names s))
     (s\<lparr>sc_types := map (\<lambda>(m, ws). (m, if m = n then ws @ filter (\<lambda>v. v \<notin> set ws) vs else ws)) (sc_types s)\<rparr>)"
| "apply_op (Drop_type n) s =
     (if n \<in> set (type_names s)
      then admit (\<not> type_used n s) (s\<lparr>sc_types := filter (\<lambda>(m, _). m \<noteq> n) (sc_types s)\<rparr>) else Some s)"
| "apply_op (Create_table n cs us ks) s =
     admit (n \<notin> set (table_names s) \<and> list_all (column_ok (type_names s) (table_names s)) cs \<and>
       list_all (\<lambda>(_, xs). covers (map col_name cs) xs) us)
     (s\<lparr>sc_tables := sc_tables s @ [\<lparr>tb_name = n, tb_columns = cs,
        tb_uniques = map (\<lambda>(u, xs). (Some u, xs)) us, tb_checks = ks, tb_indexes = []\<rparr>]\<rparr>)"
| "apply_op (Drop_table n) s = admit (n \<in> set (table_names s) \<and> \<not> table_used n s)
     (s\<lparr>sc_tables := filter (\<lambda>t. tb_name t \<noteq> n) (sc_tables s)\<rparr>)"
| "apply_op (On n ms) s =
     map_option (\<lambda>ts. s\<lparr>sc_tables := ts\<rparr>)
       (alter_relation n (apply_table_ops (type_names s) (table_names s) ms) (sc_tables s))"

fun apply_ops :: "migration_op list \<Rightarrow> schema \<Rightarrow> schema option" where
  "apply_ops [] s = Some s"
| "apply_ops (m # ms) s = (case apply_op m s of None \<Rightarrow> None | Some s' \<Rightarrow> apply_ops ms s')"

section \<open>Differences\<close>

datatype difference =
  Missing_type string
| Type_values string
| Missing_table string
| Missing_column string string
| Column_type string string
| Column_nullable string string
| Column_key string string
| Missing_unique string "string list"
| Missing_check string string
| Missing_index string "string list"

definition if_not :: "bool \<Rightarrow> 'a \<Rightarrow> 'a list" where
  "if_not b d = (if b then [] else [d])"

definition column_lacks :: "string \<Rightarrow> relation \<Rightarrow> column \<Rightarrow> difference list" where
  "column_lacks n t c =
     (case find (\<lambda>x. col_name x = col_name c) (tb_columns t) of
        None \<Rightarrow> [Missing_column n (col_name c)]
      | Some x \<Rightarrow>
          if_not (col_type x = col_type c) (Column_type n (col_name c)) @
          if_not (col_nullable x = col_nullable c) (Column_nullable n (col_name c)) @
          if_not (col_key x = col_key c \<and> col_references x = col_references c) (Column_key n (col_name c)))"

text \<open>What \<open>t\<close> lacks of the table \<open>u\<close>; constraints are looked up by their columns or test, not by name.\<close>

definition table_lacks :: "relation \<Rightarrow> relation \<Rightarrow> difference list" where
  "table_lacks t u =
     concat (map (column_lacks (tb_name u) t) (tb_columns u)) @
     concat (map (\<lambda>(_, cs). if_not (list_ex (\<lambda>(_, ds). ds = cs) (tb_uniques t)) (Missing_unique (tb_name u) cs)) (tb_uniques u)) @
     concat (map (\<lambda>(_, k). if_not (list_ex (\<lambda>(_, l). l = k) (tb_checks t)) (Missing_check (tb_name u) k)) (tb_checks u)) @
     concat (map (\<lambda>(_, cs, b). if_not (list_ex (\<lambda>(_, ds, d). ds = cs \<and> d = b) (tb_indexes t)) (Missing_index (tb_name u) cs))
       (tb_indexes u))"

definition schema_lacks :: "schema \<Rightarrow> schema \<Rightarrow> difference list" where
  "schema_lacks s r =
     concat (map (\<lambda>(n, vs). case map_of (sc_types s) n of None \<Rightarrow> [Missing_type n]
       | Some ws \<Rightarrow> if_not (set vs \<subseteq> set ws) (Type_values n)) (sc_types r)) @
     concat (map (\<lambda>u. case find (\<lambda>t. tb_name t = tb_name u) (sc_tables s) of None \<Rightarrow> [Missing_table (tb_name u)]
       | Some t \<Rightarrow> table_lacks t u) (sc_tables r))"

end
