(* ===== verification/Migrations.thy ===== *)
theory Migrations
  imports Schema
begin

text \<open>
  The migration scripts of src/alembic/versions, one section each: what its \<open>upgrade\<close> and \<open>downgrade\<close> do,
  in the order of the calls. \<open>d\<close> is the dialect of the connection; where a script takes a branch for
  SQLite that performs the same operations through a copy of the table, they are written once. The \<open>UPDATE\<close>
  of existing rows is \<open>Update_rows\<close> here; what it computes is in \<open>MigrationFacts\<close>.
\<close>

datatype dialect = PostgreSQL | SQLite

definition on_postgresql :: "dialect \<Rightarrow> migration_op list \<Rightarrow> migration_op list" where
  "on_postgresql d ops = (if d = PostgreSQL then ops else [])"

text \<open>An enumeration, or a string of the given length on other databases.\<close>

definition enum_type :: "dialect \<Rightarrow> string \<Rightarrow> nat \<Rightarrow> sql_type" where
  "enum_type d name n = (if d = PostgreSQL then SEnum name else SString n)"

record revision =
  rev_id :: string
  rev_down :: "string list"
  rev_upgrade :: "dialect \<Rightarrow> migration_op list"
  rev_downgrade :: "dialect \<Rightarrow> migration_op list"

section \<open>20260415_0001: initial schema\<close>

definition upgrade_20260415_0001 :: "dialect \<Rightarrow> migration_op list" where
  "upgrade_20260415_0001 d =
   [Create_type ''bookingstatus'' [''pending'', ''accepted'', ''rejected''],
    Create_table ''users''
      [key_column ''id'', column ''full_name'' (SString 120), column ''email'' (SString 255),
       optional_column ''phone_number'' (SString 20), column ''hashed_password'' (SString 255),
       optional_column ''bio'' SText, default_value ''5.0'' (column ''rating'' SFloat),
       column ''created_at'' STimestamp]
      [] [],
    On ''users''
      [Create_index ''ix_users_id'' [''id''] False, Create_index ''ix_users_email'' [''email''] True],
    Create_table ''rides''
      [key_column ''id'', references ''users'' (Some ''CASCADE'') (column ''driver_id'' SInteger),
       column ''origin'' (SString 120), column ''destination'' (SString 120), column ''departure_time'' STimestamp,
       column ''available_seats'' SInteger, column ''price_per_seat'' SFloat,
       optional_column ''vehicle_details'' (SString 150), optional_column ''notes'' SText,
       default_value ''true'' (column ''is_active'' SBoolean), column ''created_at'' STimestamp]
      [] [],
    On ''rides''
      [Create_index ''ix_rides_id'' [''id''] False, Create_index ''ix_rides_origin'' [''origin''] False,
       Create_index ''ix_rides_destination'' [''destination''] False,
       Create_index ''ix_rides_departure_time'' [''departure_time''] False],
    Create_table ''bookings''
      [key_column ''id'', references ''rides'' (Some ''CASCADE'') (column ''ride_id'' SInteger),
       references ''users'' (Some ''CASCADE'') (column ''passenger_id'' SInteger),
       default_value ''pending'' (column ''status'' (SEnum ''bookingstatus'')),
       optional_column ''notes'' (SString 255), column ''created_at'' STimestamp]
      [(''uq_booking_ride_passenger'', [''ride_id'', ''passenger_id''])] [],
    On ''bookings''
      [Create_index ''ix_bookings_id'' [''id''] False],
    Create_table ''messages''
      [key_column ''id'', references ''bookings'' (Some ''CASCADE'') (column ''booking_id'' SInteger),
       references ''users'' (Some ''CASCADE'') (column ''sender_id'' SInteger), column ''content'' SText,
       default_value ''text'' (column ''message_type'' (SString 32)), column ''created_at'' STimestamp]
      [] [],
    On ''messages''
      [Create_index ''ix_messages_id'' [''id''] False],
    Create_table ''reviews''
      [key_column ''id'', references ''users'' (Some ''CASCADE'') (column ''reviewer_id'' SInteger),
       references ''users'' (Some ''CASCADE'') (column ''reviewee_id'' SInteger),
       references ''bookings'' (Some ''CASCADE'') (column ''booking_id'' SInteger), column ''rating'' SSmallInteger,
       optional_column ''comment'' SText, column ''created_at'' STimestamp]
      [(''uq_review_booking_reviewer'', [''booking_id'', ''reviewer_id''])] [],
    On ''reviews''
      [Create_index ''ix_reviews_id'' [''id''] False]]"

definition downgrade_20260415_0001 :: "dialect \<Rightarrow> migration_op list" where
  "downgrade_20260415_0001 d =
   [On ''reviews''
      [Drop_index ''ix_reviews_id''],
    Drop_table ''reviews'',
    On ''messages''
      [Drop_index ''ix_messages_id''],
    Drop_table ''messages'',
    On ''bookings''
      [Drop_index ''ix_bookings_id''],
    Drop_table ''bookings'',
    On ''rides''
      [Drop_index ''ix_rides_departure_time'', Drop_index ''ix_rides_destination'', Drop_index ''ix_rides_origin'',
       Drop_index ''ix_rides_id''],
    Drop_table ''rides'',
    On ''users''
      [Drop_index ''ix_users_email'', Drop_index ''ix_users_id''],
    Drop_table ''users'',
    Drop_type ''bookingstatus'']"

section \<open>20260415_0002: add user email verification\<close>

definition upgrade_20260415_0002 :: "dialect \<Rightarrow> migration_op list" where
  "upgrade_20260415_0002 d =
   [On ''users''
      [Add_column (default_value ''false'' (column ''email_verified'' SBoolean)),
       Add_column (optional_column ''email_verified_at'' STimestamp)]]"

definition downgrade_20260415_0002 :: "dialect \<Rightarrow> migration_op list" where
  "downgrade_20260415_0002 d =
   [On ''users''
      [Drop_column ''email_verified_at'', Drop_column ''email_verified'']]"

section \<open>20260416_0003: add user role\<close>

definition upgrade_20260416_0003 :: "dialect \<Rightarrow> migration_op list" where
  "upgrade_20260416_0003 d =
   [Create_type ''userrole'' [''driver'', ''passenger''],
    On ''users''
      [Add_column (default_value ''passenger'' (column ''role'' (SEnum ''userrole'')))]]"

definition downgrade_20260416_0003 :: "dialect \<Rightarrow> migration_op list" where
  "downgrade_20260416_0003 d =
   [On ''users''
      [Drop_column ''role''],
    Drop_type ''userrole'']"

section \<open>20260420_0004: add lifecycle statuses and notifications\<close>

definition upgrade_20260420_0004 :: "dialect \<Rightarrow> migration_op list" where
  "upgrade_20260420_0004 d =
   on_postgresql d
   [Add_values ''bookingstatus'' [''cancelled_by_passenger'', ''cancelled_by_driver'', ''completed''],
    Create_type ''ridestatus'' [''scheduled'', ''full'', ''completed'', ''cancelled''],
    Create_type ''notificationtype''
      [''booking_requested'', ''booking_accepted'', ''booking_rejected'', ''booking_cancelled'',
       ''booking_completed'', ''ride_cancelled'']] @
   [On ''rides''
      [Add_column (default_value ''scheduled'' (column ''status'' (enum_type d ''ridestatus'' 32))), Update_rows],
    Create_table ''notifications''
      [key_column ''id'', references ''users'' (Some ''CASCADE'') (column ''recipient_id'' SInteger),
       column ''type'' (enum_type d ''notificationtype'' 64), column ''title'' (SString 140), column ''body'' SText,
       default_value ''false'' (column ''is_read'' SBoolean), optional_column ''read_at'' STimestamp,
       column ''created_at'' STimestamp]
      [] [],
    On ''notifications''
      [Create_index ''ix_notifications_id'' [''id''] False,
       Create_index ''ix_notifications_recipient_id'' [''recipient_id''] False]]"

definition downgrade_20260420_0004 :: "dialect \<Rightarrow> migration_op list" where
  "downgrade_20260420_0004 d =
   [On ''notifications''
      [Drop_index ''ix_notifications_recipient_id'', Drop_index ''ix_notifications_id''],
    Drop_table ''notifications'',
    On ''rides''
      [Drop_column ''status'']] @
   on_postgresql d
   [Drop_type ''notificationtype'',
    Drop_type ''ridestatus'']"

section \<open>20260420_0005: add seen state to chat messages\<close>

definition upgrade_20260420_0005 :: "dialect \<Rightarrow> migration_op list" where
  "upgrade_20260420_0005 d =
   [On ''messages''
      [Add_column (optional_column ''seen_at'' STimestamp)]]"

definition downgrade_20260420_0005 :: "dialect \<Rightarrow> migration_op list" where
  "downgrade_20260420_0005 d =
   [On ''messages''
      [Drop_column ''seen_at'']]"

section \<open>20260420_0006: add persistence constraints and composite indexes\<close>

definition upgrade_20260420_0006 :: "dialect \<Rightarrow> migration_op list" where
  "upgrade_20260420_0006 d =
   [On ''rides''
      [Create_check ''ck_rides_available_seats_non_negative'' ''available_seats >= 0'',
       Create_check ''ck_rides_price_per_seat_non_negative'' ''price_per_seat >= 0'',
       Create_check ''ck_rides_origin_destination_distinct'' ''origin <> destination'',
       Create_index ''ix_rides_driver_status_departure'' [''driver_id'', ''status'', ''departure_time''] False],
    On ''bookings''
      [Create_check ''ck_bookings_passenger_id_positive'' ''passenger_id > 0'',
       Create_index ''ix_bookings_passenger_status_created'' [''passenger_id'', ''status'', ''created_at''] False,
       Create_index ''ix_bookings_ride_status_created'' [''ride_id'', ''status'', ''created_at''] False],
    On ''reviews''
      [Create_check ''ck_reviews_rating_range'' ''rating >= 1 AND rating <= 5'',
       Create_check ''ck_reviews_reviewer_reviewee_distinct'' ''reviewer_id <> reviewee_id''],
    On ''notifications''
      [Create_index ''ix_notifications_recipient_read_created'' [''recipient_id'', ''is_read'', ''created_at''] False]]"

definition downgrade_20260420_0006 :: "dialect \<Rightarrow> migration_op list" where
  "downgrade_20260420_0006 d =
   [On ''notifications''
      [Drop_index ''ix_notifications_recipient_read_created''],
    On ''reviews''
      [Drop_constraint ''ck_reviews_reviewer_reviewee_distinct'', Drop_constraint ''ck_reviews_rating_range''],
    On ''bookings''
      [Drop_index ''ix_bookings_ride_status_created'', Drop_index ''ix_bookings_passenger_status_created'',
       Drop_constraint ''ck_bookings_passenger_id_positive''],
    On ''rides''
      [Drop_index ''ix_rides_driver_status_departure'', Drop_constraint ''ck_rides_origin_destination_distinct'',
       Drop_constraint ''ck_rides_price_per_seat_non_negative'',
       Drop_constraint ''ck_rides_available_seats_non_negative'']]"

section \<open>20260504_0007: add auth lockout fields\<close>

definition upgrade_20260504_0007 :: "dialect \<Rightarrow> migration_op list" where
  "upgrade_20260504_0007 d =
   [On ''users''
      [Add_column (default_value ''0'' (column ''failed_login_attempts'' SInteger)),
       Add_column (optional_column ''locked_until'' STimestamp)]]"

definition downgrade_20260504_0007 :: "dialect \<Rightarrow> migration_op list" where
  "downgrade_20260504_0007 d =
   [On ''users''
      [Drop_column ''locked_until'', Drop_column ''failed_login_attempts'']]"

section \<open>20260504_0008: add audit logs\<close>

definition upgrade_20260504_0008 :: "dialect \<Rightarrow> migration_op list" where
  "upgrade_20260504_0008 d =
   [Create_table ''audit_logs''
      [key_column ''id'', references ''users'' None (optional_column ''actor_user_id'' SInteger),
       column ''action'' (SString 120), optional_column ''entity_type'' (SString 80),
       optional_column ''entity_id'' (SString 64), default_value ''info'' (column ''severity'' (SString 32)),
       optional_column ''request_id'' (SString 64), optional_column ''metadata_json'' SText,
       column ''created_at'' STimestamp]
      [] [],
    On ''audit_logs''
      [Create_index ''ix_audit_logs_id'' [''id''] False,
       Create_index ''ix_audit_logs_actor_user_id'' [''actor_user_id''] False,
       Create_index ''ix_audit_logs_action'' [''action''] False,
       Create_index ''ix_audit_logs_entity_type'' [''entity_type''] False,
       Create_index ''ix_audit_logs_entity_id'' [''entity_id''] False]]"

definition downgrade_20260504_0008 :: "dialect \<Rightarrow> migration_op list" where
  "downgrade_20260504_0008 d =
   [On ''audit_logs''
      [Drop_index ''ix_audit_logs_entity_id'', Drop_index ''ix_audit_logs_entity_type'',
       Drop_index ''ix_audit_logs_action'', Drop_index ''ix_audit_logs_actor_user_id'',
       Drop_index ''ix_audit_logs_id''],
    Drop_table ''audit_logs'']"

section \<open>20260514_0009: add payments\<close>

definition upgrade_20260514_0009 :: "dialect \<Rightarrow> migration_op list" where
  "upgrade_20260514_0009 d =
   on_postgresql d
   [Create_type ''paymentstatus''
      [''pending'', ''authorized'', ''captured'', ''cancelled'', ''refunded'', ''failed''],
    Create_type ''paymentprovider'' [''mock'']] @
   [Create_table ''payments''
      [key_column ''id'', references ''bookings'' (Some ''CASCADE'') (column ''booking_id'' SInteger),
       references ''users'' (Some ''CASCADE'') (column ''payer_id'' SInteger), column ''amount'' SFloat,
       default_value ''INR'' (column ''currency'' (SString 3)),
       default_value ''pending'' (column ''status'' (enum_type d ''paymentstatus'' 32)),
       default_value ''mock'' (column ''provider'' (enum_type d ''paymentprovider'' 32)),
       column ''provider_payment_id'' (SString 120), optional_column ''provider_client_secret'' (SString 255),
       optional_column ''failure_reason'' (SString 255), column ''created_at'' STimestamp,
       column ''updated_at'' STimestamp]
      [(''uq_payments_booking_id'', [''booking_id'']),
       (''uq_payments_provider_payment_id'', [''provider_payment_id''])] [],
    On ''payments''
      [Create_index ''ix_payments_id'' [''id''] False,
       Create_index ''ix_payments_user_status_created'' [''payer_id'', ''status'', ''created_at''] False,
       Create_index ''ix_payments_booking_status'' [''booking_id'', ''status''] False],
    Create_table ''payment_events''
      [key_column ''id'', references ''payments'' (Some ''CASCADE'') (optional_column ''payment_id'' SInteger),
       default_value ''mock'' (column ''provider'' (enum_type d ''paymentprovider'' 32)),
       column ''provider_event_id'' (SString 120), column ''event_type'' (SString 120),
       column ''payload_json'' SText, optional_column ''processed_at'' STimestamp, column ''created_at'' STimestamp]
      [(''uq_payment_events_provider_event_id'', [''provider_event_id''])] [],
    On ''payment_events''
      [Create_index ''ix_payment_events_id'' [''id''] False,
       Create_index ''ix_payment_events_payment_created'' [''payment_id'', ''created_at''] False]]"

definition downgrade_20260514_0009 :: "dialect \<Rightarrow> migration_op list" where
  "downgrade_20260514_0009 d =
   [On ''payment_events''
      [Drop_index ''ix_payment_events_payment_created'', Drop_index ''ix_payment_events_id''],
    Drop_table ''payment_events'',
    On ''payments''
      [Drop_index ''ix_payments_booking_status'', Drop_index ''ix_payments_user_status_created'',
       Drop_index ''ix_payments_id''],
    Drop_table ''payments''] @
   on_postgresql d
   [Drop_type ''paymentprovider'',
    Drop_type ''paymentstatus'']"

section \<open>20260514_0010: add ride location tracking\<close>

definition upgrade_20260514_0010 :: "dialect \<Rightarrow> migration_op list" where
  "upgrade_20260514_0010 d =
   [On ''rides''
      [Add_column (optional_column ''origin_latitude'' SFloat),
       Add_column (optional_column ''origin_longitude'' SFloat),
       Add_column (optional_column ''destination_latitude'' SFloat),
       Add_column (optional_column ''destination_longitude'' SFloat)],
    Create_table ''ride_locations''
      [key_column ''id'', references ''rides'' (Some ''CASCADE'') (column ''ride_id'' SInteger),
       references ''users'' (Some ''CASCADE'') (column ''driver_id'' SInteger), column ''latitude'' SFloat,
       column ''longitude'' SFloat, optional_column ''heading'' SFloat, optional_column ''speed_kmph'' SFloat,
       column ''created_at'' STimestamp]
      [] [(''ck_ride_locations_latitude_range'', ''latitude >= -90 AND latitude <= 90''),
       (''ck_ride_locations_longitude_range'', ''longitude >= -180 AND longitude <= 180'')],
    On ''ride_locations''
      [Create_index ''ix_ride_locations_id'' [''id''] False,
       Create_index ''ix_ride_locations_ride_created'' [''ride_id'', ''created_at''] False]]"

definition downgrade_20260514_0010 :: "dialect \<Rightarrow> migration_op list" where
  "downgrade_20260514_0010 d =
   [On ''ride_locations''
      [Drop_index ''ix_ride_locations_ride_created'', Drop_index ''ix_ride_locations_id''],
    Drop_table ''ride_locations'',
    On ''rides''
      [Drop_column ''destination_longitude'', Drop_column ''destination_latitude'',
       Drop_column ''origin_longitude'', Drop_column ''origin_latitude'']]"

section \<open>20260516_0001: merge payments and location heads\<close>

definition upgrade_20260516_0001 :: "dialect \<Rightarrow> migration_op list" where
  "upgrade_20260516_0001 d =
   []"

definition downgrade_20260516_0001 :: "dialect \<Rightarrow> migration_op list" where
  "downgrade_20260516_0001 d =
   []"

section \<open>20260518_0001: add dispatch request tables\<close>

definition upgrade_20260518_0001 :: "dialect \<Rightarrow> migration_op list" where
  "upgrade_20260518_0001 d =
   on_postgresql d
   [Create_type ''riderequeststatus'' [''open'', ''matched'', ''cancelled'', ''expired'']] @
   [Create_table ''driver_availability''
      [key_column ''id'', references ''users'' (Some ''CASCADE'') (column ''driver_id'' SInteger),
       column ''latitude'' SFloat, column ''longitude'' SFloat, optional_column ''heading'' SFloat,
       default_value ''true'' (column ''is_online'' SBoolean), column ''updated_at'' STimestamp]
      [(''uq_driver_availability_driver_id'', [''driver_id''])] [],
    On ''driver_availability''
      [Create_index ''ix_driver_availability_online_updated'' [''is_online'', ''updated_at''] False],
    Create_table ''ride_requests''
      [key_column ''id'', references ''users'' (Some ''CASCADE'') (column ''passenger_id'' SInteger),
       column ''origin'' (SString 120), column ''destination'' (SString 120), column ''origin_latitude'' SFloat,
       column ''origin_longitude'' SFloat, column ''destination_latitude'' SFloat,
       column ''destination_longitude'' SFloat, column ''requested_departure_time'' STimestamp,
       optional_column ''notes'' SText, column ''status'' (SEnum ''riderequeststatus''),
       references ''users'' (Some ''SET NULL'') (optional_column ''matched_driver_id'' SInteger),
       references ''rides'' (Some ''SET NULL'') (optional_column ''matched_ride_id'' SInteger),
       references ''bookings'' (Some ''SET NULL'') (optional_column ''matched_booking_id'' SInteger),
       column ''created_at'' STimestamp]
      [] [],
    On ''ride_requests''
      [Create_index ''ix_ride_requests_status_created'' [''status'', ''created_at''] False,
       Create_index ''ix_ride_requests_pickup_coords'' [''origin_latitude'', ''origin_longitude''] False]]"

definition downgrade_20260518_0001 :: "dialect \<Rightarrow> migration_op list" where
  "downgrade_20260518_0001 d =
   [On ''ride_requests''
      [Drop_index ''ix_ride_requests_pickup_coords'', Drop_index ''ix_ride_requests_status_created''],
    Drop_table ''ride_requests'',
    On ''driver_availability''
      [Drop_index ''ix_driver_availability_online_updated''],
    Drop_table ''driver_availability''] @
   on_postgresql d
   [Drop_type ''riderequeststatus'']"

section \<open>20260521_0001: add driver request dismissals\<close>

definition upgrade_20260521_0001 :: "dialect \<Rightarrow> migration_op list" where
  "upgrade_20260521_0001 d =
   [Create_table ''driver_request_dismissals''
      [key_column ''id'', references ''users'' (Some ''CASCADE'') (column ''driver_id'' SInteger),
       references ''ride_requests'' (Some ''CASCADE'') (column ''request_id'' SInteger),
       column ''dismissed_at'' STimestamp]
      [(''uq_driver_request_dismissals_driver_request'', [''driver_id'', ''request_id''])] [],
    On ''driver_request_dismissals''
      [Create_index ''ix_driver_request_dismissals_request_id'' [''request_id''] False,
       Create_index ''ix_driver_request_dismissals_driver_id'' [''driver_id''] False]]"

definition downgrade_20260521_0001 :: "dialect \<Rightarrow> migration_op list" where
  "downgrade_20260521_0001 d =
   [On ''driver_request_dismissals''
      [Drop_index ''ix_driver_request_dismissals_driver_id'', Drop_index ''ix_driver_request_dismissals_request_id''],
    Drop_table ''driver_request_dismissals'']"

section \<open>20260522_0001: add dispatch notification types\<close>

definition upgrade_20260522_0001 :: "dialect \<Rightarrow> migration_op list" where
  "upgrade_20260522_0001 d =
   on_postgresql d
   [Add_values ''notificationtype'' [''dispatch_matched'', ''dispatch_cancelled'', ''dispatch_expired'']]"

definition downgrade_20260522_0001 :: "dialect \<Rightarrow> migration_op list" where
  "downgrade_20260522_0001 d =
   []"

section \<open>20260613_0001: add real payment provider foundation\<close>

definition upgrade_20260613_0001 :: "dialect \<Rightarrow> migration_op list" where
  "upgrade_20260613_0001 d =
   on_postgresql d
   [Add_values ''paymentprovider'' [''razorpay'']] @
   [On ''payments''
      [Add_column (optional_column ''amount_minor'' SInteger),
       Add_column (optional_column ''provider_order_id'' (SString 120)),
       Alter_nullable ''provider_payment_id'' True, Drop_column ''provider_client_secret'', Update_rows,
       Update_rows, Alter_nullable ''amount_minor'' False, Alter_nullable ''provider_order_id'' False,
       Create_unique ''uq_payments_provider_order_id'' [''provider_order_id'']]]"

definition downgrade_20260613_0001 :: "dialect \<Rightarrow> migration_op list" where
  "downgrade_20260613_0001 d =
   [On ''payments''
      [Add_column (optional_column ''provider_client_secret'' (SString 255)),
       Drop_constraint ''uq_payments_provider_order_id'', Alter_nullable ''provider_payment_id'' False,
       Drop_column ''provider_order_id'', Drop_column ''amount_minor'']]"

section \<open>20260614_0002: add boarding otp verification\<close>

definition upgrade_20260614_0002 :: "dialect \<Rightarrow> migration_op list" where
  "upgrade_20260614_0002 d =
   [On ''bookings''
      [Add_column (optional_column ''boarding_otp_hash'' (SString 64)),
       Add_column (optional_column ''boarding_otp_expires_at'' STimestamp),
       Add_column (optional_column ''boarded_at'' STimestamp)]]"

definition downgrade_20260614_0002 :: "dialect \<Rightarrow> migration_op list" where
  "downgrade_20260614_0002 d =
   [On ''bookings''
      [Drop_column ''boarded_at'', Drop_column ''boarding_otp_expires_at'', Drop_column ''boarding_otp_hash'']]"

section \<open>20260702_0001: add driver verification profile\<close>

definition upgrade_20260702_0001 :: "dialect \<Rightarrow> migration_op list" where
  "upgrade_20260702_0001 d =
   [Create_type ''driververificationstatus'' [''not_required'', ''pending'', ''verified'', ''rejected'']] @
   on_postgresql d
   [Add_values ''notificationtype'' [''driver_verification_approved'', ''driver_verification_rejected'']] @
   [On ''users''
      [Add_column (default_value ''not_required'' (column ''driver_verification_status'' (SEnum ''driververificationstatus''))),
       Add_column (optional_column ''vehicle_make'' (SString 80)),
       Add_column (optional_column ''vehicle_model'' (SString 80)),
       Add_column (optional_column ''vehicle_color'' (SString 40)),
       Add_column (optional_column ''vehicle_plate_number'' (SString 30)),
       Add_column (optional_column ''driver_license_number'' (SString 60)),
       Add_column (optional_column ''driver_verification_rejection_reason'' SText),
       Add_column (optional_column ''driver_profile_submitted_at'' STimestamp),
       Add_column (optional_column ''driver_profile_reviewed_at'' STimestamp), Update_rows]]"

definition downgrade_20260702_0001 :: "dialect \<Rightarrow> migration_op list" where
  "downgrade_20260702_0001 d =
   [On ''users''
      [Drop_column ''driver_profile_reviewed_at'', Drop_column ''driver_profile_submitted_at'',
       Drop_column ''driver_verification_rejection_reason'', Drop_column ''driver_license_number'',
       Drop_column ''vehicle_plate_number'', Drop_column ''vehicle_color'', Drop_column ''vehicle_model'',
       Drop_column ''vehicle_make'', Drop_column ''driver_verification_status''],
    Drop_type ''driververificationstatus'']"

section \<open>20260704_0001: add incident reports\<close>

definition upgrade_20260704_0001 :: "dialect \<Rightarrow> migration_op list" where
  "upgrade_20260704_0001 d =
   on_postgresql d
   [Create_type ''incidentstatus'' [''open'', ''reviewing'', ''resolved'', ''dismissed''],
    Create_type ''incidentseverity'' [''low'', ''medium'', ''high'', ''emergency''],
    Add_values ''notificationtype'' [''incident_updated'']] @
   [Create_table ''incident_reports''
      [key_column ''id'', references ''users'' (Some ''CASCADE'') (column ''reporter_id'' SInteger),
       references ''rides'' (Some ''SET NULL'') (optional_column ''ride_id'' SInteger),
       references ''bookings'' (Some ''SET NULL'') (optional_column ''booking_id'' SInteger),
       references ''ride_requests'' (Some ''SET NULL'') (optional_column ''ride_request_id'' SInteger),
       column ''title'' (SString 140), column ''description'' SText,
       column ''severity'' (enum_type d ''incidentseverity'' 32),
       column ''status'' (enum_type d ''incidentstatus'' 32), optional_column ''support_notes'' SText,
       optional_column ''resolved_at'' STimestamp, optional_column ''created_at'' STimestamp,
       optional_column ''updated_at'' STimestamp]
      [] [],
    On ''incident_reports''
      [Create_index ''ix_incident_reports_id'' [''id''] False,
       Create_index ''ix_incident_reports_status_created'' [''status'', ''created_at''] False,
       Create_index ''ix_incident_reports_reporter_created'' [''reporter_id'', ''created_at''] False,
       Create_index ''ix_incident_reports_ride_status'' [''ride_id'', ''status''] False,
       Create_index ''ix_incident_reports_booking_status'' [''booking_id'', ''status''] False]]"

definition downgrade_20260704_0001 :: "dialect \<Rightarrow> migration_op list" where
  "downgrade_20260704_0001 d =
   [On ''incident_reports''
      [Drop_index ''ix_incident_reports_booking_status'', Drop_index ''ix_incident_reports_ride_status'',
       Drop_index ''ix_incident_reports_reporter_created'', Drop_index ''ix_incident_reports_status_created'',
       Drop_index ''ix_incident_reports_id''],
    Drop_table ''incident_reports''] @
   on_postgresql d
   [Drop_type ''incidentseverity'',
    Drop_type ''incidentstatus'']"

section \<open>20260704_0002: add booking share tokens\<close>

definition upgrade_20260704_0002 :: "dialect \<Rightarrow> migration_op list" where
  "upgrade_20260704_0002 d =
   [On ''bookings''
      [Add_column (optional_column ''share_token_hash'' (SString 64)),
       Add_column (optional_column ''share_token_created_at'' STimestamp),
       Add_column (optional_column ''share_token_revoked_at'' STimestamp),
       Create_unique ''uq_bookings_share_token_hash'' [''share_token_hash'']]]"

definition downgrade_20260704_0002 :: "dialect \<Rightarrow> migration_op list" where
  "downgrade_20260704_0002 d =
   [On ''bookings''
      [Drop_constraint ''uq_bookings_share_token_hash'', Drop_column ''share_token_revoked_at'',
       Drop_column ''share_token_created_at'', Drop_column ''share_token_hash'']]"

section \<open>20260705_0001: use numeric money columns\<close>

definition upgrade_20260705_0001 :: "dialect \<Rightarrow> migration_op list" where
  "upgrade_20260705_0001 d =
   [On ''rides''
      [Alter_type ''price_per_seat'' (SNumeric 10 2)],
    On ''payments''
      [Alter_type ''amount'' (SNumeric 10 2)]]"

definition downgrade_20260705_0001 :: "dialect \<Rightarrow> migration_op list" where
  "downgrade_20260705_0001 d =
   [On ''payments''
      [Alter_type ''amount'' (SFloat)],
    On ''rides''
      [Alter_type ''price_per_seat'' (SFloat)]]"

definition revisions :: "revision list" where
  "revisions =
   [\<lparr>rev_id = ''20260415_0001'', rev_down = [],
      rev_upgrade = upgrade_20260415_0001, rev_downgrade = downgrade_20260415_0001\<rparr>,
     \<lparr>rev_id = ''20260415_0002'', rev_down = [''20260415_0001''],
      rev_upgrade = upgrade_20260415_0002, rev_downgrade = downgrade_20260415_0002\<rparr>,
     \<lparr>rev_id = ''20260416_0003'', rev_down = [''20260415_0002''],
      rev_upgrade = upgrade_20260416_0003, rev_downgrade = downgrade_20260416_0003\<rparr>,
     \<lparr>rev_id = ''20260420_0004'', rev_down = [''20260416_0003''],
      rev_upgrade = upgrade_20260420_0004, rev_downgrade = downgrade_20260420_0004\<rparr>,
     \<lparr>rev_id = ''20260420_0005'', rev_down = [''20260420_0004''],
      rev_upgrade = upgrade_20260420_0005, rev_downgrade = downgrade_20260420_0005\<rparr>,
     \<lparr>rev_id = ''20260420_0006'', rev_down = [''20260420_0005''],
      rev_upgrade = upgrade_20260420_0006, rev_downgrade = downgrade_20260420_0006\<rparr>,
     \<lparr>rev_id = ''20260504_0007'', rev_down = [''20260420_0006''],
      rev_upgrade = upgrade_20260504_0007, rev_downgrade = downgrade_20260504_0007\<rparr>,
     \<lparr>rev_id = ''20260504_0008'', rev_down = [''20260504_0007''],
      rev_upgrade = upgrade_20260504_0008, rev_downgrade = downgrade_20260504_0008\<rparr>,
     \<lparr>rev_id = ''20260514_0009'', rev_down = [''20260504_0008''],
      rev_upgrade = upgrade_20260514_0009, rev_downgrade = downgrade_20260514_0009\<rparr>,
     \<lparr>rev_id = ''20260514_0010'', rev_down = [''20260504_0008''],
      rev_upgrade = upgrade_20260514_0010, rev_downgrade = downgrade_20260514_0010\<rparr>,
     \<lparr>rev_id = ''20260516_0001'', rev_down = [''20260514_0009'', ''20260514_0010''],
      rev_upgrade = upgrade_20260516_0001, rev_downgrade = downgrade_20260516_0001\<rparr>,
     \<lparr>rev_id = ''20260518_0001'', rev_down = [''20260516_0001''],
      rev_upgrade = upgrade_20260518_0001, rev_downgrade = downgrade_20260518_0001\<rparr>,
     \<lparr>rev_id = ''20260521_0001'', rev_down = [''20260518_0001''],
      rev_upgrade = upgrade_20260521_0001, rev_downgrade = downgrade_20260521_0001\<rparr>,
     \<lparr>rev_id = ''20260522_0001'', rev_down = [''20260521_0001''],
      rev_upgrade = upgrade_20260522_0001, rev_downgrade = downgrade_20260522_0001\<rparr>,
     \<lparr>rev_id = ''20260613_0001'', rev_down = [''20260522_0001''],
      rev_upgrade = upgrade_20260613_0001, rev_downgrade = downgrade_20260613_0001\<rparr>,
     \<lparr>rev_id = ''20260614_0002'', rev_down = [''20260613_0001''],
      rev_upgrade = upgrade_20260614_0002, rev_downgrade = downgrade_20260614_0002\<rparr>,
     \<lparr>rev_id = ''20260702_0001'', rev_down = [''20260614_0002''],
      rev_upgrade = upgrade_20260702_0001, rev_downgrade = downgrade_20260702_0001\<rparr>,
     \<lparr>rev_id = ''20260704_0001'', rev_down = [''20260702_0001''],
      rev_upgrade = upgrade_20260704_0001, rev_downgrade = downgrade_20260704_0001\<rparr>,
     \<lparr>rev_id = ''20260704_0002'', rev_down = [''20260704_0001''],
      rev_upgrade = upgrade_20260704_0002, rev_downgrade = downgrade_20260704_0002\<rparr>,
     \<lparr>rev_id = ''20260705_0001'', rev_down = [''20260704_0002''],
      rev_upgrade = upgrade_20260705_0001, rev_downgrade = downgrade_20260705_0001\<rparr>]"

text \<open>The heads: the revisions that no other one revises.\<close>

definition heads :: "revision list \<Rightarrow> string list" where
  "heads rs = filter (\<lambda>i. \<not> list_ex (\<lambda>r. i \<in> set (rev_down r)) rs) (map rev_id rs)"

text \<open>
  \<open>alembic upgrade head\<close> runs the upgrades in an order in which a revision comes after the ones it revises,
  and \<open>alembic downgrade base\<close> the downgrades in the opposite one.
\<close>

fun ordered :: "string list \<Rightarrow> revision list \<Rightarrow> bool" where
  "ordered seen [] \<longleftrightarrow> True"
| "ordered seen (r # rs) \<longleftrightarrow> set (rev_down r) \<subseteq> set seen \<and>
     rev_id r \<notin> set seen \<and> ordered (rev_id r # seen) rs"

fun run_upgrades :: "dialect \<Rightarrow> revision list \<Rightarrow> schema \<Rightarrow> schema option" where
  "run_upgrades d [] s = Some s"
| "run_upgrades d (r # rs) s = (case apply_ops (rev_upgrade r d) s of None \<Rightarrow> None | Some s' \<Rightarrow> run_upgrades d rs s')"

fun run_downgrades :: "dialect \<Rightarrow> revision list \<Rightarrow> schema \<Rightarrow> schema option" where
  "run_downgrades d [] s = Some s"
| "run_downgrades d (r # rs) s = (case apply_ops (rev_downgrade r d) s of None \<Rightarrow> None | Some s' \<Rightarrow> run_downgrades d rs s')"

end
