(* ===== verification/Metadata.thy ===== *)
theory Metadata
  imports Schema
begin

text \<open>
  The tables that the classes of src/app/models declare, as \<open>Base.metadata\<close> holds them: what \<open>create_all\<close>
  would create, and what Alembic compares the database with. \<open>index=True\<close> is an index named after table
  and column, unique with \<open>unique=True\<close>, which alone is an unnamed unique constraint. The defaults of the
  classes are set by the application and are not part of the schema.
\<close>

type_synonym class_column = "column \<times> bool \<times> bool"

definition plain :: "column \<Rightarrow> class_column" where
  "plain c = (c, False, False)"

definition indexed :: "column \<Rightarrow> class_column" where
  "indexed c = (c, True, False)"

definition unique_column :: "column \<Rightarrow> class_column" where
  "unique_column c = (c, False, True)"

definition unique_index :: "column \<Rightarrow> class_column" where
  "unique_index c = (c, True, True)"

definition declared ::
  "string \<Rightarrow> class_column list \<Rightarrow> (string \<times> string list) list \<Rightarrow> (string \<times> string) list \<Rightarrow> (string \<times> string list) list \<Rightarrow>
     relation" where
  "declared n cs us ks ixs =
     \<lparr>tb_name = n, tb_columns = map fst cs,
      tb_uniques = map (\<lambda>(u, xs). (Some u, xs)) us @
        map (\<lambda>(c, _). (None, [col_name c])) (filter (\<lambda>(c, i, u). u \<and> \<not> i) cs),
      tb_checks = ks,
      tb_indexes = map (\<lambda>(c, i, u). (''ix_'' @ n @ ''_'' @ col_name c, [col_name c], u)) (filter (\<lambda>(c, i, u). i) cs) @
        map (\<lambda>(i, xs). (i, xs, False)) ixs\<rparr>"

section \<open>The classes\<close>

definition user_table :: relation where
  "user_table = declared ''users''
     [indexed (key_column ''id''), plain (column ''full_name'' (SString 120)),
      unique_index (column ''email'' (SString 255)), plain (optional_column ''phone_number'' (SString 20)),
      plain (column ''hashed_password'' (SString 255)), plain (column ''role'' (SEnum ''userrole'')),
      plain (optional_column ''bio'' SText), plain (column ''rating'' SFloat),
      plain (column ''email_verified'' SBoolean), plain (optional_column ''email_verified_at'' STimestamp),
      plain (column ''driver_verification_status'' (SEnum ''driververificationstatus'')),
      plain (optional_column ''vehicle_make'' (SString 80)), plain (optional_column ''vehicle_model'' (SString 80)),
      plain (optional_column ''vehicle_color'' (SString 40)),
      plain (optional_column ''vehicle_plate_number'' (SString 30)),
      plain (optional_column ''driver_license_number'' (SString 60)),
      plain (optional_column ''driver_verification_rejection_reason'' SText),
      plain (optional_column ''driver_profile_submitted_at'' STimestamp),
      plain (optional_column ''driver_profile_reviewed_at'' STimestamp),
      plain (column ''failed_login_attempts'' SInteger), plain (optional_column ''locked_until'' STimestamp),
      plain (column ''created_at'' STimestamp)]
     []
     []
     []"

definition ride_table :: relation where
  "ride_table = declared ''rides''
     [indexed (key_column ''id''), plain (references ''users'' (Some ''CASCADE'') (column ''driver_id'' SInteger)),
      indexed (column ''origin'' (SString 120)), indexed (column ''destination'' (SString 120)),
      plain (optional_column ''origin_latitude'' SFloat), plain (optional_column ''origin_longitude'' SFloat),
      plain (optional_column ''destination_latitude'' SFloat),
      plain (optional_column ''destination_longitude'' SFloat), indexed (column ''departure_time'' STimestamp),
      plain (column ''available_seats'' SInteger), plain (column ''price_per_seat'' (SNumeric 10 2)),
      plain (optional_column ''vehicle_details'' (SString 150)), plain (optional_column ''notes'' SText),
      plain (column ''status'' (SEnum ''ridestatus'')), plain (column ''is_active'' SBoolean),
      plain (column ''created_at'' STimestamp)]
     []
     [(''ck_rides_available_seats_non_negative'', ''available_seats >= 0''),
      (''ck_rides_price_per_seat_non_negative'', ''price_per_seat >= 0''),
      (''ck_rides_origin_destination_distinct'', ''origin <> destination'')]
     [(''ix_rides_driver_status_departure'', [''driver_id'', ''status'', ''departure_time''])]"

definition ride_location_table :: relation where
  "ride_location_table = declared ''ride_locations''
     [indexed (key_column ''id''), plain (references ''rides'' (Some ''CASCADE'') (column ''ride_id'' SInteger)),
      plain (references ''users'' (Some ''CASCADE'') (column ''driver_id'' SInteger)),
      plain (column ''latitude'' SFloat), plain (column ''longitude'' SFloat),
      plain (optional_column ''heading'' SFloat), plain (optional_column ''speed_kmph'' SFloat),
      plain (column ''created_at'' STimestamp)]
     []
     [(''ck_ride_locations_latitude_range'', ''latitude >= -90 AND latitude <= 90''),
      (''ck_ride_locations_longitude_range'', ''longitude >= -180 AND longitude <= 180'')]
     [(''ix_ride_locations_ride_created'', [''ride_id'', ''created_at''])]"

definition booking_table :: relation where
  "booking_table = declared ''bookings''
     [indexed (key_column ''id''), plain (references ''rides'' (Some ''CASCADE'') (column ''ride_id'' SInteger)),
      plain (references ''users'' (Some ''CASCADE'') (column ''passenger_id'' SInteger)),
      plain (column ''status'' (SEnum ''bookingstatus'')), plain (optional_column ''notes'' (SString 255)),
      plain (optional_column ''boarding_otp_hash'' (SString 64)),
      plain (optional_column ''boarding_otp_expires_at'' STimestamp),
      plain (optional_column ''boarded_at'' STimestamp),
      unique_column (optional_column ''share_token_hash'' (SString 64)),
      plain (optional_column ''share_token_created_at'' STimestamp),
      plain (optional_column ''share_token_revoked_at'' STimestamp), plain (column ''created_at'' STimestamp)]
     [(''uq_booking_ride_passenger'', [''ride_id'', ''passenger_id''])]
     [(''ck_bookings_passenger_id_positive'', ''passenger_id > 0'')]
     [(''ix_bookings_passenger_status_created'', [''passenger_id'', ''status'', ''created_at'']),
      (''ix_bookings_ride_status_created'', [''ride_id'', ''status'', ''created_at''])]"

definition message_table :: relation where
  "message_table = declared ''messages''
     [indexed (key_column ''id''),
      plain (references ''bookings'' (Some ''CASCADE'') (column ''booking_id'' SInteger)),
      plain (references ''users'' (Some ''CASCADE'') (column ''sender_id'' SInteger)),
      plain (column ''content'' SText), plain (column ''message_type'' (SString 32)),
      plain (column ''created_at'' STimestamp), plain (optional_column ''seen_at'' STimestamp)]
     []
     []
     []"

definition review_table :: relation where
  "review_table = declared ''reviews''
     [indexed (key_column ''id''),
      plain (references ''users'' (Some ''CASCADE'') (column ''reviewer_id'' SInteger)),
      plain (references ''users'' (Some ''CASCADE'') (column ''reviewee_id'' SInteger)),
      plain (references ''bookings'' (Some ''CASCADE'') (column ''booking_id'' SInteger)),
      plain (column ''rating'' SSmallInteger), plain (optional_column ''comment'' SText),
      plain (column ''created_at'' STimestamp)]
     [(''uq_review_booking_reviewer'', [''booking_id'', ''reviewer_id''])]
     [(''ck_reviews_rating_range'', ''rating >= 1 AND rating <= 5''),
      (''ck_reviews_reviewer_reviewee_distinct'', ''reviewer_id <> reviewee_id'')]
     []"

definition payment_table :: relation where
  "payment_table = declared ''payments''
     [indexed (key_column ''id''),
      plain (references ''bookings'' (Some ''CASCADE'') (column ''booking_id'' SInteger)),
      plain (references ''users'' (Some ''CASCADE'') (column ''payer_id'' SInteger)),
      plain (column ''amount'' (SNumeric 10 2)), plain (column ''amount_minor'' SInteger),
      plain (column ''currency'' (SString 3)), plain (column ''status'' (SEnum ''paymentstatus'')),
      plain (column ''provider'' (SEnum ''paymentprovider'')),
      unique_column (column ''provider_order_id'' (SString 120)),
      unique_column (optional_column ''provider_payment_id'' (SString 120)),
      plain (optional_column ''failure_reason'' (SString 255)), plain (column ''created_at'' STimestamp),
      plain (column ''updated_at'' STimestamp)]
     [(''uq_payments_booking_id'', [''booking_id''])]
     []
     [(''ix_payments_user_status_created'', [''payer_id'', ''status'', ''created_at'']),
      (''ix_payments_booking_status'', [''booking_id'', ''status''])]"

definition payment_event_table :: relation where
  "payment_event_table = declared ''payment_events''
     [indexed (key_column ''id''),
      plain (references ''payments'' (Some ''CASCADE'') (optional_column ''payment_id'' SInteger)),
      plain (column ''provider'' (SEnum ''paymentprovider'')), plain (column ''provider_event_id'' (SString 120)),
      plain (column ''event_type'' (SString 120)), plain (column ''payload_json'' SText),
      plain (optional_column ''processed_at'' STimestamp), plain (column ''created_at'' STimestamp)]
     [(''uq_payment_events_provider_event_id'', [''provider_event_id''])]
     []
     [(''ix_payment_events_payment_created'', [''payment_id'', ''created_at''])]"

definition audit_log_table :: relation where
  "audit_log_table = declared ''audit_logs''
     [indexed (key_column ''id''), indexed (references ''users'' None (optional_column ''actor_user_id'' SInteger)),
      indexed (column ''action'' (SString 120)), indexed (optional_column ''entity_type'' (SString 80)),
      indexed (optional_column ''entity_id'' (SString 64)), plain (column ''severity'' (SString 32)),
      plain (optional_column ''request_id'' (SString 64)), plain (optional_column ''metadata_json'' SText),
      plain (column ''created_at'' STimestamp)]
     []
     []
     []"

definition notification_table :: relation where
  "notification_table = declared ''notifications''
     [indexed (key_column ''id''),
      indexed (references ''users'' (Some ''CASCADE'') (column ''recipient_id'' SInteger)),
      plain (column ''type'' (SEnum ''notificationtype'')), plain (column ''title'' (SString 140)),
      plain (column ''body'' SText), plain (column ''is_read'' SBoolean),
      plain (optional_column ''read_at'' STimestamp), plain (column ''created_at'' STimestamp)]
     []
     []
     [(''ix_notifications_recipient_read_created'', [''recipient_id'', ''is_read'', ''created_at''])]"

definition driver_availability_table :: relation where
  "driver_availability_table = declared ''driver_availability''
     [indexed (key_column ''id''), plain (references ''users'' (Some ''CASCADE'') (column ''driver_id'' SInteger)),
      plain (column ''latitude'' SFloat), plain (column ''longitude'' SFloat),
      plain (optional_column ''heading'' SFloat), plain (column ''is_online'' SBoolean),
      plain (column ''updated_at'' STimestamp)]
     [(''uq_driver_availability_driver_id'', [''driver_id''])]
     []
     [(''ix_driver_availability_online_updated'', [''is_online'', ''updated_at''])]"

definition ride_request_table :: relation where
  "ride_request_table = declared ''ride_requests''
     [indexed (key_column ''id''),
      plain (references ''users'' (Some ''CASCADE'') (column ''passenger_id'' SInteger)),
      plain (column ''origin'' (SString 120)), plain (column ''destination'' (SString 120)),
      plain (column ''origin_latitude'' SFloat), plain (column ''origin_longitude'' SFloat),
      plain (column ''destination_latitude'' SFloat), plain (column ''destination_longitude'' SFloat),
      plain (column ''requested_departure_time'' STimestamp), plain (optional_column ''notes'' SText),
      plain (column ''status'' (SEnum ''riderequeststatus'')),
      plain (references ''users'' (Some ''SET NULL'') (optional_column ''matched_driver_id'' SInteger)),
      plain (references ''rides'' (Some ''SET NULL'') (optional_column ''matched_ride_id'' SInteger)),
      plain (references ''bookings'' (Some ''SET NULL'') (optional_column ''matched_booking_id'' SInteger)),
      plain (column ''created_at'' STimestamp)]
     []
     []
     [(''ix_ride_requests_status_created'', [''status'', ''created_at'']),
      (''ix_ride_requests_pickup_coords'', [''origin_latitude'', ''origin_longitude''])]"

definition driver_request_dismissal_table :: relation where
  "driver_request_dismissal_table = declared ''driver_request_dismissals''
     [indexed (key_column ''id''), plain (references ''users'' (Some ''CASCADE'') (column ''driver_id'' SInteger)),
      plain (references ''ride_requests'' (Some ''CASCADE'') (column ''request_id'' SInteger)),
      plain (column ''dismissed_at'' STimestamp)]
     [(''uq_driver_request_dismissals_driver_request'', [''driver_id'', ''request_id''])]
     []
     [(''ix_driver_request_dismissals_request_id'', [''request_id'']),
      (''ix_driver_request_dismissals_driver_id'', [''driver_id''])]"

definition incident_report_table :: relation where
  "incident_report_table = declared ''incident_reports''
     [indexed (key_column ''id''),
      plain (references ''users'' (Some ''CASCADE'') (column ''reporter_id'' SInteger)),
      plain (references ''rides'' (Some ''SET NULL'') (optional_column ''ride_id'' SInteger)),
      plain (references ''bookings'' (Some ''SET NULL'') (optional_column ''booking_id'' SInteger)),
      plain (references ''ride_requests'' (Some ''SET NULL'') (optional_column ''ride_request_id'' SInteger)),
      plain (column ''title'' (SString 140)), plain (column ''description'' SText),
      plain (column ''severity'' (SEnum ''incidentseverity'')),
      plain (column ''status'' (SEnum ''incidentstatus'')), plain (optional_column ''support_notes'' SText),
      plain (optional_column ''resolved_at'' STimestamp), plain (column ''created_at'' STimestamp),
      plain (column ''updated_at'' STimestamp)]
     []
     []
     [(''ix_incident_reports_status_created'', [''status'', ''created_at'']),
      (''ix_incident_reports_reporter_created'', [''reporter_id'', ''created_at'']),
      (''ix_incident_reports_ride_status'', [''ride_id'', ''status'']),
      (''ix_incident_reports_booking_status'', [''booking_id'', ''status''])]"

definition enumerations :: "(string \<times> string list) list" where
  "enumerations =
    [(''bookingstatus'',
       [''pending'', ''accepted'', ''rejected'', ''cancelled_by_passenger'', ''cancelled_by_driver'', ''completed'']),
     (''riderequeststatus'',
       [''open'', ''matched'', ''cancelled'', ''expired'']),
     (''incidentstatus'',
       [''open'', ''reviewing'', ''resolved'', ''dismissed'']),
     (''incidentseverity'',
       [''low'', ''medium'', ''high'', ''emergency'']),
     (''notificationtype'',
       [''booking_requested'', ''booking_accepted'', ''booking_rejected'', ''booking_cancelled'',
        ''booking_completed'', ''ride_cancelled'', ''dispatch_matched'', ''dispatch_cancelled'',
        ''dispatch_expired'', ''driver_verification_approved'', ''driver_verification_rejected'',
        ''incident_updated'']),
     (''paymentstatus'',
       [''pending'', ''authorized'', ''captured'', ''cancelled'', ''refunded'', ''failed'']),
     (''paymentprovider'',
       [''mock'', ''razorpay'']),
     (''ridestatus'',
       [''scheduled'', ''full'', ''completed'', ''cancelled'']),
     (''userrole'',
       [''driver'', ''passenger'']),
     (''driververificationstatus'',
       [''not_required'', ''pending'', ''verified'', ''rejected''])]"

definition metadata :: schema where
  "metadata = \<lparr>sc_types = enumerations,
     sc_tables = [user_table, ride_table, ride_location_table, booking_table, message_table, review_table, payment_table,
       payment_event_table, audit_log_table, notification_table, driver_availability_table, ride_request_table,
       driver_request_dismissal_table, incident_report_table]\<rparr>"

end
