(* ===== verification/MigrationFacts.thy ===== *)
theory MigrationFacts
  imports Migrations Metadata Operations Demo
begin

text \<open>
  The migrations build the schema that the classes declare, up to five listed differences; downgrading takes
  an upgrade back; and what the scripts write into existing rows satisfies the invariants of the services.
\<close>

section \<open>Upgrading\<close>

lemma single_head: "heads revisions = [''20260705_0001'']"
  by code_simp

lemma upgrade_differences:
  "map_option (\<lambda>s. (schema_lacks s metadata, schema_lacks metadata s)) (run_upgrades PostgreSQL revisions empty_schema) =
     Some ([Missing_index ''driver_availability'' [''id''], Missing_index ''ride_requests'' [''id''],
        Missing_index ''driver_request_dismissals'' [''id''], Column_nullable ''incident_reports'' ''created_at'',
        Column_nullable ''incident_reports'' ''updated_at''],
       [Column_nullable ''incident_reports'' ''created_at'', Column_nullable ''incident_reports'' ''updated_at''])"
  by code_simp

text \<open>
  C34. The migration scripts lead to the schema of the models: the revisions are listed in an order in which
  they can run and have a single head, which the preflight check accepts; from an empty database no step of
  the upgrade fails on PostgreSQL; and the schema it ends in differs from the one the classes declare in
  five places, three missing indexes on primary keys and two columns that may be null.
\<close>

theorem migrations_match_models:
  "ordered [] revisions \<and> mg_single_head (build_migration_preflight_payload (Some (heads revisions))) \<and>
   (\<exists>s. run_upgrades PostgreSQL revisions empty_schema = Some s \<and>
     schema_lacks s metadata =
       [Missing_index ''driver_availability'' [''id''], Missing_index ''ride_requests'' [''id''],
        Missing_index ''driver_request_dismissals'' [''id''], Column_nullable ''incident_reports'' ''created_at'',
        Column_nullable ''incident_reports'' ''updated_at''] \<and>
     schema_lacks metadata s =
       [Column_nullable ''incident_reports'' ''created_at'', Column_nullable ''incident_reports'' ''updated_at''])"
proof -
  have "ordered [] revisions" by code_simp
  moreover have "mg_single_head (build_migration_preflight_payload (Some (heads revisions)))"
    by (simp add: build_migration_preflight_payload_def single_head)
  ultimately show ?thesis using upgrade_differences by (simp add: map_option_eq_Some)
qed

section \<open>Downgrading\<close>

text \<open>The operations that take an operation back. A row that was updated stays as it is, a value stays in its type.\<close>

fun undo_table_op :: "table_op \<Rightarrow> table_op list" where
  "undo_table_op (Add_column c) = [Drop_column (col_name c)]"
| "undo_table_op (Create_index i cs u) = [Drop_index i]"
| "undo_table_op (Create_check i test) = [Drop_constraint i]"
| "undo_table_op (Create_unique i cs) = [Drop_constraint i]"
| "undo_table_op _ = []"

fun undo_op :: "migration_op \<Rightarrow> migration_op list" where
  "undo_op (Create_type n vs) = [Drop_type n]"
| "undo_op (Create_table n cs us ks) = [Drop_table n]"
| "undo_op (On n ms) = [On n (concat (map undo_table_op (rev ms)))]"
| "undo_op _ = []"

definition mirror :: "migration_op list \<Rightarrow> migration_op list" where
  "mirror ms = concat (map undo_op (rev ms))"

fun growing_table_op :: "table_op \<Rightarrow> bool" where
  "growing_table_op (Add_column c) = True"
| "growing_table_op (Create_index i cs u) = True"
| "growing_table_op (Create_check i test) = True"
| "growing_table_op (Create_unique i cs) = True"
| "growing_table_op Update_rows = True"
| "growing_table_op _ = False"

fun growing_op :: "migration_op \<Rightarrow> bool" where
  "growing_op (Create_type n vs) = True"
| "growing_op (Add_values n vs) = True"
| "growing_op (Create_table n cs us ks) = True"
| "growing_op (On n ms) = list_all growing_table_op ms"
| "growing_op _ = False"

text \<open>Indexes and unique constraints cover columns of their table.\<close>

definition relation_ok :: "relation \<Rightarrow> bool" where
  "relation_ok t \<longleftrightarrow> (\<forall>(i, cs, u) \<in> set (tb_indexes t). set cs \<subseteq> set (column_names t)) \<and>
     (\<forall>(u, cs) \<in> set (tb_uniques t). set cs \<subseteq> set (column_names t))"

lemma covers_set [simp]: "covers names cs \<longleftrightarrow> set cs \<subseteq> set names"
  by (auto simp: covers_def list_all_iff)

lemma admit_simps [simp]: "admit b x = Some y \<longleftrightarrow> b \<and> y = x" "admit True x = Some x"
  by (auto simp: admit_def)

lemma undo_add_column:
  assumes "relation_ok t" and "col_name c \<notin> set (column_names t)"
  shows "without_column (col_name c) (t\<lparr>tb_columns := tb_columns t @ [c]\<rparr>) = t"
proof -
  have "filter (\<lambda>x. col_name x \<noteq> col_name c) (tb_columns t) = tb_columns t"
    using assms(2) unfolding filter_id_conv column_names_def by (metis image_eqI list.set_map)
  moreover have "filter (\<lambda>(_, cs). col_name c \<notin> set cs) (tb_uniques t) = tb_uniques t"
    using assms unfolding filter_id_conv relation_ok_def by blast
  moreover have "filter (\<lambda>(_, cs, _). col_name c \<notin> set cs) (tb_indexes t) = tb_indexes t"
    using assms unfolding filter_id_conv relation_ok_def by blast
  ultimately show ?thesis by (simp add: without_column_def)
qed

lemma undo_create_index:
  assumes "i \<notin> set (index_names t)"
  shows "filter (\<lambda>(j, _). j \<noteq> i) (tb_indexes t) = tb_indexes t"
  using assms by (force simp: filter_id_conv index_names_def)

lemma undo_constraint:
  assumes "i \<notin> set (constraint_names t)"
  shows "filter (\<lambda>(j, _). j \<noteq> i) (tb_checks t) = tb_checks t \<and> filter (\<lambda>(j, _). j \<noteq> Some i) (tb_uniques t) = tb_uniques t"
  using assms by (force simp: filter_id_conv constraint_names_def map_filter_def)

lemma undo_table_step:
  assumes "apply_table_op types tables m t = Some t'" and "growing_table_op m" and "relation_ok t"
  shows "apply_table_ops types tables (undo_table_op m) t' = Some t \<and> relation_ok t'"
proof (cases m)
  case (Add_column c)
  with assms have c: "col_name c \<notin> set (column_names t)" "t' = t\<lparr>tb_columns := tb_columns t @ [c]\<rparr>"
    by (auto simp: has_column_def)
  with Add_column assms(3) undo_add_column [OF assms(3) c(1)] show ?thesis
    by (fastforce simp: relation_ok_def column_names_def has_column_def)
next
  case (Create_index i cs u)
  with assms undo_create_index [of i t] show ?thesis
    by (auto simp: relation_ok_def column_names_def)
next
  case (Create_check i test)
  with assms undo_constraint [of i t] show ?thesis
    by (auto simp: relation_ok_def column_names_def constraint_names_def)
next
  case (Create_unique i cs)
  with assms undo_constraint [of i t] show ?thesis
    by (auto simp: relation_ok_def column_names_def constraint_names_def map_filter_def)
qed (use assms in auto)

lemma apply_table_ops_append:
  "apply_table_ops types tables (ms @ ns) t = Option.bind (apply_table_ops types tables ms t) (apply_table_ops types tables ns)"
  by (induction ms arbitrary: t) (auto split: option.split)

lemma undo_table_ops:
  assumes "apply_table_ops types tables ms t = Some t'" and "list_all growing_table_op ms" and "relation_ok t"
  shows "apply_table_ops types tables (concat (map undo_table_op (rev ms))) t' = Some t \<and> relation_ok t'"
  using assms
proof (induction ms arbitrary: t)
  case (Cons m ms)
  then obtain u where u: "apply_table_op types tables m t = Some u" "apply_table_ops types tables ms u = Some t'"
    by (auto split: option.splits)
  from undo_table_step [OF u(1)] Cons.prems Cons.IH [OF u(2)] show ?case
    by (simp add: apply_table_ops_append)
qed simp

lemma growing_table_ops:
  assumes "apply_table_ops types tables ms t = Some t'" and "list_all growing_table_op ms"
    and "\<forall>c \<in> set (tb_columns t). column_ok types tables c"
  shows "tb_name t' = tb_name t \<and> (\<forall>c \<in> set (tb_columns t'). column_ok types tables c)"
  using assms
proof (induction ms arbitrary: t)
  case (Cons m ms)
  then obtain u where u: "apply_table_op types tables m t = Some u" "apply_table_ops types tables ms u = Some t'"
    by (auto split: option.splits)
  with Cons.prems have "tb_name u = tb_name t \<and> (\<forall>c \<in> set (tb_columns u). column_ok types tables c)"
    by (cases m) auto
  with Cons.IH [OF u(2)] Cons.prems(2) show ?case by simp
qed simp

lemma alter_relation_split:
  "alter_relation n f ts = Some ts' \<Longrightarrow>
     \<exists>xs t t' ys. ts = xs @ t # ys \<and> n \<notin> set (map tb_name xs) \<and> tb_name t = n \<and> f t = Some t' \<and> ts' = xs @ t' # ys"
proof (induction ts arbitrary: ts')
  case (Cons u us)
  show ?case
  proof (cases "tb_name u = n")
    case True
    with Cons.prems obtain t' where "f u = Some t'" "ts' = t' # us" by auto
    with True show ?thesis by (intro exI [of _ "[]"] exI [of _ u] exI [of _ t'] exI [of _ us]) simp
  next
    case False
    with Cons.prems obtain us' where us: "alter_relation n f us = Some us'" "ts' = u # us'" by auto
    from Cons.IH [OF us(1)] obtain xs t t' ys where "us = xs @ t # ys" "n \<notin> set (map tb_name xs)" "tb_name t = n"
      "f t = Some t'" "us' = xs @ t' # ys" by blast
    with False us(2) show ?thesis by (intro exI [of _ "u # xs"] exI [of _ t] exI [of _ t'] exI [of _ ys]) simp
  qed
qed simp

lemma alter_relation_at:
  "n \<notin> set (map tb_name xs) \<Longrightarrow> tb_name t = n \<Longrightarrow>
     alter_relation n f (xs @ t # ys) = map_option (\<lambda>t'. xs @ t' # ys) (f t)"
  by (induction xs) (auto simp: option.map_comp comp_def)

text \<open>Every enumeration and every table that a column refers to is there.\<close>

definition schema_ok :: "schema \<Rightarrow> bool" where
  "schema_ok s \<longleftrightarrow> (\<forall>t \<in> set (sc_tables s). relation_ok t \<and>
     (\<forall>c \<in> set (tb_columns t). column_ok (type_names s) (table_names s) c))"

text \<open>The same tables, and the same types with at least the same values.\<close>

definition extends :: "schema \<Rightarrow> schema \<Rightarrow> bool" where
  "extends s u \<longleftrightarrow> sc_tables u = sc_tables s \<and>
     list_all2 (\<lambda>(n, vs) (m, ws). n = m \<and> set vs \<subseteq> set ws) (sc_types s) (sc_types u)"

lemma extends_refl: "extends s s"
  by (auto simp: extends_def intro!: list_all2_refl)

lemma extends_trans:
  assumes "extends s u" and "extends u v"
  shows "extends s v"
proof -
  let ?Q = "\<lambda>(n, vs) (m, ws). n = m \<and> set vs \<subseteq> set ws"
  have "list_all2 ?Q (sc_types s) (sc_types v)"
    by (rule list_all2_trans [where ?P1.0 = ?Q and ?P2.0 = ?Q and bs = "sc_types u"])
      (use assms in \<open>auto simp: extends_def\<close>)
  with assms show ?thesis by (simp add: extends_def)
qed

lemma extends_names: "extends s u \<Longrightarrow> type_names u = type_names s \<and> table_names u = table_names s"
  unfolding extends_def type_names_def table_names_def
  by (auto simp: list_all2_conv_all_nth split_beta intro!: nth_equalityI)

lemma column_ok_grows:
  "column_ok types tables c \<Longrightarrow> set types \<subseteq> set types' \<Longrightarrow> set tables \<subseteq> set tables' \<Longrightarrow> column_ok types' tables' c"
  by (auto simp: column_ok_def split: sql_type.splits option.splits)

lemma undo_step:
  assumes "apply_op m s = Some s'" and "growing_op m" and "schema_ok s"
    and "\<And>n vs. m = Create_type n vs \<Longrightarrow> n \<notin> set (type_names s)"
  shows "schema_ok s' \<and> (\<exists>u. apply_ops (undo_op m) s' = Some u \<and> extends s u)"
proof (cases m)
  case (Create_type n vs)
  with assms have n: "n \<notin> set (type_names s)" "s' = s\<lparr>sc_types := sc_types s @ [(n, vs)]\<rparr>" by auto
  then have names: "type_names s' = type_names s @ [n]" "table_names s' = table_names s" "sc_tables s' = sc_tables s"
    by (simp_all add: type_names_def table_names_def)
  have "column_ok (type_names s @ [n]) (table_names s) c" if "column_ok (type_names s) (table_names s) c" for c
    by (rule column_ok_grows [OF that]) auto
  with assms(3) have ok: "schema_ok s'" by (auto simp: schema_ok_def names)
  have "col_type c \<noteq> SEnum n" if "t \<in> set (sc_tables s)" "c \<in> set (tb_columns t)" for t c
    using assms(3) n(1) that by (force simp: schema_ok_def column_ok_def)
  then have "\<not> type_used n s'" by (auto simp: type_used_def list_ex_iff names)
  moreover have "filter (\<lambda>(m, _). m \<noteq> n) (sc_types s) = sc_types s"
    using n(1) by (force simp: filter_id_conv type_names_def)
  ultimately have "apply_ops (undo_op m) s' = Some s" using Create_type n(2) names by simp
  with ok extends_refl show ?thesis by blast
next
  case (Add_values n vs)
  with assms have s': "s' = s\<lparr>sc_types := map (\<lambda>(m, ws). (m, if m = n then ws @ filter (\<lambda>v. v \<notin> set ws) vs else ws)) (sc_types s)\<rparr>"
    by simp
  then have names: "type_names s' = type_names s" "table_names s' = table_names s" "sc_tables s' = sc_tables s"
    by (auto simp: type_names_def table_names_def split_beta)
  have "extends s s'" by (auto simp: extends_def s' list_all2_conv_all_nth split_beta)
  with assms(3) names Add_values show ?thesis by (simp add: schema_ok_def)
next
  case (Create_table n cs us ks)
  let ?t = "\<lparr>tb_name = n, tb_columns = cs, tb_uniques = map (\<lambda>(u, xs). (Some u, xs)) us, tb_checks = ks, tb_indexes = []\<rparr>"
  from Create_table assms have n: "n \<notin> set (table_names s)" "s' = s\<lparr>sc_tables := sc_tables s @ [?t]\<rparr>"
    and cs: "\<forall>c \<in> set cs. column_ok (type_names s) (table_names s) c" "\<forall>(u, xs) \<in> set us. set xs \<subseteq> set (map col_name cs)"
    by (auto simp: list_all_iff split_beta)
  then have names: "type_names s' = type_names s" "table_names s' = table_names s @ [n]" "sc_tables s' = sc_tables s @ [?t]"
    by (simp_all add: type_names_def table_names_def)
  have "relation_ok ?t" using cs(2) by (auto simp: relation_ok_def column_names_def)
  moreover have "column_ok (type_names s) (table_names s @ [n]) c"
    if "c \<in> set cs \<or> (\<exists>t \<in> set (sc_tables s). c \<in> set (tb_columns t))" for c
  proof (rule column_ok_grows)
    show "column_ok (type_names s) (table_names s) c" using that cs(1) assms(3) by (auto simp: schema_ok_def)
  qed auto
  ultimately have ok: "schema_ok s'" using assms(3) by (auto simp: schema_ok_def names)
  have "map_option fst (col_references c) \<noteq> Some n" if "t \<in> set (sc_tables s)" "c \<in> set (tb_columns t)" for t c
    using assms(3) n(1) that by (force simp: schema_ok_def column_ok_def)
  then have "\<not> table_used n s'" by (auto simp: table_used_def list_ex_iff names)
  moreover have "filter (\<lambda>t. tb_name t \<noteq> n) (sc_tables s) = sc_tables s"
    using n(1) by (force simp: filter_id_conv table_names_def)
  ultimately have "apply_ops (undo_op m) s' = Some s" using Create_table n(2) names by simp
  with ok extends_refl show ?thesis by blast
next
  case (On n ms)
  let ?f = "apply_table_ops (type_names s) (table_names s)"
  from On assms obtain ts where ts: "alter_relation n (?f ms) (sc_tables s) = Some ts" "s' = s\<lparr>sc_tables := ts\<rparr>" by auto
  from alter_relation_split [OF ts(1)] obtain xs t t' ys where split: "sc_tables s = xs @ t # ys"
    "n \<notin> set (map tb_name xs)" "tb_name t = n" "?f ms t = Some t'" "ts = xs @ t' # ys" by blast
  have growing: "list_all growing_table_op ms" using On assms(2) by simp
  have t: "relation_ok t" "\<forall>c \<in> set (tb_columns t). column_ok (type_names s) (table_names s) c"
    using assms(3) split(1) by (auto simp: schema_ok_def)
  from growing_table_ops [OF split(4) growing t(2)] undo_table_ops [OF split(4) growing t(1)]
  have t': "tb_name t' = n" "\<forall>c \<in> set (tb_columns t'). column_ok (type_names s) (table_names s) c"
    "?f (concat (map undo_table_op (rev ms))) t' = Some t" "relation_ok t'" using split(3) by auto
  have names: "type_names s' = type_names s" "table_names s' = table_names s" "sc_tables s' = xs @ t' # ys"
    using ts(2) split t'(1) by (simp_all add: type_names_def table_names_def)
  have "schema_ok s'" using assms(3) split(1) t' by (auto simp: schema_ok_def names)
  moreover have "apply_ops (undo_op m) s' = Some s"
  proof -
    have "alter_relation n (?f (concat (map undo_table_op (rev ms)))) (sc_tables s') = Some (sc_tables s)"
      using split(1-3) t'(1,3) by (simp add: names(3) alter_relation_at)
    with On names(1,2) ts(2) show ?thesis by simp
  qed
  ultimately show ?thesis using extends_refl by blast
qed (use assms(2) in auto)

text \<open>The operations that take back succeed as well when the types have more values.\<close>

fun shrinking_op :: "migration_op \<Rightarrow> bool" where
  "shrinking_op (Drop_type n) = True"
| "shrinking_op (Drop_table n) = True"
| "shrinking_op (On n ms) = True"
| "shrinking_op _ = False"

lemma shrinking_undo: "list_all shrinking_op (undo_op m)"
  by (cases m) auto

lemma extends_step:
  assumes "extends s u" and "apply_op m s = Some s'" and "shrinking_op m"
  shows "\<exists>u'. apply_op m u = Some u' \<and> extends s' u'"
proof -
  note names = extends_names [OF assms(1)]
  have tables: "sc_tables u = sc_tables s" and types: "list_all2 (\<lambda>(n, vs) (m, ws). n = m \<and> set vs \<subseteq> set ws) (sc_types s) (sc_types u)"
    using assms(1) by (auto simp: extends_def)
  have "list_all2 (\<lambda>(n, vs) (m, ws). n = m \<and> set vs \<subseteq> set ws) (filter (\<lambda>(m, _). m \<noteq> n) (sc_types s))
      (filter (\<lambda>(m, _). m \<noteq> n) (sc_types u))" for n
    using types by (induction rule: list_all2_induct) auto
  with assms names tables types show ?thesis
    by (cases m) (auto simp: extends_def type_used_def table_used_def)
qed

lemma extends_steps:
  assumes "extends s u" and "apply_ops ms s = Some s'" and "list_all shrinking_op ms"
  shows "\<exists>u'. apply_ops ms u = Some u' \<and> extends s' u'"
  using assms
proof (induction ms arbitrary: s u)
  case (Cons m ms)
  then obtain v where v: "apply_op m s = Some v" "apply_ops ms v = Some s'" by (auto split: option.splits)
  with extends_step [OF Cons.prems(1) v(1)] Cons.prems(3) obtain w where w: "apply_op m u = Some w" "extends v w" by auto
  with Cons.IH [OF w(2) v(2)] Cons.prems(3) show ?case by simp
qed simp

lemma apply_ops_append: "apply_ops (ms @ ns) s = Option.bind (apply_ops ms s) (apply_ops ns)"
  by (induction ms arbitrary: s) (auto split: option.split)

fun new_types :: "migration_op list \<Rightarrow> string list" where
  "new_types [] = []"
| "new_types (Create_type n vs # ms) = n # new_types ms"
| "new_types (m # ms) = new_types ms"

lemma mirror_undoes:
  assumes "apply_ops ms s = Some s'" and "list_all growing_op ms" and "schema_ok s"
    and "distinct (new_types ms)" and "set (new_types ms) \<inter> set (type_names s) = {}"
  shows "\<exists>u. apply_ops (mirror ms) s' = Some u \<and> extends s u"
  using assms
proof (induction ms arbitrary: s)
  case Nil
  then show ?case by (simp add: mirror_def extends_refl)
next
  case (Cons m ms)
  then obtain v where v: "apply_op m s = Some v" "apply_ops ms v = Some s'" by (auto split: option.splits)
  have fresh: "n \<notin> set (type_names s)" if "m = Create_type n vs" for n vs using Cons.prems(5) that by simp
  have "schema_ok v \<and> (\<exists>u. apply_ops (undo_op m) v = Some u \<and> extends s u)"
    by (rule undo_step [OF v(1)]) (use Cons.prems(2,3) fresh in auto)
  then obtain u where u: "schema_ok v" "apply_ops (undo_op m) v = Some u" "extends s u" by blast
  have "type_names v = type_names s @ (case m of Create_type n vs \<Rightarrow> [n] | _ \<Rightarrow> [])"
    using v(1) Cons.prems(2) fresh by (cases m) (auto simp: type_names_def split_beta)
  with Cons.prems(4,5) have "distinct (new_types ms) \<and> set (new_types ms) \<inter> set (type_names v) = {}"
    by (cases m) auto
  with Cons.IH [OF v(2) _ u(1)] Cons.prems(2) obtain w where w: "apply_ops (mirror ms) s' = Some w" "extends v w" by auto
  from extends_steps [OF w(2) u(2) shrinking_undo] obtain z where "apply_ops (undo_op m) w = Some z" "extends u z" by blast
  with w(1) extends_trans [OF u(3)] show ?case by (auto simp: mirror_def apply_ops_append)
qed

text \<open>The revisions that only add something, and whose downgrade takes their operations back in reverse.\<close>

definition reverted :: "dialect \<Rightarrow> revision \<Rightarrow> bool" where
  "reverted d r \<longleftrightarrow> list_all growing_op (rev_upgrade r d) \<and> rev_downgrade r d = mirror (rev_upgrade r d) \<and>
     distinct (new_types (rev_upgrade r d))"

lemma reverted_revisions:
  "map rev_id (filter (\<lambda>r. \<not> reverted PostgreSQL r) revisions) = [''20260613_0001'', ''20260705_0001'']"
  by code_simp

text \<open>
  A downgrade takes its upgrade back: for every revision but the two that change existing columns
  (20260613_0001 and 20260705_0001), on any schema whose references are resolved and which does not have the
  revision's own types yet, when the upgrade succeeds so does the downgrade after it, and it restores every
  table; of the types only values that were added to existing ones stay.
\<close>

theorem downgrade_restores:
  assumes "r \<in> set revisions" and "rev_id r \<notin> {''20260613_0001'', ''20260705_0001''}" and "schema_ok s"
    and "set (new_types (rev_upgrade r PostgreSQL)) \<inter> set (type_names s) = {}"
    and "apply_ops (rev_upgrade r PostgreSQL) s = Some s'"
  shows "\<exists>u. apply_ops (rev_downgrade r PostgreSQL) s' = Some u \<and> extends s u"
proof -
  have "reverted PostgreSQL r"
  proof (rule ccontr)
    assume "\<not> reverted PostgreSQL r"
    with assms(1) have "rev_id r \<in> set (map rev_id (filter (\<lambda>r. \<not> reverted PostgreSQL r) revisions))" by auto
    with assms(2) show False unfolding reverted_revisions by simp
  qed
  with mirror_undoes [OF assms(5) _ assms(3) _ assms(4)] show ?thesis by (auto simp: reverted_def)
qed

lemma downgrade_restores_witness:
  "\<exists>s' u. apply_ops (upgrade_20260415_0001 PostgreSQL) empty_schema = Some s' \<and>
     apply_ops (downgrade_20260415_0001 PostgreSQL) s' = Some u \<and> extends empty_schema u"
proof -
  have "apply_ops (upgrade_20260415_0001 PostgreSQL) empty_schema \<noteq> None" by code_simp
  then obtain s' where s': "apply_ops (upgrade_20260415_0001 PostgreSQL) empty_schema = Some s'" by blast
  define r where "r = hd revisions"
  have r: "r \<in> set revisions" "rev_id r = ''20260415_0001''" "rev_upgrade r = upgrade_20260415_0001"
    "rev_downgrade r = downgrade_20260415_0001" by (simp_all add: r_def revisions_def)
  have "schema_ok empty_schema" "type_names empty_schema = []"
    by (simp_all add: schema_ok_def empty_schema_def type_names_def)
  with downgrade_restores [OF r(1), of empty_schema s'] r s' show ?thesis by simp
qed

section \<open>Rows that were there\<close>

text \<open>
  20260420_0004: \<open>UPDATE rides SET status = CASE WHEN is_active = false THEN 'cancelled' WHEN available_seats = 0
  THEN 'full' ELSE 'scheduled' END\<close>
\<close>

definition backfill_ride_status :: "ride \<Rightarrow> ride" where
  "backfill_ride_status r = r\<lparr>r_status :=
     (if \<not> r_is_active r then RCancelled else if r_available_seats r = 0 then RFull else RScheduled)\<rparr>"

text \<open>
  20260613_0001: \<open>UPDATE payments SET amount_minor = CAST(ROUND(amount * 100) AS INTEGER)\<close>, then
  \<open>UPDATE payments SET provider_order_id = provider_payment_id\<close>. \<open>round\<close> is the rounding of the server.
\<close>

definition backfill_payment :: "(rat \<Rightarrow> int) \<Rightarrow> payment \<Rightarrow> payment" where
  "backfill_payment rnd p = p\<lparr>p_amount_minor := rnd (p_amount p * 100),
     p_provider_order_id := (case p_provider_payment_id p of None \<Rightarrow> p_provider_order_id p | Some i \<Rightarrow> i)\<rparr>"

text \<open>20260702_0001: \<open>UPDATE users SET driver_verification_status = 'pending' WHERE role = 'driver'\<close>\<close>

definition backfill_user :: "user \<Rightarrow> user" where
  "backfill_user u = (if u_role u = Driver then u\<lparr>u_driver_verification_status := VPending\<rparr> else u)"

text \<open>
  Rows that were there before a migration satisfy the invariants the services keep: a ride has a status
  that fits its activity and seats, except that an active ride without seats becomes full and stays active;
  a payment of whole hundredths has the amount in minor units that the gateway is sent, whereas for yen, which
  has no smaller unit, the script writes a hundred times as much.
\<close>

theorem backfilled_rows_sound:
  assumes "\<forall>i. rnd (rat_of_int i) = i"
  shows "(ride_constraints r \<longrightarrow>
      (ride_ok (backfill_ride_status r) \<longleftrightarrow> \<not> (r_is_active r \<and> r_available_seats r = 0))) \<and>
    (p_amount p * 100 = rat_of_int k \<and> upper_str (p_currency p) \<noteq> ''JPY'' \<longrightarrow> payment_ok (backfill_payment rnd p)) \<and>
    (p_amount p = rat_of_int j \<and> upper_str (p_currency p) = ''JPY'' \<longrightarrow>
      p_amount_minor (backfill_payment rnd p) = 100 * to_minor_units (p_amount p) (p_currency p))"
proof (intro conjI impI)
  assume "ride_constraints r"
  then show "ride_ok (backfill_ride_status r) \<longleftrightarrow> \<not> (r_is_active r \<and> r_available_seats r = 0)"
    by (auto simp: ride_ok_def ride_constraints_def backfill_ride_status_def)
next
  assume "p_amount p * 100 = rat_of_int k \<and> upper_str (p_currency p) \<noteq> ''JPY''"
  with assms show "payment_ok (backfill_payment rnd p)"
    by (simp add: payment_ok_def backfill_payment_def to_minor_units_def)
next
  assume j: "p_amount p = rat_of_int j \<and> upper_str (p_currency p) = ''JPY''"
  have "rnd (rat_of_int (j * 100)) = j * 100" using assms by blast
  with j show "p_amount_minor (backfill_payment rnd p) = 100 * to_minor_units (p_amount p) (p_currency p)"
    by (simp add: backfill_payment_def to_minor_units_def)
qed

lemma backfilled_rows_sound_witness:
  "ride_ok (backfill_ride_status demo_ride) \<and> \<not> ride_ok (backfill_ride_status (demo_ride\<lparr>r_available_seats := 0\<rparr>)) \<and>
   payment_ok (backfill_payment round_half_up ((demo_payment PPending)\<lparr>p_amount := 1999 / 100, p_amount_minor := 0\<rparr>))"
proof -
  have rnd: "\<forall>i. round_half_up (rat_of_int i) = i" by simp
  let ?p = "(demo_payment PPending)\<lparr>p_amount := 1999 / 100, p_amount_minor := 0\<rparr>"
  have rides: "ride_constraints demo_ride" "ride_constraints (demo_ride\<lparr>r_available_seats := 0\<rparr>)" "r_is_active demo_ride"
    "r_available_seats demo_ride = 2" by (simp_all add: demo_ride_def ride_constraints_def)
  have "upper_str ''INR'' \<noteq> ''JPY''" by code_simp
  then have "p_amount ?p * 100 = rat_of_int 1999" "upper_str (p_currency ?p) \<noteq> ''JPY''"
    by (simp_all add: demo_payment_def)
  with backfilled_rows_sound [OF rnd, of demo_ride ?p 1999 0]
    backfilled_rows_sound [OF rnd, of "demo_ride\<lparr>r_available_seats := 0\<rparr>" ?p 1999 0] rides
  show ?thesis by simp
qed

end
