(* ===== verification/Sockets.thy ===== *)
theory Sockets
  imports System
begin

text \<open>
  The two WebSocket endpoints, \<open>chat_socket\<close> of src/app/api/v1/endpoints/chat.py and \<open>dispatch_socket\<close> of
  endpoints/dispatch.py, over the one connection manager that both import. An endpoint decides whether to
  take the socket, joins a room, subscribes to a Redis channel, and then repeats two things: it asks the
  subscription for an event, which it broadcasts to its room, and the client for a frame. Between the two
  other sockets and requests run, so each is a step of its own. What Redis and the client answer, and what
  the connection of a socket is worth when something is sent, are inputs of the step.

  A frame reads the committed rows each time. (The session of the socket keeps the rows it has loaded, but
  what it asks of them, whose booking it is, never changes.)
\<close>

section \<open>Sockets\<close>

datatype socket_endpoint = Chat_socket int | Dispatch_socket

text \<open>What the loop of a socket does next; \<open>Closed\<close> when the endpoint has returned or raised.\<close>

datatype phase = Polling | Receiving | Closed

record socket =
  so_endpoint :: socket_endpoint
  so_user :: user
  so_room :: int
  so_channel :: string
  so_phase :: phase

text \<open>What was sent to a client: a text relayed from a channel, or the answer to a ping.\<close>

datatype sent = Relayed int string string | Pong int

record server =
  ws_world :: world
  ws_rooms :: connections
  ws_sockets :: "(int \<times> socket) list"
  ws_next :: int
  ws_sent :: "sent list"

section \<open>Who may open a socket\<close>

text \<open>
  The user a token names, without a look at its type or at the revoked ones. \<open>None\<close> stands for
  \<open>websocket.close(code=1008)\<close>.
\<close>

definition socket_user :: "env \<Rightarrow> string \<Rightarrow> user option svc" where
  "socket_user e token = do {
     d \<leftarrow> gets db;
     now \<leftarrow> gets clock;
     case decode_token e now token of
       None \<Rightarrow> ok None
     | Some cs \<Rightarrow>
         (case py_int (case map_of cs ''sub'' of None \<Rightarrow> Some (PyStr ''0'') | x \<Rightarrow> x) of
            Inl (ValueError _) \<Rightarrow> ok None
          | Inl x \<Rightarrow> raise x
          | Inr user_id \<Rightarrow> ok (get_user user_id d))
   }"

definition chat_channel :: "int \<Rightarrow> string" where
  "chat_channel booking_id = ''chat:'' @ str_int booking_id"

definition chat_admits :: "env \<Rightarrow> int \<Rightarrow> string \<Rightarrow> socket option svc" where
  "chat_admits e booking_id token = do {
     r \<leftarrow> socket_user e token;
     on_ok r (\<lambda>user. do {
       d \<leftarrow> gets db;
       case user of
         None \<Rightarrow> ok None
       | Some u \<Rightarrow>
           (case get_booking booking_id d of
              None \<Rightarrow> ok None
            | Some b \<Rightarrow> deref (ride_of b d) (\<lambda>ride.
                if u_id u \<notin> {b_passenger_id b, r_driver_id ride} then ok None
                else ok (Some \<lparr>so_endpoint = Chat_socket booking_id, so_user = u, so_room = booking_id,
                  so_channel = chat_channel booking_id, so_phase = Polling\<rparr>)))
     })
   }"

definition dispatch_room :: "user \<Rightarrow> int" where
  "dispatch_room u = (if u_role u = Driver then - u_id u else u_id u)"

definition dispatch_channel :: "user \<Rightarrow> string" where
  "dispatch_channel u = (if u_role u = Driver then ''dispatch:driver:'' @ str_int (u_id u)
     else ''dispatch:passenger:'' @ str_int (u_id u))"

definition dispatch_admits :: "env \<Rightarrow> string \<Rightarrow> socket option svc" where
  "dispatch_admits e token = do {
     r \<leftarrow> socket_user e token;
     on_ok r (\<lambda>user. case user of
         None \<Rightarrow> ok None
       | Some u \<Rightarrow> ok (Some \<lparr>so_endpoint = Dispatch_socket, so_user = u, so_room = dispatch_room u,
           so_channel = dispatch_channel u, so_phase = Polling\<rparr>))
   }"

text \<open>A socket that is taken joins its room; the \<open>finally\<close> of one that is not finds nothing to remove.\<close>

definition open_socket :: "socket option svc \<Rightarrow> server \<Rightarrow> (exc + int option) \<times> server" where
  "open_socket admits sv =
     (let (r, w) = run_state (in_session admits) (ws_world sv);
          sv = sv\<lparr>ws_world := w\<rparr>;
          i = ws_next sv
      in case r of
           Inl x \<Rightarrow> (Inl x, sv)
         | Inr None \<Rightarrow> (Inr None, sv)
         | Inr (Some s) \<Rightarrow> (Inr (Some i), sv\<lparr>ws_rooms := connect (so_room s) i (ws_rooms sv),
             ws_sockets := ws_sockets sv @ [(i, s)], ws_next := i + 1\<rparr>))"

section \<open>The loop of a socket\<close>

definition set_phase :: "int \<Rightarrow> phase \<Rightarrow> server \<Rightarrow> server" where
  "set_phase i ph sv = sv\<lparr>ws_sockets :=
     map (\<lambda>(j, s). (j, if j = i then s\<lparr>so_phase := ph\<rparr> else s)) (ws_sockets sv)\<rparr>"

text \<open>The \<open>finally\<close> of a socket that had joined its room.\<close>

definition close_socket :: "int \<Rightarrow> socket \<Rightarrow> server \<Rightarrow> server" where
  "close_socket i s sv = set_phase i Closed (sv\<lparr>ws_rooms := disconnect (so_room s) i (ws_rooms sv)\<rparr>)"

text \<open>
  The event of the subscription, if there is one with a text, goes to every socket of the room; a socket that
  is not connected, or on which sending raises, leaves the room.
\<close>

definition poll :: "(int \<Rightarrow> socket_state) \<Rightarrow> int \<Rightarrow> socket \<Rightarrow> string option \<Rightarrow> server \<Rightarrow> server" where
  "poll status i s event sv =
     (case event of
        None \<Rightarrow> set_phase i Receiving sv
      | Some text \<Rightarrow>
          if text = [] then set_phase i Receiving sv
          else (let (reached, rooms) = broadcast status (so_room s) (ws_rooms sv)
                in set_phase i Receiving (sv\<lparr>ws_rooms := rooms,
                     ws_sent := ws_sent sv @ map (\<lambda>j. Relayed j (so_channel s) text) reached\<rparr>)))"

text \<open>\<open>bool(v)\<close>\<close>

fun py_true :: "py \<Rightarrow> bool" where
  "py_true PyNone = False"
| "py_true (PyBool b) = b"
| "py_true (PyInt i) = (i \<noteq> 0)"
| "py_true (PyStr s) = (s \<noteq> [])"
| "py_true (PyDecimal q) = (q \<noteq> 0)"
| "py_true (PyFloat x) = (x \<noteq> 0)"
| "py_true (PyDatetime t) = True"
| "py_true (PyList vs) = (vs \<noteq> [])"
| "py_true (PyDict kvs) = (kvs \<noteq> [])"

definition dict_get :: "string \<Rightarrow> (string \<times> py) list \<Rightarrow> py" where
  "dict_get k kvs = (case map_of kvs k of None \<Rightarrow> PyNone | Some v \<Rightarrow> v)"

text \<open>A frame on a chat socket: typing is announced, other events are dropped.\<close>

definition chat_frame :: "env \<Rightarrow> int \<Rightarrow> user \<Rightarrow> string \<Rightarrow> unit svc" where
  "chat_frame e booking_id u raw =
     (case json_loads e raw of
        None \<Rightarrow> ok ()
      | Some (PyDict kvs) \<Rightarrow>
          if dict_get ''event_type'' kvs = PyStr ''typing''
          then publish_typing e booking_id u (py_true (dict_get ''is_typing'' kvs))
          else ok ()
      | Some _ \<Rightarrow> raise (AttributeError ''get''))"

text \<open>A frame on a dispatch socket; the result says whether it is answered with a pong.\<close>

definition dispatch_frame :: "env \<Rightarrow> user \<Rightarrow> string \<Rightarrow> bool svc" where
  "dispatch_frame e u raw =
     (case json_loads e raw of
        None \<Rightarrow> ok False
      | Some v \<Rightarrow>
          if \<not> py_true v then ok False
          else (case v of
            PyDict kvs \<Rightarrow>
              if dict_get ''event_type'' kvs = PyStr ''ping''
              then if u_role u = Driver
                then do { r \<leftarrow> touch_driver_presence (u_id u); on_ok r (\<lambda>_. ok True) }
                else ok True
              else ok False
          | _ \<Rightarrow> raise (AttributeError ''get'')))"

definition frame_effect :: "env \<Rightarrow> socket \<Rightarrow> string \<Rightarrow> bool svc" where
  "frame_effect e s raw =
     (case so_endpoint s of
        Chat_socket b \<Rightarrow> do { r \<leftarrow> chat_frame e b (so_user s) raw; on_ok r (\<lambda>_. ok False) }
      | Dispatch_socket \<Rightarrow> dispatch_frame e (so_user s) raw)"

text \<open>
  What \<open>wait_for(websocket.receive(), timeout=0.1)\<close> gives: nothing in time, the end of the connection, an
  event of another type, or a frame with or without a text.
\<close>

datatype received = Timeout | Gone | Other_event | Frame "string option"

definition receive :: "env \<Rightarrow> (int \<Rightarrow> socket_state) \<Rightarrow> int \<Rightarrow> socket \<Rightarrow> received \<Rightarrow> server \<Rightarrow> server" where
  "receive e status i s m sv =
     (case m of
        Gone \<Rightarrow> close_socket i s sv
      | Frame (Some raw) \<Rightarrow>
          if raw = [] then set_phase i Polling sv
          else (let (r, w) = run_state (in_session (frame_effect e s raw)) (ws_world sv);
                    sv = sv\<lparr>ws_world := w\<rparr>
                in case r of
                     Inl _ \<Rightarrow> close_socket i s sv
                   | Inr False \<Rightarrow> set_phase i Polling sv
                   | Inr True \<Rightarrow>
                       if status i = Connected
                       then set_phase i Polling (sv\<lparr>ws_sent := ws_sent sv @ [Pong i]\<rparr>)
                       else close_socket i s sv)
      | _ \<Rightarrow> set_phase i Polling sv)"

section \<open>The server\<close>

text \<open>
  Requests, jobs and time go on beside the sockets, in any order. \<open>fail\<close> is an exception of Redis or of the
  connection, which may come at any await.
\<close>

inductive server_step :: "env \<Rightarrow> server \<Rightarrow> server \<Rightarrow> bool" for e where
  outside: "step e (ws_world sv) w \<Longrightarrow> server_step e sv (sv\<lparr>ws_world := w\<rparr>)"
| open_chat: "open_socket (chat_admits e b token) sv = (r, sv') \<Longrightarrow> server_step e sv sv'"
| open_dispatch: "open_socket (dispatch_admits e token) sv = (r, sv') \<Longrightarrow> server_step e sv sv'"
| polls: "map_of (ws_sockets sv) i = Some s \<Longrightarrow> so_phase s = Polling \<Longrightarrow>
    server_step e sv (poll status i s event sv)"
| receives: "map_of (ws_sockets sv) i = Some s \<Longrightarrow> so_phase s = Receiving \<Longrightarrow>
    server_step e sv (receive e status i s m sv)"
| fails: "map_of (ws_sockets sv) i = Some s \<Longrightarrow> so_phase s \<noteq> Closed \<Longrightarrow>
    server_step e sv (close_socket i s sv)"

definition serves :: "env \<Rightarrow> server \<Rightarrow> server \<Rightarrow> bool" where
  "serves e = (server_step e)\<^sup>*\<^sup>*"

definition fresh_server :: "world \<Rightarrow> server" where
  "fresh_server w = \<lparr>ws_world = w, ws_rooms = [], ws_sockets = [], ws_next = 1, ws_sent = []\<rparr>"

end
