(* ===== verification/SocketFacts.thy ===== *)
theory SocketFacts
  imports Sockets Demo
begin

text \<open>
  The WebSocket endpoints over any history of requests, jobs, frames and events: who is in a room, who is
  shown a chat, how often, and whose token opens a socket. What a socket does to the database is along
  \<open>core_step\<close>, so the invariants of the stored rows hold beside open sockets too.
\<close>

section \<open>Rooms\<close>

lemma sockets_of_connect:
  "set (sockets_of n (connect m i rs)) = (if n = m then insert i (set (sockets_of m rs)) else set (sockets_of n rs))"
  unfolding sockets_of_def connect_def Let_def by (simp add: update_conv' insert_absorb)

lemma sockets_of_disconnect:
  "set (sockets_of n (disconnect m i rs)) = (if n = m then set (sockets_of m rs) - {i} else set (sockets_of n rs))"
proof (cases "i \<in> set (sockets_of m rs) \<and> filter (\<lambda>x. x \<noteq> i) (sockets_of m rs) = []")
  case True
  then have "set (sockets_of m rs) - {i} = {}" by (auto simp: filter_empty_conv)
  with True show ?thesis by (simp add: disconnect_def sockets_of_def delete_conv')
next
  case False
  then show ?thesis by (auto simp: disconnect_def sockets_of_def update_conv' Let_def)
qed

lemma sockets_of_disconnects:
  "set (sockets_of n (fold (disconnect m) js rs)) = (if n = m then set (sockets_of m rs) - set js else set (sockets_of n rs))"
  by (induction js arbitrary: rs) (auto simp: sockets_of_disconnect)

lemma broadcast_rooms:
  assumes "broadcast status m rs = (reached, rs')"
  shows "set (sockets_of n rs') \<subseteq> set (sockets_of n rs)" "set reached \<subseteq> set (sockets_of m rs)"
    "(\<forall>j \<in> set (sockets_of m rs). status j = Connected) \<Longrightarrow> reached = sockets_of m rs \<and> rs' = rs"
  using assms by (auto simp: broadcast_def Let_def sockets_of_disconnects filter_True filter_False split: if_splits)

section \<open>The database beside the sockets\<close>

lemma peripheral_socket_user: "writes peripheral (socket_user e token)"
  unfolding socket_user_def by (auto intro!: writing split: option.split exc.split)

lemma peripheral_admits:
  "writes peripheral (chat_admits e b token)" "writes peripheral (dispatch_admits e token)"
  unfolding chat_admits_def dispatch_admits_def
  by (auto intro!: writing peripheral_socket_user split: option.split)

lemma peripheral_frame: "writes peripheral (frame_effect e s raw)"
  unfolding frame_effect_def chat_frame_def dispatch_frame_def publish_typing_def ensure_booking_access_def
    touch_driver_presence_def
  by (auto intro!: writing split: option.split socket_endpoint.split py.split)

lemmas core_socket = peripheral_writes [OF peripheral_admits(1)] peripheral_writes [OF peripheral_admits(2)]
  peripheral_writes [OF peripheral_frame]

text \<open>How the world inside the server moves: the rows follow \<open>core_step\<close>, and a session is closed at the end.\<close>

definition world_moves :: "server \<Rightarrow> server \<Rightarrow> bool" where
  "world_moves sv sv' \<longleftrightarrow> (core_step (durable (ws_world sv)) (db (ws_world sv)) \<longrightarrow>
     core_step (durable (ws_world sv)) (durable (ws_world sv')) \<and>
     core_step (durable (ws_world sv')) (db (ws_world sv')))"

lemma session_moves:
  assumes "writes core_step m" and "run_state (in_session m) (ws_world sv) = (r, w')" and "ws_world sv' = w'"
  shows "world_moves sv sv'"
  unfolding world_moves_def assms(3)
  using core.moves_iff_start [OF writesD [OF writes_in_session [OF assms(1)] assms(2)]] by blast

lemma same_world: "ws_world sv' = ws_world sv \<Longrightarrow> world_moves sv sv'"
  by (simp add: world_moves_def core.step_refl)

lemma phase_world [simp]: "ws_world (set_phase i ph sv) = ws_world sv" "ws_world (close_socket i s sv) = ws_world sv"
  by (simp_all add: set_phase_def close_socket_def)

lemma poll_world [simp]: "ws_world (poll status i s event sv) = ws_world sv"
  by (simp add: poll_def Let_def split: option.split prod.split)

lemma open_world:
  "open_socket admits sv = (r, sv') \<Longrightarrow> ws_world sv' = snd (run_state (in_session admits) (ws_world sv))"
  by (auto simp: open_socket_def Let_def split: prod.splits sum.splits option.splits)

lemma receive_world:
  "ws_world (receive e status i s m sv) =
     (case m of Frame (Some raw) \<Rightarrow>
        if raw = [] then ws_world sv else snd (run_state (in_session (frame_effect e s raw)) (ws_world sv))
      | _ \<Rightarrow> ws_world sv)"
  by (simp add: receive_def Let_def split: received.split option.split prod.split sum.split bool.split)

lemma server_step_world:
  assumes "server_step e sv sv'"
  shows "world_moves sv sv'"
  using assms
proof cases
  case (outside w)
  then show ?thesis using step_core [OF outside(2)] by (auto simp: world_moves_def)
next
  case (open_chat b token r)
  show ?thesis
    by (rule session_moves [OF core_socket(1) prod.collapse [symmetric] open_world [OF open_chat(1)]])
next
  case (open_dispatch token r)
  show ?thesis
    by (rule session_moves [OF core_socket(2) prod.collapse [symmetric] open_world [OF open_dispatch(1)]])
next
  case (receives i s status m)
  show ?thesis
  proof (cases "\<exists>raw. m = Frame (Some raw) \<and> raw \<noteq> []")
    case True
    then obtain raw where "ws_world sv' = snd (run_state (in_session (frame_effect e s raw)) (ws_world sv))"
      using receives(1) by (auto simp: receive_world)
    from session_moves [OF core_socket(3) prod.collapse [symmetric] this] show ?thesis .
  next
    case False
    with receives(1) show ?thesis
      by (auto simp: receive_world split: received.split option.split if_splits intro!: same_world)
  qed
qed (auto intro: same_world)

section \<open>Who is in a room\<close>

definition participant :: "database \<Rightarrow> int \<Rightarrow> user \<Rightarrow> bool" where
  "participant d i u \<longleftrightarrow> (\<exists>b ride. get_booking i d = Some b \<and> ride_of b d = Some ride \<and>
     u_id u \<in> {b_passenger_id b, r_driver_id ride})"

lemma participant_step:
  assumes "core_ok d" and "core_step d d'" and "participant d i u"
  shows "participant d' i u"
proof -
  from assms(3) obtain b ride where b: "get_booking i d = Some b" and ride: "get_ride (b_ride_id b) d = Some ride"
    and u: "u_id u \<in> {b_passenger_id b, r_driver_id ride}"
    by (auto simp: participant_def ride_of_def)
  from assms(1,2) have bm: "evolves get_booking booking_moves d d'" and rm: "evolves get_ride ride_moves d d'"
    by (simp_all add: core_step_def)
  from bm b obtain b' where b': "get_booking i d' = Some b'" "booking_moves b b'"
    unfolding evolves_def by blast
  from rm ride obtain ride' where ride': "get_ride (b_ride_id b) d' = Some ride'" "ride_moves ride ride'"
    unfolding evolves_def by blast
  from b' ride' u show ?thesis by (auto simp: participant_def ride_of_def booking_moves_def ride_moves_def)
qed

lemma participant_positive: "core_ok d \<Longrightarrow> participant d i u \<Longrightarrow> 0 < i"
  by (auto simp: participant_def core_ok_def keys_ok_def table_ok_def get_booking_def
      dest!: table_get_mem)

text \<open>What a socket is, by the endpoint that took it.\<close>

definition genuine :: "database \<Rightarrow> socket \<Rightarrow> bool" where
  "genuine d s \<longleftrightarrow>
     (case so_endpoint s of
        Chat_socket b \<Rightarrow> so_room s = b \<and> so_channel s = chat_channel b \<and> participant d b (so_user s)
      | Dispatch_socket \<Rightarrow> so_room s = dispatch_room (so_user s) \<and> so_channel s = dispatch_channel (so_user s) \<and>
          0 < u_id (so_user s))"

lemma genuine_step: "core_ok d \<Longrightarrow> core_step d d' \<Longrightarrow> genuine d s \<Longrightarrow> genuine d' s"
  by (auto simp: genuine_def participant_step split: socket_endpoint.splits)

lemma genuine_phase [simp]: "genuine d (s\<lparr>so_phase := ph\<rparr>) = genuine d s"
  by (cases "so_endpoint s") (simp_all add: genuine_def)

text \<open>The sockets there were, open or closed, without the place in the loop.\<close>

definition known :: "server \<Rightarrow> int \<Rightarrow> socket option" where
  "known sv i = map_option (\<lambda>s. s\<lparr>so_phase := Closed\<rparr>) (map_of (ws_sockets sv) i)"

definition server_ok :: "server \<Rightarrow> bool" where
  "server_ok sv \<longleftrightarrow>
     (\<forall>i s. known sv i = Some s \<longrightarrow> i < ws_next sv \<and> genuine (durable (ws_world sv)) s) \<and>
     (\<forall>n i. i \<in> set (sockets_of n (ws_rooms sv)) \<longrightarrow> (\<exists>s. known sv i = Some s \<and> so_room s = n)) \<and>
     (\<forall>i c x. Relayed i c x \<in> set (ws_sent sv) \<longrightarrow>
        (\<exists>j s s'. known sv j = Some s' \<and> known sv i = Some s \<and> so_channel s' = c \<and> so_room s = so_room s'))"

lemma known_phase [simp]:
  "known (set_phase i ph sv) = known sv" "known (close_socket i s sv) = known sv"
proof -
  have "known (set_phase i ph sv) j = known sv j" for i ph sv j
  proof -
    have "map_of (map (\<lambda>(j, s). (j, if j = i then s\<lparr>so_phase := ph\<rparr> else s)) xs) j =
        map_option (\<lambda>s. if j = i then s\<lparr>so_phase := ph\<rparr> else s) (map_of xs j)" for xs :: "(int \<times> socket) list"
      by (induction xs) auto
    then show ?thesis
      by (cases "map_of (ws_sockets sv) j") (simp_all add: known_def set_phase_def)
  qed
  then show "known (set_phase i ph sv) = known sv" "known (close_socket i s sv) = known sv"
    by (auto simp: close_socket_def fun_eq_iff known_def)
qed

lemma phase_parts [simp]:
  "ws_rooms (set_phase i ph sv) = ws_rooms sv" "ws_next (set_phase i ph sv) = ws_next sv"
  "ws_sent (set_phase i ph sv) = ws_sent sv" "ws_next (close_socket i s sv) = ws_next sv"
  "ws_sent (close_socket i s sv) = ws_sent sv" "ws_rooms (close_socket i s sv) = disconnect (so_room s) i (ws_rooms sv)"
  by (simp_all add: set_phase_def close_socket_def)

lemma known_world [simp]: "known (sv\<lparr>ws_world := w\<rparr>) = known sv" "known (sv\<lparr>ws_rooms := rs\<rparr>) = known sv"
  "known (sv\<lparr>ws_sent := xs\<rparr>) = known sv"
  by (simp_all add: known_def fun_eq_iff)

text \<open>A step that adds no socket keeps \<open>server_ok\<close> when rooms only shrink and what is sent is sent into a room.\<close>

lemma server_ok_quiet:
  assumes ok: "server_ok sv" and k: "known sv' = known sv" and n: "ws_next sv' = ws_next sv"
    and rooms: "\<And>n. set (sockets_of n (ws_rooms sv')) \<subseteq> set (sockets_of n (ws_rooms sv))"
    and d: "core_ok (durable (ws_world sv))" "core_step (durable (ws_world sv)) (durable (ws_world sv'))"
    and sent: "\<And>i c x. Relayed i c x \<in> set (ws_sent sv') \<Longrightarrow> Relayed i c x \<in> set (ws_sent sv) \<or>
      (\<exists>j s'. known sv j = Some s' \<and> so_channel s' = c \<and> i \<in> set (sockets_of (so_room s') (ws_rooms sv)))"
  shows "server_ok sv'"
  unfolding server_ok_def k n
proof (intro conjI allI impI)
  fix i s assume "known sv i = Some s"
  with ok d show "i < ws_next sv" "genuine (durable (ws_world sv')) s"
    by (auto simp: server_ok_def intro: genuine_step)
next
  fix n i assume "i \<in> set (sockets_of n (ws_rooms sv'))"
  with rooms have "i \<in> set (sockets_of n (ws_rooms sv))" by blast
  with ok show "\<exists>s. known sv i = Some s \<and> so_room s = n" by (simp add: server_ok_def)
next
  fix i c x assume "Relayed i c x \<in> set (ws_sent sv')"
  from sent [OF this] ok
  show "\<exists>j s s'. known sv j = Some s' \<and> known sv i = Some s \<and> so_channel s' = c \<and> so_room s = so_room s'"
    unfolding server_ok_def by metis
qed

lemma known_Some: "map_of (ws_sockets sv) i = Some s \<Longrightarrow> known sv i = Some (s\<lparr>so_phase := Closed\<rparr>)"
  by (simp add: known_def)

lemma close_ok:
  assumes "server_ok sv" and "core_ok (durable (ws_world sv))"
  shows "server_ok (close_socket i s sv)"
  by (rule server_ok_quiet [OF assms(1)])
    (use assms(2) in \<open>auto simp: sockets_of_disconnect core.step_refl split: if_splits\<close>)

lemma poll_ok:
  assumes "server_ok sv" and "core_ok (durable (ws_world sv))" and i: "map_of (ws_sockets sv) i = Some s"
  shows "server_ok (poll status i s event sv)"
proof -
  obtain reached rooms where b: "broadcast status (so_room s) (ws_rooms sv) = (reached, rooms)" by fastforce
  have relayed: "\<exists>j s'. known sv j = Some s' \<and> so_channel s' = so_channel s \<and>
      k \<in> set (sockets_of (so_room s') (ws_rooms sv))" if "k \<in> set reached" for k
    using known_Some [OF i] broadcast_rooms(2) [OF b] that
    by (intro exI [of _ i] exI [of _ "s\<lparr>so_phase := Closed\<rparr>"]) auto
  show ?thesis
    by (rule server_ok_quiet [OF assms(1)])
      (use assms(2) b broadcast_rooms(1) [OF b] relayed in
        \<open>auto simp: poll_def core.step_refl split: option.splits if_splits\<close>)
qed

lemma receive_ok:
  assumes ok: "server_ok sv" and d: "core_ok (durable (ws_world sv))"
    and step: "core_step (durable (ws_world sv)) (durable (ws_world (receive e status i s m sv)))"
  shows "server_ok (receive e status i s m sv)"
proof -
  have known: "known (receive e status i s m sv) = known sv"
    and nxt: "ws_next (receive e status i s m sv) = ws_next sv"
    by (simp_all add: receive_def Let_def split: received.split option.split prod.split sum.split bool.split)
  have rooms: "set (sockets_of n (ws_rooms (receive e status i s m sv))) \<subseteq> set (sockets_of n (ws_rooms sv))" for n
    by (auto simp: receive_def Let_def sockets_of_disconnect
        split: received.splits option.splits prod.splits sum.splits bool.splits if_splits)
  have sent: "Relayed k c x \<in> set (ws_sent sv)" if "Relayed k c x \<in> set (ws_sent (receive e status i s m sv))" for k c x
    using that by (auto simp: receive_def Let_def
        split: received.splits option.splits prod.splits sum.splits bool.splits if_splits)
  show ?thesis
    by (rule server_ok_quiet [OF ok known nxt rooms d step]) (use sent in blast)
qed

lemma in_session_result:
  assumes "run_state (in_session m) w = (r, w')"
  shows "r = fst (run_state m (w\<lparr>db := durable w\<rparr>))"
  using assms by (auto simp: in_session_def split: prod.splits)

text \<open>A socket that is taken is a genuine one, judged on the committed rows.\<close>

lemma chat_genuine:
  "run_state (chat_admits e b token) w = (Inr (Some s), w') \<Longrightarrow> genuine (db w) s"
  by (auto simp: chat_admits_def socket_user_def genuine_def participant_def deref_def run_on_ok
      split: option.splits sum.splits exc.splits if_splits)

lemma user_positive: "core_ok d \<Longrightarrow> get_user i d = Some u \<Longrightarrow> 0 < u_id u"
  by (auto simp: core_ok_def keys_ok_def table_ok_def get_user_def dest!: table_get_mem)

lemma dispatch_genuine:
  "run_state (dispatch_admits e token) w = (Inr (Some s), w') \<Longrightarrow> core_ok (db w) \<Longrightarrow> genuine (db w) s"
  by (auto simp: dispatch_admits_def socket_user_def genuine_def run_on_ok user_positive
      split: option.splits sum.splits exc.splits)

lemma open_ok:
  assumes ok: "server_ok sv" and d: "core_ok (durable (ws_world sv))" "core_ok (durable (ws_world sv'))"
    and step: "core_step (durable (ws_world sv)) (durable (ws_world sv'))"
    and run: "open_socket admits sv = (r, sv')"
    and genuine: "\<And>s w'. run_state admits ((ws_world sv)\<lparr>db := durable (ws_world sv)\<rparr>) = (Inr (Some s), w') \<Longrightarrow>
      genuine (durable (ws_world sv)) s"
  shows "server_ok sv'"
proof -
  obtain x w where session: "run_state (in_session admits) (ws_world sv) = (x, w)" by fastforce
  show ?thesis
  proof (cases "\<exists>s. x = Inr (Some s)")
    case False
    then have "sv' = sv\<lparr>ws_world := w\<rparr>"
      using run session by (auto simp: open_socket_def Let_def split: sum.splits option.splits)
    then show ?thesis by (intro server_ok_quiet [OF ok _ _ _ d(1) step]) auto
  next
    case True
    then obtain s where x: "x = Inr (Some s)" by blast
    then have s: "genuine (durable (ws_world sv')) s"
      using genuine in_session_result [OF session] genuine_step [OF d(1) step] by (metis prod.collapse)
    have fresh: "known sv (ws_next sv) = None"
      using ok unfolding server_ok_def by (meson less_irrefl not_Some_eq)
    have sv': "sv' = sv\<lparr>ws_world := w, ws_rooms := connect (so_room s) (ws_next sv) (ws_rooms sv),
        ws_sockets := ws_sockets sv @ [(ws_next sv, s)], ws_next := ws_next sv + 1\<rparr>"
      using run session x by (simp add: open_socket_def Let_def)
    then have known: "known sv' i = (if i = ws_next sv then Some (s\<lparr>so_phase := Closed\<rparr>) else known sv i)" for i
      using fresh by (auto simp: known_def map_add_def split: option.splits)
    have "i < ws_next sv' \<and> genuine (durable (ws_world sv')) t" if t: "known sv' i = Some t" for i t
    proof (cases "i = ws_next sv")
      case True
      with t s have "genuine (durable (ws_world sv')) t" by (auto simp: known)
      with True show ?thesis by (simp add: sv')
    next
      case False
      with t have "known sv i = Some t" by (simp add: known)
      with ok have i: "i < ws_next sv" "genuine (durable (ws_world sv)) t" by (simp_all add: server_ok_def)
      from genuine_step [OF d(1) step i(2)] i(1) show ?thesis by (simp add: sv')
    qed
    moreover have "\<exists>t. known sv' i = Some t \<and> so_room t = n" if i: "i \<in> set (sockets_of n (ws_rooms sv'))" for n i
    proof (cases "i = ws_next sv \<and> n = so_room s")
      case True
      then show ?thesis by (simp add: known)
    next
      case False
      with i have "i \<in> set (sockets_of n (ws_rooms sv))" by (auto simp: sv' sockets_of_connect split: if_splits)
      with ok obtain t where "known sv i = Some t" "so_room t = n" unfolding server_ok_def by blast
      moreover from this fresh have "i \<noteq> ws_next sv" by auto
      ultimately show ?thesis by (simp add: known)
    qed
    moreover have "\<exists>j t t'. known sv' j = Some t' \<and> known sv' i = Some t \<and> so_channel t' = c \<and> so_room t = so_room t'"
      if "Relayed i c y \<in> set (ws_sent sv')" for i c y
    proof -
      have "Relayed i c y \<in> set (ws_sent sv)" using that by (simp add: sv')
      with ok obtain j t t' where "known sv j = Some t'" "known sv i = Some t" "so_channel t' = c" "so_room t = so_room t'"
        unfolding server_ok_def by meson
      moreover from this fresh have "j \<noteq> ws_next sv" "i \<noteq> ws_next sv" by auto
      ultimately show ?thesis by (auto simp: known)
    qed
    ultimately show ?thesis unfolding server_ok_def by blast
  qed
qed

section \<open>Any history\<close>

definition server_sound :: "server \<Rightarrow> bool" where
  "server_sound sv \<longleftrightarrow> core_ok (durable (ws_world sv)) \<and>
     core_step (durable (ws_world sv)) (db (ws_world sv)) \<and> server_ok sv"

lemma fresh_server_sound: "sound w \<Longrightarrow> server_sound (fresh_server w)"
  by (simp add: server_sound_def sound_def fresh_server_def core.step_refl server_ok_def known_def sockets_of_def)

lemma server_step_sound:
  assumes step: "server_step e sv sv'" and sv: "server_sound sv"
  shows "server_sound sv' \<and> core_step (durable (ws_world sv)) (durable (ws_world sv'))"
proof -
  from sv have d: "core_ok (durable (ws_world sv))" and ok: "server_ok sv" by (simp_all add: server_sound_def)
  have moved: "core_step (durable (ws_world sv)) (durable (ws_world sv'))"
      "core_step (durable (ws_world sv')) (db (ws_world sv'))"
    using server_step_world [OF step] sv by (simp_all add: world_moves_def server_sound_def)
  then have d': "core_ok (durable (ws_world sv'))" using d by (simp add: core_step_def)
  have "server_ok sv'"
    using step
  proof cases
    case (outside w)
    show ?thesis by (rule server_ok_quiet [OF ok _ _ _ d moved(1)]) (use outside in auto)
  next
    case (open_chat b token r)
    show ?thesis by (rule open_ok [OF ok d d' moved(1) open_chat(1)]) (use chat_genuine in fastforce)
  next
    case (open_dispatch token r)
    show ?thesis by (rule open_ok [OF ok d d' moved(1) open_dispatch(1)]) (use dispatch_genuine d in fastforce)
  next
    case (polls i s status event)
    then show ?thesis using poll_ok [OF ok d] by simp
  next
    case (receives i s status m)
    then show ?thesis using receive_ok [OF ok d] moved(1) by simp
  next
    case (fails i s)
    then show ?thesis using close_ok [OF ok d] by simp
  qed
  with d' moved show ?thesis by (simp add: server_sound_def)
qed

lemma serves_sound:
  assumes "serves e sv sv'" and "server_sound sv"
  shows "server_sound sv' \<and> core_step (durable (ws_world sv)) (durable (ws_world sv'))"
  using assms(1) unfolding serves_def
proof (induction rule: rtranclp_induct)
  case base
  from assms(2) show ?case by (simp add: core.step_refl)
next
  case (step u v)
  with server_step_sound [OF step.hyps(2)] show ?case by (meson core.step_trans)
qed

lemma chat_channel_inject [simp]: "chat_channel i = chat_channel j \<longleftrightarrow> i = j"
  and chat_channel_dispatch [simp]: "chat_channel i \<noteq> dispatch_channel u" "dispatch_channel u \<noteq> chat_channel i"
  by (simp_all add: chat_channel_def dispatch_channel_def)

lemma chat_recipients:
  assumes sv: "server_sound sv" and sent: "Relayed i (chat_channel b) x \<in> set (ws_sent sv)"
  shows "\<exists>s. map_of (ws_sockets sv) i = Some s \<and>
    (so_endpoint s = Chat_socket b \<and> participant (durable (ws_world sv)) b (so_user s) \<or>
     so_endpoint s = Dispatch_socket \<and> u_role (so_user s) = Passenger \<and> u_id (so_user s) = b)"
proof -
  let ?d = "durable (ws_world sv)"
  from sv sent obtain j s s' where j: "known sv j = Some s'" and i: "known sv i = Some s"
    and c: "so_channel s' = chat_channel b" and room: "so_room s = so_room s'"
    unfolding server_sound_def server_ok_def by meson
  from sv i j have g: "genuine ?d s" "genuine ?d s'" and d: "core_ok ?d"
    by (auto simp: server_sound_def server_ok_def)
  from g(2) c have s': "so_room s' = b" "participant ?d b (so_user s')"
    by (auto simp: genuine_def split: socket_endpoint.splits)
  from participant_positive [OF d s'(2)] have b: "0 < b" .
  have "(so_endpoint s = Chat_socket b \<and> participant ?d b (so_user s)) \<or>
      (so_endpoint s = Dispatch_socket \<and> u_role (so_user s) = Passenger \<and> u_id (so_user s) = b)"
    using g(1) room s'(1) b
    by (cases "u_role (so_user s)") (auto simp: genuine_def dispatch_room_def split: socket_endpoint.splits)
  moreover from i obtain t where "map_of (ws_sockets sv) i = Some t" "s = t\<lparr>so_phase := Closed\<rparr>"
    by (auto simp: known_def)
  ultimately show ?thesis by auto
qed

text \<open>
  C37. Who is shown a chat: over any history of requests, jobs, time, frames, events and failures, a text of
  the channel of a booking that was sent to a socket went to a chat socket of that booking whose user is its
  passenger or its driver, or to the dispatch socket of the passenger whose user id is the booking's number,
  because chats and passengers share the rooms of one connection manager. Whatever the sockets do, the
  committed rows keep their invariants.
\<close>

theorem chat_shown_to:
  assumes "sound w" and "serves e (fresh_server w) sv" and "Relayed i (chat_channel b) x \<in> set (ws_sent sv)"
  shows "core_ok (durable (ws_world sv)) \<and> (\<exists>s. map_of (ws_sockets sv) i = Some s \<and>
    (so_endpoint s = Chat_socket b \<and> participant (durable (ws_world sv)) b (so_user s) \<or>
     so_endpoint s = Dispatch_socket \<and> u_role (so_user s) = Passenger \<and> u_id (so_user s) = b))"
  using chat_recipients [OF _ assms(3)] serves_sound [OF assms(2) fresh_server_sound [OF assms(1)]]
  by (simp add: server_sound_def)

text \<open>
  Pia opens the chat of her booking, number 2, and Pat, whose user id is 2, his dispatch socket: what is said
  in Pia's chat reaches Pat, who has no part in it.
\<close>

definition pia_chats :: socket where
  "pia_chats = \<lparr>so_endpoint = Chat_socket 2, so_user = pia, so_room = 2, so_channel = chat_channel 2, so_phase = Polling\<rparr>"

definition pat_waits :: socket where
  "pat_waits = \<lparr>so_endpoint = Dispatch_socket, so_user = pat, so_room = 2, so_channel = dispatch_channel pat, so_phase = Polling\<rparr>"

lemma parse_three: "parse_int ''3'' = Some 3" by code_simp

lemma demo_opens:
  "run_state (in_session (chat_admits demo_env 2 ''3'')) deal_world = (Inr (Some pia_chats), deal_world)"
  "run_state (in_session (dispatch_admits demo_env ''2'')) deal_world = (Inr (Some pat_waits), deal_world)"
  by (simp_all add: demo handling parse_three chat_admits_def dispatch_admits_def socket_user_def pia_chats_def
      pat_waits_def dispatch_room_def)

definition two_sockets :: server where
  "two_sockets = (fresh_server deal_world)\<lparr>ws_rooms := [(2, [1, 2])], ws_sockets := [(1, pia_chats), (2, pat_waits)],
     ws_next := 3\<rparr>"

lemma two_sockets_open: "serves demo_env (fresh_server deal_world) two_sockets"
proof -
  let ?one = "(fresh_server deal_world)\<lparr>ws_rooms := [(2, [1])], ws_sockets := [(1, pia_chats)], ws_next := 2\<rparr>"
  have "open_socket (chat_admits demo_env 2 ''3'') (fresh_server deal_world) = (Inr (Some 1), ?one)"
    by (simp add: open_socket_def fresh_server_def demo_opens connect_def sockets_of_def pia_chats_def)
  from server_step.open_chat [OF this] have "server_step demo_env (fresh_server deal_world) ?one" .
  moreover have "open_socket (dispatch_admits demo_env ''2'') ?one = (Inr (Some 2), two_sockets)"
    by (simp add: open_socket_def fresh_server_def demo_opens connect_def sockets_of_def pat_waits_def two_sockets_def)
  from server_step.open_dispatch [OF this] have "server_step demo_env ?one two_sockets" .
  ultimately show ?thesis unfolding serves_def by (meson r_into_rtranclp rtranclp_trans)
qed

lemma chat_shown_to_witness:
  "\<exists>sv. serves demo_env (fresh_server deal_world) sv \<and> Relayed 2 (chat_channel 2) ''hi'' \<in> set (ws_sent sv) \<and>
     (\<exists>s. map_of (ws_sockets sv) 2 = Some s \<and> so_endpoint s = Dispatch_socket \<and> u_id (so_user s) = 2) \<and>
     \<not> participant (durable (ws_world sv)) 2 pat"
proof -
  let ?sv = "poll (\<lambda>_. Connected) 1 pia_chats (Some ''hi'') two_sockets"
  have "server_step demo_env two_sockets ?sv"
    by (rule server_step.polls) (simp_all add: two_sockets_def pia_chats_def)
  with two_sockets_open have reach: "serves demo_env (fresh_server deal_world) ?sv"
    unfolding serves_def by (rule rtranclp.rtrancl_into_rtrancl)
  have sent: "Relayed 2 (chat_channel 2) ''hi'' \<in> set (ws_sent ?sv)"
    and pat: "map_of (ws_sockets ?sv) 2 = Some pat_waits"
    by (simp_all add: poll_def two_sockets_def broadcast_def sockets_of_def pia_chats_def set_phase_def)
  have none: "\<not> participant (durable (ws_world ?sv)) 2 pat"
    by (simp add: two_sockets_def fresh_server_def participant_def demo)
  from chat_shown_to [OF sound_deal reach sent] pat reach sent none show ?thesis
    by (auto simp: pat_waits_def)
qed

section \<open>Whose token opens a socket\<close>

text \<open>
  C38. A socket does not ask whether the token was revoked: a token that every HTTP endpoint refuses with 401,
  because its user logged out or because it is a refresh, reset or e-mail token, still opens the dispatch
  socket of its user and the chat sockets of all bookings he takes part in.
\<close>

theorem refused_token_opens_sockets:
  assumes "decode_token e (clock w) token = Some cs" and "map_of cs ''sub'' = Some (PyStr i)"
    and "parse_int i = Some k" and "get_user k (db w) = Some u" and "participant (db w) b u"
    and "is_revoked (clock w) (claim_jti cs) (tokens w) \<or> map_of cs ''type'' \<noteq> Some (PyStr ''access'')"
  shows "run_state (get_current_user e token) w = (Inl credentials_exception, w) \<and>
    (\<exists>s. run_state (chat_admits e b token) w = (Inr (Some s), w) \<and> so_user s = u \<and> so_endpoint s = Chat_socket b) \<and>
    (\<exists>s. run_state (dispatch_admits e token) w = (Inr (Some s), w) \<and> so_user s = u \<and> so_endpoint s = Dispatch_socket)"
proof (intro conjI)
  have user: "run_state (socket_user e token) w = (Inr (Some u), w)"
    using assms(1-4) by (simp add: socket_user_def py_int_def)
  then show "\<exists>s. run_state (dispatch_admits e token) w = (Inr (Some s), w) \<and> so_user s = u \<and> so_endpoint s = Dispatch_socket"
    by (simp add: dispatch_admits_def)
  from assms(5) obtain bk ride where "get_booking b (db w) = Some bk" "ride_of bk (db w) = Some ride"
    "u_id u \<in> {b_passenger_id bk, r_driver_id ride}"
    unfolding participant_def by blast
  with user show "\<exists>s. run_state (chat_admits e b token) w = (Inr (Some s), w) \<and> so_user s = u \<and> so_endpoint s = Chat_socket b"
    by (simp add: chat_admits_def)
  show "run_state (get_current_user e token) w = (Inl credentials_exception, w)"
    using assms(1,6) by (auto simp: get_current_user_def)
qed

text \<open>Pia's token is revoked.\<close>

definition pia_left :: world where
  "pia_left = deal_world\<lparr>tokens := revoke_token 0 ''3'' 1000 (tokens deal_world)\<rparr>"

lemma refused_token_opens_sockets_witness:
  "run_state (get_current_user demo_env ''3'') pia_left = (Inl credentials_exception, pia_left) \<and>
   (\<exists>s. run_state (chat_admits demo_env 2 ''3'') pia_left = (Inr (Some s), pia_left) \<and> so_user s = pia)"
proof -
  let ?cs = "[(''sub'', PyStr ''3''), (''type'', PyStr ''access''), (''jti'', PyStr ''3''), (''exp'', PyInt 1000)]"
  have "decode_token demo_env (clock pia_left) ''3'' = Some ?cs" by (simp add: decode_token_def demo_env_def)
  moreover have "get_user 3 (db pia_left) = Some pia" "participant (db pia_left) 2 pia"
    by (simp_all add: demo pia_left_def participant_def)
  moreover have "is_revoked (clock pia_left) (claim_jti ?cs) (tokens pia_left)"
    by (simp add: demo pia_left_def is_revoked_def prune_expired_def revoke_token_def claim_jti_def claim_str_def)
  ultimately show ?thesis
    using refused_token_opens_sockets [of demo_env pia_left "''3''" ?cs "''3''" 3 pia 2] parse_three by auto
qed

section \<open>How often a text is sent\<close>

text \<open>One event comes out of the subscription of each of the sockets.\<close>

definition poll_each :: "(int \<Rightarrow> socket_state) \<Rightarrow> string \<Rightarrow> int list \<Rightarrow> server \<Rightarrow> server" where
  "poll_each status text is sv =
     fold (\<lambda>i sv. case map_of (ws_sockets sv) i of None \<Rightarrow> sv | Some s \<Rightarrow> poll status i s (Some text) sv) is sv"

lemma count_relayed:
  "count_list (map (\<lambda>j. Relayed j c text) xs) (Relayed j c text) = count_list xs j"
  by (induction xs) auto

lemma count_once: "distinct xs \<Longrightarrow> x \<in> set xs \<Longrightarrow> count_list xs x = 1"
  by (induction xs) (auto simp: count_list_0_iff)

lemma poll_each_count:
  assumes "sockets_of n (ws_rooms sv) = xs" and "\<forall>j \<in> set xs. status j = Connected" and "text \<noteq> []"
    and "\<forall>i \<in> set is. \<exists>s. known sv i = Some s \<and> so_room s = n \<and> so_channel s = c"
  shows "count_list (ws_sent (poll_each status text is sv)) (Relayed j c text) =
    count_list (ws_sent sv) (Relayed j c text) + length is * count_list xs j"
  using assms
proof (induction "is" arbitrary: sv)
  case (Cons i rest)
  then obtain s where s: "map_of (ws_sockets sv) i = Some s" "so_room s = n" "so_channel s = c"
    by (auto simp: known_def)
  obtain reached rooms where b: "broadcast status n (ws_rooms sv) = (reached, rooms)" by fastforce
  with broadcast_rooms(3) [OF b] Cons.prems(1,2) have "reached = xs" "rooms = ws_rooms sv" by auto
  let ?sv = "poll status i s (Some text) sv"
  have sv: "ws_rooms ?sv = ws_rooms sv" "known ?sv = known sv"
      "ws_sent ?sv = ws_sent sv @ map (\<lambda>j. Relayed j c text) xs"
    using b \<open>reached = xs\<close> \<open>rooms = ws_rooms sv\<close> s Cons.prems(3) by (simp_all add: poll_def)
  have "count_list (ws_sent (poll_each status text rest ?sv)) (Relayed j c text) =
      count_list (ws_sent ?sv) (Relayed j c text) + length rest * count_list xs j"
    by (rule Cons.IH) (use Cons.prems sv in auto)
  with s sv show ?case by (simp add: poll_each_def count_relayed)
qed (simp add: poll_each_def)

text \<open>
  Every open socket of a room sends what it hears to the whole room: when one text is published on the
  channel that \<open>n\<close> connected sockets of a room listen to, and each of them takes it from its subscription, every
  one of their clients receives it \<open>n\<close> times.
\<close>

theorem room_hears_it_n_times:
  assumes "sockets_of n (ws_rooms sv) = xs" and "distinct xs" and "j \<in> set xs" and "text \<noteq> []"
    and "\<forall>i \<in> set xs. status i = Connected \<and>
      (\<exists>s. map_of (ws_sockets sv) i = Some s \<and> so_room s = n \<and> so_channel s = c)"
  shows "count_list (ws_sent (poll_each status text xs sv)) (Relayed j c text) =
    count_list (ws_sent sv) (Relayed j c text) + length xs"
proof -
  have "\<forall>i \<in> set xs. \<exists>s. known sv i = Some s \<and> so_room s = n \<and> so_channel s = c"
    using assms(5) known_Some by fastforce
  from poll_each_count [OF assms(1) _ assms(4) this] assms(2,3,5) show ?thesis
    by (simp add: count_once)
qed

text \<open>Pia and Dan in the chat of her booking: what either says, both see twice.\<close>

definition both_chat :: server where
  "both_chat = (fresh_server deal_world)\<lparr>ws_rooms := [(2, [1, 2])],
     ws_sockets := [(1, pia_chats), (2, pia_chats\<lparr>so_user := dan\<rparr>)], ws_next := 3\<rparr>"

lemma room_hears_it_n_times_witness:
  "count_list (ws_sent (poll_each (\<lambda>_. Connected) ''hi'' [1, 2] both_chat)) (Relayed 1 (chat_channel 2) ''hi'') = 2"
proof -
  have "sockets_of 2 (ws_rooms both_chat) = [1, 2]" "ws_sent both_chat = []"
    by (simp_all add: both_chat_def fresh_server_def sockets_of_def)
  with room_hears_it_n_times [of 2 both_chat "[1, 2]" 1 "''hi''" "\<lambda>_. Connected" "chat_channel 2"]
  show ?thesis by (simp add: both_chat_def pia_chats_def)
qed

end
