(* ===== verification/Queueing.thy ===== *)
theory Queueing
  imports Demo "HOL-Library.Sublist"
begin

text \<open>
  The worker's queue over the life of the application. \<open>queues m\<close> says that the action \<open>m\<close> only adds to the end
  of the queue; every operation of the services, every endpoint and every job does. So no job is lost or
  overtaken, and each one gets its turn.
\<close>

definition waiting :: "world \<Rightarrow> job list" where
  "waiting w = jq_jobs (jobs w)"

definition queues :: "'a act \<Rightarrow> bool" where
  "queues m \<longleftrightarrow> (\<forall>w. prefix (waiting w) (waiting (snd (run_state m w))))"

named_theorems queueing \<open>rules and facts for \<open>queues\<close>\<close>

lemma queuesD: "queues m \<Longrightarrow> run_state m w = (x, w') \<Longrightarrow> prefix (waiting w) (waiting w')"
  unfolding queues_def by (metis snd_conv)

lemma queues_keeps: "keeps jobs m \<Longrightarrow> queues m"
  by (simp add: queues_def keeps_def waiting_def)

lemma queues_basic [queueing]:
  "queues (State_Monad.return x)" "queues (gets f)" "queues (raise exn)" "queues (ok y)" "queues commit"
  "queues rollback" "queues (write_db g)"
  by (simp_all add: queues_def waiting_def)

lemma queues_modify [queueing]: "(\<And>w. jobs (g w) = jobs w) \<Longrightarrow> queues (modify g)"
  by (simp add: queues_def waiting_def)

lemma queues_bind [queueing]: "queues m \<Longrightarrow> (\<And>x. queues (k x)) \<Longrightarrow> queues (State_Monad.bind m k)"
  unfolding queues_def by (auto simp: split_beta intro: prefix_order.trans)

lemma queues_cases [queueing]:
  "(\<And>x. r = Inr x \<Longrightarrow> queues (k x)) \<Longrightarrow> queues (on_ok r k)"
  "(b \<Longrightarrow> queues m) \<Longrightarrow> (\<not> b \<Longrightarrow> queues n) \<Longrightarrow> queues (if b then m else n)"
  "(\<And>x. x = t \<Longrightarrow> queues (l x)) \<Longrightarrow> queues (Let t l)"
  "(oo = None \<Longrightarrow> queues m1) \<Longrightarrow> (\<And>x. oo = Some x \<Longrightarrow> queues (n1 x)) \<Longrightarrow>
     queues (case oo of None \<Rightarrow> m1 | Some x \<Rightarrow> n1 x)"
  "(\<And>x. queues (m2 x)) \<Longrightarrow> (\<And>x. queues (n2 x)) \<Longrightarrow> queues (case s of Inl x \<Rightarrow> m2 x | Inr x \<Rightarrow> n2 x)"
  "(\<And>x y. queues (m3 x y)) \<Longrightarrow> queues (case p of (x, y) \<Rightarrow> m3 x y)"
  "(\<And>x. oo = Some x \<Longrightarrow> queues (k1 x)) \<Longrightarrow> queues (deref oo k1)"
  "queues m4 \<Longrightarrow> queues (flush tn c m4)"
  by (cases r; cases oo; cases s; cases p; simp add: flush_def queues_basic)+

lemma queues_handle [queueing]: "queues m \<Longrightarrow> (\<And>x. queues (h x)) \<Longrightarrow> queues (handle m h)"
  unfolding handle_def by (intro queueing)

lemma queues_or_rollback [queueing]:
  assumes "queues m"
  shows "queues (or_rollback m)"
  unfolding queues_def
proof
  fix w
  obtain r v where m: "run_state m w = (r, v)" by fastforce
  with queuesD [OF assms] show "prefix (waiting w) (waiting (snd (run_state (or_rollback m) w)))"
    by (cases r) (auto simp: run_or_rollback waiting_def)
qed

lemma queues_for_each [queueing]:
  "(\<And>x. queues (f x)) \<Longrightarrow> queues (for_each f xs)"
  "(\<And>x. queues (g x)) \<Longrightarrow> queues (for_each_ok g xs)"
  by (induction xs) (auto intro!: queueing)

lemma queues_in_session [queueing]: "queues m \<Longrightarrow> queues (in_session m)"
  unfolding in_session_def by (auto intro!: queueing)

section \<open>The queue, the counters and the wire\<close>

lemma queues_new_job [queueing]: "queues (new_job name h n)" "queues (record_event j st err)" "queues (put_job j)"
  by (simp_all add: queues_def waiting_def job_defs)

lemma queues_job_records [queueing]:
  "queues (record_success j)" "queues (record_retry j)" "queues (record_failure j)" "queues (enqueue j)"
  by (simp_all add: queues_def waiting_def job_defs Let_def)

lemma queues_counters [queueing]:
  "queues (record_job_metric a b)" "queues (record_exception a)" "queues (record_dispatch a b n)"
  "queues (record_auth a b)" "queues (record_payment a b)"
  unfolding counter_defs by (auto intro!: queueing)

lemma queues_wire [queueing]:
  "queues (http_request e s t js)" "queues (gw_create_payment e g t1 t2 am cu re)"
  "queues (gw_reconcile_payment e g i)" "queues (gw_confirm_payment e g i)"
  "queues (gw_capture_payment e g i am cu)" "queues (gw_refund_payment e g i am)"
  by (rule queues_keeps, rule frame, simp)+

lemma queues_on_tokens [queueing]: "queues (on_tokens f)"
  unfolding on_tokens_def by (auto intro!: queueing)

lemma queues_higher_order [queueing]:
  "(\<And>i. queues (f i)) \<Longrightarrow> queues (attempt pid f)"
  "queues m \<Longrightarrow> queues (or_gateway_error t m)"
  "(\<And>gw. queues (l gw)) \<Longrightarrow> queues (payment_service e l)"
  unfolding attempt_def or_gateway_error_def payment_service_def
  by (auto intro!: queueing split: exc.split)

lemma queues_case_py [queueing]:
  assumes "queues a" "\<And>x. queues (b x)" "\<And>x. queues (c x)" "\<And>x. queues (d x)" "\<And>x. queues (f x)"
    "\<And>x. queues (g x)" "\<And>x. queues (h x)" "\<And>x. queues (i x)" "\<And>x. queues (j x)"
  shows "queues (case v of PyNone \<Rightarrow> a | PyBool x \<Rightarrow> b x | PyInt x \<Rightarrow> c x | PyStr x \<Rightarrow> d x
    | PyDecimal x \<Rightarrow> f x | PyFloat x \<Rightarrow> g x | PyDatetime x \<Rightarrow> h x | PyList x \<Rightarrow> i x | PyDict x \<Rightarrow> j x)"
  using assms by (cases v) auto

section \<open>The operations of the services\<close>

lemma queues_user_create [queueing]:
  "queues (user_create pa)" "queues (user_save qa)" "queues (delete_locations_older_than ra)"
  "queues (ride_create sa)" "queues (ride_save ta)" "queues (location_create ua)"
  unfolding user_create_def user_save_def delete_locations_older_than_def ride_create_def ride_save_def
    location_create_def
  by (auto intro!: queueing split: exc.split redis_reply.split)

lemma queues_booking_create [queueing]:
  "queues (booking_create pa)" "queues (booking_save qa)" "queues (payment_create ra)"
  "queues (payment_save sa)" "queues (event_create ta)" "queues (upsert_driver_availability ua)"
  unfolding booking_create_def booking_save_def payment_create_def payment_save_def event_create_def
    upsert_driver_availability_def
  by (auto intro!: queueing split: exc.split redis_reply.split)

lemma queues_touch_driver_availability [queueing]:
  "queues (touch_driver_availability pa)" "queues (request_create qa)" "queues (request_save ra)"
  "queues (dismissal_create sa)" "queues (delete_dismissals_older_than ta)"
  "queues (delete_availability_older_than ua)"
  unfolding touch_driver_availability_def request_create_def request_save_def dismissal_create_def
    delete_dismissals_older_than_def delete_availability_older_than_def
  by (auto intro!: queueing split: exc.split redis_reply.split)

lemma queues_notification_create [queueing]:
  "queues (notification_create pa)" "queues (mark_all_read qa qb)" "queues (message_create ra)"
  "queues (mark_seen sa sb)" "queues (review_create ta)" "queues (incident_create ua)"
  unfolding notification_create_def mark_all_read_def message_create_def mark_seen_def review_create_def
    incident_create_def
  by (auto intro!: queueing split: exc.split redis_reply.split)

lemma queues_incident_save [queueing]:
  "queues (incident_save pa)" "queues (audit_create qa)" "queues (delete_audit_where ra)"
  "queues (delete_audit_older_than sa)"
  unfolding incident_save_def audit_create_def delete_audit_where_def delete_audit_older_than_def
  by (auto intro!: queueing split: exc.split redis_reply.split)

lemma queues_create_notification [queueing]:
  "queues (create_notification pa pb pc pd)" "queues (list_notifications qa qb qc qd qe)"
  "queues (mark_as_read ra rb)" "queues (mark_all_as_read sa)" "queues (enqueue_notification ta tb tc td te)"
  "queues (enqueue_dispatch_notification ua ub uc ud ue)"
  unfolding create_notification_def list_notifications_def mark_as_read_def mark_all_as_read_def
    enqueue_notification_def enqueue_dispatch_notification_def
  by (auto intro!: queueing split: exc.split redis_reply.split)

lemma queues_run_create_notification [queueing]:
  "queues (run_create_notification pa pb pc pd)" "queues (audit_request qa qb qc qd qe qf qg qh)"
  "queues (list_user_audit_logs ra rb rc rd)" "queues (purge_older_than sa)"
  "queues (cleanup_my_audit_logs ta tb)"
  unfolding run_create_notification_def audit_request_def list_user_audit_logs_def purge_older_than_def
    cleanup_my_audit_logs_def
  by (auto intro!: queueing split: exc.split redis_reply.split)

lemma queues_decorate_payment [queueing]:
  "queues (decorate_payment pa pb)" "queues (enqueue_payment_capture_retry qa qb)"
  "queues (enqueue_payment_refund_retry ra rb)" "queues (enqueue_payment_reconciliation sa sb)"
  "queues (create_payment ta tb tc td te tf)" "queues (reconcile_provider_reference ua ub)"
  unfolding decorate_payment_def enqueue_payment_capture_retry_def enqueue_payment_refund_retry_def
    enqueue_payment_reconciliation_def create_payment_def reconcile_provider_reference_def
  by (auto intro!: queueing split: exc.split redis_reply.split)

lemma queues_try_capture [queueing]:
  "queues (try_capture pa pb pc)" "queues (try_refund qa qb qc)" "queues (commit_if ra)"
  "queues (capture_payment_for_booking sa sb sc)" "queues (refund_payment_for_booking ta tb tc)"
  "queues (ensure_payment_access ua ub)"
  unfolding try_capture_def try_refund_def commit_if_def capture_payment_for_booking_def
    refund_payment_for_booking_def ensure_payment_access_def
  by (auto intro!: queueing split: exc.split redis_reply.split)

lemma queues_get_accessible_payment [queueing]:
  "queues (get_accessible_payment pa pb)" "queues (capture_if_accepted qa qb)"
  "queues (confirm_payment ra rb rc)" "queues (retry_capture_payment sa sb)"
  "queues (retry_refund_payment ta tb)" "queues (reconcile_payment ua ub)"
  unfolding get_accessible_payment_def capture_if_accepted_def confirm_payment_def retry_capture_payment_def
    retry_refund_payment_def reconcile_payment_def
  by (auto intro!: queueing split: exc.split redis_reply.split)

lemma queues_decorate_payments [queueing]: "queues (decorate_payments e ps)"
  by (induction ps) (auto intro!: queueing simp: decorate_payment_def)

lemma queues_reconcile_accessible_payment [queueing]:
  "queues (reconcile_accessible_payment pa pb pc)" "queues (get_payment_for_user qa qb qc)"
  "queues (get_booking_payment ra rb rc)" "queues (list_my_payments sa sb sc sd)"
  "queues (process_webhook_event ta tb)" "queues (mock_payment_webhook ua ub)"
  unfolding reconcile_accessible_payment_def get_payment_for_user_def get_booking_payment_def
    list_my_payments_def process_webhook_event_def mock_payment_webhook_def
  by (auto intro!: queueing split: exc.split redis_reply.split)

lemma queues_razorpay_payment_webhook [queueing]:
  "queues (razorpay_payment_webhook pa pb pc pd)" "queues (run_retry_capture qa qb)"
  "queues (run_retry_refund ra rb)" "queues (run_reconcile sa sb)"
  unfolding razorpay_payment_webhook_def run_retry_capture_def run_retry_refund_def run_reconcile_def
  by (auto intro!: queueing split: exc.split redis_reply.split)

lemma queues_send_email [queueing]:
  "queues (send_email pa pb pc pd)" "queues (enqueue_trip_reminder_email qa qb)"
  "queues (run_send_reminder ra rb rc)" "queues (create_booking sa sb sc)"
  "queues (apply_driver_transition ta tb tc td)" "queues (apply_passenger_transition ua ub uc ud)"
  unfolding send_email_def enqueue_trip_reminder_email_def run_send_reminder_def create_booking_def
    apply_driver_transition_def apply_passenger_transition_def
  by (auto intro!: queueing split: exc.split redis_reply.split)

lemma queues_update_status [queueing]:
  "queues (update_status pa pb pc pd)" "queues (issue_boarding_otp qa qb qc qd)"
  "queues (verify_boarding_otp ra rb rc rd)" "queues (create_share_token sa sb sc sd)"
  "queues (revoke_share_token ta tb)" "queues (get_public_trip_status ua ub)"
  unfolding update_status_def issue_boarding_otp_def verify_boarding_otp_def create_share_token_def
    revoke_share_token_def get_public_trip_status_def
  by (auto intro!: queueing split: exc.split redis_reply.split)

lemma queues_list_passenger_bookings [queueing]:
  "queues (list_passenger_bookings pa pb pc pd)" "queues (list_driver_bookings qa qb qc qd)"
  "queues (get_booking_detail ra rb)"
  unfolding list_passenger_bookings_def list_driver_bookings_def get_booking_detail_def
  by (auto intro!: queueing split: exc.split redis_reply.split)

lemma queues_ensure_verified_for_rides [queueing]:
  "queues (ensure_verified_for_rides pa)" "queues (create_ride qa qb)" "queues (get_ride_detail ra rb)"
  "queues (update_ride sa sb sc)" "queues (cancel_ride_booking ta tb tc)" "queues (cancel_ride ua ub uc)"
  unfolding ensure_verified_for_rides_def create_ride_def get_ride_detail_def update_ride_def
    cancel_ride_booking_def cancel_ride_def
  by (auto intro!: queueing split: exc.split redis_reply.split)

lemma queues_complete_ride_booking [queueing]:
  "queues (complete_ride_booking pa pb pc)" "queues (complete_ride qa qb qc)"
  "queues (list_driver_rides ra rb rc rd)" "queues (validate_location_near_route sa sb sc)"
  "queues (update_location ta tb tc td)" "queues (ensure_location_access ua ub uc)"
  unfolding complete_ride_booking_def complete_ride_def list_driver_rides_def validate_location_near_route_def
    update_location_def ensure_location_access_def
  by (auto intro!: queueing split: exc.split redis_reply.split)

lemma queues_latest_location_for [queueing]:
  "queues (latest_location_for pa pb pc)" "queues (list_location_history qa qb qc qd)"
  "queues (get_location_access ra rb rc)" "queues (cleanup_old_locations sa sb)"
  "queues (enqueue_location_cleanup ta tb)" "queues (run_cleanup_locations ua ub)"
  unfolding latest_location_for_def list_location_history_def get_location_access_def cleanup_old_locations_def
    enqueue_location_cleanup_def run_cleanup_locations_def
  by (auto intro!: queueing split: exc.split redis_reply.split)

lemma queues_redis_publish [queueing]:
  "queues (redis_publish pa pb pc)" "queues (publish qa qb qc)" "queues (publish_driver_event ra rb rc)"
  "queues (publish_passenger_event sa sb sc)" "queues (publish_nearby_request_created ta tb)"
  "queues (publish_nearby_request_removed ua ub uc)"
  unfolding redis_publish_def publish_def publish_driver_event_def publish_passenger_event_def
    publish_nearby_request_created_def publish_nearby_request_removed_def
  by (auto intro!: queueing split: exc.split redis_reply.split)

lemma queues_record_dispatch_event [queueing]:
  "queues (record_dispatch_event pa pb)" "queues (ensure_verified_for_dispatch qa)"
  "queues (upsert_driver_presence ra rb)" "queues (get_driver_presence sa sb)"
  "queues (touch_driver_presence ta)" "queues (get_fresh_driver_availability ua ub)"
  unfolding record_dispatch_event_def ensure_verified_for_dispatch_def upsert_driver_presence_def
    get_driver_presence_def touch_driver_presence_def get_fresh_driver_availability_def
  by (auto intro!: queueing split: exc.split redis_reply.split)

lemma queues_expire_request [queueing]:
  "queues (expire_request pa pb)" "queues (expire_stale_open_requests qa qb)"
  "queues (create_request ra rb rc)" "queues (list_my_requests sa sb)" "queues (list_nearby_requests ta tb tc)"
  "queues (decline_request ua ub uc)"
  unfolding expire_request_def expire_stale_open_requests_def create_request_def list_my_requests_def
    list_nearby_requests_def decline_request_def
  by (auto intro!: queueing split: exc.split redis_reply.split)

lemma queues_cancel_request [queueing]:
  "queues (cancel_request pa pb pc)" "queues (announce_match qa qb qc qd qe qf)"
  "queues (accept_request ra rb rc)" "queues (cleanup_driver_request_dismissals sa)"
  "queues (cleanup_stale_driver_availability ta)" "queues (enqueue_dispatch_request_expiry ua ub)"
  unfolding cancel_request_def announce_match_def accept_request_def cleanup_driver_request_dismissals_def
    cleanup_stale_driver_availability_def enqueue_dispatch_request_expiry_def
  by (auto intro!: queueing split: exc.split redis_reply.split)

lemma queues_enqueue_dispatch_dismissal_cleanup [queueing]:
  "queues (enqueue_dispatch_dismissal_cleanup pa pb)" "queues (enqueue_dispatch_presence_cleanup qa qb)"
  "queues (run_expire_requests ra rb)" "queues (run_cleanup_dismissals sa)" "queues (run_cleanup_presence ta)"
  unfolding enqueue_dispatch_dismissal_cleanup_def enqueue_dispatch_presence_cleanup_def
    run_expire_requests_def run_cleanup_dismissals_def run_cleanup_presence_def
  by (auto intro!: queueing split: exc.split redis_reply.split)

lemma queues_revoke_token_from_payload [queueing]:
  "queues (revoke_token_from_payload pa)" "queues (get_current_user qa qb)"
  "queues (decode_expected_token ra rb rc)" "queues (issue_token_pair sa sb sc sd se sf)"
  "queues (queue_verification_email ta tb tc)" "queues (run_send_verification ua ub uc ud)"
  unfolding revoke_token_from_payload_def get_current_user_def decode_expected_token_def issue_token_pair_def
    queue_verification_email_def run_send_verification_def
  by (auto intro!: queueing split: exc.split redis_reply.split)

lemma queues_register [queueing]:
  "queues (register pa pb pc pd)" "queues (resend_verification qa qb qc)" "queues (verify_email ra rb)"
  "queues (ensure_login_not_locked sa)" "queues (record_failed_login ta tb)" "queues (clear_failed_logins ua)"
  unfolding register_def resend_verification_def verify_email_def ensure_login_not_locked_def
    record_failed_login_def clear_failed_logins_def
  by (auto intro!: queueing split: exc.split redis_reply.split)

lemma queues_login [queueing]:
  "queues (login pa pb pc pd pe pf)" "queues (refresh qa qb qc qd qe)" "queues (logout ra rb rc)"
  "queues (forgot_password sa sb sc)" "queues (reset_password ta tb tc td)"
  "queues (enqueue_session_cleanup ua ub)"
  unfolding login_def refresh_def logout_def forgot_password_def reset_password_def enqueue_session_cleanup_def
  by (auto intro!: queueing split: exc.split redis_reply.split)

lemma queues_enqueue_audit_log_retention [queueing]:
  "queues (enqueue_audit_log_retention pa pb)" "queues (change_password qa qb qc qd qe qf)"
  "queues (list_account_sessions ra rb)" "queues (revoke_session sa sb)" "queues (revoke_other_sessions ta tb)"
  unfolding enqueue_audit_log_retention_def change_password_def list_account_sessions_def revoke_session_def
    revoke_other_sessions_def
  by (auto intro!: queueing split: exc.split redis_reply.split)

lemma queues_chat_publish [queueing]:
  "queues (chat_publish pa pb pc)" "queues (ensure_booking_access qa qb)" "queues (save_message ra rb rc rd)"
  "queues (list_messages sa sb)" "queues (mark_messages_seen ta tb tc)" "queues (publish_typing ua ub uc ud)"
  unfolding chat_publish_def ensure_booking_access_def save_message_def list_messages_def
    mark_messages_seen_def publish_typing_def
  by (auto intro!: queueing split: exc.split redis_reply.split)

lemma queues_create_review [queueing]:
  "queues (create_review pa pb)" "queues (update_user qa qb)" "queues (ensure_driver ra)"
  "queues (get_driver_verification_profile sa)" "queues (update_driver_verification_profile ta tb)"
  unfolding create_review_def update_user_def ensure_driver_def get_driver_verification_profile_def
    update_driver_verification_profile_def
  by (auto intro!: queueing split: exc.split redis_reply.split)

lemma queues_require_support_auth [queueing]:
  "queues (require_support_auth pa pb)" "queues (support_get_user qa qb qc)"
  "queues (support_search_users ra rb rc)" "queues (support_pending_driver_verifications sa sb sc sd)"
  "queues (support_driver_verifications ta tb tc td te tf tg)"
  "queues (enqueue_driver_verification_notification ua ub)"
  unfolding require_support_auth_def support_get_user_def support_search_users_def
    support_pending_driver_verifications_def support_driver_verifications_def
    enqueue_driver_verification_notification_def
  by (auto intro!: queueing split: exc.split redis_reply.split)

lemma queues_publish_driver_verification_event [queueing]:
  "queues (publish_driver_verification_event pa pb)" "queues (review_driver_verification qa qb qc qd qe)"
  "queues (support_list_payments ra rb rc rd re rf rg rh)" "queues (support_reconcile_payment sa sb sc)"
  "queues (support_list_bookings ta tb tc td te tf tg th ti)" "queues (ensure_context_access ua ub)"
  unfolding publish_driver_verification_event_def review_driver_verification_def support_list_payments_def
    support_reconcile_payment_def support_list_bookings_def ensure_context_access_def
  by (auto intro!: queueing split: exc.split redis_reply.split)

lemma queues_create_incident [queueing]:
  "queues (create_incident pa pb)" "queues (get_my_incident qa qb)"
  "queues (list_incidents_for_support ra rb rc rd re rf rg rh)" "queues (update_support_status sa sb sc sd se)"
  unfolding create_incident_def get_my_incident_def list_incidents_for_support_def update_support_status_def
  by (auto intro!: queueing split: exc.split redis_reply.split)

lemma queues_enqueue_job_housekeeping [queueing]:
  "queues (enqueue_job_housekeeping pa pb pc)" "queues (enqueue_due_trip_reminders qa qb qc)"
  "queues (run_cleanup_audit_logs ra)" "queues (run_cleanup_sessions sa)" "queues (run_database_heartbeat)"
  unfolding enqueue_job_housekeeping_def enqueue_due_trip_reminders_def run_cleanup_audit_logs_def
    run_cleanup_sessions_def run_database_heartbeat_def
  by (auto intro!: queueing split: exc.split redis_reply.split)

section \<open>The endpoints\<close>

lemma queues_guards [queueing]:
  "queues m \<Longrightarrow> queues (void m)" "queues n \<Longrightarrow> queues (void_act n)"
  "(b \<Longrightarrow> queues m1) \<Longrightarrow> queues (validated b m1)"
  "queues m2 \<Longrightarrow> queues (rate_limit_dependency scope limit window i m2)"
  "queues m3 \<Longrightarrow> queues (idempotent_execute e h actor m3 f code)"
  unfolding void_def void_act_def validated_def rate_limit_dependency_def idempotent_execute_def
  by (auto intro!: queueing split: prod.split)

lemma queues_limited [queueing]:
  "queues m \<Longrightarrow> queues (ride_write e h m)" "queues n \<Longrightarrow> queues (booking_write e h scope n)"
  "queues l \<Longrightarrow> queues (ai_limited e h l)"
  unfolding ride_write_def booking_write_def ai_limited_def by (auto intro!: queueing)

lemma queues_assistant [queueing]:
  "queues (create_ride_draft e q)" "queues (create_ride_search_filters e q)" "queues (suggest_chat_reply e cq u)"
  by (rule queues_keeps, rule frame, simp)+

lemma queues_serve_rides: "queues (serve_rides e h u rc)"
  and queues_serve_bookings: "queues (serve_bookings e h u bc)"
  and queues_serve_payments: "queues (serve_payments e u pc)"
  and queues_serve_dispatch: "queues (serve_dispatch e u dc)"
  and queues_serve_chat: "queues (serve_chat e h u cc)"
  and queues_serve_review: "queues (serve_review e h u rq)"
  and queues_serve_users: "queues (serve_users u uc)"
  and queues_serve_notifications: "queues (serve_notifications u nc)"
  and queues_serve_incidents: "queues (serve_incidents u ic)"
  and queues_serve_audit: "queues (serve_audit u ac)"
  and queues_serve_sessions: "queues (serve_sessions e token u sc)"
  and queues_serve_auth: "queues (serve_auth e h ec)"
  and queues_serve_support: "queues (serve_support e sq tc)"
  and queues_serve_assistant: "queues (serve_assistant e h u vc)"
  by (cases rc, auto intro!: queueing) (cases bc, auto intro!: queueing, cases pc, auto intro!: queueing,
    cases dc, auto intro!: queueing, cases cc, auto intro!: queueing, auto simp: serve_review_def intro!: queueing,
    cases uc, auto intro!: queueing, cases nc, auto intro!: queueing, cases ic, auto intro!: queueing,
    cases ac, auto intro!: queueing, cases sc, auto intro!: queueing, cases ec, auto intro!: queueing,
    cases tc, auto intro!: queueing, cases vc, auto intro!: queueing)

lemma queues_serve: "queues (serve e h q)"
proof -
  have "queues (serve_call e h token u c)" for token u c
    by (cases c) (simp_all add: queues_serve_rides queues_serve_bookings queues_serve_payments queues_serve_dispatch
        queues_serve_chat queues_serve_review queues_serve_users queues_serve_notifications queues_serve_incidents
        queues_serve_audit queues_serve_sessions queues_serve_assistant)
  then show ?thesis by (cases q) (auto intro!: queueing queues_serve_auth queues_serve_support)
qed

lemma queues_handle_request: "queues (handle_request e h q)"
  unfolding handle_request_def by (intro queueing queues_serve)

section \<open>The worker\<close>

lemma queues_run_job: "queues (run_job e h)"
  by (cases h) (auto intro!: queueing)

lemma queues_execute:
  assumes "\<And>h. queues (run h)"
  shows "queues (enqueue_with s run j)" "queues (execute_with s run j)"
proof -
  have "(\<forall>h. queues (run h)) \<longrightarrow> queues (enqueue_with s run j)"
    and "(\<forall>h. queues (run h)) \<longrightarrow> queues (execute_with s run j)"
    by (induction s run j and s run j rule: enqueue_with_execute_with.induct)
      (subst enqueue_with.simps execute_with.simps, auto intro!: queueing)+
  with assms show "queues (enqueue_with s run j)" "queues (execute_with s run j)" by auto
qed

text \<open>The world in which the worker has taken the first job.\<close>

definition taken :: "world \<Rightarrow> world" where
  "taken w = w\<lparr>jobs := (jobs w)\<lparr>jq_jobs := tl (waiting w)\<rparr>\<rparr>"

lemma run_worker:
  "waiting w = j # js \<Longrightarrow> run_state (job_worker e) w = run_state (execute_with (feat e) (run_job e) j) (taken w)"
  by (simp add: job_worker_def worker_turn_def waiting_def taken_def set_jobs_def)

lemma worker_takes_first:
  assumes "waiting w = j # js" and "run_state (job_worker e) w = (r, w')"
  shows "prefix js (waiting w')"
proof -
  have "queues (execute_with (feat e) (run_job e) j)" by (rule queues_execute [OF queues_run_job])
  from queuesD [OF this assms(2) [unfolded run_worker [OF assms(1)]]] assms(1) show ?thesis
    by (simp add: taken_def waiting_def)
qed

section \<open>Histories\<close>

text \<open>\<open>history e n w w'\<close>: the application goes from \<open>w\<close> to \<open>w'\<close> while the worker takes \<open>n\<close> turns.\<close>

inductive history :: "env \<Rightarrow> nat \<Rightarrow> world \<Rightarrow> world \<Rightarrow> bool" for e where
  start: "history e 0 w w"
| served: "history e n w u \<Longrightarrow> run_state (handle_request e h q) u = (r, v) \<Longrightarrow> history e n w v"
| passed: "history e n w u \<Longrightarrow> 0 \<le> t \<Longrightarrow> history e n w (u\<lparr>clock := clock u + t\<rparr>)"
| worked: "history e n w u \<Longrightarrow> run_state (job_worker e) u = (r, v) \<Longrightarrow> history e (Suc n) w v"

lemma history_reaches: "history e n w w' \<Longrightarrow> reaches e w w'"
  unfolding reaches_def by (induction rule: history.induct) (auto intro: step.intros rtranclp.rtrancl_into_rtrancl)

lemma reaches_history: "reaches e w w' \<Longrightarrow> \<exists>n. history e n w w'"
  unfolding reaches_def
  by (induction rule: rtranclp_induct) (auto elim!: step.cases intro: history.intros)

lemma history_queue:
  "history e n w w' \<Longrightarrow> n \<le> length (waiting w) \<Longrightarrow> prefix (drop n (waiting w)) (waiting w')"
proof (induction rule: history.induct)
  case (served n w u h q r v)
  with queuesD [OF queues_handle_request] show ?case by (blast intro: prefix_order.trans)
next
  case (worked n w u r v)
  then have drop: "drop n (waiting w) = waiting w ! n # drop (Suc n) (waiting w)" by (simp add: Cons_nth_drop_Suc)
  from worked.IH worked.prems drop obtain zs where "waiting u = waiting w ! n # drop (Suc n) (waiting w) @ zs"
    by (auto simp: prefix_def)
  from worker_takes_first [OF this worked.hyps(2)] show ?case by (auto simp: prefix_def)
qed (auto simp: waiting_def)

lemma history_turn:
  "history e n w w' \<Longrightarrow> n = Suc k \<Longrightarrow>
     \<exists>u v. history e k w u \<and> run_state (job_worker e) u = ((), v) \<and> history e 0 v w'"
proof (induction arbitrary: k rule: history.induct)
  case (served n w u h q r v)
  then obtain a b where "history e k w a" "run_state (job_worker e) a = ((), b)" "history e 0 b u" by blast
  with history.served [OF _ served.hyps(2)] show ?case by blast
next
  case (passed n w u t)
  then obtain a b where "history e k w a" "run_state (job_worker e) a = ((), b)" "history e 0 b u" by blast
  with history.passed [OF _ passed.hyps(2)] show ?case by blast
next
  case (worked n w u r v)
  then show ?case using history.start by (metis Suc_inject old.unit.exhaust)
qed simp

text \<open>
  C33. No job is lost or overtaken: over any history of requests, time and turns of the worker, a queued job
  keeps its place behind the jobs that were queued before it, whatever is queued later, and the turn that
  comes after theirs takes it and runs its handler.
\<close>

theorem every_job_gets_its_turn:
  assumes "jq_jobs (jobs w) = xs @ j # ys" and "history e (Suc (length xs)) w w'"
  shows "\<exists>u v. history e (length xs) w u \<and> (\<exists>zs. jq_jobs (jobs u) = j # ys @ zs) \<and>
    run_state (job_worker e) u = ((), v) \<and>
    run_state (execute_with (feat e) (run_job e) j) (taken u) = ((), v) \<and> history e 0 v w'"
proof -
  from history_turn [OF assms(2) refl] obtain u v where
    turn: "history e (length xs) w u" "run_state (job_worker e) u = ((), v)" "history e 0 v w'" by blast
  from history_queue [OF turn(1)] assms(1) have "prefix (j # ys) (waiting u)" by (simp add: waiting_def)
  then obtain zs where u: "waiting u = j # ys @ zs" by (auto simp: prefix_def)
  with turn run_worker [OF u] show ?thesis by (auto simp: waiting_def)
qed

text \<open>Two jobs in the queue, a minute passes, and the worker takes two turns.\<close>

definition two_jobs :: world where
  "two_jobs = (initial_world 0)\<lparr>jobs := empty_queue\<lparr>jq_jobs :=
     [\<lparr>j_name = ''housekeeping:heartbeat'', j_handler = Database_heartbeat, j_job_id = 1, j_attempts = 0, j_max_retries = 0\<rparr>,
      \<lparr>j_name = ''session-cleanup:7'', j_handler = Cleanup_sessions 7, j_job_id = 2, j_attempts = 0, j_max_retries = 2\<rparr>]\<rparr>\<rparr>"

lemma every_job_gets_its_turn_witness:
  "\<exists>u v zs. history demo_env 1 two_jobs u \<and> jq_jobs (jobs u) = jq_jobs (jobs two_jobs) ! 1 # zs \<and>
     run_state (job_worker demo_env) u = ((), v)"
proof -
  obtain u where u: "run_state (job_worker demo_env) two_jobs = ((), u)" by (metis old.unit.exhaust surj_pair)
  obtain v where v: "run_state (job_worker demo_env) (u\<lparr>clock := clock u + minutes 1\<rparr>) = ((), v)"
    by (metis old.unit.exhaust surj_pair)
  have "history demo_env (Suc 1) two_jobs v"
    using history.worked [OF history.passed [OF history.worked [OF history.start u]] v]
    by (simp add: minutes_def seconds_def)
  then have run: "history demo_env (Suc (length [hd (jq_jobs (jobs two_jobs))])) two_jobs v" by simp
  have "jq_jobs (jobs two_jobs) = [hd (jq_jobs (jobs two_jobs))] @ (jq_jobs (jobs two_jobs) ! 1) # []"
    by (simp add: two_jobs_def)
  from every_job_gets_its_turn [OF this run] obtain a b zs where "history demo_env 1 two_jobs a"
    "jq_jobs (jobs a) = jq_jobs (jobs two_jobs) ! 1 # zs" "run_state (job_worker demo_env) a = ((), b)" by auto
  then show ?thesis by blast
qed

end
