(* ===== verification/WorkerThreads.thy ===== *)
theory WorkerThreads
  imports Queueing
begin

text \<open>
  The threads of src/app/services/job_queue.py: \<open>start\<close> and \<open>stop\<close>, called by the lifespan of src/app/main.py,
  and the loop \<open>_run\<close>, step by step, so that what other threads put into the queue, or the caller of
  \<open>stop\<close> does, may come between any two of them. A thread tests the stop event, waits in \<open>get\<close>, executes a
  job, and has ended. The job named \<open>__stop__\<close> is \<open>Stop_entry\<close>. \<open>System\<close> has one worker that never stops;
  \<open>application_runs_on_threads\<close> relates the two.
\<close>

section \<open>The threads\<close>

datatype queue_entry = Entry job | Stop_entry

datatype worker_phase = At_test | At_get | Executing job | Ended

text \<open>
  \<open>wp_worker\<close> is the attribute \<open>_worker\<close>, an index into the threads there have been; \<open>wp_stopping\<close> holds
  while a call of \<open>stop\<close> waits in \<open>join\<close>. \<open>wp_begun\<close> is the history of the executions.
\<close>

record worker_pool =
  wp_entries :: "queue_entry list"
  wp_stop_event :: bool
  wp_worker :: "nat option"
  wp_threads :: "worker_phase list"
  wp_stopping :: bool
  wp_begun :: "job list"

definition empty_pool :: worker_pool where
  "empty_pool = \<lparr>wp_entries = [], wp_stop_event = False, wp_worker = None, wp_threads = [], wp_stopping = False,
     wp_begun = []\<rparr>"

definition thread_alive :: "nat \<Rightarrow> worker_pool \<Rightarrow> bool" where
  "thread_alive i p \<longleftrightarrow> i < length (wp_threads p) \<and> wp_threads p ! i \<noteq> Ended"

definition worker_alive :: "worker_pool \<Rightarrow> bool" where
  "worker_alive p = (case wp_worker p of None \<Rightarrow> False | Some i \<Rightarrow> thread_alive i p)"

definition set_thread :: "nat \<Rightarrow> worker_phase \<Rightarrow> worker_pool \<Rightarrow> worker_pool" where
  "set_thread i ph p = p\<lparr>wp_threads := (wp_threads p)[i := ph]\<rparr>"

definition start_worker :: "feature_settings \<Rightarrow> worker_pool \<Rightarrow> worker_pool" where
  "start_worker s p =
     (if runs_inline s then p
      else if worker_alive p then p
      else p\<lparr>wp_stop_event := False, wp_threads := wp_threads p @ [At_test], wp_worker := Some (length (wp_threads p))\<rparr>)"

text \<open>\<open>stop\<close> up to \<open>join(timeout=5)\<close>, and after it, when the thread has ended or the time is up.\<close>

definition begin_stop :: "worker_pool \<Rightarrow> worker_pool" where
  "begin_stop p =
     (if wp_worker p = None then p
      else p\<lparr>wp_stop_event := True, wp_entries := wp_entries p @ [Stop_entry], wp_stopping := True\<rparr>)"

definition end_stop :: "worker_pool \<Rightarrow> worker_pool" where
  "end_stop p = p\<lparr>wp_worker := None, wp_stopping := False\<rparr>"

text \<open>The loop of a thread.\<close>

definition test_stop :: "nat \<Rightarrow> worker_pool \<Rightarrow> worker_pool" where
  "test_stop i p = set_thread i (if wp_stop_event p then Ended else At_get) p"

definition take_entry :: "nat \<Rightarrow> worker_pool \<Rightarrow> worker_pool" where
  "take_entry i p =
     (case wp_entries p of
        [] \<Rightarrow> p
      | Stop_entry # xs \<Rightarrow> set_thread i Ended (p\<lparr>wp_entries := xs\<rparr>)
      | Entry j # xs \<Rightarrow> set_thread i (Executing j) (p\<lparr>wp_entries := xs, wp_begun := wp_begun p @ [j]\<rparr>))"

definition put_entries :: "job list \<Rightarrow> worker_pool \<Rightarrow> worker_pool" where
  "put_entries js p = p\<lparr>wp_entries := wp_entries p @ map Entry js\<rparr>"

text \<open>
  One step of anybody. \<open>puts\<close> is \<open>enqueue\<close>, by a request or by the job a thread executes (its retry, too).
\<close>

datatype pool_event = Starts | Puts job | Stops | Joins | Times_out | Tests nat | Takes nat | Finishes nat

definition enabled :: "pool_event \<Rightarrow> worker_pool \<Rightarrow> bool" where
  "enabled ev p =
     (case ev of
        Starts \<Rightarrow> \<not> wp_stopping p
      | Puts j \<Rightarrow> True
      | Stops \<Rightarrow> \<not> wp_stopping p
      | Joins \<Rightarrow> wp_stopping p \<and> \<not> worker_alive p
      | Times_out \<Rightarrow> wp_stopping p \<and> worker_alive p
      | Tests i \<Rightarrow> i < length (wp_threads p) \<and> wp_threads p ! i = At_test
      | Takes i \<Rightarrow> i < length (wp_threads p) \<and> wp_threads p ! i = At_get \<and> wp_entries p \<noteq> []
      | Finishes i \<Rightarrow> i < length (wp_threads p) \<and> (\<exists>j. wp_threads p ! i = Executing j))"

definition happens :: "feature_settings \<Rightarrow> pool_event \<Rightarrow> worker_pool \<Rightarrow> worker_pool" where
  "happens s ev p =
     (case ev of
        Starts \<Rightarrow> start_worker s p
      | Puts j \<Rightarrow> put_entries [j] p
      | Stops \<Rightarrow> begin_stop p
      | Joins \<Rightarrow> end_stop p
      | Times_out \<Rightarrow> end_stop p
      | Tests i \<Rightarrow> test_stop i p
      | Takes i \<Rightarrow> take_entry i p
      | Finishes i \<Rightarrow> set_thread i At_test p)"

fun run_events :: "feature_settings \<Rightarrow> pool_event list \<Rightarrow> worker_pool \<Rightarrow> worker_pool option" where
  "run_events s [] p = Some p"
| "run_events s (ev # evs) p = (if enabled ev p then run_events s evs (happens s ev p) else None)"

section \<open>Order\<close>

definition entry_jobs :: "queue_entry list \<Rightarrow> job list" where
  "entry_jobs xs = List.map_filter (\<lambda>x. case x of Entry j \<Rightarrow> Some j | Stop_entry \<Rightarrow> None) xs"

lemma entry_jobs_simps [simp]:
  "entry_jobs [] = []" "entry_jobs (Entry j # xs) = j # entry_jobs xs" "entry_jobs (Stop_entry # xs) = entry_jobs xs"
  "entry_jobs (xs @ ys) = entry_jobs xs @ entry_jobs ys" "entry_jobs (map Entry js) = js"
  by (simp_all add: entry_jobs_def map_filter_def comp_def)

fun put_jobs :: "pool_event list \<Rightarrow> job list" where
  "put_jobs [] = []"
| "put_jobs (Puts j # evs) = j # put_jobs evs"
| "put_jobs (ev # evs) = put_jobs evs"

lemma happens_order:
  "enabled ev p \<Longrightarrow> wp_begun (happens s ev p) @ entry_jobs (wp_entries (happens s ev p)) =
     wp_begun p @ entry_jobs (wp_entries p) @ put_jobs [ev]"
  by (cases ev; cases "wp_entries p"; cases "hd (wp_entries p)")
    (auto simp: enabled_def happens_def start_worker_def begin_stop_def end_stop_def test_stop_def take_entry_def
      put_entries_def set_thread_def)

lemma put_jobs_Cons: "put_jobs (ev # evs) = put_jobs [ev] @ put_jobs evs"
  by (cases ev) simp_all

lemma events_order:
  "run_events s evs p = Some p' \<Longrightarrow>
     wp_begun p' @ entry_jobs (wp_entries p') = wp_begun p @ entry_jobs (wp_entries p) @ put_jobs evs"
proof (induction evs arbitrary: p)
  case (Cons ev evs)
  then have ev: "enabled ev p" and "run_events s evs (happens s ev p) = Some p'" by (auto split: if_splits)
  from Cons.IH [OF this(2)] happens_order [OF ev, of s] show ?case
    by (metis append.assoc put_jobs_Cons)
qed simp

text \<open>
  Jobs begin in the order in which they were queued, each once: whatever starts, stops, timeouts, puts and
  steps of however many threads come after each other, the jobs whose execution has begun, followed by those
  still in the queue, are the ones put in, in that order.
\<close>

theorem jobs_begin_in_order:
  assumes "run_events s evs empty_pool = Some p"
  shows "wp_begun p @ entry_jobs (wp_entries p) = put_jobs evs"
  using events_order [OF assms] by (simp add: empty_pool_def)

section \<open>How many workers\<close>

definition one_alive :: "worker_pool \<Rightarrow> bool" where
  "one_alive p \<longleftrightarrow> (\<forall>i. thread_alive i p \<longrightarrow> wp_worker p = Some i)"

lemma alive_set_thread:
  "thread_alive k (set_thread i ph p) \<longleftrightarrow>
     (if k = i then i < length (wp_threads p) \<and> ph \<noteq> Ended else thread_alive k p)"
  by (auto simp: thread_alive_def set_thread_def)

lemma alive_more [simp]:
  "thread_alive k (p\<lparr>wp_entries := xs\<rparr>) = thread_alive k p" "thread_alive k (p\<lparr>wp_begun := js\<rparr>) = thread_alive k p"
  "thread_alive k (p\<lparr>wp_stop_event := b\<rparr>) = thread_alive k p" "thread_alive k (p\<lparr>wp_stopping := b\<rparr>) = thread_alive k p"
  "thread_alive k (p\<lparr>wp_worker := x\<rparr>) = thread_alive k p"
  by (simp_all add: thread_alive_def)

lemma set_thread_parts [simp]:
  "wp_worker (set_thread i ph p) = wp_worker p" "wp_entries (set_thread i ph p) = wp_entries p"
  "wp_begun (set_thread i ph p) = wp_begun p" "wp_stop_event (set_thread i ph p) = wp_stop_event p"
  by (simp_all add: set_thread_def)

text \<open>Only a thread that is alive moves, and only \<open>start\<close> makes one.\<close>

lemma alive_moves:
  assumes "enabled ev p" and "thread_alive k (happens s ev p)" and "ev \<noteq> Starts"
  shows "thread_alive k p"
  using assms
  by (cases ev)
    (auto simp: enabled_def happens_def begin_stop_def end_stop_def test_stop_def take_entry_def put_entries_def
      alive_set_thread thread_alive_def set_thread_def nth_list_update
      split: queue_entry.splits list.splits if_splits)

lemma worker_kept:
  "ev \<notin> {Starts, Joins, Times_out} \<Longrightarrow> wp_worker (happens s ev p) = wp_worker p"
  by (cases ev) (auto simp: happens_def begin_stop_def test_stop_def take_entry_def put_entries_def
      split: queue_entry.splits list.splits)

lemma one_alive_event:
  assumes "enabled ev p" and "one_alive p" and "ev \<noteq> Times_out"
  shows "one_alive (happens s ev p)"
proof (cases "ev = Starts")
  case True
  have "thread_alive k (happens s Starts p) \<longrightarrow> wp_worker (happens s Starts p) = Some k" for k
    using assms(2)
    by (auto simp: happens_def start_worker_def one_alive_def worker_alive_def thread_alive_def nth_append
        split: option.splits)
  with True show ?thesis by (simp add: one_alive_def)
next
  case False
  show ?thesis
    unfolding one_alive_def
  proof (intro allI impI)
    fix k assume k: "thread_alive k (happens s ev p)"
    from alive_moves [OF assms(1) k False] have alive: "thread_alive k p" .
    with assms(2) have w: "wp_worker p = Some k" by (simp add: one_alive_def)
    then have "ev \<noteq> Joins" using assms(1) alive by (auto simp: enabled_def worker_alive_def)
    with False assms(3) w show "wp_worker (happens s ev p) = Some k" by (simp add: worker_kept)
  qed
qed

lemma one_alive_events:
  "run_events s evs p = Some p' \<Longrightarrow> one_alive p \<Longrightarrow> Times_out \<notin> set evs \<Longrightarrow> one_alive p'"
  by (induction evs arbitrary: p) (auto simp: one_alive_event split: if_splits)

lemma none_alive_events:
  assumes "run_events s evs p = Some p'" and "\<And>k. \<not> thread_alive k p" and "Starts \<notin> set evs"
  shows "wp_begun p' = wp_begun p"
  using assms
proof (induction evs arbitrary: p)
  case (Cons ev evs)
  then have ev: "enabled ev p" "ev \<noteq> Starts" and run: "run_events s evs (happens s ev p) = Some p'"
    by (auto split: if_splits)
  have "wp_begun (happens s ev p) = wp_begun p"
    using ev Cons.prems(2)
    by (cases ev) (auto simp: enabled_def happens_def begin_stop_def end_stop_def put_entries_def thread_alive_def)
  moreover have "\<not> thread_alive k (happens s ev p)" for k using alive_moves [OF ev(1) _ ev(2)] Cons.prems(2) by blast
  ultimately show ?case using Cons.IH [OF run] Cons.prems(3) by simp
qed simp

text \<open>
  One worker at a time, and a stopped one is stopped: in any history in which no \<open>join\<close> of \<open>stop\<close> runs into
  its timeout at most one thread is alive, and once \<open>stop\<close> has returned no execution begins before the next
  \<open>start\<close>.
\<close>

theorem one_worker_until_stopped:
  assumes "run_events s evs empty_pool = Some p" and "Times_out \<notin> set evs"
  shows "(\<forall>i k. thread_alive i p \<and> thread_alive k p \<longrightarrow> i = k) \<and>
    (\<forall>evs' p'. run_events s (Joins # evs') p = Some p' \<and> Starts \<notin> set evs' \<longrightarrow> wp_begun p' = wp_begun p)"
proof -
  have "one_alive empty_pool" by (simp add: one_alive_def thread_alive_def empty_pool_def)
  from one_alive_events [OF assms(1) this assms(2)] have one: "one_alive p" .
  have "wp_begun p' = wp_begun p"
    if run: "run_events s (Joins # evs') p = Some p'" and no: "Starts \<notin> set evs'" for evs' p'
  proof -
    from run have joins: "enabled Joins p" and rest: "run_events s evs' (end_stop p) = Some p'"
      by (auto simp: happens_def split: if_splits)
    have "\<not> thread_alive k (end_stop p)" for k
      using one joins by (auto simp: end_stop_def one_alive_def enabled_def worker_alive_def split: option.splits)
    from none_alive_events [OF rest this no] show ?thesis by (simp add: end_stop_def)
  qed
  moreover have "i = k" if "thread_alive i p" "thread_alive k p" for i k
    using one that unfolding one_alive_def by (metis option.inject)
  ultimately show ?thesis by (intro conjI allI impI) blast+
qed

text \<open>The worker executes a job when \<open>stop\<close> is called: it sees the event and ends, and its stop entry stays.\<close>

definition beat :: job where
  "beat = \<lparr>j_name = ''housekeeping:heartbeat'', j_handler = Database_heartbeat, j_job_id = 1, j_attempts = 0, j_max_retries = 0\<rparr>"

definition stopped_busy :: "pool_event list" where
  "stopped_busy = [Starts, Puts beat, Tests 0, Takes 0, Stops, Finishes 0, Tests 0, Joins]"

definition left_over :: worker_pool where
  "left_over = \<lparr>wp_entries = [Stop_entry], wp_stop_event = True, wp_worker = None, wp_threads = [Ended],
     wp_stopping = False, wp_begun = [beat]\<rparr>"

lemmas pool_defs = enabled_def happens_def start_worker_def worker_alive_def thread_alive_def begin_stop_def
  end_stop_def test_stop_def take_entry_def put_entries_def set_thread_def runs_inline_def empty_pool_def
  default_feature_settings_def

lemma stopped_busy_run: "run_events default_feature_settings stopped_busy empty_pool = Some left_over"
  by (simp add: stopped_busy_def pool_defs left_over_def)

lemma jobs_begin_in_order_witness: "wp_begun left_over @ entry_jobs (wp_entries left_over) = [beat]"
  using jobs_begin_in_order [OF stopped_busy_run] by (simp add: stopped_busy_def)

lemma one_worker_until_stopped_witness:
  "\<exists>p. run_events default_feature_settings (butlast stopped_busy) empty_pool = Some p \<and>
     (\<forall>p'. run_events default_feature_settings [Joins, Puts beat] p = Some p' \<longrightarrow> wp_begun p' = [beat])"
proof -
  obtain p where p: "run_events default_feature_settings (butlast stopped_busy) empty_pool = Some p"
      "wp_begun p = [beat]"
    by (simp add: stopped_busy_def pool_defs)
  have "Times_out \<notin> set (butlast stopped_busy)" by (simp add: stopped_busy_def)
  from one_worker_until_stopped [OF p(1) this] p show ?thesis by fastforce
qed

section \<open>A stop entry that is left\<close>

definition before_stop :: "nat \<Rightarrow> job list \<Rightarrow> worker_pool \<Rightarrow> bool" where
  "before_stop i js p \<longleftrightarrow> (\<forall>k. thread_alive k p \<longrightarrow> k = i) \<and>
     (\<exists>xs rest. wp_entries p = map Entry xs @ Stop_entry # rest \<and> js = wp_begun p @ xs \<or>
        (\<forall>k. \<not> thread_alive k p) \<and> prefix (wp_begun p) js)"

lemma before_stop_event:
  assumes ev: "enabled ev p" "ev \<noteq> Starts" and p: "before_stop i js p"
  shows "before_stop i js (happens s ev p)"
proof -
  let ?p = "happens s ev p"
  have alive: "\<forall>k. thread_alive k ?p \<longrightarrow> thread_alive k p" using alive_moves [OF ev(1) _ ev(2)] by blast
  from p consider xs rest where "wp_entries p = map Entry xs @ Stop_entry # rest" "js = wp_begun p @ xs"
    | "\<forall>k. \<not> thread_alive k p" "prefix (wp_begun p) js"
    by (auto simp: before_stop_def)
  then show ?thesis
  proof cases
    case 2
    moreover have "run_events s [ev] p = Some ?p" using ev(1) by simp
    from none_alive_events [OF this] 2(1) ev(2) have "wp_begun ?p = wp_begun p" by simp
    ultimately show ?thesis using alive p by (auto simp: before_stop_def)
  next
    case 1
    show ?thesis
    proof (cases "\<exists>k. ev = Takes k")
      case False
      then have "wp_begun ?p = wp_begun p \<and> (\<exists>ys. wp_entries ?p = wp_entries p @ ys)"
        using ev by (cases ev) (auto simp: happens_def begin_stop_def end_stop_def test_stop_def put_entries_def)
      with 1 p alive show ?thesis by (fastforce simp: before_stop_def)
    next
      case True
      then obtain k where k: "ev = Takes k" by blast
      with ev have "thread_alive k p" by (simp add: enabled_def thread_alive_def)
      with p have ki: "k = i" by (auto simp: before_stop_def)
      show ?thesis
      proof (cases xs)
        case Nil
        with 1 k have p': "?p = set_thread i Ended (p\<lparr>wp_entries := rest\<rparr>)"
          by (simp add: happens_def take_entry_def ki)
        have "\<not> thread_alive m ?p" for m
          using p unfolding p' by (auto simp: alive_set_thread before_stop_def)
        with p' 1(2) Nil show ?thesis by (auto simp: before_stop_def)
      next
        case (Cons x ys)
        with 1 k have "wp_entries ?p = map Entry ys @ Stop_entry # rest" "wp_begun ?p = wp_begun p @ [x]"
          by (simp_all add: happens_def take_entry_def)
        with 1 Cons p alive show ?thesis by (auto simp: before_stop_def)
      qed
    qed
  qed
qed

lemma before_stop_events:
  "run_events s evs p = Some p' \<Longrightarrow> Starts \<notin> set evs \<Longrightarrow> before_stop i js p \<Longrightarrow> before_stop i js p'"
  by (induction evs arbitrary: p) (auto simp: before_stop_event split: if_splits)

text \<open>
  C40. A stop entry that was left ends the next worker: while a stop entry is in the queue, the one worker there
  is begins at most the jobs in front of it, however many are put in behind, until there is another \<open>start\<close>.
\<close>

theorem left_stop_entry_ends_worker:
  assumes "run_events s evs p = Some p'" and "Starts \<notin> set evs"
    and "wp_entries p = map Entry xs @ Stop_entry # rest" and "\<forall>k. thread_alive k p \<longrightarrow> k = i"
  shows "prefix (wp_begun p') (wp_begun p @ xs)"
proof -
  have "before_stop i (wp_begun p @ xs) p" using assms(3,4) by (auto simp: before_stop_def)
  from before_stop_events [OF assms(1,2) this] show ?thesis
    by (auto simp: before_stop_def)
qed

text \<open>Started again after \<open>stopped_busy\<close>, the worker takes the old stop entry, and a new job waits for ever.\<close>

lemma left_stop_entry_ends_worker_witness:
  "\<exists>p'. run_events default_feature_settings [Puts beat, Tests 1, Takes 1] (start_worker default_feature_settings left_over) = Some p' \<and>
     wp_entries p' = [Entry beat] \<and> wp_threads p' = [Ended, Ended] \<and> prefix (wp_begun p') [beat]"
proof -
  let ?p = "start_worker default_feature_settings left_over"
  obtain p' where p': "run_events default_feature_settings [Puts beat, Tests 1, Takes 1] ?p = Some p'"
      "wp_entries p' = [Entry beat]" "wp_threads p' = [Ended, Ended]"
    by (simp add: pool_defs left_over_def)
  have "wp_entries ?p = map Entry [] @ Stop_entry # []" "\<forall>k. thread_alive k ?p \<longrightarrow> k = 1" "wp_begun ?p = [beat]"
    by (auto simp: pool_defs left_over_def nth_Cons split: nat.splits)
  with left_stop_entry_ends_worker [OF p'(1) _ this(1,2)] p' show ?thesis by simp
qed

section \<open>The worker of the application\<close>

text \<open>The pool with one thread, about to test the stop event, over the queue of a world.\<close>

definition serves_queue :: "nat \<Rightarrow> worker_pool \<Rightarrow> world \<Rightarrow> bool" where
  "serves_queue i p w \<longleftrightarrow> i < length (wp_threads p) \<and> wp_threads p ! i = At_test \<and> \<not> wp_stop_event p \<and>
     wp_entries p = map Entry (waiting w)"

lemma run_events_append:
  "run_events s (evs @ evs') p = (case run_events s evs p of None \<Rightarrow> None | Some p' \<Rightarrow> run_events s evs' p')"
  by (induction evs arbitrary: p) auto

lemma run_puts: "run_events s (map Puts js) p = Some (put_entries js p)"
proof (induction js arbitrary: p)
  case (Cons j js)
  then show ?case by (simp add: enabled_def happens_def put_entries_def)
qed (simp add: put_entries_def)

text \<open>
  What the application does to its queue, entry by entry: a request puts jobs into it, the worker takes
  its first job and executes it, whose handler (or whose retry) may put others. The log of a history names
  every execution, with the job it is of, in the order in which they happen.
\<close>

datatype queue_log = Queued "job list" | Executed job "job list"

inductive logged :: "env \<Rightarrow> queue_log list \<Rightarrow> world \<Rightarrow> world \<Rightarrow> bool" for e where
  log_start: "logged e [] w w"
| log_request: "logged e xs w u \<Longrightarrow> run_state (handle_request e h q) u = (r, v) \<Longrightarrow> waiting v = waiting u @ js \<Longrightarrow>
    logged e (xs @ [Queued js]) w v"
| log_tick: "logged e xs w u \<Longrightarrow> 0 \<le> n \<Longrightarrow> logged e xs w (u\<lparr>clock := clock u + n\<rparr>)"
| log_idle: "logged e xs w u \<Longrightarrow> waiting u = [] \<Longrightarrow> run_state (job_worker e) u = (r, v) \<Longrightarrow> logged e xs w v"
| log_execution: "logged e xs w u \<Longrightarrow> waiting u = j # rest \<Longrightarrow> run_state (job_worker e) u = (r, v) \<Longrightarrow>
    run_state (execute_with (feat e) (run_job e) j) (taken u) = (r, v) \<Longrightarrow> waiting v = rest @ js \<Longrightarrow>
    logged e (xs @ [Executed j js]) w v"

text \<open>The executions of a log, the jobs it puts into the queue, and what the thread does meanwhile.\<close>

definition executions :: "queue_log list \<Rightarrow> job list" where
  "executions xs = List.map_filter (\<lambda>x. case x of Queued js \<Rightarrow> None | Executed j js \<Rightarrow> Some j) xs"

definition queued_by :: "queue_log list \<Rightarrow> job list" where
  "queued_by xs = concat (map (\<lambda>x. case x of Queued js \<Rightarrow> js | Executed j js \<Rightarrow> js) xs)"

definition thread_events :: "nat \<Rightarrow> queue_log list \<Rightarrow> pool_event list" where
  "thread_events i xs = concat (map (\<lambda>x. case x of
     Queued js \<Rightarrow> map Puts js
   | Executed j js \<Rightarrow> [Tests i, Takes i] @ map Puts js @ [Finishes i]) xs)"

lemma log_simps [simp]:
  "executions [] = []" "executions (xs @ [Queued js]) = executions xs" "executions (xs @ [Executed j js]) = executions xs @ [j]"
  "queued_by [] = []" "queued_by (xs @ [Queued js]) = queued_by xs @ js" "queued_by (xs @ [Executed j js]) = queued_by xs @ js"
  "thread_events i [] = []" "thread_events i (xs @ [Queued js]) = thread_events i xs @ map Puts js"
  "thread_events i (xs @ [Executed j js]) = thread_events i xs @ [Tests i, Takes i] @ map Puts js @ [Finishes i]"
  by (simp_all add: executions_def queued_by_def thread_events_def map_filter_def)

lemma put_jobs_append: "put_jobs (evs @ evs') = put_jobs evs @ put_jobs evs'"
proof (induction evs)
  case (Cons ev evs)
  then show ?case by (cases ev) simp_all
qed simp

lemma put_jobs_puts [simp]: "put_jobs (map Puts js) = js"
  by (induction js) simp_all

text \<open>Every history of the application has a log, and nothing else has; the log accounts for the whole queue.\<close>

lemma reaches_logged: "reaches e w w' \<Longrightarrow> \<exists>xs. logged e xs w w'"
  unfolding reaches_def
proof (induction rule: rtranclp_induct)
  case base
  show ?case using logged.log_start by blast
next
  case (step u v)
  then obtain xs where xs: "logged e xs w u" by blast
  from step.hyps(2) show ?case
  proof cases
    case (request h q r)
    with queuesD [OF queues_handle_request] show ?thesis using logged.log_request [OF xs] by (metis prefixE)
  next
    case (work r)
    show ?thesis
    proof (cases "waiting u")
      case Nil
      with work xs show ?thesis by (blast intro: logged.log_idle)
    next
      case (Cons j rest)
      with work worker_takes_first [OF Cons work] run_worker [OF Cons, of e] show ?thesis
        using logged.log_execution [OF xs Cons] by (metis prefixE)
    qed
  next
    case (tick n)
    with xs show ?thesis by (blast intro: logged.log_tick)
  qed
qed

lemma logged_reaches: "logged e xs w w' \<Longrightarrow> reaches e w w'"
  unfolding reaches_def by (induction rule: logged.induct) (auto intro: step.intros rtranclp.rtrancl_into_rtrancl)

lemma logged_queue: "logged e xs w w' \<Longrightarrow> executions xs @ waiting w' = waiting w @ queued_by xs"
  by (induction rule: logged.induct) (auto simp: waiting_def job_worker_def worker_turn_def)

text \<open>The thread, through one execution.\<close>

lemma thread_executes:
  assumes p: "serves_queue i p u" and u: "waiting u = j # rest" and v: "waiting v = rest @ js"
  shows "\<exists>p'. run_events s ([Tests i, Takes i] @ map Puts js @ [Finishes i]) p = Some p' \<and> serves_queue i p' v \<and>
    wp_begun p' = wp_begun p @ [j]"
proof -
  let ?q = "p\<lparr>wp_threads := (wp_threads p)[i := Executing j], wp_entries := map Entry rest, wp_begun := wp_begun p @ [j]\<rparr>"
  have "run_events s [Tests i, Takes i] p = Some ?q"
    using p u by (simp add: serves_queue_def enabled_def happens_def test_stop_def take_entry_def set_thread_def)
  moreover have "run_events s [Finishes i] (put_entries js ?q) = Some (set_thread i At_test (put_entries js ?q))"
    using p by (simp add: serves_queue_def enabled_def happens_def put_entries_def)
  ultimately have "run_events s ([Tests i, Takes i] @ map Puts js @ [Finishes i]) p =
      Some (set_thread i At_test (put_entries js ?q))"
    by (simp only: run_events_append option.case run_puts)
  moreover have "serves_queue i (set_thread i At_test (put_entries js ?q)) v"
    using p v by (simp add: serves_queue_def set_thread_def put_entries_def)
  moreover have "wp_begun (set_thread i At_test (put_entries js ?q)) = wp_begun p @ [j]"
    by (simp add: put_entries_def)
  ultimately show ?thesis by blast
qed

lemma threads_follow:
  assumes "logged e xs w w'" and "serves_queue i p w"
  shows "\<exists>p'. run_events s (thread_events i xs) p = Some p' \<and> serves_queue i p' w' \<and>
    wp_begun p' = wp_begun p @ executions xs"
  using assms
proof (induction rule: logged.induct)
  case (log_request xs w u h q r v js)
  then obtain p' where p': "run_events s (thread_events i xs) p = Some p'" "serves_queue i p' u"
    "wp_begun p' = wp_begun p @ executions xs" by blast
  then have "serves_queue i (put_entries js p') v" "wp_begun (put_entries js p') = wp_begun p'"
    using log_request.hyps(3) by (simp_all add: serves_queue_def put_entries_def)
  with p' show ?case by (auto simp: run_events_append run_puts)
next
  case (log_tick xs w u n)
  then show ?case by (simp add: serves_queue_def waiting_def)
next
  case (log_idle xs w u r v)
  then have "v = u" by (simp add: waiting_def job_worker_def worker_turn_def)
  with log_idle show ?case by simp
next
  case (log_execution xs w u j rest r v js)
  then obtain p' where p': "run_events s (thread_events i xs) p = Some p'" "serves_queue i p' u"
    "wp_begun p' = wp_begun p @ executions xs" by blast
  from thread_executes [OF p'(2) log_execution.hyps(2,5), of s] obtain p'' where
    "run_events s ([Tests i, Takes i] @ map Puts js @ [Finishes i]) p' = Some p''" "serves_queue i p'' v"
    "wp_begun p'' = wp_begun p' @ [j]" by blast
  with p' show ?case by (simp only: log_simps run_events_append option.case) simp
qed (auto simp: serves_queue_def)

lemma thread_events_put: "put_jobs (thread_events i xs) = queued_by xs"
proof (induction xs rule: rev_induct)
  case (snoc x xs)
  then show ?case by (cases x) (simp_all add: put_jobs_append)
qed simp

text \<open>
  C39. The worker of the application is one thread of the queue. Whatever history of requests, turns of
  the worker and time the application goes through, it has a log of the jobs put into the queue and of the
  executions, each of the job at the head of the queue, with its handler run on the world in which it was
  taken; and a pool whose one started thread serves the same queue follows the log step by step: the
  executions it begins are those of the log, in that order, what is put is what the log says, and it ends
  with the application's queue. No job is lost, run twice or overtaken: the executed jobs and those
  still waiting are those that waited at first and those put in since.
\<close>

theorem application_runs_on_threads:
  assumes "reaches e w w'" and "serves_queue i p w"
  shows "\<exists>xs p'. logged e xs w w' \<and> run_events s (thread_events i xs) p = Some p' \<and> serves_queue i p' w' \<and>
    wp_begun p' = wp_begun p @ executions xs \<and> put_jobs (thread_events i xs) = queued_by xs \<and>
    executions xs @ waiting w' = waiting w @ queued_by xs"
proof -
  obtain xs where xs: "logged e xs w w'" using reaches_logged [OF assms(1)] by blast
  with threads_follow [OF xs assms(2), of s] logged_queue [OF xs] thread_events_put show ?thesis by blast
qed

lemma application_runs_on_threads_witness:
  "\<exists>w' xs p'. run_state (job_worker demo_env) two_jobs = ((), w') \<and> logged demo_env xs two_jobs w' \<and>
     run_events default_feature_settings (thread_events 0 xs)
       (put_entries (waiting two_jobs) (start_worker default_feature_settings empty_pool)) = Some p' \<and>
     wp_begun p' = executions xs \<and> executions xs @ waiting w' = waiting two_jobs @ queued_by xs"
proof -
  obtain w' where w': "run_state (job_worker demo_env) two_jobs = ((), w')" by (metis old.unit.exhaust surj_pair)
  then have reach: "reaches demo_env two_jobs w'" unfolding reaches_def by (blast intro: step.work)
  let ?p = "put_entries (waiting two_jobs) (start_worker default_feature_settings empty_pool)"
  have "serves_queue 0 ?p two_jobs" "wp_begun ?p = []"
    by (simp_all add: serves_queue_def pool_defs)
  with application_runs_on_threads [OF reach this(1), of default_feature_settings] w' show ?thesis
    by auto
qed

end
