(* ===== verification/Answers.thy ===== *)
theory Answers
  imports System
begin

text \<open>
  The bodies of the HTTP responses: a definition per response model of src/app/schemas, with the fields in the
  order of the class, and \<open>answer\<close>, what the endpoints of src/app/api/v1/endpoints return for each request.
  \<open>answer\<close> calls what \<open>serve\<close> of \<open>Requests\<close> calls, in the same order, and keeps the result; \<open>answer_serves\<close>
  shows that the two have the same effect and the same exceptions, but for a response that does not fit its
  model, which FastAPI refuses after the service has done its work. A value is what the model holds; how it is
  printed in JSON is left to the encoder. Of a stored e-mail address the form is not checked again.
\<close>

section \<open>Serialising\<close>

text \<open>A related row that the model requires and that is not there.\<close>

definition related :: "'r option \<Rightarrow> ('r \<Rightarrow> exc + py) \<Rightarrow> exc + py" where
  "related r f = (case r of None \<Rightarrow> Inl (ValidationError ''ResponseValidationError'') | Some x \<Rightarrow> f x)"

fun serialize_list :: "('a \<Rightarrow> exc + py) \<Rightarrow> 'a list \<Rightarrow> exc + py list" where
  "serialize_list f [] = Inr []"
| "serialize_list f (x # xs) =
     (case f x of Inl e \<Rightarrow> Inl e | Inr v \<Rightarrow>
       (case serialize_list f xs of Inl e \<Rightarrow> Inl e | Inr vs \<Rightarrow> Inr (v # vs)))"

definition list_of :: "('a \<Rightarrow> exc + py) \<Rightarrow> 'a list \<Rightarrow> exc + py" where
  "list_of f xs = map_sum id PyList (serialize_list f xs)"

definition items :: "py list \<Rightarrow> py" where
  "items vs = PyDict [(''items'', PyList vs)]"

text \<open>The result of a service through its response model, which may look at related rows.\<close>

definition answered :: "(database \<Rightarrow> 'a \<Rightarrow> exc + py) \<Rightarrow> 'a svc \<Rightarrow> py svc" where
  "answered f m = do { r \<leftarrow> m; on_ok r (\<lambda>x. do { d \<leftarrow> gets db; State_Monad.return (f d x) }) }"

definition shown :: "('a \<Rightarrow> py) \<Rightarrow> 'a svc \<Rightarrow> py svc" where
  "shown f = answered (\<lambda>_ x. Inr (f x))"

definition shown_act :: "('a \<Rightarrow> py) \<Rightarrow> 'a act \<Rightarrow> py svc" where
  "shown_act f m = shown f (do { x \<leftarrow> m; ok x })"

text \<open>A response without a body.\<close>

definition no_content :: "unit svc \<Rightarrow> py svc" where
  "no_content = shown (\<lambda>_. PyNone)"

section \<open>Accounts (schemas/user.py, schemas/auth.py)\<close>

definition driver_profile_fields :: "user \<Rightarrow> (string \<times> py) list" where
  "driver_profile_fields u =
     [(''driver_verification_status'', PyStr (verification_status_value (u_driver_verification_status u))),
      (''vehicle_make'', py_opt PyStr (u_vehicle_make u)), (''vehicle_model'', py_opt PyStr (u_vehicle_model u)),
      (''vehicle_color'', py_opt PyStr (u_vehicle_color u)),
      (''vehicle_plate_number'', py_opt PyStr (u_vehicle_plate_number u)),
      (''driver_license_number'', py_opt PyStr (u_driver_license_number u)),
      (''driver_verification_rejection_reason'', py_opt PyStr (u_driver_verification_rejection_reason u)),
      (''driver_profile_submitted_at'', py_opt PyDatetime (u_driver_profile_submitted_at u)),
      (''driver_profile_reviewed_at'', py_opt PyDatetime (u_driver_profile_reviewed_at u))]"

definition DriverVerificationResponse :: "user \<Rightarrow> py" where
  "DriverVerificationResponse u = PyDict (driver_profile_fields u)"

definition user_fields :: "user \<Rightarrow> (string \<times> py) list" where
  "user_fields u =
     [(''id'', PyInt (u_id u)), (''full_name'', PyStr (u_full_name u)), (''email'', PyStr (u_email u)),
      (''phone_number'', py_opt PyStr (u_phone_number u)), (''role'', PyStr (user_role_value (u_role u))),
      (''bio'', py_opt PyStr (u_bio u)), (''rating'', PyFloat (u_rating u)),
      (''email_verified'', PyBool (u_email_verified u)),
      (''email_verified_at'', py_opt PyDatetime (u_email_verified_at u))] @
     driver_profile_fields u @
     [(''failed_login_attempts'', PyInt (u_failed_login_attempts u)),
      (''locked_until'', py_opt PyDatetime (u_locked_until u)), (''created_at'', PyDatetime (u_created_at u))]"

definition UserResponse :: "user \<Rightarrow> py" where
  "UserResponse u = PyDict (user_fields u)"

definition RegisterResponse :: "user \<times> string option \<Rightarrow> py" where
  "RegisterResponse = (\<lambda>(u, token). PyDict (user_fields u @ [(''verification_token'', py_opt PyStr token)]))"

definition TokenResponse :: "token_pair \<Rightarrow> py" where
  "TokenResponse p = PyDict [(''access_token'', PyStr (tp_access_token p)),
     (''refresh_token'', PyStr (tp_refresh_token p)), (''token_type'', PyStr ''bearer'')]"

definition ForgotPasswordResponse :: "string option \<Rightarrow> py" where
  "ForgotPasswordResponse token = PyDict
     [(''message'', PyStr ''If an account exists for that email, a reset link has been generated.''),
      (''reset_token'', py_opt PyStr token)]"

definition ResendVerificationResponse :: "string option \<Rightarrow> py" where
  "ResendVerificationResponse token = PyDict
     [(''message'', PyStr ''If an account exists for that email, a verification email has been sent.''),
      (''verification_token'', py_opt PyStr token)]"

definition SessionResponse :: "session_view \<Rightarrow> py" where
  "SessionResponse v =
     (let s = sv_session v
      in PyDict [(''jti'', PyStr (s_jti s)), (''issued_at'', PyStr (isoformat (s_issued_at s))),
        (''expires_at'', PyStr (isoformat (s_expires_at s))), (''current_session'', PyBool (sv_current v)),
        (''device_name'', PyStr (sv_device_name v)), (''user_agent'', py_opt PyStr (s_user_agent s)),
        (''ip_address'', py_opt PyStr (s_ip_address s))])"

definition AccountSecurityResponse :: "account_security_view \<Rightarrow> py" where
  "AccountSecurityResponse v = PyDict
     [(''failed_login_attempts'', PyInt (av_failed_login_attempts v)),
      (''locked_until'', py_opt PyDatetime (av_locked_until v)), (''is_locked'', PyBool (av_is_locked v)),
      (''lockout_reason'', py_opt PyStr (av_lockout_reason v)), (''recovery_hint'', PyStr (av_recovery_hint v))]"

section \<open>Rides (schemas/ride.py)\<close>

text \<open>\<open>RidePassengerSummary\<close> and \<open>BookingPassengerSummary\<close> have the same fields.\<close>

definition PassengerSummary :: "user \<Rightarrow> py" where
  "PassengerSummary u = PyDict
     [(''id'', PyInt (u_id u)), (''full_name'', PyStr (u_full_name u)), (''email'', PyStr (u_email u)),
      (''phone_number'', py_opt PyStr (u_phone_number u))]"

definition dict_items :: "py \<Rightarrow> (string \<times> py) list" where
  "dict_items v = (case v of PyDict kvs \<Rightarrow> kvs | _ \<Rightarrow> [])"

definition RideDetailResponse :: "database \<Rightarrow> ride \<Rightarrow> int \<Rightarrow> user list \<Rightarrow> int option \<Rightarrow> exc + py" where
  "RideDetailResponse d ride booked_passengers passengers booking_id =
     related (get_user (r_driver_id ride) d) (\<lambda>driver. Inr (PyDict (dict_items (ride_response ride) @
       [(''driver'', UserResponse driver), (''booked_passengers'', PyInt booked_passengers),
        (''passengers'', PyList (map PassengerSummary passengers)), (''booking_id'', py_opt PyInt booking_id)])))"

definition RideLocationResponse :: "located \<Rightarrow> py" where
  "RideLocationResponse v =
     (let l = lo_location v
      in PyDict [(''id'', PyInt (l_id l)), (''ride_id'', PyInt (l_ride_id l)), (''driver_id'', PyInt (l_driver_id l)),
        (''latitude'', PyFloat (l_latitude l)), (''longitude'', PyFloat (l_longitude l)),
        (''heading'', py_opt PyFloat (l_heading l)), (''speed_kmph'', py_opt PyFloat (l_speed_kmph l)),
        (''created_at'', PyDatetime (l_created_at l)), (''age_seconds'', PyInt (lo_age_seconds v)),
        (''is_stale'', PyBool (lo_is_stale v))])"

definition RideLocationAccessResponse :: "location_access \<Rightarrow> py" where
  "RideLocationAccessResponse v = PyDict
     [(''ride_id'', PyInt (la_ride_id v)), (''can_track'', PyBool (la_can_track v)),
      (''reason'', py_opt PyStr (la_reason v)), (''tracking_starts_at'', PyDatetime (la_tracking_starts_at v)),
      (''tracking_ends_at'', PyDatetime (la_tracking_ends_at v))]"

section \<open>Bookings (schemas/booking.py)\<close>

definition BookingRideSummary :: "ride \<Rightarrow> py" where
  "BookingRideSummary r = PyDict
     [(''id'', PyInt (r_id r)), (''origin'', PyStr (r_origin r)), (''destination'', PyStr (r_destination r)),
      (''departure_time'', PyDatetime (r_departure_time r)), (''price_per_seat'', PyDecimal (r_price_per_seat r)),
      (''available_seats'', PyInt (r_available_seats r)), (''vehicle_details'', py_opt PyStr (r_vehicle_details r))]"

definition PassengerBookingResponse :: "database \<Rightarrow> booking \<Rightarrow> exc + py" where
  "PassengerBookingResponse d b = related (ride_of b d) (\<lambda>ride.
     Inr (PyDict (dict_items (booking_response b) @ [(''ride'', BookingRideSummary ride)])))"

definition DriverBookingResponse :: "database \<Rightarrow> booking \<Rightarrow> exc + py" where
  "DriverBookingResponse d b = related (ride_of b d) (\<lambda>ride. related (get_user (b_passenger_id b) d) (\<lambda>u.
     Inr (PyDict (dict_items (booking_response b) @
       [(''ride'', BookingRideSummary ride), (''passenger'', PassengerSummary u)]))))"

definition BookingStatusEvent :: "status_event \<Rightarrow> py" where
  "BookingStatusEvent s = PyDict
     [(''label'', PyStr (se_label s)), (''tone'', PyStr (se_tone s)), (''timestamp'', py_opt PyDatetime (se_timestamp s))]"

definition BookingDetailResponse :: "database \<Rightarrow> booking_detail \<Rightarrow> exc + py" where
  "BookingDetailResponse d v =
     (case RideDetailResponse d (bd_ride v) (bd_booked_passengers v) (bd_passengers v) (bd_booking_id v) of
        Inl x \<Rightarrow> Inl x
      | Inr ride \<Rightarrow> related (bd_driver v) (\<lambda>driver. related (get_user (b_passenger_id (bd_booking v)) d) (\<lambda>passenger.
          Inr (PyDict (dict_items (booking_response (bd_booking v)) @
            [(''ride'', ride), (''driver'', UserResponse driver), (''passenger'', UserResponse passenger),
             (''status_events'', PyList (map BookingStatusEvent (bd_status_events v)))])))))"

definition BoardingOtpResponse :: "string \<times> instant \<Rightarrow> py" where
  "BoardingOtpResponse = (\<lambda>(otp, expires_at). PyDict [(''otp'', PyStr otp), (''expires_at'', PyDatetime expires_at)])"

definition BookingShareTokenResponse :: "string \<times> booking \<Rightarrow> py" where
  "BookingShareTokenResponse = (\<lambda>(token, b). PyDict
     [(''token'', PyStr token), (''booking_id'', PyInt (b_id b)),
      (''created_at'', PyDatetime (case b_share_token_created_at b of None \<Rightarrow> b_created_at b | Some t \<Rightarrow> t))])"

definition PublicTripLocation :: "public_location \<Rightarrow> py" where
  "PublicTripLocation l = PyDict
     [(''latitude'', PyFloat (pl_latitude l)), (''longitude'', PyFloat (pl_longitude l)),
      (''heading'', py_opt PyFloat (pl_heading l)), (''updated_at'', PyDatetime (pl_updated_at l)),
      (''age_seconds'', PyInt (pl_age_seconds l)), (''is_stale'', PyBool (pl_is_stale l))]"

definition PublicTripStatusResponse :: "public_trip \<Rightarrow> py" where
  "PublicTripStatusResponse v = PyDict
     [(''origin'', PyStr (pt_origin v)), (''destination'', PyStr (pt_destination v)),
      (''departure_time'', PyDatetime (pt_departure_time v)),
      (''ride_status'', PyStr (ride_status_value (pt_ride_status v))),
      (''booking_status'', PyStr (booking_status_value (pt_booking_status v))),
      (''driver'', PyDict [(''first_name'', PyStr (pt_driver_first_name v)), (''rating'', PyFloat (pt_driver_rating v))]),
      (''latest_location'', py_opt PublicTripLocation (pt_latest_location v)),
      (''location_visible'', PyBool (pt_location_visible v))]"

section \<open>Payments, dispatch (schemas/payment.py, schemas/dispatch.py)\<close>

text \<open>A payment that no gateway decorated has the default, no key of a checkout.\<close>

definition PaymentResponse :: "decorated \<Rightarrow> py" where
  "PaymentResponse = (\<lambda>(p, checkout_key). PyDict
     [(''id'', PyInt (p_id p)), (''booking_id'', PyInt (p_booking_id p)), (''payer_id'', PyInt (p_payer_id p)),
      (''amount'', PyDecimal (p_amount p)), (''amount_minor'', PyInt (p_amount_minor p)),
      (''currency'', PyStr (p_currency p)), (''status'', PyStr (payment_status_value (p_status p))),
      (''provider'', PyStr (payment_provider_value (p_provider p))),
      (''provider_order_id'', PyStr (p_provider_order_id p)),
      (''provider_payment_id'', py_opt PyStr (p_provider_payment_id p)),
      (''checkout_key_id'', py_opt PyStr checkout_key), (''failure_reason'', py_opt PyStr (p_failure_reason p)),
      (''created_at'', PyDatetime (p_created_at p)), (''updated_at'', PyDatetime (p_updated_at p))])"

definition PaymentWebhookResponse :: "webhook_response \<Rightarrow> py" where
  "PaymentWebhookResponse r = PyDict
     [(''processed'', PyBool (wr_processed r)), (''event_id'', PyInt (wr_event_id r)),
      (''payment_id'', py_opt PyInt (wr_payment_id r)),
      (''status'', py_opt (\<lambda>s. PyStr (payment_status_value s)) (wr_status r))]"

definition DriverPresenceResponse :: "driver_availability \<Rightarrow> py" where
  "DriverPresenceResponse v = PyDict
     [(''latitude'', PyFloat (v_latitude v)), (''longitude'', PyFloat (v_longitude v)),
      (''heading'', py_opt PyFloat (v_heading v)), (''is_online'', PyBool (v_is_online v)), (''id'', PyInt (v_id v)),
      (''driver_id'', PyInt (v_driver_id v)), (''updated_at'', PyDatetime (v_updated_at v))]"

definition RideRequestResponse :: "ride_request \<Rightarrow> py" where
  "RideRequestResponse q = PyDict
     [(''origin'', PyStr (q_origin q)), (''destination'', PyStr (q_destination q)),
      (''origin_latitude'', PyFloat (q_origin_latitude q)), (''origin_longitude'', PyFloat (q_origin_longitude q)),
      (''destination_latitude'', PyFloat (q_destination_latitude q)),
      (''destination_longitude'', PyFloat (q_destination_longitude q)),
      (''requested_departure_time'', PyDatetime (q_requested_departure_time q)),
      (''notes'', py_opt PyStr (q_notes q)), (''id'', PyInt (q_id q)), (''passenger_id'', PyInt (q_passenger_id q)),
      (''status'', PyStr (request_status_value (q_status q))),
      (''matched_driver_id'', py_opt PyInt (q_matched_driver_id q)),
      (''matched_ride_id'', py_opt PyInt (q_matched_ride_id q)),
      (''matched_booking_id'', py_opt PyInt (q_matched_booking_id q)), (''created_at'', PyDatetime (q_created_at q))]"

definition NearbyRideRequestResponse :: "ride_request \<times> real \<Rightarrow> py" where
  "NearbyRideRequestResponse = (\<lambda>(q, distance_km).
     PyDict (dict_items (RideRequestResponse q) @ [(''distance_km'', PyFloat distance_km)]))"

definition RequestAcceptanceResponse :: "acceptance \<Rightarrow> py" where
  "RequestAcceptanceResponse a = PyDict
     [(''request'', RideRequestResponse (ac_request a)), (''ride_id'', PyInt (ac_ride_id a)),
      (''booking_id'', PyInt (ac_booking_id a)),
      (''estimated_price_per_seat'', PyDecimal (ac_estimated_price_per_seat a))]"

definition declined_response :: "int \<times> int \<times> bool \<Rightarrow> py" where
  "declined_response = (\<lambda>(request_id, driver_id, dismissed). PyDict
     [(''request_id'', PyInt request_id), (''driver_id'', PyInt driver_id), (''dismissed'', PyBool dismissed)])"

section \<open>Chat, reviews, notifications, incidents, audit trail, support\<close>

definition MessageResponse :: "message \<Rightarrow> py" where
  "MessageResponse m = PyDict
     [(''id'', PyInt (m_id m)), (''booking_id'', PyInt (m_booking_id m)), (''sender_id'', PyInt (m_sender_id m)),
      (''content'', PyStr (m_content m)), (''message_type'', PyStr (m_message_type m)),
      (''created_at'', PyDatetime (m_created_at m)), (''seen_at'', py_opt PyDatetime (m_seen_at m))]"

definition MessageSeenResponse :: "seen_response \<Rightarrow> py" where
  "MessageSeenResponse r = PyDict
     [(''updated'', PyInt (sr_updated r)), (''message_ids'', PyList (map PyInt (sr_message_ids r))),
      (''seen_at'', py_opt PyDatetime (sr_seen_at r))]"

definition ReviewResponse :: "review \<Rightarrow> py" where
  "ReviewResponse x = PyDict
     [(''id'', PyInt (w_id x)), (''reviewer_id'', PyInt (w_reviewer_id x)), (''reviewee_id'', PyInt (w_reviewee_id x)),
      (''booking_id'', PyInt (w_booking_id x)), (''rating'', PyInt (w_rating x)),
      (''comment'', py_opt PyStr (w_comment x)), (''created_at'', PyDatetime (w_created_at x))]"

definition NotificationResponse :: "notification \<Rightarrow> py" where
  "NotificationResponse n = PyDict
     [(''id'', PyInt (n_id n)), (''type'', PyStr (notification_type_value (n_type n))), (''title'', PyStr (n_title n)),
      (''body'', PyStr (n_body n)), (''is_read'', PyBool (n_is_read n)),
      (''read_at'', py_opt PyDatetime (n_read_at n)), (''created_at'', PyDatetime (n_created_at n))]"

definition NotificationListResponse :: "notification list \<times> int \<Rightarrow> py" where
  "NotificationListResponse = (\<lambda>(ns, unread_count). PyDict
     [(''items'', PyList (map NotificationResponse ns)), (''unread_count'', PyInt unread_count)])"

definition NotificationReadResponse :: "int \<Rightarrow> py" where
  "NotificationReadResponse updated = PyDict [(''updated'', PyInt updated)]"

definition IncidentResponse :: "incident_report \<Rightarrow> py" where
  "IncidentResponse i = PyDict
     [(''id'', PyInt (i_id i)), (''reporter_id'', PyInt (i_reporter_id i)), (''ride_id'', py_opt PyInt (i_ride_id i)),
      (''booking_id'', py_opt PyInt (i_booking_id i)), (''ride_request_id'', py_opt PyInt (i_ride_request_id i)),
      (''title'', PyStr (i_title i)), (''description'', PyStr (i_description i)),
      (''severity'', PyStr (incident_severity_value (i_severity i))),
      (''status'', PyStr (incident_status_value (i_status i))),
      (''support_notes'', py_opt PyStr (i_support_notes i)), (''resolved_at'', py_opt PyDatetime (i_resolved_at i)),
      (''created_at'', PyDatetime (i_created_at i)), (''updated_at'', PyDatetime (i_updated_at i))]"

definition AuditLogResponse :: "env \<Rightarrow> audit_log \<Rightarrow> py" where
  "AuditLogResponse e a = PyDict
     [(''id'', PyInt (a_id a)), (''actor_user_id'', py_opt PyInt (a_actor_user_id a)),
      (''action'', PyStr (a_action a)), (''entity_type'', py_opt PyStr (a_entity_type a)),
      (''entity_id'', py_opt PyStr (a_entity_id a)), (''severity'', PyStr (a_severity a)),
      (''request_id'', py_opt PyStr (a_request_id a)),
      (''metadata_json'', py_opt (\<lambda>m. PyStr (json_dumps e (PyDict m))) (a_metadata_json a)),
      (''created_at'', PyDatetime (a_created_at a))]"

definition AuditLogListResponse :: "env \<Rightarrow> audit_log list \<Rightarrow> py" where
  "AuditLogListResponse e ls = items (map (AuditLogResponse e) ls)"

definition AuditLogSummaryResponse :: "env \<Rightarrow> audit_summary \<Rightarrow> py" where
  "AuditLogSummaryResponse e x =
     (let counts = map (\<lambda>(k, n). (k, PyInt n))
      in PyDict [(''total'', PyInt (as_total x)), (''by_action'', PyDict (counts (as_by_action x))),
        (''by_severity'', PyDict (counts (as_by_severity x))),
        (''recent_items'', PyList (map (AuditLogResponse e) (as_recent_items x)))])"

definition AuditCleanupResponse :: "int \<Rightarrow> py" where
  "AuditCleanupResponse deleted = PyDict [(''deleted'', PyInt deleted)]"

definition SupportUserResponse :: "env \<Rightarrow> support_user \<Rightarrow> py" where
  "SupportUserResponse e x = PyDict (user_fields (su_user x) @
     [(''audit_summary'', AuditLogSummaryResponse e (su_audit_summary x)),
      (''driver_verification_history'', AuditLogListResponse e (su_verification_history x))])"

section \<open>Assistant (schemas/ai.py)\<close>

definition AIRideCreateDraft :: "ride_draft \<Rightarrow> py" where
  "AIRideCreateDraft x = PyDict
     [(''origin'', py_opt PyStr (rd_origin x)), (''destination'', py_opt PyStr (rd_destination x)),
      (''departure_time'', py_opt PyDatetime (rd_departure_time x)),
      (''available_seats'', py_opt PyInt (rd_available_seats x)),
      (''price_per_seat'', py_opt PyDecimal (rd_price_per_seat x)),
      (''vehicle_details'', py_opt PyStr (rd_vehicle_details x)), (''notes'', py_opt PyStr (rd_notes x)),
      (''missing_fields'', PyList (map PyStr (rd_missing_fields x))), (''confidence'', PyFloat (rd_confidence x)),
      (''safety_notes'', PyList (map PyStr (rd_safety_notes x)))]"

definition AIRideSearchFilters :: "search_filters \<Rightarrow> py" where
  "AIRideSearchFilters x = PyDict
     [(''origin'', py_opt PyStr (sf_origin x)), (''destination'', py_opt PyStr (sf_destination x)),
      (''departure_after'', py_opt PyDatetime (sf_departure_after x)),
      (''departure_before'', py_opt PyDatetime (sf_departure_before x)),
      (''seat_count'', py_opt PyInt (sf_seat_count x)),
      (''max_price_per_seat'', py_opt PyDecimal (sf_max_price_per_seat x)),
      (''missing_fields'', PyList (map PyStr (sf_missing_fields x))), (''confidence'', PyFloat (sf_confidence x)),
      (''search_summary'', PyStr (sf_search_summary x)), (''safety_notes'', PyList (map PyStr (sf_safety_notes x)))]"

fun tone_value :: "tone \<Rightarrow> string" where
  "tone_value Polite = ''polite''"
| "tone_value Friendly = ''friendly''"
| "tone_value Concise = ''concise''"
| "tone_value Safety_warning = ''safety_warning''"

definition AIChatSuggestion :: "chat_suggestion \<Rightarrow> py" where
  "AIChatSuggestion x = PyDict
     [(''suggestion'', PyStr (cs_suggestion x)), (''tone'', PyStr (tone_value (cs_tone x))),
      (''should_warn'', PyBool (cs_should_warn x)), (''safety_notes'', PyList (map PyStr (cs_safety_notes x)))]"

text \<open>What the three responses share: who answered.\<close>

definition assistant_fields :: "'a assistant_answer \<Rightarrow> (string \<times> py) list" where
  "assistant_fields a = [(''provider'', PyStr (an_provider a)), (''model'', PyStr (an_model a)),
     (''used_fallback'', PyBool (an_used_fallback a))]"

definition AIRideCreateAssistantResponse :: "ride_draft assistant_answer \<Rightarrow> py" where
  "AIRideCreateAssistantResponse a = PyDict (assistant_fields a @ [(''draft'', AIRideCreateDraft (an_result a))])"

definition AIRideSearchAssistantResponse :: "search_filters assistant_answer \<Rightarrow> py" where
  "AIRideSearchAssistantResponse a = PyDict (assistant_fields a @ [(''filters'', AIRideSearchFilters (an_result a))])"

definition AIChatSuggestionResponse :: "string \<times> chat_suggestion assistant_answer \<Rightarrow> py" where
  "AIChatSuggestionResponse = (\<lambda>(summary, a). PyDict (assistant_fields a @
     [(''booking_summary'', PyStr summary), (''result'', AIChatSuggestion (an_result a))]))"

section \<open>The endpoints\<close>

definition shown_list :: "('a \<Rightarrow> py) \<Rightarrow> 'a list svc \<Rightarrow> py svc" where
  "shown_list f = shown (\<lambda>xs. PyList (map f xs))"

definition shown_items :: "('a \<Rightarrow> py) \<Rightarrow> 'a list svc \<Rightarrow> py svc" where
  "shown_items f = shown (\<lambda>xs. items (map f xs))"

fun answer_rides :: "env \<Rightarrow> inbound \<Rightarrow> user \<Rightarrow> ride_call \<Rightarrow> py svc" where
  "answer_rides e h u (Create_ride f) = ride_write e h (validated (ride_create_valid f)
     (shown rs_body (idempotent_execute e h (Some (u_id u)) (create_ride f u) ride_response 201)))"
| "answer_rides e h u (List_my_rides st limit offset) =
     validated (page_ok limit offset)
       (shown_list ride_response (on_ok (normalized_status st) (\<lambda>st. list_driver_rides u st limit offset)))"
| "answer_rides e h u (Ride_detail i) = answered
     (\<lambda>d x. RideDetailResponse d (rd_ride x) (rd_booked_passengers x) (rd_passengers x) (rd_booking_id x))
     (get_ride_detail i (Some u))"
| "answer_rides e h u (Update_ride i f) = ride_write e h (validated (ride_update_valid f)
     (shown rs_body (idempotent_execute e h (Some (u_id u)) (update_ride i f u) ride_response 200)))"
| "answer_rides e h u (Cancel_ride i) = ride_write e h
     (shown (\<lambda>_. PyNone) (idempotent_execute e h (Some (u_id u)) (cancel_ride e i u) (\<lambda>_. PyNone) 204))"
| "answer_rides e h u (Complete_ride i) = ride_write e h
     (shown rs_body (idempotent_execute e h (Some (u_id u)) (complete_ride e i u) ride_response 200))"
| "answer_rides e h u (Update_ride_location i c) =
     rate_limit_dependency ''location-update'' (LOCATION_UPDATE_RATE_LIMIT_MAX_REQUESTS (feat e))
       (LOCATION_UPDATE_RATE_LIMIT_WINDOW_SECONDS (feat e)) (client_host h)
       (validated (location_create_valid c) (shown RideLocationResponse (update_location e i c u)))"
| "answer_rides e h u (Latest_ride_location i) = shown RideLocationResponse (latest_location_for e i u)"
| "answer_rides e h u (Ride_location_history i limit) =
     validated (1 \<le> limit \<and> limit \<le> 200) (shown_list RideLocationResponse (list_location_history e i u limit))"
| "answer_rides e h u (Ride_location_access i) = shown RideLocationAccessResponse (get_location_access e i u)"

fun answer_bookings :: "env \<Rightarrow> inbound \<Rightarrow> user \<Rightarrow> booking_call \<Rightarrow> py svc" where
  "answer_bookings e h u (Create_booking c) = booking_write e h ''booking-write''
     (shown rs_body (idempotent_execute e h (Some (u_id u)) (create_booking e c u) booking_response 200))"
| "answer_bookings e h u (List_my_bookings st limit offset) =
     validated (page_ok limit offset)
       (answered (\<lambda>d. list_of (PassengerBookingResponse d)) (list_passenger_bookings u st limit offset))"
| "answer_bookings e h u (List_managed_bookings st limit offset) =
     validated (page_ok limit offset)
       (answered (\<lambda>d. list_of (DriverBookingResponse d)) (list_driver_bookings u st limit offset))"
| "answer_bookings e h u (Booking_detail i) = answered BookingDetailResponse (get_booking_detail i u)"
| "answer_bookings e h u (Issue_boarding_code i n) =
     booking_write e h ''boarding-otp-issue'' (shown BoardingOtpResponse (issue_boarding_otp e n i u))"
| "answer_bookings e h u (Verify_boarding_code i otp) =
     booking_write e h ''boarding-otp-verify''
       (validated (otp_pattern otp) (shown booking_response (verify_boarding_otp e i otp u)))"
| "answer_bookings e h u (Create_share_token i token) =
     shown BookingShareTokenResponse (create_share_token e token i u)"
| "answer_bookings e h u (Revoke_share_token i) =
     shown (\<lambda>revoked. PyDict [(''revoked'', PyBool revoked)]) (revoke_share_token i u)"
| "answer_bookings e h u (Update_booking_status i st) = booking_write e h ''booking-write''
     (shown rs_body (idempotent_execute e h (Some (u_id u)) (update_status e i st u) booking_response 200))"

fun answer_payments :: "env \<Rightarrow> user \<Rightarrow> payment_call \<Rightarrow> py svc" where
  "answer_payments e u (Create_payment t1 t2 c) = validated (payment_create_valid c)
     (shown PaymentResponse (payment_service e (\<lambda>gw. create_payment e gw t1 t2 c u)))"
| "answer_payments e u (List_my_payments limit offset) = validated (page_ok limit offset)
     (shown_items PaymentResponse (payment_service e (\<lambda>_. list_my_payments e u limit offset)))"
| "answer_payments e u (Get_booking_payment i) =
     shown PaymentResponse (payment_service e (\<lambda>_. get_booking_payment e i u))"
| "answer_payments e u (Get_payment i) = shown PaymentResponse (payment_service e (\<lambda>_. get_payment_for_user e i u))"
| "answer_payments e u (Confirm_payment i) = shown PaymentResponse (payment_service e (\<lambda>_. confirm_payment e i u))"
| "answer_payments e u (Reconcile_payment i) =
     shown PaymentResponse (payment_service e (\<lambda>_. reconcile_accessible_payment e i u))"

fun answer_dispatch :: "env \<Rightarrow> user \<Rightarrow> dispatch_call \<Rightarrow> py svc" where
  "answer_dispatch e u (Upsert_presence p) =
     validated (driver_presence_valid p) (shown DriverPresenceResponse (upsert_driver_presence p u))"
| "answer_dispatch e u Get_presence = shown DriverPresenceResponse (get_driver_presence e u)"
| "answer_dispatch e u (Create_request f) =
     validated (request_fields_valid f) (shown RideRequestResponse (create_request e f u))"
| "answer_dispatch e u (List_my_requests st) = shown_list RideRequestResponse (do {
     r \<leftarrow> list_my_requests e u;
     on_ok r (\<lambda>qs. ok (filter (\<lambda>q. where_eq st (q_status q)) qs))
   })"
| "answer_dispatch e u (List_nearby_requests limit) =
     validated (1 \<le> limit \<and> limit \<le> 100) (shown_list NearbyRideRequestResponse (list_nearby_requests e u limit))"
| "answer_dispatch e u (Cancel_request i) = shown RideRequestResponse (cancel_request e i u)"
| "answer_dispatch e u (Decline_request i) = shown declined_response (decline_request e i u)"
| "answer_dispatch e u (Accept_request i) = shown RequestAcceptanceResponse (accept_request e i u)"

fun answer_chat :: "env \<Rightarrow> inbound \<Rightarrow> user \<Rightarrow> chat_call \<Rightarrow> py svc" where
  "answer_chat e h u (List_messages i) = shown_list MessageResponse (list_messages i u)"
| "answer_chat e h u (Send_message i content) =
     rate_limit_dependency ''chat-message'' (CHAT_MESSAGE_RATE_LIMIT_MAX_REQUESTS (feat e))
       (CHAT_MESSAGE_RATE_LIMIT_WINDOW_SECONDS (feat e)) (client_host h @ '':'' @ str_int i)
       (validated (message_content_valid content) (shown MessageResponse (save_message e i content u)))"
| "answer_chat e h u (Mark_seen i) = shown MessageSeenResponse (mark_messages_seen e i u)"

definition answer_review :: "env \<Rightarrow> inbound \<Rightarrow> user \<Rightarrow> review_request \<Rightarrow> py svc" where
  "answer_review e h u q =
     rate_limit_dependency ''review-create'' (REVIEW_CREATE_RATE_LIMIT_MAX_REQUESTS (feat e))
       (REVIEW_CREATE_RATE_LIMIT_WINDOW_SECONDS (feat e)) (client_host h)
       (validated (review_request_valid q) (shown ReviewResponse (create_review q u)))"

fun answer_users :: "user \<Rightarrow> user_call \<Rightarrow> py svc" where
  "answer_users u Get_profile = shown UserResponse (ok u)"
| "answer_users u (Update_profile x) = validated (user_update_valid x) (shown UserResponse (update_user u x))"
| "answer_users u Get_driver_profile = shown DriverVerificationResponse (get_driver_verification_profile u)"
| "answer_users u (Update_driver_profile x) = validated (verification_update_valid x)
     (shown DriverVerificationResponse (update_driver_verification_profile u x))"

fun answer_notifications :: "user \<Rightarrow> notification_call \<Rightarrow> py svc" where
  "answer_notifications u (List_notifications r ty limit offset) = validated (page_ok limit offset)
     (shown_act NotificationListResponse (list_notifications u r ty limit offset))"
| "answer_notifications u (Mark_notification_read i) = shown NotificationResponse (mark_as_read i u)"
| "answer_notifications u Mark_all_read = shown_act NotificationReadResponse (mark_all_as_read u)"

fun answer_incidents :: "user \<Rightarrow> incident_call \<Rightarrow> py svc" where
  "answer_incidents u (Create_incident x) =
     validated (incident_request_valid x) (shown IncidentResponse (create_incident x u))"
| "answer_incidents u (List_my_incidents limit offset) = validated (page_ok limit offset)
     (shown_items IncidentResponse (do { d \<leftarrow> gets db; ok (list_my_incidents u limit offset d) }))"
| "answer_incidents u (Get_my_incident i) = shown IncidentResponse (get_my_incident i u)"

fun answer_audit :: "env \<Rightarrow> user \<Rightarrow> audit_call \<Rightarrow> py svc" where
  "answer_audit e u (List_my_audit_logs limit offset) = validated (page_ok limit offset)
     (shown (AuditLogListResponse e) (do { d \<leftarrow> gets db; ok (list_my_audit_logs u limit offset d) }))"
| "answer_audit e u Audit_summary =
     shown (AuditLogSummaryResponse e) (do { d \<leftarrow> gets db; ok (summarize_my_audit_logs u 10 d) })"
| "answer_audit e u (Cleanup_my_audit_logs keep_days) = validated (1 \<le> keep_days \<and> keep_days \<le> 3650)
     (shown AuditCleanupResponse (cleanup_my_audit_logs u keep_days))"

fun answer_sessions :: "env \<Rightarrow> string \<Rightarrow> user \<Rightarrow> session_call \<Rightarrow> py svc" where
  "answer_sessions e token u (Change_password salt old new) = no_content (change_password e salt old new u token)"
| "answer_sessions e token u List_sessions = do {
     now \<leftarrow> gets clock;
     shown_act (\<lambda>vs. items (map SessionResponse vs)) (list_account_sessions u (token_session_jti e now token))
   }"
| "answer_sessions e token u Account_security = shown AccountSecurityResponse (do {
     now \<leftarrow> gets clock;
     ok (account_security now u)
   })"
| "answer_sessions e token u (Revoke_session jti) = no_content (revoke_session u jti)"
| "answer_sessions e token u Revoke_other_sessions = do {
     now \<leftarrow> gets clock;
     shown_act (\<lambda>_. PyNone) (revoke_other_sessions u (token_session_jti e now token))
   }"

fun answer_auth :: "env \<Rightarrow> inbound \<Rightarrow> auth_call \<Rightarrow> py svc" where
  "answer_auth e h (Register salt jti r) =
     validated (register_valid r) (shown RegisterResponse (register e salt jti r))"
| "answer_auth e h (Login j1 j2 email password client) =
     rate_limit_dependency ''auth-login'' (LOGIN_RATE_LIMIT_MAX_REQUESTS (feat e))
       (LOGIN_RATE_LIMIT_WINDOW_SECONDS (feat e)) (email_identifier h email)
       (shown TokenResponse (login e j1 j2 email password client))"
| "answer_auth e h (Forgot_password jti email) =
     rate_limit_dependency ''auth-forgot-password'' (FORGOT_PASSWORD_RATE_LIMIT_MAX_REQUESTS (feat e))
       (FORGOT_PASSWORD_RATE_LIMIT_WINDOW_SECONDS (feat e)) (email_identifier h email)
       (shown_act ForgotPasswordResponse (forgot_password e jti email))"
| "answer_auth e h (Resend_verification jti email) =
     rate_limit_dependency ''auth-resend-verification'' (RESEND_VERIFICATION_RATE_LIMIT_MAX_REQUESTS (feat e))
       (RESEND_VERIFICATION_RATE_LIMIT_WINDOW_SECONDS (feat e)) (email_identifier h email)
       (shown_act ResendVerificationResponse (resend_verification e jti email))"
| "answer_auth e h (Verify_email token) = no_content (verify_email e token)"
| "answer_auth e h (Reset_password salt token new) =
     rate_limit_dependency ''auth-reset-password'' (RESET_PASSWORD_RATE_LIMIT_MAX_REQUESTS (feat e))
       (RESET_PASSWORD_RATE_LIMIT_WINDOW_SECONDS (feat e)) (client_host h)
       (validated (new_password_valid new) (no_content (reset_password e salt token new)))"
| "answer_auth e h (Refresh j1 j2 token client) = shown TokenResponse (refresh e j1 j2 token client)"
| "answer_auth e h (Logout access_token refresh_token) = no_content (logout e access_token refresh_token)"

fun answer_support :: "env \<Rightarrow> support_request \<Rightarrow> support_call \<Rightarrow> py svc" where
  "answer_support e q (Support_get_user i) = shown (SupportUserResponse e) (support_get_user e i q)"
| "answer_support e q (Support_search_users email) =
     shown_items (SupportUserResponse e) (support_search_users e email q)"
| "answer_support e q (Support_list_driver_verifications st email plate limit offset) =
     validated (page_ok limit offset)
       (shown_items (SupportUserResponse e) (support_driver_verifications e st email plate limit offset q))"
| "answer_support e q (Support_list_pending limit offset) = validated (page_ok limit offset)
     (shown_items (SupportUserResponse e) (support_pending_driver_verifications e limit offset q))"
| "answer_support e q (Support_review_driver i st why) = validated (at_most 1000 why)
     (shown (SupportUserResponse e) (review_driver_verification e i st why q))"
| "answer_support e q (Support_list_incidents st reporter ride booking limit offset) =
     validated (page_ok limit offset)
       (shown_items IncidentResponse (list_incidents_for_support e st reporter ride booking limit offset q))"
| "answer_support e q (Support_update_incident i st notes) =
     validated (at_most 5000 notes) (shown IncidentResponse (update_support_status e i st notes q))"
| "answer_support e q (Support_list_payments st prov booking payer limit offset) =
     validated (page_ok limit offset)
       (shown_items (\<lambda>p. PaymentResponse (p, None)) (support_list_payments e st prov booking payer limit offset q))"
| "answer_support e q (Support_list_bookings st driver passenger ride boarded limit offset) =
     validated (page_ok limit offset)
       (answered (\<lambda>d bs. map_sum id (\<lambda>vs. items vs) (serialize_list (DriverBookingResponse d) bs))
         (support_list_bookings e st driver passenger ride boarded limit offset q))"
| "answer_support e q (Support_reconcile_payment i) = shown PaymentResponse (support_reconcile_payment e i q)"

fun answer_assistant :: "env \<Rightarrow> inbound \<Rightarrow> user \<Rightarrow> assistant_call \<Rightarrow> py svc" where
  "answer_assistant e h u (Ride_create_assistant q) = ai_limited e h (validated (assistant_request_valid q)
     (if u_role u \<noteq> Driver
      then raise (HTTPException 403 ''Only driver accounts can use the ride creation assistant'')
      else shown AIRideCreateAssistantResponse (create_ride_draft e q)))"
| "answer_assistant e h u (Ride_search_assistant q) = ai_limited e h (validated (assistant_request_valid q)
     (if u_role u \<noteq> Passenger
      then raise (HTTPException 403 ''Only passenger accounts can use the ride search assistant'')
      else shown AIRideSearchAssistantResponse (create_ride_search_filters e q)))"
| "answer_assistant e h u (Chat_suggestion q) = ai_limited e h (validated (chat_suggestion_request_valid q)
     (shown AIChatSuggestionResponse (suggest_chat_reply e q u)))"

fun answer_call :: "env \<Rightarrow> inbound \<Rightarrow> string \<Rightarrow> user \<Rightarrow> call \<Rightarrow> py svc" where
  "answer_call e h token u (Rides c) = answer_rides e h u c"
| "answer_call e h token u (Bookings c) = answer_bookings e h u c"
| "answer_call e h token u (Payments c) = answer_payments e u c"
| "answer_call e h token u (Dispatches c) = answer_dispatch e u c"
| "answer_call e h token u (Chats c) = answer_chat e h u c"
| "answer_call e h token u (Reviews q) = answer_review e h u q"
| "answer_call e h token u (Users c) = answer_users u c"
| "answer_call e h token u (Notifications c) = answer_notifications u c"
| "answer_call e h token u (Incidents c) = answer_incidents u c"
| "answer_call e h token u (Audits c) = answer_audit e u c"
| "answer_call e h token u (Sessions c) = answer_sessions e token u c"
| "answer_call e h token u (Assistants c) = answer_assistant e h u c"

fun answer :: "env \<Rightarrow> inbound \<Rightarrow> request \<Rightarrow> py svc" where
  "answer e h (Authenticated token c) = validated (body_first c) (do {
     r \<leftarrow> get_current_user e token;
     on_ok r (\<lambda>u. answer_call e h token u c)
   })"
| "answer e h (Auth c) = answer_auth e h c"
| "answer e h (Support q c) = answer_support e q c"
| "answer e h (Search_rides p) = validated (page_ok (sp_limit p) (sp_offset p))
     (shown_list ride_response (do { d \<leftarrow> gets db; ok (search_rides p d) }))"
| "answer e h (Public_trip token) = shown PublicTripStatusResponse (get_public_trip_status e token)"
| "answer e h (Mock_webhook x) =
     validated (webhook_event_valid x) (shown PaymentWebhookResponse (mock_payment_webhook e x))"
| "answer e h (Razorpay_webhook body signature event_id) =
     shown PaymentWebhookResponse (razorpay_payment_webhook e body signature event_id)"

text \<open>The request as the application answers it, in a session of its own.\<close>

definition reply :: "env \<Rightarrow> inbound \<Rightarrow> request \<Rightarrow> py svc" where
  "reply e h q = in_session (answer e h q)"

end
