(* ===== verification/Http.thy ===== *)
theory Http
  imports Answers Operations
begin

text \<open>
  The reply to an HTTP request, from the endpoint to the client: the body of \<open>Answers\<close> under the status code that the
  decorator of the endpoint names, or the page of an exception, in the middlewares of \<open>Operations\<close>. The metrics of
  the request come with it.
\<close>

text \<open>The \<open>status_code\<close> of the decorators; 200 where there is none.\<close>

fun call_status :: "call \<Rightarrow> int" where
  "call_status (Rides (Create_ride _)) = 201"
| "call_status (Rides (Cancel_ride _)) = 204"
| "call_status (Dispatches (Upsert_presence _)) = 201"
| "call_status (Dispatches (Create_request _)) = 201"
| "call_status (Reviews _) = 201"
| "call_status (Incidents (Create_incident _)) = 201"
| "call_status (Sessions (Change_password _ _ _)) = 204"
| "call_status (Sessions (Revoke_session _)) = 204"
| "call_status (Sessions Revoke_other_sessions) = 204"
| "call_status _ = 200"

fun success_status :: "request \<Rightarrow> int" where
  "success_status (Authenticated _ c) = call_status c"
| "success_status (Auth (Register _ _ _)) = 201"
| "success_status (Auth (Verify_email _)) = 204"
| "success_status (Auth (Reset_password _ _ _)) = 204"
| "success_status (Auth (Logout _ _)) = 204"
| "success_status _ = 200"

text \<open>
  \<open>headers={"WWW-Authenticate": "Bearer"}\<close> of \<open>get_current_user\<close>, the only exception with headers. A refused body or
  parameter, which \<open>validated\<close> raises as 422, brings pydantic's list of errors.
\<close>

definition exception_headers :: "exc \<Rightarrow> (string \<times> string) list" where
  "exception_headers x = (if x = credentials_exception then [(''WWW-Authenticate'', ''Bearer'')] else [])"

definition outcome_of :: "request \<Rightarrow> py \<Rightarrow> exc + py \<Rightarrow> outcome" where
  "outcome_of q errors r =
     (case r of
        Inr v \<Rightarrow> Answered (success_status q) v
      | Inl x \<Rightarrow> if x = HTTPException 422 ''Unprocessable Entity'' then Refused errors
          else Failed x (exception_headers x))"

definition http :: "env \<Rightarrow> inbound \<Rightarrow> request \<Rightarrow> string \<Rightarrow> call_info \<Rightarrow> py \<Rightarrow> registry \<Rightarrow> (page \<times> registry) act" where
  "http e h q fresh c errors m = do {
     r \<leftarrow> reply e h q;
     State_Monad.return (respond fresh c (outcome_of q errors r) m)
   }"

end
