(* ===== verification/AnswerFacts.thy ===== *)
theory AnswerFacts
  imports Answers Demo
begin

text \<open>
  What the responses are and what they show: answering has the effect of serving, no page shows a stored hash,
  and what the page of a ride discloses.
\<close>

section \<open>Answering is serving\<close>

text \<open>
  \<open>m'\<close> does what \<open>m\<close> does and raises what it raises; beyond that it may only fail at the end, because its
  response does not fit its model.
\<close>

definition answers_for :: "py svc \<Rightarrow> unit svc \<Rightarrow> bool" where
  "answers_for m' m \<longleftrightarrow> (\<forall>w. snd (run_state m' w) = snd (run_state m w) \<and>
     (case fst (run_state m w) of
        Inl x \<Rightarrow> fst (run_state m' w) = Inl x
      | Inr _ \<Rightarrow> fst (run_state m' w) = Inl (ValidationError ''ResponseValidationError'') \<or>
          (\<exists>v. fst (run_state m' w) = Inr v)))"

named_theorems answering \<open>an endpoint's answer against its effect\<close>

definition fits_or_refused :: "exc + py \<Rightarrow> bool" where
  "fits_or_refused v \<longleftrightarrow> (case v of Inl x \<Rightarrow> x = ValidationError ''ResponseValidationError'' | Inr _ \<Rightarrow> True)"

lemma fits_related [answering]: "(\<And>x. fits_or_refused (f x)) \<Longrightarrow> fits_or_refused (related r f)"
  by (cases r) (auto simp: related_def fits_or_refused_def)

lemma fits_Inr [answering]: "fits_or_refused (Inr v)"
  by (simp add: fits_or_refused_def)

lemma fits_serialize:
  "(\<And>x. fits_or_refused (f x)) \<Longrightarrow>
     (case serialize_list f xs of Inl x \<Rightarrow> x = ValidationError ''ResponseValidationError'' | Inr _ \<Rightarrow> True)"
proof (induction xs)
  case (Cons x xs)
  from Cons.prems [of x] Cons.IH [OF Cons.prems] show ?case
    by (auto simp: fits_or_refused_def split: sum.splits)
qed simp

lemma fits_list [answering]:
  assumes "\<And>x. fits_or_refused (f x)"
  shows "fits_or_refused (map_sum id g (serialize_list f xs))" "fits_or_refused (list_of f xs)"
  using fits_serialize [where f = f and xs = xs, OF assms] by (auto simp: fits_or_refused_def list_of_def split: sum.splits)

lemma answers_answered [answering]:
  assumes "\<And>d x. fits_or_refused (f d x)"
  shows "answers_for (answered f m) (void m)"
  unfolding answers_for_def
proof (rule allI, goal_cases)
  case (1 w)
  obtain r w' where m: "run_state m w = (r, w')" by fastforce
  show ?case
  proof (cases r)
    case (Inl x)
    with m show ?thesis by (simp add: answered_def void_def)
  next
    case (Inr x)
    with m assms [of "db w'" x] show ?thesis
      by (auto simp: answered_def void_def fits_or_refused_def split: sum.splits)
  qed
qed

lemma answers_shown [answering]:
  "answers_for (shown f m) (void m)" "answers_for (shown_list g ml) (void ml)" "answers_for (shown_items g mi) (void mi)"
  "answers_for (shown_act a ma) (void_act ma)"
proof -
  show shown: "answers_for (shown f m) (void m)" for f :: "'x \<Rightarrow> py" and m
    unfolding shown_def by (rule answers_answered) (rule answering)
  show "answers_for (shown_list g ml) (void ml)" "answers_for (shown_items g mi) (void mi)"
    unfolding shown_list_def shown_items_def by (rule shown)+
  have "void (do { x \<leftarrow> ma; ok x }) = void_act ma" by (simp add: void_def void_act_def State_Monad.bind_assoc ok_def)
  then show "answers_for (shown_act a ma) (void_act ma)" unfolding shown_act_def using shown by metis
qed


text \<open>A service without a result, and the guards in front of an endpoint.\<close>

lemma answers_no_content [answering]: "answers_for (no_content m) m"
proof -
  have "void m = m" unfolding void_def
    by (rule state_ext) (auto simp: run_on_ok split: sum.splits prod.splits)
  with answers_shown(1) [of "\<lambda>_. PyNone" m] show ?thesis by (simp add: no_content_def)
qed

lemma answers_raise [answering]: "answers_for (raise x) (raise x)"
  by (simp add: answers_for_def)

lemma answers_bind [answering]:
  "(\<And>x. answers_for (k' x) (k x)) \<Longrightarrow> answers_for (do { x \<leftarrow> m; k' x }) (do { x \<leftarrow> m; k x })"
  unfolding answers_for_def
proof (rule allI, goal_cases)
  case (1 w)
  obtain x w' where "run_state m w = (x, w')" by fastforce
  with 1 [of x] show ?case by (auto split: sum.splits)
qed

lemma answers_on_ok [answering]: "(\<And>x. answers_for (k' x) (k x)) \<Longrightarrow> answers_for (on_ok r k') (on_ok r k)"
  by (cases r) (simp_all add: answers_raise)

lemma answers_if [answering]:
  "(b \<Longrightarrow> answers_for m' m) \<Longrightarrow> (\<not> b \<Longrightarrow> answers_for n' n) \<Longrightarrow> answers_for (if b then m' else n') (if b then m else n)"
  by simp

lemma answers_validated [answering]: "answers_for m' m \<Longrightarrow> answers_for (validated b m') (validated b m)"
  unfolding validated_def by (intro answering)

lemma answers_case_prod [answering]:
  "(\<And>a b. answers_for (m' a b) (m a b)) \<Longrightarrow> answers_for (case p of (a, b) \<Rightarrow> m' a b) (case p of (a, b) \<Rightarrow> m a b)"
  by (cases p) simp

lemma answers_rate_limit [answering]:
  "answers_for m' m \<Longrightarrow> answers_for (rate_limit_dependency s l n i m') (rate_limit_dependency s l n i m)"
  unfolding rate_limit_dependency_def Let_def by (intro answering)

lemma answers_limited [answering]:
  "answers_for m' m \<Longrightarrow> answers_for (ride_write e h m') (ride_write e h m)"
  "answers_for m' m \<Longrightarrow> answers_for (booking_write e h s m') (booking_write e h s m)"
  "answers_for m' m \<Longrightarrow> answers_for (ai_limited e h m') (ai_limited e h m)"
  unfolding ride_write_def booking_write_def ai_limited_def by (auto intro: answers_rate_limit)

text \<open>Every response that reads related rows.\<close>

lemma fits_case [answering]:
  "fits_or_refused v \<Longrightarrow> (\<And>y. fits_or_refused (f y)) \<Longrightarrow>
     fits_or_refused (case v of Inl x \<Rightarrow> Inl x | Inr y \<Rightarrow> f y)"
  by (cases v) (auto simp: fits_or_refused_def)

lemma fits_RideDetailResponse [answering]: "fits_or_refused (RideDetailResponse d r n us i)"
  unfolding RideDetailResponse_def by (intro answering)

lemma fits_booking_responses [answering]:
  "fits_or_refused (PassengerBookingResponse d b)" "fits_or_refused (DriverBookingResponse d b)"
  "fits_or_refused (BookingDetailResponse d v)"
  unfolding PassengerBookingResponse_def DriverBookingResponse_def BookingDetailResponse_def by (intro answering)+

lemma answers_rides [answering]: "answers_for (answer_rides e h u c) (serve_rides e h u c)"
  by (cases c) (auto intro!: answering)

lemma answers_bookings [answering]: "answers_for (answer_bookings e h u c) (serve_bookings e h u c)"
  by (cases c) (auto intro!: answering)

lemma answers_payments [answering]: "answers_for (answer_payments e u c) (serve_payments e u c)"
  by (cases c) (auto intro!: answering)

lemma answers_dispatch [answering]: "answers_for (answer_dispatch e u c) (serve_dispatch e u c)"
  by (cases c) (auto intro!: answering)

lemma answers_chat [answering]: "answers_for (answer_chat e h u c) (serve_chat e h u c)"
  by (cases c) (auto intro!: answering)

lemma answers_review [answering]: "answers_for (answer_review e h u q) (serve_review e h u q)"
  unfolding answer_review_def serve_review_def by (intro answering)

lemma answers_profile [answering]: "answers_for (shown f (ok u)) (ok ())"
  using answers_shown(1) [of f "ok u"] by (simp add: void_def ok_def)

lemma answers_users [answering]: "answers_for (answer_users u c) (serve_users u c)"
  by (cases c) (auto intro!: answering)

lemma answers_notifications [answering]: "answers_for (answer_notifications u c) (serve_notifications u c)"
  by (cases c) (auto intro!: answering)

lemma answers_incidents [answering]: "answers_for (answer_incidents u c) (serve_incidents u c)"
  by (cases c) (auto intro!: answering)

lemma answers_audit [answering]: "answers_for (answer_audit e u c) (serve_audit u c)"
  by (cases c) (auto intro!: answering)

lemma answers_no_body [answering]: "answers_for (shown_act f m) (do { m; ok () })"
  using answers_shown(4) [of f m] by (simp add: void_act_def)

lemma answers_sessions [answering]: "answers_for (answer_sessions e token u c) (serve_sessions e token u c)"
  by (cases c) (auto intro!: answering)

lemma answers_auth [answering]: "answers_for (answer_auth e h c) (serve_auth e h c)"
  by (cases c) (auto intro!: answering)

lemma answers_support [answering]: "answers_for (answer_support e q c) (serve_support e q c)"
  by (cases c) (auto intro!: answering)

lemma answers_assistant [answering]: "answers_for (answer_assistant e h u c) (serve_assistant e h u c)"
  by (cases c) (auto intro!: answering)

lemma answers_call [answering]: "answers_for (answer_call e h token u c) (serve_call e h token u c)"
  by (cases c) (simp_all add: answering)

lemma answers_serve: "answers_for (answer e h q) (serve e h q)"
  by (cases q) (auto intro!: answering)

lemma answers_in_session: "answers_for m' m \<Longrightarrow> answers_for (in_session m') (in_session m)"
  unfolding answers_for_def
proof (rule allI, goal_cases)
  case (1 w)
  obtain r v r' v' where "run_state m (w\<lparr>db := durable w\<rparr>) = (r, v)" "run_state m' (w\<lparr>db := durable w\<rparr>) = (r', v')"
    by fastforce
  with 1 [THEN spec, of "w\<lparr>db := durable w\<rparr>"] show ?case
    by (cases r) (auto simp: in_session_def)
qed

text \<open>The response model and the effect model of the HTTP interface agree on every request and every world:
  answering leaves the world that serving leaves and raises the exception that serving raises; when serving
  succeeds, the answer is a body, or the refusal of a body that does not fit its response model.\<close>

theorem reply_serves:
  "snd (run_state (reply e h q) w) = snd (run_state (handle_request e h q) w) \<and>
   (case fst (run_state (handle_request e h q) w) of
      Inl x \<Rightarrow> fst (run_state (reply e h q) w) = Inl x
    | Inr _ \<Rightarrow> fst (run_state (reply e h q) w) = Inl (ValidationError ''ResponseValidationError'') \<or>
        (\<exists>v. fst (run_state (reply e h q) w) = Inr v))"
  using answers_in_session [OF answers_serve, of e h q] unfolding reply_def handle_request_def answers_for_def by blast

section \<open>The stored hashes\<close>

text \<open>The hashes of passwords, boarding codes and share tokens, and a world without them.\<close>

definition hide_user :: "user \<Rightarrow> user" where
  "hide_user u = u\<lparr>u_hashed_password := []\<rparr>"

definition hide_booking :: "booking \<Rightarrow> booking" where
  "hide_booking b = b\<lparr>b_boarding_otp_hash := None, b_share_token_hash := None\<rparr>"

definition hide_rows :: "('r \<Rightarrow> 'r) \<Rightarrow> 'r table \<Rightarrow> 'r table" where
  "hide_rows f t = t\<lparr>rows := map f (rows t)\<rparr>"

definition hide_hashes :: "database \<Rightarrow> database" where
  "hide_hashes d = d\<lparr>users_t := hide_rows hide_user (users_t d), bookings_t := hide_rows hide_booking (bookings_t d)\<rparr>"

definition hidden :: "world \<Rightarrow> world" where
  "hidden w = w\<lparr>db := hide_hashes (db w), durable := hide_hashes (durable w)\<rparr>"

named_theorems hiding \<open>what is left when the hashes are hidden\<close>

lemma hide_user_sel [hiding]:
  "u_id (hide_user u) = u_id u" "u_full_name (hide_user u) = u_full_name u" "u_email (hide_user u) = u_email u"
  "u_role (hide_user u) = u_role u" "u_failed_login_attempts (hide_user u) = u_failed_login_attempts u"
  "u_locked_until (hide_user u) = u_locked_until u" "u_phone_number (hide_user u) = u_phone_number u"
  "u_driver_verification_status (hide_user u) = u_driver_verification_status u"
  "u_vehicle_plate_number (hide_user u) = u_vehicle_plate_number u" "u_created_at (hide_user u) = u_created_at u"
  "u_driver_profile_submitted_at (hide_user u) = u_driver_profile_submitted_at u"
  by (simp_all add: hide_user_def)

lemma hide_booking_sel [hiding]:
  "b_id (hide_booking b) = b_id b" "b_ride_id (hide_booking b) = b_ride_id b"
  "b_passenger_id (hide_booking b) = b_passenger_id b" "b_status (hide_booking b) = b_status b"
  "b_boarded_at (hide_booking b) = b_boarded_at b" "b_created_at (hide_booking b) = b_created_at b"
  by (simp_all add: hide_booking_def)

lemma rows_hide [hiding]:
  "rows (hide_rows f t) = map f (rows t)"
  "rows (users_t (hide_hashes d)) = map hide_user (rows (users_t d))"
  "rows (bookings_t (hide_hashes d)) = map hide_booking (rows (bookings_t d))"
  "rides_t (hide_hashes d) = rides_t d" "ride_locations_t (hide_hashes d) = ride_locations_t d"
  "payments_t (hide_hashes d) = payments_t d" "messages_t (hide_hashes d) = messages_t d"
  "notifications_t (hide_hashes d) = notifications_t d" "incidents_t (hide_hashes d) = incidents_t d"
  "audit_logs_t (hide_hashes d) = audit_logs_t d"
  by (simp_all add: hide_hashes_def hide_rows_def)

lemma hidden_sel [hiding]:
  "db (hidden w) = hide_hashes (db w)" "clock (hidden w) = clock w" "tokens (hidden w) = tokens w"
  "durable (hidden w) = hide_hashes (durable w)"
  by (simp_all add: hidden_def)

text \<open>Queries do not see the difference.\<close>

lemma insort_map: "(\<And>x. f (g x) = f x) \<Longrightarrow> insort_key f (g x) (map g xs) = map g (insort_key f x xs)"
  by (induction xs) auto

lemma sort_map: "(\<And>x. f (g x) = f x) \<Longrightarrow> sort_key f (map g xs) = map g (sort_key f xs)"
  by (induction xs) (auto simp: insort_map)

lemma order_map [hiding]:
  assumes "\<And>x. f (g x) = f x"
  shows "order_desc f (map g xs) = map g (order_desc f xs)" "order_asc f (map g xs) = map g (order_asc f xs)"
  using assms by (simp_all add: order_desc_def order_asc_def sort_map)

lemma paginate_map [hiding]: "paginate offset limit (map g xs) = map g (paginate offset limit xs)"
  by (simp add: paginate_def take_map drop_map)

lemma find_map_id [hiding]: "(\<And>x. P (g x) = P x) \<Longrightarrow> find P (map g xs) = map_option g (find P xs)"
  by (induction xs) auto

lemma get_hidden [hiding]:
  "get_user i (hide_hashes d) = map_option hide_user (get_user i d)"
  "get_booking i (hide_hashes d) = map_option hide_booking (get_booking i d)"
  "get_ride i (hide_hashes d) = get_ride i d" "get_incident i (hide_hashes d) = get_incident i d"
  "get_payment i (hide_hashes d) = get_payment i d"
  by (simp_all add: get_user_def get_booking_def get_ride_def get_incident_def get_payment_def table_get_def
      hide_hashes_def hide_rows_def find_map_id hiding)

lemma ride_of_hidden [hiding]:
  "ride_of (hide_booking b) d = ride_of b d" "ride_of b (hide_hashes d) = ride_of b d"
  "on_ride P (hide_hashes d) b = on_ride P d b" "on_ride P d (hide_booking b) = on_ride P d b"
  by (simp_all add: ride_of_def on_ride_def hiding)

lemma filter_map_id [hiding]: "(\<And>x. P (g x) = P x) \<Longrightarrow> filter P (map g xs) = map g (filter P xs)"
  by (induction xs) auto

lemma booking_queries_hidden [hiding]:
  "bookings_of_ride i (hide_hashes d) = map hide_booking (bookings_of_ride i d)"
  "accepted_bookings i (hide_hashes d) = map hide_booking (accepted_bookings i d)"
  "bookings_by_passenger i st l f (hide_hashes d) = map hide_booking (bookings_by_passenger i st l f d)"
  "bookings_for_driver i st l f (hide_hashes d) = map hide_booking (bookings_for_driver i st l f d)"
  "has_accepted_booking i j (hide_hashes d) = has_accepted_booking i j d"
  by (simp_all add: bookings_of_ride_def accepted_bookings_def bookings_by_passenger_def
      bookings_for_driver_def has_accepted_booking_def hiding list_ex_iff)

lemma operations_hidden [hiding]:
  "bookings_for_operations st x y z bo l f (hide_hashes d) = map hide_booking (bookings_for_operations st x y z bo l f d)"
  by (cases bo) (simp_all add: bookings_for_operations_def hiding)

lemma user_queries_hidden [hiding]:
  "search_users em (hide_hashes d) = map hide_user (search_users em d)"
  "list_driver_verifications st em pl l f (hide_hashes d) = map hide_user (list_driver_verifications st em pl l f d)"
  "list_pending_driver_verifications l f (hide_hashes d) = map hide_user (list_pending_driver_verifications l f d)"
  by (simp_all add: search_users_def list_driver_verifications_def list_pending_driver_verifications_def Let_def
      hiding take_map partition_filter_conv o_def map_append [symmetric] del: map_append)

lemma passengers_hidden [hiding]:
  "passengers_of (map hide_booking bs) (hide_hashes d) = map hide_user (passengers_of bs d)"
  by (induction bs) (auto simp: passengers_of_def List.map_filter_simps hiding split: option.splits)

lemma other_queries_hidden [hiding]:
  "rides_by_driver i st l f (hide_hashes d) = rides_by_driver i st l f d"
  "get_latest_location i (hide_hashes d) = get_latest_location i d"
  "list_locations i l (hide_hashes d) = list_locations i l d"
  "search_rides sp (hide_hashes d) = search_rides sp d"
  "payments_for_user i l f (hide_hashes d) = payments_for_user i l f d"
  "payment_by_booking_id i (hide_hashes d) = payment_by_booking_id i d"
  "payments_for_operations pst pr x y l f (hide_hashes d) = payments_for_operations pst pr x y l f d"
  "messages_by_booking i (hide_hashes d) = messages_by_booking i d"
  "notifications_for_user i r ty l f (hide_hashes d) = notifications_for_user i r ty l f d"
  "count_unread i (hide_hashes d) = count_unread i d"
  "incidents_for_reporter i l f (hide_hashes d) = incidents_for_reporter i l f d"
  "incidents_for_support ist x y z l f (hide_hashes d) = incidents_for_support ist x y z l f d"
  "audit_logs_for_user i l f (hide_hashes d) = audit_logs_for_user i l f d"
  "audit_logs_for_entity t k p l f (hide_hashes d) = audit_logs_for_entity t k p l f d"
  "count_audit_for_user i (hide_hashes d) = count_audit_for_user i d"
  "counts_by_action_for_user i (hide_hashes d) = counts_by_action_for_user i d"
  "counts_by_severity_for_user i (hide_hashes d) = counts_by_severity_for_user i d"
  by (simp_all add: rides_by_driver_def get_latest_location_def list_locations_def newest_locations_def search_rides_def
      search_rides_query_def payments_for_user_def payment_by_booking_id_def payments_for_operations_def
      messages_by_booking_def notifications_for_user_def count_unread_def incidents_for_reporter_def
      incidents_for_support_def audit_logs_for_user_def audit_logs_for_entity_def count_audit_for_user_def
      counts_by_action_for_user_def counts_by_severity_for_user_def counts_by_def hiding)


text \<open>Responses do not show it.\<close>

lemma responses_hidden [hiding]:
  "UserResponse (hide_user u) = UserResponse u" "user_fields (hide_user u) = user_fields u"
  "PassengerSummary (hide_user u) = PassengerSummary u"
  "DriverVerificationResponse (hide_user u) = DriverVerificationResponse u"
  "booking_response (hide_booking b) = booking_response b"
  "build_status_events (hide_booking b) = build_status_events b"
  by (simp_all add: UserResponse_def user_fields_def driver_profile_fields_def PassengerSummary_def hide_user_def
      DriverVerificationResponse_def booking_response_def hide_booking_def build_status_events_def)

lemma related_hidden [hiding]: "related (map_option g r) f = related r (\<lambda>x. f (g x))"
  by (cases r) (simp_all add: related_def)

lemma serialize_map [hiding]: "serialize_list f (map g xs) = serialize_list (\<lambda>x. f (g x)) xs"
  by (induction xs) (auto split: sum.split)

lemma detail_hidden [hiding]:
  "RideDetailResponse (hide_hashes d) r n (map hide_user us) i = RideDetailResponse d r n us i"
  "PassengerBookingResponse (hide_hashes d) (hide_booking b) = PassengerBookingResponse d b"
  "DriverBookingResponse (hide_hashes d) (hide_booking b) = DriverBookingResponse d b"
  by (simp_all add: RideDetailResponse_def PassengerBookingResponse_def DriverBookingResponse_def hiding o_def)

lemma booking_detail_hidden [hiding]:
  "BookingDetailResponse (hide_hashes d) \<lparr>bd_booking = hide_booking b, bd_ride = r, bd_booked_passengers = n,
     bd_passengers = map hide_user us, bd_booking_id = i, bd_driver = map_option hide_user dr, bd_status_events = evs\<rparr> =
   BookingDetailResponse d \<lparr>bd_booking = b, bd_ride = r, bd_booked_passengers = n,
     bd_passengers = us, bd_booking_id = i, bd_driver = dr, bd_status_events = evs\<rparr>"
  by (simp add: BookingDetailResponse_def hiding split: sum.split)

lemma support_user_hidden [hiding]:
  "SupportUserResponse e (user_response (hide_user u) (hide_hashes d)) = SupportUserResponse e (user_response u d)"
  "summarize_my_audit_logs (hide_user u) n d = summarize_my_audit_logs u n d"
  "summarize_my_audit_logs u n (hide_hashes d) = summarize_my_audit_logs u n d"
  by (simp_all add: SupportUserResponse_def user_response_def summarize_my_audit_logs_def list_entity_audit_logs_def hiding)


section \<open>The pages\<close>

text \<open>\<open>m'\<close> is \<open>m\<close> on hidden hashes: it returns the same and leaves the same.\<close>

definition same_on :: "'a act \<Rightarrow> 'a act \<Rightarrow> bool" where
  "same_on m m' \<longleftrightarrow> (\<forall>w. run_state m' (hidden w) = (fst (run_state m w), hidden (snd (run_state m w))))"

abbreviation blind :: "'a act \<Rightarrow> bool" where
  "blind m \<equiv> same_on m m"

named_theorems seeing \<open>actions that do not see the stored hashes\<close>

lemma same_validated [seeing]: "same_on m m' \<Longrightarrow> same_on (validated b m) (validated b m')"
  by (simp add: same_on_def validated_def)

lemmas page_defs = answered_def shown_def shown_list_def shown_items_def shown_act_def same_on_def validated_def hiding

lemma my_rides_page [seeing]:
  "same_on (answer_rides e h u (List_my_rides st l f)) (answer_rides e h (hide_user u) (List_my_rides st l f))"
  by (cases "normalized_status st") (simp_all add: page_defs list_driver_rides_def)

lemma ride_pages [seeing]:
  "same_on (answer_rides e h u (Ride_detail i)) (answer_rides e h (hide_user u) (Ride_detail i))"
  "same_on (answer_rides e h u (Latest_ride_location i)) (answer_rides e h (hide_user u) (Latest_ride_location i))"
  "same_on (answer_rides e h u (Ride_location_history i n)) (answer_rides e h (hide_user u) (Ride_location_history i n))"
  "same_on (answer_rides e h u (Ride_location_access i)) (answer_rides e h (hide_user u) (Ride_location_access i))"
  by (simp_all add: page_defs get_ride_detail_def option.map_comp o_def list_location_history_def
      latest_location_for_def ensure_location_access_def get_location_access_def Let_def split: option.splits)

lemma booking_pages [seeing]:
  "same_on (answer_bookings e h u (List_my_bookings st l f)) (answer_bookings e h (hide_user u) (List_my_bookings st l f))"
  "same_on (answer_bookings e h u (List_managed_bookings st l f)) (answer_bookings e h (hide_user u) (List_managed_bookings st l f))"
  "same_on (answer_bookings e h u (Booking_detail i)) (answer_bookings e h (hide_user u) (Booking_detail i))"
  by (simp_all add: page_defs list_passenger_bookings_def list_driver_bookings_def list_of_def get_booking_detail_def
      deref_def Let_def split: option.splits)

lemma user_pages [seeing]:
  "same_on (answer_users u Get_profile) (answer_users (hide_user u) Get_profile)"
  "same_on (answer_users u Get_driver_profile) (answer_users (hide_user u) Get_driver_profile)"
  by (simp_all add: page_defs get_driver_verification_profile_def ensure_driver_def)

lemma message_page [seeing]:
  "same_on (answer_chat e h u (List_messages i)) (answer_chat e h (hide_user u) (List_messages i))"
  by (simp add: page_defs list_messages_def ensure_booking_access_def deref_def split: option.split)

lemma other_pages [seeing]:
  "same_on (answer_notifications u (List_notifications r ty l f)) (answer_notifications (hide_user u) (List_notifications r ty l f))"
  "same_on (answer_incidents u (List_my_incidents l f)) (answer_incidents (hide_user u) (List_my_incidents l f))"
  "same_on (answer_incidents u (Get_my_incident i)) (answer_incidents (hide_user u) (Get_my_incident i))"
  "same_on (answer_audit e u (List_my_audit_logs l f)) (answer_audit e (hide_user u) (List_my_audit_logs l f))"
  "same_on (answer_audit e u Audit_summary) (answer_audit e (hide_user u) Audit_summary)"
  by (simp_all add: page_defs list_notifications_def list_my_incidents_def get_my_incident_def list_my_audit_logs_def
      split: option.split)

lemma session_pages [seeing]:
  "same_on (answer_sessions e t u List_sessions) (answer_sessions e t (hide_user u) List_sessions)"
  "same_on (answer_sessions e t u Account_security) (answer_sessions e t (hide_user u) Account_security)"
  by (simp_all add: page_defs list_account_sessions_def account_security_def Let_def)

text \<open>The rules for an action that is more than a query.\<close>

lemma same_return [seeing]: "blind (State_Monad.return x)" "blind (ok y)" "blind (raise z)"
  by (simp_all add: same_on_def)

lemma same_gets [seeing]: "(\<And>w. g (hidden w) = g w) \<Longrightarrow> blind (gets g)"
  by (simp add: same_on_def)

lemma same_modify [seeing]: "(\<And>w. g (hidden w) = hidden (g w)) \<Longrightarrow> blind (modify g)"
  by (simp add: same_on_def)

lemma same_session [seeing]: "blind commit" "blind rollback"
  by (simp_all add: same_on_def hidden_def)

lemma same_write_db [seeing]: "(\<And>d. g (hide_hashes d) = hide_hashes (g d)) \<Longrightarrow> blind (write_db g)"
  by (simp add: same_on_def hidden_def)

lemma same_bind_db [seeing]:
  "(\<And>d. same_on (k d) (k' (hide_hashes d))) \<Longrightarrow> same_on (State_Monad.bind (gets db) k) (State_Monad.bind (gets db) k')"
  by (simp add: same_on_def hiding)

lemma same_bind:
  assumes "same_on m m'" and "\<And>x. same_on (k x) (k' x)"
  shows "same_on (State_Monad.bind m k) (State_Monad.bind m' k')"
  using assms by (auto simp: same_on_def split: prod.splits)

lemma same_on_ok [seeing]: "(\<And>x. same_on (k x) (k' x)) \<Longrightarrow> same_on (on_ok r k) (on_ok r k')"
  by (cases r) (simp_all add: same_on_def)

lemma same_case_option [seeing]:
  "same_on m m' \<Longrightarrow> (\<And>x. same_on (k x) (k' x)) \<Longrightarrow>
     same_on (case r of None \<Rightarrow> m | Some x \<Rightarrow> k x) (case r of None \<Rightarrow> m' | Some x \<Rightarrow> k' x)"
  by (cases r) simp_all

lemma same_deref [seeing]: "(\<And>x. same_on (k x) (k' x)) \<Longrightarrow> same_on (deref r k) (deref r k')"
  by (cases r) (simp_all add: same_return)

lemma same_if [seeing]: "same_on m m' \<Longrightarrow> same_on n n' \<Longrightarrow> same_on (if b then m else n) (if b then m' else n')"
  by simp

lemma same_for_each_ok [seeing]: "(\<And>x. blind (k x)) \<Longrightarrow> blind (for_each_ok k xs)"
  by (induction xs) (auto intro!: seeing same_bind)

lemma same_shown [seeing]:
  assumes "same_on m m'"
  shows "same_on (shown f m) (shown f m')"
  unfolding shown_def answered_def by (rule same_bind [OF assms]) (auto intro!: seeing)

lemma same_shown_lists [seeing]:
  "same_on m m' \<Longrightarrow> same_on (shown_list f m) (shown_list f m')"
  "same_on m m' \<Longrightarrow> same_on (shown_items f m) (shown_items f m')"
  unfolding shown_list_def shown_items_def by (rule same_shown, assumption)+

lemma deref_hidden [hiding]: "deref (map_option g r) k = deref r (\<lambda>x. k (g x))"
  by (cases r) simp_all

lemma same_payment_access [seeing]:
  "same_on (ensure_payment_access p u) (ensure_payment_access p (hide_user u))"
  "same_on (get_accessible_payment i u) (get_accessible_payment i (hide_user u))"
proof -
  show access: "same_on (ensure_payment_access p u) (ensure_payment_access p (hide_user u))" for p
    unfolding ensure_payment_access_def by (auto simp: hiding intro!: seeing)
  show "same_on (get_accessible_payment i u) (get_accessible_payment i (hide_user u))"
    unfolding get_accessible_payment_def by (auto simp: hiding intro!: seeing access)
qed

lemma blind_decorate [seeing]: "blind (decorate_payment e p)" "blind (decorate_payments e ps)"
proof -
  show one: "blind (decorate_payment e p)" for p unfolding decorate_payment_def by (auto intro!: seeing)
  show "blind (decorate_payments e ps)" by (induction ps) (auto intro!: seeing same_bind one)
qed

lemma payment_pages [seeing]:
  "same_on (answer_payments e u (List_my_payments l f)) (answer_payments e (hide_user u) (List_my_payments l f))"
  "same_on (answer_payments e u (Get_booking_payment i)) (answer_payments e (hide_user u) (Get_booking_payment i))"
  "same_on (answer_payments e u (Get_payment i)) (answer_payments e (hide_user u) (Get_payment i))"
  by (auto simp: payment_service_def list_my_payments_def get_booking_payment_def get_payment_for_user_def hiding
      intro!: seeing same_bind)

text \<open>The pages of the dispatch expire requests and presences as they are read.\<close>

lemma dispatch_queries_hidden [hiding]:
  "get_driver_availability i (hide_hashes d) = get_driver_availability i d"
  "list_expirable_open_requests now l (hide_hashes d) = list_expirable_open_requests now l d"
  "requests_by_passenger i st l f (hide_hashes d) = requests_by_passenger i st l f d"
  "nearby_requests e v l (hide_hashes d) = nearby_requests e v l d"
  "availability_t (hide_hashes d) = availability_t d"
  "put_request q (hide_hashes d) = hide_hashes (put_request q d)"
  "put_availability v (hide_hashes d) = hide_hashes (put_availability v d)"
  "add_availability v (hide_hashes d) = hide_hashes (add_availability v d)"
  by (simp_all add: get_driver_availability_def list_expirable_open_requests_def requests_by_passenger_def
      nearby_requests_def list_open_requests_def is_dismissed_def put_request_def put_availability_def
      add_availability_def hide_hashes_def)

lemma hidden_updates [hiding]:
  "hidden w\<lparr>publish_log := l\<rparr> = hidden (w\<lparr>publish_log := l\<rparr>)" "hidden w\<lparr>counters := c\<rparr> = hidden (w\<lparr>counters := c\<rparr>)"
  "hidden w\<lparr>jobs := q\<rparr> = hidden (w\<lparr>jobs := q\<rparr>)"
  "publish_log (hidden w) = publish_log w" "counters (hidden w) = counters w" "jobs (hidden w) = jobs w"
  by (simp_all add: hidden_def)

lemma nearby_drivers_hidden [hiding]:
  "list_nearby_online_driver_ids e q (hide_hashes d) = list_nearby_online_driver_ids e q d"
  by (simp add: list_nearby_online_driver_ids_def hiding)

lemma same_for_each [seeing]: "(\<And>x. blind (k x)) \<Longrightarrow> blind (for_each k xs)"
  by (induction xs) (auto intro!: seeing same_bind)

lemma blind_publish [seeing]: "blind (publish e c m)"
  unfolding publish_def redis_publish_def Let_def
  by (auto simp: hiding intro!: seeing same_bind split: redis_reply.split)

lemma blind_announcements [seeing]:
  "blind (publish_nearby_request_removed e q s)" "blind (publish_passenger_event e i m)"
  "blind (record_dispatch_event a n)" "blind (enqueue_dispatch_notification e i ty t b)"
  unfolding publish_nearby_request_removed_def publish_passenger_event_def publish_driver_event_def
    record_dispatch_event_def record_dispatch_def enqueue_dispatch_notification_def new_job_def enqueue_def
    record_event_def put_job_def set_jobs_def Let_def
  by (auto simp: hiding intro!: seeing same_bind)

lemma blind_expiry [seeing]: "blind (expire_request e q)" "blind (expire_stale_open_requests e n)"
proof -
  show one: "blind (expire_request e q)" for q
    unfolding expire_request_def request_save_def by (auto simp: hiding intro!: seeing same_bind)
  show "blind (expire_stale_open_requests e n)"
    unfolding expire_stale_open_requests_def Let_def by (auto simp: hiding intro!: seeing same_bind one)
qed

lemma blind_presence [seeing]: "blind (upsert_driver_availability v)" "blind (get_fresh_driver_availability e i)"
proof -
  show one: "blind (upsert_driver_availability v)" for v
    unfolding upsert_driver_availability_def flush_def Let_def by (auto simp: hiding intro!: seeing same_bind)
  show "blind (get_fresh_driver_availability e i)"
    unfolding get_fresh_driver_availability_def by (auto simp: hiding intro!: seeing same_bind one)
qed

lemma dispatch_pages [seeing]:
  "same_on (answer_dispatch e u Get_presence) (answer_dispatch e (hide_user u) Get_presence)"
  "same_on (answer_dispatch e u (List_my_requests qst)) (answer_dispatch e (hide_user u) (List_my_requests qst))"
  "same_on (answer_dispatch e u (List_nearby_requests n)) (answer_dispatch e (hide_user u) (List_nearby_requests n))"
  by (auto simp: get_driver_presence_def list_my_requests_def list_nearby_requests_def ensure_verified_for_dispatch_def hiding
      intro!: seeing same_bind)

lemma support_pages [seeing]:
  "blind (answer_support e q (Support_get_user i))" "blind (answer_support e q (Support_search_users em))"
  "blind (answer_support e q (Support_list_driver_verifications st em pl l f))"
  "blind (answer_support e q (Support_list_pending l f))"
  "blind (answer_support e q (Support_list_incidents ist x y z l f))"
  "blind (answer_support e q (Support_list_payments pst pr x y l f))"
  "blind (answer_support e q (Support_list_bookings bst x y z bo l f))"
  by (simp_all add: page_defs support_get_user_def support_search_users_def support_driver_verifications_def
      support_pending_driver_verifications_def list_incidents_for_support_def support_list_payments_def
      support_list_bookings_def require_support_auth_def o_def split: option.split)


text \<open>The requests that read: the pages of a user, of support and of the public, but for the shared trip, which is
  looked up by a hash.\<close>

fun reads :: "call \<Rightarrow> bool" where
  "reads (Rides (List_my_rides _ _ _)) = True"
| "reads (Rides (Ride_detail _)) = True"
| "reads (Rides (Latest_ride_location _)) = True"
| "reads (Rides (Ride_location_history _ _)) = True"
| "reads (Rides (Ride_location_access _)) = True"
| "reads (Bookings (List_my_bookings _ _ _)) = True"
| "reads (Bookings (List_managed_bookings _ _ _)) = True"
| "reads (Bookings (Booking_detail _)) = True"
| "reads (Payments (List_my_payments _ _)) = True"
| "reads (Payments (Get_booking_payment _)) = True"
| "reads (Payments (Get_payment _)) = True"
| "reads (Dispatches Get_presence) = True"
| "reads (Dispatches (List_my_requests _)) = True"
| "reads (Dispatches (List_nearby_requests _)) = True"
| "reads (Chats (List_messages _)) = True"
| "reads (Users Get_profile) = True"
| "reads (Users Get_driver_profile) = True"
| "reads (Notifications (List_notifications _ _ _ _)) = True"
| "reads (Incidents (List_my_incidents _ _)) = True"
| "reads (Incidents (Get_my_incident _)) = True"
| "reads (Audits (List_my_audit_logs _ _)) = True"
| "reads (Audits Audit_summary) = True"
| "reads (Sessions List_sessions) = True"
| "reads (Sessions Account_security) = True"
| "reads _ = False"

fun is_page :: "request \<Rightarrow> bool" where
  "is_page (Authenticated _ c) = reads c"
| "is_page (Support _ c) = (case c of Support_review_driver _ _ _ \<Rightarrow> False | Support_update_incident _ _ _ \<Rightarrow> False
     | Support_reconcile_payment _ \<Rightarrow> False | _ \<Rightarrow> True)"
| "is_page (Search_rides _) = True"
| "is_page _ = False"

lemma same_current_user [seeing]:
  "(\<And>u. same_on (k u) (k' (hide_user u))) \<Longrightarrow>
     same_on (State_Monad.bind (get_current_user e token) (\<lambda>r. on_ok r k))
       (State_Monad.bind (get_current_user e token) (\<lambda>r. on_ok r k'))"
  by (auto simp: get_current_user_def hiding same_on_def Let_def
      split: option.split sum.split exc.split)

lemma same_call: "reads c \<Longrightarrow> same_on (answer_call e h token u c) (answer_call e h token (hide_user u) c)"
  by (cases c rule: reads.cases) (simp_all add: seeing del: answer_rides.simps answer_bookings.simps answer_payments.simps
      answer_dispatch.simps answer_chat.simps answer_users.simps answer_notifications.simps answer_incidents.simps
      answer_audit.simps answer_sessions.simps)

lemma same_support: "is_page (Support q c) \<Longrightarrow> blind (answer_support e q c)"
  by (cases c) (simp_all add: seeing del: answer_support.simps)

lemma same_search: "blind (answer e h (Search_rides p))"
  by (auto simp: hiding intro!: seeing)

lemma same_answer:
  assumes "is_page q"
  shows "blind (answer e h q)"
proof (cases q)
  case (Authenticated token c)
  with assms show ?thesis by (auto intro!: same_validated same_current_user same_call)
next
  case (Support s c)
  with same_support [of s c e] assms show ?thesis by simp
qed (use assms same_search in simp_all)

lemma pages_hide:
  assumes "is_page q" and "hidden w = hidden w'"
  shows "fst (run_state (reply e h q) w) = fst (run_state (reply e h q) w') \<and>
    hidden (snd (run_state (reply e h q) w)) = hidden (snd (run_state (reply e h q) w'))"
proof -
  have "blind (reply e h q)" unfolding reply_def in_session_def
    by (auto intro!: seeing same_bind same_answer [OF assms(1)])
  then have "run_state (reply e h q) (hidden v) = (fst (run_state (reply e h q) v), hidden (snd (run_state (reply e h q) v)))"
    for v by (simp add: same_on_def)
  from this [of w] this [of w'] assms(2) show ?thesis by simp
qed

text \<open>C30. Two worlds that differ in nothing but the stored hashes (of passwords, boarding codes and share tokens) are
  the same to a reader: every page of a user, of support and of the ride search has the same body or the same
  error in both, and what reading leaves behind (expired requests, stale presences, events, queued jobs) again
  differs in the hashes only. So no page, list or search tells anything about them. The page of a shared trip is not among
  them: it is found by the hash of its token.\<close>

theorem pages_hide_hashes:
  assumes "is_page q" and "hidden w = hidden w'"
  shows "fst (run_state (reply e h q) w) = fst (run_state (reply e h q) w') \<and>
    hidden (snd (run_state (reply e h q) w)) = hidden (snd (run_state (reply e h q) w'))"
  using assms by (rule pages_hide)

text \<open>Pat's booking with and without a boarding code, and the page of Dan's ride.\<close>

definition coded_booking :: booking where
  "coded_booking = (demo_booking 1 2 BAccepted)\<lparr>b_boarding_otp_hash := Some ''1:123456''\<rparr>"

theorem pages_hide_hashes_witness:
  "fst (run_state (reply demo_env demo_inbound (Authenticated ''3'' (Rides (Ride_detail 1)))) (demo_world [coded_booking] [])) =
     fst (run_state (reply demo_env demo_inbound (Authenticated ''3'' (Rides (Ride_detail 1))))
       (demo_world [demo_booking 1 2 BAccepted] [])) \<and>
   demo_world [coded_booking] [] \<noteq> demo_world [demo_booking 1 2 BAccepted] []"
  using pages_hide_hashes [of "Authenticated ''3'' (Rides (Ride_detail 1))" "demo_world [coded_booking] []"
      "demo_world [demo_booking 1 2 BAccepted] []" demo_env demo_inbound]
  by (simp add: demo coded_booking_def hidden_def hide_hashes_def hide_rows_def hide_booking_def)

section \<open>What the page of a ride discloses\<close>

text \<open>
  Whoever is logged in, driver or passenger, with or without a booking: the page of any ride has the whole profile of its
  driver (e-mail address, telephone number, licence number, failed logins and lock among them) and the name, e-mail address and
  telephone number of every accepted passenger.
\<close>

theorem ride_page_discloses:
  assumes user: "run_state (get_current_user e token) (w\<lparr>db := durable w\<rparr>) = (Inr u, w\<lparr>db := durable w\<rparr>)"
    and ride: "get_ride i (durable w) = Some r" and driver: "get_user (r_driver_id r) (durable w) = Some v"
  shows "\<exists>fields. fst (run_state (reply e h (Authenticated token (Rides (Ride_detail i)))) w) = Inr (PyDict fields) \<and>
    (''driver'', UserResponse v) \<in> set fields \<and>
    (''passengers'', PyList (map PassengerSummary (passengers_of (accepted_bookings i (durable w)) (durable w)))) \<in> set fields"
proof -
  from ride_store.get_key [OF ride] have "r_id r = i" .
  with assms show ?thesis
    by (simp add: reply_def in_session_def answered_def get_ride_detail_def RideDetailResponse_def related_def Let_def)
qed

text \<open>Pia, who has no seat, reads Pat's name and e-mail address.\<close>

theorem ride_page_discloses_witness:
  "\<exists>fields. fst (run_state (reply demo_env demo_inbound (Authenticated ''3'' (Rides (Ride_detail 1))))
       (demo_world [demo_booking 1 2 BAccepted] [])) = Inr (PyDict fields) \<and>
     (''driver'', UserResponse dan) \<in> set fields \<and> (''passengers'', PyList [PassengerSummary pat]) \<in> set fields"
proof -
  have three: "parse_int ''3'' = Some 3" by code_simp
  let ?w = "demo_world [demo_booking 1 2 BAccepted] []"
  have "run_state (get_current_user demo_env ''3'') (?w\<lparr>db := durable ?w\<rparr>) = (Inr pia, ?w\<lparr>db := durable ?w\<rparr>)"
    by (simp add: demo handling three)
  from ride_page_discloses [OF this, of 1 demo_ride dan demo_inbound] show ?thesis
    by (simp add: demo accepted_bookings_def bookings_of_ride_def passengers_of_def List.map_filter_simps)
qed

end
