(* ===== verification/HttpFacts.thy ===== *)
theory HttpFacts
  imports Http AnswerFacts OperationsFacts
begin

text \<open>What a client may conclude from the page it gets.\<close>

definition internal_error :: "string \<Rightarrow> py" where
  "internal_error i = error_body ''Internal server error'' ''internal_server_error'' (Some i)"

lemma respond_outcome:
  "pg_status (fst (respond fresh c (Answered code v) m)) = code"
  "pg_body (fst (respond fresh c (Answered code v) m)) = v"
  "pg_status (fst (respond fresh c (Refused errors) m)) = 422"
  "pg_status (fst (respond fresh c (Failed (HTTPException code detail) hs) m)) = code"
  "pg_body (fst (respond fresh c (Failed (HTTPException code detail) hs) m)) =
     error_body detail (error_code_for_status code) (Some (request_id_of fresh c))"
  by (simp_all add: respond_def log_requests_def inner_page_def add_security_headers_def http_exception_handler_def
      validation_exception_handler_def Let_def)

lemma respond_unexpected:
  "defect out \<Longrightarrow> pg_status (fst (respond fresh c out m)) = 500 \<and>
     pg_body (fst (respond fresh c out m)) = internal_error (request_id_of fresh c)"
  by (simp add: respond_defect unhandled_exception_handler_def internal_error_def)

text \<open>
  C31. The page of any request, in any world, tells what became of it. When the handler succeeds, the page has the
  status of the endpoint and its body, or it is the fixed page of an internal error (a body that does not fit its
  response model); an \<open>HTTPException\<close> gives its own code and detail, a refused body 422; any other exception gives
  the fixed page, which has nothing of the exception but the id of the request. And the page is made without
  touching the world: what is left behind is what the handler leaves.
\<close>

theorem http_tells_what_happened:
  "case run_state (http e h q fresh c errors m) w of ((page, m'), w') \<Rightarrow>
   case run_state (handle_request e h q) w of (r, v) \<Rightarrow>
     w' = v \<and>
     (case r of
        Inr _ \<Rightarrow> (\<exists>body. run_state (reply e h q) w = (Inr body, v) \<and> pg_status page = success_status q \<and> pg_body page = body) \<or>
          (pg_status page = 500 \<and> pg_body page = internal_error (request_id_of fresh c))
      | Inl (HTTPException code detail) \<Rightarrow>
          if code = 422 \<and> detail = ''Unprocessable Entity'' then pg_status page = 422
          else pg_status page = code \<and>
            pg_body page = error_body detail (error_code_for_status code) (Some (request_id_of fresh c))
      | Inl _ \<Rightarrow> pg_status page = 500 \<and> pg_body page = internal_error (request_id_of fresh c))"
proof -
  obtain r v a v' where runs: "run_state (handle_request e h q) w = (r, v)" "run_state (reply e h q) w = (a, v')" by fastforce
  with reply_serves [of e h q w] have v': "v' = v" and a: "case r of Inl x \<Rightarrow> a = Inl x
    | Inr _ \<Rightarrow> a = Inl (ValidationError ''ResponseValidationError'') \<or> (\<exists>b. a = Inr b)"
    by (auto split: sum.splits)
  have page: "run_state (http e h q fresh c errors m) w = (respond fresh c (outcome_of q errors a) m, v)"
    using runs v' by (simp add: http_def)
  have unexpected: "defect (outcome_of q errors (Inl x))" if "\<nexists>code detail. x = HTTPException code detail" for x
    using that by (cases x) (simp_all add: outcome_of_def defect_def)
  show ?thesis
  proof (cases r)
    case (Inr u)
    with a consider "a = Inl (ValidationError ''ResponseValidationError'')" | b where "a = Inr b" by auto
    then show ?thesis
    proof cases
      case 1
      with respond_unexpected [OF unexpected [of "ValidationError ''ResponseValidationError''"]] Inr runs v' show ?thesis
        by (simp add: page split_beta)
    qed (use Inr runs v' in \<open>simp add: page split_beta respond_outcome outcome_of_def\<close>)
  next
    case (Inl x)
    with a have a: "a = Inl x" by simp
    show ?thesis
    proof (cases "\<exists>code detail. x = HTTPException code detail")
      case True
      with Inl a runs v' show ?thesis by (auto simp: page split_beta respond_outcome outcome_of_def)
    next
      case False
      from respond_unexpected [OF unexpected [OF this]] False Inl a runs v' show ?thesis
        by (cases x) (simp_all add: page split_beta)
    qed
  qed
qed

text \<open>
  An unknown \<open>status\<close> in the query of a driver's rides is not refused as the other parameters are: the enum raises
  inside the endpoint, and the page is an internal error.
\<close>

lemma unknown_ride_status_page:
  assumes "run_state (get_current_user e token) (w\<lparr>db := durable w\<rparr>) = (Inr u, w\<lparr>db := durable w\<rparr>)"
    and "page_ok limit offset" and "s \<noteq> []" and "parse_ride_status s = None"
  shows "pg_status (fst (fst (run_state (http e h (Authenticated token (Rides (List_my_rides (Some s) limit offset)))
    fresh c errors m) w))) = 500"
proof -
  have "defect (outcome_of q errors (Inl (ValueError ''RideStatus'')))" for q
    by (simp add: outcome_of_def defect_def)
  note page = respond_unexpected [OF this]
  show ?thesis using assms
    by (simp add: http_def reply_def in_session_def normalized_status_def shown_list_def shown_def answered_def page)
qed

end
