(* ===== verification/Logs.thy ===== *)
theory Logs
  imports Operations Dispatch
begin

text \<open>
  The log of the application: \<open>JsonFormatter\<close> of src/app/core/logging.py, the records of \<open>log_requests\<close>, the
  report of src/app/core/reporting.py and the records of failing jobs. A record is what reaches the formatter; its
  message is already put together. The text of a traceback and of a float are arguments.
\<close>

record log_record =
  lg_levelname :: string
  lg_name :: string
  lg_message :: string
  lg_extra :: "(string \<times> py) list"
  lg_exception :: "string option"

definition formatted_keys :: "string list" where
  "formatted_keys =
     [''request_id'', ''job_id'', ''method'', ''path'', ''status_code'', ''duration_ms'', ''action'', ''outcome'',
      ''ride_request_id'', ''driver_id'', ''passenger_id'', ''ride_id'', ''booking_id'', ''cleanup_count'']"

text \<open>\<open>getattr(record, key, None)\<close>, kept when it is not \<open>None\<close>.\<close>

definition extra_fields :: "(string \<times> py) list \<Rightarrow> (string \<times> py) list" where
  "extra_fields extra = concat (map (\<lambda>k.
     case map_of extra k of None \<Rightarrow> [] | Some v \<Rightarrow> if v = PyNone then [] else [(k, v)]) formatted_keys)"

definition log_payload :: "instant \<Rightarrow> log_record \<Rightarrow> (string \<times> py) list" where
  "log_payload now r =
     [(''timestamp'', PyStr (isoformat now)), (''level'', PyStr (lg_levelname r)), (''logger'', PyStr (lg_name r)),
      (''message'', PyStr (lg_message r))] @
     extra_fields (lg_extra r) @
     (case lg_exception r of None \<Rightarrow> [] | Some t \<Rightarrow> [(''exception'', PyStr t)])"

definition format_record :: "env \<Rightarrow> instant \<Rightarrow> log_record \<Rightarrow> string" where
  "format_record e now r = json_dumps e (PyDict (log_payload now r))"

section \<open>The records of a request\<close>

definition request_message :: "(real \<Rightarrow> string) \<Rightarrow> string \<Rightarrow> call_info \<Rightarrow> int \<Rightarrow> string" where
  "request_message fmt i c status_code =
     ''request_id='' @ i @ '' method='' @ ci_method c @ '' path='' @ ci_url_path c @
     '' status_code='' @ str_int status_code @ '' duration_ms='' @ fmt (ci_duration_ms c)"

definition request_extra :: "string \<Rightarrow> call_info \<Rightarrow> int \<Rightarrow> (string \<times> py) list" where
  "request_extra i c status_code =
     [(''request_id'', PyStr i), (''method'', PyStr (ci_method c)), (''path'', PyStr (ci_url_path c)),
      (''status_code'', PyInt status_code), (''duration_ms'', PyFloat (ci_duration_ms c))]"

text \<open>\<open>logger.info\<close> of an answer, \<open>logger.exception\<close> when the endpoint raised (\<open>None\<close>).\<close>

definition request_record :: "(real \<Rightarrow> string) \<Rightarrow> string \<Rightarrow> string \<Rightarrow> call_info \<Rightarrow> int option \<Rightarrow> log_record" where
  "request_record fmt traceback i c answered =
     (case answered of
        Some status_code \<Rightarrow> \<lparr>lg_levelname = ''INFO'', lg_name = ''app.request'',
          lg_message = request_message fmt i c status_code, lg_extra = request_extra i c status_code, lg_exception = None\<rparr>
      | None \<Rightarrow> \<lparr>lg_levelname = ''ERROR'', lg_name = ''app.request'',
          lg_message = request_message fmt i c 500, lg_extra = request_extra i c 500, lg_exception = Some traceback\<rparr>)"

text \<open>\<open>report_exception\<close> and the record of \<open>unhandled_exception_handler\<close>, in their order.\<close>

definition report_exception :: "env \<Rightarrow> string \<Rightarrow> string \<Rightarrow> string option \<Rightarrow> call_info \<Rightarrow> log_record list" where
  "report_exception e exception_type traceback request_id c =
     (let i = (case request_id of None \<Rightarrow> ''None'' | Some s \<Rightarrow> s)
      in if \<not> ERROR_REPORTING_ENABLED (delivery e) then []
         else [\<lparr>lg_levelname = ''ERROR'', lg_name = ''app.error_reporting'',
           lg_message = ''Captured exception request_id='' @ i @ '' method='' @ ci_method c @ '' path='' @ ci_url_path c @
             '' exception_type='' @ exception_type,
           lg_extra = [(''request_id'', py_text request_id), (''method'', PyStr (ci_method c)),
             (''path'', PyStr (ci_url_path c)), (''exception_type'', PyStr exception_type)],
           lg_exception = Some traceback\<rparr>])"

definition unhandled_records :: "env \<Rightarrow> string \<Rightarrow> string \<Rightarrow> string option \<Rightarrow> call_info \<Rightarrow> log_record list" where
  "unhandled_records e exception_type traceback request_id c =
     report_exception e exception_type traceback request_id c @
     [\<lparr>lg_levelname = ''ERROR'', lg_name = ''app.error'',
       lg_message = ''Unhandled exception request_id='' @ (case request_id of None \<Rightarrow> ''None'' | Some s \<Rightarrow> s),
       lg_extra = [], lg_exception = Some traceback\<rparr>]"

text \<open>All that is logged of one request, by how its endpoint ended.\<close>

definition logged :: "env \<Rightarrow> (real \<Rightarrow> string) \<Rightarrow> string \<Rightarrow> string \<Rightarrow> string \<Rightarrow> call_info \<Rightarrow> outcome \<Rightarrow> registry \<Rightarrow> log_record list" where
  "logged e fmt exception_type traceback fresh c out m =
     (let i = request_id_of fresh c
      in case inner_page i out m of
           Some (p, _) \<Rightarrow> [request_record fmt traceback i c (Some (pg_status p))]
         | None \<Rightarrow> request_record fmt traceback i c None # unhandled_records e exception_type traceback (Some i) c)"

section \<open>The records of the services\<close>

definition dispatch_record ::
  "string \<Rightarrow> string \<Rightarrow> int option \<Rightarrow> int option \<Rightarrow> int option \<Rightarrow> int option \<Rightarrow> int option \<Rightarrow> int option \<Rightarrow> log_record" where
  "dispatch_record action outcome ride_request driver passenger ride booking cleanup_count =
     \<lparr>lg_levelname = ''INFO'', lg_name = ''app.services.dispatch'',
      lg_message = ''dispatch action='' @ action @ '' outcome='' @ outcome,
      lg_extra = [(''action'', PyStr action), (''outcome'', PyStr outcome), (''ride_request_id'', py_opt PyInt ride_request),
        (''driver_id'', py_opt PyInt driver), (''passenger_id'', py_opt PyInt passenger), (''ride_id'', py_opt PyInt ride),
        (''booking_id'', py_opt PyInt booking), (''cleanup_count'', py_opt PyInt cleanup_count)],
      lg_exception = None\<rparr>"

section \<open>What the lines say\<close>

lemma map_of_extra_fields:
  "map_of (extra_fields extra) k =
     (if k \<in> set formatted_keys then (case map_of extra k of None \<Rightarrow> None | Some v \<Rightarrow> if v = PyNone then None else Some v)
      else None)"
proof -
  have "map_of (concat (map (\<lambda>k. case map_of extra k of None \<Rightarrow> [] | Some v \<Rightarrow> if v = PyNone then [] else [(k, v)]) ks)) k =
    (if k \<in> set ks then (case map_of extra k of None \<Rightarrow> None | Some v \<Rightarrow> if v = PyNone then None else Some v) else None)" for ks
    by (induction ks) (auto split: option.splits)
  then show ?thesis by (simp add: extra_fields_def)
qed

text \<open>
  A line has the time, the level, the logger and the message of its record, and of the extra fields exactly the
  known ones that are not \<open>None\<close>: none of them can replace one of the four.
\<close>

lemma formatted_key:
  assumes "k \<in> set formatted_keys"
  shows "k \<noteq> ''timestamp''" "k \<noteq> ''level''" "k \<noteq> ''logger''" "k \<noteq> ''message''" "k \<noteq> ''exception''"
proof -
  have "list_all (\<lambda>k. k \<notin> {''timestamp'', ''level'', ''logger'', ''message'', ''exception''}) formatted_keys"
    by code_simp
  with assms show "k \<noteq> ''timestamp''" "k \<noteq> ''level''" "k \<noteq> ''logger''" "k \<noteq> ''message''" "k \<noteq> ''exception''"
    by (auto simp: list_all_iff)
qed

lemma line_field:
  assumes "k \<in> set formatted_keys"
  shows "map_of (log_payload now r) k =
    (case map_of (lg_extra r) k of None \<Rightarrow> None | Some v \<Rightarrow> if v = PyNone then None else Some v)"
  using assms formatted_key [OF assms]
  by (cases "lg_exception r") (auto simp: log_payload_def map_of_extra_fields map_add_def split: option.split)

lemma line_header:
  "map_of (log_payload now r) ''timestamp'' = Some (PyStr (isoformat now))"
  "map_of (log_payload now r) ''level'' = Some (PyStr (lg_levelname r))"
  "map_of (log_payload now r) ''logger'' = Some (PyStr (lg_name r))"
  "map_of (log_payload now r) ''message'' = Some (PyStr (lg_message r))"
  by (simp_all add: log_payload_def)

text \<open>
  Every request leaves a line with its id: one when it was answered, and a second and with error reporting a third
  when the endpoint failed unexpectedly.
\<close>

theorem every_request_is_logged:
  "\<exists>r \<in> set (logged e fmt ty tb fresh c out m). lg_name r = ''app.request'' \<and>
     map_of (log_payload now r) ''request_id'' = Some (PyStr (request_id_of fresh c))"
proof -
  have "''request_id'' \<in> set formatted_keys" by code_simp
  then show ?thesis
    by (auto simp: logged_def request_record_def request_extra_def line_field Let_def split: option.split prod.split)
qed

text \<open>The type of a reported exception is handed to the formatter, which leaves it out.\<close>

lemma reported_type_is_dropped:
  assumes "r \<in> set (report_exception e ty tb i c)"
  shows "map_of (lg_extra r) ''exception_type'' = Some (PyStr ty) \<and> map_of (log_payload now r) ''exception_type'' = None"
proof -
  have "''exception_type'' \<notin> set formatted_keys" by code_simp
  with assms show ?thesis
    by (auto simp: report_exception_def log_payload_def map_of_extra_fields Let_def map_add_def split: if_splits)
qed

end
