(* ===== verification/Startup.thy ===== *)
theory Startup
  imports Migrations Metadata World
begin

text \<open>
  What the lifespan of src/app/main.py does to the database before the first request: \<open>initialize_database\<close> of
  src/app/db/session.py. \<open>create_all\<close> is SQLAlchemy's: it creates the types and tables of the metadata that are not there, with
  their constraints and indexes, and looks no further into those that are.
\<close>

definition create_all :: "schema \<Rightarrow> schema \<Rightarrow> schema" where
  "create_all m s =
     \<lparr>sc_types = sc_types s @ filter (\<lambda>(n, _). n \<notin> set (type_names s)) (sc_types m),
      sc_tables = sc_tables s @ filter (\<lambda>t. tb_name t \<notin> set (table_names s)) (sc_tables m)\<rparr>"

definition create_db_and_tables :: "schema \<Rightarrow> schema" where
  "create_db_and_tables = create_all metadata"

definition initialize_database :: "env \<Rightarrow> schema \<Rightarrow> schema" where
  "initialize_database e s = (if should_create_tables (core e) (delivery e) then create_db_and_tables s else s)"

lemma create_all_present:
  "list_all (\<lambda>(n, _). n \<in> set (type_names s)) (sc_types m) \<Longrightarrow> list_all (\<lambda>t. tb_name t \<in> set (table_names s)) (sc_tables m) \<Longrightarrow>
     create_all m s = s"
proof -
  assume "list_all (\<lambda>(n, _). n \<in> set (type_names s)) (sc_types m)"
    and "list_all (\<lambda>t. tb_name t \<in> set (table_names s)) (sc_tables m)"
  then have "filter (\<lambda>(n, _). n \<notin> set (type_names s)) (sc_types m) = []"
    and "filter (\<lambda>t. tb_name t \<notin> set (table_names s)) (sc_tables m) = []"
    by (fastforce simp: list_all_iff filter_empty_conv)+
  then show ?thesis by (simp add: create_all_def)
qed

text \<open>In production the application never touches the schema; elsewhere a restart changes nothing.\<close>

lemma initialize_in_production: "is_production (core e) \<Longrightarrow> initialize_database e s = s"
  by (simp add: initialize_database_def should_create_tables_def)

lemma initialize_twice: "initialize_database e (initialize_database e s) = initialize_database e s"
proof -
  have "create_all m (create_all m s) = create_all m s" for m
    by (rule create_all_present) (auto simp: create_all_def list_all_iff type_names_def table_names_def image_iff)
  then show ?thesis by (simp add: initialize_database_def create_db_and_tables_def)
qed

text \<open>An empty database gets the schema of the models, and a migrated one keeps the five differences it has.\<close>

lemma initialize_empty:
  "should_create_tables (core e) (delivery e) \<Longrightarrow> initialize_database e empty_schema = metadata"
  by (simp add: initialize_database_def create_db_and_tables_def create_all_def empty_schema_def type_names_def
      table_names_def metadata_def)

lemma migrated_names:
  "map_option (\<lambda>s. list_all (\<lambda>(n, _). n \<in> set (type_names s)) (sc_types metadata) \<and>
     list_all (\<lambda>t. tb_name t \<in> set (table_names s)) (sc_tables metadata)) (run_upgrades PostgreSQL revisions empty_schema) = Some True"
  by code_simp

lemma initialize_migrated: "run_upgrades PostgreSQL revisions empty_schema = Some s \<Longrightarrow> initialize_database e s = s"
  using migrated_names by (simp add: initialize_database_def create_db_and_tables_def create_all_present)

text \<open>
  The two ways to a schema do not mix: over tables the application has created, the scripts fail at their first
  revision.
\<close>

theorem created_tables_refuse_migration: "run_upgrades PostgreSQL revisions metadata = None"
  by code_simp

end
