(* ===== verification/Spec2Isabelle.thy ===== *)
theory Spec2Isabelle
  imports RideFacts BoardingFacts GuardFacts DispatchFacts TrackingFacts AuthFacts AssistantFacts
    RedisFacts OperationsFacts MigrationFacts SocketFacts WorkerThreads HttpFacts
    Logs Startup
begin

text \<open>
  MooveSaathi is the backend of a ride-sharing service (src/app, FastAPI over SQLAlchemy): drivers
  publish rides, passengers book seats and pay for them, or ask for a ride that the nearest driver may
  accept. This library models the program's own logic, request by request, and proves what it promises
  about seats, money, boarding, positions, accounts and the shared state in front of the endpoints.

  \<^bold>\<open>How the program is put together.\<close> An endpoint of src/app/api/v1/endpoints authenticates the caller,
  asks the rate limiter, validates the body, looks for a recorded response to an idempotency key and
  calls a service of src/app/services. A service reads and writes through the repositories of
  src/app/repositories in one database session, commits, writes an audit entry, and may call the payment
  gateway over HTTP, publish to Redis, or put a job into the queue, which a background worker runs with
  retries. Tokens, rate limits and idempotency records live beside the database, in Redis or, when it cannot
  be reached, in dictionaries of the process. Two middlewares and the exception handlers of src/app/main.py
  stand around every endpoint, and the scripts of src/alembic bring the database to the schema of the models.

  \<^bold>\<open>Theories and the code they model.\<close>
  \<^item> \<open>Prelude\<close>: handlers as state transformers that end in an exception or a value, the frame
    predicate \<open>keeps\<close>, decimal integers. \<open>Pystring\<close>: the string methods and SQL \<open>LIKE\<close>. \<open>Calendar\<close>:
    civil dates, \<open>isoformat\<close> and \<open>fromisoformat\<close>. \<open>Regex\<close>: regular expressions as backtracking matchers. \<open>Geo\<close>: the two distances of services/dispatch.py and services/ride.py.
  \<^item> \<open>Table\<close>, \<open>Model\<close>, \<open>Database\<close>: src/app/models, a record per table with its enums, unique and check
    constraints; the interface \<open>keyed_store\<close> that each table's operations implement.
  \<^item> \<open>Config\<close>: core/config.py with its validators. \<open>World\<close>: all a request can see or change (the session's
    view \<open>db\<close> and the committed \<open>durable\<close>, the queue, tokens, limiter, idempotency records, counters of
    core/metrics.py, what was sent outside) and the environment \<open>env\<close>: settings and the parameters named
    below. \<open>Repositories\<close>: src/app/repositories.
  \<^item> \<open>JobQueue\<close> (services/job_queue.py), \<open>Notify\<close> (notification.py, notification_jobs.py, audit_log.py),
    \<open>Provider\<close> (payment_provider.py), \<open>Payment\<close> (payment.py, payment_jobs.py and the webhook endpoints),
    \<open>Booking\<close> (booking.py), \<open>Ride\<close> (ride.py, location_jobs.py), \<open>Dispatch\<close> (dispatch.py,
    dispatch_jobs.py), \<open>TokenStore\<close> (token_store.py), \<open>Auth\<close> (auth.py, core/security.py, email.py),
    \<open>Community\<close> (chat.py, review.py, user.py), \<open>Support\<close> (support.py, incident.py), \<open>Guards\<close>
    (core/rate_limit.py, idempotency.py, websocket/manager.py), \<open>Maintenance\<close> (maintenance_jobs.py).
  \<^item> \<open>Prompts\<close>: what services/ai_provider.py cuts out of a prompt. \<open>Assistant\<close>: its providers, schemas/ai.py
    and services/ai.py. \<open>RedisStores\<close>: the Redis paths of token_store.py, rate_limit.py and idempotency.py.
    \<open>Operations\<close>: core/metrics.py, core/exceptions.py, core/headers.py, \<open>log_requests\<close>, and the health and
    deployment pages.
  \<^item> \<open>Schema\<close>: database schemas and the operations of Alembic on them. \<open>Migrations\<close>: the twenty scripts of
    src/alembic/versions. \<open>Metadata\<close>: the schema that the classes of src/app/models declare.
    \<open>Startup\<close>: \<open>initialize_database\<close> of db/session.py. \<open>Logs\<close>: core/logging.py and core/reporting.py.
  \<^item> \<open>Requests\<close>: one constructor per HTTP endpoint, and \<open>serve\<close>, what the endpoint does with it.
    \<open>Answers\<close>: the response models of src/app/schemas, and \<open>answer\<close>, the body each endpoint returns.
    \<open>Http\<close>: the page the client gets, of an answer or an exception, inside the middlewares of \<open>Operations\<close>.
    \<open>System\<close>: the running application, a step relation of requests, worker turns and time.
  \<^item> \<open>Sockets\<close>: the WebSocket endpoints of endpoints/chat.py and endpoints/dispatch.py, a step relation of the
    polls, frames and failures of any number of sockets beside the application. \<open>WorkerThreads\<close>: \<open>start\<close>,
    \<open>stop\<close> and the loop of the job queue's threads, with what may come between any two steps.
  \<^item> \<open>Evolution\<close>, \<open>Core\<close>, \<open>Periphery\<close>, \<open>CoreSteps\<close>: the abstract specification of the life of a booking, a
    payment and a ride (\<open>core_step\<close>, \<open>core_ok\<close>), and the proof that every handler writes along it, on every
    branch. \<open>TokenRegistry\<close>: the abstract registry the token store implements.
  \<^item> \<open>Demo\<close>: the world the witnesses run on. \<open>BookingFacts\<close>, \<open>BoardingFacts\<close>, \<open>PaymentFacts\<close>,
    \<open>RideFacts\<close>, \<open>TrackingFacts\<close>, \<open>DispatchFacts\<close>, \<open>AuthFacts\<close>, \<open>GuardFacts\<close>, \<open>AssistantFacts\<close>,
    \<open>RedisFacts\<close>, \<open>OperationsFacts\<close>, \<open>MigrationFacts\<close>, \<open>SocketFacts\<close>, \<open>AnswerFacts\<close>,
    \<open>HttpFacts\<close>: the properties of the services and of the pages. \<open>Queueing\<close>: that no part of the application
    takes a job out of the queue but the worker. This theory: the properties that hold over any history of the
    whole application.

  \<^bold>\<open>Interfaces.\<close> \<open>keyed_store\<close> is what the repositories offer to the services, interpreted for each of the
  fourteen tables; \<open>evolution\<close> is what a relation between databases must satisfy to be carried from
  single writes to whole sessions, interpreted for \<open>core_step\<close>, for writes beside the core tables and
  for the closing of ride requests; \<open>session_registry\<close> is what authentication relies on in a token store,
  interpreted by the store's dictionaries.

  \<^bold>\<open>What the properties show.\<close> Over any history: committed rides, bookings and payments keep their
  invariants and only move along their life cycles (C2 to C6). Bookings: a decision moves exactly one seat,
  is made by a participant, and a failure commits nothing. Payments: nothing is captured that was not
  authorised, a webhook counts once and not without its signature (what a signature outside ASCII does is said), a cancellation refunds or queues the
  refund, a silent gateway leaves a retry. Rides: completing one settles every passenger, cancelling one
  leaves no live booking. Boarding and sharing: an issued code boards and nothing else does; a shared link
  shows positions only near ride time and ends with its revocation. Positions and search. Dispatch: a
  request is matched once, creating one expires the overdue ones and is refused exactly while the passenger has
  another, a driver sees the nearest. Accounts: a login
  identifies its user, guessing locks the account, logging out and resetting a password end what they
  should; every operation and query of the token store refines an abstract registry. Guards: the limiter's bound, replays without
  effect, a failing job exhausts its retries, and every queued job gets its turn in order. Redis: without it
  the stores are their dictionaries, the limiter decides alike on both paths, ending a session in Redis leaves its
  token, and a revocation is forgotten when Redis goes or comes back.
  Replies: the page of a request tells what became of it, no page depends on a stored hash, and what the page of
  a ride discloses. Assistant: what the built-in provider reads out of a prompt, and that any draft the service lets through
  can be published. Operations: every answer has its id and headers, the metrics add up. Migrations: the
  scripts lead to the schema of the models but for five listed differences, downgrades take upgrades back,
  which rows filled in by a script satisfy the invariants of the services, and that scripts and start-up do not
  mix. Sockets: who is shown a chat,
  how often, and whose token opens a socket. Threads: jobs begin in order and once, the handlers that the
  application's worker runs are the executions that one thread of the queue begins, and what a stop entry that is left does to the next worker.

  \<^bold>\<open>Reading the model.\<close> A handler is an action on the world that ends with \<open>Inl\<close> an exception or \<open>Inr\<close> a
  result. A changed row is written where the code changes the object, and checked against the table's
  constraints where the code flushes it. Requests are served one after another; the clock is constant
  during a request. Floats are real numbers, \<open>Decimal\<close> is \<open>rat\<close>, an instant is an \<open>int\<close> of microseconds,
  integers are Python's unbounded ones. Random values (tokens, salts, ids) are arguments. No definition
  needs fuel: loops run over lists, the job runner recurses on the retries left, and a repetition of a
  regular expression ends because each round consumes a character.

  \<^bold>\<open>Parameters.\<close> \<open>env\<close> holds what is not code of the repository: the answers of the payment gateway and of
  Redis to everything sent before, the mail server, the JWT codec, bcrypt, HMAC and SHA-256, \<open>repr\<close>,
  \<open>json.loads\<close>, \<open>json.dumps\<close>, pydantic's coercions of a JSON value and FastAPI's \<open>jsonable_encoder\<close>; the
  Redis client of \<open>RedisStores\<close>, the probes and the float format of \<open>Operations\<close>, and the rounding of the
  database in \<open>MigrationFacts\<close> are arguments. They are arbitrary functions, unless a property says otherwise:
  \<open>jwt_codec\<close> in \<open>AuthFacts\<close>, \<open>reads_back\<close> in \<open>AssistantFacts\<close> (a value printed as JSON is coerced to
  itself), and in \<open>RedisFacts\<close> \<open>answers_strings\<close> and \<open>answers_sets\<close>, which state the documented replies of
  Redis to the commands used, \<open>unreachable\<close>, that every command fails, and \<open>with_outages\<close>, a client whose
  commands fail at some instants.

  \<^bold>\<open>Not modelled.\<close> In \<open>World\<close> the stores have their in-memory form, which \<open>tokens_without_redis\<close>,
  \<open>sessions_end_without_redis\<close> and \<open>guards_without_redis\<close> justify when Redis cannot be reached (the sets of
  the user index are lists without repetition, \<open>index_ok\<close>); a history with Redis is only followed store by store, in \<open>RedisFacts\<close>. Jobs
  are enqueued for the worker, the default; the synchronous mode is \<open>enqueue_with\<close> and \<open>execute_with\<close>. Foreign keys, column lengths, row locks and e-mail
  syntax; e-mail HTML; the JSON text of a response; the log records of
  the services other than dispatch, CORS and application wiring. Of a migration, the failures that depend on the rows there are (a
  null in a column that becomes \<open>NOT NULL\<close>, a duplicate under a new unique constraint).
\<close>

section \<open>The stored rows of a running application\<close>

lemma get_in_rows:
  "get_booking i d = Some b \<Longrightarrow> b \<in> set (rows (bookings_t d))"
  "get_ride i d = Some r \<Longrightarrow> r \<in> set (rows (rides_t d))"
  "get_payment i d = Some p \<Longrightarrow> p \<in> set (rows (payments_t d))"
  by (auto simp: core_gets dest: table_get_mem)

text \<open>
  C4. Whatever requests are served, in any order and with any answers of the gateway, Redis and the
  mail server, every committed ride has a non-negative number of seats and price and two different
  ends, is active exactly when it is scheduled, and has a free seat as long as it is scheduled.
\<close>

theorem rides_always_sound:
  assumes "sound w" and "reaches e w w'" and "r \<in> set (rows (rides_t (durable w')))"
  shows "0 \<le> r_available_seats r \<and> 0 \<le> r_price_per_seat r \<and> r_origin r \<noteq> r_destination r \<and>
    (r_is_active r \<longleftrightarrow> r_status r = RScheduled) \<and> (r_status r = RScheduled \<longrightarrow> 0 < r_available_seats r)"
  using sound_reaches(2) [OF assms(1,2)] assms(3) by (auto simp: core_ok_def ride_ok_def)

lemma rides_always_sound_witness:
  "\<exists>w'. reaches demo_env deal_world w' \<and>
     (\<exists>r \<in> set (rows (rides_t (durable w'))). r_available_seats r = 1 \<and> r_is_active r = (r_status r = RScheduled))"
proof (rule deal_reaches)
  fix w'
  assume w': "reaches demo_env deal_world w'" and "get_ride 1 (durable w') = Some (demo_ride\<lparr>r_available_seats := 1\<rparr>)"
  then have r: "demo_ride\<lparr>r_available_seats := 1\<rparr> \<in> set (rows (rides_t (durable w')))" by (simp add: get_in_rows)
  note sound = rides_always_sound [OF sound_deal w' r]
  show ?thesis by (rule exI [of _ w'], intro conjI bexI [OF _ r]) (use w' sound in auto)
qed

text \<open>
  C5. At any time no passenger has two bookings on a ride, and no booking is completed whose passenger
  has not boarded.
\<close>

theorem one_booking_per_passenger:
  assumes "sound w" and "reaches e w w'"
    and "b \<in> set (rows (bookings_t (durable w')))" and "b' \<in> set (rows (bookings_t (durable w')))"
  shows "(b_ride_id b' = b_ride_id b \<and> b_passenger_id b' = b_passenger_id b \<longrightarrow> b' = b) \<and>
    (b_status b = BCompleted \<longrightarrow> b_boarded_at b \<noteq> None)"
  using sound_reaches(2) [OF assms(1,2)] assms(3,4)
  by (auto simp: core_ok_def booking_ok_def distinct_map dest!: inj_onD)

lemma one_booking_per_passenger_witness:
  "\<exists>w'. reaches demo_env deal_world w' \<and> (\<exists>b \<in> set (rows (bookings_t (durable w'))). b_status b = BAccepted \<and>
     (\<forall>b' \<in> set (rows (bookings_t (durable w'))). b_ride_id b' = 1 \<and> b_passenger_id b' = 2 \<longrightarrow> b' = b))"
proof (rule deal_reaches)
  fix w'
  assume w': "reaches demo_env deal_world w'" and "get_booking 1 (durable w') = Some (demo_booking 1 2 BAccepted)"
  then have b: "demo_booking 1 2 BAccepted \<in> set (rows (bookings_t (durable w')))" by (simp add: get_in_rows)
  note unique = one_booking_per_passenger [OF sound_deal w' b]
  show ?thesis by (rule exI [of _ w'], intro conjI bexI [OF _ b]) (use w' unique in \<open>auto simp: demo_booking_def\<close>)
qed

text \<open>
  C6. At any time a booking has at most one payment, and the amount sent to the gateway in minor units
  is the price in the payment's currency.
\<close>

theorem one_payment_per_booking:
  assumes "sound w" and "reaches e w w'"
    and "p \<in> set (rows (payments_t (durable w')))" and "p' \<in> set (rows (payments_t (durable w')))"
  shows "(p_booking_id p' = p_booking_id p \<longrightarrow> p' = p) \<and>
    p_amount_minor p = to_minor_units (p_amount p) (p_currency p)"
  using sound_reaches(2) [OF assms(1,2)] assms(3,4)
  by (auto simp: core_ok_def payment_ok_def distinct_map dest!: inj_onD)

lemma one_payment_per_booking_witness:
  "\<exists>w'. reaches demo_env deal_world w' \<and> (\<exists>p \<in> set (rows (payments_t (durable w'))). p_status p = PCaptured \<and>
     (\<forall>p' \<in> set (rows (payments_t (durable w'))). p_booking_id p' = 1 \<longrightarrow> p' = p))"
proof (rule deal_reaches)
  fix w'
  assume w': "reaches demo_env deal_world w'" and "get_payment 1 (durable w') = Some (demo_payment PCaptured)"
  then have p: "demo_payment PCaptured \<in> set (rows (payments_t (durable w')))" by (simp add: get_in_rows)
  note unique = one_payment_per_booking [OF sound_deal w' p]
  show ?thesis by (rule exI [of _ w'], intro conjI bexI [OF _ p]) (use w' unique in \<open>auto simp: demo_payment_def\<close>)
qed

section \<open>The life of a row\<close>

text \<open>
  C2. A committed booking is never lost and stays that of its passenger on its ride. Its status only
  moves along pending, accepted and the four final ones: one that is rejected, cancelled or completed
  stays so, one that is not pending is never pending again, and a boarding is never undone.
\<close>

theorem booking_life:
  assumes "sound w" and "reaches e w w1" and "reaches e w1 w2" and "get_booking i (durable w1) = Some b"
  shows "\<exists>b'. get_booking i (durable w2) = Some b' \<and> b_ride_id b' = b_ride_id b \<and>
    b_passenger_id b' = b_passenger_id b \<and>
    (b_status b \<in> {BRejected, BCancelled_by_passenger, BCancelled_by_driver, BCompleted} \<longrightarrow> b_status b' = b_status b) \<and>
    (b_status b = BAccepted \<longrightarrow>
       b_status b' \<in> {BAccepted, BCancelled_by_passenger, BCancelled_by_driver, BCompleted}) \<and>
    (b_boarded_at b \<noteq> None \<longrightarrow> b_boarded_at b' = b_boarded_at b)"
proof -
  have "core_step (durable w1) (durable w2)" and "core_ok (durable w1)"
    using reaches_core [OF assms(3)] reaches_core [OF assms(2)] sound_reaches(2) [OF assms(1,2)]
      assms(1) core.step_refl [of "durable w"] by (simp_all add: sound_def)
  then obtain b' where b': "get_booking i (durable w2) = Some b'" and mv: "booking_moves b b'"
    using assms(4) unfolding core_step_def evolves_def by blast
  from mv have to: "booking_reaches (b_status b) (b_status b')" by (simp add: booking_moves_def)
  have "b_status b' = b_status b"
    if "b_status b \<in> {BRejected, BCancelled_by_passenger, BCancelled_by_driver, BCompleted}"
    using booking_final_stays [OF to] that by (simp add: booking_final_def)
  moreover have "b_status b' \<in> {BAccepted, BCancelled_by_passenger, BCancelled_by_driver, BCompleted}"
    if "b_status b = BAccepted"
    using booking_reaches_accepted [of "b_status b'"] to that by simp
  ultimately show ?thesis using b' mv by (auto simp: booking_moves_def)
qed

lemma booking_life_witness:
  "\<exists>w' b'. reaches demo_env deal_world w' \<and> get_booking 2 (durable w') = Some b' \<and> b_passenger_id b' = 3 \<and>
     b_status b' \<in> {BAccepted, BCancelled_by_passenger, BCancelled_by_driver, BCompleted}"
proof (rule deal_reaches)
  fix w'
  assume w': "reaches demo_env deal_world w'"
  have start: "reaches demo_env deal_world deal_world" by (simp add: reaches_def)
  have "get_booking 2 (durable deal_world) = Some (demo_booking 2 3 BAccepted)" by (simp add: demo)
  from booking_life [OF sound_deal start w' this] w' show ?thesis by (auto simp: demo_booking_def)
qed

text \<open>
  C3. A committed payment is never lost, and its booking, payer, amount, currency, provider and order
  number never change; one that is refunded, failed or cancelled stays so.
\<close>

theorem payment_life:
  assumes "sound w" and "reaches e w w1" and "reaches e w1 w2" and "get_payment i (durable w1) = Some p"
  shows "\<exists>p'. get_payment i (durable w2) = Some p' \<and> p_booking_id p' = p_booking_id p \<and>
    p_payer_id p' = p_payer_id p \<and> p_amount p' = p_amount p \<and> p_amount_minor p' = p_amount_minor p \<and>
    p_currency p' = p_currency p \<and> p_provider p' = p_provider p \<and>
    p_provider_order_id p' = p_provider_order_id p \<and>
    (p_status p \<in> {PRefunded, PFailed, PCancelled} \<longrightarrow> p_status p' = p_status p)"
proof -
  have "core_step (durable w1) (durable w2)" and "core_ok (durable w1)"
    using reaches_core [OF assms(3)] reaches_core [OF assms(2)] sound_reaches(2) [OF assms(1,2)]
      assms(1) core.step_refl [of "durable w"] by (simp_all add: sound_def)
  then obtain p' where p': "get_payment i (durable w2) = Some p'" and mv: "payment_moves p p'"
    using assms(4) unfolding core_step_def evolves_def by blast
  show ?thesis using p' mv by (auto simp: payment_moves_def payment_final_def)
qed

lemma payment_life_witness:
  "\<exists>w' p'. reaches demo_env deal_world w' \<and> get_payment 1 (durable w') = Some p' \<and> p_amount p' = 100 \<and>
     p_payer_id p' = 2"
proof (rule deal_reaches)
  fix w'
  assume w': "reaches demo_env deal_world w'"
  have start: "reaches demo_env deal_world deal_world" by (simp add: reaches_def)
  have "get_payment 1 (durable deal_world) = Some (demo_payment PAuthorized)" by (simp add: demo)
  from payment_life [OF sound_deal start w' this] w' show ?thesis by (auto simp: demo_payment_def)
qed

end
